(* ===== verification/Rust_Prelude.thy ===== *)
theory Rust_Prelude
  imports Main "HOL-Library.Sublist" "HOL-Library.Word"
begin

text \<open>
  Shared vocabulary of the development: what the Rust sources use of their standard
  library (saturating 64-bit arithmetic, \<open>str\<close> operations, number formatting), the
  state-and-error monad in which the handlers of the session actor are written
  (a method \<open>&mut self -> Result<T, E>\<close> is a function from a state to a pair of a
  result and the state it leaves behind, so that the writes made before an early
  return with \<open>?\<close> are kept), and the relational frame rules from which the
  invariance lemmas of the components are derived.

  A Rust \<open>char\<close> is a HOL \<open>char\<close>, that is, a Unicode scalar value below 256;
  texts with other scalar values are outside the model.
\<close>

named_theorems frame \<open>facts of the form \<open>steps_in R m\<close>\<close>

section \<open>Machine integers\<close>

text \<open>
  \<open>u64\<close> and \<open>usize\<close> (64-bit targets) are natural numbers; the operations that
  saturate in the source saturate here.
\<close>

definition u64_max :: nat where
  "u64_max = 2 ^ 64 - 1"

definition saturating_add :: "nat \<Rightarrow> nat \<Rightarrow> nat" where
  "saturating_add a b = min (a + b) u64_max"

definition saturating_mul :: "nat \<Rightarrow> nat \<Rightarrow> nat" where
  "saturating_mul a b = min (a * b) u64_max"

text \<open>An unchecked \<open>u64\<close> addition of the release profile wraps around.\<close>

definition wrapping_add :: "nat \<Rightarrow> nat \<Rightarrow> nat" where
  "wrapping_add a b = (a + b) mod 2 ^ 64"

lemma saturating_add_le_max [simp]: "saturating_add a b \<le> u64_max"
  by (simp add: saturating_add_def)

lemma saturating_add_exact: "a + b \<le> u64_max \<Longrightarrow> saturating_add a b = a + b"
  by (simp add: saturating_add_def)

lemma saturating_add_mono: "a \<le> a' \<Longrightarrow> b \<le> b' \<Longrightarrow> saturating_add a b \<le> saturating_add a' b'"
  by (auto simp: saturating_add_def min_def)

lemma le_saturating_add: "a \<le> u64_max \<Longrightarrow> a \<le> saturating_add a b"
  by (simp add: saturating_add_def)

lemma wrapping_add_exact: "a + b \<le> u64_max \<Longrightarrow> wrapping_add a b = a + b"
  by (simp add: wrapping_add_def u64_max_def)

section \<open>Strings\<close>

subsection \<open>Trimming\<close>

text \<open>\<open>char::is_whitespace\<close> on the scalar values below 256.\<close>

definition rust_whitespace :: "char \<Rightarrow> bool" where
  "rust_whitespace c \<longleftrightarrow>
     c \<in> {CHR 0x09, CHR 0x0A, CHR 0x0B, CHR 0x0C, CHR 0x0D, CHR 0x20, CHR 0x85, CHR 0xA0}"

definition trim_start :: "string \<Rightarrow> string" where
  "trim_start s = dropWhile rust_whitespace s"

definition trim_end :: "string \<Rightarrow> string" where
  "trim_end s = rev (dropWhile rust_whitespace (rev s))"

definition trim :: "string \<Rightarrow> string" where
  "trim s = trim_end (trim_start s)"

lemma length_trim_start: "length (trim_start s) \<le> length s"
  by (simp add: trim_start_def length_dropWhile_le)

lemma length_trim_end: "length (trim_end s) \<le> length s"
proof -
  have "length (dropWhile rust_whitespace (rev s)) \<le> length (rev s)"
    by (rule length_dropWhile_le)
  then show ?thesis by (simp add: trim_end_def)
qed

lemma length_trim: "length (trim s) \<le> length s"
  using length_trim_end [of "trim_start s"] length_trim_start [of s] by (simp add: trim_def)

lemma trim_end_hd: "trim_end s \<noteq> [] \<Longrightarrow> hd (trim_end s) = hd s"
proof -
  assume ne: "trim_end s \<noteq> []"
  obtain ws where "rev s = ws @ dropWhile rust_whitespace (rev s)"
    using takeWhile_dropWhile_id by metis
  then have "s = trim_end s @ rev ws"
    unfolding trim_end_def by (metis rev_append rev_rev_ident)
  then show ?thesis using ne by (metis hd_append2)
qed

lemma trim_trim [simp]: "trim (trim s) = trim s"
proof (cases "trim s = []")
  case True
  then show ?thesis by (simp only: True) (simp add: trim_def trim_start_def trim_end_def)
next
  case False
  have ne: "trim_start s \<noteq> []" using False by (auto simp: trim_def trim_end_def)
  have "\<not> rust_whitespace (hd (trim_start s))"
    using ne hd_dropWhile [of rust_whitespace s] by (simp add: trim_start_def)
  with False have "\<not> rust_whitespace (hd (trim s))"
    using trim_end_hd [of "trim_start s"] by (simp add: trim_def)
  with False have start: "trim_start (trim s) = trim s"
    by (cases "trim s") (simp_all add: trim_start_def)
  have "trim_end (trim s) = trim s"
    by (simp add: trim_def trim_end_def dropWhile_idem)
  with start show ?thesis by (simp add: trim_def)
qed

subsection \<open>Searching and joining\<close>

definition starts_with :: "string \<Rightarrow> string \<Rightarrow> bool" where
  "starts_with p s \<longleftrightarrow> take (length p) s = p"

fun str_contains :: "string \<Rightarrow> string \<Rightarrow> bool" where
  "str_contains p [] = (p = [])"
| "str_contains p (c # s) = (starts_with p (c # s) \<or> str_contains p s)"

definition strip_prefix :: "string \<Rightarrow> string \<Rightarrow> string option" where
  "strip_prefix p s = (if starts_with p s then Some (drop (length p) s) else None)"

definition split_once :: "char \<Rightarrow> string \<Rightarrow> (string \<times> string) option" where
  "split_once c s =
     (if c \<in> set s then Some (takeWhile (\<lambda>x. x \<noteq> c) s, tl (dropWhile (\<lambda>x. x \<noteq> c) s)) else None)"

fun join :: "string \<Rightarrow> string list \<Rightarrow> string" where
  "join sep [] = []"
| "join sep [s] = s"
| "join sep (s # t # ss) = s @ sep @ join sep (t # ss)"

definition to_ascii_lowercase :: "string \<Rightarrow> string" where
  "to_ascii_lowercase =
     map (\<lambda>c. if 65 \<le> (of_char c :: nat) \<and> (of_char c :: nat) \<le> 90
              then char_of ((of_char c :: nat) + 32) else c)"

definition newline :: string where
  "newline = [CHR 0x0A]"

definition paragraph_break :: string where
  "paragraph_break = newline @ newline"

definition replace_newlines :: "string \<Rightarrow> string" where
  "replace_newlines = map (\<lambda>c. if c = CHR 0x0A then CHR '' '' else c)"

text \<open>Bytes of the UTF-8 encoding (\<open>str::len\<close>).\<close>

definition utf8_len :: "string \<Rightarrow> nat" where
  "utf8_len s = sum_list (map (\<lambda>c. if (of_char c :: nat) < 128 then 1 else 2) s)"

lemma starts_with_append [simp]: "starts_with p (p @ s)"
  by (simp add: starts_with_def)

lemma starts_with_iff: "starts_with p s \<longleftrightarrow> (\<exists>t. s = p @ t)"
  by (metis append_take_drop_id starts_with_append starts_with_def)

lemma strip_prefix_append [simp]: "strip_prefix p (p @ s) = Some s"
  by (simp add: strip_prefix_def)

lemma split_once_append: "c \<notin> set a \<Longrightarrow> split_once c (a @ c # b) = Some (a, b)"
proof -
  assume "c \<notin> set a"
  then have "takeWhile (\<lambda>x. x \<noteq> c) (a @ c # b) = a"
    and "dropWhile (\<lambda>x. x \<noteq> c) (a @ c # b) = c # b"
    by (subst takeWhile_append2 dropWhile_append2; auto)+
  then show ?thesis by (simp add: split_once_def)
qed

subsection \<open>Truncation to a number of characters\<close>

text \<open>
  The sources truncate a text to a number of characters with a loop over
  \<open>chars().enumerate()\<close> that stops at the bound and appends a marker.
\<close>

fun truncate_loop :: "nat \<Rightarrow> string \<Rightarrow> nat \<Rightarrow> string \<Rightarrow> string" where
  "truncate_loop max_chars output index [] = output"
| "truncate_loop max_chars output index (ch # chars) =
     (if index \<ge> max_chars then output @ ''...''
      else truncate_loop max_chars (output @ [ch]) (Suc index) chars)"

definition truncate_with_dots :: "nat \<Rightarrow> string \<Rightarrow> string" where
  "truncate_with_dots max_chars value = truncate_loop max_chars [] 0 value"

lemma truncate_loop_eq:
  "truncate_loop m out i s =
     (if length s \<le> m - i then out @ s else out @ take (m - i) s @ ''...'')"
proof (induction s arbitrary: out i)
  case (Cons c s)
  show ?case
  proof (cases "i \<ge> m")
    case False
    then have "m - i = Suc (m - Suc i)" by simp
    then show ?thesis using False Cons.IH by simp
  qed simp
qed simp

lemma truncate_with_dots_eq:
  "truncate_with_dots m s = (if length s \<le> m then s else take m s @ ''...'')"
  by (simp add: truncate_with_dots_def truncate_loop_eq)

lemma length_truncate_with_dots: "length (truncate_with_dots m s) \<le> m + 3"
  by (simp add: truncate_with_dots_eq)

subsection \<open>Numbers as text\<close>

definition digit_char :: "nat \<Rightarrow> char" where
  "digit_char d = (if d < 10 then char_of (48 + d) else char_of (87 + d))"

text \<open>The digits of a number in a base, least significant last (\<open>{}\<close> and \<open>{:x}\<close>).\<close>

function show_base :: "nat \<Rightarrow> nat \<Rightarrow> string" where
  "show_base b n =
     (if b < 2 \<or> n < b then [digit_char n]
      else show_base b (n div b) @ [digit_char (n mod b)])"
  by pat_completeness auto
termination
  by (relation "measure snd") auto

declare show_base.simps [simp del]

definition show_nat :: "nat \<Rightarrow> string" where
  "show_nat n = show_base 10 n"

definition pad_left :: "nat \<Rightarrow> string \<Rightarrow> string" where
  "pad_left w s = replicate (w - length s) (CHR ''0'') @ s"

text \<open>\<open>{:020}\<close> and \<open>{:016x}\<close>.\<close>

definition show_pad20 :: "nat \<Rightarrow> string" where
  "show_pad20 n = pad_left 20 (show_nat n)"

definition show_hex16 :: "64 word \<Rightarrow> string" where
  "show_hex16 w = pad_left 16 (show_base 16 (unat w))"

definition is_ascii_digit :: "char \<Rightarrow> bool" where
  "is_ascii_digit c \<longleftrightarrow> 48 \<le> (of_char c :: nat) \<and> (of_char c :: nat) \<le> 57"

definition digits_value :: "string \<Rightarrow> nat" where
  "digits_value s = foldl (\<lambda>n c. 10 * n + ((of_char c :: nat) - 48)) 0 s"

text \<open>\<open>str::parse::<usize>\<close>: an optional plus sign, then digits, no overflow.\<close>

definition parse_usize :: "string \<Rightarrow> nat option" where
  "parse_usize s =
     (let ds = (case s of c # cs \<Rightarrow> if c = CHR ''+'' then cs else s | [] \<Rightarrow> [])
      in if ds \<noteq> [] \<and> list_all is_ascii_digit ds \<and> digits_value ds \<le> u64_max
         then Some (digits_value ds) else None)"

lemma of_char_digit_char: "d < 10 \<Longrightarrow> (of_char (digit_char d) :: nat) = 48 + d"
  by (simp add: digit_char_def)

lemma is_ascii_digit_digit_char [simp]: "d < 10 \<Longrightarrow> is_ascii_digit (digit_char d)"
  by (simp add: is_ascii_digit_def of_char_digit_char)

lemma show_nat_ne [simp]: "show_nat n \<noteq> []"
  by (simp add: show_nat_def show_base.simps [of 10 n])

lemma show_nat_digits: "list_all is_ascii_digit (show_nat n)"
proof (induction n rule: less_induct)
  case (less n)
  then show ?case
    by (cases "n < 10") (simp_all add: show_nat_def show_base.simps [of 10 n])
qed

lemma digits_value_append:
  "digits_value (s @ [c]) = 10 * digits_value s + ((of_char c :: nat) - 48)"
  by (simp add: digits_value_def)

lemma digits_value_show_nat [simp]: "digits_value (show_nat n) = n"
proof (induction n rule: less_induct)
  case (less n)
  show ?case
  proof (cases "n < 10")
    case True
    then show ?thesis
      by (simp add: show_nat_def show_base.simps [of 10 n] digits_value_def of_char_digit_char)
  next
    case False
    with less have "digits_value (show_nat (n div 10)) = n div 10" by simp
    with False show ?thesis
      by (simp add: show_nat_def show_base.simps [of 10 n] digits_value_append of_char_digit_char)
  qed
qed

lemma show_nat_inj [simp]: "show_nat m = show_nat n \<longleftrightarrow> m = n"
  by (metis digits_value_show_nat)

lemma digits_value_zeros [simp]: "digits_value (replicate k (CHR ''0'') @ s) = digits_value s"
  by (induction k) (simp_all add: digits_value_def)

lemma digits_value_pad [simp]: "digits_value (pad_left w s) = digits_value s"
  by (simp add: pad_left_def)

lemma length_show_nat: "n < 10 ^ k \<Longrightarrow> 0 < k \<Longrightarrow> length (show_nat n) \<le> k"
proof (induction k arbitrary: n)
  case (Suc k)
  show ?case
  proof (cases "n < 10")
    case True
    then show ?thesis by (simp add: show_nat_def show_base.simps [of 10 n])
  next
    case False
    with Suc.prems have "n div 10 < 10 ^ k" by auto
    moreover have "0 < k"
      using False Suc.prems by (cases k) auto
    ultimately have "length (show_nat (n div 10)) \<le> k" by (rule Suc.IH)
    with False show ?thesis by (simp add: show_nat_def show_base.simps [of 10 n])
  qed
qed simp

lemma length_pad_left [simp]: "length (pad_left w s) = max w (length s)"
  by (simp add: pad_left_def max_def)

lemma length_show_pad20: "n \<le> u64_max \<Longrightarrow> length (show_pad20 n) = 20"
  using length_show_nat [of n 20] by (simp add: show_pad20_def u64_max_def)

lemma show_pad20_digits: "list_all is_ascii_digit (show_pad20 n)"
  using show_nat_digits [of n]
  by (auto simp: show_pad20_def pad_left_def is_ascii_digit_def list_all_iff)

lemma show_pad20_inj [simp]: "show_pad20 m = show_pad20 n \<longleftrightarrow> m = n"
  by (metis digits_value_pad digits_value_show_nat show_pad20_def)

lemma underscore_not_digit: "list_all is_ascii_digit s \<Longrightarrow> CHR ''_'' \<notin> set s"
  by (auto simp: list_all_iff is_ascii_digit_def)

lemma parse_usize_show_nat: "n \<le> u64_max \<Longrightarrow> parse_usize (show_nat n) = Some n"
proof -
  assume n: "n \<le> u64_max"
  obtain c cs where s: "show_nat n = c # cs" by (cases "show_nat n") simp_all
  then have "is_ascii_digit c" using show_nat_digits [of n] by simp
  then have "c \<noteq> CHR ''+''" by (auto simp: is_ascii_digit_def)
  then show ?thesis
    using n s show_nat_digits [of n] digits_value_show_nat [of n]
    by (simp add: parse_usize_def Let_def)
qed

section \<open>The state-and-error monad\<close>

type_synonym ('s, 'e, 'a) act = "'s \<Rightarrow> ('e + 'a) \<times> 's"

definition okM :: "'a \<Rightarrow> ('s, 'e, 'a) act" where
  "okM x = (\<lambda>s. (Inr x, s))"

definition errM :: "'e \<Rightarrow> ('s, 'e, 'a) act" where
  "errM e = (\<lambda>s. (Inl e, s))"

text \<open>Sequencing with the \<open>?\<close> operator: an error ends the method, the state stays.\<close>

definition bnd :: "('s, 'e, 'a) act \<Rightarrow> ('a \<Rightarrow> ('s, 'e, 'b) act) \<Rightarrow> ('s, 'e, 'b) act" where
  "bnd m f = (\<lambda>s. case m s of (Inl e, s') \<Rightarrow> (Inl e, s') | (Inr x, s') \<Rightarrow> f x s')"

definition andthen :: "('s, 'e, unit) act \<Rightarrow> ('s, 'e, 'b) act \<Rightarrow> ('s, 'e, 'b) act" where
  "andthen m n = bnd m (\<lambda>_. n)"

text \<open>Inspecting a result instead of propagating it (\<open>match\<close>, \<open>if let Err\<close>).\<close>

definition attempt :: "('s, 'e, 'a) act \<Rightarrow> ('s, 'e, 'e + 'a) act" where
  "attempt m = (\<lambda>s. case m s of (r, s') \<Rightarrow> (Inr r, s'))"

definition gets :: "('s \<Rightarrow> ('s, 'e, 'a) act) \<Rightarrow> ('s, 'e, 'a) act" where
  "gets f = (\<lambda>s. f s s)"

definition upd :: "('s \<Rightarrow> 's) \<Rightarrow> ('s, 'e, unit) act" where
  "upd f = (\<lambda>s. (Inr (), f s))"

definition when_act :: "bool \<Rightarrow> ('s, 'e, unit) act \<Rightarrow> ('s, 'e, unit) act" where
  "when_act b m = (if b then m else okM ())"

text \<open>A pure function that may fail, called with \<open>?\<close>.\<close>

definition from_result :: "'e + 'a \<Rightarrow> ('s, 'e, 'a) act" where
  "from_result r = (case r of Inl e \<Rightarrow> errM e | Inr x \<Rightarrow> okM x)"

text \<open>A \<open>for\<close> loop over a list whose body may fail.\<close>

fun for_each :: "('a \<Rightarrow> ('s, 'e, unit) act) \<Rightarrow> 'a list \<Rightarrow> ('s, 'e, unit) act" where
  "for_each f [] = okM ()"
| "for_each f (x # xs) = andthen (f x) (for_each f xs)"

lemmas act_defs =
  okM_def errM_def bnd_def andthen_def attempt_def gets_def upd_def when_act_def from_result_def

lemma bnd_ok: "bnd m f s = (Inr y, s'') \<longleftrightarrow> (\<exists>x s'. m s = (Inr x, s') \<and> f x s' = (Inr y, s''))"
  by (auto simp: bnd_def split: prod.splits sum.splits)

lemma andthen_ok: "andthen m n s = (Inr y, s'') \<longleftrightarrow> (\<exists>u s'. m s = (Inr u, s') \<and> n s' = (Inr y, s''))"
  by (simp add: andthen_def bnd_ok)

lemma from_result_ok: "from_result r s = (Inr x, s') \<longleftrightarrow> r = Inr x \<and> s' = s"
  by (auto simp: from_result_def okM_def errM_def split: sum.splits)

section \<open>Frame rules\<close>

text \<open>
  \<open>steps_in R m\<close>: whatever the outcome, the states before and after running \<open>m\<close>
  are related by \<open>R\<close>. With a reflexive and transitive \<open>R\<close> the fact composes along
  the monad; invariants, monotone fields and untouched fields are all such relations.
\<close>

definition steps_in :: "('s \<Rightarrow> 's \<Rightarrow> bool) \<Rightarrow> ('s, 'e, 'a) act \<Rightarrow> bool" where
  "steps_in R m \<longleftrightarrow> (\<forall>s. R s (snd (m s)))"

lemma steps_inD: "steps_in R m \<Longrightarrow> R s (snd (m s))"
  by (simp add: steps_in_def)

lemma steps_inI: "(\<And>s. R s (snd (m s))) \<Longrightarrow> steps_in R m"
  by (simp add: steps_in_def)

lemma steps_inE: "steps_in R m \<Longrightarrow> m s = (r, s') \<Longrightarrow> R s s'"
  by (metis snd_conv steps_inD)

locale frame_relation =
  fixes R :: "'s \<Rightarrow> 's \<Rightarrow> bool"
  assumes R_refl: "R s s"
    and R_trans: "R s t \<Longrightarrow> R t u \<Longrightarrow> R s u"
begin

lemma steps_ok [frame]: "steps_in R (okM x)"
  by (simp add: steps_in_def okM_def R_refl)

lemma steps_err [frame]: "steps_in R (errM e)"
  by (simp add: steps_in_def errM_def R_refl)

lemma steps_upd: "(\<And>s. R s (f s)) \<Longrightarrow> steps_in R (upd f)"
  by (simp add: steps_in_def upd_def)

lemma steps_bnd [frame]:
  assumes "steps_in R m" and "\<And>x. steps_in R (f x)"
  shows "steps_in R (bnd m f)"
proof (rule steps_inI)
  fix s
  obtain r s' where m: "m s = (r, s')" by (cases "m s")
  with assms(1) have "R s s'" by (rule steps_inE)
  then show "R s (snd (bnd m f s))"
    using m assms(2) by (cases r) (auto simp: bnd_def intro: R_trans steps_inD)
qed

lemma steps_andthen [frame]: "steps_in R m \<Longrightarrow> steps_in R n \<Longrightarrow> steps_in R (andthen m n)"
  by (simp add: andthen_def steps_bnd)

lemma steps_attempt [frame]: "steps_in R m \<Longrightarrow> steps_in R (attempt m)"
  by (simp add: steps_in_def attempt_def case_prod_beta)

lemma steps_gets [frame]: "(\<And>s. steps_in R (f s)) \<Longrightarrow> steps_in R (gets f)"
  by (simp add: steps_in_def gets_def)

lemma steps_from_result [frame]: "steps_in R (from_result r)"
  by (simp add: from_result_def steps_ok steps_err split: sum.splits)

lemma steps_gets_at: "(\<And>s. R s (snd (f s s))) \<Longrightarrow> steps_in R (gets f)"
  by (simp add: steps_in_def gets_def)

lemma steps_when [frame]: "steps_in R m \<Longrightarrow> steps_in R (when_act b m)"
  by (simp add: when_act_def steps_ok)

lemma steps_for_each [frame]: "(\<And>x. steps_in R (f x)) \<Longrightarrow> steps_in R (for_each f xs)"
  by (induction xs) (auto intro: steps_ok steps_andthen)

end

section \<open>Lists\<close>

lemma prefix_nth: "prefix xs ys \<Longrightarrow> i < length xs \<Longrightarrow> ys ! i = xs ! i"
  by (auto simp: prefix_def nth_append)

lemma find_SomeD: "find P xs = Some x \<Longrightarrow> x \<in> set xs \<and> P x"
  by (induction xs) (auto split: if_splits)

lemma filter_map_concat:
  "List.map_filter f (xs @ ys) = List.map_filter f xs @ List.map_filter f ys"
  by (simp add: List.map_filter_def)

end
