(* ===== verification/Json_Value.thy ===== *)
theory Json_Value
  imports Rust_Prelude Complex_Main
begin

text \<open>
  The \<open>serde_json::Value\<close> type and the accessors the sources call on it. An object
  is an association list with distinct keys. Floating-point numbers (\<open>f64\<close>) are
  rationals. Parsing and pretty-printing belong to the serde\_json crate; they are the
  two fields of \<open>json_lib\<close>, a parameter of every definition that needs them.
\<close>

datatype json =
    JNull
  | JBool bool
  | JInt int
  | JFloat rat
  | JString string
  | JArray "json list"
  | JObject "(string \<times> json) list"

record json_lib =
  from_str :: "string \<Rightarrow> json option"
  to_string_pretty :: "json \<Rightarrow> string option"

definition json_get :: "string \<Rightarrow> json \<Rightarrow> json option" where
  "json_get k v = (case v of JObject kvs \<Rightarrow> map_of kvs k | _ \<Rightarrow> None)"

definition as_str :: "json \<Rightarrow> string option" where
  "as_str v = (case v of JString s \<Rightarrow> Some s | _ \<Rightarrow> None)"

definition as_bool :: "json \<Rightarrow> bool option" where
  "as_bool v = (case v of JBool b \<Rightarrow> Some b | _ \<Rightarrow> None)"

definition as_u64 :: "json \<Rightarrow> nat option" where
  "as_u64 v = (case v of JInt i \<Rightarrow> if 0 \<le> i then Some (nat i) else None | _ \<Rightarrow> None)"

definition as_i64 :: "json \<Rightarrow> int option" where
  "as_i64 v = (case v of JInt i \<Rightarrow> if i < 2 ^ 63 then Some i else None | _ \<Rightarrow> None)"

definition as_f64 :: "json \<Rightarrow> rat option" where
  "as_f64 v = (case v of JInt i \<Rightarrow> Some (of_int i) | JFloat r \<Rightarrow> Some r | _ \<Rightarrow> None)"

definition as_object :: "json \<Rightarrow> json option" where
  "as_object v = (case v of JObject _ \<Rightarrow> Some v | _ \<Rightarrow> None)"

definition as_array :: "json \<Rightarrow> json list option" where
  "as_array v = (case v of JArray xs \<Rightarrow> Some xs | _ \<Rightarrow> None)"

text \<open>The chains \<open>value.get(k).and_then(Value::as_str)\<close> and the like.\<close>

definition get_str :: "string \<Rightarrow> json \<Rightarrow> string option" where
  "get_str k v = Option.bind (json_get k v) as_str"

definition get_bool :: "string \<Rightarrow> json \<Rightarrow> bool option" where
  "get_bool k v = Option.bind (json_get k v) as_bool"

definition get_u64 :: "string \<Rightarrow> json \<Rightarrow> nat option" where
  "get_u64 k v = Option.bind (json_get k v) as_u64"

definition unwrap_or :: "'a \<Rightarrow> 'a option \<Rightarrow> 'a" where
  "unwrap_or d o' = (case o' of None \<Rightarrow> d | Some x \<Rightarrow> x)"

definition or_else :: "'a option \<Rightarrow> 'a option \<Rightarrow> 'a option" where
  "or_else a b = (case a of None \<Rightarrow> b | Some x \<Rightarrow> Some x)"

definition filter_option :: "('a \<Rightarrow> bool) \<Rightarrow> 'a option \<Rightarrow> 'a option" where
  "filter_option p o' = (case o' of Some x \<Rightarrow> if p x then Some x else None | None \<Rightarrow> None)"

text \<open>Assignment \<open>value[key] = v\<close> on an object that holds the key.\<close>

definition json_set :: "string \<Rightarrow> json \<Rightarrow> json \<Rightarrow> json" where
  "json_set k v obj =
     (case obj of
        JObject kvs \<Rightarrow> JObject (map (\<lambda>(k', v'). if k' = k then (k', v) else (k', v')) kvs)
      | _ \<Rightarrow> obj)"

lemma unwrap_or_simps [simp]: "unwrap_or d None = d" "unwrap_or d (Some x) = x"
  by (simp_all add: unwrap_or_def)

lemma or_else_simps [simp]: "or_else None b = b" "or_else (Some x) b = Some x"
  by (simp_all add: or_else_def)

lemma filter_option_simps [simp]:
  "filter_option p None = None" "filter_option p (Some x) = (if p x then Some x else None)"
  by (simp_all add: filter_option_def)

lemma filter_option_Some: "filter_option p o' = Some x \<longleftrightarrow> o' = Some x \<and> p x"
  by (cases o') auto

lemmas json_access_defs =
  json_get_def as_str_def as_bool_def as_u64_def as_i64_def as_f64_def as_object_def as_array_def
  get_str_def get_bool_def get_u64_def

lemma json_get_set_same: "json_get k obj = Some w \<Longrightarrow> json_get k (json_set k v obj) = Some v"
proof -
  assume "json_get k obj = Some w"
  then obtain kvs where obj: "obj = JObject kvs" and m: "map_of kvs k = Some w"
    by (auto simp: json_get_def split: json.splits)
  from m have "map_of (map (\<lambda>(k', v'). if k' = k then (k', v) else (k', v')) kvs) k = Some v"
    by (induction kvs) (auto split: if_splits)
  with obj show ?thesis by (simp add: json_get_def json_set_def)
qed

lemma json_get_set_other: "k' \<noteq> k \<Longrightarrow> json_get k' (json_set k v obj) = json_get k' obj"
proof (cases obj)
  case (JObject kvs)
  assume "k' \<noteq> k"
  then have "map_of (map (\<lambda>(a, b). if a = k then (a, v) else (a, b)) kvs) k' = map_of kvs k'"
    by (induction kvs) auto
  with JObject show ?thesis by (simp add: json_get_def json_set_def)
qed (simp_all add: json_get_def json_set_def)

subsection \<open>Decimal rendering of a float\<close>

text \<open>\<open>{:.4}\<close>: the exact value rounded to four decimals, ties to even.\<close>

definition round_half_even :: "rat \<Rightarrow> int" where
  "round_half_even r =
     (let f = floor r; d = r - of_int f
      in if d < 1/2 then f else if d > 1/2 then f + 1 else if even f then f else f + 1)"

definition show_fixed4 :: "rat \<Rightarrow> string" where
  "show_fixed4 r =
     (let n = nat \<bar>round_half_even (r * 10000)\<bar>
      in (if r < 0 then ''-'' else []) @ show_nat (n div 10000) @ ''.'' @ pad_left 4 (show_nat (n mod 10000)))"

definition show_int :: "int \<Rightarrow> string" where
  "show_int i = (if i < 0 then ''-'' else []) @ show_nat (nat \<bar>i\<bar>)"

definition show_bool :: "bool \<Rightarrow> string" where
  "show_bool b = (if b then ''true'' else ''false'')"

end
