(* ===== verification/Model_Config.thy ===== *)
theory Model_Config
  imports Json_Value
begin

text \<open>
  Model of \<open>core/src/model_config.rs\<close> and of the strategy type it stores
  (\<open>MultimodalTokenStrategy\<close> of \<open>token_estimator.rs\<close>).
\<close>

datatype provider_type =
    OpenRouterCompletion
  | OpenRouterResponses
  | OpenAiImageEdit
  | ClaudeCode
  | CodexSubscription
  | BraveSearch
  | BraveSearchImage
  | BraveSearchVideo
  | BraveSearchNews

datatype model_capability = Chat | ImageIn | ImageOut | PdfIn | AudioIn | FileIn | WebSearch

datatype token_estimator_type = LocalEstimator | HuggingFace

datatype retry_mode = Once | RandomInterval (max_interval_secs: nat) (max_retries: nat)

definition default_retry_mode :: retry_mode where
  "default_retry_mode = RandomInterval 1 5"

datatype vision_detail = Low | High

datatype multimodal_token_strategy =
    Ignore
  | FixedTokens (tokens_per_file: nat)
  | PatchGrid (patch_size: nat) (patch_budget: nat) (multiplier: rat)
  | TileGrid (low_detail_tokens: nat) (base_tokens: nat) (tokens_per_tile: nat)
      (max_dimension: nat) (target_shortest_side: nat) (tile_size: nat) (detail: vision_detail)
  | AreaApprox (pixels_per_token: nat) (area_max_tokens: nat) (max_long_edge: nat) (pad_to_multiple: nat)
  | ProviderDerived

datatype media_input_transport = FileReference | InlineBase64

record media_input_config =
  mi_transport :: media_input_transport
  mi_supported_media_types :: "string list"
  mi_max_width :: "nat option"
  mi_max_height :: "nat option"

record multimodal_input_config =
  mmi_image :: "media_input_config option"
  mmi_pdf :: "media_input_config option"
  mmi_audio :: "media_input_config option"

record model_config =
  mc_provider_type :: provider_type
  mc_model_name :: string
  mc_url :: string
  mc_api_key_env :: string
  mc_capabilities :: "model_capability list"
  mc_token_max_context :: nat
  mc_max_tokens :: nat
  mc_cache_timeout :: nat
  mc_conn_timeout :: nat
  mc_request_timeout :: nat
  mc_max_request_size :: nat
  mc_retry_mode :: retry_mode
  mc_reasoning :: "json option"
  mc_token_estimator_type :: token_estimator_type
  mc_multimodal_estimator :: "multimodal_token_strategy option option"
  mc_multimodal_input :: "multimodal_input_config option"
  mc_token_estimator_url :: "string option"

definition supports :: "model_config \<Rightarrow> model_capability \<Rightarrow> bool" where
  "supports mc c \<longleftrightarrow> c \<in> set (mc_capabilities mc)"

definition conn_timeout_secs :: "model_config \<Rightarrow> nat" where
  "conn_timeout_secs mc = max (mc_conn_timeout mc) 1"

definition request_timeout_secs :: "model_config \<Rightarrow> nat" where
  "request_timeout_secs mc = max (mc_request_timeout mc) 1"

definition max_request_size_bytes :: "model_config \<Rightarrow> nat" where
  "max_request_size_bytes mc = max (mc_max_request_size mc) 1"

definition effective_max_tokens :: "model_config \<Rightarrow> nat" where
  "effective_max_tokens mc =
     (if mc_max_tokens mc > 0 then mc_max_tokens mc else max (mc_token_max_context mc) 1)"

definition uses_huggingface_token_estimator :: "model_config \<Rightarrow> bool" where
  "uses_huggingface_token_estimator mc \<longleftrightarrow> mc_token_estimator_type mc = HuggingFace"

lemma effective_max_tokens_pos: "0 < effective_max_tokens mc"
  by (simp add: effective_max_tokens_def less_max_iff_disj)

text \<open>A configuration used in the concrete instances of the theorems.\<close>

definition sample_model :: model_config where
  "sample_model =
     \<lparr>mc_provider_type = ClaudeCode, mc_model_name = ''m'', mc_url = [], mc_api_key_env = [],
      mc_capabilities = [Chat], mc_token_max_context = 1000, mc_max_tokens = 0,
      mc_cache_timeout = 0, mc_conn_timeout = 1, mc_request_timeout = 1, mc_max_request_size = 1,
      mc_retry_mode = Once, mc_reasoning = None, mc_token_estimator_type = LocalEstimator,
      mc_multimodal_estimator = None, mc_multimodal_input = None, mc_token_estimator_url = None\<rparr>"

end
