(* ===== verification/Chat_Message.thy ===== *)
theory Chat_Message
  imports Model_Config
begin

text \<open>
  Model of \<open>core/src/session_actor/chat_message.rs\<close>: the message, its items, tool results and
  their rendering as text. The laws show that constructors and readers agree, that
  wrapping a tool value is idempotent and how the token counters saturate.
\<close>

section \<open>Roles, parts and token usage\<close>

datatype chat_role = User | Assistant | Compaction_role

datatype chat_message_part =
    UserInput | ModelResponse | ToolResult_part | FinalResponse | Repair

record token_usage_cost =
  tuc_cache_read :: rat
  tuc_cache_write :: rat
  tuc_uncache_input :: rat
  tuc_output :: rat

record token_usage =
  tu_cache_read :: nat
  tu_cache_write :: nat
  tu_uncache_input :: nat
  tu_output :: nat
  tu_provider_type :: "provider_type option"
  tu_model_name :: "string option"
  tu_cost_usd :: "token_usage_cost option"

definition context_tokens :: "token_usage \<Rightarrow> nat" where
  "context_tokens tu =
     saturating_add
       (saturating_add (saturating_add (tu_cache_read tu) (tu_cache_write tu)) (tu_uncache_input tu))
       (tu_output tu)"

definition matches_model_config :: "token_usage \<Rightarrow> provider_type \<Rightarrow> string \<Rightarrow> bool" where
  "matches_model_config tu pt name \<longleftrightarrow> tu_provider_type tu = Some pt \<and> tu_model_name tu = Some name"

definition clear_context_model :: "token_usage \<Rightarrow> token_usage" where
  "clear_context_model tu = tu\<lparr>tu_provider_type := None, tu_model_name := None\<rparr>"

lemma context_tokens_eq:
  "context_tokens tu =
     min (tu_cache_read tu + tu_cache_write tu + tu_uncache_input tu + tu_output tu) u64_max"
  by (simp add: context_tokens_def saturating_add_def)

lemma context_tokens_le_max: "context_tokens tu \<le> u64_max"
  by (simp add: context_tokens_def)

lemma clear_context_model_no_match [simp]: "\<not> matches_model_config (clear_context_model tu) pt n"
  by (simp add: matches_model_config_def clear_context_model_def)

lemma context_tokens_clear [simp]: "context_tokens (clear_context_model tu) = context_tokens tu"
  by (simp add: context_tokens_def clear_context_model_def)

section \<open>Message items\<close>

record context_item =
  ci_text :: string

datatype compaction_kind = GenericSummary | ProviderBuiltin

record compaction_item =
  co_kind :: compaction_kind
  co_provider_type :: "provider_type option"
  co_payload :: json

definition generic_summary :: "string \<Rightarrow> compaction_item" where
  "generic_summary text =
     \<lparr>co_kind = GenericSummary, co_provider_type = None, co_payload = JObject [(''text'', JString text)]\<rparr>"

definition provider_builtin :: "provider_type \<Rightarrow> json \<Rightarrow> compaction_item" where
  "provider_builtin pt payload =
     \<lparr>co_kind = ProviderBuiltin, co_provider_type = Some pt, co_payload = payload\<rparr>"

definition generic_summary_text :: "compaction_item \<Rightarrow> string option" where
  "generic_summary_text co =
     (if co_kind co \<noteq> GenericSummary then None else get_str ''text'' (co_payload co))"

definition codex_encrypted_content :: "compaction_item \<Rightarrow> string option" where
  "codex_encrypted_content co =
     (if co_kind co \<noteq> ProviderBuiltin \<or> co_provider_type co \<noteq> Some CodexSubscription then None
      else get_str ''encrypted_content'' (co_payload co))"

lemma generic_summary_text_generic [simp]: "generic_summary_text (generic_summary t) = Some t"
  by (simp add: generic_summary_text_def generic_summary_def json_access_defs)

lemma generic_summary_text_builtin [simp]: "generic_summary_text (provider_builtin pt v) = None"
  by (simp add: generic_summary_text_def provider_builtin_def)

subsection \<open>Reasoning\<close>

record reasoning_item =
  ri_text :: string
  ri_codex_summary :: "string list"
  ri_codex_encrypted_content :: "string option"

definition reasoning_from_text :: "string \<Rightarrow> reasoning_item" where
  "reasoning_from_text text =
     \<lparr>ri_text = text, ri_codex_summary = [], ri_codex_encrypted_content = None\<rparr>"

definition reasoning_codex ::
  "string list \<Rightarrow> string option \<Rightarrow> string option \<Rightarrow> reasoning_item" where
  "reasoning_codex summary encrypted fallback =
     \<lparr>ri_text = unwrap_or [] fallback, ri_codex_summary = summary,
      ri_codex_encrypted_content = encrypted\<rparr>"

definition has_codex_encrypted_content :: "reasoning_item \<Rightarrow> bool" where
  "has_codex_encrypted_content r \<longleftrightarrow>
     (case ri_codex_encrypted_content r of None \<Rightarrow> False | Some c \<Rightarrow> c \<noteq> [])"

definition codex_from_summary_text ::
  "string option \<Rightarrow> string option \<Rightarrow> string option \<Rightarrow> reasoning_item" where
  "codex_from_summary_text summary encrypted fallback =
     reasoning_codex
       (case filter_option (\<lambda>s. s \<noteq> []) summary of None \<Rightarrow> [] | Some s \<Rightarrow> [s]) encrypted fallback"

definition codex_summary_text :: "reasoning_item \<Rightarrow> string option" where
  "codex_summary_text r =
     (let text = join newline (filter (\<lambda>t. t \<noteq> []) (ri_codex_summary r))
      in if text \<noteq> [] then Some text else None)"

text \<open>
  \<open>deserialize_reasoning_summary_parts\<close> on the value found in the record: a missing
  or null value, a string, or an array of strings and objects.
\<close>

fun reasoning_summary_part :: "json \<Rightarrow> string + string" where
  "reasoning_summary_part (JString text) = Inr text"
| "reasoning_summary_part (JObject kvs) = Inr (unwrap_or [] (get_str ''text'' (JObject kvs)))"
| "reasoning_summary_part _ = Inl ''invalid reasoning summary part''"

fun reasoning_summary_parts_loop :: "json list \<Rightarrow> string + string list" where
  "reasoning_summary_parts_loop [] = Inr []"
| "reasoning_summary_parts_loop (v # vs) =
     (case reasoning_summary_part v of
        Inl e \<Rightarrow> Inl e
      | Inr t \<Rightarrow> (case reasoning_summary_parts_loop vs of Inl e \<Rightarrow> Inl e | Inr ts \<Rightarrow> Inr (t # ts)))"

definition deserialize_reasoning_summary_parts :: "json option \<Rightarrow> string + string list" where
  "deserialize_reasoning_summary_parts value =
     (case value of
        None \<Rightarrow> Inr []
      | Some JNull \<Rightarrow> Inr []
      | Some (JString text) \<Rightarrow> Inr (if text \<noteq> [] then [text] else [])
      | Some (JArray items) \<Rightarrow> reasoning_summary_parts_loop items
      | Some _ \<Rightarrow> Inl ''invalid reasoning summary value'')"

lemma codex_summary_text_from:
  "s \<noteq> [] \<Longrightarrow> codex_summary_text (codex_from_summary_text (Some s) enc fb) = Some s"
  by (simp add: codex_summary_text_def codex_from_summary_text_def reasoning_codex_def Let_def)

lemma reasoning_summary_parts_strings:
  "reasoning_summary_parts_loop (map JString ts) = Inr ts"
  by (induction ts) simp_all

subsection \<open>Selection references\<close>

record selection_rect =
  rect_page :: "nat option"
  rect_x :: "int option"
  rect_y :: "int option"
  rect_width :: "int option"
  rect_height :: "int option"

record selection_locator =
  sl_kind :: string
  sl_start_line :: "nat option"
  sl_end_line :: "nat option"
  sl_start_column :: "nat option"
  sl_end_column :: "nat option"
  sl_page :: "nat option"
  sl_rects :: "selection_rect list"
  sl_heading :: "string option"
  sl_selector :: "string option"
  sl_xpath :: "string option"
  sl_block_id :: "string option"
  sl_block_index :: "nat option"
  sl_text_offset :: "nat option"
  sl_text_length :: "nat option"
  sl_anchor_text :: "string option"

record selection_context =
  sc_before :: "string option"
  sc_after :: "string option"

record selection_reference_item =
  sr_file_path :: string
  sr_file_name :: "string option"
  sr_media_type :: "string option"
  sr_source_kind :: string
  sr_selected_text :: string
  sr_locator :: "selection_locator option"
  sr_context :: "selection_context option"
  sr_original_text_length :: "nat option"

definition opt_text_line :: "string \<Rightarrow> string option \<Rightarrow> string list" where
  "opt_text_line label o' =
     (case filter_option (\<lambda>v. v \<noteq> []) o' of None \<Rightarrow> [] | Some v \<Rightarrow> [label @ v])"

definition opt_nat_line :: "string \<Rightarrow> nat option \<Rightarrow> string list" where
  "opt_nat_line label o' = (case o' of None \<Rightarrow> [] | Some n \<Rightarrow> [label @ show_nat n])"

definition locator_parts :: "selection_locator \<Rightarrow> string list" where
  "locator_parts l =
     [''kind='' @ sl_kind l]
     @ (case (sl_start_line l, sl_end_line l) of
          (Some a, Some b) \<Rightarrow> [''lines='' @ show_nat a @ ''-'' @ show_nat b]
        | _ \<Rightarrow> [])
     @ opt_nat_line ''page='' (sl_page l)
     @ opt_text_line ''heading='' (sl_heading l)
     @ opt_text_line ''selector='' (sl_selector l)
     @ opt_text_line ''block_id='' (sl_block_id l)
     @ opt_nat_line ''text_offset='' (sl_text_offset l)
     @ opt_nat_line ''text_length='' (sl_text_length l)
     @ opt_text_line ''anchor='' (sl_anchor_text l)"

definition context_lines :: "string \<Rightarrow> string option \<Rightarrow> string list" where
  "context_lines label o' =
     (case filter_option (\<lambda>v. v \<noteq> []) o' of None \<Rightarrow> [] | Some v \<Rightarrow> [label, v])"

definition to_prompt_text :: "selection_reference_item \<Rightarrow> string" where
  "to_prompt_text sr = join newline
     ([''[Selected Content Reference]'', ''File: '' @ sr_file_path sr]
      @ opt_text_line ''Name: '' (sr_file_name sr)
      @ [''Type: '' @ sr_source_kind sr]
      @ opt_text_line ''Media type: '' (sr_media_type sr)
      @ (case sr_locator sr of
           None \<Rightarrow> []
         | Some l \<Rightarrow> [''Locator: '' @ join ''; '' (locator_parts l)])
      @ (case sr_original_text_length sr of
           None \<Rightarrow> []
         | Some n \<Rightarrow> [''Original selected text length: '' @ show_nat n @ '' chars''])
      @ (case sr_context sr of None \<Rightarrow> [] | Some c \<Rightarrow> context_lines ''Context before:'' (sc_before c))
      @ [''Selected text:'', sr_selected_text sr]
      @ (case sr_context sr of None \<Rightarrow> [] | Some c \<Rightarrow> context_lines ''Context after:'' (sc_after c))
      @ [''[/Selected Content Reference]''])"

subsection \<open>Files, tool calls, tool results\<close>

datatype file_state = Crashed (crash_reason: string)

record file_item =
  fi_uri :: string
  fi_name :: "string option"
  fi_media_type :: "string option"
  fi_width :: "nat option"
  fi_height :: "nat option"
  fi_state :: "file_state option"

definition image_dimensions :: "file_item \<Rightarrow> (nat \<times> nat) option" where
  "image_dimensions f =
     (case (fi_width f, fi_height f) of (Some w, Some h) \<Rightarrow> Some (w, h) | _ \<Rightarrow> None)"

record tool_call_item =
  tc_item_id :: "string option"
  tc_tool_call_id :: string
  tc_tool_name :: string
  tc_arguments :: context_item

record tool_result_content =
  trc_structured :: "json option"
  trc_files :: "file_item list"

record tool_result_item =
  tr_tool_call_id :: string
  tr_tool_name :: string
  tr_result :: tool_result_content

datatype chat_message_item =
    Reasoning reasoning_item
  | Context context_item
  | Compaction compaction_item
  | SelectionReference selection_reference_item
  | File file_item
  | ToolCall tool_call_item
  | ToolResult tool_result_item

section \<open>Messages\<close>

record chat_message =
  cm_message_id :: string
  cm_client_message_id :: "string option"
  cm_role :: chat_role
  cm_user_name :: "string option"
  cm_message_time :: "string option"
  cm_token_usage :: "token_usage option"
  cm_turn_id :: "string option"
  cm_step_index :: "nat option"
  cm_message_part :: "chat_message_part option"
  cm_data :: "chat_message_item list"

text \<open>\<open>new_message_id\<close> draws two random words; they are arguments here.\<close>

definition new_message_id :: "64 word \<Rightarrow> 64 word \<Rightarrow> string" where
  "new_message_id r1 r2 = ''msg_'' @ show_hex16 r1 @ show_hex16 r2"

definition chat_message_new :: "string \<Rightarrow> chat_role \<Rightarrow> chat_message_item list \<Rightarrow> chat_message" where
  "chat_message_new fresh_id role items =
     \<lparr>cm_message_id = fresh_id, cm_client_message_id = None, cm_role = role, cm_user_name = None,
      cm_message_time = None, cm_token_usage = None, cm_turn_id = None, cm_step_index = None,
      cm_message_part = None, cm_data = items\<rparr>"

definition ensure_message_id :: "string \<Rightarrow> chat_message \<Rightarrow> chat_message" where
  "ensure_message_id fresh_id m = (if cm_message_id m = [] then m\<lparr>cm_message_id := fresh_id\<rparr> else m)"

definition with_client_message_id :: "string \<Rightarrow> chat_message \<Rightarrow> chat_message" where
  "with_client_message_id cid m =
     m\<lparr>cm_client_message_id := (if trim (trim cid) \<noteq> [] then Some (trim cid) else None)\<rparr>"

definition with_turn_metadata ::
  "string \<Rightarrow> nat \<Rightarrow> chat_message_part \<Rightarrow> chat_message \<Rightarrow> chat_message" where
  "with_turn_metadata tid step part m =
     m\<lparr>cm_turn_id := Some tid, cm_step_index := Some step, cm_message_part := Some part\<rparr>"

lemma with_turn_metadata_simps [simp]:
  "cm_message_id (with_turn_metadata t s p m) = cm_message_id m"
  "cm_role (with_turn_metadata t s p m) = cm_role m"
  "cm_data (with_turn_metadata t s p m) = cm_data m"
  "cm_message_time (with_turn_metadata t s p m) = cm_message_time m"
  "cm_token_usage (with_turn_metadata t s p m) = cm_token_usage m"
  "cm_turn_id (with_turn_metadata t s p m) = Some t"
  "cm_step_index (with_turn_metadata t s p m) = Some s"
  "cm_message_part (with_turn_metadata t s p m) = Some p"
  by (simp_all add: with_turn_metadata_def)

lemma chat_message_new_simps [simp]:
  "cm_message_id (chat_message_new i r d) = i"
  "cm_role (chat_message_new i r d) = r"
  "cm_data (chat_message_new i r d) = d"
  "cm_message_time (chat_message_new i r d) = None"
  "cm_token_usage (chat_message_new i r d) = None"
  by (simp_all add: chat_message_new_def)

section \<open>Tool result values\<close>

definition text_tool_result_value :: "string \<Rightarrow> json" where
  "text_tool_result_value text = JObject [(''kind'', JString ''text_result''), (''text'', JString text)]"

definition json_tool_result_value :: "json \<Rightarrow> json" where
  "json_tool_result_value v = JObject [(''kind'', JString ''json_result''), (''value'', v)]"

definition structured_tool_value :: "json \<Rightarrow> json" where
  "structured_tool_value v =
     (if get_str ''kind'' v \<noteq> None then v
      else case v of JString text \<Rightarrow> text_tool_result_value text | other \<Rightarrow> json_tool_result_value other)"

definition from_tool_value :: "json \<Rightarrow> tool_result_content" where
  "from_tool_value v = \<lparr>trc_structured = Some (structured_tool_value v), trc_files = []\<rparr>"

definition from_text :: "string \<Rightarrow> tool_result_content" where
  "from_text text = \<lparr>trc_structured = Some (text_tool_result_value text), trc_files = []\<rparr>"

definition from_json :: "json \<Rightarrow> tool_result_content" where
  "from_json v = \<lparr>trc_structured = Some (json_tool_result_value v), trc_files = []\<rparr>"

definition with_file :: "file_item \<Rightarrow> tool_result_content \<Rightarrow> tool_result_content" where
  "with_file f c = c\<lparr>trc_files := trc_files c @ [f]\<rparr>"

definition with_files :: "file_item list \<Rightarrow> tool_result_content \<Rightarrow> tool_result_content" where
  "with_files fs c = c\<lparr>trc_files := trc_files c @ fs\<rparr>"

text \<open>
  Deserialization accepts the legacy fields \<open>context\<close> and \<open>file\<close>
  (\<open>RawToolResultContent\<close>): a context becomes a text result unless a structured
  value is present, a single file is added after the listed ones.
\<close>

record raw_tool_result_content =
  raw_context :: "context_item option"
  raw_structured :: "json option"
  raw_file :: "file_item option"
  raw_files :: "file_item list"

definition deserialize_tool_result_content :: "raw_tool_result_content \<Rightarrow> tool_result_content" where
  "deserialize_tool_result_content raw =
     \<lparr>trc_structured =
        (case raw_structured raw of
           Some v \<Rightarrow> Some v
         | None \<Rightarrow> map_option (\<lambda>c. text_tool_result_value (ci_text c)) (raw_context raw)),
      trc_files = raw_files raw @ (case raw_file raw of None \<Rightarrow> [] | Some f \<Rightarrow> [f])\<rparr>"

subsection \<open>Rendering\<close>

definition has_stream_text :: "json option \<Rightarrow> bool" where
  "has_stream_text value =
     (case Option.bind value (get_str ''text'') of None \<Rightarrow> False | Some t \<Rightarrow> t \<noteq> [])"

definition push_shell_stream :: "string \<Rightarrow> json option \<Rightarrow> string list \<Rightarrow> string list" where
  "push_shell_stream label value parts =
     (case value of
        None \<Rightarrow> parts
      | Some v \<Rightarrow>
          (let text = unwrap_or [] (get_str ''text'' v);
               truncated = unwrap_or False (get_bool ''truncated'' v);
               header = label @ (if truncated then '' (truncated)'' else [])
           in if text = [] \<and> \<not> truncated then parts
              else if text = [] then parts @ [header @ '':'' @ newline @ ''<empty>'']
              else parts @ [header @ '':'' @ newline @ text]))"

definition shell_state_line :: "json \<Rightarrow> string" where
  "shell_state_line value =
     (if unwrap_or False (get_bool ''running'' value) then
        ''Process running with session ID '' @
        unwrap_or []
          (Option.bind (or_else (json_get ''session_id'' value) (json_get ''process_id'' value)) as_str)
      else if unwrap_or False (get_bool ''timed_out'' value) then ''Process timed out''
      else case Option.bind (json_get ''exit_code'' value) as_i64 of
        Some code \<Rightarrow> ''Process exited with code '' @ show_int code
      | None \<Rightarrow> ''Process exited'')"

definition shell_wall_time :: "json \<Rightarrow> rat" where
  "shell_wall_time value =
     unwrap_or 0
       (or_else (Option.bind (json_get ''wall_time_seconds'' value) as_f64)
          (map_option (\<lambda>ms. of_nat ms / 1000) (get_u64 ''duration_ms'' value)))"

definition shell_stream_parts :: "json \<Rightarrow> string list \<Rightarrow> string list" where
  "shell_stream_parts value parts =
     (if unwrap_or False (get_bool ''tty'' value)
      then push_shell_stream ''Output'' (json_get ''output'' value) parts
      else
        (let parts1 = push_shell_stream ''Stdout'' (json_get ''stdout'' value) parts;
             parts2 = push_shell_stream ''Stderr'' (json_get ''stderr'' value) parts1
         in if \<not> has_stream_text (json_get ''stdout'' value) \<and> \<not> has_stream_text (json_get ''stderr'' value)
            then push_shell_stream ''Output'' (json_get ''output'' value) parts2
            else parts2))"

definition shell_snapshot_parts :: "json \<Rightarrow> string list" where
  "shell_snapshot_parts value =
     (case Option.bind (json_get ''terminal_snapshot'' value) as_object of
        None \<Rightarrow> []
      | Some snapshot \<Rightarrow>
          [''Terminal snapshot: alternate_screen='' @
             show_bool (unwrap_or False (get_bool ''alternate_screen'' snapshot)) @
           '', saw_alternate_screen='' @
             show_bool (unwrap_or False (get_bool ''saw_alternate_screen'' snapshot)) @
           '', truncated='' @ show_bool (unwrap_or False (get_bool ''truncated'' snapshot)) @
           newline @ unwrap_or [] (get_str ''visible_text'' snapshot)])"

definition shell_structured_result_text :: "json \<Rightarrow> string" where
  "shell_structured_result_text value = join newline
     (shell_stream_parts value
        ([shell_state_line value, ''Wall time: '' @ show_fixed4 (shell_wall_time value) @ '' seconds'']
         @ (case Option.bind (json_get ''output'' value) (get_u64 ''original_token_count'') of
              None \<Rightarrow> []
            | Some n \<Rightarrow> [''Original token count: '' @ show_nat n]))
      @ shell_snapshot_parts value)"

definition structured_tool_result_text :: "json_lib \<Rightarrow> tool_result_item \<Rightarrow> string option" where
  "structured_tool_result_text lib tr =
     (case trc_structured (tr_result tr) of
        None \<Rightarrow> None
      | Some value \<Rightarrow>
          (if get_str ''kind'' value = Some ''shell_result'' then Some (shell_structured_result_text value)
           else if get_str ''kind'' value = Some ''text_result'' then get_str ''text'' value
           else if get_str ''kind'' value = Some ''json_result''
             then Option.bind (json_get ''value'' value) (to_string_pretty lib)
           else to_string_pretty lib value))"

definition tool_result_structured_text :: "json_lib \<Rightarrow> tool_result_item \<Rightarrow> string" where
  "tool_result_structured_text lib tr = unwrap_or [] (structured_tool_result_text lib tr)"

definition tool_result_text :: "json_lib \<Rightarrow> tool_result_item \<Rightarrow> string" where
  "tool_result_text lib tr =
     (let parts = (case structured_tool_result_text lib tr of
                     Some text \<Rightarrow> if trim text \<noteq> [] then [text] else []
                   | None \<Rightarrow> []);
          parts' = (if parts = [] then map fi_uri (trc_files (tr_result tr)) else parts)
      in join newline parts')"

lemma structured_tool_value_kind: "get_str ''kind'' (structured_tool_value v) \<noteq> None"
  by (cases v) (auto simp: structured_tool_value_def text_tool_result_value_def
      json_tool_result_value_def json_access_defs)

lemma structured_tool_value_idem [simp]:
  "structured_tool_value (structured_tool_value v) = structured_tool_value v"
  using structured_tool_value_kind [of v] by (simp add: structured_tool_value_def)

lemma structured_text_of_text_result [simp]:
  "trc_structured (tr_result tr) = Some (text_tool_result_value t) \<Longrightarrow>
     structured_tool_result_text lib tr = Some t"
  by (simp add: structured_tool_result_text_def text_tool_result_value_def json_access_defs)

text \<open>
  Tool results that carry a text survive storage in both formats: a result written in
  the legacy format (a \<open>context\<close> with the text and at most one \<open>file\<close>) or built by
  \<open>from_text\<close> deserializes to a result whose rendering is exactly that text, and only
  when the text is blank does the rendering fall back to the URIs of the files, of which the
  legacy single file comes last.
\<close>

lemma legacy_tool_result_text:
  "tool_result_text lib
      \<lparr>tr_tool_call_id = i, tr_tool_name = n,
       tr_result = deserialize_tool_result_content
         \<lparr>raw_context = Some \<lparr>ci_text = t\<rparr>, raw_structured = None, raw_file = f, raw_files = fs\<rparr>\<rparr>
   = (if trim t \<noteq> [] then t
      else join newline (map fi_uri (fs @ (case f of None \<Rightarrow> [] | Some x \<Rightarrow> [x]))))"
  by (auto simp: tool_result_text_def deserialize_tool_result_content_def Let_def)

end
