(* ===== verification/Ordered_Map.thy ===== *)
theory Ordered_Map
  imports Rust_Prelude "HOL-Library.Char_ord" "HOL-Library.List_Lexorder"
begin

text \<open>
  Rust's \<open>BTreeMap\<close> and \<open>BTreeSet\<close> as the sources use them: a map is the list of
  its entries in ascending key order (the order in which \<open>iter()\<close> yields them). The
  interface \<open>ordered_map\<close> states the laws the clients rely on; the list
  implementation is its interpretation \<open>btree\<close>.
\<close>

section \<open>Operations\<close>

type_synonym ('k, 'v) btree_map = "('k \<times> 'v) list"

fun btree_insert :: "'k::linorder \<Rightarrow> 'v \<Rightarrow> ('k, 'v) btree_map \<Rightarrow> ('k, 'v) btree_map" where
  "btree_insert k v [] = [(k, v)]"
| "btree_insert k v ((k', v') # rest) =
     (if k < k' then (k, v) # (k', v') # rest
      else if k = k' then (k, v) # rest
      else (k', v') # btree_insert k v rest)"

definition btree_get :: "'k \<Rightarrow> ('k, 'v) btree_map \<Rightarrow> 'v option" where
  "btree_get k m = map_of m k"

definition btree_remove :: "'k \<Rightarrow> ('k, 'v) btree_map \<Rightarrow> ('k, 'v) btree_map" where
  "btree_remove k m = filter (\<lambda>(k', _). k' \<noteq> k) m"

definition btree_retain :: "('k \<Rightarrow> 'v \<Rightarrow> bool) \<Rightarrow> ('k, 'v) btree_map \<Rightarrow> ('k, 'v) btree_map" where
  "btree_retain p m = filter (\<lambda>(k, v). p k v) m"

definition btree_contains :: "'k \<Rightarrow> ('k, 'v) btree_map \<Rightarrow> bool" where
  "btree_contains k m \<longleftrightarrow> k \<in> set (map fst m)"

definition btree_keys :: "('k, 'v) btree_map \<Rightarrow> 'k list" where
  "btree_keys m = map fst m"

definition btree_wf :: "('k::linorder, 'v) btree_map \<Rightarrow> bool" where
  "btree_wf m \<longleftrightarrow> sorted_wrt (<) (map fst m)"

definition btree_set :: "'k::linorder list \<Rightarrow> 'k list" where
  "btree_set xs = btree_keys (fold (\<lambda>k m. btree_insert k () m) xs [])"

section \<open>The interface\<close>

locale ordered_map =
  fixes wf :: "'m \<Rightarrow> bool"
    and get :: "'k \<Rightarrow> 'm \<Rightarrow> 'v option"
    and insert :: "'k \<Rightarrow> 'v \<Rightarrow> 'm \<Rightarrow> 'm"
    and remove :: "'k \<Rightarrow> 'm \<Rightarrow> 'm"
    and retain :: "('k \<Rightarrow> 'v \<Rightarrow> bool) \<Rightarrow> 'm \<Rightarrow> 'm"
  assumes wf_insert: "wf m \<Longrightarrow> wf (insert k v m)"
    and wf_remove: "wf m \<Longrightarrow> wf (remove k m)"
    and wf_retain: "wf m \<Longrightarrow> wf (retain p m)"
    and get_insert: "get j (insert k v m) = (if j = k then Some v else get j m)"
    and get_remove: "get j (remove k m) = (if j = k then None else get j m)"
    and get_retain: "wf m \<Longrightarrow>
          get j (retain p m) = (case get j m of Some v \<Rightarrow> if p j v then Some v else None | None \<Rightarrow> None)"
begin

lemma get_fold_insert:
  "get j (fold (\<lambda>(k, v). insert k v) kvs m) =
     (case map_of (rev kvs) j of Some v \<Rightarrow> Some v | None \<Rightarrow> get j m)"
  by (induction kvs arbitrary: m) (auto simp: get_insert map_add_def split: option.splits)

lemma wf_fold_insert: "wf m \<Longrightarrow> wf (fold (\<lambda>(k, v). insert k v) kvs m)"
  by (induction kvs arbitrary: m) (auto simp: wf_insert)

lemma get_insert_insert: "get j (insert k v (insert k w m)) = get j (insert k v m)"
  by (simp add: get_insert)

lemma get_remove_insert: "get j (remove k (insert k v m)) = get j (remove k m)"
  by (simp add: get_insert get_remove)

lemma retain_all: "wf m \<Longrightarrow> (\<And>j v. get j m = Some v \<Longrightarrow> p j v) \<Longrightarrow> get j (retain p m) = get j m"
  by (auto simp: get_retain split: option.splits)

end

section \<open>The list implementation satisfies the interface\<close>

lemma keys_btree_insert: "set (map fst (btree_insert k v m)) = Set.insert k (set (map fst m))"
  by (induction k v m rule: btree_insert.induct) auto

lemma btree_wf_insert: "btree_wf m \<Longrightarrow> btree_wf (btree_insert k v m)"
proof (induction k v m rule: btree_insert.induct)
  case (2 k v k' v' rest)
  have "\<forall>x \<in> set (map fst (btree_insert k v rest)). k' < x" if "k' < k"
    using "2.prems" that by (simp add: keys_btree_insert btree_wf_def del: set_map)
  with 2 show ?case by (auto simp: btree_wf_def not_less)
qed (simp add: btree_wf_def)

lemma sorted_wrt_map_filter:
  "sorted_wrt r (map f xs) \<Longrightarrow> sorted_wrt r (map f (filter p xs))"
  by (induction xs) auto

lemma map_of_filter_key: "map_of (filter (\<lambda>(k', _). k' \<noteq> k) m) j = (if j = k then None else map_of m j)"
  by (induction m) auto

lemma btree_wf_distinct: "btree_wf m \<Longrightarrow> distinct (map fst m)"
  by (simp add: btree_wf_def strict_sorted_iff)

lemma map_of_filter_distinct:
  "distinct (map fst m) \<Longrightarrow>
     map_of (filter (\<lambda>(k, v). p k v) m) j =
       (case map_of m j of Some v \<Rightarrow> if p j v then Some v else None | None \<Rightarrow> None)"
proof (induction m)
  case (Cons kv m)
  then show ?case
    by (cases kv) (auto simp: map_of_eq_None_iff split: option.splits)
qed simp

interpretation btree: ordered_map btree_wf btree_get btree_insert btree_remove btree_retain
proof unfold_locales
  fix m :: "('a, 'b) btree_map" and k j :: 'a and v :: 'b and p :: "'a \<Rightarrow> 'b \<Rightarrow> bool"
  show "btree_wf m \<Longrightarrow> btree_wf (btree_insert k v m)" by (rule btree_wf_insert)
  show "btree_wf m \<Longrightarrow> btree_wf (btree_remove k m)"
    by (simp add: btree_wf_def btree_remove_def sorted_wrt_map_filter)
  show "btree_wf m \<Longrightarrow> btree_wf (btree_retain p m)"
    by (simp add: btree_wf_def btree_retain_def sorted_wrt_map_filter)
  show "btree_get j (btree_insert k v m) = (if j = k then Some v else btree_get j m)"
    unfolding btree_get_def by (induction k v m rule: btree_insert.induct) auto
  show "btree_get j (btree_remove k m) = (if j = k then None else btree_get j m)"
    by (simp add: btree_get_def btree_remove_def map_of_filter_key)
  show "btree_wf m \<Longrightarrow>
      btree_get j (btree_retain p m) =
        (case btree_get j m of Some v \<Rightarrow> if p j v then Some v else None | None \<Rightarrow> None)"
    by (simp add: btree_get_def btree_retain_def btree_wf_distinct map_of_filter_distinct)
qed

lemma btree_contains_get: "btree_contains k m \<longleftrightarrow> btree_get k m \<noteq> None"
  by (simp add: btree_contains_def btree_get_def map_of_eq_None_iff)

lemma set_btree_set: "set (btree_set xs) = set xs"
proof -
  have "set (map fst (fold (\<lambda>k m. btree_insert k () m) xs m)) = set (map fst m) \<union> set xs" for m
    by (induction xs arbitrary: m) (simp_all add: keys_btree_insert del: set_map)
  then show ?thesis by (simp add: btree_set_def btree_keys_def del: set_map)
qed

lemma sorted_btree_set: "sorted_wrt (<) (btree_set xs)"
proof -
  have "btree_wf m \<Longrightarrow> btree_wf (fold (\<lambda>k m. btree_insert k () m) xs m)" for m :: "('a, unit) btree_map"
    by (induction xs arbitrary: m) (auto simp: btree_wf_insert)
  then show ?thesis by (simp add: btree_set_def btree_keys_def btree_wf_def)
qed

end
