(* ===== verification/Tool_Catalog.thy ===== *)
theory Tool_Catalog
  imports Chat_Message Ordered_Map
begin

text \<open>
  Model of the catalogue type of \<open>core/src/session_actor/tool_catalog/mod.rs\<close>: tool
  definitions, the registry with its duplicate check, the filter by provider and the
  test that decides whether a call is executed locally. The entries themselves (the
  individual tools) are behind trait objects; an entry is represented by its kind and
  the definition it reports.
\<close>

datatype tool_concurrency = Parallel | Serial

datatype provider_backed_tool_kind =
    ImageAnalysis | PdfAnalysis | AudioAnalysis | BackedImageGeneration

datatype provider_native_tool_kind = NativeImageGeneration

datatype tool_backend =
    Local
  | ProviderBacked provider_backed_tool_kind
  | ProviderNative provider_native_tool_kind
  | ConversationBridge string

record tool_definition =
  td_name :: string
  td_description :: string
  td_parameters :: json
  td_concurrency :: tool_concurrency
  td_backend :: tool_backend
  td_disabled_provider_types :: "provider_type list"

definition tool_definition_new :: "string \<Rightarrow> string \<Rightarrow> json \<Rightarrow> tool_backend \<Rightarrow> tool_definition" where
  "tool_definition_new name description parameters backend =
     \<lparr>td_name = name, td_description = description, td_parameters = parameters,
      td_concurrency = Parallel, td_backend = backend, td_disabled_provider_types = []\<rparr>"

definition disabled_for_provider :: "provider_type \<Rightarrow> tool_definition \<Rightarrow> tool_definition" where
  "disabled_for_provider pt d =
     (if pt \<in> set (td_disabled_provider_types d) then d
      else d\<lparr>td_disabled_provider_types := td_disabled_provider_types d @ [pt]\<rparr>)"

definition is_enabled_for_model :: "tool_definition \<Rightarrow> model_config \<Rightarrow> bool" where
  "is_enabled_for_model d mc \<longleftrightarrow> mc_provider_type mc \<notin> set (td_disabled_provider_types d)"

definition description_with_concurrency :: "tool_definition \<Rightarrow> string" where
  "description_with_concurrency d =
     (case td_concurrency d of
        Parallel \<Rightarrow> ''Execution concurrency: parallel. The batch executor may run this tool at the same time as other parallel tools in the same tool-call batch.''
      | Serial \<Rightarrow> ''Execution concurrency: serial. The batch executor runs this tool exclusively relative to other tools in the same tool-call batch.'')
     @ '' '' @ td_description d"

definition openai_tool_schema :: "tool_definition \<Rightarrow> json" where
  "openai_tool_schema d = JObject
     [(''type'', JString ''function''),
      (''function'', JObject
         [(''name'', JString (td_name d)),
          (''description'', JString (description_with_concurrency d)),
          (''parameters'', td_parameters d)])]"

definition responses_tool_schema :: "tool_definition \<Rightarrow> json" where
  "responses_tool_schema d =
     (case td_backend d of
        ProviderNative NativeImageGeneration \<Rightarrow>
          JObject [(''type'', JString ''image_generation''), (''output_format'', JString ''png'')]
      | _ \<Rightarrow> JObject
          [(''type'', JString ''function''),
           (''name'', JString (td_name d)),
           (''description'', JString (description_with_concurrency d)),
           (''parameters'', td_parameters d)])"

definition claude_tool_schema :: "tool_definition \<Rightarrow> json" where
  "claude_tool_schema d = JObject
     [(''name'', JString (td_name d)),
      (''description'', JString (description_with_concurrency d)),
      (''input_schema'', td_parameters d)]"

datatype tool_entry =
    Base tool_definition
  | Ext tool_definition
  | ProviderNativeEntry tool_definition

fun entry_definition :: "tool_entry \<Rightarrow> tool_definition" where
  "entry_definition (Base d) = d"
| "entry_definition (Ext d) = d"
| "entry_definition (ProviderNativeEntry d) = d"

record tool_catalog =
  cat_tools :: "(string, tool_definition) btree_map"
  cat_entries :: "(string, tool_entry) btree_map"

datatype tool_catalog_error = DuplicateTool string

definition tool_catalog_new :: tool_catalog where
  "tool_catalog_new = \<lparr>cat_tools = [], cat_entries = []\<rparr>"

definition add_tool_entry :: "tool_entry \<Rightarrow> tool_catalog \<Rightarrow> tool_catalog_error + tool_catalog" where
  "add_tool_entry entry cat =
     (let d = entry_definition entry
      in if btree_contains (td_name d) (cat_tools cat) then Inl (DuplicateTool (td_name d))
         else Inr \<lparr>cat_tools = btree_insert (td_name d) d (cat_tools cat),
                   cat_entries = btree_insert (td_name d) entry (cat_entries cat)\<rparr>)"

definition catalog_get :: "string \<Rightarrow> tool_catalog \<Rightarrow> tool_definition option" where
  "catalog_get name cat = btree_get name (cat_tools cat)"

definition catalog_iter :: "tool_catalog \<Rightarrow> tool_definition list" where
  "catalog_iter cat = map snd (cat_tools cat)"

definition should_execute_registered :: "string \<Rightarrow> tool_catalog \<Rightarrow> bool" where
  "should_execute_registered name cat =
     (case btree_get name (cat_entries cat) of
        Some (Ext _) \<Rightarrow> True
      | Some (Base d) \<Rightarrow>
          (case td_backend d of
             Local \<Rightarrow> True
           | ConversationBridge _ \<Rightarrow> True
           | ProviderBacked _ \<Rightarrow> True
           | ProviderNative _ \<Rightarrow> False)
      | Some (ProviderNativeEntry _) \<Rightarrow> False
      | None \<Rightarrow> False)"

definition filtered_for_model_config :: "tool_catalog \<Rightarrow> model_config \<Rightarrow> tool_catalog" where
  "filtered_for_model_config cat mc =
     (let tools = btree_retain (\<lambda>_ tool. is_enabled_for_model tool mc) (cat_tools cat);
          enabled_names = set (btree_keys tools)
      in \<lparr>cat_tools = tools, cat_entries = btree_retain (\<lambda>name _. name \<in> enabled_names) (cat_entries cat)\<rparr>)"

fun add_tool_entries :: "tool_entry list \<Rightarrow> tool_catalog \<Rightarrow> tool_catalog_error + tool_catalog" where
  "add_tool_entries [] cat = Inr cat"
| "add_tool_entries (e # es) cat =
     (case add_tool_entry e cat of Inl err \<Rightarrow> Inl err | Inr cat' \<Rightarrow> add_tool_entries es cat')"

section \<open>Well-formedness\<close>

text \<open>
  The two maps have the same keys, and each key is the name of the definition stored
  under it, which is the one its entry reports.
\<close>

definition catalog_wf :: "tool_catalog \<Rightarrow> bool" where
  "catalog_wf cat \<longleftrightarrow>
     btree_wf (cat_tools cat) \<and> btree_wf (cat_entries cat) \<and>
     (\<forall>name. btree_get name (cat_tools cat) =
        map_option entry_definition (btree_get name (cat_entries cat))) \<and>
     (\<forall>name d. btree_get name (cat_tools cat) = Some d \<longrightarrow> td_name d = name)"

lemma catalog_wfD:
  assumes "catalog_wf cat"
  shows "btree_wf (cat_tools cat)" and "btree_wf (cat_entries cat)"
    and "btree_get name (cat_tools cat) = map_option entry_definition (btree_get name (cat_entries cat))"
    and "btree_get name (cat_tools cat) = Some d \<Longrightarrow> td_name d = name"
  using assms unfolding catalog_wf_def by blast+

lemma catalog_wfI:
  assumes "btree_wf (cat_tools cat)" and "btree_wf (cat_entries cat)"
    and "\<And>name. btree_get name (cat_tools cat) = map_option entry_definition (btree_get name (cat_entries cat))"
    and "\<And>name d. btree_get name (cat_tools cat) = Some d \<Longrightarrow> td_name d = name"
  shows "catalog_wf cat"
  using assms unfolding catalog_wf_def by blast

lemma catalog_wf_new: "catalog_wf tool_catalog_new"
  by (rule catalog_wfI) (simp_all add: tool_catalog_new_def btree_wf_def btree_get_def)

lemma catalog_wf_add:
  assumes "catalog_wf cat" and "add_tool_entry e cat = Inr cat'"
  shows "catalog_wf cat'"
proof -
  let ?d = "entry_definition e"
  from assms(2) have cat': "cat' =
      \<lparr>cat_tools = btree_insert (td_name ?d) ?d (cat_tools cat),
       cat_entries = btree_insert (td_name ?d) e (cat_entries cat)\<rparr>"
    by (auto simp: add_tool_entry_def Let_def split: if_splits)
  note wf = catalog_wfD [OF assms(1)]
  show ?thesis unfolding cat'
  proof (rule catalog_wfI)
    fix name d
    show "btree_get name (cat_tools \<lparr>cat_tools = btree_insert (td_name ?d) ?d (cat_tools cat),
        cat_entries = btree_insert (td_name ?d) e (cat_entries cat)\<rparr>) = Some d \<Longrightarrow> td_name d = name"
      using wf(4) [of name d] by (simp add: btree.get_insert split: if_splits)
  qed (simp_all add: btree.wf_insert btree.get_insert wf(1,2) wf(3))
qed

lemma get_filtered:
  assumes "catalog_wf cat"
  shows "btree_get name (cat_tools (filtered_for_model_config cat mc)) =
     (case btree_get name (cat_tools cat) of
        Some d \<Rightarrow> if is_enabled_for_model d mc then Some d else None | None \<Rightarrow> None)"
  by (simp add: filtered_for_model_config_def btree.get_retain [OF catalog_wfD(1) [OF assms]] Let_def)

lemma entry_filtered:
  assumes "catalog_wf cat"
  shows "btree_get name (cat_entries (filtered_for_model_config cat mc)) =
     (case btree_get name (cat_entries cat) of
        Some e \<Rightarrow> if is_enabled_for_model (entry_definition e) mc then Some e else None
      | None \<Rightarrow> None)"
proof -
  let ?tools = "btree_retain (\<lambda>_ tool. is_enabled_for_model tool mc) (cat_tools cat)"
  have mem: "name \<in> set (btree_keys ?tools) \<longleftrightarrow> btree_get name ?tools \<noteq> None"
    using btree_contains_get [of name ?tools] by (simp add: btree_contains_def btree_keys_def)
  have t: "btree_get name ?tools =
      (case map_option entry_definition (btree_get name (cat_entries cat)) of
         Some d \<Rightarrow> if is_enabled_for_model d mc then Some d else None | None \<Rightarrow> None)"
    using btree.get_retain [OF catalog_wfD(1) [OF assms], of name "\<lambda>_ tool. is_enabled_for_model tool mc"]
      catalog_wfD(3) [OF assms, of name] by simp
  have "btree_get name (cat_entries (filtered_for_model_config cat mc)) =
      (case btree_get name (cat_entries cat) of
         Some e \<Rightarrow> if name \<in> set (btree_keys ?tools) then Some e else None | None \<Rightarrow> None)"
    by (simp add: filtered_for_model_config_def Let_def btree.get_retain [OF catalog_wfD(2) [OF assms]])
  also have "\<dots> = (case btree_get name (cat_entries cat) of
        Some e \<Rightarrow> if is_enabled_for_model (entry_definition e) mc then Some e else None
      | None \<Rightarrow> None)"
    unfolding mem t by (cases "btree_get name (cat_entries cat)") simp_all
  finally show ?thesis .
qed

lemma catalog_wf_filtered:
  assumes wf: "catalog_wf cat"
  shows "catalog_wf (filtered_for_model_config cat mc)"
proof (rule catalog_wfI)
  fix name d
  show "btree_get name (cat_tools (filtered_for_model_config cat mc)) =
      map_option entry_definition (btree_get name (cat_entries (filtered_for_model_config cat mc)))"
    unfolding get_filtered [OF wf] entry_filtered [OF wf] catalog_wfD(3) [OF wf]
    by (cases "btree_get name (cat_entries cat)") simp_all
  show "btree_get name (cat_tools (filtered_for_model_config cat mc)) = Some d \<Longrightarrow> td_name d = name"
    using catalog_wfD(4) [OF wf, of name d] unfolding get_filtered [OF wf]
    by (cases "btree_get name (cat_tools cat)") (simp_all split: if_splits)
qed (simp_all add: filtered_for_model_config_def btree.wf_retain catalog_wfD(1,2) [OF wf] Let_def)

lemma catalog_wf_entries:
  "catalog_wf cat \<Longrightarrow> add_tool_entries es cat = Inr cat' \<Longrightarrow> catalog_wf cat'"
  by (induction es arbitrary: cat) (auto split: sum.splits intro: catalog_wf_add)

text \<open>
  C35. The catalogue is the local execution allow-list: registering tools one after another and
  filtering for the session's model yields a consistent registry, in which a tool is executed
  locally only if it was registered, its definition is found under its own name, it is not
  disabled for the model's provider, and it is not a provider-native tool.
\<close>

theorem registered_tools_are_enabled:
  assumes "add_tool_entries es tool_catalog_new = Inr cat"
    and "should_execute_registered name (filtered_for_model_config cat mc)"
  shows "\<exists>d. catalog_get name (filtered_for_model_config cat mc) = Some d \<and> td_name d = name \<and>
           is_enabled_for_model d mc \<and>
           (\<forall>k. btree_get name (cat_entries cat) = Some (Base d) \<longrightarrow> td_backend d \<noteq> ProviderNative k) \<and>
           btree_get name (cat_entries cat) \<noteq> Some (ProviderNativeEntry d)"
proof -
  have wf: "catalog_wf cat" using catalog_wf_entries [OF catalog_wf_new assms(1)] .
  have wff: "catalog_wf (filtered_for_model_config cat mc)" by (rule catalog_wf_filtered [OF wf])
  obtain e where e: "btree_get name (cat_entries (filtered_for_model_config cat mc)) = Some e"
    using assms(2) by (auto simp: should_execute_registered_def split: option.splits)
  then have e': "btree_get name (cat_entries cat) = Some e"
      and en: "is_enabled_for_model (entry_definition e) mc"
    unfolding entry_filtered [OF wf]
    by (cases "btree_get name (cat_entries cat)"; simp split: if_splits)+
  have d: "btree_get name (cat_tools (filtered_for_model_config cat mc)) = Some (entry_definition e)"
    using catalog_wfD(3) [OF wff, of name] e by simp
  have "td_name (entry_definition e) = name"
    by (rule catalog_wfD(4) [OF wff d])
  with assms(2) e e' en d show ?thesis
    by (cases e) (simp_all add: should_execute_registered_def catalog_get_def split: tool_backend.splits)
qed

theorem registered_tools_are_enabled_witness:
  "\<exists>cat d. add_tool_entries [Base (tool_definition_new ''grep'' [] JNull Local)] tool_catalog_new = Inr cat \<and>
     catalog_get ''grep'' (filtered_for_model_config cat sample_model) = Some d \<and> td_name d = ''grep''"
proof -
  let ?d = "tool_definition_new ''grep'' [] JNull Local"
  have add: "add_tool_entries [Base ?d] tool_catalog_new =
      Inr \<lparr>cat_tools = [(''grep'', ?d)], cat_entries = [(''grep'', Base ?d)]\<rparr>"
    by (simp add: add_tool_entry_def tool_catalog_new_def btree_contains_def tool_definition_new_def Let_def)
  have "should_execute_registered ''grep''
      (filtered_for_model_config \<lparr>cat_tools = [(''grep'', ?d)], cat_entries = [(''grep'', Base ?d)]\<rparr>
         sample_model)"
    by (simp add: should_execute_registered_def filtered_for_model_config_def btree_get_def
        btree_retain_def btree_keys_def is_enabled_for_model_def tool_definition_new_def)
  from registered_tools_are_enabled [OF add this] add show ?thesis by blast
qed

end
