(* ===== verification/Tool_Batch.thy ===== *)
theory Tool_Batch
  imports Tool_Catalog
begin

text \<open>
  Model of \<open>core/src/session_actor/tool_batch.rs\<close>: the batch of tool calls that one
  model response asks for, its progress summary and the message that carries the
  results back, plus the request and response types of the conversation bridge.
\<close>

section \<open>Data\<close>

datatype tool_batch_item =
    RegisteredTool tool_call_item
  | UnsupportedTool tool_call_item string

fun item_tool_call :: "tool_batch_item \<Rightarrow> tool_call_item" where
  "item_tool_call (RegisteredTool tool_call) = tool_call"
| "item_tool_call (UnsupportedTool tool_call _) = tool_call"

record tool_batch_operation =
  op_item :: tool_batch_item
  op_concurrency :: tool_concurrency

record tool_batch =
  tb_batch_id :: string
  tb_operations :: "tool_batch_operation list"

record conversation_bridge_request =
  brq_request_id :: string
  brq_tool_call_id :: string
  brq_tool_name :: string
  brq_action :: string
  brq_payload :: json

record conversation_bridge_response =
  brs_request_id :: string
  brs_tool_call_id :: string
  brs_tool_name :: string
  brs_result :: tool_result_item

record tool_batch_handle =
  tbh_batch_id :: string

record tool_batch_completion =
  tbc_batch_id :: string
  tbc_result :: "string + chat_message"

record tool_batch_progress =
  tbp_batch_id :: string
  tbp_result :: tool_result_item

datatype tool_batch_error =
    EmptyBatch string
  | Start string
  | Interrupt string
  | Finish string
  | Bridge string

fun tool_batch_error_text :: "tool_batch_error \<Rightarrow> string" where
  "tool_batch_error_text (EmptyBatch b) = ''tool batch '' @ b @ '' is empty''"
| "tool_batch_error_text (Start e) = ''tool batch start failed: '' @ e"
| "tool_batch_error_text (Interrupt e) = ''tool batch interrupt failed: '' @ e"
| "tool_batch_error_text (Finish e) = ''tool batch finish failed: '' @ e"
| "tool_batch_error_text (Bridge e) = ''conversation bridge failed: '' @ e"

section \<open>Operations\<close>

definition serial_tool_names :: "string list" where
  "serial_tool_names =
     [''apply_patch'', ''shell_make_visible'', ''attachment_make_visible'', ''shell_exec'',
      ''shell_write_stdin'', ''shell_stop'', ''image_stop'', ''pdf_stop'', ''audio_stop'',
      ''image_generation_stop'']"

fun default_concurrency :: "tool_batch_item \<Rightarrow> tool_concurrency" where
  "default_concurrency (RegisteredTool tool_call) =
     (if tc_tool_name tool_call \<in> set serial_tool_names then Serial else Parallel)"
| "default_concurrency (UnsupportedTool _ _) = Parallel"

definition operation_from_item :: "tool_batch_item \<Rightarrow> tool_batch_operation" where
  "operation_from_item item = \<lparr>op_item = item, op_concurrency = default_concurrency item\<rparr>"

definition tool_batch_new :: "string \<Rightarrow> tool_batch_item list \<Rightarrow> tool_batch" where
  "tool_batch_new batch_id items =
     \<lparr>tb_batch_id = batch_id, tb_operations = map operation_from_item items\<rparr>"

definition truncate_progress_hint :: "string \<Rightarrow> string" where
  "truncate_progress_hint value = truncate_with_dots 80 value"

definition argument_hint_keys :: "string list" where
  "argument_hint_keys =
     [''path'', ''file_path'', ''query'', ''url'', ''command'', ''skill_name'', ''prompt'']"

fun first_hint :: "json \<Rightarrow> string list \<Rightarrow> string option" where
  "first_hint object [] = None"
| "first_hint object (key # keys) =
     (case get_str key object of
        Some value \<Rightarrow>
          (if trim value \<noteq> [] then Some (truncate_progress_hint (trim value)) else first_hint object keys)
      | None \<Rightarrow> first_hint object keys)"

definition tool_call_argument_hint :: "json_lib \<Rightarrow> string \<Rightarrow> string option" where
  "tool_call_argument_hint lib arguments =
     Option.bind (from_str lib arguments)
       (\<lambda>value. Option.bind (as_object value) (\<lambda>object. first_hint object argument_hint_keys))"

definition tool_call_progress_label :: "json_lib \<Rightarrow> tool_call_item \<Rightarrow> string" where
  "tool_call_progress_label lib tool_call =
     (case tool_call_argument_hint lib (ci_text (tc_arguments tool_call)) of
        None \<Rightarrow> tc_tool_name tool_call
      | Some hint \<Rightarrow> tc_tool_name tool_call @ '' '' @ hint)"

definition progress_label :: "json_lib \<Rightarrow> tool_batch_operation \<Rightarrow> string" where
  "progress_label lib operation = tool_call_progress_label lib (item_tool_call (op_item operation))"

definition progress_summary :: "json_lib \<Rightarrow> tool_batch \<Rightarrow> string" where
  "progress_summary lib batch =
     (let labels = map (progress_label lib) (tb_operations batch)
      in join ''; '' (take 4 labels) @
         (if length labels > 4 then ''; +'' @ show_nat (length labels - 4) @ '' more'' else []))"

definition into_result_message :: "string \<Rightarrow> tool_result_item list \<Rightarrow> chat_message" where
  "into_result_message fresh_id results = chat_message_new fresh_id Assistant (map ToolResult results)"

section \<open>Laws\<close>

lemma first_hint_bounded: "first_hint object keys = Some hint \<Longrightarrow> length hint \<le> 83"
  by (induction keys)
    (auto simp: truncate_progress_hint_def split: option.splits if_splits
      intro: length_truncate_with_dots [where m = 80, simplified])

lemma progress_label_bounded:
  "length (progress_label lib oper) \<le> length (tc_tool_name (item_tool_call (op_item oper))) + 84"
  using first_hint_bounded
  by (auto simp: progress_label_def tool_call_progress_label_def tool_call_argument_hint_def
      bind_eq_Some_conv split: option.splits)

end
