(* ===== verification/Session_Rpc.thy ===== *)
theory Session_Rpc
  imports Tool_Batch "HOL-Library.Multiset"
begin

text \<open>
  Model of \<open>core/src/session_actor/session_rpc.rs\<close>: the requests a conversation sends
  to a session, the events a session sends back, and the thread that routes both and
  answers the bridge calls of running tools.
\<close>

section \<open>Session protocol\<close>

datatype session_type = Foreground | Background | Subagent

datatype tool_remote_mode = Selectable | FixedSsh (ssh_host: string) (ssh_cwd: "string option")

record session_initial =
  si_session_id :: string
  si_session_type :: session_type
  si_tool_remote_mode :: tool_remote_mode
  si_compression_threshold_tokens :: "nat option"
  si_compression_retain_recent_tokens :: "nat option"
  si_image_tool_model :: "model_config option"
  si_pdf_tool_model :: "model_config option"
  si_audio_tool_model :: "model_config option"
  si_image_generation_tool_model :: "model_config option"
  si_search_tool_model :: "model_config option"
  si_search_image_tool_model :: "model_config option"
  si_search_video_tool_model :: "model_config option"
  si_search_news_tool_model :: "model_config option"
  si_remote_workspace_instructions :: "string option"
  si_memory_enabled :: bool

definition session_initial_new :: "string \<Rightarrow> session_type \<Rightarrow> session_initial" where
  "session_initial_new sid st =
     \<lparr>si_session_id = sid, si_session_type = st, si_tool_remote_mode = Selectable,
      si_compression_threshold_tokens = None, si_compression_retain_recent_tokens = None,
      si_image_tool_model = None, si_pdf_tool_model = None, si_audio_tool_model = None,
      si_image_generation_tool_model = None, si_search_tool_model = None,
      si_search_image_tool_model = None, si_search_video_tool_model = None,
      si_search_news_tool_model = None, si_remote_workspace_instructions = None,
      si_memory_enabled = False\<rparr>"

datatype session_mailbox_kind = Control | Data

datatype session_request =
    Initial session_initial
  | EnqueueUserMessage chat_message
  | EnqueueActorMessage chat_message
  | CancelTurn "string option"
  | ContinueTurn "string option"
  | CompactNow
  | ResolveHostCoordination conversation_bridge_response
  | QuerySessionView string json
  | QueryMessageHistory string nat nat
  | QueryMessageDetail string string
  | Shutdown

fun mailbox_kind :: "session_request \<Rightarrow> session_mailbox_kind" where
  "mailbox_kind (EnqueueUserMessage _) = Data"
| "mailbox_kind (EnqueueActorMessage _) = Data"
| "mailbox_kind _ = Control"

record session_message_record =
  smr_index :: nat
  smr_turn_id :: "string option"
  smr_step_index :: "nat option"
  smr_message_part :: "chat_message_part option"
  smr_message :: chat_message

record session_message_history =
  smh_request_id :: string
  smh_offset :: nat
  smh_limit :: nat
  smh_total :: nat
  smh_last_message :: "session_message_record option"
  smh_messages :: "session_message_record list"

datatype task_plan_item_status = Pending | InProgress | Completed

record task_plan_item_view =
  tpi_step :: string
  tpi_status :: task_plan_item_status

record task_plan_view =
  tp_explanation :: "string option"
  tp_plan :: "task_plan_item_view list"

record session_error_detail =
  sed_module :: string
  sed_kind :: string
  sed_reason :: string

definition error_detail_new :: "string \<Rightarrow> string \<Rightarrow> string \<Rightarrow> session_error_detail" where
  "error_detail_new m k r = \<lparr>sed_module = m, sed_kind = k, sed_reason = r\<rparr>"

definition error_detail_summary :: "session_error_detail \<Rightarrow> string" where
  "error_detail_summary d = sed_module d @ '' ['' @ sed_kind d @ '']: '' @ sed_reason d"

text \<open>The fields of each event variant stand in the order of the source.\<close>

datatype session_event =
    MessageAppended nat "string option" "nat option" "chat_message_part option" chat_message
  | TurnStarted string "task_plan_view option"
  | Progress string "task_plan_view option"
  | PlanUpdated "task_plan_view option"
  | StreamAssistantMessageDelta string string nat "nat option" "chat_message_part option"
      "string option" string "nat option"
  | StreamToolCallDelta string string nat "nat option" "chat_message_part option"
      string "string option" "string option" string
  | StreamReasoningSummaryDelta string string nat "nat option" "chat_message_part option"
      "string option" int string
  | StreamReasoningSummaryPartAdded string string nat "nat option" "chat_message_part option"
      "string option" int
  | StreamError string string nat "nat option" "chat_message_part option" "string option"
      "nat option" string session_error_detail
  | StreamToolResultDone string "nat option" "chat_message_part option" string tool_result_item
  | TurnCompleted string "string option" "nat option" chat_message
  | TurnFailed string session_error_detail bool
  | HostCoordinationRequested conversation_bridge_request
  | InteractiveOutputRequested json
  | SessionViewResult string json
  | MessageHistoryResult session_message_history
  | MessageDetailResult string "session_message_record option"
  | CompactStarted string
  | CompactCompleted bool nat nat nat nat nat
  | CompactFailed string string
  | ControlRejected string json
  | RuntimeCrashed string session_error_detail

section \<open>The RPC thread\<close>

text \<open>
  A bridge call carries the sending half of a fresh reply channel, here its number.
  Dropping that half without a message (an overwritten table entry, or whatever is left
  when the loop ends) makes the caller's \<open>recv\<close> fail with \<open>ThreadStopped\<close>. The
  replies each caller sees are collected in \<open>rpc_replies\<close>. Transport and mailbox are
  outside this file: they are the two fields of \<open>rpc_env\<close>, indexed by the number of
  transport or mailbox operations so far.
\<close>

datatype session_rpc_error = ThreadStopped | ThreadPanicked | Transport string | Mailbox_error string

datatype session_rpc_command =
    FromConversation session_request
  | FromSession session_event
  | ConversationBridgeCall conversation_bridge_request nat
  | RpcShutdown

record rpc_env =
  transport_send :: "nat \<Rightarrow> session_event \<Rightarrow> string option"
  mailbox_closed :: "nat \<Rightarrow> bool"

record rpc_state =
  pending_bridge_calls :: "(string \<times> nat) list"
  rpc_mailbox :: "session_request list"
  rpc_sent :: "session_event list"
  rpc_replies :: "(nat \<times> (session_rpc_error + conversation_bridge_response)) list"
  rpc_io :: nat

definition rpc_init :: rpc_state where
  "rpc_init = \<lparr>pending_bridge_calls = [], rpc_mailbox = [], rpc_sent = [], rpc_replies = [], rpc_io = 0\<rparr>"

text \<open>\<open>SessionMailbox::append\<close> of \<open>SessionActorRequestSender\<close> (actor.rs).\<close>

definition mailbox_append ::
  "rpc_env \<Rightarrow> session_mailbox_kind \<Rightarrow> session_request \<Rightarrow> rpc_state \<Rightarrow> (string + unit) \<times> rpc_state" where
  "mailbox_append env kind request s =
     (if kind \<noteq> mailbox_kind request then (Inl ''request kind mismatch'', s)
      else if mailbox_closed env (rpc_io s)
        then (Inl ''session actor request channel closed'', s\<lparr>rpc_io := Suc (rpc_io s)\<rparr>)
      else (Inr (), s\<lparr>rpc_mailbox := rpc_mailbox s @ [request], rpc_io := Suc (rpc_io s)\<rparr>))"

definition send_event :: "rpc_env \<Rightarrow> session_event \<Rightarrow> rpc_state \<Rightarrow> (string + unit) \<times> rpc_state" where
  "send_event env event s =
     (case transport_send env (rpc_io s) event of
        Some error \<Rightarrow> (Inl error, s\<lparr>rpc_io := Suc (rpc_io s)\<rparr>)
      | None \<Rightarrow> (Inr (), s\<lparr>rpc_sent := rpc_sent s @ [event], rpc_io := Suc (rpc_io s)\<rparr>))"

definition reply :: "nat \<Rightarrow> session_rpc_error + conversation_bridge_response \<Rightarrow> rpc_state \<Rightarrow> rpc_state" where
  "reply channel r s = s\<lparr>rpc_replies := rpc_replies s @ [(channel, r)]\<rparr>"

definition pending_remove :: "string \<Rightarrow> (string \<times> nat) list \<Rightarrow> (string \<times> nat) list" where
  "pending_remove k pending = filter (\<lambda>(k', _). k' \<noteq> k) pending"

text \<open>\<open>HashMap::insert\<close>: an entry under the same key is replaced and its channel dropped.\<close>

definition pending_insert :: "string \<Rightarrow> nat \<Rightarrow> rpc_state \<Rightarrow> rpc_state" where
  "pending_insert k channel s =
     (let s' = (case map_of (pending_bridge_calls s) k of
                  Some old \<Rightarrow> reply old (Inl ThreadStopped) s
                | None \<Rightarrow> s)
      in s'\<lparr>pending_bridge_calls := (k, channel) # pending_remove k (pending_bridge_calls s)\<rparr>)"

definition handle_conversation_request :: "rpc_env \<Rightarrow> session_request \<Rightarrow> rpc_state \<Rightarrow> rpc_state" where
  "handle_conversation_request env request s =
     (case request of
        ResolveHostCoordination response \<Rightarrow>
          (case map_of (pending_bridge_calls s) (brs_request_id response) of
             Some channel \<Rightarrow>
               reply channel (Inr response)
                 (s\<lparr>pending_bridge_calls :=
                      pending_remove (brs_request_id response) (pending_bridge_calls s)\<rparr>)
           | None \<Rightarrow> snd (mailbox_append env (mailbox_kind request) request s))
      | _ \<Rightarrow> snd (mailbox_append env (mailbox_kind request) request s))"

definition rpc_step :: "rpc_env \<Rightarrow> session_rpc_command \<Rightarrow> rpc_state \<Rightarrow> rpc_state" where
  "rpc_step env command s =
     (case command of
        FromConversation request \<Rightarrow> handle_conversation_request env request s
      | FromSession event \<Rightarrow> snd (send_event env event s)
      | ConversationBridgeCall request channel \<Rightarrow>
          (case send_event env (HostCoordinationRequested request) s of
             (Inr _, s') \<Rightarrow> pending_insert (brq_request_id request) channel s'
           | (Inl error, s') \<Rightarrow> reply channel (Inl (Transport error)) s')
      | RpcShutdown \<Rightarrow> s)"

text \<open>Ending the loop drops the table and the commands still queued.\<close>

fun drop_commands :: "session_rpc_command list \<Rightarrow> rpc_state \<Rightarrow> rpc_state" where
  "drop_commands [] s = s"
| "drop_commands (ConversationBridgeCall _ channel # cs) s =
     drop_commands cs (reply channel (Inl ThreadStopped) s)"
| "drop_commands (_ # cs) s = drop_commands cs s"

definition drop_pending :: "rpc_state \<Rightarrow> rpc_state" where
  "drop_pending s =
     s\<lparr>rpc_replies := rpc_replies s @ map (\<lambda>(_, channel). (channel, Inl ThreadStopped)) (pending_bridge_calls s),
       pending_bridge_calls := []\<rparr>"

fun run_session_rpc_loop :: "rpc_env \<Rightarrow> session_rpc_command list \<Rightarrow> rpc_state \<Rightarrow> rpc_state" where
  "run_session_rpc_loop env [] s = drop_pending s"
| "run_session_rpc_loop env (RpcShutdown # cs) s = drop_commands cs (drop_pending s)"
| "run_session_rpc_loop env (c # cs) s = run_session_rpc_loop env cs (rpc_step env c s)"

section \<open>Every bridge caller is answered exactly once\<close>

fun command_channels :: "session_rpc_command \<Rightarrow> nat list" where
  "command_channels (ConversationBridgeCall _ channel) = [channel]"
| "command_channels _ = []"

text \<open>The channels accounted for: answered, or waiting in the table.\<close>

definition rpc_channels :: "rpc_state \<Rightarrow> nat multiset" where
  "rpc_channels s = mset (map fst (rpc_replies s)) + mset (map snd (pending_bridge_calls s))"

definition rpc_wf :: "rpc_state \<Rightarrow> bool" where
  "rpc_wf s \<longleftrightarrow> distinct (map fst (pending_bridge_calls s))"

lemma mailbox_append_frame [simp]:
  "pending_bridge_calls (snd (mailbox_append env k r s)) = pending_bridge_calls s"
  "rpc_replies (snd (mailbox_append env k r s)) = rpc_replies s"
  by (simp_all add: mailbox_append_def)

lemma send_event_frame:
  "send_event env e s = (r, s') \<Longrightarrow>
     pending_bridge_calls s' = pending_bridge_calls s \<and> rpc_replies s' = rpc_replies s"
  by (auto simp: send_event_def split: option.splits)

lemma pending_remove_absent: "k \<notin> fst ` set p \<Longrightarrow> pending_remove k p = p"
  by (induction p) (auto simp: pending_remove_def)

lemma pending_remove_channels:
  "distinct (map fst p) \<Longrightarrow> map_of p k = Some c \<Longrightarrow>
     mset (map snd p) = add_mset c (mset (map snd (pending_remove k p)))"
proof (induction p)
  case (Cons x p)
  obtain k' c' where x: "x = (k', c')" by (cases x)
  show ?case
  proof (cases "k' = k")
    case True
    with Cons.prems x have "k \<notin> fst ` set p" "c' = c" by auto
    moreover have "pending_remove k (x # p) = pending_remove k p"
      using True x by (simp add: pending_remove_def)
    ultimately show ?thesis using x pending_remove_absent [of k p] by simp
  next
    case False
    then have "pending_remove k (x # p) = x # pending_remove k p"
      using x by (simp add: pending_remove_def)
    with False Cons x show ?thesis by simp
  qed
qed simp

lemma distinct_pending_remove:
  "distinct (map fst p) \<Longrightarrow> distinct (map fst (pending_remove k p)) \<and> k \<notin> fst ` set (pending_remove k p)"
  by (auto simp: pending_remove_def distinct_map inj_on_def)

lemma pending_insert_accounts:
  assumes "rpc_wf s"
  shows "rpc_wf (pending_insert k c s)" and "rpc_channels (pending_insert k c s) = add_mset c (rpc_channels s)"
proof -
  from assms have d: "distinct (map fst (pending_bridge_calls s))" by (simp add: rpc_wf_def)
  show "rpc_wf (pending_insert k c s)"
    using distinct_pending_remove [OF d, of k] by (simp add: rpc_wf_def pending_insert_def Let_def)
  show "rpc_channels (pending_insert k c s) = add_mset c (rpc_channels s)"
  proof (cases "map_of (pending_bridge_calls s) k")
    case None
    then have "k \<notin> fst ` set (pending_bridge_calls s)" by (simp add: map_of_eq_None_iff)
    with None show ?thesis
      by (simp add: rpc_channels_def pending_insert_def pending_remove_absent)
  next
    case (Some old)
    then show ?thesis
      using pending_remove_channels [OF d Some]
      by (simp add: rpc_channels_def pending_insert_def reply_def)
  qed
qed

lemma handle_conversation_request_accounts:
  assumes "rpc_wf s"
  shows "rpc_wf (handle_conversation_request env r s)"
    and "rpc_channels (handle_conversation_request env r s) = rpc_channels s"
proof -
  from assms have d: "distinct (map fst (pending_bridge_calls s))" by (simp add: rpc_wf_def)
  show "rpc_wf (handle_conversation_request env r s)"
    using d distinct_pending_remove [OF d]
    by (cases r) (auto simp: handle_conversation_request_def rpc_wf_def reply_def split: option.splits)
  show "rpc_channels (handle_conversation_request env r s) = rpc_channels s"
    using pending_remove_channels [OF d]
    by (cases r) (auto simp: handle_conversation_request_def rpc_channels_def reply_def split: option.splits)
qed

lemma rpc_step_accounts:
  assumes "rpc_wf s"
  shows "rpc_wf (rpc_step env c s) \<and>
         rpc_channels (rpc_step env c s) = rpc_channels s + mset (command_channels c)"
proof (cases c)
  case (ConversationBridgeCall request channel)
  obtain r s' where se: "send_event env (HostCoordinationRequested request) s = (r, s')" by fastforce
  from send_event_frame [OF se] assms have wf': "rpc_wf s'" and ch: "rpc_channels s' = rpc_channels s"
    by (simp_all add: rpc_wf_def rpc_channels_def)
  show ?thesis
    using pending_insert_accounts [OF wf'] wf' ch se ConversationBridgeCall
    by (cases r) (auto simp: rpc_step_def rpc_wf_def rpc_channels_def reply_def)
next
  case (FromSession e)
  obtain r s' where "send_event env e s = (r, s')" by fastforce
  with send_event_frame [OF this] assms FromSession show ?thesis
    by (simp add: rpc_step_def rpc_wf_def rpc_channels_def)
qed (use assms handle_conversation_request_accounts [OF assms] in \<open>simp_all add: rpc_step_def\<close>)

lemma drop_pending_replies: "mset (map fst (rpc_replies (drop_pending s))) = rpc_channels s"
  by (simp add: drop_pending_def rpc_channels_def comp_def case_prod_beta)

lemma drop_commands_replies:
  "mset (map fst (rpc_replies (drop_commands cs s))) =
     mset (map fst (rpc_replies s)) + mset (concat (map command_channels cs))"
  by (induction cs s rule: drop_commands.induct) (simp_all add: reply_def)

lemma run_loop_replies:
  "rpc_wf s \<Longrightarrow>
     mset (map fst (rpc_replies (run_session_rpc_loop env cs s))) =
       rpc_channels s + mset (concat (map command_channels cs))"
proof (induction env cs s rule: run_session_rpc_loop.induct)
  case (1 env s)
  show ?case using drop_pending_replies [of s] by simp
next
  case (2 env cs s)
  then show ?case by (simp only: run_session_rpc_loop.simps drop_commands_replies drop_pending_replies) simp
qed (use rpc_step_accounts in \<open>auto simp: ac_simps\<close>)

text \<open>
  C32. No bridge caller is left waiting and none is answered twice: whatever commands the RPC
  thread is given, and however transport and mailbox behave, when the loop has ended the
  replies are exactly one for every bridge call that was sent to it (counting channels with
  multiplicity), also for the calls whose request id was reused, whose event could not be
  sent, or that were still queued at the shutdown.
\<close>

theorem bridge_calls_answered_once:
  "mset (map fst (rpc_replies (run_session_rpc_loop env cs rpc_init))) =
     mset (concat (map command_channels cs))"
  using run_loop_replies [of rpc_init env cs]
  by (simp add: rpc_init_def rpc_wf_def rpc_channels_def)

end
