(* ===== verification/Tool_Protocol.thy ===== *)
theory Tool_Protocol
  imports Session_Rpc
begin

text \<open>
  The tool-call protocol of a message history, from \<open>core/src/session_actor/actor.rs\<close>:
  a provider accepts a request only if every tool call in it is answered by a tool
  result. The functions here find unanswered calls, build the messages that close them,
  and choose where a history that is too large may be cut.
\<close>

section \<open>Definitions\<close>

definition collect_tool_calls :: "chat_message \<Rightarrow> tool_call_item list" where
  "collect_tool_calls message =
     List.map_filter (\<lambda>item. case item of ToolCall tool_call \<Rightarrow> Some tool_call | _ \<Rightarrow> None) (cm_data message)"

text \<open>One iteration of the inner loop of \<open>collect_unclosed_tool_calls\<close>.\<close>

fun unclosed_step ::
  "chat_message_item \<Rightarrow> (string \<rightharpoonup> tool_call_item) \<times> string list \<Rightarrow>
     (string \<rightharpoonup> tool_call_item) \<times> string list" where
  "unclosed_step (ToolCall tool_call) (opn, order) =
     (opn(tc_tool_call_id tool_call \<mapsto> tool_call),
      if opn (tc_tool_call_id tool_call) = None then order @ [tc_tool_call_id tool_call] else order)"
| "unclosed_step (ToolResult tool_result) (opn, order) = (opn(tr_tool_call_id tool_result := None), order)"
| "unclosed_step _ (opn, order) = (opn, order)"

fun take_open :: "string list \<Rightarrow> (string \<rightharpoonup> tool_call_item) \<Rightarrow> tool_call_item list" where
  "take_open [] opn = []"
| "take_open (i # ids) opn =
     (case opn i of None \<Rightarrow> take_open ids opn | Some c \<Rightarrow> c # take_open ids (opn(i := None)))"

definition collect_unclosed_tool_calls :: "chat_message list \<Rightarrow> tool_call_item list" where
  "collect_unclosed_tool_calls messages =
     (let (opn, order) = fold (\<lambda>message. fold unclosed_step (cm_data message)) messages (Map.empty, [])
      in take_open order opn)"

definition count_unclosed_tool_calls :: "chat_message list \<Rightarrow> nat" where
  "count_unclosed_tool_calls messages = length (collect_unclosed_tool_calls messages)"

text \<open>\<open>is_tool_protocol_closed_suffix\<close>; \<open>None\<close> is the early return of \<open>false\<close>.\<close>

fun closed_step :: "chat_message_item \<Rightarrow> string set option \<Rightarrow> string set option" where
  "closed_step _ None = None"
| "closed_step (ToolCall tool_call) (Some opn) = Some (insert (tc_tool_call_id tool_call) opn)"
| "closed_step (ToolResult tool_result) (Some opn) =
     (if tr_tool_call_id tool_result \<in> opn then Some (opn - {tr_tool_call_id tool_result}) else None)"
| "closed_step _ (Some opn) = Some opn"

definition is_tool_protocol_closed_suffix :: "chat_message list \<Rightarrow> bool" where
  "is_tool_protocol_closed_suffix messages =
     (case fold (\<lambda>message. fold closed_step (cm_data message)) messages (Some {}) of
        None \<Rightarrow> False
      | Some opn \<Rightarrow> opn = {})"

definition request_too_large_prune_start :: "chat_message list \<Rightarrow> nat option" where
  "request_too_large_prune_start messages =
     (if length messages \<le> 1 then None
      else find (\<lambda>start. is_tool_protocol_closed_suffix (drop start messages))
             [max (length messages div 2) 1 ..< length messages])"

definition tool_error_content :: "string \<Rightarrow> tool_result_content" where
  "tool_error_content error = from_json (JObject [(''error'', JString error)])"

definition tool_error_result_for_tool_call :: "tool_call_item \<Rightarrow> string \<Rightarrow> tool_result_item" where
  "tool_error_result_for_tool_call tool_call error =
     \<lparr>tr_tool_call_id = tc_tool_call_id tool_call, tr_tool_name = tc_tool_name tool_call,
      tr_result = tool_error_content error\<rparr>"

definition tool_error_result_for_operation :: "tool_batch_operation \<Rightarrow> string \<Rightarrow> tool_result_item" where
  "tool_error_result_for_operation operation error =
     (let tool_call = item_tool_call (op_item operation)
      in \<lparr>tr_tool_call_id = tc_tool_call_id tool_call, tr_tool_name = tc_tool_name tool_call,
          tr_result = tool_error_content error\<rparr>)"

definition tool_error_message_for_operations ::
  "string \<Rightarrow> tool_batch_operation list \<Rightarrow> string \<Rightarrow> chat_message" where
  "tool_error_message_for_operations fresh_id operations error =
     chat_message_new fresh_id Assistant
       (map (\<lambda>operation. ToolResult (tool_error_result_for_operation operation error)) operations)"

definition append_message_should_defer_compression :: "string \<Rightarrow> chat_message \<Rightarrow> bool" where
  "append_message_should_defer_compression phase message \<longleftrightarrow>
     starts_with ''tool_result'' phase \<or>
     (\<exists>item \<in> set (cm_data message). case item of ToolCall _ \<Rightarrow> True | _ \<Rightarrow> False)"

definition restored_history_needs_continuation :: "chat_message list \<Rightarrow> bool" where
  "restored_history_needs_continuation history =
     (if history = [] then False
      else cm_role (last history) = User \<or>
        (\<exists>item \<in> set (cm_data (last history)).
           case item of ToolCall _ \<Rightarrow> True | ToolResult _ \<Rightarrow> True | _ \<Rightarrow> False))"

section \<open>What an unclosed call is\<close>

text \<open>
  The specification: a call identifier is open after a sequence of items if the last
  item that mentions it is a call; \<open>last_open\<close> is that call.
\<close>

fun item_call_id :: "chat_message_item \<Rightarrow> string option" where
  "item_call_id (ToolCall c) = Some (tc_tool_call_id c)"
| "item_call_id (ToolResult r) = Some (tr_tool_call_id r)"
| "item_call_id _ = None"

definition last_open :: "chat_message_item list \<Rightarrow> string \<Rightarrow> tool_call_item option" where
  "last_open items i =
     (case find (\<lambda>item. item_call_id item = Some i) (rev items) of
        Some (ToolCall c) \<Rightarrow> Some c
      | _ \<Rightarrow> None)"

definition items_of :: "chat_message list \<Rightarrow> chat_message_item list" where
  "items_of messages = concat (map cm_data messages)"

lemma items_of_simps [simp]:
  "items_of [] = []"
  "items_of (m # ms) = cm_data m @ items_of ms"
  "items_of (ms @ ns) = items_of ms @ items_of ns"
  by (simp_all add: items_of_def)

lemma fold_items: "fold (\<lambda>message. fold f (cm_data message)) messages s = fold f (items_of messages) s"
  by (induction messages arbitrary: s) simp_all

lemma last_open_Nil [simp]: "last_open [] i = None"
  by (simp add: last_open_def)

lemma last_open_snoc:
  "last_open (items @ [x]) i =
     (if item_call_id x = Some i then (case x of ToolCall c \<Rightarrow> Some c | _ \<Rightarrow> None) else last_open items i)"
  by (simp add: last_open_def split: chat_message_item.splits)

lemma last_open_append:
  "last_open (xs @ ys) i =
     (if \<exists>y \<in> set ys. item_call_id y = Some i then last_open ys i else last_open xs i)"
proof (induction ys rule: rev_induct)
  case (snoc y ys)
  then show ?case
    using last_open_snoc [of "xs @ ys" y i] last_open_snoc [of ys y i] by auto
qed simp

lemma last_open_Some: "last_open items i = Some c \<Longrightarrow> ToolCall c \<in> set items \<and> tc_tool_call_id c = i"
  by (induction items rule: rev_induct)
    (auto simp: last_open_snoc split: if_splits chat_message_item.splits)

lemma last_open_snoc_fun:
  "last_open (items @ [ToolCall c]) = (last_open items)(tc_tool_call_id c \<mapsto> c)"
  "last_open (items @ [ToolResult r]) = (last_open items)(tr_tool_call_id r := None)"
  "item_call_id x = None \<Longrightarrow> last_open (items @ [x]) = last_open items"
  by (rule ext, simp add: last_open_snoc)+

lemma unclosed_fold:
  assumes "fold unclosed_step items (Map.empty, []) = (opn, order)"
  shows "opn = last_open items \<and> dom (last_open items) \<subseteq> set order"
  using assms
proof (induction items arbitrary: opn order rule: rev_induct)
  case Nil
  then show ?case by (simp add: last_open_def fun_eq_iff dom_def)
next
  case (snoc x items)
  obtain r' where f: "fold unclosed_step items (Map.empty, []) = (last_open items, r')"
    and d: "dom (last_open items) \<subseteq> set r'"
    using snoc.IH by (metis surj_pair)
  have s: "unclosed_step x (last_open items, r') = (opn, order)" using snoc.prems f by simp
  have d': "t \<in> set r'" if "last_open items t = Some c" for t c using d that by blast
  show ?case
    using s by (cases x) (auto simp: last_open_snoc_fun split: if_splits dest: d')
qed

lemma set_take_open:
  assumes "\<And>i c. opn i = Some c \<Longrightarrow> tc_tool_call_id c = i"
  shows "set (take_open ids opn) = {c. \<exists>i \<in> set ids. opn i = Some c}"
  using assms
proof (induction ids arbitrary: opn)
  case (Cons i ids)
  show ?case
  proof (cases "opn i")
    case None
    with Cons.IH [OF Cons.prems] show ?thesis by auto
  next
    case (Some c)
    have "set (take_open ids (opn(i := None))) = {d. \<exists>j \<in> set ids. (opn(i := None)) j = Some d}"
      by (rule Cons.IH) (auto simp: Cons.prems split: if_splits)
    then have "set (take_open (i # ids) opn) = insert c {d. \<exists>j \<in> set ids. j \<noteq> i \<and> opn j = Some d}"
      using Some by auto
    also have "\<dots> = {d. \<exists>j \<in> set (i # ids). opn j = Some d}"
    proof (rule set_eqI)
      fix d
      show "d \<in> insert c {d. \<exists>j \<in> set ids. j \<noteq> i \<and> opn j = Some d} \<longleftrightarrow>
          d \<in> {d. \<exists>j \<in> set (i # ids). opn j = Some d}"
        using Some by (cases "d = c") (auto, metis option.inject)
    qed
    finally show ?thesis .
  qed
qed simp

lemma distinct_take_open:
  assumes "\<And>i c. opn i = Some c \<Longrightarrow> tc_tool_call_id c = i"
  shows "distinct (map tc_tool_call_id (take_open ids opn))"
  using assms
proof (induction ids arbitrary: opn)
  case (Cons i ids)
  show ?case
  proof (cases "opn i")
    case None
    with Cons.IH [OF Cons.prems] show ?thesis by simp
  next
    case (Some c)
    have *: "\<And>j d. (opn(i := None)) j = Some d \<Longrightarrow> tc_tool_call_id d = j"
      by (auto simp: Cons.prems split: if_splits)
    have d: "distinct (map tc_tool_call_id (take_open ids (opn(i := None))))"
      using * by (rule Cons.IH)
    have ne: "tc_tool_call_id d \<noteq> i" if "d \<in> set (take_open ids (opn(i := None)))" for d
    proof -
      have "set (take_open ids (opn(i := None))) = {d. \<exists>j \<in> set ids. (opn(i := None)) j = Some d}"
        using * by (rule set_take_open)
      with that obtain j where "(opn(i := None)) j = Some d" by blast
      then show ?thesis using * [of j d] by (auto split: if_splits)
    qed
    have "tc_tool_call_id c \<notin> tc_tool_call_id ` set (take_open ids (opn(i := None)))"
      unfolding Cons.prems [OF Some] using ne by (metis imageE)
    with d show ?thesis using Some by simp
  qed
qed simp

lemma collect_unclosed_set:
  "set (collect_unclosed_tool_calls messages) = {c. \<exists>i. last_open (items_of messages) i = Some c}"
  and collect_unclosed_distinct: "distinct (map tc_tool_call_id (collect_unclosed_tool_calls messages))"
proof -
  obtain opn order where f: "fold unclosed_step (items_of messages) (Map.empty, []) = (opn, order)"
    by fastforce
  from unclosed_fold [OF f]
  have o: "opn = last_open (items_of messages)" "dom (last_open (items_of messages)) \<subseteq> set order" by auto
  then have id: "\<And>i c. opn i = Some c \<Longrightarrow> tc_tool_call_id c = i" using last_open_Some by blast
  have eq: "collect_unclosed_tool_calls messages = take_open order opn"
    by (simp add: collect_unclosed_tool_calls_def fold_items f)
  show "distinct (map tc_tool_call_id (collect_unclosed_tool_calls messages))"
    unfolding eq using id by (rule distinct_take_open)
  show "set (collect_unclosed_tool_calls messages) = {c. \<exists>i. last_open (items_of messages) i = Some c}"
  proof -
    have "set (take_open order opn) = {c. \<exists>i \<in> set order. opn i = Some c}"
      using id by (rule set_take_open)
    then show ?thesis using o by (auto simp: eq)
  qed
qed

section \<open>What a closed suffix is\<close>

text \<open>
  A sequence of items is closed if every tool result answers a call that is open at that
  point and no call is open at the end.
\<close>

definition answers_open :: "chat_message_item list \<Rightarrow> bool" where
  "answers_open items \<longleftrightarrow>
     (\<forall>before r after. items = before @ ToolResult r # after \<longrightarrow>
        last_open before (tr_tool_call_id r) \<noteq> None)"

definition closed_items :: "chat_message_item list \<Rightarrow> bool" where
  "closed_items items \<longleftrightarrow> answers_open items \<and> (\<forall>i. last_open items i = None)"

lemma answers_open_snoc:
  "answers_open (items @ [x]) \<longleftrightarrow>
     answers_open items \<and> (\<forall>r. x = ToolResult r \<longrightarrow> last_open items (tr_tool_call_id r) \<noteq> None)"
  (is "?l \<longleftrightarrow> ?a \<and> ?b")
proof
  assume l: ?l
  have "?a" unfolding answers_open_def
  proof (intro allI impI)
    fix before r after
    assume "items = before @ ToolResult r # after"
    then have "items @ [x] = before @ ToolResult r # (after @ [x])" by simp
    with l show "last_open before (tr_tool_call_id r) \<noteq> None" unfolding answers_open_def by blast
  qed
  moreover have ?b using l unfolding answers_open_def by blast
  ultimately show "?a \<and> ?b" ..
next
  assume r: "?a \<and> ?b"
  show ?l unfolding answers_open_def
  proof (intro allI impI)
    fix before r' after
    assume eq: "items @ [x] = before @ ToolResult r' # after"
    show "last_open before (tr_tool_call_id r') \<noteq> None"
    proof (cases after rule: rev_cases)
      case Nil
      with eq r show ?thesis by auto
    next
      case (snoc ys y)
      with eq have "items = before @ ToolResult r' # ys" by simp
      with r show ?thesis unfolding answers_open_def by blast
    qed
  qed
qed

lemma closed_fold:
  "fold closed_step items (Some {}) = (if answers_open items then Some (dom (last_open items)) else None)"
proof (induction items rule: rev_induct)
  case Nil
  then show ?case by (simp add: answers_open_def last_open_def dom_def)
next
  case (snoc x items)
  then show ?case
    by (cases x) (auto simp: answers_open_snoc last_open_snoc_fun split: if_splits)
qed

lemma closed_suffix_iff: "is_tool_protocol_closed_suffix messages \<longleftrightarrow> closed_items (items_of messages)"
  by (auto simp: is_tool_protocol_closed_suffix_def fold_items closed_fold closed_items_def dom_def)

lemma closed_suffixD: "is_tool_protocol_closed_suffix messages \<Longrightarrow> collect_unclosed_tool_calls messages = []"
  using collect_unclosed_set [of messages] by (simp add: closed_suffix_iff closed_items_def)

text \<open>A message of results closes a history when it answers every open call.\<close>

lemma results_close:
  assumes "cm_data m = map ToolResult results"
    and "tc_tool_call_id ` set (collect_unclosed_tool_calls h) \<subseteq> tr_tool_call_id ` set results"
  shows "collect_unclosed_tool_calls (h @ [m]) = []"
proof -
  have res: "last_open (map ToolResult rs) i = None" for rs i
    by (induction rs rule: rev_induct) (simp_all add: last_open_snoc)
  have "last_open (items_of (h @ [m])) i = None" for i
  proof (cases "last_open (items_of h) i")
    case None
    then show ?thesis using assms(1) by (simp add: last_open_append res)
  next
    case (Some c)
    then have "i \<in> tc_tool_call_id ` set (collect_unclosed_tool_calls h)"
      by (auto simp: collect_unclosed_set dest: last_open_Some)
    then have "i \<in> tr_tool_call_id ` set results" using assms(2) by blast
    then have "\<exists>y \<in> set (cm_data m). item_call_id y = Some i" using assms(1) by auto
    then show ?thesis using assms(1) by (simp add: last_open_append res)
  qed
  then show ?thesis using collect_unclosed_set [of "h @ [m]"] by auto
qed

lemma answers_open_append:
  "answers_open xs \<Longrightarrow> answers_open ys \<Longrightarrow> answers_open (xs @ ys)"
proof (induction ys rule: rev_induct)
  case (snoc y ys)
  have "last_open (xs @ ys) (tr_tool_call_id r) \<noteq> None" if "y = ToolResult r" for r
  proof -
    from that snoc.prems have "last_open ys (tr_tool_call_id r) \<noteq> None"
      by (simp add: answers_open_snoc)
    then show ?thesis using last_open_Some [of ys "tr_tool_call_id r"]
      by (fastforce simp: last_open_append)
  qed
  then show ?case using snoc by (simp add: answers_open_snoc flip: append_assoc)
qed simp

lemma closed_items_append: "closed_items xs \<Longrightarrow> closed_items ys \<Longrightarrow> closed_items (xs @ ys)"
  by (simp add: closed_items_def answers_open_append last_open_append)

section \<open>Properties\<close>

text \<open>
  \<open>collect_unclosed_tool_calls\<close> returns exactly the calls that still need an answer: a
  call is in the result if and only if it is the last item of the history that mentions its
  identifier, and no identifier occurs twice in the result, whatever the order and the
  repetition of calls and results in the history.
\<close>

theorem unclosed_calls_exact:
  "set (collect_unclosed_tool_calls messages) = {c. \<exists>i. last_open (items_of messages) i = Some c} \<and>
   distinct (map tc_tool_call_id (collect_unclosed_tool_calls messages))"
  by (simp add: collect_unclosed_set collect_unclosed_distinct)

text \<open>
  \<open>is_tool_protocol_closed_suffix\<close> decides the protocol condition: it accepts a
  suffix if and only if each tool result in it answers a call that is open at that point
  (no orphaned result) and no call is open at its end.
\<close>

theorem closed_suffix_decides:
  "is_tool_protocol_closed_suffix messages =
     (answers_open (items_of messages) \<and> dom (last_open (items_of messages)) = {})"
  by (auto simp: closed_suffix_iff closed_items_def dom_def)

text \<open>A call and its result.\<close>

definition sample_call :: chat_message where
  "sample_call = chat_message_new ''b'' Assistant
     [ToolCall \<lparr>tc_item_id = None, tc_tool_call_id = ''t'', tc_tool_name = ''shell'', tc_arguments = \<lparr>ci_text = []\<rparr>\<rparr>]"

definition sample_result :: chat_message where
  "sample_result = chat_message_new ''r'' User
     [ToolResult \<lparr>tr_tool_call_id = ''t'', tr_tool_name = ''shell'',
        tr_result = \<lparr>trc_structured = Some (JString ''ok''), trc_files = []\<rparr>\<rparr>]"

text \<open>
  C31. When a request is too large and a cut is found, the cut keeps at most half of the
  messages (rounded up) and at least one, what is kept satisfies the tool protocol and has
  no unclosed call, and no earlier admissible cut would have kept more.
\<close>

theorem prune_start_sound:
  assumes "request_too_large_prune_start messages = Some start"
  shows "0 < start \<and> start < length messages \<and>
         2 * length (drop start messages) \<le> length messages + 1 \<and>
         is_tool_protocol_closed_suffix (drop start messages) \<and>
         collect_unclosed_tool_calls (drop start messages) = [] \<and>
         (\<forall>k. max (length messages div 2) 1 \<le> k \<and> k < start \<longrightarrow>
            \<not> is_tool_protocol_closed_suffix (drop k messages))"
proof -
  let ?m = "max (length messages div 2) 1"
  from assms have f: "find (\<lambda>k. is_tool_protocol_closed_suffix (drop k messages)) [?m ..< length messages] = Some start"
    by (simp add: request_too_large_prune_start_def split: if_splits)
  obtain i where i: "i < length [?m ..< length messages]" "start = [?m ..< length messages] ! i"
      and c: "is_tool_protocol_closed_suffix (drop start messages)"
      and before: "\<forall>j < i. \<not> is_tool_protocol_closed_suffix (drop ([?m ..< length messages] ! j) messages)"
    using f unfolding find_Some_iff by blast
  then have i': "start = ?m + i" "?m + i < length messages" by auto
  have "\<not> is_tool_protocol_closed_suffix (drop k messages)" if "?m \<le> k" "k < start" for k
    using before [rule_format, of "k - ?m"] that i' by simp
  then show ?thesis using i' c closed_suffixD [OF c] by auto
qed

theorem prune_start_sound_witness:
  "let messages = [chat_message_new ''a'' User [], sample_call, sample_result, chat_message_new ''d'' User []]
   in request_too_large_prune_start messages = Some 3 \<and>
      is_tool_protocol_closed_suffix (drop 3 messages) \<and> \<not> is_tool_protocol_closed_suffix (drop 2 messages)"
proof -
  have "request_too_large_prune_start
      [chat_message_new ''a'' User [], sample_call, sample_result, chat_message_new ''d'' User []] = Some 3"
    by code_simp
  with prune_start_sound [OF this] show ?thesis by (auto dest!: spec [of _ 2])
qed

end
