(* ===== verification/Provider_Session.thy ===== *)
theory Provider_Session
  imports Tool_Protocol
begin

text \<open>
  Model of \<open>core/src/providers/mod.rs\<close>: provider errors and their classification, requests,
  the retry loop, the default message normalization, and the thread that owns a provider
  session (\<open>direct_provider_session_loop\<close>). The wire protocols of the individual providers
  are outside this file; a backend is represented by the results it returns.
\<close>

section \<open>Errors\<close>

datatype provider_failure_kind =
    RequestTooLarge | RateLimited | Authentication | Permission | CyberPolicy
  | ProviderUnavailable | UnknownFailure

text \<open>The errors of foreign types (HTTP client, JSON, output persistor) are carried as their text.\<close>

datatype provider_error =
    MissingApiKeyEnv string
  | BuildHttpClient string
  | Request string
  | HttpStatus string nat string
  | DecodeResponse string
  | DecodeJson string
  | InvalidResponse string
  | ProviderFailure provider_failure_kind string string
  | WebSocket string
  | PersistOutput string
  | EmptyChoices
  | Subprocess string

fun failure_kind_label :: "provider_failure_kind \<Rightarrow> string" where
  "failure_kind_label RequestTooLarge = ''request_too_large''"
| "failure_kind_label RateLimited = ''rate_limited''"
| "failure_kind_label Authentication = ''authentication''"
| "failure_kind_label Permission = ''permission''"
| "failure_kind_label CyberPolicy = ''cyber_policy''"
| "failure_kind_label ProviderUnavailable = ''provider_unavailable''"
| "failure_kind_label UnknownFailure = ''unknown''"

fun provider_error_text :: "provider_error \<Rightarrow> string" where
  "provider_error_text (MissingApiKeyEnv v) = ''missing api key in environment variable '' @ v"
| "provider_error_text (BuildHttpClient e) = ''http client build failed: '' @ e"
| "provider_error_text (Request e) = ''request failed: '' @ e"
| "provider_error_text (HttpStatus url status body) =
     ''request to '' @ url @ '' failed with status '' @ show_nat status @ '': '' @ body"
| "provider_error_text (DecodeResponse e) = ''response body parse failed: '' @ e"
| "provider_error_text (DecodeJson e) = ''response json parse failed: '' @ e"
| "provider_error_text (InvalidResponse e) = ''invalid provider response: '' @ e"
| "provider_error_text (ProviderFailure kind message body) =
     ''provider rejected request as '' @ failure_kind_label kind @ '': '' @ message"
| "provider_error_text (WebSocket e) = ''websocket provider request failed: '' @ e"
| "provider_error_text (PersistOutput e) = ''failed to persist provider output: '' @ e"
| "provider_error_text EmptyChoices = ''provider response did not include any completion choices''"
| "provider_error_text (Subprocess e) = ''provider request isolation failed: '' @ e"

fun is_transient :: "provider_error \<Rightarrow> bool" where
  "is_transient (Request _) = True"
| "is_transient (WebSocket _) = True"
| "is_transient (Subprocess _) = True"
| "is_transient (HttpStatus _ status _) = (status = 429 \<or> 500 \<le> status \<and> status \<le> 599)"
| "is_transient (ProviderFailure kind _ _) = (kind \<in> {RateLimited, ProviderUnavailable, UnknownFailure})"
| "is_transient _ = False"

definition request_too_large_phrases :: "string list" where
  "request_too_large_phrases =
     [''request_too_large'', ''request too large'', ''request exceeds the maximum size'',
      ''exceeds the maximum size'', ''payload too large'', ''message too big'', ''close_code=size'',
      ''close code: size'', ''closecode::size'', ''1009'', ''context_length_exceeded'',
      ''maximum context length'', ''context window'', ''prompt is too long'', ''input is too long'',
      ''code\":413'', ''code\": 413'', ''code:413'', ''code: 413'', ''status 413'']"

definition request_too_large_text :: "string \<Rightarrow> bool" where
  "request_too_large_text message \<longleftrightarrow>
     list_ex (\<lambda>p. str_contains p (to_ascii_lowercase message)) request_too_large_phrases"

definition cyber_policy_phrases :: "string list" where
  "cyber_policy_phrases =
     [''cyberpolicy'', ''cyber_policy'', ''cyber policy'', ''possible cybersecurity risk'',
      ''cybersecurity risk'', ''trusted access for cyber'', ''chatgpt.com/cyber'']"

definition cyber_policy_text :: "string \<Rightarrow> bool" where
  "cyber_policy_text message \<longleftrightarrow>
     list_ex (\<lambda>p. str_contains p (to_ascii_lowercase message)) cyber_policy_phrases"

fun is_request_too_large :: "provider_error \<Rightarrow> bool" where
  "is_request_too_large (ProviderFailure kind _ _) = (kind = RequestTooLarge)"
| "is_request_too_large (HttpStatus _ status body) = (status = 413 \<or> request_too_large_text body)"
| "is_request_too_large (Request message) = request_too_large_text message"
| "is_request_too_large (InvalidResponse message) = request_too_large_text message"
| "is_request_too_large (WebSocket message) = request_too_large_text message"
| "is_request_too_large (Subprocess message) = request_too_large_text message"
| "is_request_too_large _ = False"

fun is_cyber_policy :: "provider_error \<Rightarrow> bool" where
  "is_cyber_policy (ProviderFailure kind _ _) = (kind = CyberPolicy)"
| "is_cyber_policy (HttpStatus _ _ body) = cyber_policy_text body"
| "is_cyber_policy (Request body) = cyber_policy_text body"
| "is_cyber_policy (InvalidResponse body) = cyber_policy_text body"
| "is_cyber_policy (WebSocket body) = cyber_policy_text body"
| "is_cyber_policy (Subprocess body) = cyber_policy_text body"
| "is_cyber_policy _ = False"

section \<open>Requests and events\<close>

datatype provider_compaction_mode = Builtin | Summary | SummaryWithMemory

record provider_request =
  prq_system_prompt :: "string option"
  prq_messages :: "chat_message list"
  prq_tools :: "tool_definition list"
  prq_image_edit_mask :: "file_item option"
  prq_image_size :: "string option"
  prq_reset_incremental_context :: bool

definition provider_request_new :: "chat_message list \<Rightarrow> provider_request" where
  "provider_request_new messages =
     \<lparr>prq_system_prompt = None, prq_messages = messages, prq_tools = [], prq_image_edit_mask = None,
      prq_image_size = None, prq_reset_incremental_context = False\<rparr>"

datatype provider_stream_event =
    KeepAlive
  | OutputTextDelta "string option" string
  | ToolCallInputDelta string "string option" "string option" string
  | ReasoningSummaryDelta "string option" string int
  | ReasoningSummaryPartAdded "string option" int
  | RawJson json

datatype provider_event =
    Stream string provider_stream_event
  | Retry string nat nat nat string
  | ResultEvent string "provider_error + chat_message"

text \<open>\<open>normalize_compaction_for_generic_provider\<close>: summaries become user messages.\<close>

definition normalize_compaction_message :: "chat_message \<Rightarrow> chat_message option" where
  "normalize_compaction_message message =
     (if cm_role message \<noteq> Compaction_role then Some message
      else
        (let items = List.map_filter
               (\<lambda>item. case item of
                   Compaction compaction \<Rightarrow>
                     map_option (\<lambda>t. Context \<lparr>ci_text = t\<rparr>)
                       (filter_option (\<lambda>t. trim t \<noteq> []) (generic_summary_text compaction))
                 | _ \<Rightarrow> None) (cm_data message)
         in if items = [] then None
            else Some (message\<lparr>cm_role := User, cm_turn_id := None, cm_step_index := None,
                               cm_message_part := None, cm_data := items\<rparr>)))"

definition normalize_compaction_for_generic_provider :: "chat_message list \<Rightarrow> chat_message list" where
  "normalize_compaction_for_generic_provider messages = List.map_filter normalize_compaction_message messages"

section \<open>Retries\<close>

fun retry_mode_max_retries :: "retry_mode \<Rightarrow> nat" where
  "retry_mode_max_retries Once = 0"
| "retry_mode_max_retries (RandomInterval interval retries) = retries"

text \<open>The delay drawn is the argument \<open>sleep_secs\<close>; only whether there is one matters below.\<close>

fun transient_provider_retry_delay :: "retry_mode \<Rightarrow> nat \<Rightarrow> nat \<Rightarrow> nat option" where
  "transient_provider_retry_delay Once retries_used sleep_secs = None"
| "transient_provider_retry_delay (RandomInterval interval retries) retries_used sleep_secs =
     (if retries_used \<ge> retries then None
      else Some (if interval = 0 then 0 else sleep_secs))"

lemma retry_delay_Some:
  "transient_provider_retry_delay mode used secs = Some d \<Longrightarrow> used < retry_mode_max_retries mode"
  by (cases mode) (auto split: if_splits)

lemma retry_delay_None:
  "transient_provider_retry_delay mode used secs = None \<Longrightarrow> retry_mode_max_retries mode \<le> used"
  by (cases mode) (auto split: if_splits)

text \<open>
  The retry loop: \<open>send n\<close> is the outcome of the n-th attempt and \<open>sleep n\<close> the delay drawn
  after it. The result comes with the retries reported to \<open>on_retry\<close>. The counter stays
  below the maximal number of retries, a \<open>u64\<close>, so its saturation is never reached.
\<close>

function send_provider_request_with_retry ::
  "retry_mode \<Rightarrow> (nat \<Rightarrow> provider_error + chat_message) \<Rightarrow> (nat \<Rightarrow> nat) \<Rightarrow> nat \<Rightarrow>
     (provider_error + chat_message) \<times> (nat \<times> nat \<times> nat \<times> provider_error) list" where
  "send_provider_request_with_retry mode send sleep retries_used =
     (case send retries_used of
        Inr response \<Rightarrow> (Inr response, [])
      | Inl error \<Rightarrow>
          (if is_transient error then
             (case transient_provider_retry_delay mode retries_used (sleep retries_used) of
                None \<Rightarrow> (Inl error, [])
              | Some delay \<Rightarrow>
                  (case send_provider_request_with_retry mode send sleep (Suc retries_used) of
                     (result, retries) \<Rightarrow>
                       (result, (Suc retries_used, retry_mode_max_retries mode, delay, error) # retries)))
           else (Inl error, [])))"
  by pat_completeness auto
termination
  by (relation "measure (\<lambda>(mode, _, _, used). retry_mode_max_retries mode - used)")
    (auto dest: retry_delay_Some)

declare send_provider_request_with_retry.simps [simp del]

section \<open>The session thread\<close>

text \<open>
  A command that expects an answer returns it. \<open>StartCurrent\<close> carries the outcome of
  spawning the worker (\<open>None\<close>, or the error of \<open>start_provider_session_request\<close>), and
  \<open>Compact\<close> the answer of the backend. Stream and retry events are sent by the worker
  itself; \<open>Completion\<close> is its final message, which arrives on its own channel.
\<close>

datatype provider_input =
    Set_context provider_request
  | Append "chat_message list"
  | StartCurrent string "provider_error option"
  | Compact provider_request "provider_error + chat_message list option"
  | Abort
  | Shutdown_session
  | WorkerEvent provider_event
  | Completion string "provider_error + chat_message"

datatype provider_reply =
    Done
  | Failed provider_error
  | Compacted "chat_message list option"

record provider_session =
  psn_active :: "string option"
  psn_context :: "provider_request option"
  psn_events :: "provider_event list"
  psn_cancelled :: "string list"
  psn_stopped :: bool

definition provider_session_new :: provider_session where
  "provider_session_new =
     \<lparr>psn_active = None, psn_context = None, psn_events = [], psn_cancelled = [], psn_stopped = False\<rparr>"

definition busy_error :: provider_error where
  "busy_error = Subprocess ''provider session is busy''"

definition context_not_set_error :: provider_error where
  "context_not_set_error = Subprocess ''provider context is not set''"

definition cancelled_error :: provider_error where
  "cancelled_error = Subprocess ''provider request cancelled''"

definition push_event :: "provider_event \<Rightarrow> provider_session \<Rightarrow> provider_session" where
  "push_event e s = s\<lparr>psn_events := psn_events s @ [e]\<rparr>"

fun provider_session_step :: "provider_input \<Rightarrow> provider_session \<Rightarrow> provider_reply option \<times> provider_session" where
  "provider_session_step (Set_context request) s =
     (if psn_active s \<noteq> None then (Some (Failed busy_error), s)
      else (Some Done, s\<lparr>psn_context := Some request\<rparr>))"
| "provider_session_step (Append messages) s =
     (if psn_active s \<noteq> None then (Some (Failed busy_error), s)
      else case psn_context s of
        Some context \<Rightarrow>
          (Some Done, s\<lparr>psn_context := Some (context\<lparr>prq_messages := prq_messages context @ messages\<rparr>)\<rparr>)
      | None \<Rightarrow> (Some (Failed context_not_set_error), s))"
| "provider_session_step (StartCurrent request_id started) s =
     (if psn_active s \<noteq> None then (None, push_event (ResultEvent request_id (Inl busy_error)) s)
      else case psn_context s of
        None \<Rightarrow> (None, push_event (ResultEvent request_id (Inl context_not_set_error)) s)
      | Some request \<Rightarrow>
          (case started of
             None \<Rightarrow> (None, s\<lparr>psn_active := Some request_id\<rparr>)
           | Some error \<Rightarrow> (None, push_event (ResultEvent request_id (Inl error)) s)))"
| "provider_session_step (Compact request answer) s =
     (if psn_active s \<noteq> None then (Some (Failed busy_error), s)
      else (Some (case answer of Inl error \<Rightarrow> Failed error | Inr ms \<Rightarrow> Compacted ms), s))"
| "provider_session_step Abort s =
     (case psn_active s of
        None \<Rightarrow> (None, s)
      | Some request_id \<Rightarrow>
          (None, push_event (ResultEvent request_id (Inl cancelled_error))
             (s\<lparr>psn_active := None, psn_cancelled := psn_cancelled s @ [request_id]\<rparr>)))"
| "provider_session_step Shutdown_session s =
     (None, s\<lparr>psn_active := None, psn_stopped := True,
              psn_cancelled := psn_cancelled s @ (case psn_active s of None \<Rightarrow> [] | Some i \<Rightarrow> [i])\<rparr>)"
| "provider_session_step (WorkerEvent e) s =
     (None, case e of ResultEvent _ _ \<Rightarrow> s | _ \<Rightarrow> push_event e s)"
| "provider_session_step (Completion request_id result) s =
     (if psn_active s = Some request_id
      then (None, push_event (ResultEvent request_id result) (s\<lparr>psn_active := None\<rparr>))
      else (None, s))"

fun provider_session_run :: "provider_input list \<Rightarrow> provider_session \<Rightarrow> provider_session" where
  "provider_session_run [] s = s"
| "provider_session_run (i # inputs) s =
     (if psn_stopped s then s else provider_session_run inputs (snd (provider_session_step i s)))"

section \<open>Laws\<close>

lemma retry_attempts:
  "send_provider_request_with_retry mode send sleep used = (r, retries) \<Longrightarrow>
     length retries \<le> retry_mode_max_retries mode - used \<and>
     send (used + length retries) = r \<and>
     (\<forall>e. r = Inl e \<and> is_transient e \<longrightarrow> length retries = retry_mode_max_retries mode - used) \<and>
     (\<forall>k < length retries. \<exists>e. send (used + k) = Inl e \<and> is_transient e)"
proof (induction mode send sleep used arbitrary: r retries rule: send_provider_request_with_retry.induct)
  case (1 mode send sleep used)
  show ?case
  proof (cases "send used")
    case (Inl e)
    show ?thesis
    proof (cases "is_transient e \<and> transient_provider_retry_delay mode used (sleep used) \<noteq> None")
      case True
      then obtain d where d: "transient_provider_retry_delay mode used (sleep used) = Some d" by auto
      obtain r' rs where rec: "send_provider_request_with_retry mode send sleep (Suc used) = (r', rs)"
        by fastforce
      have eq: "r = r'" "retries = (Suc used, retry_mode_max_retries mode, d, e) # rs"
        using "1.prems" Inl True d rec
        by (simp_all add: send_provider_request_with_retry.simps [of mode send sleep used])
      have IH: "length rs \<le> retry_mode_max_retries mode - Suc used" "send (Suc used + length rs) = r'"
        "\<forall>k < length rs. \<exists>e. send (Suc used + k) = Inl e \<and> is_transient e"
        "\<forall>e. r' = Inl e \<and> is_transient e \<longrightarrow> length rs = retry_mode_max_retries mode - Suc used"
        using "1.IH" [OF Inl _ d] True rec by auto
      have "\<exists>e. send (used + k) = Inl e \<and> is_transient e" if "k < Suc (length rs)" for k
        using that IH(3) Inl True by (cases k) auto
      then show ?thesis using eq IH(1,2,4) retry_delay_Some [OF d] by auto
    next
      case False
      with "1.prems" Inl show ?thesis
        by (auto simp: send_provider_request_with_retry.simps [of mode send sleep used]
            split: if_splits option.splits dest: retry_delay_None)
    qed
  next
    case (Inr m)
    with "1.prems" show ?thesis
      by (auto simp: send_provider_request_with_retry.simps [of mode send sleep used])
  qed
qed

text \<open>How often a request was started, and how often it was answered.\<close>

definition starts :: "string \<Rightarrow> provider_input list \<Rightarrow> nat" where
  "starts r inputs = length (filter (\<lambda>i. case i of StartCurrent r' _ \<Rightarrow> r' = r | _ \<Rightarrow> False) inputs)"

definition answers :: "string \<Rightarrow> provider_session \<Rightarrow> nat" where
  "answers r s = length (filter (\<lambda>e. case e of ResultEvent r' _ \<Rightarrow> r' = r | _ \<Rightarrow> False) (psn_events s))"

definition outstanding :: "string \<Rightarrow> provider_session \<Rightarrow> nat" where
  "outstanding r s = (if psn_active s = Some r then 1 else 0)"

lemma provider_session_step_accounts:
  assumes "i \<noteq> Shutdown_session"
  shows "answers r (snd (provider_session_step i s)) + outstanding r (snd (provider_session_step i s)) =
         answers r s + outstanding r s + starts r [i]"
  using assms
  by (cases i)
    (auto simp: answers_def outstanding_def starts_def push_event_def
      split: option.splits sum.splits provider_event.splits)

lemma provider_session_step_stopped:
  "i \<noteq> Shutdown_session \<Longrightarrow> psn_stopped (snd (provider_session_step i s)) = psn_stopped s"
  by (cases i) (auto simp: push_event_def split: option.splits sum.splits provider_event.splits)

lemma provider_session_run_accounts:
  "Shutdown_session \<notin> set inputs \<Longrightarrow> \<not> psn_stopped s \<Longrightarrow>
     answers r (provider_session_run inputs s) + outstanding r (provider_session_run inputs s) =
       answers r s + outstanding r s + starts r inputs"
proof (induction inputs arbitrary: s)
  case (Cons i inputs)
  then have i: "i \<noteq> Shutdown_session" by auto
  have "starts r (i # inputs) = starts r [i] + starts r inputs" by (simp add: starts_def)
  then show ?case
    using Cons.IH [of "snd (provider_session_step i s)"] Cons.prems
      provider_session_step_accounts [OF i, of r s] provider_session_step_stopped [OF i, of s] by simp
qed (simp add: starts_def)

text \<open>A shutdown ends the run: the rest of the inputs is not read, and no answer is added.\<close>

lemma provider_session_run_stopped: "psn_stopped s \<Longrightarrow> provider_session_run inputs s = s"
  by (cases inputs) simp_all

lemma answers_until_shutdown:
  "\<not> psn_stopped s \<Longrightarrow>
     answers r (provider_session_run inputs s)
       = answers r (provider_session_run (takeWhile (\<lambda>i. i \<noteq> Shutdown_session) inputs) s)"
proof (induction inputs arbitrary: s)
  case (Cons i inputs)
  show ?case
  proof (cases "i = Shutdown_session")
    case True
    then show ?thesis using Cons.prems by (simp add: provider_session_run_stopped answers_def)
  next
    case False
    then show ?thesis using Cons provider_session_step_stopped [OF False, of s] by simp
  qed
qed simp

section \<open>Properties\<close>

text \<open>
  C33. The direct provider session answers every request exactly once: after any sequence of
  commands, worker events and completions (late completions of cancelled requests included) each
  request identifier has been answered as often as it was started before a shutdown, less the
  one that was still running at the shutdown or, without one, at the end.
\<close>

theorem provider_requests_answered_once:
  "let processed = takeWhile (\<lambda>i. i \<noteq> Shutdown_session) inputs
   in answers r (provider_session_run inputs provider_session_new)
        + outstanding r (provider_session_run processed provider_session_new) = starts r processed"
proof -
  let ?processed = "takeWhile (\<lambda>i. i \<noteq> Shutdown_session) inputs"
  have "Shutdown_session \<notin> set ?processed" by (auto dest: set_takeWhileD)
  then have "answers r (provider_session_run ?processed provider_session_new)
      + outstanding r (provider_session_run ?processed provider_session_new) = starts r ?processed"
    using provider_session_run_accounts [of ?processed provider_session_new r]
    by (simp add: provider_session_new_def answers_def outstanding_def)
  then show ?thesis
    using answers_until_shutdown [of provider_session_new r inputs] by (simp add: provider_session_new_def)
qed

text \<open>
  C34. The retry loop stops and gives the right answer: it makes at most the configured
  number of retries, every attempt before the last one failed with a transient error, and
  the result is that of the last attempt; an error that is returned although retries were
  left is not transient.
\<close>

theorem retry_loop_bounded:
  assumes "send_provider_request_with_retry mode send sleep 0 = (r, retries)"
  shows "length retries \<le> retry_mode_max_retries mode \<and>
         r = send (length retries) \<and>
         (\<forall>e. r = Inl e \<and> is_transient e \<longrightarrow> length retries = retry_mode_max_retries mode) \<and>
         (\<forall>k < length retries. \<exists>e. send k = Inl e \<and> is_transient e)"
  using retry_attempts [OF assms] by auto

theorem retry_loop_bounded_witness:
  "length (snd (send_provider_request_with_retry (RandomInterval 0 2) (\<lambda>_. Inl (Request [])) (\<lambda>_. 0) 0)) \<le> 2"
  using retry_loop_bounded
    [of "RandomInterval 0 2" "\<lambda>_. Inl (Request [])" "\<lambda>_. 0"
        "fst (send_provider_request_with_retry (RandomInterval 0 2) (\<lambda>_. Inl (Request [])) (\<lambda>_. 0) 0)"
        "snd (send_provider_request_with_retry (RandomInterval 0 2) (\<lambda>_. Inl (Request [])) (\<lambda>_. 0) 0)"]
  by simp

end
