(* ===== verification/Codex_Compaction.thy ===== *)
theory Codex_Compaction
  imports Provider_Session
begin

text \<open>
  Model of the answer to a compaction request of the Codex subscription
  (\<open>core/src/providers/codex_subscription.rs\<close>), the only backend that compacts a history by itself:
  the messages that are read from the JSON of the response. The random identifier of the message made
  of the \<open>i\<close>-th output item is \<open>fresh_ids i\<close>.
\<close>

section \<open>Reading the response\<close>

definition compact_content_to_item :: "json \<Rightarrow> chat_message_item option" where
  "compact_content_to_item content =
     (case get_str ''type'' content of
        Some kind \<Rightarrow>
          (if kind = ''input_text'' \<or> kind = ''output_text'' \<or> kind = ''text''
           then map_option (\<lambda>t. Context \<lparr>ci_text = t\<rparr>) (get_str ''text'' content)
           else None)
      | None \<Rightarrow> None)"

definition compact_role :: "json \<Rightarrow> chat_role option" where
  "compact_role item =
     (case get_str ''role'' item of
        Some role \<Rightarrow>
          (if role = ''user'' then Some User else if role = ''assistant'' then Some Assistant else None)
      | None \<Rightarrow> None)"

definition compact_message_item_to_chat_message :: "string \<Rightarrow> json \<Rightarrow> chat_message option" where
  "compact_message_item_to_chat_message fresh_id item =
     (case compact_role item of
        None \<Rightarrow> None
      | Some role \<Rightarrow>
          (case Option.bind (json_get ''content'' item) as_array of
             None \<Rightarrow> None
           | Some contents \<Rightarrow>
               (let data = List.map_filter compact_content_to_item contents
                in if data = [] then None else Some (chat_message_new fresh_id role data))))"

definition compact_output_item :: "string \<Rightarrow> json \<Rightarrow> chat_message option" where
  "compact_output_item fresh_id item =
     (case get_str ''type'' item of
        Some kind \<Rightarrow>
          (if kind = ''message'' then compact_message_item_to_chat_message fresh_id item
           else if kind = ''compaction'' \<or> kind = ''compaction_summary'' \<or> kind = ''context_compaction'' then
             map_option (\<lambda>encrypted_content. chat_message_new fresh_id Compaction_role
               [Compaction (provider_builtin CodexSubscription
                  (JObject [(''encrypted_content'', JString encrypted_content)]))])
               (get_str ''encrypted_content'' item)
           else None)
      | None \<Rightarrow> None)"

definition compact_response_value_to_chat_messages ::
  "(nat \<Rightarrow> string) \<Rightarrow> json \<Rightarrow> provider_error + chat_message list" where
  "compact_response_value_to_chat_messages fresh_ids response =
     (case Option.bind (json_get ''output'' response) as_array of
        None \<Rightarrow> Inl (InvalidResponse ''compact response missing output array'')
      | Some items \<Rightarrow>
          Inr (List.map_filter (\<lambda>(i, item). compact_output_item (fresh_ids i) item) (enumerate 0 items)))"

section \<open>No tool calls\<close>

definition speaks_only :: "chat_message_item \<Rightarrow> bool" where
  "speaks_only item = (case item of Context _ \<Rightarrow> True | Compaction _ \<Rightarrow> True | _ \<Rightarrow> False)"

lemma compact_content_speaks: "compact_content_to_item content = Some x \<Longrightarrow> speaks_only x"
  by (auto simp: compact_content_to_item_def speaks_only_def split: option.splits if_splits)

lemma compact_message_speaks:
  assumes "compact_message_item_to_chat_message fresh_id item = Some m" and "x \<in> set (cm_data m)"
  shows "speaks_only x"
proof -
  obtain contents where "cm_data m = List.map_filter compact_content_to_item contents"
    using assms(1) unfolding compact_message_item_to_chat_message_def Let_def
    by (auto simp: chat_message_new_def split: option.splits if_splits)
  then show ?thesis using assms(2) compact_content_speaks by (auto simp: List.map_filter_def)
qed

lemma compact_output_speaks:
  assumes "compact_output_item fresh_id item = Some m" and "x \<in> set (cm_data m)"
  shows "speaks_only x"
proof -
  obtain kind where kind: "get_str ''type'' item = Some kind"
    using assms(1) by (cases "get_str ''type'' item") (simp_all add: compact_output_item_def)
  show ?thesis
  proof (cases "kind = ''message''")
    case True
    then show ?thesis using assms kind compact_message_speaks by (simp add: compact_output_item_def)
  next
    case False
    then obtain c where "m = chat_message_new fresh_id Compaction_role [Compaction c]"
      using assms(1) kind unfolding compact_output_item_def by (auto split: if_splits)
    then show ?thesis using assms(2) by (simp add: chat_message_new_def speaks_only_def)
  qed
qed

lemma compact_response_speaks:
  assumes "compact_response_value_to_chat_messages fresh_ids response = Inr ms" and "m \<in> set ms" and "x \<in> set (cm_data m)"
  shows "speaks_only x"
proof -
  obtain items where "ms = List.map_filter (\<lambda>(i, item). compact_output_item (fresh_ids i) item) (enumerate 0 items)"
    using assms(1) unfolding compact_response_value_to_chat_messages_def by (auto split: option.splits)
  then obtain i item where "compact_output_item (fresh_ids i) item = Some m"
    using assms(2) by (auto simp: List.map_filter_def)
  then show ?thesis using compact_output_speaks assms(3) by blast
qed

end
