(* ===== verification/Compressor.thy ===== *)
theory Compressor
  imports Codex_Compaction
begin

text \<open>
  Model of \<open>core/src/session_actor/compressor.rs\<close>: replacing the older part of a history by
  a summary. The token estimator (a tokenizer library or a heuristic), the backend of the
  provider, the JSON parser of the summary and the random identifier of the new message are
  the fields of \<open>compress_env\<close>. An operation works on the message list it is given
  (\<open>&mut Vec<ChatMessage>\<close>) and leaves it changed also when a later step fails.
\<close>

section \<open>Data\<close>

record active_task_summary =
  at_id :: string
  at_kind :: string
  at_status :: string
  at_purpose :: string
  at_next_action :: string

record compression_result =
  cr_summary :: string
  cr_current_state :: string
  cr_plan :: string
  cr_active_tasks :: "active_task_summary list"
  cr_preserved_tool_call_ids :: "string list"

record compression_report =
  rep_compressed :: bool
  rep_estimated_tokens_before :: nat
  rep_estimated_tokens_after :: nat
  rep_threshold_tokens :: nat
  rep_retained_message_count :: nat
  rep_compressed_message_count :: nat

datatype compression_error =
    InvalidThreshold
  | Estimate string
  | Compression_provider string
  | EmptySummary
  | InvalidSummaryJson string

fun compression_error_text :: "compression_error \<Rightarrow> string" where
  "compression_error_text InvalidThreshold = ''compression threshold must be greater than zero''"
| "compression_error_text (Estimate e) = ''token estimation failed during compression: '' @ e"
| "compression_error_text (Compression_provider e) = ''compression provider failed: '' @ e"
| "compression_error_text EmptySummary = ''compression summary came back empty''"
| "compression_error_text (InvalidSummaryJson e) = ''compression summary was not valid JSON: '' @ e"

record compress_env =
  ce_estimate :: "chat_message list \<Rightarrow> string + nat"
  ce_compaction_mode :: provider_compaction_mode
  ce_compact_history :: "provider_request \<Rightarrow> provider_error + chat_message list option"
  ce_send :: "provider_request \<Rightarrow> nat \<Rightarrow> provider_error + chat_message"
  ce_sleep :: "nat \<Rightarrow> nat"
  ce_retry_mode :: retry_mode
  ce_parse_result :: "string \<Rightarrow> string + compression_result"
  ce_fresh_id :: string
  ce_json :: json_lib

record session_compressor =
  sc_threshold_tokens :: nat
  sc_retain_recent_tokens :: nat

definition session_compressor_new :: "nat \<Rightarrow> nat \<Rightarrow> compression_error + session_compressor" where
  "session_compressor_new threshold_tokens retain_recent_tokens =
     (if threshold_tokens = 0 then Inl InvalidThreshold
      else Inr \<lparr>sc_threshold_tokens = threshold_tokens, sc_retain_recent_tokens = max retain_recent_tokens 1\<rparr>)"

definition estimate_tokens :: "compress_env \<Rightarrow> chat_message list \<Rightarrow> compression_error + nat" where
  "estimate_tokens env messages =
     (case ce_estimate env messages of Inl e \<Rightarrow> Inl (Estimate e) | Inr n \<Rightarrow> Inr n)"

section \<open>Where to split\<close>

definition has_call :: "string \<Rightarrow> chat_message \<Rightarrow> bool" where
  "has_call i message \<longleftrightarrow> list_ex (\<lambda>item. case item of ToolCall c \<Rightarrow> tc_tool_call_id c = i | _ \<Rightarrow> False) (cm_data message)"

text \<open>\<open>rposition\<close>: the last index below a bound that satisfies a predicate.\<close>

definition find_originating_tool_call_index :: "chat_message list \<Rightarrow> nat \<Rightarrow> string \<Rightarrow> nat option" where
  "find_originating_tool_call_index messages search_before tool_call_id =
     find (\<lambda>k. has_call tool_call_id (messages ! k)) (rev [0 ..< min search_before (length messages)])"

fun earliest_origin :: "chat_message list \<Rightarrow> nat \<Rightarrow> chat_message_item list \<Rightarrow> nat option \<Rightarrow> nat option" where
  "earliest_origin messages split_index [] acc = acc"
| "earliest_origin messages split_index (ToolResult tool_result # items) acc =
     (case find_originating_tool_call_index messages split_index (tr_tool_call_id tool_result) of
        None \<Rightarrow> earliest_origin messages split_index items acc
      | Some origin_index \<Rightarrow>
          earliest_origin messages split_index items
            (Some (case acc of Some current \<Rightarrow> min current origin_index | None \<Rightarrow> origin_index)))"
| "earliest_origin messages split_index (_ # items) acc = earliest_origin messages split_index items acc"

lemma find_originating_SomeD:
  "find_originating_tool_call_index ms k i = Some j \<Longrightarrow> j < k \<and> j < length ms \<and> has_call i (ms ! j)"
  by (auto simp: find_originating_tool_call_index_def dest: find_SomeD)

lemma find_originating_None:
  "find_originating_tool_call_index ms k i = None \<longleftrightarrow> (\<forall>j < min k (length ms). \<not> has_call i (ms ! j))"
  by (auto simp: find_originating_tool_call_index_def find_None_iff)

lemma earliest_origin_less:
  "earliest_origin ms k items acc = Some j \<Longrightarrow> (\<And>a. acc = Some a \<Longrightarrow> a < k) \<Longrightarrow> j < k"
proof (induction ms k items acc rule: earliest_origin.induct)
  case (2 ms k r items acc)
  then show ?case
    by (auto simp: min_less_iff_disj split: option.splits dest!: find_originating_SomeD)
qed auto

function adjust_split_index_to_preserve_tool_context :: "chat_message list \<Rightarrow> nat \<Rightarrow> nat" where
  "adjust_split_index_to_preserve_tool_context messages split_index =
     (if split_index < length messages then
        (case earliest_origin messages split_index (cm_data (messages ! split_index)) None of
           None \<Rightarrow> split_index
         | Some origin_index \<Rightarrow> adjust_split_index_to_preserve_tool_context messages origin_index)
      else split_index)"
  by pat_completeness auto
termination
  by (relation "measure snd") (auto dest: earliest_origin_less)

declare adjust_split_index_to_preserve_tool_context.simps [simp del]

text \<open>
  The loop of \<open>recent_tail_start_by_token_budget\<close>. The test adds two \<open>u64\<close> values without
  a check, so the sum wraps in a release build; the update saturates.
\<close>

function recent_tail_loop ::
  "compress_env \<Rightarrow> chat_message list \<Rightarrow> nat \<Rightarrow> nat \<Rightarrow> nat \<Rightarrow> compression_error + nat" where
  "recent_tail_loop env messages token_budget start total_tokens =
     (if start = 0 then Inr start
      else
        (let candidate_start = adjust_split_index_to_preserve_tool_context messages (start - 1)
         in if candidate_start \<ge> start then Inr start
            else case estimate_tokens env (drop candidate_start (take start messages)) of
              Inl e \<Rightarrow> Inl e
            | Inr slice_tokens \<Rightarrow>
                (if wrapping_add total_tokens slice_tokens > token_budget \<and> start < length messages
                 then Inr start
                 else
                   (let total_tokens' = saturating_add total_tokens slice_tokens
                    in if total_tokens' \<ge> token_budget then Inr candidate_start
                       else recent_tail_loop env messages token_budget candidate_start total_tokens'))))"
  by pat_completeness auto
termination
  by (relation "measure (\<lambda>(_, _, _, start, _). start)") auto

declare recent_tail_loop.simps [simp del]

definition recent_tail_start_by_token_budget ::
  "compress_env \<Rightarrow> chat_message list \<Rightarrow> nat \<Rightarrow> compression_error + nat" where
  "recent_tail_start_by_token_budget env messages token_budget =
     (if messages = [] then Inr 0 else recent_tail_loop env messages token_budget (length messages) 0)"

definition plan_compression ::
  "compress_env \<Rightarrow> session_compressor \<Rightarrow> chat_message list \<Rightarrow> compression_error + nat option" where
  "plan_compression env self messages =
     (if messages = [] then Inr None
      else case recent_tail_start_by_token_budget env messages (sc_retain_recent_tokens self) of
        Inl e \<Rightarrow> Inl e
      | Inr recent_start \<Rightarrow> Inr (if recent_start = 0 then None else Some recent_start))"

section \<open>Text of messages\<close>

definition file_placeholder :: "file_item \<Rightarrow> string" where
  "file_placeholder file =
     ''[file omitted during context compression: '' @ unwrap_or (fi_uri file) (fi_name file) @ '']''"

definition tool_result_placeholder :: "json_lib \<Rightarrow> string \<Rightarrow> string \<Rightarrow> tool_result_content \<Rightarrow> string" where
  "tool_result_placeholder lib tool_name tool_call_id result =
     (let rendered = tool_result_structured_text lib
            \<lparr>tr_tool_call_id = tool_call_id, tr_tool_name = tool_name, tr_result = result\<rparr>
      in join newline
           ([''[tool result: '' @ tool_name @ '' id='' @ tool_call_id @ '']'']
            @ (if trim rendered \<noteq> [] then [rendered] else [])
            @ map file_placeholder (trc_files result)))"

definition tool_call_line :: "tool_call_item \<Rightarrow> string" where
  "tool_call_line tool_call = ''[tool call: '' @ tc_tool_name tool_call @ '' id='' @ tc_tool_call_id tool_call @ '']''"

fun item_text :: "json_lib \<Rightarrow> chat_message_item \<Rightarrow> string list" where
  "item_text lib (Reasoning reasoning) = (if trim (ri_text reasoning) \<noteq> [] then [ri_text reasoning] else [])"
| "item_text lib (Context context) = (if trim (ci_text context) \<noteq> [] then [ci_text context] else [])"
| "item_text lib (Compaction compaction) =
     (case generic_summary_text compaction of
        Some t \<Rightarrow> if trim t \<noteq> [] then [t] else [] | None \<Rightarrow> [])"
| "item_text lib (SelectionReference selection) = [to_prompt_text selection]"
| "item_text lib (File file) = [file_placeholder file]"
| "item_text lib (ToolCall tool_call) = [tool_call_line tool_call]"
| "item_text lib (ToolResult tool_result) =
     [tool_result_placeholder lib (tr_tool_name tool_result) (tr_tool_call_id tool_result) (tr_result tool_result)]"

definition message_text :: "json_lib \<Rightarrow> chat_message \<Rightarrow> string" where
  "message_text lib message = join paragraph_break (concat (map (item_text lib) (cm_data message)))"

definition is_runtime_update_message :: "chat_message \<Rightarrow> bool" where
  "is_runtime_update_message message \<longleftrightarrow>
     cm_role message = User \<and>
     (case cm_data message of
        [Context context] \<Rightarrow>
          (let t = trim_start (ci_text context)
           in starts_with ''[Runtime Prompt Updates]'' t \<or> starts_with ''[Runtime Skill Updates]'' t \<or>
              starts_with ''[Incoming User Metadata]'' t)
      | _ \<Rightarrow> False)"

section \<open>The request for a summary\<close>

definition text_item :: "string \<Rightarrow> chat_message_item" where
  "text_item t = Context \<lparr>ci_text = t\<rparr>"

fun sanitize_item_for_compression :: "json_lib \<Rightarrow> chat_message_item \<Rightarrow> chat_message_item list" where
  "sanitize_item_for_compression lib (Reasoning _) = []"
| "sanitize_item_for_compression lib (Context context) = [Context context]"
| "sanitize_item_for_compression lib (Compaction compaction) =
     (case generic_summary_text compaction of Some t \<Rightarrow> [text_item t] | None \<Rightarrow> [])"
| "sanitize_item_for_compression lib (SelectionReference selection) = [text_item (to_prompt_text selection)]"
| "sanitize_item_for_compression lib (File file) = [text_item (file_placeholder file)]"
| "sanitize_item_for_compression lib (ToolCall tool_call) =
     [text_item (tool_call_line tool_call @
        (if trim (ci_text (tc_arguments tool_call)) \<noteq> [] then newline @ ci_text (tc_arguments tool_call) else []))]"
| "sanitize_item_for_compression lib (ToolResult tool_result) =
     [text_item (tool_result_placeholder lib (tr_tool_name tool_result) (tr_tool_call_id tool_result) (tr_result tool_result))]"

definition strip_turn_metadata :: "chat_message \<Rightarrow> chat_message_item list \<Rightarrow> chat_message" where
  "strip_turn_metadata message items =
     message\<lparr>cm_token_usage := None, cm_turn_id := None, cm_step_index := None, cm_message_part := None,
             cm_data := items\<rparr>"

definition sanitize_message_for_compression_request :: "json_lib \<Rightarrow> chat_message \<Rightarrow> chat_message option" where
  "sanitize_message_for_compression_request lib message =
     (let items = concat (map (sanitize_item_for_compression lib) (cm_data message))
      in if items = [] then None else Some (strip_turn_metadata message items))"

definition sanitize_messages_for_compression_request :: "json_lib \<Rightarrow> chat_message list \<Rightarrow> chat_message list" where
  "sanitize_messages_for_compression_request lib messages =
     List.map_filter (sanitize_message_for_compression_request lib)
       (filter (\<lambda>m. \<not> is_runtime_update_message m) messages)"

definition compression_instruction_head :: string where
  "compression_instruction_head =
     ''The conversation is nearing its context limit. To continue effectively, create a comprehensive, high-fidelity summary of the task'' @ [CHR 0x27] @ ''s progress.'' @ newline @
     newline @
     ''This compression will be the only low-level context available for the compressed portion of the conversation. Prioritize continuation fidelity over brevity, but do not copy raw history that can be accurately summarized.'' @ newline @
     newline @
     ''Return strict JSON only. Do not output Markdown, code fences, or commentary.'' @ newline @
     newline @
     ''Schema:'' @ newline @
     ''{'' @ newline @
     ''\"summary\": \"High-fidelity natural-language summary of all user intents and requirements, key facts, technical findings, architectural decisions, code patterns discovered, touched files/modules, completed work, and important errors.\",'' @ newline @
     ''\"current_state\": \"Precise current status: what is happening now, the latest meaningful tool result, files currently being worked on, blockers, and any pending user decision.\",'' @ newline @
     ''\"plan\": \"Exact next steps needed to continue safely if work remains. Include ordering, verification steps, and any path/cwd/command/id needed for the next action.\",'' @ newline @
     ''\"active_tasks\": [{\"id\":\"process_id_or_other_handle\", \"kind\":\"shell|download|subagent|background_agent|dsl|other\", \"status\":\"running|waiting|blocked|unknown\", \"purpose\":\"what this task is doing\", \"next_action\":\"how to observe, continue, stop, or recover this task\"}],'' @ newline @
     ''\"preserved_tool_call_ids\": [\"call_id\"]'' @ newline @
     ''}'' @ newline @
     newline @
     ''Rules:'' @ newline @
     ''- keep every field factual, compact, and continuation-oriented'' @ newline @
     ''- capture the whole task state, not just a chat recap: goals, constraints, decisions, findings, touched files, code patterns, completed work, remaining work, and verification state'' @ newline @
     ''- include critical code snippets or exact symbols only when they are needed to continue safely; otherwise cite file paths, modules, functions, commands, ids, URLs, and conclusions'' @ newline @
     ''- preserve concrete decisions, file paths, commands, errors, ids, URLs, and the current next step'' @ newline @
     ''- active_tasks is required for unfinished external work. Include every still-running or still-waiting handle needed to resume safely, especially shell process_id, subagent id, background agent_id, and any associated command, cwd, remote target, output path, URL, or wait/stop/observe instruction'' @ newline @
     ''- do not put completed one-off tool calls in active_tasks; only include tasks whose future state can still change or whose handle is needed for recovery'' @ newline @
     ''- redact long secrets; mention that a secret was provided without copying the full value'' @ newline @
     ''- do not invent details'' @ newline @
     ''- do not restate shared context that already lives in the canonical system prompt snapshots'' @ newline @
     ''- ignore transient runtime update notices; they are reconstructed separately and should not be preserved in the summary'' @ newline @
     ''- if unfinished work still matters, preserve the continuation-critical identifier in active_tasks and also mention it in current_state or plan when it is the immediate next action'' @ newline @
     ''- if a task is already finished or no longer relevant, do not preserve its identifier just because it appeared earlier'' @ newline @
     ''- intermediate tool calls and tool results should be summarized by outcome, not replayed step by step, unless a still-needed identifier or exact reference is required to continue safely'' @ newline @
     ''- preserved_tool_call_ids is optional. Prefer active_tasks and summary/current_state/plan. Only include real tool_call ids from the compressed history if the raw tool arguments and result are very likely to be needed later and cannot be safely summarized'' @ newline @
     ''- if you already extracted the useful conclusion from a tool result into summary/current_state/plan, do not preserve that tool call id'' @ newline @
     ''- be conservative with preserved_tool_call_ids so compression does not keep too much raw context'' @ newline @
     ''- the most recent ''"

definition compression_instruction_tail :: string where
  "compression_instruction_tail =
     '' message(s) immediately before this request are preserved separately as high-fidelity context; do not summarize them unless continuity requires a short pointer'' @ newline @
     ''Return JSON only.''"

definition compression_instruction :: "nat \<Rightarrow> string" where
  "compression_instruction preserved_recent_count =
     compression_instruction_head @ show_nat preserved_recent_count @ compression_instruction_tail"

definition relevant_context :: "string option \<Rightarrow> string option" where
  "relevant_context compression_context = filter_option (\<lambda>v. v \<noteq> []) (map_option trim compression_context)"

text \<open>The random identifiers of the request messages are never looked at; they share \<open>fresh_id\<close>.\<close>

definition build_compression_request_messages ::
  "json_lib \<Rightarrow> string \<Rightarrow> chat_message list \<Rightarrow> nat \<Rightarrow> string option \<Rightarrow> chat_message list" where
  "build_compression_request_messages lib fresh_id messages preserved_recent_count compression_context =
     sanitize_messages_for_compression_request lib messages
     @ (case relevant_context compression_context of
          None \<Rightarrow> []
        | Some context \<Rightarrow>
            [chat_message_new fresh_id User
               [text_item (''[Relevant Long Memory For Compression]'' @ newline @
                  ''Use this as small background context while compressing. Keep only details that are still relevant to the current conversation state; do not copy unrelated memory.'' @
                  paragraph_break @ context)]])
     @ [chat_message_new fresh_id User [text_item (compression_instruction preserved_recent_count)]]"

definition compression_request_suffix_len :: "string option \<Rightarrow> nat" where
  "compression_request_suffix_len compression_context =
     1 + (case relevant_context compression_context of None \<Rightarrow> 0 | Some _ \<Rightarrow> 1)"

section \<open>The summary\<close>

definition normalize_active_task_summary :: "active_task_summary \<Rightarrow> active_task_summary" where
  "normalize_active_task_summary task =
     \<lparr>at_id = trim (at_id task), at_kind = trim (at_kind task), at_status = trim (at_status task),
      at_purpose = trim (at_purpose task), at_next_action = trim (at_next_action task)\<rparr>"

definition max_preserved_tool_call_ids :: nat where
  "max_preserved_tool_call_ids = 8"

definition normalize_compression_result :: "compression_result \<Rightarrow> compression_result" where
  "normalize_compression_result result =
     \<lparr>cr_summary = trim (cr_summary result),
      cr_current_state = trim (cr_current_state result),
      cr_plan = trim (cr_plan result),
      cr_active_tasks =
        take 16 (filter (\<lambda>task. at_id task \<noteq> []) (map normalize_active_task_summary (cr_active_tasks result))),
      cr_preserved_tool_call_ids =
        take max_preserved_tool_call_ids
          (filter (\<lambda>i. i \<noteq> []) (map trim (cr_preserved_tool_call_ids result)))\<rparr>"

definition parse_compression_result :: "compress_env \<Rightarrow> string \<Rightarrow> compression_error + compression_result" where
  "parse_compression_result env t =
     (case ce_parse_result env (trim t) of
        Inl e \<Rightarrow> Inl (InvalidSummaryJson e)
      | Inr result \<Rightarrow> Inr (normalize_compression_result result))"

definition opt_part :: "string \<Rightarrow> string \<Rightarrow> string list" where
  "opt_part label v = (if v \<noteq> [] then [label @ v] else [])"

definition render_active_task_summary :: "active_task_summary \<Rightarrow> string" where
  "render_active_task_summary task =
     join ''; ''
       ([''- id: '' @ at_id task] @ opt_part ''kind: '' (at_kind task) @ opt_part ''status: '' (at_status task)
        @ opt_part ''purpose: '' (at_purpose task) @ opt_part ''next_action: '' (at_next_action task))"

definition compression_marker :: string where
  "compression_marker = ''[StellaClaw Context Compression]''"

definition render_compression_result :: "compression_result \<Rightarrow> string" where
  "render_compression_result result =
     (let sections =
            opt_part (''Summary:'' @ newline) (trim (cr_summary result))
            @ opt_part (''Current State:'' @ newline) (trim (cr_current_state result))
            @ opt_part (''Plan:'' @ newline) (trim (cr_plan result))
            @ (if cr_active_tasks result = [] then []
               else [''Active Tasks:'' @ newline @
                       join newline (map render_active_task_summary (cr_active_tasks result))])
      in join paragraph_break
           ([compression_marker,
             ''Older conversation history has been compressed into the structured context below.'']
            @ (if sections = [] then [''Summary:'' @ newline @ ''No useful older context was returned.'']
               else sections)))"

definition truncate_text_with_notice :: "string \<Rightarrow> nat \<Rightarrow> string" where
  "truncate_text_with_notice t max_chars =
     (let trimmed = trim t
      in if length trimmed \<le> max_chars then trimmed
         else take max_chars trimmed @ newline @ ''[tool result truncated during context compression]'')"

definition max_preserved_tool_result_text_chars :: nat where
  "max_preserved_tool_result_text_chars = 4096"

definition truncate_tool_result_content :: "json_lib \<Rightarrow> tool_result_item \<Rightarrow> tool_result_item" where
  "truncate_tool_result_content lib tool_result =
     (let rendered = tool_result_structured_text lib tool_result
      in if length rendered > max_preserved_tool_result_text_chars
         then tool_result\<lparr>tr_result :=
                with_files (trc_files (tr_result tool_result))
                  (from_text (truncate_text_with_notice rendered max_preserved_tool_result_text_chars))\<rparr>
         else tool_result)"

definition call_ids :: "chat_message list \<Rightarrow> string list" where
  "call_ids messages =
     List.map_filter (\<lambda>item. case item of ToolCall c \<Rightarrow> Some (tc_tool_call_id c) | _ \<Rightarrow> None) (items_of messages)"

fun preserved_item :: "json_lib \<Rightarrow> string set \<Rightarrow> chat_message_item \<Rightarrow> chat_message_item option" where
  "preserved_item lib requested (ToolCall tool_call) =
     (if tc_tool_call_id tool_call \<in> requested then Some (ToolCall tool_call) else None)"
| "preserved_item lib requested (ToolResult tool_result) =
     (if tr_tool_call_id tool_result \<in> requested
      then Some (ToolResult (truncate_tool_result_content lib tool_result)) else None)"
| "preserved_item lib requested _ = None"

definition preserved_message :: "json_lib \<Rightarrow> string set \<Rightarrow> chat_message \<Rightarrow> chat_message option" where
  "preserved_message lib requested message =
     (let items = List.map_filter (preserved_item lib requested) (cm_data message)
      in if items = [] then None else Some (strip_turn_metadata message items))"

definition preserve_tool_messages :: "json_lib \<Rightarrow> chat_message list \<Rightarrow> string list \<Rightarrow> chat_message list" where
  "preserve_tool_messages lib messages requested_ids =
     (if requested_ids = [] then []
      else
        (let requested = {i \<in> set requested_ids. i \<in> set (call_ids messages)}
         in if requested = {} then [] else List.map_filter (preserved_message lib requested) messages))"

definition generate_compression ::
  "compress_env \<Rightarrow> chat_message list \<Rightarrow> nat \<Rightarrow> string option \<Rightarrow> string option \<Rightarrow> tool_definition list \<Rightarrow>
     compression_error + chat_message list option" where
  "generate_compression env messages_to_summarize preserved_recent_count system_prompt compression_context tools =
     (if ce_compaction_mode env = Builtin then
        (case ce_compact_history env
                ((provider_request_new messages_to_summarize)
                   \<lparr>prq_system_prompt := system_prompt, prq_tools := tools\<rparr>) of
           Inl error \<Rightarrow> Inl (Compression_provider (provider_error_text error))
         | Inr replacement \<Rightarrow> Inr replacement)
      else
        (let request_messages = build_compression_request_messages (ce_json env) (ce_fresh_id env)
               messages_to_summarize preserved_recent_count compression_context
         in if length request_messages = compression_request_suffix_len compression_context then Inr None
            else
              (case fst (send_provider_request_with_retry (ce_retry_mode env)
                      (ce_send env ((provider_request_new request_messages)\<lparr>prq_system_prompt := system_prompt\<rparr>))
                      (ce_sleep env) 0) of
                 Inl error \<Rightarrow> Inl (Compression_provider (provider_error_text error))
               | Inr response \<Rightarrow>
                   (let response_text = message_text (ce_json env) response
                    in if trim response_text = [] then Inl EmptySummary
                       else case parse_compression_result env response_text of
                         Inl e \<Rightarrow> Inl e
                       | Inr result \<Rightarrow>
                           Inr (Some
                             (chat_message_new (ce_fresh_id env) Compaction_role
                                [Compaction (generic_summary (render_compression_result result))]
                              # preserve_tool_messages (ce_json env) messages_to_summarize
                                  (cr_preserved_tool_call_ids result)))))))"

section \<open>Operations of the compressor\<close>

type_synonym 'a comp = "(chat_message list, compression_error, 'a) act"

definition report ::
  "bool \<Rightarrow> nat \<Rightarrow> nat \<Rightarrow> nat \<Rightarrow> nat \<Rightarrow> nat \<Rightarrow> compression_report" where
  "report compressed before after threshold retained dropped =
     \<lparr>rep_compressed = compressed, rep_estimated_tokens_before = before, rep_estimated_tokens_after = after,
      rep_threshold_tokens = threshold, rep_retained_message_count = retained,
      rep_compressed_message_count = dropped\<rparr>"

definition estimate_with_next :: "compress_env \<Rightarrow> chat_message list \<Rightarrow> chat_message \<Rightarrow> compression_error + nat" where
  "estimate_with_next env messages next_message = estimate_tokens env (messages @ [next_message])"

text \<open>
  The common end of the three operations: summarize the messages before the split, put
  the replacement before the retained ones, then append the next message if there is one.
\<close>

definition apply_compression ::
  "compress_env \<Rightarrow> nat \<Rightarrow> chat_message option \<Rightarrow> string option \<Rightarrow> string option \<Rightarrow>
     tool_definition list \<Rightarrow> nat \<Rightarrow> nat \<Rightarrow> compression_report comp" where
  "apply_compression env recent_start next_message system_prompt compression_context tools
       estimated_tokens_before threshold_tokens = gets (\<lambda>messages.
     bnd (from_result (generate_compression env (take recent_start messages) (length messages - recent_start)
            system_prompt compression_context tools)) (\<lambda>generated.
     (let compressed_messages = unwrap_or [] generated @ drop recent_start messages;
          retained_message_count = length compressed_messages - (if generated = None then 0 else 1)
      in andthen (upd (\<lambda>_. compressed_messages @ (case next_message of None \<Rightarrow> [] | Some m \<Rightarrow> [m])))
           (gets (\<lambda>messages'. bnd (from_result (estimate_tokens env messages')) (\<lambda>estimated_tokens_after.
              okM (report True estimated_tokens_before estimated_tokens_after threshold_tokens
                     retained_message_count recent_start)))))))"

definition append_with_compression_with_tools ::
  "compress_env \<Rightarrow> session_compressor \<Rightarrow> chat_message \<Rightarrow> string option \<Rightarrow> string option \<Rightarrow>
     tool_definition list \<Rightarrow> compression_report comp" where
  "append_with_compression_with_tools env self next_message system_prompt compression_context tools =
     gets (\<lambda>messages.
     bnd (from_result (estimate_with_next env messages next_message)) (\<lambda>estimated_tokens_before.
     if estimated_tokens_before \<le> sc_threshold_tokens self then
       andthen (upd (\<lambda>_. messages @ [next_message]))
         (okM (report False estimated_tokens_before estimated_tokens_before (sc_threshold_tokens self)
                 (length messages + 1) 0))
     else
       bnd (from_result (plan_compression env self messages)) (\<lambda>plan.
         case plan of
           None \<Rightarrow>
             andthen (upd (\<lambda>_. messages @ [next_message]))
               (bnd (from_result (estimate_tokens env (messages @ [next_message]))) (\<lambda>estimated_tokens_after.
                  okM (report False estimated_tokens_before estimated_tokens_after (sc_threshold_tokens self)
                         (length messages + 1) 0)))
         | Some recent_start \<Rightarrow>
             apply_compression env recent_start (Some next_message) system_prompt compression_context tools
               estimated_tokens_before (sc_threshold_tokens self))))"

definition compact_now_with_tools ::
  "compress_env \<Rightarrow> session_compressor \<Rightarrow> string option \<Rightarrow> string option \<Rightarrow>
     tool_definition list \<Rightarrow> compression_report comp" where
  "compact_now_with_tools env self system_prompt compression_context tools = gets (\<lambda>messages.
     bnd (from_result (estimate_tokens env messages)) (\<lambda>estimated_tokens_before.
     bnd (from_result (plan_compression env self messages)) (\<lambda>plan.
       case plan of
         None \<Rightarrow> okM (report False estimated_tokens_before estimated_tokens_before (sc_threshold_tokens self)
                       (length messages) 0)
       | Some recent_start \<Rightarrow>
           apply_compression env recent_start None system_prompt compression_context tools
             estimated_tokens_before (sc_threshold_tokens self))))"

definition compact_if_needed_with_threshold_and_tools ::
  "compress_env \<Rightarrow> session_compressor \<Rightarrow> string option \<Rightarrow> nat \<Rightarrow> string option \<Rightarrow>
     tool_definition list \<Rightarrow> compression_report comp" where
  "compact_if_needed_with_threshold_and_tools env self system_prompt threshold_tokens compression_context tools =
     gets (\<lambda>messages.
     if threshold_tokens = 0 then errM InvalidThreshold
     else
       bnd (from_result (estimate_tokens env messages)) (\<lambda>estimated_tokens_before.
       if estimated_tokens_before \<le> threshold_tokens then
         okM (report False estimated_tokens_before estimated_tokens_before threshold_tokens (length messages) 0)
       else
         bnd (from_result (plan_compression env self messages)) (\<lambda>plan.
           case plan of
             None \<Rightarrow> okM (report False estimated_tokens_before estimated_tokens_before threshold_tokens
                           (length messages) 0)
           | Some recent_start \<Rightarrow>
               apply_compression env recent_start None system_prompt compression_context tools
                 estimated_tokens_before threshold_tokens)))"

definition would_compress_with_next ::
  "compress_env \<Rightarrow> session_compressor \<Rightarrow> chat_message list \<Rightarrow> chat_message \<Rightarrow> compression_error + bool" where
  "would_compress_with_next env self messages next_message =
     (case estimate_with_next env messages next_message of
        Inl e \<Rightarrow> Inl e
      | Inr n \<Rightarrow>
          (if n \<le> sc_threshold_tokens self then Inr False
           else case plan_compression env self messages of
             Inl e \<Rightarrow> Inl e
           | Inr plan \<Rightarrow> Inr (plan \<noteq> None)))"

definition would_compact_with_threshold ::
  "compress_env \<Rightarrow> session_compressor \<Rightarrow> chat_message list \<Rightarrow> nat \<Rightarrow> compression_error + bool" where
  "would_compact_with_threshold env self messages threshold_tokens =
     (if threshold_tokens = 0 then Inl InvalidThreshold
      else case estimate_tokens env messages of
        Inl e \<Rightarrow> Inl e
      | Inr n \<Rightarrow>
          (if n \<le> threshold_tokens then Inr False
           else case plan_compression env self messages of
             Inl e \<Rightarrow> Inl e
           | Inr plan \<Rightarrow> Inr (plan \<noteq> None)))"

section \<open>Laws of the split\<close>

text \<open>An index is anchored if the message there answers no call made before it.\<close>

definition anchored :: "chat_message list \<Rightarrow> nat \<Rightarrow> bool" where
  "anchored ms s \<longleftrightarrow>
     s < length ms \<longrightarrow>
       (\<forall>r. ToolResult r \<in> set (cm_data (ms ! s)) \<longrightarrow> (\<forall>j < s. \<not> has_call (tr_tool_call_id r) (ms ! j)))"

lemma earliest_origin_acc: "earliest_origin ms k items (Some a) \<noteq> None"
  by (induction ms k items "Some a" arbitrary: a rule: earliest_origin.induct) (auto split: option.splits)

lemma earliest_origin_None:
  "earliest_origin ms k items acc = None \<Longrightarrow> ToolResult r \<in> set items \<Longrightarrow>
     find_originating_tool_call_index ms k (tr_tool_call_id r) = None"
proof (induction ms k items acc rule: earliest_origin.induct)
  case (2 ms k r' items acc)
  then show ?case by (auto split: option.splits simp: earliest_origin_acc)
qed auto

lemma adjust_split_le: "adjust_split_index_to_preserve_tool_context ms k \<le> k"
proof (induction ms k rule: adjust_split_index_to_preserve_tool_context.induct)
  case (1 ms k)
  then show ?case
    using earliest_origin_less [of ms k "cm_data (ms ! k)" None]
    by (subst adjust_split_index_to_preserve_tool_context.simps) (fastforce split: option.splits)
qed

lemma adjust_split_anchored: "anchored ms (adjust_split_index_to_preserve_tool_context ms k)"
proof (induction ms k rule: adjust_split_index_to_preserve_tool_context.induct)
  case (1 ms k)
  show ?case
  proof (cases "k < length ms \<and> earliest_origin ms k (cm_data (ms ! k)) None \<noteq> None")
    case True
    then show ?thesis
      using 1 by (subst adjust_split_index_to_preserve_tool_context.simps) auto
  next
    case False
    then have "adjust_split_index_to_preserve_tool_context ms k = k"
      by (subst adjust_split_index_to_preserve_tool_context.simps) auto
    with False show ?thesis
      by (auto simp: anchored_def find_originating_None dest!: earliest_origin_None)
  qed
qed

lemma recent_tail_loop_anchored:
  "recent_tail_loop env ms b start tot = Inr s \<Longrightarrow> anchored ms start \<Longrightarrow> anchored ms s \<and> s \<le> start"
proof (induction env ms b start tot rule: recent_tail_loop.induct)
  case (1 env ms b start tot)
  let ?c = "adjust_split_index_to_preserve_tool_context ms (start - 1)"
  have "anchored ms ?c" by (rule adjust_split_anchored)
  with 1 show ?case
    by (subst (asm) (2) recent_tail_loop.simps)
      (fastforce simp: Let_def split: if_splits sum.splits)
qed

lemma recent_tail_loop_first:
  assumes "recent_tail_loop env ms b (length ms) tot = Inr s" and "ms \<noteq> []"
  shows "s < length ms"
proof -
  let ?c = "adjust_split_index_to_preserve_tool_context ms (length ms - 1)"
  have c: "?c < length ms" using adjust_split_le [of ms "length ms - 1"] assms(2)
    by (metis Suc_pred' le_imp_less_Suc length_greater_0_conv)
  have "s \<le> ?c"
    using assms c recent_tail_loop_anchored [OF _ adjust_split_anchored]
    by (subst (asm) recent_tail_loop.simps) (auto simp: Let_def split: if_splits sum.splits)
  with c show ?thesis by simp
qed

lemma plan_compression_sound:
  assumes "plan_compression env self ms = Inr (Some k)"
  shows "0 < k \<and> k < length ms \<and> anchored ms k"
proof -
  have "ms \<noteq> []" and r: "recent_tail_loop env ms (sc_retain_recent_tokens self) (length ms) 0 = Inr k" and "k \<noteq> 0"
    using assms
    by (auto simp: plan_compression_def recent_tail_start_by_token_budget_def split: if_splits sum.splits)
  moreover have "anchored ms (length ms)" by (simp add: anchored_def)
  ultimately show ?thesis
    using recent_tail_loop_first [OF r] recent_tail_loop_anchored [OF r] by auto
qed

section \<open>Cutting a history that follows the protocol\<close>

text \<open>
  The shape the session actor gives its histories: the results of the calls of a message
  are in the message right after it, and nowhere else.
\<close>

definition has_result :: "string \<Rightarrow> chat_message \<Rightarrow> bool" where
  "has_result i message \<longleftrightarrow> (\<exists>r. ToolResult r \<in> set (cm_data message) \<and> tr_tool_call_id r = i)"

definition answered_next :: "chat_message list \<Rightarrow> bool" where
  "answered_next ms \<longleftrightarrow>
     (\<forall>k < length ms. \<forall>r. ToolResult r \<in> set (cm_data (ms ! k)) \<longrightarrow> 0 < k \<and> has_call (tr_tool_call_id r) (ms ! (k - 1))) \<and>
     (\<forall>k < length ms. \<forall>c. ToolCall c \<in> set (cm_data (ms ! k)) \<longrightarrow>
        Suc k < length ms \<and> has_result (tc_tool_call_id c) (ms ! Suc k))"

lemma has_call_iff: "has_call i m \<longleftrightarrow> (\<exists>c. ToolCall c \<in> set (cm_data m) \<and> tc_tool_call_id c = i)"
proof -
  have eq: "(\<lambda>item. case item of ToolCall c \<Rightarrow> tc_tool_call_id c = i | _ \<Rightarrow> False) =
      (\<lambda>item. \<exists>c. item = ToolCall c \<and> tc_tool_call_id c = i)"
    by (rule ext) (simp split: chat_message_item.split)
  show ?thesis unfolding has_call_def list_ex_iff eq by auto
qed

lemma items_of_split:
  "items_of ms = before @ x # after \<Longrightarrow>
     \<exists>k p q. k < length ms \<and> cm_data (ms ! k) = p @ x # q \<and>
       before = items_of (take k ms) @ p \<and> after = q @ items_of (drop (Suc k) ms)"
proof (induction ms arbitrary: before)
  case (Cons m ms)
  then have "cm_data m @ items_of ms = before @ x # after" by simp
  then consider us where "cm_data m = before @ us" "us @ items_of ms = x # after"
    | us where "before = cm_data m @ us" "items_of ms = us @ x # after"
    by (auto simp: append_eq_append_conv2)
  then show ?case
  proof cases
    case 1
    show ?thesis
    proof (cases us)
      case Nil
      with 1 have "items_of ms = [] @ x # after" by simp
      from Cons.IH [OF this] obtain k p q where "k < length ms" "cm_data (ms ! k) = p @ x # q"
        "[] = items_of (take k ms) @ p" "after = q @ items_of (drop (Suc k) ms)" by blast
      with 1 Nil show ?thesis by (intro exI [of _ "Suc k"] exI [of _ p] exI [of _ q]) simp
    next
      case (Cons y q)
      with 1 show ?thesis by (intro exI [of _ 0] exI [of _ before] exI [of _ q]) simp
    qed
  next
    case 2
    from Cons.IH [OF 2(2)] obtain k p q where "k < length ms" "cm_data (ms ! k) = p @ x # q"
      "us = items_of (take k ms) @ p" "after = q @ items_of (drop (Suc k) ms)" by blast
    with 2 show ?thesis by (intro exI [of _ "Suc k"] exI [of _ p] exI [of _ q]) simp
  qed
qed simp

lemma nth_in_items: "k < length ms \<Longrightarrow> x \<in> set (cm_data (ms ! k)) \<Longrightarrow> x \<in> set (items_of ms)"
  by (auto simp: items_of_def)

lemma last_open_unmentioned: "(\<And>x. x \<in> set items \<Longrightarrow> item_call_id x \<noteq> Some i) \<Longrightarrow> last_open items i = None"
  by (induction items rule: rev_induct) (auto simp: last_open_snoc)

lemma answers_open_prefix: "answers_open (xs @ ys) \<Longrightarrow> answers_open xs"
  unfolding answers_open_def by fastforce

lemma last_open_SomeE:
  assumes "last_open items i = Some c"
  obtains p q where "items = p @ ToolCall c # q" and "\<And>x. x \<in> set q \<Longrightarrow> item_call_id x \<noteq> Some i"
  using assms
proof (induction items arbitrary: thesis rule: rev_induct)
  case (snoc x items)
  show ?case
  proof (cases "item_call_id x = Some i")
    case True
    with snoc.prems(2) have "x = ToolCall c" by (simp add: last_open_snoc split: chat_message_item.splits)
    then show ?thesis using snoc.prems(1) [of items "[]"] by simp
  next
    case False
    with snoc.prems(2) have "last_open items i = Some c" by (simp add: last_open_snoc)
    from snoc.IH [OF _ this] obtain p q where "items = p @ ToolCall c # q"
      "\<And>x. x \<in> set q \<Longrightarrow> item_call_id x \<noteq> Some i" by blast
    with False show ?thesis by (intro snoc.prems(1) [of p "q @ [x]"]) auto
  qed
qed simp

lemma no_results_at_split:
  "answered_next ms \<Longrightarrow> anchored ms s \<Longrightarrow> s < length ms \<Longrightarrow> ToolResult r \<notin> set (cm_data (ms ! s))"
  unfolding answered_next_def anchored_def by (metis diff_less zero_less_one)

lemma tail_answers_open:
  assumes "answered_next ms" and "anchored ms s" and "s \<le> length ms" and "answers_open (items_of ms)"
  shows "answers_open (items_of (drop s ms))"
  unfolding answers_open_def
proof (intro allI impI)
  fix before after and r :: tool_result_item
  let ?i = "tr_tool_call_id r"
  assume eq: "items_of (drop s ms) = before @ ToolResult r # after"
  obtain k p q where k: "k < length (drop s ms)" "cm_data (drop s ms ! k) = p @ ToolResult r # q"
      "before = items_of (take k (drop s ms)) @ p"
    using items_of_split [OF eq] by blast
  have nth: "drop s ms ! k = ms ! (s + k)" using k(1) by simp
  then have in_k: "ToolResult r \<in> set (cm_data (ms ! (s + k)))" using k(2) by simp
  then have "k \<noteq> 0" using no_results_at_split [OF assms(1,2), of r] k(1) by (cases k) auto
  moreover have "has_call ?i (ms ! (s + k - 1))"
    using assms(1) in_k k(1) unfolding answered_next_def by (metis add.commute length_drop less_diff_conv)
  ultimately obtain c where "ToolCall c \<in> set (cm_data (drop s ms ! (k - 1)))" "tc_tool_call_id c = ?i"
    using k(1) by (auto simp: has_call_iff)
  moreover from this have "ToolCall c \<in> set (items_of (take k (drop s ms)))"
    using \<open>k \<noteq> 0\<close> k(1) nth_in_items [of "k - 1" "take k (drop s ms)"] by simp
  ultimately have "\<exists>y \<in> set before. item_call_id y = Some ?i" using k(3) by force
  moreover have "items_of ms = (items_of (take s ms) @ before) @ ToolResult r # after"
    using eq by (metis append_assoc append_take_drop_id items_of_simps(3))
  then have "last_open (items_of (take s ms) @ before) ?i \<noteq> None"
    using assms(4) unfolding answers_open_def by blast
  ultimately show "last_open before ?i \<noteq> None" by (simp add: last_open_append)
qed

lemma head_closed:
  assumes "answered_next ms" and "anchored ms s" and "s \<le> length ms"
  shows "last_open (items_of (take s ms)) i = None"
proof (rule ccontr)
  assume "last_open (items_of (take s ms)) i \<noteq> None"
  then obtain c where c: "last_open (items_of (take s ms)) i = Some c" by blast
  then have i: "tc_tool_call_id c = i" using last_open_Some by blast
  obtain p q where eq: "items_of (take s ms) = p @ ToolCall c # q"
    and q: "\<And>x. x \<in> set q \<Longrightarrow> item_call_id x \<noteq> Some i"
    using last_open_SomeE [OF c] by blast
  obtain k p' q' where k: "k < length (take s ms)" "cm_data (take s ms ! k) = p' @ ToolCall c # q'"
      "q = q' @ items_of (drop (Suc k) (take s ms))"
    using items_of_split [OF eq] by blast
  then have "Suc k < length ms \<and> has_result i (ms ! Suc k)"
    using assms(1) i unfolding answered_next_def by (fastforce simp: nth_append)
  then obtain r where r: "Suc k < length ms" "ToolResult r \<in> set (cm_data (ms ! Suc k))" "tr_tool_call_id r = i"
    by (auto simp: has_result_def)
  show False
  proof (cases "Suc k = s")
    case True
    then show False using no_results_at_split [OF assms(1,2)] r by auto
  next
    case False
    then have "Suc k < s" using k(1) by simp
    then have "ToolResult r \<in> set (items_of (drop (Suc k) (take s ms)))"
      using nth_in_items [of 0 "drop (Suc k) (take s ms)"] r by simp
    then show False using q [of "ToolResult r"] k(3) r(3) by simp
  qed
qed

lemma split_closed:
  assumes "answered_next ms" and "anchored ms s" and "s \<le> length ms" and "closed_items (items_of ms)"
  shows "closed_items (items_of (take s ms))" and "closed_items (items_of (drop s ms))"
proof -
  have items: "items_of ms = items_of (take s ms) @ items_of (drop s ms)"
    by (metis append_take_drop_id items_of_simps(3))
  have ao: "answers_open (items_of ms)" and none: "\<And>i. last_open (items_of ms) i = None"
    using assms(4) by (auto simp: closed_items_def)
  have "answers_open (items_of (take s ms))" using ao items answers_open_prefix by metis
  then show "closed_items (items_of (take s ms))"
    using head_closed [OF assms(1-3)] by (simp add: closed_items_def)
  have "last_open (items_of (drop s ms)) i = None" for i
    using none [of i] last_open_unmentioned [of "items_of (drop s ms)" i]
    unfolding items last_open_append by (auto split: if_splits)
  then show "closed_items (items_of (drop s ms))"
    using tail_answers_open [OF assms(1-3) ao] by (simp add: closed_items_def)
qed

section \<open>Preserved tool messages\<close>

lemma truncate_tool_result_id [simp]: "tr_tool_call_id (truncate_tool_result_content lib r) = tr_tool_call_id r"
  by (simp add: truncate_tool_result_content_def Let_def)

lemma map_filter_append_single:
  "List.map_filter f (xs @ [x]) = List.map_filter f xs @ (case f x of None \<Rightarrow> [] | Some y \<Rightarrow> [y])"
  by (simp add: List.map_filter_def split: option.splits)

lemma last_open_preserved:
  "last_open (List.map_filter (preserved_item lib R) items) i = (if i \<in> R then last_open items i else None)"
proof (induction items rule: rev_induct)
  case (snoc x items)
  then show ?case
    by (cases x) (auto simp: map_filter_append_single last_open_snoc)
qed (simp add: List.map_filter_def)

lemma answers_open_preserved:
  "answers_open items \<Longrightarrow> answers_open (List.map_filter (preserved_item lib R) items)"
proof (induction items rule: rev_induct)
  case Nil
  then show ?case by (simp add: List.map_filter_def)
next
  case (snoc x items)
  then show ?case
    by (cases x)
      (auto simp: map_filter_append_single answers_open_snoc last_open_preserved)
qed

lemma items_of_preserved:
  "items_of (List.map_filter (preserved_message lib R) ms) = List.map_filter (preserved_item lib R) (items_of ms)"
  by (induction ms)
    (auto simp: List.map_filter_def preserved_message_def strip_turn_metadata_def Let_def)

lemma preserve_tool_messages_closed:
  "closed_items (items_of ms) \<Longrightarrow> closed_items (items_of (preserve_tool_messages lib ms ids))"
  by (auto simp: preserve_tool_messages_def Let_def items_of_preserved closed_items_def
      answers_open_preserved last_open_preserved answers_open_def [of "[]"])

section \<open>What the operations leave behind\<close>

lemma generate_compression_closed:
  assumes "generate_compression env ms n sp ctx tools = Inr (Some replacement)"
    and "closed_items (items_of ms)"
    and "\<And>q rs. ce_compact_history env q = Inr (Some rs) \<Longrightarrow> closed_items (items_of rs)"
  shows "closed_items (items_of replacement)"
proof (cases "ce_compaction_mode env = Builtin")
  case True
  with assms(1,3) show ?thesis by (auto simp: generate_compression_def split: sum.splits)
next
  case False
  then obtain result where "replacement =
      chat_message_new (ce_fresh_id env) Compaction_role
        [Compaction (generic_summary (render_compression_result result))]
      # preserve_tool_messages (ce_json env) ms (cr_preserved_tool_call_ids result)"
    using assms(1)
    by (auto simp: generate_compression_def Let_def split: sum.splits if_splits)
  moreover have "closed_items [Compaction x]" for x
    by (auto simp: closed_items_def answers_open_def last_open_def Cons_eq_append_conv)
  ultimately show ?thesis
    using closed_items_append [OF _ preserve_tool_messages_closed [OF assms(2)]]
    by (simp add: chat_message_new_def) (metis append_Cons append_Nil)
qed

lemma apply_compression_ok:
  assumes "apply_compression env k next sp ctx tools b t ms = (Inr rep, ms')"
  shows "\<exists>generated. generate_compression env (take k ms) (length ms - k) sp ctx tools = Inr generated \<and>
           ms' = unwrap_or [] generated @ drop k ms @ (case next of None \<Rightarrow> [] | Some m \<Rightarrow> [m]) \<and>
           rep_compressed rep \<and> rep_compressed_message_count rep = k"
  using assms
  by (auto simp: apply_compression_def act_defs Let_def report_def split: sum.splits)

lemma append_ok:
  assumes "append_with_compression_with_tools env self next sp ctx tools ms = (Inr rep, ms')"
  shows "(\<not> rep_compressed rep \<and> rep_compressed_message_count rep = 0 \<and> ms' = ms @ [next]) \<or>
         (\<exists>k generated. rep_compressed rep \<and> rep_compressed_message_count rep = k \<and>
            plan_compression env self ms = Inr (Some k) \<and>
            generate_compression env (take k ms) (length ms - k) sp ctx tools = Inr generated \<and>
            ms' = unwrap_or [] generated @ drop k ms @ [next])"
proof -
  consider "ms' = ms @ [next]" "\<not> rep_compressed rep" "rep_compressed_message_count rep = 0"
    | k b where "plan_compression env self ms = Inr (Some k)"
        "apply_compression env k (Some next) sp ctx tools b (sc_threshold_tokens self) ms = (Inr rep, ms')"
    using assms
    by (auto simp: append_with_compression_with_tools_def gets_def bnd_ok andthen_ok from_result_ok
        upd_def okM_def report_def split: if_splits option.splits)
  then show ?thesis
  proof cases
    case 2
    then show ?thesis using apply_compression_ok [OF 2(2)] by auto
  qed simp
qed

lemma compact_now_ok:
  assumes "compact_now_with_tools env self sp ctx tools ms = (Inr rep, ms')"
  shows "(\<not> rep_compressed rep \<and> ms' = ms) \<or>
         (\<exists>k generated. rep_compressed rep \<and> plan_compression env self ms = Inr (Some k) \<and>
            generate_compression env (take k ms) (length ms - k) sp ctx tools = Inr generated \<and>
            ms' = unwrap_or [] generated @ drop k ms)"
proof -
  consider "ms' = ms" "\<not> rep_compressed rep"
    | k b where "plan_compression env self ms = Inr (Some k)"
        "apply_compression env k None sp ctx tools b (sc_threshold_tokens self) ms = (Inr rep, ms')"
    using assms
    by (auto simp: compact_now_with_tools_def gets_def bnd_ok andthen_ok from_result_ok
        upd_def okM_def report_def split: if_splits option.splits)
  then show ?thesis
  proof cases
    case 2
    then show ?thesis using apply_compression_ok [OF 2(2)] by auto
  qed simp
qed

lemma compressed_closed:
  assumes "plan_compression env self ms = Inr (Some k)"
    and "generate_compression env (take k ms) n sp ctx tools = Inr generated"
    and "is_tool_protocol_closed_suffix ms" and "answered_next ms"
    and "\<And>q rs. ce_compact_history env q = Inr (Some rs) \<Longrightarrow> is_tool_protocol_closed_suffix rs"
  shows "is_tool_protocol_closed_suffix (unwrap_or [] generated @ drop k ms)"
proof -
  from plan_compression_sound [OF assms(1)] have k: "anchored ms k" "k \<le> length ms" by auto
  have closed: "closed_items (items_of ms)" using assms(3) by (simp add: closed_suffix_iff)
  note split = split_closed [OF assms(4) k closed]
  have "closed_items (items_of (unwrap_or [] generated))"
  proof (cases generated)
    case None
    then show ?thesis by (simp add: closed_items_def answers_open_def last_open_def)
  next
    case (Some replacement)
    then show ?thesis
      using generate_compression_closed [of env "take k ms"] assms(2,5) split(1)
      by (auto simp: closed_suffix_iff)
  qed
  then show ?thesis using split(2) by (simp add: closed_suffix_iff closed_items_append)
qed

text \<open>
  The messages of a built-in compaction are those of the response of the Codex subscription, so
  they contain neither calls nor results.
\<close>

definition codex_compacts :: "compress_env \<Rightarrow> bool" where
  "codex_compacts env \<longleftrightarrow>
     (\<forall>q rs. ce_compact_history env q = Inr (Some rs) \<longrightarrow>
        (\<exists>fresh_ids response. compact_response_value_to_chat_messages fresh_ids response = Inr rs))"

lemma speaking_items_closed: "\<forall>x \<in> set items. speaks_only x \<Longrightarrow> closed_items items"
proof (induction items rule: rev_induct)
  case (snoc x items)
  then have "closed_items [x]"
    by (auto simp: closed_items_def answers_open_def last_open_def Cons_eq_append_conv speaks_only_def
        split: chat_message_item.splits)
  then show ?case using snoc closed_items_append by auto
qed (simp add: closed_items_def answers_open_def last_open_def)

lemma codex_compacts_closed:
  assumes "codex_compacts env" and "ce_compact_history env q = Inr (Some rs)"
  shows "is_tool_protocol_closed_suffix rs"
proof -
  obtain fresh_ids response where "compact_response_value_to_chat_messages fresh_ids response = Inr rs"
    using assms unfolding codex_compacts_def by blast
  then have "\<forall>x \<in> set (items_of rs). speaks_only x"
    using compact_response_speaks by (auto simp: items_of_def)
  then show ?thesis using speaking_items_closed by (simp add: closed_suffix_iff)
qed

section \<open>Properties\<close>

text \<open>
  C30. Appending a message with compression loses nothing recent: when it succeeds, the new
  history ends with the appended message, before it stands an unchanged suffix of the old
  history, and this suffix is the whole old history unless the report says it was
  compressed; in that case some but not all old messages were replaced, and the report says
  how many.
\<close>

theorem append_keeps_recent:
  assumes "append_with_compression_with_tools env self next sp ctx tools ms = (Inr rep, ms')"
  shows "\<exists>summary. ms' = summary @ drop (rep_compressed_message_count rep) ms @ [next] \<and>
           (if rep_compressed rep
            then 0 < rep_compressed_message_count rep \<and> rep_compressed_message_count rep < length ms
            else summary = [] \<and> rep_compressed_message_count rep = 0)"
  using append_ok [OF assms] plan_compression_sound [of env self ms] by fastforce

definition sample_compress_env :: compress_env where
  "sample_compress_env =
     \<lparr>ce_estimate = \<lambda>ms. Inr (length ms), ce_compaction_mode = Builtin,
      ce_compact_history = \<lambda>_. Inr (Some []), ce_send = \<lambda>_ _. Inl EmptyChoices, ce_sleep = \<lambda>_. 0,
      ce_retry_mode = Once, ce_parse_result = \<lambda>_. Inl [], ce_fresh_id = ''f'',
      ce_json = \<lparr>from_str = \<lambda>_. None, to_string_pretty = \<lambda>_. None\<rparr>\<rparr>"

definition sample_user :: "string \<Rightarrow> chat_message" where
  "sample_user i = chat_message_new i User [text_item ''hi'']"

lemma sample_append:
  "append_with_compression_with_tools sample_compress_env
     \<lparr>sc_threshold_tokens = 2, sc_retain_recent_tokens = 1\<rparr> (sample_user ''c'') None None []
     [sample_user ''a'', sample_user ''b''] =
   (Inr (report True 3 2 2 0 1), [sample_user ''b'', sample_user ''c''])"
  by (simp add: append_with_compression_with_tools_def act_defs estimate_with_next_def estimate_tokens_def
      sample_compress_env_def plan_compression_def recent_tail_start_by_token_budget_def Let_def
      recent_tail_loop.simps adjust_split_index_to_preserve_tool_context.simps sample_user_def
      chat_message_new_def text_item_def apply_compression_def generate_compression_def
      wrapping_add_def saturating_add_def u64_max_def report_def)

theorem append_keeps_recent_witness:
  "\<exists>summary. [sample_user ''b'', sample_user ''c''] =
     summary @ drop 1 [sample_user ''a'', sample_user ''b''] @ [sample_user ''c'']"
  using append_keeps_recent [OF sample_append] by (auto simp: report_def)

text \<open>
  C29. Compression keeps the tool protocol intact: if the history is closed and the results of
  each message's calls are in the next message, then after a successful append everything
  before the appended message is closed again: no retained tool result has lost its call, no
  retained call its result, and the calls the summary asked to preserve come with their
  results. That holds for summaries and for the built-in compaction of the Codex subscription,
  whose messages are those that \<open>compact_response_value_to_chat_messages\<close> reads from its response.
\<close>

theorem append_keeps_protocol:
  assumes "append_with_compression_with_tools env self next sp ctx tools ms = (Inr rep, ms')"
    and "is_tool_protocol_closed_suffix ms" and "answered_next ms" and "codex_compacts env"
  shows "ms' = butlast ms' @ [next] \<and> is_tool_protocol_closed_suffix (butlast ms')"
  using append_ok [OF assms(1)] compressed_closed [OF _ _ assms(2,3) codex_compacts_closed [OF assms(4)]] assms(2)
  by (auto simp: butlast_append)

text \<open>A history with a call and its result, and a response that replaces the message before them.\<close>

definition sample_response :: json where
  "sample_response = JObject [(''output'', JArray
     [JObject [(''type'', JString ''compaction''), (''encrypted_content'', JString ''e'')]])]"

definition sample_compaction :: chat_message where
  "sample_compaction = chat_message_new ''k'' Compaction_role
     [Compaction (provider_builtin CodexSubscription (JObject [(''encrypted_content'', JString ''e'')]))]"

definition codex_env :: compress_env where
  "codex_env = sample_compress_env
     \<lparr>ce_compact_history := \<lambda>_. map_sum id Some (compact_response_value_to_chat_messages (\<lambda>_. ''k'') sample_response)\<rparr>"

lemma sample_response_messages:
  "compact_response_value_to_chat_messages (\<lambda>_. ''k'') sample_response = Inr [sample_compaction]"
  by (simp add: compact_response_value_to_chat_messages_def sample_response_def sample_compaction_def
      compact_output_item_def json_access_defs List.map_filter_def)

lemma codex_env_compacts: "codex_compacts codex_env"
  by (auto simp: codex_compacts_def codex_env_def sample_response_messages intro: sample_response_messages)

lemma codex_append:
  "append_with_compression_with_tools codex_env
     \<lparr>sc_threshold_tokens = 4, sc_retain_recent_tokens = 3\<rparr> (sample_user ''c'') None None []
     [sample_user ''a'', sample_call, sample_result, sample_user ''d''] =
   (Inr (report True 5 5 4 3 1), [sample_compaction, sample_call, sample_result, sample_user ''d'', sample_user ''c''])"
  by (simp add: append_with_compression_with_tools_def act_defs estimate_with_next_def estimate_tokens_def
      codex_env_def sample_response_messages sample_compress_env_def plan_compression_def
      recent_tail_start_by_token_budget_def Let_def recent_tail_loop.simps
      adjust_split_index_to_preserve_tool_context.simps sample_user_def sample_call_def sample_result_def
      chat_message_new_def text_item_def apply_compression_def generate_compression_def
      find_originating_tool_call_index_def has_call_def earliest_origin.simps upt_rec
      wrapping_add_def saturating_add_def u64_max_def report_def)

theorem append_keeps_protocol_witness:
  "is_tool_protocol_closed_suffix [sample_compaction, sample_call, sample_result, sample_user ''d'']"
proof -
  let ?ms = "[sample_user ''a'', sample_call, sample_result, sample_user ''d'']"
  have "answered_next ?ms"
    by (auto simp: answered_next_def has_call_def has_result_def sample_user_def sample_call_def sample_result_def
        chat_message_new_def text_item_def less_Suc_eq)
  moreover have "is_tool_protocol_closed_suffix ?ms"
    by (simp add: is_tool_protocol_closed_suffix_def sample_user_def sample_call_def sample_result_def
        chat_message_new_def text_item_def)
  ultimately show ?thesis using append_keeps_protocol [OF codex_append _ _ codex_env_compacts] by simp
qed

text \<open>
  A manual compaction obeys the same contract: when it succeeds it either leaves the
  history untouched or replaces a proper, nonempty prefix, and a closed history in which
  results directly follow their calls stays closed.
\<close>

theorem compact_now_keeps_protocol:
  assumes "compact_now_with_tools env self sp ctx tools ms = (Inr rep, ms')"
    and "is_tool_protocol_closed_suffix ms" and "answered_next ms" and "codex_compacts env"
  shows "is_tool_protocol_closed_suffix ms' \<and>
         (ms' = ms \<or> (\<exists>summary k. 0 < k \<and> k < length ms \<and> ms' = summary @ drop k ms))"
  using compact_now_ok [OF assms(1)] compressed_closed [OF _ _ assms(2,3) codex_compacts_closed [OF assms(4)]] assms(2)
    plan_compression_sound [of env self ms] by fastforce

end
