(* ===== verification/Runtime_Metadata.thy ===== *)
theory Runtime_Metadata
  imports Session_Rpc
begin

text \<open>
  Model of \<open>core/src/session_actor/runtime_metadata.rs\<close>: the snapshots of durable prompt
  components (identity, user metadata, skills, remote aliases), what changed since the
  model was last told, and how the workspace files are read. The files themselves are
  the argument \<open>workspace_files\<close>; the standard library's string hasher is the argument
  \<open>hash\<close> (a 64-bit word). A slice out of range is the outcome \<open>Panicked\<close>.
\<close>

section \<open>Lines and words\<close>

text \<open>\<open>str::lines\<close>: a final line ending does not open another line; \<open>CR LF\<close> counts as one.\<close>

definition strip_cr :: "string \<Rightarrow> string" where
  "strip_cr l = (if l \<noteq> [] \<and> last l = CHR 0x0D then butlast l else l)"

fun str_lines_acc :: "string \<Rightarrow> string \<Rightarrow> string list" where
  "str_lines_acc acc [] = (if acc = [] then [] else [acc])"
| "str_lines_acc acc (c # cs) =
     (if c = CHR 0x0A then strip_cr acc # str_lines_acc [] cs else str_lines_acc (acc @ [c]) cs)"

definition str_lines :: "string \<Rightarrow> string list" where
  "str_lines s = str_lines_acc [] s"

fun split_whitespace_acc :: "string \<Rightarrow> string \<Rightarrow> string list" where
  "split_whitespace_acc acc [] = (if acc = [] then [] else [acc])"
| "split_whitespace_acc acc (c # cs) =
     (if rust_whitespace c
      then (if acc = [] then split_whitespace_acc [] cs else acc # split_whitespace_acc [] cs)
      else split_whitespace_acc (acc @ [c]) cs)"

definition split_whitespace :: "string \<Rightarrow> string list" where
  "split_whitespace s = split_whitespace_acc [] s"

text \<open>\<open>str::find\<close>: the position of the first occurrence.\<close>

fun str_find :: "string \<Rightarrow> string \<Rightarrow> nat option" where
  "str_find p [] = (if p = [] then Some 0 else None)"
| "str_find p (c # s) = (if starts_with p (c # s) then Some 0 else map_option Suc (str_find p s))"

section \<open>State\<close>

record session_skill_observation =
  so_name :: string
  so_description :: string
  so_content :: string

record workspace_runtime_metadata =
  wm_identity :: string
  wm_user_meta :: string
  wm_user_memory :: string
  wm_skills_metadata :: string
  wm_skills :: "session_skill_observation list"

record session_skill_state =
  ss_description :: string
  ss_content :: string
  ss_last_loaded_turn :: "nat option"

record session_prompt_component_state =
  pc_system_prompt_value :: string
  pc_system_prompt_hash :: string
  pc_notified_value :: string
  pc_notified_hash :: string

record runtime_metadata_state =
  rm_prompt_components :: "(string, session_prompt_component_state) btree_map"
  rm_skill_states :: "(string, session_skill_state) btree_map"

definition prompt_component_default :: session_prompt_component_state where
  "prompt_component_default =
     \<lparr>pc_system_prompt_value = [], pc_system_prompt_hash = [],
      pc_notified_value = [], pc_notified_hash = []\<rparr>"

definition skill_state_default :: session_skill_state where
  "skill_state_default = \<lparr>ss_description = [], ss_content = [], ss_last_loaded_turn = None\<rparr>"

definition runtime_metadata_default :: runtime_metadata_state where
  "runtime_metadata_default = \<lparr>rm_prompt_components = [], rm_skill_states = []\<rparr>"

record prompt_component_change_notice =
  pn_key :: string
  pn_previous_value :: string
  pn_value :: string

datatype skill_change_notice =
    DescriptionChanged string string
  | ContentChanged string string string

definition identity_component :: string where "identity_component = ''identity''"
definition remote_aliases_component :: string where "remote_aliases_component = ''ssh_remote_aliases''"
definition remote_workspace_component :: string where "remote_workspace_component = ''remote_workspace''"
definition skills_metadata_component :: string where "skills_metadata_component = ''skills_metadata''"
definition user_meta_component :: string where "user_meta_component = ''user_meta''"
definition user_memory_component :: string where "user_memory_component = ''user_memory''"

lemmas component_key_defs =
  identity_component_def remote_aliases_component_def remote_workspace_component_def
  skills_metadata_component_def user_meta_component_def user_memory_component_def

section \<open>Prompt components\<close>

definition prompt_component_hash :: "(string \<Rightarrow> 64 word) \<Rightarrow> string \<Rightarrow> string" where
  "prompt_component_hash hash value = show_hex16 (hash value)"

definition component_untouched :: "session_prompt_component_state \<Rightarrow> bool" where
  "component_untouched state \<longleftrightarrow>
     pc_system_prompt_hash state = [] \<and> pc_system_prompt_value state = [] \<and>
     pc_notified_hash state = [] \<and> pc_notified_value state = []"

definition fresh_component :: "string \<Rightarrow> string \<Rightarrow> session_prompt_component_state" where
  "fresh_component value h =
     \<lparr>pc_system_prompt_value = value, pc_system_prompt_hash = h,
      pc_notified_value = value, pc_notified_hash = h\<rparr>"

type_synonym prompt_components = "(string, session_prompt_component_state) btree_map"

definition initialize_component ::
  "(string \<Rightarrow> 64 word) \<Rightarrow> string \<Rightarrow> string \<Rightarrow> prompt_components \<Rightarrow> prompt_components" where
  "initialize_component hash key value components =
     (let state = unwrap_or prompt_component_default (btree_get key components)
      in btree_insert key
           (if component_untouched state then fresh_component value (prompt_component_hash hash value)
            else state) components)"

definition observe_component ::
  "(string \<Rightarrow> 64 word) \<Rightarrow> string \<Rightarrow> string \<Rightarrow>
     prompt_components \<times> prompt_component_change_notice list \<Rightarrow>
     prompt_components \<times> prompt_component_change_notice list" where
  "observe_component hash key value cn =
     (let (components, notices) = cn;
          h = prompt_component_hash hash value;
          state = unwrap_or prompt_component_default (btree_get key components)
      in if component_untouched state then (btree_insert key (fresh_component value h) components, notices)
         else if pc_notified_hash state \<noteq> h then
           (btree_insert key (state\<lparr>pc_notified_value := value, pc_notified_hash := h\<rparr>) components,
            notices @ [\<lparr>pn_key = key, pn_previous_value = pc_notified_value state, pn_value = value\<rparr>])
         else (btree_insert key state components, notices))"

definition promote_notified_components_to_system_snapshot ::
  "runtime_metadata_state \<Rightarrow> runtime_metadata_state" where
  "promote_notified_components_to_system_snapshot st =
     st\<lparr>rm_prompt_components :=
          map (\<lambda>(key, state).
                 (key, if pc_notified_hash state = [] \<and> pc_notified_value state = [] then state
                       else state\<lparr>pc_system_prompt_value := pc_notified_value state,
                                  pc_system_prompt_hash := pc_notified_hash state\<rparr>))
            (rm_prompt_components st)\<rparr>"

definition snapshot_value :: "string \<Rightarrow> runtime_metadata_state \<Rightarrow> string option" where
  "snapshot_value key st =
     (case btree_get key (rm_prompt_components st) of
        None \<Rightarrow> None
      | Some state \<Rightarrow>
          (if trim (pc_system_prompt_value state) = [] then None
           else Some (trim (pc_system_prompt_value state))))"

definition initialize_missing_component ::
  "(string \<Rightarrow> 64 word) \<Rightarrow> string \<Rightarrow> string \<Rightarrow> runtime_metadata_state \<Rightarrow> runtime_metadata_state" where
  "initialize_missing_component hash key value st =
     st\<lparr>rm_prompt_components := initialize_component hash key value (rm_prompt_components st)\<rparr>"

section \<open>Skills\<close>

definition mark_loaded_skills :: "string list \<Rightarrow> nat \<Rightarrow> runtime_metadata_state \<Rightarrow> runtime_metadata_state" where
  "mark_loaded_skills skill_names turn_number st =
     st\<lparr>rm_skill_states :=
          fold (\<lambda>name states.
                  btree_insert name
                    ((unwrap_or skill_state_default (btree_get name states))
                       \<lparr>ss_last_loaded_turn := Some turn_number\<rparr>) states)
            skill_names (rm_skill_states st)\<rparr>"

definition observe_skill ::
  "session_skill_observation \<Rightarrow>
     (string, session_skill_state) btree_map \<times> skill_change_notice list \<Rightarrow>
     (string, session_skill_state) btree_map \<times> skill_change_notice list" where
  "observe_skill observed sn =
     (let (states, notices) = sn
      in case btree_get (so_name observed) states of
           Some state \<Rightarrow>
             (btree_insert (so_name observed)
                (state\<lparr>ss_description := so_description observed, ss_content := so_content observed\<rparr>) states,
              notices
                @ (if ss_description state \<noteq> so_description observed
                   then [DescriptionChanged (so_name observed) (so_description observed)] else [])
                @ (if ss_content state \<noteq> so_content observed \<and> ss_last_loaded_turn state \<noteq> None
                   then [ContentChanged (so_name observed) (so_description observed) (so_content observed)]
                   else []))
         | None \<Rightarrow>
             (btree_insert (so_name observed)
                \<lparr>ss_description = so_description observed, ss_content = so_content observed,
                 ss_last_loaded_turn = None\<rparr> states, notices))"

definition observe_skill_changes ::
  "session_skill_observation list \<Rightarrow> runtime_metadata_state \<Rightarrow>
     skill_change_notice list \<times> runtime_metadata_state" where
  "observe_skill_changes observed_skills st =
     (let (states, notices) = fold observe_skill observed_skills (rm_skill_states st, [])
      in (notices,
          st\<lparr>rm_skill_states := btree_retain (\<lambda>name _. name \<in> so_name ` set observed_skills) states\<rparr>))"

section \<open>Rendering\<close>

definition nonblank_line_set :: "string \<Rightarrow> string list" where
  "nonblank_line_set s = btree_set (filter (\<lambda>l. l \<noteq> []) (map trim (str_lines s)))"

definition render_prompt_component_line_diff :: "string \<Rightarrow> string \<Rightarrow> string" where
  "render_prompt_component_line_diff previous current =
     (let previous_lines = nonblank_line_set previous;
          current_lines = nonblank_line_set current;
          changes = map (\<lambda>l. ''- '' @ l) (filter (\<lambda>l. l \<notin> set current_lines) previous_lines)
                    @ map (\<lambda>l. ''+ '' @ l) (filter (\<lambda>l. l \<notin> set previous_lines) current_lines)
      in join newline
           ([''--- previous'', ''+++ current''] @ (if changes = [] then ['' unchanged''] else changes)))"

definition prompt_notice_section :: "prompt_component_change_notice \<Rightarrow> string" where
  "prompt_notice_section notice =
     (let value = trim (pn_value notice)
      in if pn_key notice = identity_component then
           (if value = [] then ''Identity is now empty. Ignore earlier Identity prompt content.''
            else ''Identity changed. Treat this refreshed identity as authoritative for this turn:'' @ newline @ value)
         else if pn_key notice = user_meta_component then
           (if value = [] then ''User metadata file is now absent. Ignore earlier USER.md metadata.''
            else ''USER.md metadata changed. The full file content is not included in this notice; inspect .stellaclaw/USER.md with shell_exec if exact profile details are needed. Refreshed metadata:'' @ newline @ value)
         else if pn_key notice = user_memory_component then
           (if value = [] then ''User memory is now empty. Apply this diff:'' @ newline @
              render_prompt_component_line_diff (pn_previous_value notice) []
            else ''User memory changed. Apply this diff to the current User Memory snapshot for this turn:'' @ newline @
              render_prompt_component_line_diff (pn_previous_value notice) (pn_value notice))
         else if pn_key notice = skills_metadata_component then
           ''The available skill metadata changed. Treat this refreshed metadata as authoritative for this turn:'' @ newline @ value
         else if pn_key notice = remote_aliases_component then
           ''The available SSH remote alias list changed. Treat this refreshed list as authoritative for remote tool calls in this turn:'' @ newline @ value
         else if pn_key notice = remote_workspace_component then
           (if value = [] then ''Remote workspace instructions are now absent. Ignore earlier remote workspace instruction snapshots.''
            else ''Remote workspace instructions changed. Treat this refreshed remote workspace snapshot as authoritative for this turn:'' @ newline @ value)
         else ''Prompt component `'' @ pn_key notice @ ''` changed. Treat this refreshed value as authoritative for this turn:'' @ newline @ value)"

definition render_prompt_component_change_notices :: "prompt_component_change_notice list \<Rightarrow> string" where
  "render_prompt_component_change_notices notices =
     (if notices = [] then []
      else join paragraph_break
        ([''[Runtime Prompt Updates]'',
          ''Some durable profile context changed since the current canonical system prompt snapshot. Apply these updates for this user turn; they will be folded into the canonical system prompt after compaction.'']
         @ map prompt_notice_section notices))"

fun skill_notice_section :: "skill_change_notice \<Rightarrow> string" where
  "skill_notice_section (DescriptionChanged name description) =
     ''Skill \"'' @ name @ ''\" has an updated description:'' @ newline @ description"
| "skill_notice_section (ContentChanged name description content) =
     ''Skill \"'' @ name @ ''\" changed after it was loaded earlier in this session. Use the refreshed skill immediately.'' @ newline @
     ''Updated description: '' @ description @ newline @ ''Refreshed SKILL.md content:'' @ newline @ content"

definition render_skill_change_notices :: "skill_change_notice list \<Rightarrow> string" where
  "render_skill_change_notices notices =
     (if notices = [] then []
      else join paragraph_break
        ([''[Runtime Skill Updates]'',
          ''The global skill registry changed since earlier in this session. Apply these updates before handling the user'' @ [CHR 0x27] @ ''s new request.'']
         @ map skill_notice_section notices))"

definition render_skills_metadata :: "session_skill_observation list \<Rightarrow> string" where
  "render_skills_metadata skills =
     (if skills = [] then []
      else join newline
        ([''Available skills from .stellaclaw/skill/ in the current workspace:'',
          ''Load a skill by exact name before relying on its detailed instructions.'']
         @ map (\<lambda>skill. if trim (so_description skill) = [] then ''- '' @ so_name skill
                        else ''- '' @ so_name skill @ '': '' @ trim (so_description skill)) skills))"

section \<open>Skill descriptions\<close>

datatype load_error = LoadError string | Panicked

definition unquote_yaml_scalar :: "string \<Rightarrow> string" where
  "unquote_yaml_scalar value =
     (let trimmed = trim value
      in if length trimmed \<ge> 2 \<and>
            (hd trimmed = CHR 0x22 \<and> last trimmed = CHR 0x22 \<or>
             hd trimmed = CHR 0x27 \<and> last trimmed = CHR 0x27)
         then trim (butlast (tl trimmed)) else trimmed)"

text \<open>The lines of a block scalar: up to the first nonblank line that is not indented.\<close>

fun block_lines :: "string list \<Rightarrow> string list" where
  "block_lines [] = []"
| "block_lines (l # ls) =
     (if trim l \<noteq> [] \<and> \<not> (case l of [] \<Rightarrow> False | c # _ \<Rightarrow> rust_whitespace c) then []
      else if trim l \<noteq> [] then trim l # block_lines ls else block_lines ls)"

fun frontmatter_scalar_loop :: "string \<Rightarrow> string list \<Rightarrow> string option" where
  "frontmatter_scalar_loop pre [] = None"
| "frontmatter_scalar_loop pre (l # ls) =
     (case strip_prefix pre (trim l) of
        None \<Rightarrow> frontmatter_scalar_loop pre ls
      | Some v \<Rightarrow>
          (let value = trim v
           in if value = [] then None
              else if value = ''|'' \<or> value = ''>'' \<or> starts_with ''|-'' value \<or> starts_with ''>-'' value then
                (let joined = trim (join (if starts_with ''>'' value then '' '' else newline) (block_lines ls))
                 in if joined = [] then None else Some joined)
              else Some (unquote_yaml_scalar value)))"

definition frontmatter_scalar :: "string \<Rightarrow> string \<Rightarrow> string option" where
  "frontmatter_scalar frontmatter key = frontmatter_scalar_loop (key @ '':'') (str_lines frontmatter)"

text \<open>The slice \<open>content[4..]\<close> panics on a text of fewer than four bytes.\<close>

definition extract_yaml_frontmatter :: "string \<Rightarrow> load_error + string option" where
  "extract_yaml_frontmatter content =
     (case str_lines content of
        [] \<Rightarrow> Inr None
      | first # _ \<Rightarrow>
          (if first \<noteq> ''---'' then Inr None
           else if length content < 4 then Inl Panicked
           else (case str_find (newline @ ''---'') (drop 4 content) of
                   None \<Rightarrow> Inr None
                 | Some e \<Rightarrow> Inr (Some (take e (drop 4 content))))))"

fun paragraph_loop :: "string list \<Rightarrow> string list \<Rightarrow> string list" where
  "paragraph_loop par [] = par"
| "paragraph_loop par (l # ls) =
     (let trimmed = trim l
      in if trimmed = [] then (if par \<noteq> [] then par else paragraph_loop par ls)
         else if hd trimmed = CHR ''#'' \<and> par = [] then paragraph_loop par ls
         else paragraph_loop (par @ [trimmed]) ls)"

definition infer_skill_description :: "string \<Rightarrow> load_error + string" where
  "infer_skill_description content =
     (case extract_yaml_frontmatter content of
        Inl e \<Rightarrow> Inl e
      | Inr fm \<Rightarrow>
          (case Option.bind fm (\<lambda>f. frontmatter_scalar f ''description'') of
             Some description \<Rightarrow> Inr description
           | None \<Rightarrow> Inr (trim (join '' '' (paragraph_loop [] (str_lines content))))))"

section \<open>Reading the workspace\<close>

text \<open>
  What the file system answers: \<open>Absent\<close> when the path does not exist, an error text
  when reading fails, or the text of the file. An ancestor directory of the data root
  reports whether it holds the memory file, and the two directories that mark a workdir.
\<close>

datatype file_read = Absent | ReadError string | FileText string

record workdir_candidate =
  wc_entries :: file_read
  wc_rundir :: bool
  wc_conversations :: bool

datatype skill_dir_entry =
    EntryError string
  | EntryTypeError string
  | SkillEntry bool string file_read

datatype skill_root = NoSkillRoot | SkillRootError string | SkillRoot "skill_dir_entry list"

record workspace_files =
  wf_identity :: file_read
  wf_user_meta :: file_read
  wf_ancestors :: "workdir_candidate list"
  wf_skills :: skill_root

definition read_optional_workspace_file :: "file_read \<Rightarrow> load_error + string" where
  "read_optional_workspace_file f =
     (case f of Absent \<Rightarrow> Inr [] | ReadError e \<Rightarrow> Inl (LoadError (''failed to read '' @ e)) | FileText t \<Rightarrow> Inr (trim t))"

definition load_user_meta_snapshot :: "(string \<Rightarrow> 64 word) \<Rightarrow> file_read \<Rightarrow> load_error + string" where
  "load_user_meta_snapshot hash f =
     (case f of
        Absent \<Rightarrow> Inr []
      | ReadError e \<Rightarrow> Inl (LoadError (''failed to read '' @ e))
      | FileText raw \<Rightarrow> Inr
          (''Profile metadata file: .stellaclaw/USER.md'' @ newline @ ''status: present'' @ newline @
           ''bytes: '' @ show_nat (utf8_len raw) @ newline @
           ''hash: '' @ prompt_component_hash hash raw @ newline @
           ''Inspect .stellaclaw/USER.md with shell_exec when exact profile details are needed.''))"

definition truncate_user_memory_text :: "string \<Rightarrow> nat \<Rightarrow> string" where
  "truncate_user_memory_text text max_chars =
     (let trimmed = trim text
      in if length trimmed \<le> max_chars then trimmed else take max_chars trimmed @ ''...'')"

definition user_memory_tags :: "json \<Rightarrow> string list" where
  "user_memory_tags value =
     (case Option.bind (json_get ''tags'' value) as_array of
        None \<Rightarrow> []
      | Some items \<Rightarrow>
          map (\<lambda>tag. ''#'' @ tag)
            (take 4 (filter (\<lambda>t. t \<noteq> []) (map trim (List.map_filter as_str items)))))"

definition user_memory_line :: "json \<Rightarrow> string option" where
  "user_memory_line value =
     (if get_str ''state'' value \<noteq> Some ''active'' then None
      else
        (let i = unwrap_or ''unknown'' (get_str ''id'' value);
             subject = (case filter_option (\<lambda>v. v \<noteq> []) (map_option trim (get_str ''subject'' value)) of
                          None \<Rightarrow> [] | Some v \<Rightarrow> '' ('' @ v @ '')'');
             text = trim (unwrap_or [] (get_str ''text'' value));
             tags = user_memory_tags value
         in if text = [] then None
            else Some (''* ['' @ i @ '']'' @ subject @ '' '' @
                       replace_newlines (truncate_user_memory_text text 700) @
                       (if tags = [] then [] else '' '' @ join '' '' tags))))"

fun user_memory_lines :: "json_lib \<Rightarrow> string list \<Rightarrow> load_error + string list" where
  "user_memory_lines lib [] = Inr []"
| "user_memory_lines lib (l # ls) =
     (if trim l = [] then user_memory_lines lib ls
      else case from_str lib (trim l) of
        None \<Rightarrow> Inl (LoadError ''failed to parse'')
      | Some value \<Rightarrow>
          (case user_memory_lines lib ls of
             Inl e \<Rightarrow> Inl e
           | Inr rest \<Rightarrow> Inr (case user_memory_line value of None \<Rightarrow> rest | Some r \<Rightarrow> r # rest)))"

definition discover_workdir_root :: "workdir_candidate list \<Rightarrow> workdir_candidate option" where
  "discover_workdir_root candidates =
     find (\<lambda>c. wc_entries c \<noteq> Absent \<or> wc_rundir c \<and> wc_conversations c) candidates"

definition load_user_memory_snapshot :: "json_lib \<Rightarrow> workdir_candidate list \<Rightarrow> load_error + string" where
  "load_user_memory_snapshot lib candidates =
     (case discover_workdir_root candidates of
        None \<Rightarrow> Inr []
      | Some workdir_root \<Rightarrow>
          (case wc_entries workdir_root of
             Absent \<Rightarrow> Inr []
           | ReadError e \<Rightarrow> Inl (LoadError (''failed to read '' @ e))
           | FileText raw \<Rightarrow>
               (case user_memory_lines lib (str_lines raw) of
                  Inl e \<Rightarrow> Inl e
                | Inr ls \<Rightarrow> Inr (join newline ls))))"

fun skill_dirs_by_name ::
  "skill_dir_entry list \<Rightarrow> (string, file_read) btree_map \<Rightarrow> load_error + (string, file_read) btree_map" where
  "skill_dirs_by_name [] by_name = Inr by_name"
| "skill_dirs_by_name (EntryError e # es) by_name =
     Inl (LoadError (''failed to enumerate skill directories under '' @ e))"
| "skill_dirs_by_name (EntryTypeError e # es) by_name = Inl (LoadError (''failed to inspect '' @ e))"
| "skill_dirs_by_name (SkillEntry is_dir file_name skill_md # es) by_name =
     (if \<not> is_dir then skill_dirs_by_name es by_name
      else if trim file_name = [] then skill_dirs_by_name es by_name
      else skill_dirs_by_name es (btree_insert (trim file_name) skill_md by_name))"

fun read_skills :: "(string, file_read) btree_map \<Rightarrow> load_error + session_skill_observation list" where
  "read_skills [] = Inr []"
| "read_skills ((name, f) # rest) =
     (case f of
        Absent \<Rightarrow> read_skills rest
      | ReadError e \<Rightarrow> Inl (LoadError (''failed to read '' @ e))
      | FileText content \<Rightarrow>
          (case infer_skill_description content of
             Inl e \<Rightarrow> Inl e
           | Inr description \<Rightarrow>
               (case read_skills rest of
                  Inl e \<Rightarrow> Inl e
                | Inr skills \<Rightarrow>
                    Inr (\<lparr>so_name = name, so_description = description, so_content = content\<rparr> # skills))))"

definition load_workspace_skills :: "skill_root \<Rightarrow> load_error + session_skill_observation list" where
  "load_workspace_skills skill_dir =
     (case skill_dir of
        NoSkillRoot \<Rightarrow> Inr []
      | SkillRootError e \<Rightarrow> Inl (LoadError (''failed to read '' @ e))
      | SkillRoot entries \<Rightarrow>
          (case skill_dirs_by_name entries [] of Inl e \<Rightarrow> Inl e | Inr by_name \<Rightarrow> read_skills by_name))"

definition load_workspace_runtime_metadata ::
  "json_lib \<Rightarrow> (string \<Rightarrow> 64 word) \<Rightarrow> workspace_files \<Rightarrow> load_error + workspace_runtime_metadata" where
  "load_workspace_runtime_metadata lib hash files =
     (case read_optional_workspace_file (wf_identity files) of Inl e \<Rightarrow> Inl e | Inr identity \<Rightarrow>
      case load_user_meta_snapshot hash (wf_user_meta files) of Inl e \<Rightarrow> Inl e | Inr user_meta \<Rightarrow>
      case load_user_memory_snapshot lib (wf_ancestors files) of Inl e \<Rightarrow> Inl e | Inr user_memory \<Rightarrow>
      case load_workspace_skills (wf_skills files) of Inl e \<Rightarrow> Inl e | Inr skills \<Rightarrow>
        Inr \<lparr>wm_identity = identity, wm_user_meta = user_meta, wm_user_memory = user_memory,
             wm_skills_metadata = render_skills_metadata skills, wm_skills = skills\<rparr>)"

section \<open>Initialisation and observation\<close>

definition initialize_metadata ::
  "(string \<Rightarrow> 64 word) \<Rightarrow> workspace_runtime_metadata \<Rightarrow> string \<Rightarrow> string \<Rightarrow> bool \<Rightarrow>
     runtime_metadata_state \<Rightarrow> runtime_metadata_state" where
  "initialize_metadata hash metadata remote_aliases_prompt remote_workspace_prompt memory_enabled st =
     (let c0 = rm_prompt_components st;
          c1 = initialize_component hash identity_component (wm_identity metadata) c0;
          c2 = initialize_component hash user_meta_component (wm_user_meta metadata) c1;
          c3 = (if memory_enabled
                then initialize_component hash user_memory_component (wm_user_memory metadata) c2
                else btree_remove user_memory_component c2);
          c4 = initialize_component hash skills_metadata_component (wm_skills_metadata metadata) c3;
          skills = fold (\<lambda>skill states.
                      if btree_contains (so_name skill) states then states
                      else btree_insert (so_name skill)
                             \<lparr>ss_description = so_description skill, ss_content = so_content skill,
                              ss_last_loaded_turn = None\<rparr> states)
                     (wm_skills metadata) (rm_skill_states st);
          c5 = initialize_component hash remote_aliases_component remote_aliases_prompt c4;
          c6 = initialize_component hash remote_workspace_component remote_workspace_prompt c5
      in \<lparr>rm_prompt_components = c6, rm_skill_states = skills\<rparr>)"

definition initialize_from_workspace ::
  "json_lib \<Rightarrow> (string \<Rightarrow> 64 word) \<Rightarrow> workspace_files \<Rightarrow> string \<Rightarrow> string \<Rightarrow> bool \<Rightarrow>
     runtime_metadata_state \<Rightarrow> load_error + runtime_metadata_state" where
  "initialize_from_workspace lib hash files remote_aliases_prompt remote_workspace_prompt memory_enabled st =
     (case load_workspace_runtime_metadata lib hash files of
        Inl e \<Rightarrow> Inl e
      | Inr metadata \<Rightarrow>
          Inr (initialize_metadata hash metadata remote_aliases_prompt remote_workspace_prompt memory_enabled st))"

definition observe_components ::
  "(string \<Rightarrow> 64 word) \<Rightarrow> workspace_runtime_metadata \<Rightarrow> string \<Rightarrow> string \<Rightarrow> bool \<Rightarrow>
     prompt_components \<Rightarrow> prompt_components \<times> prompt_component_change_notice list" where
  "observe_components hash metadata remote_aliases_prompt remote_workspace_prompt memory_enabled c0 =
     (let c1 = observe_component hash identity_component (wm_identity metadata) (c0, []);
          c2 = observe_component hash user_meta_component (wm_user_meta metadata) c1;
          c3 = (if memory_enabled
                then observe_component hash user_memory_component (wm_user_memory metadata) c2
                else (btree_remove user_memory_component (fst c2), snd c2));
          c4 = observe_component hash skills_metadata_component (wm_skills_metadata metadata) c3;
          c5 = observe_component hash remote_aliases_component remote_aliases_prompt c4
      in observe_component hash remote_workspace_component remote_workspace_prompt c5)"

definition observe_metadata ::
  "(string \<Rightarrow> 64 word) \<Rightarrow> workspace_runtime_metadata \<Rightarrow> string \<Rightarrow> string \<Rightarrow> bool \<Rightarrow>
     runtime_metadata_state \<Rightarrow> string list \<times> runtime_metadata_state" where
  "observe_metadata hash metadata remote_aliases_prompt remote_workspace_prompt memory_enabled st =
     (let (components, prompt_notices) =
            observe_components hash metadata remote_aliases_prompt remote_workspace_prompt memory_enabled
              (rm_prompt_components st);
          (skill_notices, st') = observe_skill_changes (wm_skills metadata) (st\<lparr>rm_prompt_components := components\<rparr>);
          prompt_text = render_prompt_component_change_notices prompt_notices;
          skill_text = render_skill_change_notices skill_notices
      in ((if prompt_text \<noteq> [] then [prompt_text] else []) @ (if skill_text \<noteq> [] then [skill_text] else []), st'))"

definition observe_for_user_turn_from_workspace ::
  "json_lib \<Rightarrow> (string \<Rightarrow> 64 word) \<Rightarrow> workspace_files \<Rightarrow> string \<Rightarrow> string \<Rightarrow> bool \<Rightarrow>
     runtime_metadata_state \<Rightarrow> load_error + string list \<times> runtime_metadata_state" where
  "observe_for_user_turn_from_workspace lib hash files remote_aliases_prompt remote_workspace_prompt memory_enabled st =
     (case load_workspace_runtime_metadata lib hash files of
        Inl e \<Rightarrow> Inl e
      | Inr metadata \<Rightarrow>
          Inr (observe_metadata hash metadata remote_aliases_prompt remote_workspace_prompt memory_enabled st))"

section \<open>SSH aliases\<close>

text \<open>
  The environment and the file system the alias discovery reads: the two variables,
  \<open>canonicalize\<close> and \<open>read_to_string\<close> (\<open>None\<close> on any failure). A path is its text.
\<close>

record ssh_files =
  sf_ssh_config_var :: "string option"
  sf_home_var :: "string option"
  sf_canonicalize :: "string \<Rightarrow> string option"
  sf_read :: "string \<Rightarrow> string option"

definition before_hash :: "string \<Rightarrow> string" where
  "before_hash l = takeWhile (\<lambda>c. c \<noteq> CHR ''#'') l"

definition config_words :: "string \<Rightarrow> string list" where
  "config_words l = split_whitespace (trim (before_hash l))"

definition is_concrete_ssh_alias :: "string \<Rightarrow> bool" where
  "is_concrete_ssh_alias alias \<longleftrightarrow>
     \<not> starts_with ''!'' alias \<and> CHR ''*'' \<notin> set alias \<and> CHR 0x3F \<notin> set alias \<and>
     CHR 0x25 \<notin> set alias \<and> trim alias \<noteq> [] \<and> list_all (\<lambda>c. \<not> rust_whitespace c) alias"

definition line_aliases :: "string \<Rightarrow> string list" where
  "line_aliases l =
     (case config_words l of
        [] \<Rightarrow> []
      | keyword # parts \<Rightarrow>
          (if to_ascii_lowercase keyword = ''host'' then filter is_concrete_ssh_alias parts else []))"

definition parse_ssh_config_aliases :: "string \<Rightarrow> string list" where
  "parse_ssh_config_aliases content = btree_set (concat (map line_aliases (str_lines content)))"

definition line_includes :: "string \<Rightarrow> string list" where
  "line_includes l =
     (case config_words l of
        [] \<Rightarrow> []
      | keyword # parts \<Rightarrow> (if to_ascii_lowercase keyword = ''include'' then parts else []))"

definition parse_ssh_config_includes :: "string \<Rightarrow> string list" where
  "parse_ssh_config_includes content = concat (map line_includes (str_lines content))"

definition path_join :: "string \<Rightarrow> string \<Rightarrow> string" where
  "path_join base p =
     (if starts_with ''/'' p then p
      else if base = [] \<or> last base = CHR ''/'' then base @ p else base @ ''/'' @ p)"

text \<open>\<open>Path::parent\<close> of a canonical (absolute, normal) path.\<close>

definition path_parent :: "string \<Rightarrow> string option" where
  "path_parent p =
     (if p = ''/'' then None
      else (let up = rev (tl (dropWhile (\<lambda>c. c \<noteq> CHR ''/'') (rev p)))
            in Some (if up = [] then ''/'' else up)))"

definition expand_tilde_path :: "ssh_files \<Rightarrow> string \<Rightarrow> string" where
  "expand_tilde_path fs raw =
     (if raw = ''~'' then unwrap_or raw (sf_home_var fs)
      else case strip_prefix ''~/'' raw of
        Some rest \<Rightarrow> (case sf_home_var fs of Some home \<Rightarrow> path_join home rest | None \<Rightarrow> raw)
      | None \<Rightarrow> raw)"

type_synonym alias_state = "string set \<times> string list"

text \<open>The recursion of \<open>collect_ssh_config_aliases\<close>; its loop over the included files is the second function.\<close>

function collect_ssh_config_aliases :: "ssh_files \<Rightarrow> string \<Rightarrow> nat \<Rightarrow> alias_state \<Rightarrow> alias_state"
  and collect_includes :: "ssh_files \<Rightarrow> string \<Rightarrow> string list \<Rightarrow> nat \<Rightarrow> alias_state \<Rightarrow> alias_state" where
  "collect_ssh_config_aliases fs config_path depth (visited, aliases) =
     (if depth > 8 then (visited, aliases)
      else case sf_canonicalize fs config_path of
        None \<Rightarrow> (visited, aliases)
      | Some canonical \<Rightarrow>
          (if canonical \<in> visited then (visited, aliases)
           else case sf_read fs canonical of
             None \<Rightarrow> (insert canonical visited, aliases)
           | Some content \<Rightarrow>
               collect_includes fs (unwrap_or ''.'' (path_parent canonical))
                 (parse_ssh_config_includes content) (Suc depth)
                 (insert canonical visited, btree_set (aliases @ parse_ssh_config_aliases content))))"
| "collect_includes fs base [] depth s = s"
| "collect_includes fs base (include # rest) depth s =
     collect_includes fs base rest depth
       (collect_ssh_config_aliases fs (path_join base (expand_tilde_path fs include)) depth s)"
  by pat_completeness auto
termination
  by (relation "measures
        [\<lambda>x. case x of Inl (_, _, d, _) \<Rightarrow> 2 * (10 - d) | Inr (_, _, _, d, _) \<Rightarrow> 2 * (10 - d) + 1,
         \<lambda>x. case x of Inl _ \<Rightarrow> 0 | Inr (_, _, l, _, _) \<Rightarrow> length l]") auto

definition default_ssh_config_path :: "ssh_files \<Rightarrow> string option" where
  "default_ssh_config_path fs =
     (case filter_option (\<lambda>p. trim p \<noteq> []) (sf_ssh_config_var fs) of
        Some path \<Rightarrow> Some path
      | None \<Rightarrow> map_option (\<lambda>home. path_join (path_join home ''.ssh'') ''config'') (sf_home_var fs))"

definition discover_ssh_remote_aliases :: "ssh_files \<Rightarrow> string list" where
  "discover_ssh_remote_aliases fs =
     (case default_ssh_config_path fs of
        None \<Rightarrow> []
      | Some config_path \<Rightarrow> snd (collect_ssh_config_aliases fs config_path 0 ({}, [])))"

definition render_ssh_remote_aliases_for_prompt :: "string list \<Rightarrow> string" where
  "render_ssh_remote_aliases_for_prompt aliases =
     (if aliases = [] then []
      else join newline
        ([''Available SSH remote aliases from ~/.ssh/config:'',
          ''Use these exact Host aliases in tool `remote` arguments. Do not invent remote aliases.'']
         @ map (\<lambda>alias. ''- `'' @ alias @ ''`'') aliases))"

definition remote_aliases_prompt_for_mode :: "ssh_files \<Rightarrow> tool_remote_mode \<Rightarrow> string" where
  "remote_aliases_prompt_for_mode fs mode =
     (case mode of
        Selectable \<Rightarrow> render_ssh_remote_aliases_for_prompt (discover_ssh_remote_aliases fs)
      | FixedSsh _ _ \<Rightarrow> [])"

section \<open>Laws\<close>

lemma show_hex16_ne [simp]: "prompt_component_hash hash value \<noteq> []"
proof -
  have "length (prompt_component_hash hash value) \<ge> 16"
    by (simp add: prompt_component_hash_def show_hex16_def)
  then show ?thesis by force
qed

text \<open>The components as a function of the key: what observing a value makes of one.\<close>

definition observed_state ::
  "(string \<Rightarrow> 64 word) \<Rightarrow> string \<Rightarrow> session_prompt_component_state option \<Rightarrow> session_prompt_component_state" where
  "observed_state hash value o' =
     (let state = unwrap_or prompt_component_default o'
      in if component_untouched state then fresh_component value (prompt_component_hash hash value)
         else if pc_notified_hash state \<noteq> prompt_component_hash hash value
           then state\<lparr>pc_notified_value := value, pc_notified_hash := prompt_component_hash hash value\<rparr>
         else state)"

definition is_notified :: "(string \<Rightarrow> 64 word) \<Rightarrow> string \<Rightarrow> session_prompt_component_state option \<Rightarrow> bool" where
  "is_notified hash value o' \<longleftrightarrow>
     (case o' of None \<Rightarrow> False
      | Some state \<Rightarrow> \<not> component_untouched state \<and> pc_notified_hash state = prompt_component_hash hash value)"

lemma observe_component_fst:
  "fst (observe_component hash key value cn) =
     btree_insert key (observed_state hash value (btree_get key (fst cn))) (fst cn)"
  by (cases cn) (simp add: observe_component_def observed_state_def Let_def)

lemma observe_component_quiet:
  "is_notified hash value (btree_get key (fst cn)) \<Longrightarrow>
     observe_component hash key value cn = (btree_insert key (the (btree_get key (fst cn))) (fst cn), snd cn)"
  by (cases cn) (auto simp: observe_component_def is_notified_def Let_def split: option.splits)

lemma observed_is_notified [simp]: "is_notified hash value (Some (observed_state hash value o'))"
  by (auto simp: is_notified_def observed_state_def component_untouched_def fresh_component_def Let_def)

lemma btree_insert_same: "btree_wf m \<Longrightarrow> btree_get k m = Some v \<Longrightarrow> btree_insert k v m = m"
proof (induction m)
  case (Cons x m)
  obtain k' v' where x: "x = (k', v')" by (cases x)
  with Cons have "k' = k \<and> v' = v \<or> k' \<noteq> k \<and> btree_insert k v m = m \<and> map_of m k = Some v"
    by (auto simp: btree_get_def btree_wf_def split: if_splits)
  moreover have "k' < k" if "map_of m k = Some v"
    using Cons.prems(1) x map_of_SomeD [OF that] by (force simp: btree_wf_def)
  ultimately show ?case using x by auto
qed (simp add: btree_get_def)

lemma observe_component_noop:
  "btree_wf c \<Longrightarrow> is_notified hash value (btree_get key c) \<Longrightarrow> observe_component hash key value (c, n) = (c, n)"
  by (auto simp: observe_component_quiet is_notified_def btree_insert_same split: option.splits)

lemma observe_component_get:
  "btree_get j (fst (observe_component hash key value cn)) =
     (if j = key then Some (observed_state hash value (btree_get key (fst cn))) else btree_get j (fst cn))"
  by (simp add: observe_component_fst btree.get_insert)

lemma observe_component_wf: "btree_wf (fst cn) \<Longrightarrow> btree_wf (fst (observe_component hash key value cn))"
  by (simp add: observe_component_fst btree.wf_insert)

lemma btree_remove_absent: "btree_get k m = None \<Longrightarrow> btree_remove k m = m"
  by (force simp: btree_remove_def btree_get_def map_of_eq_None_iff filter_id_conv)

lemma observe_components_get:
  assumes "observe_components hash m a w b c0 = (c, n)"
  shows "is_notified hash (wm_identity m) (btree_get identity_component c)"
    and "is_notified hash (wm_user_meta m) (btree_get user_meta_component c)"
    and "is_notified hash (wm_skills_metadata m) (btree_get skills_metadata_component c)"
    and "is_notified hash a (btree_get remote_aliases_component c)"
    and "is_notified hash w (btree_get remote_workspace_component c)"
    and "b \<Longrightarrow> is_notified hash (wm_user_memory m) (btree_get user_memory_component c)"
    and "\<not> b \<Longrightarrow> btree_get user_memory_component c = None"
proof -
  have c: "c = fst (observe_components hash m a w b c0)" using assms by simp
  note d = c observe_components_def Let_def observe_component_get btree.get_remove component_key_defs
  show "is_notified hash (wm_identity m) (btree_get identity_component c)"
    "is_notified hash (wm_user_meta m) (btree_get user_meta_component c)"
    "is_notified hash (wm_skills_metadata m) (btree_get skills_metadata_component c)"
    "is_notified hash a (btree_get remote_aliases_component c)"
    "is_notified hash w (btree_get remote_workspace_component c)"
    by (simp_all add: d)
  show "b \<Longrightarrow> is_notified hash (wm_user_memory m) (btree_get user_memory_component c)"
    "\<not> b \<Longrightarrow> btree_get user_memory_component c = None"
    by (simp_all add: d)
qed

lemma observe_components_wf:
  "btree_wf c0 \<Longrightarrow> btree_wf (fst (observe_components hash m a w b c0))"
  by (simp add: observe_components_def Let_def observe_component_wf btree.wf_remove)

lemma observe_components_again:
  assumes "btree_wf c0" and "observe_components hash m a w b c0 = (c, n)"
  shows "observe_components hash m a w b c = (c, [])"
proof -
  have wf: "btree_wf c" using observe_components_wf [OF assms(1), of hash m a w b] assms(2) by simp
  show ?thesis
    using observe_components_get [OF assms(2)] wf
    by (cases b) (simp_all add: observe_components_def Let_def observe_component_noop btree_remove_absent)
qed

subsection \<open>Skills\<close>

definition skill_current :: "session_skill_observation \<Rightarrow> (string, session_skill_state) btree_map \<Rightarrow> bool" where
  "skill_current observed states \<longleftrightarrow>
     (\<exists>state. btree_get (so_name observed) states = Some state \<and>
        ss_description state = so_description observed \<and> ss_content state = so_content observed)"

lemma observe_skill_get:
  "btree_get j (fst (observe_skill observed sn)) =
     (if j = so_name observed
      then Some \<lparr>ss_description = so_description observed, ss_content = so_content observed,
                 ss_last_loaded_turn = Option.bind (btree_get j (fst sn)) ss_last_loaded_turn\<rparr>
      else btree_get j (fst sn))"
  by (cases sn) (auto simp: observe_skill_def btree.get_insert split: option.splits)

lemma observe_skill_wf: "btree_wf (fst sn) \<Longrightarrow> btree_wf (fst (observe_skill observed sn))"
  by (cases sn) (auto simp: observe_skill_def btree.wf_insert split: option.splits)

lemma observe_skill_noop:
  assumes "btree_wf states" and "skill_current observed states"
  shows "observe_skill observed (states, n) = (states, n)"
proof -
  obtain state where st: "btree_get (so_name observed) states = Some state"
      "ss_description state = so_description observed" "ss_content state = so_content observed"
    using assms(2) by (auto simp: skill_current_def)
  then have eq: "state\<lparr>ss_description := so_description observed, ss_content := so_content observed\<rparr> = state"
    by (cases state) simp
  have "btree_insert (so_name observed)
      (state\<lparr>ss_description := so_description observed, ss_content := so_content observed\<rparr>) states = states"
    unfolding eq by (rule btree_insert_same [OF assms(1) st(1)])
  then show ?thesis by (simp add: observe_skill_def st)
qed

lemma observe_skills_wf: "btree_wf (fst sn) \<Longrightarrow> btree_wf (fst (fold observe_skill os sn))"
  by (induction os arbitrary: sn) (simp_all add: observe_skill_wf)

lemma observe_skills_other:
  "j \<notin> so_name ` set os \<Longrightarrow> btree_get j (fst (fold observe_skill os sn)) = btree_get j (fst sn)"
  by (induction os arbitrary: sn) (simp_all add: observe_skill_get)

lemma observe_skills_current:
  "distinct (map so_name os) \<Longrightarrow> observed \<in> set os \<Longrightarrow> skill_current observed (fst (fold observe_skill os sn))"
proof (induction os arbitrary: sn)
  case (Cons x os)
  show ?case
  proof (cases "observed = x")
    case True
    with Cons.prems(1) have "so_name observed \<notin> so_name ` set os" by simp
    then show ?thesis
      using True by (simp add: skill_current_def observe_skills_other observe_skill_get)
  qed (use Cons in simp)
qed simp

lemma observe_skills_noop:
  "btree_wf states \<Longrightarrow> (\<And>x. x \<in> set os \<Longrightarrow> skill_current x states) \<Longrightarrow>
     fold observe_skill os (states, n) = (states, n)"
  by (induction os) (simp_all add: observe_skill_noop)

lemma observe_skill_changes_again:
  assumes "btree_wf (rm_skill_states st)" and "distinct (map so_name os)"
    and "observe_skill_changes os st = (n, st')"
  shows "observe_skill_changes os st' = ([], st')"
proof -
  let ?keep = "\<lambda>name (_ :: session_skill_state). name \<in> so_name ` set os"
  obtain states n' where f: "fold observe_skill os (rm_skill_states st, []) = (states, n')" by fastforce
  with assms(3) have st': "st' = st\<lparr>rm_skill_states := btree_retain ?keep states\<rparr>"
    by (auto simp: observe_skill_changes_def)
  have wf: "btree_wf states" using observe_skills_wf [of "(rm_skill_states st, [])" os] assms(1) f by simp
  have "skill_current x (btree_retain ?keep states)" if "x \<in> set os" for x
    using observe_skills_current [OF assms(2) that, of "(rm_skill_states st, [])"] f that
    by (auto simp: skill_current_def btree.get_retain [OF wf])
  then have "fold observe_skill os (btree_retain ?keep states, []) = (btree_retain ?keep states, [])"
    using btree.wf_retain [OF wf] by (intro observe_skills_noop)
  then show ?thesis by (simp add: observe_skill_changes_def st' btree_retain_def)
qed

lemma skill_dirs_by_name_wf: "btree_wf m \<Longrightarrow> skill_dirs_by_name es m = Inr m' \<Longrightarrow> btree_wf m'"
  by (induction es m rule: skill_dirs_by_name.induct) (auto simp: btree.wf_insert split: if_splits)

lemma read_skills_names:
  "distinct (map fst m) \<Longrightarrow> read_skills m = Inr skills \<Longrightarrow>
     distinct (map so_name skills) \<and> so_name ` set skills \<subseteq> fst ` set m"
proof (induction m arbitrary: skills)
  case (Cons x m)
  obtain name f where x: "x = (name, f)" by (cases x)
  show ?case
  proof (cases f)
    case Absent
    with Cons x show ?thesis by auto
  next
    case (ReadError e)
    with Cons.prems x show ?thesis by simp
  next
    case (FileText t)
    with Cons.prems(2) x obtain d rest where r: "read_skills m = Inr rest"
      and s: "skills = \<lparr>so_name = name, so_description = d, so_content = t\<rparr> # rest"
      by (auto split: sum.splits)
    from Cons.prems(1) have "distinct (map fst m)" by simp
    from Cons.IH [OF this r] have "distinct (map so_name rest)" "so_name ` set rest \<subseteq> fst ` set m" by auto
    moreover have "name \<notin> fst ` set m" using Cons.prems(1) x by auto
    ultimately show ?thesis using x s by auto
  qed
qed simp

lemma load_workspace_skills_distinct: "load_workspace_skills d = Inr skills \<Longrightarrow> distinct (map so_name skills)"
proof (cases d)
  case (SkillRoot es)
  assume "load_workspace_skills d = Inr skills"
  then obtain m where m: "skill_dirs_by_name es [] = Inr m" "read_skills m = Inr skills"
    using SkillRoot by (auto simp: load_workspace_skills_def split: sum.splits)
  have "btree_wf m" using m(1) by (rule skill_dirs_by_name_wf [rotated]) (simp add: btree_wf_def)
  then show ?thesis using read_skills_names [OF btree_wf_distinct m(2)] by blast
qed (auto simp: load_workspace_skills_def)

lemma loaded_skills_distinct:
  "load_workspace_runtime_metadata lib hash files = Inr m \<Longrightarrow> distinct (map so_name (wm_skills m))"
  using load_workspace_skills_distinct
  by (auto simp: load_workspace_runtime_metadata_def split: sum.splits)

subsection \<open>Aliases and front matter\<close>

lemma parse_ssh_config_aliases_concrete:
  "a \<in> set (parse_ssh_config_aliases content) \<Longrightarrow> is_concrete_ssh_alias a"
  by (auto simp: parse_ssh_config_aliases_def set_btree_set line_aliases_def
      split: list.splits if_splits)

definition aliases_ok :: "string list \<Rightarrow> bool" where
  "aliases_ok aliases \<longleftrightarrow> list_all is_concrete_ssh_alias aliases \<and> sorted_wrt (<) aliases"

lemma aliases_ok_step:
  "aliases_ok aliases \<Longrightarrow> aliases_ok (btree_set (aliases @ parse_ssh_config_aliases content))"
  using parse_ssh_config_aliases_concrete
  by (auto simp: aliases_ok_def list_all_iff set_btree_set sorted_btree_set)

lemma collect_aliases_ok:
  "aliases_ok (snd s) \<Longrightarrow> aliases_ok (snd (collect_ssh_config_aliases fs p d s))"
  "aliases_ok (snd s) \<Longrightarrow> aliases_ok (snd (collect_includes fs b l d s))"
proof (induction fs p d s and fs b l d s rule: collect_ssh_config_aliases_collect_includes.induct)
  case (1 fs p d visited aliases)
  then show ?case
    by (auto simp: aliases_ok_step simp del: collect_ssh_config_aliases.simps
        simp add: collect_ssh_config_aliases.simps [of fs p d] split: option.splits)
qed auto

section \<open>Properties\<close>

text \<open>
  A change of the workspace is announced once. After a user turn has observed the
  workspace (identity, user metadata, user memory when enabled, skills, remote prompts), a
  second observation of the same workspace yields no notice at all and leaves the state
  unchanged, whatever the state held before, and whatever the hash function.
\<close>

theorem observe_workspace_twice:
  assumes "btree_wf (rm_prompt_components st)" and "btree_wf (rm_skill_states st)"
    and "observe_for_user_turn_from_workspace lib hash files a w mem st = Inr (notices, st')"
  shows "observe_for_user_turn_from_workspace lib hash files a w mem st' = Inr ([], st')"
proof -
  obtain m where m: "load_workspace_runtime_metadata lib hash files = Inr m"
    and o: "observe_metadata hash m a w mem st = (notices, st')"
    using assms(3) by (auto simp: observe_for_user_turn_from_workspace_def split: sum.splits)
  obtain c n where c: "observe_components hash m a w mem (rm_prompt_components st) = (c, n)" by fastforce
  obtain sn st2 where s: "observe_skill_changes (wm_skills m) (st\<lparr>rm_prompt_components := c\<rparr>) = (sn, st2)"
    by fastforce
  have st': "st' = st2" using o c s by (simp add: observe_metadata_def Let_def)
  have c2: "rm_prompt_components st2 = c"
    using s by (auto simp: observe_skill_changes_def split: prod.splits)
  then have id: "st2\<lparr>rm_prompt_components := c\<rparr> = st2" by (cases st2) simp
  have "observe_skill_changes (wm_skills m) st2 = ([], st2)"
    using assms(2) loaded_skills_distinct [OF m] s by (intro observe_skill_changes_again) simp_all
  then have "observe_metadata hash m a w mem st2 = ([], st2)"
    using observe_components_again [OF assms(1) c]
    by (simp add: observe_metadata_def c2 id render_prompt_component_change_notices_def
        render_skill_change_notices_def)
  then show ?thesis by (simp add: observe_for_user_turn_from_workspace_def m st')
qed

text \<open>
  After compaction the system prompt says what the model was last told: once a user turn
  has observed the workspace and the notified components are promoted, the snapshot of each
  component is (up to trimming, and absent when blank) the value observed, provided the
  hash tells the observed value from the value notified before.
\<close>

lemma promoted_snapshot_is_observed:
  assumes "\<And>state. btree_get key (fst cn) = Some state \<Longrightarrow>
             \<not> component_untouched state \<Longrightarrow>
             pc_notified_hash state = prompt_component_hash hash value \<Longrightarrow> pc_notified_value state = value"
  shows "snapshot_value key
           (promote_notified_components_to_system_snapshot
              (st\<lparr>rm_prompt_components := fst (observe_component hash key value cn)\<rparr>))
         = (if trim value = [] then None else Some (trim value))"
proof -
  let ?s = "observed_state hash value (btree_get key (fst cn))"
  have v: "pc_notified_value ?s = value"
    using assms
    by (cases "btree_get key (fst cn)")
      (auto simp: observed_state_def prompt_component_default_def fresh_component_def Let_def,
        auto simp: component_untouched_def)
  have h: "pc_notified_hash ?s \<noteq> []"
    using observed_is_notified [of hash "value" "btree_get key (fst cn)"] by (simp add: is_notified_def)
  have "btree_get key (map (\<lambda>(k, x). (k, f x)) m) = map_option f (btree_get key m)"
    for m :: prompt_components and f :: "session_prompt_component_state \<Rightarrow> session_prompt_component_state"
    by (induction m) (auto simp: btree_get_def)
  moreover have "btree_get key (fst (observe_component hash key value cn)) = Some ?s"
    by (simp add: observe_component_get)
  ultimately show ?thesis
    using v h by (simp add: snapshot_value_def promote_notified_components_to_system_snapshot_def)
qed

text \<open>
  SSH alias discovery offers only aliases that can be used: however the configuration
  files include one another (cyclic and missing includes too), the aliases are concrete host
  names (no pattern, no negation, no whitespace, not empty), sorted and without repetition.
  The recursion is a total function: the depth bound ends it.
\<close>

lemma ssh_aliases_concrete:
  "list_all is_concrete_ssh_alias (discover_ssh_remote_aliases fs) \<and>
   sorted_wrt (<) (discover_ssh_remote_aliases fs)"
proof -
  have "aliases_ok []" by (simp add: aliases_ok_def)
  then have "aliases_ok (discover_ssh_remote_aliases fs)"
    using collect_aliases_ok(1) [of "({}, [])" fs]
    by (simp add: discover_ssh_remote_aliases_def split: option.splits del: collect_ssh_config_aliases.simps)
  then show ?thesis by (simp add: aliases_ok_def)
qed

lemma str_lines_first_dashes:
  "str_lines content = ''---'' # rest \<Longrightarrow> length content < 4 \<Longrightarrow> content = ''---''"
proof -
  assume l: "str_lines content = ''---'' # rest" and n: "length content < 4"
  have acc: "str_lines_acc acc s = x # xs \<Longrightarrow> length x \<le> length acc + length s \<and>
      (length x = length acc + length s \<longrightarrow> x = acc @ s)" for acc s x xs
  proof (induction acc s arbitrary: x xs rule: str_lines_acc.induct)
    case (2 acc c cs)
    then show ?case by (auto simp: strip_cr_def split: if_splits)
  qed (auto split: if_splits)
  show ?thesis using acc [of "[]" content] l n unfolding str_lines_def by fastforce
qed

text \<open>
  Reading the front matter of a skill panics on exactly one text: the file that consists
  of three dashes and nothing else, not even a line ending (the slice \<open>content[4..]\<close> is
  then out of range); on every other text it returns.
\<close>

theorem frontmatter_panics_iff:
  "extract_yaml_frontmatter content = Inl e \<longleftrightarrow> content = ''---'' \<and> e = Panicked"
proof
  assume "extract_yaml_frontmatter content = Inl e"
  then show "content = ''---'' \<and> e = Panicked"
    by (auto simp: extract_yaml_frontmatter_def split: list.splits option.splits if_splits
        intro: str_lines_first_dashes)
next
  assume "content = ''---'' \<and> e = Panicked"
  then show "extract_yaml_frontmatter content = Inl e"
    by (simp add: extract_yaml_frontmatter_def str_lines_def)
qed

end
