(* ===== verification/Session_State.thy ===== *)
theory Session_State
  imports Runtime_Metadata
begin

text \<open>
  Model of \<open>core/src/session_actor/session_state.rs\<close>: the persisted state of a session,
  its four files, and the repair of what is read back. Serialization belongs to
  serde\_json and is the argument \<open>store_lib\<close>, which also decides, by the number of the
  operation, which file operations fail and with what text; a failed write leaves a
  created but empty or shorter file, as the operating system may.
\<close>

section \<open>Data\<close>

record session_actor_persisted_state =
  ps_version :: nat
  ps_initial :: session_initial
  ps_all_messages :: "chat_message list"
  ps_current_messages :: "chat_message list"
  ps_next_turn_id :: nat
  ps_next_batch_id :: nat
  ps_runtime_metadata_state :: runtime_metadata_state

record message_index_entry =
  mie_index :: nat
  mie_byte_offset :: nat

record messages_index =
  mi_version :: nat
  mi_message_count :: nat
  mi_last_message_id :: "string option"
  mi_messages :: "(string, message_index_entry) btree_map"

record store_lib =
  sl_state_to_json :: "session_actor_persisted_state \<Rightarrow> string + string"
  sl_state_of_json :: "string \<Rightarrow> string + session_actor_persisted_state"
  sl_message_to_json :: "chat_message \<Rightarrow> string + string"
  sl_index_to_json :: "messages_index \<Rightarrow> string + string"
  sl_io_error :: "nat \<Rightarrow> string option"

text \<open>The directory of one session: its files (absent or a text) and the number of operations done.\<close>

datatype session_file = SessionJson | AllMessages | CurrentMessages | MessagesIndex

record session_dir =
  sd_files :: "session_file \<Rightarrow> string option"
  sd_io :: nat

definition session_dir_empty :: session_dir where
  "session_dir_empty = \<lparr>sd_files = (\<lambda>_. None), sd_io = 0\<rparr>"

section \<open>File operations\<close>

definition put_file :: "session_file \<Rightarrow> string \<Rightarrow> session_dir \<Rightarrow> session_dir" where
  "put_file f text d = d\<lparr>sd_files := (sd_files d)(f := Some text)\<rparr>"

definition file_text :: "session_file \<Rightarrow> session_dir \<Rightarrow> string" where
  "file_text f d = unwrap_or [] (sd_files d f)"

text \<open>One operation: it may fail with a text; otherwise the directory is updated.\<close>

definition io_op :: "store_lib \<Rightarrow> string \<Rightarrow> (session_dir \<Rightarrow> session_dir) \<Rightarrow> (session_dir, string, unit) act" where
  "io_op lib what f d =
     (case sl_io_error lib (sd_io d) of
        Some e \<Rightarrow> (Inl (what @ e), d\<lparr>sd_io := Suc (sd_io d)\<rparr>)
      | None \<Rightarrow> (Inr (), (f d)\<lparr>sd_io := Suc (sd_io d)\<rparr>))"

definition create_file :: "store_lib \<Rightarrow> session_file \<Rightarrow> (session_dir, string, unit) act" where
  "create_file lib f = io_op lib ''failed to create '' (put_file f [])"

definition append_file :: "store_lib \<Rightarrow> session_file \<Rightarrow> string \<Rightarrow> (session_dir, string, unit) act" where
  "append_file lib f text = io_op lib ''failed to write '' (\<lambda>d. put_file f (file_text f d @ text) d)"

definition flush_file :: "store_lib \<Rightarrow> (session_dir, string, unit) act" where
  "flush_file lib = io_op lib ''failed to flush '' (\<lambda>d. d)"

definition fs_write :: "store_lib \<Rightarrow> session_file \<Rightarrow> string \<Rightarrow> (session_dir, string, unit) act" where
  "fs_write lib f text = andthen (create_file lib f) (append_file lib f text)"

section \<open>Writing\<close>

definition write_messages_jsonl ::
  "store_lib \<Rightarrow> session_file \<Rightarrow> chat_message list \<Rightarrow> (session_dir, string, unit) act" where
  "write_messages_jsonl lib path messages =
     andthen (create_file lib path)
       (andthen
          (for_each (\<lambda>message.
             bnd (from_result (sl_message_to_json lib message))
               (\<lambda>line. append_file lib path (line @ newline))) messages)
          (flush_file lib))"

text \<open>The loop that writes the lines and collects the index.\<close>

fun write_indexed_loop ::
  "store_lib \<Rightarrow> session_file \<Rightarrow> nat \<Rightarrow> chat_message list \<Rightarrow> (string, message_index_entry) btree_map \<Rightarrow>
     (session_dir, string, (string, message_index_entry) btree_map) act" where
  "write_indexed_loop lib path message_index [] index = okM index"
| "write_indexed_loop lib path message_index (message # messages) index =
     andthen (io_op lib ''failed to seek '' (\<lambda>d. d))
       (gets (\<lambda>d.
          (let byte_offset = utf8_len (file_text path d);
               index' = (if cm_message_id message \<noteq> []
                         then btree_insert (cm_message_id message)
                                \<lparr>mie_index = message_index, mie_byte_offset = byte_offset\<rparr> index
                         else index)
           in bnd (from_result (sl_message_to_json lib message))
                (\<lambda>line. andthen (append_file lib path (line @ newline))
                   (write_indexed_loop lib path (Suc message_index) messages index')))))"

definition write_messages_jsonl_with_index ::
  "store_lib \<Rightarrow> session_file \<Rightarrow> session_file \<Rightarrow> chat_message list \<Rightarrow> (session_dir, string, unit) act" where
  "write_messages_jsonl_with_index lib path index_path messages =
     andthen (create_file lib path)
       (bnd (write_indexed_loop lib path 0 messages [])
          (\<lambda>entries. andthen (flush_file lib)
             (bnd (from_result (sl_index_to_json lib
                     \<lparr>mi_version = 1, mi_message_count = length messages,
                      mi_last_message_id = (if messages = [] then None else Some (cm_message_id (last messages))),
                      mi_messages = entries\<rparr>))
                (\<lambda>index_json. fs_write lib index_path index_json))))"

definition save :: "store_lib \<Rightarrow> session_actor_persisted_state \<Rightarrow> (session_dir, string, unit) act" where
  "save lib state =
     bnd (from_result (sl_state_to_json lib state)) (\<lambda>session_json.
     andthen (fs_write lib SessionJson session_json)
       (andthen (write_messages_jsonl_with_index lib AllMessages MessagesIndex (ps_all_messages state))
          (write_messages_jsonl lib CurrentMessages (ps_current_messages state))))"

definition save_all_messages_jsonl :: "store_lib \<Rightarrow> chat_message list \<Rightarrow> (session_dir, string, unit) act" where
  "save_all_messages_jsonl lib messages = write_messages_jsonl_with_index lib AllMessages MessagesIndex messages"

section \<open>Reading\<close>

definition truncation_marker :: "nat \<Rightarrow> string" where
  "truncation_marker n = newline @ ''...<'' @ show_nat n @ '' chars truncated>...'' @ newline"

definition truncate_context_text :: "string \<Rightarrow> nat \<Rightarrow> string \<times> bool" where
  "truncate_context_text value max_chars =
     (let total_chars = length value
      in if total_chars \<le> max_chars then (value, False)
         else if max_chars = 0 then ([], True)
         else
           (let marker_template = truncation_marker total_chars;
                marker_chars = min (length marker_template) max_chars
            in if marker_chars \<ge> max_chars then (take max_chars value, True)
               else
                 (let available = max_chars - marker_chars;
                      head_chars = available div 2;
                      tail_chars = available - head_chars;
                      omitted = total_chars - (head_chars + tail_chars)
                  in (take head_chars value @ truncation_marker omitted @ rev (take tail_chars (rev value)), True))))"

definition max_persisted_tool_context_chars :: nat where
  "max_persisted_tool_context_chars = 100000"

definition sanitize_tool_result_content :: "tool_result_content \<Rightarrow> tool_result_content" where
  "sanitize_tool_result_content result =
     (case trc_structured result of
        None \<Rightarrow> result
      | Some structured \<Rightarrow>
          (if get_str ''kind'' structured \<noteq> Some ''text_result'' then result
           else case get_str ''text'' structured of
             None \<Rightarrow> result
           | Some text \<Rightarrow>
               (case truncate_context_text text max_persisted_tool_context_chars of
                  (text', truncated) \<Rightarrow>
                    (if truncated
                     then result\<lparr>trc_structured := Some (json_set ''text'' (JString text') structured)\<rparr>
                     else result))))"

fun sanitize_item :: "chat_message_item \<Rightarrow> chat_message_item" where
  "sanitize_item (ToolResult tool_result) =
     ToolResult (tool_result\<lparr>tr_result := sanitize_tool_result_content (tr_result tool_result)\<rparr>)"
| "sanitize_item item = item"

text \<open>\<open>fresh_ids\<close> gives the identifiers drawn for messages that have none.\<close>

definition sanitize_persisted_messages :: "(nat \<Rightarrow> string) \<Rightarrow> chat_message list \<Rightarrow> chat_message list" where
  "sanitize_persisted_messages fresh_ids messages =
     map (\<lambda>(i, message).
            (ensure_message_id (fresh_ids i) message)\<lparr>cm_data := map sanitize_item (cm_data message)\<rparr>)
       (enumerate 0 messages)"

definition load ::
  "store_lib \<Rightarrow> (nat \<Rightarrow> string) \<Rightarrow> (session_dir, string, session_actor_persisted_state option) act" where
  "load lib fresh_ids = gets (\<lambda>d.
     (case sd_files d SessionJson of
        None \<Rightarrow> okM None
      | Some raw \<Rightarrow>
          andthen (io_op lib ''failed to read '' (\<lambda>d. d))
            (bnd (from_result (sl_state_of_json lib raw))
               (\<lambda>state. okM (Some
                  (state\<lparr>ps_all_messages := sanitize_persisted_messages fresh_ids (ps_all_messages state),
                         ps_current_messages :=
                           sanitize_persisted_messages
                             (\<lambda>i. fresh_ids (length (ps_all_messages state) + i))
                             (ps_current_messages state)\<rparr>))))))"

definition session_id_char :: "char \<Rightarrow> bool" where
  "session_id_char ch \<longleftrightarrow>
     (let n = (of_char ch :: nat)
      in 97 \<le> n \<and> n \<le> 122 \<or> 65 \<le> n \<and> n \<le> 90 \<or> is_ascii_digit ch \<or>
         ch = CHR ''_'' \<or> ch = CHR ''-'' \<or> ch = CHR ''.'')"

definition sanitize_session_id :: "string \<Rightarrow> string" where
  "sanitize_session_id session_id =
     (let safe = map (\<lambda>ch. if session_id_char ch then ch else CHR ''_'') session_id
      in if list_all (\<lambda>c. c = CHR ''_'') safe \<or> safe = ''.'' \<or> safe = ''..'' then ''session'' else safe)"

section \<open>Laws\<close>

subsection \<open>Truncation\<close>

lemma length_show_nat_mono: "m \<le> n \<Longrightarrow> length (show_nat m) \<le> length (show_nat n)"
proof (induction n arbitrary: m rule: less_induct)
  case (less n)
  show ?case
  proof (cases "n < 10")
    case True
    with less.prems show ?thesis by (simp add: show_nat_def show_base.simps)
  next
    case False
    then have n: "length (show_nat n) = Suc (length (show_nat (n div 10)))"
      by (simp add: show_nat_def show_base.simps [of 10 n])
    show ?thesis
    proof (cases "m < 10")
      case True
      then have "length (show_nat m) = 1" by (simp add: show_nat_def show_base.simps)
      with n show ?thesis by simp
    next
      case m: False
      then have "length (show_nat m) = Suc (length (show_nat (m div 10)))"
        by (simp add: show_nat_def show_base.simps [of 10 m])
      moreover have "length (show_nat (m div 10)) \<le> length (show_nat (n div 10))"
        using less False by (simp add: div_le_mono)
      ultimately show ?thesis using n by simp
    qed
  qed
qed

lemma length_truncation_marker: "m \<le> n \<Longrightarrow> length (truncation_marker m) \<le> length (truncation_marker n)"
  by (simp add: truncation_marker_def length_show_nat_mono)

lemma truncate_context_text_bound: "length (fst (truncate_context_text v m)) \<le> m"
proof -
  let ?L = "length (truncation_marker (length v))"
  have "length (truncation_marker (length v + ?L - m)) \<le> ?L" if "?L \<le> m"
    using that by (intro length_truncation_marker) simp
  then show ?thesis by (auto simp: truncate_context_text_def Let_def min_def)
qed

lemma sanitize_tool_result_bound:
  assumes "trc_structured (sanitize_tool_result_content r) = Some v"
    and "get_str ''kind'' v = Some ''text_result''" and "get_str ''text'' v = Some t"
  shows "length t \<le> max_persisted_tool_context_chars"
proof -
  obtain w where w: "trc_structured r = Some w"
    using assms(1) by (cases "trc_structured r") (auto simp: sanitize_tool_result_content_def)
  have k: "get_str ''kind'' (json_set ''text'' x w) = get_str ''kind'' w" for x
    by (simp add: get_str_def json_get_set_other)
  have t: "get_str ''text'' (json_set ''text'' (JString x) w) = Some x" if "get_str ''text'' w = Some u" for x u
    using that by (auto simp: get_str_def bind_eq_Some_conv json_get_set_same as_str_def)
  show ?thesis
  proof (cases "get_str ''text'' w")
    case None
    with assms w show ?thesis
      by (auto simp: sanitize_tool_result_content_def split: if_splits)
  next
    case (Some u)
    obtain u' b where u: "truncate_context_text u max_persisted_tool_context_chars = (u', b)" by fastforce
    have "length u' \<le> max_persisted_tool_context_chars"
      using truncate_context_text_bound [of u max_persisted_tool_context_chars] u by simp
    moreover have "\<not> b \<Longrightarrow> u' = u"
      using u by (auto simp: truncate_context_text_def Let_def split: if_splits)
    ultimately show ?thesis
      using assms w u Some t [OF Some] k
      by (auto simp: sanitize_tool_result_content_def split: if_splits)
  qed
qed

subsection \<open>The message file and its index\<close>

lemma utf8_len_append [simp]: "utf8_len (a @ b) = utf8_len a + utf8_len b"
  by (simp add: utf8_len_def)

lemma io_op_ok: "io_op lib what f d = (Inr u, d') \<Longrightarrow> d' = (f d)\<lparr>sd_io := Suc (sd_io d)\<rparr>"
  by (auto simp: io_op_def split: option.splits)

lemma file_text_io [simp]: "file_text f (d\<lparr>sd_io := n\<rparr>) = file_text f d"
  by (simp add: file_text_def)

lemma append_file_ok:
  "append_file lib f t d = (Inr u, d') \<Longrightarrow> file_text f d' = file_text f d @ t"
  by (auto simp: append_file_def file_text_def put_file_def dest!: io_op_ok)

text \<open>Where a message with a given identifier is found: its last position in the list.\<close>

definition last_position :: "string \<Rightarrow> chat_message list \<Rightarrow> nat \<Rightarrow> bool" where
  "last_position i ms j \<longleftrightarrow>
     j < length ms \<and> cm_message_id (ms ! j) = i \<and> i \<noteq> [] \<and>
     i \<notin> cm_message_id ` set (drop (Suc j) ms)"

definition jsonl :: "string list \<Rightarrow> string" where
  "jsonl ls = concat (map (\<lambda>l. l @ newline) ls)"

fun indexed :: "string \<Rightarrow> nat \<Rightarrow> (chat_message \<times> string) list \<Rightarrow>
    (string, message_index_entry) btree_map \<Rightarrow> (string, message_index_entry) btree_map" where
  "indexed before k [] index = index"
| "indexed before k ((m, l) # rest) index =
     indexed (before @ l @ newline) (Suc k) rest
       (if cm_message_id m \<noteq> []
        then btree_insert (cm_message_id m) \<lparr>mie_index = k, mie_byte_offset = utf8_len before\<rparr> index
        else index)"

lemma write_indexed_loop_Cons:
  assumes "write_indexed_loop lib path k (m # ms) index d = (Inr entries, d')"
  obtains l d2 where "sl_message_to_json lib m = Inr l"
    and "append_file lib path (l @ newline) (d\<lparr>sd_io := Suc (sd_io d)\<rparr>) = (Inr (), d2)"
    and "write_indexed_loop lib path (Suc k) ms
           (if cm_message_id m \<noteq> []
            then btree_insert (cm_message_id m)
                   \<lparr>mie_index = k, mie_byte_offset = utf8_len (file_text path d)\<rparr> index
            else index) d2 = (Inr entries, d')"
  using assms
  by (auto simp: andthen_ok bnd_ok from_result_ok gets_def Let_def cong: if_cong dest!: io_op_ok)

lemma write_indexed_loop_ok:
  assumes "write_indexed_loop lib path k ms index d = (Inr entries, d')"
  shows "\<exists>ls. map (sl_message_to_json lib) ms = map Inr ls \<and>
           file_text path d' = file_text path d @ jsonl ls \<and>
           entries = indexed (file_text path d) k (zip ms ls) index"
  using assms
proof (induction ms arbitrary: k index d)
  case Nil
  then show ?case by (auto simp: okM_def jsonl_def)
next
  case (Cons m ms)
  let ?index = "if cm_message_id m \<noteq> []
    then btree_insert (cm_message_id m) \<lparr>mie_index = k, mie_byte_offset = utf8_len (file_text path d)\<rparr> index
    else index"
  obtain l d2 where l: "sl_message_to_json lib m = Inr l"
    and d2: "append_file lib path (l @ newline) (d\<lparr>sd_io := Suc (sd_io d)\<rparr>) = (Inr (), d2)"
    and rest: "write_indexed_loop lib path (Suc k) ms ?index d2 = (Inr entries, d')"
    using Cons.prems by (rule write_indexed_loop_Cons)
  obtain ls where ls: "map (sl_message_to_json lib) ms = map Inr ls"
      "file_text path d' = file_text path d2 @ jsonl ls"
      "entries = indexed (file_text path d2) (Suc k) (zip ms ls) ?index"
    using Cons.IH [OF rest] by blast
  have "file_text path d2 = file_text path d @ l @ newline"
    using append_file_ok [OF d2] by simp
  with ls l show ?case by (intro exI [of _ "l # ls"]) (simp add: jsonl_def)
qed

lemma indexed_other:
  "i \<notin> cm_message_id ` fst ` set ps \<or> i = [] \<Longrightarrow> btree_get i (indexed before k ps index) = btree_get i index"
  by (induction before k ps index rule: indexed.induct) (auto simp: btree.get_insert)

lemma indexed_last:
  "length ls = length ms \<Longrightarrow> last_position i ms j \<Longrightarrow>
     btree_get i (indexed before k (zip ms ls) index) =
       Some \<lparr>mie_index = k + j, mie_byte_offset = utf8_len (before @ jsonl (take j ls))\<rparr>"
proof (induction ms arbitrary: ls j before k index)
  case Nil
  then show ?case by (simp add: last_position_def)
next
  case (Cons m ms)
  obtain l ls' where ls: "ls = l # ls'" "length ls' = length ms" using Cons.prems(1) by (cases ls) auto
  show ?case
  proof (cases j)
    case 0
    with Cons.prems(2) have "cm_message_id m = i" "i \<noteq> []" "i \<notin> cm_message_id ` set ms"
      by (auto simp: last_position_def)
    moreover have "fst ` set (zip ms ls') \<subseteq> set ms" by (auto dest: set_zip_leftD)
    ultimately have "i \<notin> cm_message_id ` fst ` set (zip ms ls')" by blast
    then show ?thesis
      using 0 ls \<open>cm_message_id m = i\<close> \<open>i \<noteq> []\<close>
      by (simp add: indexed_other btree.get_insert jsonl_def)
  next
    case (Suc j')
    with Cons.prems(2) have "last_position i ms j'" by (simp add: last_position_def)
    from Cons.IH [OF ls(2) this] show ?thesis by (simp add: ls Suc jsonl_def)
  qed
qed

lemma last_position_exists: "i \<in> cm_message_id ` set ms \<Longrightarrow> i \<noteq> [] \<Longrightarrow> \<exists>j. last_position i ms j"
proof (induction ms)
  case (Cons m ms)
  show ?case
  proof (cases "i \<in> cm_message_id ` set ms")
    case True
    with Cons obtain j where "last_position i ms j" by blast
    then have "last_position i (m # ms) (Suc j)" by (simp add: last_position_def)
    then show ?thesis ..
  next
    case False
    with Cons.prems have "last_position i (m # ms) 0" by (auto simp: last_position_def)
    then show ?thesis ..
  qed
qed simp

section \<open>Properties\<close>

text \<open>
  The index written beside \<open>all_messages.jsonl\<close> points at the right bytes: if writing
  the lines succeeds, an identifier is in the index exactly if it is not empty and some message
  has it; its entry names the last such message, and at the recorded byte offset of the
  file starts the line that serializes that message.
\<close>

theorem message_index_locates:
  assumes "write_indexed_loop lib path 0 messages [] d = (Inr entries, d')"
    and "file_text path d = []"
  shows "(btree_get i entries \<noteq> None \<longleftrightarrow> i \<noteq> [] \<and> i \<in> cm_message_id ` set messages) \<and>
         (\<forall>e. btree_get i entries = Some e \<longrightarrow>
            last_position i messages (mie_index e) \<and>
            (\<exists>before line after. file_text path d' = before @ line @ newline @ after \<and>
               utf8_len before = mie_byte_offset e \<and>
               sl_message_to_json lib (messages ! mie_index e) = Inr line))"
proof -
  obtain ls where ls: "map (sl_message_to_json lib) messages = map Inr ls"
    and written: "file_text path d' = jsonl ls" and e: "entries = indexed [] 0 (zip messages ls) []"
    using write_indexed_loop_ok [OF assms(1)] assms(2) by auto
  have len: "length ls = length messages" using ls by (metis length_map)
  have none: "btree_get i entries = None" if "\<not> (i \<noteq> [] \<and> i \<in> cm_message_id ` set messages)"
  proof -
    have "fst ` set (zip messages ls) \<subseteq> set messages" by (auto dest: set_zip_leftD)
    with that have "i \<notin> cm_message_id ` fst ` set (zip messages ls) \<or> i = []" by blast
    then show ?thesis by (simp add: e indexed_other) (simp add: btree_get_def)
  qed
  show ?thesis
  proof (cases "i \<noteq> [] \<and> i \<in> cm_message_id ` set messages")
    case True
    then obtain j where j: "last_position i messages j" using last_position_exists by blast
    have g: "btree_get i entries = Some \<lparr>mie_index = j, mie_byte_offset = utf8_len (jsonl (take j ls))\<rparr>"
      using indexed_last [OF len j, of "[]" 0 "[]"] by (simp add: e)
    have lt: "j < length ls" using j len by (simp add: last_position_def)
    then have "jsonl ls = jsonl (take j ls) @ ls ! j @ newline @ jsonl (drop (Suc j) ls)"
      by (subst id_take_nth_drop [OF lt]) (simp add: jsonl_def)
    moreover have "sl_message_to_json lib (messages ! j) = Inr (ls ! j)"
      using ls lt len by (metis nth_map)
    ultimately show ?thesis using True g j written by auto
  qed (use none in auto)
qed

lemma sanitize_persisted_keeps:
  "length (sanitize_persisted_messages fresh ms) = length ms"
  "map cm_role (sanitize_persisted_messages fresh ms) = map cm_role ms"
  "i < length ms \<Longrightarrow> cm_message_id (ms ! i) \<noteq> [] \<Longrightarrow>
     cm_message_id (sanitize_persisted_messages fresh ms ! i) = cm_message_id (ms ! i)"
proof -
  have r: "cm_role (ensure_message_id x m) = cm_role m" for x m by (simp add: ensure_message_id_def)
  show "map cm_role (sanitize_persisted_messages fresh ms) = map cm_role ms"
    by (rule nth_equalityI) (simp_all add: sanitize_persisted_messages_def nth_enumerate_eq r)
qed (simp_all add: sanitize_persisted_messages_def nth_enumerate_eq ensure_message_id_def)

lemma io_op_files: "io_op lib what f d = (Inr u, d') \<Longrightarrow> sd_files d' = sd_files (f d)"
  by (auto dest!: io_op_ok)

lemma keeps_file_for_each:
  assumes "\<And>x d d'. f x d = (Inr (), d') \<Longrightarrow> sd_files d' g = sd_files d g"
  shows "for_each f xs d = (Inr (), d') \<Longrightarrow> sd_files d' g = sd_files d g"
proof (induction xs arbitrary: d)
  case (Cons x xs)
  then obtain d1 where "f x d = (Inr (), d1)" "for_each f xs d1 = (Inr (), d')"
    by (auto simp: andthen_ok)
  with Cons.IH assms show ?case by fastforce
qed (simp add: okM_def)

lemma append_file_other: "append_file lib f t d = (Inr u, d') \<Longrightarrow> f \<noteq> g \<Longrightarrow> sd_files d' g = sd_files d g"
  by (auto simp: append_file_def put_file_def dest!: io_op_files)

lemma create_file_other: "create_file lib f d = (Inr u, d') \<Longrightarrow> f \<noteq> g \<Longrightarrow> sd_files d' g = sd_files d g"
  by (auto simp: create_file_def put_file_def dest!: io_op_files)

lemma write_jsonl_other:
  assumes "write_messages_jsonl lib f ms d = (Inr (), d')" and "f \<noteq> g"
  shows "sd_files d' g = sd_files d g"
proof -
  obtain d1 d2 where c: "create_file lib f d = (Inr (), d1)"
    and l: "for_each (\<lambda>m. bnd (from_result (sl_message_to_json lib m))
              (\<lambda>line. append_file lib f (line @ newline))) ms d1 = (Inr (), d2)"
    and fl: "flush_file lib d2 = (Inr (), d')"
    using assms(1) by (auto simp: write_messages_jsonl_def andthen_ok)
  have "sd_files d2 g = sd_files d1 g"
    using l by (rule keeps_file_for_each [rotated])
      (use assms(2) in \<open>auto simp: bnd_ok from_result_ok dest: append_file_other\<close>)
  then show ?thesis
    using create_file_other [OF c assms(2)] fl by (auto simp: flush_file_def dest!: io_op_files)
qed

lemma write_indexed_loop_other:
  "write_indexed_loop lib f k ms ix d = (Inr e, d') \<Longrightarrow> f \<noteq> g \<Longrightarrow> sd_files d' g = sd_files d g"
proof (induction ms arbitrary: k ix d)
  case (Cons m ms)
  from Cons.prems(1) show ?case
  proof (rule write_indexed_loop_Cons)
    fix l d2
    assume "append_file lib f (l @ newline) (d\<lparr>sd_io := Suc (sd_io d)\<rparr>) = (Inr (), d2)"
      and "write_indexed_loop lib f (Suc k) ms
             (if cm_message_id m \<noteq> []
              then btree_insert (cm_message_id m)
                     \<lparr>mie_index = k, mie_byte_offset = utf8_len (file_text f d)\<rparr> ix
              else ix) d2 = (Inr e, d')"
    with Cons.IH Cons.prems(2) append_file_other show ?thesis by fastforce
  qed
qed (simp add: okM_def)

lemma fs_write_ok:
  "fs_write lib f t d = (Inr (), d') \<Longrightarrow> sd_files d' = (sd_files d)(f := Some t)"
  by (auto simp: fs_write_def andthen_ok create_file_def append_file_def put_file_def file_text_def
      fun_eq_iff dest!: io_op_files)

lemma write_indexed_other:
  assumes "write_messages_jsonl_with_index lib f h ms d = (Inr (), d')" and "f \<noteq> g" "h \<noteq> g"
  shows "sd_files d' g = sd_files d g"
proof -
  obtain d1 d2 d3 e t where "create_file lib f d = (Inr (), d1)"
    "write_indexed_loop lib f 0 ms [] d1 = (Inr e, d2)" "sd_files d3 = sd_files d2"
    "fs_write lib h t d3 = (Inr (), d')"
    using assms(1)
    by (auto simp: write_messages_jsonl_with_index_def andthen_ok bnd_ok from_result_ok flush_file_def
        dest!: io_op_files)
  then show ?thesis
    using assms(2,3) by (simp add: fs_write_ok write_indexed_loop_other create_file_other)
qed

lemma save_session_json:
  assumes "save lib state d = (Inr (), d')"
  shows "\<exists>json. sl_state_to_json lib state = Inr json \<and> sd_files d' SessionJson = Some json"
proof -
  obtain json d1 d2 where "sl_state_to_json lib state = Inr json" "fs_write lib SessionJson json d = (Inr (), d1)"
    "write_messages_jsonl_with_index lib AllMessages MessagesIndex (ps_all_messages state) d1 = (Inr (), d2)"
    "write_messages_jsonl lib CurrentMessages (ps_current_messages state) d2 = (Inr (), d')"
    using assms by (auto simp: save_def andthen_ok bnd_ok from_result_ok)
  then show ?thesis
    by (simp add: write_jsonl_other [of _ CurrentMessages] write_indexed_other [of _ AllMessages MessagesIndex]
        fs_write_ok)
qed

text \<open>
  What a reader may expect of a restored message, without the code that restores it: the text of a
  text result, an item with another text in its place, and the two relations.
\<close>

definition result_text :: "chat_message_item \<Rightarrow> string option" where
  "result_text item =
     (case item of
        ToolResult r \<Rightarrow>
          (case trc_structured (tr_result r) of
             None \<Rightarrow> None
           | Some v \<Rightarrow> if get_str ''kind'' v = Some ''text_result'' then get_str ''text'' v else None)
      | _ \<Rightarrow> None)"

definition with_result_text :: "string \<Rightarrow> chat_message_item \<Rightarrow> chat_message_item" where
  "with_result_text t item =
     (case item of
        ToolResult r \<Rightarrow>
          ToolResult (r\<lparr>tr_result := (tr_result r)
            \<lparr>trc_structured := map_option (json_set ''text'' (JString t)) (trc_structured (tr_result r))\<rparr>\<rparr>)
      | _ \<Rightarrow> item)"

definition restored_item :: "chat_message_item \<Rightarrow> chat_message_item \<Rightarrow> bool" where
  "restored_item item item' \<longleftrightarrow>
     (case result_text item of
        None \<Rightarrow> item' = item
      | Some t \<Rightarrow>
          (if length t \<le> 100000 then item' = item
           else \<exists>front notice rear. item' = with_result_text (front @ notice @ rear) item \<and>
             prefix front t \<and> suffix rear t \<and> length (front @ notice @ rear) \<le> 100000))"

definition restored_message :: "string \<Rightarrow> chat_message \<Rightarrow> chat_message \<Rightarrow> bool" where
  "restored_message fresh_id m m' \<longleftrightarrow>
     m' = m\<lparr>cm_message_id := (if cm_message_id m = [] then fresh_id else cm_message_id m), cm_data := cm_data m'\<rparr> \<and>
     list_all2 restored_item (cm_data m) (cm_data m')"

lemma truncate_context_text_long:
  assumes "truncate_context_text t n = (t', True)"
  shows "n < length t \<and> (\<exists>front notice rear. t' = front @ notice @ rear \<and> prefix front t \<and> suffix rear t \<and> length t' \<le> n)"
proof -
  have "length t' \<le> n" using truncate_context_text_bound [of t n] assms by simp
  moreover have "\<exists>front notice rear. t' = front @ notice @ rear \<and> prefix front t \<and> suffix rear t"
  proof -
    have "suffix (rev (take k (rev t))) t" for k
      by (simp add: suffix_def rev_take) (metis append_take_drop_id)
    moreover have "prefix (take k t) t" for k by (rule take_is_prefix)
    ultimately show ?thesis
      using assms by (auto simp: truncate_context_text_def Let_def split: if_splits) (metis append_Nil2 suffix_bot.extremum)+
  qed
  moreover have "n < length t" using assms by (auto simp: truncate_context_text_def Let_def split: if_splits)
  ultimately show ?thesis by blast
qed

lemma sanitize_item_restored: "restored_item item (sanitize_item item)"
proof (cases item)
  case (ToolResult r)
  show ?thesis
  proof (cases "result_text item")
    case None
    then show ?thesis
      using ToolResult
      by (auto simp: restored_item_def result_text_def sanitize_tool_result_content_def split: option.splits if_splits)
  next
    case (Some t)
    then obtain v where v: "trc_structured (tr_result r) = Some v" "get_str ''kind'' v = Some ''text_result''"
      "get_str ''text'' v = Some t"
      using ToolResult by (auto simp: result_text_def split: option.splits if_splits)
    obtain t' long where tr: "truncate_context_text t 100000 = (t', long)" by fastforce
    show ?thesis
    proof (cases long)
      case True
      then have item': "sanitize_item item = with_result_text t' item"
        using ToolResult v tr
        by (simp add: sanitize_tool_result_content_def with_result_text_def max_persisted_tool_context_chars_def)
      from truncate_context_text_long [of t 100000 t'] obtain front notice rear
        where "100000 < length t" "t' = front @ notice @ rear" "prefix front t" "suffix rear t" "length t' \<le> 100000"
        using tr True by auto
      then show ?thesis using Some item' by (auto simp: restored_item_def)
    next
      case False
      then have "length t \<le> 100000"
        using tr by (auto simp: truncate_context_text_def Let_def split: if_splits)
      then show ?thesis
        using ToolResult v tr False Some
        by (simp add: restored_item_def sanitize_tool_result_content_def max_persisted_tool_context_chars_def)
    qed
  qed
qed (simp_all add: restored_item_def result_text_def)

lemma sanitize_restored:
  "i < length ms \<Longrightarrow> restored_message (fresh i) (ms ! i) (sanitize_persisted_messages fresh ms ! i)"
  by (simp add: restored_message_def sanitize_persisted_messages_def nth_enumerate_eq ensure_message_id_def
      list_all2_conv_all_nth sanitize_item_restored)


definition sample_saved :: session_actor_persisted_state where
  "sample_saved =
     \<lparr>ps_version = 1, ps_initial = session_initial_new ''s'' Foreground,
      ps_all_messages = [chat_message_new ''a'' User [], chat_message_new [] Assistant [Context \<lparr>ci_text = ''hi''\<rparr>]],
      ps_current_messages = [chat_message_new [] Assistant [Context \<lparr>ci_text = ''hi''\<rparr>]],
      ps_next_turn_id = 7, ps_next_batch_id = 1, ps_runtime_metadata_state = runtime_metadata_default\<rparr>"

text \<open>A library that tells states by their turn counter and messages by their identifier.\<close>

definition sample_store_lib :: store_lib where
  "sample_store_lib =
     \<lparr>sl_state_to_json = (\<lambda>s. Inr (show_nat (ps_next_turn_id s))),
      sl_state_of_json = (\<lambda>json. if json = ''7'' then Inr sample_saved else Inl ''unknown''),
      sl_message_to_json = (\<lambda>m. Inr (cm_message_id m)), sl_index_to_json = (\<lambda>_. Inr ''i''),
      sl_io_error = (\<lambda>_. None)\<rparr>"


text \<open>
  What a restored session carries is bounded: after loading, the text of a tool result
  has at most \<open>MAX_PERSISTED_TOOL_CONTEXT_CHARS\<close> characters (the notice that replaces the
  omitted middle included), whatever was in the file.
\<close>

lemma loaded_tool_texts_bounded:
  assumes "m \<in> set (sanitize_persisted_messages fresh messages)" and "ToolResult tr \<in> set (cm_data m)"
    and "trc_structured (tr_result tr) = Some (text_tool_result_value t)"
  shows "length t \<le> max_persisted_tool_context_chars"
proof -
  obtain i m' where "m = (ensure_message_id (fresh i) m')\<lparr>cm_data := map sanitize_item (cm_data m')\<rparr>"
    using assms(1) unfolding sanitize_persisted_messages_def by auto
  then have "cm_data m = map sanitize_item (cm_data m')" by simp
  then obtain x where "ToolResult tr = sanitize_item x" using assms(2) by auto
  then obtain r where "tr = r\<lparr>tr_result := sanitize_tool_result_content (tr_result r)\<rparr>"
    by (cases x) auto
  then have "tr_result tr = sanitize_tool_result_content (tr_result r)" by simp
  with assms(3) show ?thesis
    by (intro sanitize_tool_result_bound [of "tr_result r" "text_tool_result_value t"])
      (simp_all add: text_tool_result_value_def json_access_defs)
qed

text \<open>
  The directory name of a session stays inside the log directory: it is not empty, it is
  neither \<open>.\<close> nor \<open>..\<close>, it holds only letters, digits, underscore, dash and dot (so no path
  separator), and sanitizing it again changes nothing.
\<close>

lemma sanitize_session_id_safe:
  "sanitize_session_id s \<noteq> [] \<and> sanitize_session_id s \<noteq> ''.'' \<and> sanitize_session_id s \<noteq> ''..'' \<and>
   list_all session_id_char (sanitize_session_id s) \<and>
   sanitize_session_id (sanitize_session_id s) = sanitize_session_id s"
proof -
  have lit: "list_all session_id_char ''session''"
    by (simp add: session_id_char_def is_ascii_digit_def)
  have all: "list_all session_id_char (sanitize_session_id s)"
    using lit by (auto simp: sanitize_session_id_def Let_def list_all_iff) (simp add: session_id_char_def)
  have fixed: "map (\<lambda>ch. if session_id_char ch then ch else CHR ''_'') x = x" if "list_all session_id_char x" for x
    using that by (induction x) auto
  have "sanitize_session_id (sanitize_session_id s) = sanitize_session_id s"
    using fixed [OF all] by (auto simp: sanitize_session_id_def Let_def)
  then show ?thesis using all by (auto simp: sanitize_session_id_def Let_def)
qed

end
