(* ===== verification/Actor_Support.thy ===== *)
theory Actor_Support
  imports Compressor Session_State
begin

text \<open>
  The functions of \<open>core/src/session_actor/actor.rs\<close> that do not touch the actor's state:
  its errors and their classification, thresholds, message identifiers and stamping,
  rendering of notices, plans and memory, and the views.
\<close>

section \<open>Errors\<close>

text \<open>\<open>Panic\<close> stands for a panic of the thread, which in the source is not a value.\<close>

datatype session_actor_error =
    Mailbox string
  | Event string
  | ProviderPreflight string string
  | Provider string string string provider_error
  | Tool string
  | ToolCatalog_error string
  | Logging string
  | Compression string
  | Persistence string
  | RuntimeMetadata_error string
  | DataHeadChanged
  | UnexpectedDataRequest
  | MissingInitial
  | StepLimitExceeded nat
  | Panic

definition concise_error_reason :: "string \<Rightarrow> string" where
  "concise_error_reason message = truncate_with_dots 600 (trim message)"

definition provider_failure_kind_label :: "provider_failure_kind \<Rightarrow> string" where
  "provider_failure_kind_label kind = failure_kind_label kind"

fun provider_error_parts :: "provider_error \<Rightarrow> string \<times> string \<times> string" where
  "provider_error_parts (MissingApiKeyEnv v) =
     (''provider.config'', ''missing_api_key_env'', ''missing api key in environment variable '' @ v)"
| "provider_error_parts (BuildHttpClient e) = (''provider.http_client'', ''build_http_client'', e)"
| "provider_error_parts (Request message) =
     (''provider.http_transport'', ''request'', concise_error_reason message)"
| "provider_error_parts (HttpStatus url status body) =
     (''provider.http_status'', ''http_status'',
      ''request to '' @ url @ '' returned HTTP '' @ show_nat status @ '': '' @ concise_error_reason body)"
| "provider_error_parts (DecodeResponse e) = (''provider.response_body'', ''decode_response'', e)"
| "provider_error_parts (DecodeJson e) = (''provider.response_json'', ''decode_json'', e)"
| "provider_error_parts (InvalidResponse message) =
     (''provider.response_validation'', ''invalid_response'', concise_error_reason message)"
| "provider_error_parts (ProviderFailure kind message body) =
     (''provider.failure'', provider_failure_kind_label kind, concise_error_reason message)"
| "provider_error_parts (WebSocket message) =
     (''provider.websocket'', ''websocket'', concise_error_reason message)"
| "provider_error_parts (PersistOutput e) = (''provider.output_persistor'', ''persist_output'', e)"
| "provider_error_parts EmptyChoices =
     (''provider.response_validation'', ''empty_choices'',
      ''provider response did not include any completion choices'')"
| "provider_error_parts (Subprocess message) =
     (''provider.runtime'', ''isolation'', concise_error_reason message)"

definition from_provider_error :: "provider_error \<Rightarrow> session_actor_error" where
  "from_provider_error e = (case provider_error_parts e of (m, k, r) \<Rightarrow> Provider m k r e)"

definition provider_preflight :: "string \<Rightarrow> session_actor_error" where
  "provider_preflight reason = ProviderPreflight ''session_actor.provider_preflight'' reason"

fun is_recoverable_turn_error :: "session_actor_error \<Rightarrow> bool" where
  "is_recoverable_turn_error (Provider _ _ _ _) = True"
| "is_recoverable_turn_error (ProviderPreflight _ _) = True"
| "is_recoverable_turn_error (Compression _) = True"
| "is_recoverable_turn_error (Tool _) = True"
| "is_recoverable_turn_error (RuntimeMetadata_error _) = True"
| "is_recoverable_turn_error _ = False"

fun actor_error_text :: "session_actor_error \<Rightarrow> string" where
  "actor_error_text (Mailbox e) = ''session actor mailbox failed: '' @ e"
| "actor_error_text (Event e) = ''session actor event sink failed: '' @ e"
| "actor_error_text (ProviderPreflight m r) = ''provider request failed in '' @ m @ '': '' @ r"
| "actor_error_text (Provider m _ r _) = ''provider request failed in '' @ m @ '': '' @ r"
| "actor_error_text (Tool e) = ''tool batch failed: '' @ e"
| "actor_error_text (ToolCatalog_error e) = ''tool catalog failed: '' @ e"
| "actor_error_text (Logging e) = ''session actor logging failed: '' @ e"
| "actor_error_text (Compression e) = ''session actor compression failed: '' @ e"
| "actor_error_text (Persistence e) = ''session actor persistence failed: '' @ e"
| "actor_error_text (RuntimeMetadata_error e) = ''session actor runtime metadata failed: '' @ e"
| "actor_error_text DataHeadChanged = ''data mailbox head changed while starting a turn''"
| "actor_error_text UnexpectedDataRequest = ''unexpected request in data mailbox''"
| "actor_error_text MissingInitial = ''session initial message has not been applied''"
| "actor_error_text (StepLimitExceeded n) = ''session actor exceeded step limit '' @ show_nat n"
| "actor_error_text Panic = ''panic''"

fun error_detail :: "session_actor_error \<Rightarrow> session_error_detail" where
  "error_detail (Mailbox r) = error_detail_new ''session_actor.mailbox'' ''mailbox'' r"
| "error_detail (Event r) = error_detail_new ''session_actor.event_sink'' ''event_sink'' r"
| "error_detail (ProviderPreflight m r) = error_detail_new m ''request_too_large_preflight'' r"
| "error_detail (Provider m k _ source) = error_detail_new m k (provider_error_text source)"
| "error_detail (Tool r) = error_detail_new ''session_actor.tool_batch'' ''tool_batch'' r"
| "error_detail (ToolCatalog_error r) = error_detail_new ''session_actor.tool_catalog'' ''tool_catalog'' r"
| "error_detail (Logging r) = error_detail_new ''session_actor.logger'' ''logging'' r"
| "error_detail (Compression r) = error_detail_new ''session_actor.compression'' ''compression'' r"
| "error_detail (Persistence r) = error_detail_new ''session_actor.persistence'' ''persistence'' r"
| "error_detail (RuntimeMetadata_error r) =
     error_detail_new ''session_actor.runtime_metadata'' ''runtime_metadata'' r"
| "error_detail DataHeadChanged = error_detail_new ''session_actor.mailbox'' ''data_head_changed''
     ''data mailbox head changed while starting a turn''"
| "error_detail UnexpectedDataRequest = error_detail_new ''session_actor.mailbox'' ''unexpected_data_request''
     ''unexpected request in data mailbox''"
| "error_detail MissingInitial = error_detail_new ''session_actor.initialization'' ''missing_initial''
     ''session initial message has not been applied''"
| "error_detail (StepLimitExceeded n) = error_detail_new ''session_actor.loop'' ''step_limit_exceeded''
     (''session actor exceeded step limit '' @ show_nat n)"
| "error_detail Panic = error_detail_new [] [] []"

definition of_load_error :: "load_error \<Rightarrow> session_actor_error" where
  "of_load_error e = (case e of LoadError t \<Rightarrow> RuntimeMetadata_error t | Panicked \<Rightarrow> Panic)"

definition compression_error_is_request_too_large :: "compression_error \<Rightarrow> bool" where
  "compression_error_is_request_too_large e = request_too_large_text (compression_error_text e)"

section \<open>Thresholds\<close>

text \<open>
  \<open>model_context_ratio_threshold\<close> multiplies by the \<open>f64\<close> 0.9 and takes the floor; for a
  context below \<open>2 ^ 50\<close> tokens that is the exact integer quotient.
\<close>

definition model_context_ratio_threshold :: "model_config \<Rightarrow> nat" where
  "model_context_ratio_threshold mc = max ((9 * mc_token_max_context mc) div 10) 1"

definition active_compression_threshold_tokens :: "model_config \<Rightarrow> session_initial \<Rightarrow> nat option" where
  "active_compression_threshold_tokens mc initial =
     map_option (\<lambda>configured. max (min configured (model_context_ratio_threshold mc)) 1)
       (si_compression_threshold_tokens initial)"

definition default_retain_recent_tokens :: "nat \<Rightarrow> nat" where
  "default_retain_recent_tokens threshold_tokens =
     (if threshold_tokens \<le> 2 then 1
      else min (max (saturating_mul threshold_tokens 10 div 100) 512) (threshold_tokens - 1))"

definition build_session_compressor ::
  "nat option \<Rightarrow> session_initial \<Rightarrow> bool \<Rightarrow> session_actor_error + session_compressor option" where
  "build_session_compressor threshold_tokens initial has_estimator =
     (case threshold_tokens of
        None \<Rightarrow> Inr None
      | Some threshold \<Rightarrow>
          (let retain = unwrap_or (default_retain_recent_tokens threshold) (si_compression_retain_recent_tokens initial)
           in if \<not> has_estimator then Inl (Compression ''token estimator is unavailable'')
              else case session_compressor_new threshold retain of
                Inl e \<Rightarrow> Inl (Compression (compression_error_text e))
              | Inr c \<Rightarrow> Inr (Some c)))"

section \<open>Messages\<close>

definition message_id_for_all_messages_index :: "nat \<Rightarrow> 64 word \<Rightarrow> string" where
  "message_id_for_all_messages_index index random =
     ''msg_'' @ show_pad20 index @ ''_'' @ show_hex16 random"

definition message_id_has_all_messages_index :: "string \<Rightarrow> bool" where
  "message_id_has_all_messages_index message_id =
     (case strip_prefix ''msg_'' message_id of
        None \<Rightarrow> False
      | Some rest \<Rightarrow>
          (case split_once (CHR ''_'') rest of
             None \<Rightarrow> False
           | Some (index, _) \<Rightarrow> utf8_len index = 20 \<and> list_all is_ascii_digit index))"

definition stamp_assistant_message_time :: "string \<Rightarrow> chat_message \<Rightarrow> chat_message" where
  "stamp_assistant_message_time now message =
     (if cm_role message = Assistant \<and> cm_message_time message = None
      then message\<lparr>cm_message_time := Some now\<rparr> else message)"

text \<open>\<open>now i\<close> is the clock read for the message at position \<open>i\<close>.\<close>

definition stamp_missing_assistant_message_times :: "(nat \<Rightarrow> string) \<Rightarrow> chat_message list \<Rightarrow> chat_message list" where
  "stamp_missing_assistant_message_times now messages =
     map (\<lambda>(i, message). stamp_assistant_message_time (now i) message) (enumerate 0 messages)"

definition clear_context_model_token_usage :: "chat_message list \<Rightarrow> chat_message list" where
  "clear_context_model_token_usage messages =
     map (\<lambda>m. m\<lparr>cm_token_usage := map_option clear_context_model (cm_token_usage m)\<rparr>) messages"

definition session_message_record_of :: "nat \<Rightarrow> chat_message \<Rightarrow> session_message_record" where
  "session_message_record_of index message =
     \<lparr>smr_index = index, smr_turn_id = cm_turn_id message, smr_step_index = cm_step_index message,
      smr_message_part = cm_message_part message, smr_message = message\<rparr>"

definition message_appended :: "nat \<Rightarrow> chat_message \<Rightarrow> session_event" where
  "message_appended index message =
     MessageAppended index (cm_turn_id message) (cm_step_index message) (cm_message_part message) message"

fun provider_stream_event_is_renderable :: "provider_stream_event \<Rightarrow> bool" where
  "provider_stream_event_is_renderable KeepAlive = False"
| "provider_stream_event_is_renderable (RawJson _) = False"
| "provider_stream_event_is_renderable _ = True"

definition provider_request_envelope_matches :: "provider_request \<Rightarrow> provider_request \<Rightarrow> bool" where
  "provider_request_envelope_matches left right \<longleftrightarrow>
     prq_system_prompt left = prq_system_prompt right \<and> prq_tools left = prq_tools right \<and>
     prq_image_edit_mask left = prq_image_edit_mask right \<and> prq_image_size left = prq_image_size right"

definition render_incoming_user_metadata_notice :: "chat_message \<Rightarrow> string option" where
  "render_incoming_user_metadata_notice message =
     (if cm_role message \<noteq> User then None
      else
        (let metadata = opt_text_line ''Speaker: '' (map_option trim (cm_user_name message))
                        @ opt_text_line ''Message time: '' (map_option trim (cm_message_time message))
         in if metadata = [] then None
            else Some (join newline
                   ([''[Incoming User Metadata]''] @ metadata @ [''For the next user message only.'']))))"

definition loaded_skill_name :: "json_lib \<Rightarrow> chat_message_item \<Rightarrow> string option" where
  "loaded_skill_name lib item =
     (case item of
        ToolResult result \<Rightarrow>
          (if tr_tool_name result \<noteq> ''skill_load'' then None
           else if trim (tool_result_text lib result) = [] then None
           else Option.bind (from_str lib (tool_result_text lib result))
                  (\<lambda>v. Option.bind (or_else (json_get ''name'' v) (json_get ''skill_name'' v)) as_str))
      | _ \<Rightarrow> None)"

definition loaded_skill_names_from_message :: "json_lib \<Rightarrow> chat_message \<Rightarrow> string list" where
  "loaded_skill_names_from_message lib message =
     btree_set (List.map_filter (loaded_skill_name lib) (cm_data message))"

section \<open>Plans\<close>

definition session_plan_context_marker :: string where
  "session_plan_context_marker = ''[StellaClaw Current Task Plan]''"

fun plan_status_label :: "task_plan_item_status \<Rightarrow> string" where
  "plan_status_label Pending = ''pending''"
| "plan_status_label InProgress = ''in_progress''"
| "plan_status_label Completed = ''completed''"

definition render_task_plan_context :: "task_plan_view \<Rightarrow> string option" where
  "render_task_plan_context plan =
     (if tp_explanation plan = None \<and> tp_plan plan = [] then None
      else Some (trim_end
        (session_plan_context_marker
         @ (case tp_explanation plan of None \<Rightarrow> [] | Some e \<Rightarrow> paragraph_break @ e)
         @ (if tp_plan plan = [] then []
            else paragraph_break @
              concat (map (\<lambda>item. ''- ['' @ plan_status_label (tpi_status item) @ ''] '' @ trim (tpi_step item) @ newline)
                        (tp_plan plan))))))"

definition is_task_plan_context_message :: "chat_message \<Rightarrow> bool" where
  "is_task_plan_context_message message \<longleftrightarrow>
     cm_role message = Assistant \<and>
     list_ex (\<lambda>item. case item of Context context \<Rightarrow> starts_with session_plan_context_marker (ci_text context) | _ \<Rightarrow> False)
       (cm_data message)"

section \<open>Memory used while compressing\<close>

record memory_search_tool_result =
  ms_id :: string
  ms_scope :: string
  ms_subject :: "string option"
  ms_text :: string
  ms_updated_at :: "string option"
  ms_score :: rat

record memory_search_tool_response =
  msr_status :: "string option"
  msr_results :: "memory_search_tool_result list"

definition truncate_chars :: "string \<Rightarrow> nat \<Rightarrow> string" where
  "truncate_chars v max_chars = truncate_with_dots max_chars (trim v)"

fun memory_query_part :: "json_lib \<Rightarrow> chat_message_item \<Rightarrow> string list" where
  "memory_query_part lib (Context context) = [trim (ci_text context)]"
| "memory_query_part lib (Compaction compaction) =
     (case generic_summary_text compaction of Some t \<Rightarrow> [trim t] | None \<Rightarrow> [])"
| "memory_query_part lib (SelectionReference selection) = [to_prompt_text selection]"
| "memory_query_part lib (ToolResult tool_result) =
     (let rendered = tool_result_text lib tool_result in if trim rendered \<noteq> [] then [trim rendered] else [])"
| "memory_query_part lib (ToolCall tool_call) =
     [''tool_call '' @ tc_tool_name tool_call @ '' '' @ ci_text (tc_arguments tool_call)]"
| "memory_query_part lib (File file) =
     [''file '' @ unwrap_or (fi_uri file) (fi_name file) @ '' '' @ fi_uri file]"
| "memory_query_part lib (Reasoning _) = []"

definition message_text_for_memory_query :: "json_lib \<Rightarrow> chat_message \<Rightarrow> string" where
  "message_text_for_memory_query lib message =
     truncate_chars (join newline (concat (map (memory_query_part lib) (cm_data message)))) 1200"

definition build_compression_memory_query ::
  "json_lib \<Rightarrow> chat_message list \<Rightarrow> chat_message option \<Rightarrow> task_plan_view option \<Rightarrow> string" where
  "build_compression_memory_query lib messages next_message current_plan =
     (let plan = (case Option.bind current_plan render_task_plan_context of None \<Rightarrow> [] | Some p \<Rightarrow> [p]);
          texts = filter (\<lambda>t. trim t \<noteq> [])
            (map (message_text_for_memory_query lib)
               (drop (length messages - 6) messages @ (case next_message of None \<Rightarrow> [] | Some m \<Rightarrow> [m])))
      in truncate_chars (join paragraph_break (plan @ texts)) 4000)"

text \<open>\<open>sort_by\<close> is stable: an element goes before the first one that does not precede it.\<close>

fun insert_by :: "('a \<Rightarrow> 'a \<Rightarrow> bool) \<Rightarrow> 'a \<Rightarrow> 'a list \<Rightarrow> 'a list" where
  "insert_by before x [] = [x]"
| "insert_by before x (y # ys) = (if before y x then y # insert_by before x ys else x # y # ys)"

definition stable_sort_by :: "('a \<Rightarrow> 'a \<Rightarrow> bool) \<Rightarrow> 'a list \<Rightarrow> 'a list" where
  "stable_sort_by before xs = foldr (insert_by before) xs []"

definition memory_before :: "memory_search_tool_result \<Rightarrow> memory_search_tool_result \<Rightarrow> bool" where
  "memory_before left right \<longleftrightarrow>
     ms_score right < ms_score left \<or>
     ms_score right = ms_score left \<and> unwrap_or [] (ms_updated_at right) < unwrap_or [] (ms_updated_at left)"

definition memory_line :: "memory_search_tool_result \<Rightarrow> string" where
  "memory_line result =
     (let optional = (\<lambda>pre post o'. case filter_option (\<lambda>v. v \<noteq> []) (map_option trim o') of
                         None \<Rightarrow> [] | Some v \<Rightarrow> pre @ v @ post)
      in ''* ['' @ ms_scope result @ '':'' @ ms_id result @ '']'' @ optional '' ('' '')'' (ms_subject result)
         @ optional '' updated '' [] (ms_updated_at result) @ '' ''
         @ truncate_chars (replace_newlines (ms_text result)) 640)"

fun select_memory_lines ::
  "nat \<Rightarrow> memory_search_tool_result list \<Rightarrow> string set \<Rightarrow> nat \<Rightarrow> string list" where
  "select_memory_lines budget_chars [] seen used_chars = []"
| "select_memory_lines budget_chars (result # results) seen used_chars =
     (if ms_id result \<in> seen then select_memory_lines budget_chars results seen used_chars
      else
        (let l = memory_line result;
             line_len = utf8_len l + 1
         in if used_chars + line_len > budget_chars then []
            else l # select_memory_lines budget_chars results (insert (ms_id result) seen) (used_chars + line_len)))"

definition render_compression_memory_context :: "memory_search_tool_result list \<Rightarrow> nat \<Rightarrow> string option" where
  "render_compression_memory_context results budget_tokens =
     (if results = [] \<or> budget_tokens = 0 then None
      else
        (let selected = select_memory_lines (max (saturating_mul budget_tokens 4) 1)
               (stable_sort_by memory_before results) {} 0
         in if selected = [] then None else Some (join newline selected)))"

definition compression_memory_budget_tokens :: "model_config \<Rightarrow> nat" where
  "compression_memory_budget_tokens mc =
     min (max (saturating_mul (mc_token_max_context mc) 3 div 100) 1) 4000"

section \<open>Token estimates\<close>

record token_estimate =
  te_text_tokens :: nat
  te_multimodal_tokens :: nat
  te_reasoning_tokens :: nat
  te_total_tokens :: nat

fun last_usage :: "provider_type \<Rightarrow> string \<Rightarrow> nat \<Rightarrow> chat_message list \<Rightarrow> (nat \<times> token_usage) option" where
  "last_usage pt name index [] = None"
| "last_usage pt name index (m # ms) =
     (case last_usage pt name (Suc index) ms of
        Some r \<Rightarrow> Some r
      | None \<Rightarrow>
          (case cm_token_usage m of
             None \<Rightarrow> None
           | Some usage \<Rightarrow> if matches_model_config usage pt name then Some (index, usage) else None))"

definition cached_context_token_estimate ::
  "(chat_message list \<Rightarrow> string + token_estimate) \<Rightarrow> chat_message list \<Rightarrow> provider_type \<Rightarrow> string \<Rightarrow>
     session_actor_error + token_estimate option" where
  "cached_context_token_estimate estimate_normalized messages pt name =
     (case last_usage pt name 0 messages of
        None \<Rightarrow> Inr None
      | Some (last_usage_index, usage) \<Rightarrow>
          (case estimate_normalized (drop (last_usage_index + 1) messages) of
             Inl e \<Rightarrow> Inl (Compression e)
           | Inr suffix_estimate \<Rightarrow>
               (let total_tokens = saturating_add (context_tokens usage) (te_total_tokens suffix_estimate)
                in Inr (Some \<lparr>te_text_tokens = total_tokens, te_multimodal_tokens = 0,
                              te_reasoning_tokens = 0, te_total_tokens = total_tokens\<rparr>))))"

section \<open>Views\<close>

definition usize_field :: "json \<Rightarrow> string \<Rightarrow> nat \<Rightarrow> nat" where
  "usize_field payload key fallback = unwrap_or fallback (get_u64 key payload)"

definition invalid_source_payload :: "string \<Rightarrow> json" where
  "invalid_source_payload source =
     JObject [(''type'', JString ''error''), (''source'', JString source),
              (''error'', JString ''source must be current or all'')]"

text \<open>The page \<open>messages[start..end]\<close> that both history queries cut out.\<close>

definition page_bounds :: "nat \<Rightarrow> nat \<Rightarrow> nat \<Rightarrow> nat \<times> nat" where
  "page_bounds offset limit total_len =
     (let start = min offset total_len in (start, min (saturating_add start limit) total_len))"

definition page :: "nat \<Rightarrow> nat \<Rightarrow> 'a list \<Rightarrow> 'a list" where
  "page offset limit xs = (case page_bounds offset limit (length xs) of (start, e) \<Rightarrow> drop start (take e xs))"

section \<open>Laws\<close>

lemma message_id_roundtrip: "n \<le> u64_max \<Longrightarrow> message_id_has_all_messages_index (message_id_for_all_messages_index n r)"
proof -
  assume n: "n \<le> u64_max"
  have "CHR ''_'' \<notin> set (show_pad20 n)" by (rule underscore_not_digit) (rule show_pad20_digits)
  then have "split_once (CHR ''_'') (show_pad20 n @ CHR ''_'' # show_hex16 r) = Some (show_pad20 n, show_hex16 r)"
    by (rule split_once_append)
  moreover have "utf8_len (show_pad20 n) = 20"
  proof -
    have "utf8_len ds = length ds" if "list_all is_ascii_digit ds" for ds
      using that by (induction ds) (auto simp: utf8_len_def is_ascii_digit_def)
    then show ?thesis using show_pad20_digits [of n] length_show_pad20 [OF n] by metis
  qed
  moreover have "strip_prefix ''msg_'' (''msg_'' @ show_pad20 n @ ''_'' @ show_hex16 r) =
      Some (show_pad20 n @ ''_'' @ show_hex16 r)" by (rule strip_prefix_append)
  ultimately show ?thesis
    using show_pad20_digits [of n]
    by (simp add: message_id_has_all_messages_index_def message_id_for_all_messages_index_def)
qed

lemma page_length: "length (page offset limit xs) \<le> limit"
  by (auto simp: page_def page_bounds_def Let_def saturating_add_def)

lemma default_retain_bounds:
  "2 < t \<Longrightarrow> default_retain_recent_tokens t < t"
  by (auto simp: default_retain_recent_tokens_def)

end
