(* ===== verification/Session_Actor.thy ===== *)
theory Session_Actor
  imports Actor_Support
begin

text \<open>
  Model of the session actor, \<open>core/src/session_actor/actor.rs\<close>: its state as the record
  \<open>session_actor\<close> and every handler as a function in the state-and-error monad. What lies
  outside this crate's actor (clock, random numbers, event sink, provider session, tool
  executor, file system, bridge) answers through the functions of \<open>actor_env\<close>; each question
  is numbered by the counter \<open>sa_io\<close>, so an environment may answer differently every time.
  Calls that succeed are recorded in the logs of the state. Log lines are not modelled.
\<close>

section \<open>State\<close>

datatype tool_batch_interrupt = Cancel | SupersededByUserMessage

record active_tool_batch =
  atb_turn_id :: string
  atb_turn_number :: nat
  atb_step_index :: nat
  atb_handle :: tool_batch_handle
  atb_operations :: "tool_batch_operation list"
  atb_operation_summary :: string
  atb_started_at_ms :: nat
  atb_interrupt :: "tool_batch_interrupt option"

text \<open>Points in time are milliseconds of a monotone clock.\<close>

record active_provider_request =
  apr_request_id :: string
  apr_message_id :: string
  apr_turn_id :: string
  apr_turn_number :: nat
  apr_step_index :: nat
  apr_request_too_large_attempts :: nat
  apr_started_at_ms :: nat
  apr_next_stream_event_index :: nat
  apr_last_activity_at :: nat

datatype pending_continuation = CurrentHistory | DataRequests "session_request list"

datatype session_actor_internal_event = ProviderSupersedeGraceElapsed nat

datatype session_actor_step =
    Idle | ProcessedControl | ProcessedData | WaitingProviderRequest | WaitingToolBatch | ShutdownStep

datatype provider_call =
    CallSet provider_request
  | CallAppend "chat_message list"
  | CallStart string
  | CallAbort

datatype tool_call_op =
    OpStart tool_batch
  | OpInterrupt tool_batch_handle
  | OpFinish string

record session_actor =
  sa_model_config :: model_config
  sa_pending_data :: "session_request list"
  sa_tool_catalog :: tool_catalog
  sa_history :: "chat_message list"
  sa_all_messages :: "chat_message list"
  sa_provider_context :: "provider_request option"
  sa_provider_context_turn_id :: "string option"
  sa_initial :: "session_initial option"
  sa_active_provider_request :: "active_provider_request option"
  sa_active_tool_batch :: "active_tool_batch option"
  sa_runtime_metadata_state :: runtime_metadata_state
  sa_next_turn_id :: nat
  sa_next_batch_id :: nat
  sa_shutdown :: bool
  sa_state_store :: bool
  sa_compressor :: "session_compressor option"
  sa_token_estimator :: bool
  sa_pending_continuation :: "pending_continuation option"
  sa_current_plan :: "task_plan_view option"
  sa_last_provider_request_started_at :: "nat option"
  sa_last_agent_returned_at :: "nat option"
  sa_last_completed_turn_number :: nat
  sa_next_timer_id :: nat
  sa_active_timer_id :: "nat option"
  sa_io :: nat
  sa_emitted :: "session_event list"
  sa_provider_log :: "provider_call list"
  sa_tool_log :: "tool_call_op list"
  sa_timers :: "(nat \<times> nat) list"
  sa_disk :: session_dir

text \<open>
  The environment. The first group are services with effects, asked by number; the second
  group are pure functions of other modules and libraries. \<open>en_fresh_ids n i\<close> is the
  identifier of the \<open>i\<close>-th message built inside the call numbered \<open>n\<close>, and
  \<open>en_restore_times n i\<close> the time read for the \<open>i\<close>-th message of the restore numbered \<open>n\<close>.
\<close>

record actor_env =
  en_emit :: "nat \<Rightarrow> session_event \<Rightarrow> string option"
  en_now :: "nat \<Rightarrow> nat"
  en_time_millis :: "nat \<Rightarrow> nat"
  en_rfc3339 :: "nat \<Rightarrow> string"
  en_random :: "nat \<Rightarrow> 64 word"
  en_fresh_ids :: "nat \<Rightarrow> nat \<Rightarrow> string"
  en_restore_times :: "nat \<Rightarrow> nat \<Rightarrow> string"
  en_provider :: "nat \<Rightarrow> provider_call \<Rightarrow> provider_error option"
  en_tool_start :: "nat \<Rightarrow> tool_batch \<Rightarrow> tool_batch_error + tool_batch_handle"
  en_tool_op :: "nat \<Rightarrow> tool_call_op \<Rightarrow> tool_batch_error option"
  en_provider_prompt :: "nat \<Rightarrow> model_config \<Rightarrow> provider_error + string option"
  en_compact_history :: "nat \<Rightarrow> provider_request \<Rightarrow> provider_error + chat_message list option"
  en_send :: "nat \<Rightarrow> provider_request \<Rightarrow> nat \<Rightarrow> provider_error + chat_message"
  en_sleep :: "nat \<Rightarrow> nat \<Rightarrow> nat"
  en_bridge :: "(nat \<Rightarrow> conversation_bridge_request \<Rightarrow> string + conversation_bridge_response) option"
  en_workspace :: "nat \<Rightarrow> string + workspace_files"
  en_ssh :: "nat \<Rightarrow> ssh_files"
  en_try_provider_event :: "nat \<Rightarrow> provider_event option"
  en_queued_progress :: "nat \<Rightarrow> tool_batch_progress list"
  en_open_logger :: "nat \<Rightarrow> string option"
  en_open_store :: "nat \<Rightarrow> string option"
  en_store :: store_lib
  en_json :: json_lib
  en_hash :: "string \<Rightarrow> 64 word"
  en_compaction_mode :: provider_compaction_mode
  en_estimate :: "chat_message list \<Rightarrow> string + nat"
  en_estimate_normalized :: "chat_message list \<Rightarrow> string + token_estimate"
  en_build_estimator :: "model_config \<Rightarrow> string option"
  en_parse_result :: "string \<Rightarrow> string + compression_result"
  en_parse_memory :: "string \<Rightarrow> memory_search_tool_response option"
  en_build_catalog :: "model_config \<Rightarrow> session_initial \<Rightarrow> string + tool_catalog"
  en_system_prompt :: "session_initial \<Rightarrow> runtime_metadata_state \<Rightarrow> string option \<Rightarrow> string"
  en_normalize_model :: "chat_message list \<Rightarrow> model_config \<Rightarrow> chat_message list"
  en_normalize_provider :: "chat_message list \<Rightarrow> chat_message list"
  en_message_json :: "chat_message \<Rightarrow> json"
  en_request_json :: "session_request \<Rightarrow> json"
  en_initial_json :: "session_initial \<Rightarrow> json"

type_synonym 'a actor = "(session_actor, session_actor_error, 'a) act"

text \<open>\<open>disk\<close> is the session's directory as an earlier process left it.\<close>

definition session_actor_new :: "model_config \<Rightarrow> tool_catalog \<Rightarrow> session_dir \<Rightarrow> session_actor" where
  "session_actor_new mc catalog disk =
     \<lparr>sa_model_config = mc, sa_pending_data = [], sa_tool_catalog = filtered_for_model_config catalog mc,
      sa_history = [], sa_all_messages = [], sa_provider_context = None, sa_provider_context_turn_id = None,
      sa_initial = None, sa_active_provider_request = None, sa_active_tool_batch = None,
      sa_runtime_metadata_state = runtime_metadata_default, sa_next_turn_id = 1, sa_next_batch_id = 1,
      sa_shutdown = False, sa_state_store = False, sa_compressor = None, sa_token_estimator = False,
      sa_pending_continuation = None, sa_current_plan = None, sa_last_provider_request_started_at = None,
      sa_last_agent_returned_at = None, sa_last_completed_turn_number = 0, sa_next_timer_id = 1,
      sa_active_timer_id = None, sa_io = 0, sa_emitted = [], sa_provider_log = [], sa_tool_log = [],
      sa_timers = [], sa_disk = disk\<rparr>"

section \<open>Services\<close>

definition ask :: "(nat \<Rightarrow> 'a) \<Rightarrow> 'a actor" where
  "ask f = (\<lambda>s. (Inr (f (sa_io s)), s\<lparr>sa_io := Suc (sa_io s)\<rparr>))"

definition emit :: "actor_env \<Rightarrow> session_event \<Rightarrow> unit actor" where
  "emit env event =
     bnd (ask (\<lambda>n. en_emit env n event)) (\<lambda>r.
       case r of
         Some e \<Rightarrow> errM (Event e)
       | None \<Rightarrow> upd (\<lambda>s. s\<lparr>sa_emitted := sa_emitted s @ [event]\<rparr>))"

definition provider_do :: "actor_env \<Rightarrow> provider_call \<Rightarrow> unit actor" where
  "provider_do env call =
     bnd (ask (\<lambda>n. en_provider env n call)) (\<lambda>r.
       case r of
         Some e \<Rightarrow> errM (from_provider_error e)
       | None \<Rightarrow> upd (\<lambda>s. s\<lparr>sa_provider_log := sa_provider_log s @ [call]\<rparr>))"

definition tool_do :: "actor_env \<Rightarrow> tool_call_op \<Rightarrow> unit actor" where
  "tool_do env oper =
     bnd (ask (\<lambda>n. en_tool_op env n oper)) (\<lambda>r.
       case r of
         Some e \<Rightarrow> errM (Tool (tool_batch_error_text e))
       | None \<Rightarrow> upd (\<lambda>s. s\<lparr>sa_tool_log := sa_tool_log s @ [oper]\<rparr>))"

definition fresh_message_id :: "actor_env \<Rightarrow> string actor" where
  "fresh_message_id env =
     bnd (ask (en_random env)) (\<lambda>r1. bnd (ask (en_random env)) (\<lambda>r2. okM (new_message_id r1 r2)))"

definition with_disk :: "(session_dir, string, 'a) act \<Rightarrow> 'a actor" where
  "with_disk m = (\<lambda>s. case m (sa_disk s) of
     (r, d) \<Rightarrow> (case r of Inl e \<Rightarrow> Inl (Persistence e) | Inr x \<Rightarrow> Inr x, s\<lparr>sa_disk := d\<rparr>))"

definition with_history :: "'a comp \<Rightarrow> (compression_error + 'a) actor" where
  "with_history m = (\<lambda>s. case m (sa_history s) of (r, h) \<Rightarrow> (Inr r, s\<lparr>sa_history := h\<rparr>))"

definition compress_env_at :: "actor_env \<Rightarrow> model_config \<Rightarrow> nat \<Rightarrow> compress_env" where
  "compress_env_at env mc n =
     \<lparr>ce_estimate = en_estimate env, ce_compaction_mode = en_compaction_mode env,
      ce_compact_history = en_compact_history env n, ce_send = en_send env n, ce_sleep = en_sleep env n,
      ce_retry_mode = mc_retry_mode mc, ce_parse_result = en_parse_result env,
      ce_fresh_id = en_fresh_ids env n 0, ce_json = en_json env\<rparr>"

definition emit_turn_failed :: "actor_env \<Rightarrow> string \<Rightarrow> session_error_detail \<Rightarrow> bool \<Rightarrow> unit actor" where
  "emit_turn_failed env error err_detail can_continue = emit env (TurnFailed error err_detail can_continue)"

definition emit_compact_failed :: "actor_env \<Rightarrow> string \<Rightarrow> string \<Rightarrow> unit actor" where
  "emit_compact_failed env phase reason = emit env (CompactFailed phase reason)"

definition emit_compact_started :: "actor_env \<Rightarrow> string \<Rightarrow> unit actor" where
  "emit_compact_started env phase = emit env (CompactStarted phase)"

definition emit_compact_completed :: "actor_env \<Rightarrow> compression_report \<Rightarrow> unit actor" where
  "emit_compact_completed env rep =
     emit env (CompactCompleted (rep_compressed rep) (rep_estimated_tokens_before rep)
       (rep_estimated_tokens_after rep) (rep_threshold_tokens rep) (rep_retained_message_count rep)
       (rep_compressed_message_count rep))"

definition control_rejected :: "actor_env \<Rightarrow> string \<Rightarrow> json \<Rightarrow> unit actor" where
  "control_rejected env reason payload = emit env (ControlRejected reason payload)"

definition system_prompt_for_current_initial :: "actor_env \<Rightarrow> string option actor" where
  "system_prompt_for_current_initial env = gets (\<lambda>s.
     case sa_initial s of
       None \<Rightarrow> okM None
     | Some initial \<Rightarrow>
         bnd (ask (\<lambda>n. en_provider_prompt env n (sa_model_config s))) (\<lambda>r.
           case r of
             Inl e \<Rightarrow> errM (from_provider_error e)
           | Inr common \<Rightarrow> okM (Some (en_system_prompt env initial (sa_runtime_metadata_state s) common))))"

section \<open>Persistence\<close>

definition persist_state :: "actor_env \<Rightarrow> unit actor" where
  "persist_state env = gets (\<lambda>s.
     case sa_initial s of
       None \<Rightarrow> okM ()
     | Some initial \<Rightarrow>
         (if \<not> sa_state_store s then okM ()
          else with_disk (save (en_store env)
            \<lparr>ps_version = 1, ps_initial = initial, ps_all_messages = sa_all_messages s,
             ps_current_messages = sa_history s, ps_next_turn_id = sa_next_turn_id s,
             ps_next_batch_id = sa_next_batch_id s,
             ps_runtime_metadata_state = sa_runtime_metadata_state s\<rparr>)))"

definition persist_state_if_history_closed :: "actor_env \<Rightarrow> unit actor" where
  "persist_state_if_history_closed env = gets (\<lambda>s.
     if count_unclosed_tool_calls (sa_history s) > 0 then okM () else persist_state env)"

definition flush_all_messages_before_compression :: "actor_env \<Rightarrow> unit actor" where
  "flush_all_messages_before_compression env = gets (\<lambda>s.
     if \<not> sa_state_store s then okM ()
     else with_disk (save_all_messages_jsonl (en_store env) (sa_all_messages s)))"

section \<open>Timers\<close>

definition provider_supersede_grace :: nat where
  "provider_supersede_grace = 200"

definition has_pending_user_message :: "session_actor \<Rightarrow> bool" where
  "has_pending_user_message s \<longleftrightarrow>
     list_ex (\<lambda>r. case r of EnqueueUserMessage _ \<Rightarrow> True | _ \<Rightarrow> False) (sa_pending_data s)"

definition provider_supersede_grace_remaining :: "actor_env \<Rightarrow> nat option actor" where
  "provider_supersede_grace_remaining env = gets (\<lambda>s.
     if \<not> has_pending_user_message s then okM None
     else case sa_active_provider_request s of
       None \<Rightarrow> okM None
     | Some active \<Rightarrow>
         bnd (ask (en_now env)) (\<lambda>now.
           (let elapsed = now - apr_last_activity_at active
            in if elapsed \<ge> provider_supersede_grace then okM None
               else okM (Some (provider_supersede_grace - elapsed)))))"

definition schedule_provider_supersede_grace_event_if_needed :: "actor_env \<Rightarrow> unit actor" where
  "schedule_provider_supersede_grace_event_if_needed env = gets (\<lambda>s.
     if sa_active_timer_id s \<noteq> None then okM ()
     else bnd (provider_supersede_grace_remaining env) (\<lambda>remaining.
       case remaining of
         None \<Rightarrow> okM ()
       | Some delay \<Rightarrow>
           upd (\<lambda>s. s\<lparr>sa_active_timer_id := Some (sa_next_timer_id s),
                      sa_timers := sa_timers s @ [(sa_next_timer_id s, delay)],
                      sa_next_timer_id := saturating_add (sa_next_timer_id s) 1\<rparr>)))"

definition disarm_provider_supersede_grace_event :: "unit actor" where
  "disarm_provider_supersede_grace_event = upd (\<lambda>s. s\<lparr>sa_active_timer_id := None\<rparr>)"

definition mark_turn_returned :: "actor_env \<Rightarrow> nat \<Rightarrow> unit actor" where
  "mark_turn_returned env turn_number =
     bnd (ask (en_now env)) (\<lambda>now.
       upd (\<lambda>s. s\<lparr>sa_last_agent_returned_at := Some now,
                  sa_last_completed_turn_number := max (sa_last_completed_turn_number s) turn_number\<rparr>))"

section \<open>Cancelling\<close>

definition cancel_active_provider_request :: "actor_env \<Rightarrow> string \<Rightarrow> bool \<Rightarrow> unit actor" where
  "cancel_active_provider_request env reason emit_failure = gets (\<lambda>s.
     case sa_active_provider_request s of
       None \<Rightarrow> control_rejected env ''no active interruptible turn''
                (JObject [(''command'', JString ''cancel_turn'')])
     | Some active \<Rightarrow>
         andthen (upd (\<lambda>s. s\<lparr>sa_active_provider_request := None\<rparr>))
           (andthen disarm_provider_supersede_grace_event
              (andthen (provider_do env CallAbort)
                 (andthen (mark_turn_returned env (apr_turn_number active))
                    (andthen (emit env (StreamError (apr_message_id active) (apr_turn_id active)
                                (apr_next_stream_event_index active) (Some (apr_step_index active))
                                (Some ModelResponse) None None reason
                                (error_detail_new ''session_actor.provider'' ''cancelled'' reason)))
                       (when_act emit_failure
                          (emit_turn_failed env ''provider request cancelled''
                             (error_detail_new ''session_actor.provider'' ''cancelled'' ''provider request cancelled'')
                             False)))))))"

definition request_active_tool_interrupt :: "actor_env \<Rightarrow> tool_batch_interrupt \<Rightarrow> unit actor" where
  "request_active_tool_interrupt env interrupt = gets (\<lambda>s.
     case sa_active_tool_batch s of
       None \<Rightarrow> control_rejected env ''no active interruptible turn''
                (JObject [(''command'', JString ''cancel_turn'')])
     | Some active \<Rightarrow>
         (if atb_interrupt active \<noteq> None then okM ()
          else
            andthen (tool_do env (OpInterrupt (atb_handle active)))
              (andthen (upd (\<lambda>s. s\<lparr>sa_active_tool_batch := Some (active\<lparr>atb_interrupt := Some interrupt\<rparr>)\<rparr>))
                 (if interrupt = SupersededByUserMessage then okM ()
                  else gets (\<lambda>s.
                    emit env (Progress (''interrupt requested for tool batch '' @ tbh_batch_id (atb_handle active))
                                (sa_current_plan s)))))))"

definition handle_cancel_turn :: "actor_env \<Rightarrow> string option \<Rightarrow> unit actor" where
  "handle_cancel_turn env reason = gets (\<lambda>s.
     if sa_active_provider_request s \<noteq> None
     then cancel_active_provider_request env (unwrap_or ''user_cancelled'' reason) True
     else request_active_tool_interrupt env Cancel)"

definition wake_or_schedule_provider_supersede_if_needed :: "actor_env \<Rightarrow> unit actor" where
  "wake_or_schedule_provider_supersede_if_needed env = gets (\<lambda>s.
     if sa_active_provider_request s = None \<or> \<not> has_pending_user_message s then okM ()
     else bnd (provider_supersede_grace_remaining env) (\<lambda>remaining.
       if remaining = None then cancel_active_provider_request env ''superseded_by_user_message'' False
       else schedule_provider_supersede_grace_event_if_needed env))"

section \<open>Views\<close>

text \<open>
  The source's \<open>json!\<close> objects, with the fields in the order written; an optional string
  becomes \<open>null\<close> when absent. The queues \<open>pending_control\<close>, \<open>pending_provider_events\<close>,
  \<open>pending_tool_completions\<close> and \<open>pending_tool_progress\<close> of the source are never filled.
\<close>

definition jnat :: "nat \<Rightarrow> json" where
  "jnat n = JInt (int n)"

definition jopt :: "string option \<Rightarrow> json" where
  "jopt o' = (case o' of None \<Rightarrow> JNull | Some t \<Rightarrow> JString t)"

definition messages_for_view_payload :: "session_actor \<Rightarrow> json \<Rightarrow> string \<times> chat_message list option" where
  "messages_for_view_payload s payload =
     (let source = unwrap_or ''current'' (get_str ''source'' payload)
      in (source,
          if source = ''current'' then Some (sa_history s)
          else if source = ''all'' then Some (sa_all_messages s) else None))"

definition transcript_page_payload :: "actor_env \<Rightarrow> session_actor \<Rightarrow> json \<Rightarrow> json" where
  "transcript_page_payload env s payload =
     (case messages_for_view_payload s payload of
        (source, None) \<Rightarrow> invalid_source_payload source
      | (source, Some messages) \<Rightarrow>
          (let offset = usize_field payload ''offset'' 0;
               limit = min (usize_field payload ''limit'' 50) 200
           in JObject [(''type'', JString ''transcript_page''), (''source'', JString source),
                (''offset'', jnat offset), (''limit'', jnat limit), (''total'', jnat (length messages)),
                (''messages'', JArray (map (en_message_json env) (page offset limit messages)))]))"

definition message_detail_payload :: "actor_env \<Rightarrow> session_actor \<Rightarrow> json \<Rightarrow> json" where
  "message_detail_payload env s payload =
     (case messages_for_view_payload s payload of
        (source, None) \<Rightarrow> invalid_source_payload source
      | (source, Some messages) \<Rightarrow>
          (case get_u64 ''index'' payload of
             None \<Rightarrow> JObject [(''type'', JString ''message_detail''), (''source'', JString source),
                       (''error'', JString ''missing numeric message index''), (''total'', jnat (length messages))]
           | Some index \<Rightarrow>
               (if index \<ge> length messages
                then JObject [(''type'', JString ''message_detail''), (''source'', JString source),
                       (''index'', jnat index), (''error'', JString ''message index out of range''),
                       (''total'', jnat (length messages))]
                else JObject [(''type'', JString ''message_detail''), (''source'', JString source),
                       (''index'', jnat index), (''message'', en_message_json env (messages ! index))])))"

fun session_type_json :: "session_type \<Rightarrow> json" where
  "session_type_json Foreground = JString ''foreground''"
| "session_type_json Background = JString ''background''"
| "session_type_json Subagent = JString ''subagent''"

definition live_state_payload :: "session_actor \<Rightarrow> json" where
  "live_state_payload s =
     JObject
       [(''type'', JString ''live_state''), (''initialized'', JBool (sa_initial s \<noteq> None)),
        (''session_id'', jopt (map_option si_session_id (sa_initial s))),
        (''session_type'', case sa_initial s of None \<Rightarrow> JNull | Some i \<Rightarrow> session_type_json (si_session_type i)),
        (''shutdown'', JBool (sa_shutdown s)), (''history_len'', jnat (length (sa_history s))),
        (''all_messages_len'', jnat (length (sa_all_messages s))), (''pending_control_len'', jnat 0),
        (''pending_data_len'', jnat (length (sa_pending_data s))), (''pending_provider_event_len'', jnat 0),
        (''pending_tool_completion_len'', jnat 0), (''pending_tool_progress_len'', jnat 0),
        (''active_provider_request'',
           case sa_active_provider_request s of
             None \<Rightarrow> JNull
           | Some active \<Rightarrow> JObject [(''turn_id'', JString (apr_turn_id active)),
               (''request_id'', JString (apr_request_id active)), (''step_index'', jnat (apr_step_index active)),
               (''started_at_ms'', jnat (apr_started_at_ms active))]),
        (''active_tool_batch'',
           case sa_active_tool_batch s of
             None \<Rightarrow> JNull
           | Some active \<Rightarrow> JObject [(''turn_id'', JString (atb_turn_id active)),
               (''batch_id'', JString (tbh_batch_id (atb_handle active))), (''step_index'', jnat (atb_step_index active)),
               (''operation_summary'', JString (atb_operation_summary active)),
               (''started_at_ms'', jnat (atb_started_at_ms active))]),
        (''can_continue'', JBool (sa_pending_continuation s \<noteq> None))]"

definition session_view_payload :: "actor_env \<Rightarrow> session_actor \<Rightarrow> json \<Rightarrow> json" where
  "session_view_payload env s payload =
     (case get_str ''type'' payload of
        None \<Rightarrow> JObject [(''type'', JString ''error''), (''error'', JString ''missing session view query type''),
                  (''query'', payload)]
      | Some query_type \<Rightarrow>
          (if query_type = ''transcript_page'' then transcript_page_payload env s payload
           else if query_type = ''message_detail'' then message_detail_payload env s payload
           else if query_type = ''live_state'' then live_state_payload s
           else JObject [(''type'', JString query_type),
                  (''error'', JString (''unsupported session view query type '' @ query_type))]))"

definition handle_query_session_view :: "actor_env \<Rightarrow> string \<Rightarrow> json \<Rightarrow> unit actor" where
  "handle_query_session_view env query_id payload = gets (\<lambda>s.
     emit env (SessionViewResult query_id (session_view_payload env s payload)))"

definition message_history :: "string \<Rightarrow> nat \<Rightarrow> nat \<Rightarrow> chat_message list \<Rightarrow> session_message_history" where
  "message_history request_id offset limit all_messages =
     (let total_len = length all_messages;
          start = min offset total_len
      in \<lparr>smh_request_id = request_id, smh_offset = offset, smh_limit = limit, smh_total = total_len,
          smh_last_message =
            (if all_messages = [] then None
             else Some (session_message_record_of (total_len - 1) (last all_messages))),
          smh_messages =
            map (\<lambda>(relative_index, message). session_message_record_of (start + relative_index) message)
              (enumerate 0 (page offset (min limit 500) all_messages))\<rparr>)"

definition handle_query_message_history :: "actor_env \<Rightarrow> string \<Rightarrow> nat \<Rightarrow> nat \<Rightarrow> unit actor" where
  "handle_query_message_history env request_id offset limit = gets (\<lambda>s.
     emit env (MessageHistoryResult (message_history request_id offset limit (sa_all_messages s))))"

definition message_detail_record :: "string \<Rightarrow> chat_message list \<Rightarrow> session_message_record option" where
  "message_detail_record message_id all_messages =
     map_option (\<lambda>(index, message). session_message_record_of index message)
       (find (\<lambda>(index, message). cm_message_id message = message_id \<or> parse_usize message_id = Some index)
          (enumerate 0 all_messages))"

definition handle_query_message_detail :: "actor_env \<Rightarrow> string \<Rightarrow> string \<Rightarrow> unit actor" where
  "handle_query_message_detail env request_id message_id = gets (\<lambda>s.
     emit env (MessageDetailResult request_id (message_detail_record message_id (sa_all_messages s))))"

end
