(* ===== verification/Actor_History.thy ===== *)
theory Actor_History
  imports Session_Actor
begin

text \<open>
  The part of \<open>core/src/session_actor/actor.rs\<close> that changes the history: appending with
  compression, pruning and compacting after an oversized request, the notices of the
  runtime metadata, restoring a saved session, repairing unclosed tool calls, and the loop
  that hands the history to the provider session.
\<close>

section \<open>Memory looked up for a compression\<close>

definition search_memory_scope_for_compression ::
  "actor_env \<Rightarrow> (nat \<Rightarrow> conversation_bridge_request \<Rightarrow> string + conversation_bridge_response) \<Rightarrow>
     string \<Rightarrow> string \<Rightarrow> memory_search_tool_result list actor" where
  "search_memory_scope_for_compression env bridge scope query =
     (let request =
        \<lparr>brq_request_id = ''compression_memory_'' @ scope, brq_tool_call_id = ''compression_memory_'' @ scope,
         brq_tool_name = ''memory_search'', brq_action = ''memory_search'',
         brq_payload = JObject [(''query'', JString query), (''limit'', JInt 20),
                                (''scopes'', JArray [JString scope])]\<rparr>
      in bnd (ask (\<lambda>n. bridge n request)) (\<lambda>r.
           case r of
             Inl e \<Rightarrow> okM []
           | Inr response \<Rightarrow>
               (let rendered = tool_result_text (en_json env) (brs_result response)
                in if trim rendered = [] then okM []
                   else case en_parse_memory env rendered of
                     None \<Rightarrow> okM []
                   | Some search \<Rightarrow>
                       (if msr_status search \<noteq> Some ''success'' then okM [] else okM (msr_results search)))))"

definition compression_memory_context ::
  "actor_env \<Rightarrow> chat_message list \<Rightarrow> chat_message option \<Rightarrow> string option actor" where
  "compression_memory_context env messages next_message = gets (\<lambda>s.
     case sa_initial s of
       None \<Rightarrow> okM None
     | Some initial \<Rightarrow>
         (if \<not> si_memory_enabled initial then okM None
          else case en_bridge env of
            None \<Rightarrow> okM None
          | Some bridge \<Rightarrow>
              (let query = build_compression_memory_query (en_json env) messages next_message (sa_current_plan s)
               in if trim query = [] then okM None
                  else
                    bnd (search_memory_scope_for_compression env bridge ''conversation'' query) (\<lambda>conv_results.
                    bnd (search_memory_scope_for_compression env bridge ''public'' query) (\<lambda>public_results.
                      okM (render_compression_memory_context (conv_results @ public_results)
                             (compression_memory_budget_tokens (sa_model_config s))))))))"

definition would_compress :: "actor_env \<Rightarrow> session_compressor \<Rightarrow> chat_message \<Rightarrow> session_actor \<Rightarrow> bool" where
  "would_compress env compressor message s =
     (case would_compress_with_next (compress_env_at env (sa_model_config s) (sa_io s)) compressor
             (sa_history s) message of
        Inl _ \<Rightarrow> False
      | Inr b \<Rightarrow> b)"

definition compression_memory_context_for_append ::
  "actor_env \<Rightarrow> session_compressor \<Rightarrow> chat_message \<Rightarrow> string option actor" where
  "compression_memory_context_for_append env compressor next_message = gets (\<lambda>s.
     if \<not> would_compress env compressor next_message s then okM None
     else compression_memory_context env (sa_history s) (Some next_message))"

text \<open>A call of the compressor on the actor's history, with the tools of the catalogue.\<close>

definition call_compressor ::
  "actor_env \<Rightarrow> (compress_env \<Rightarrow> tool_definition list \<Rightarrow> 'a comp) \<Rightarrow> (compression_error + 'a) actor" where
  "call_compressor env f = gets (\<lambda>s.
     bnd (ask (\<lambda>n. n)) (\<lambda>n.
       with_history (f (compress_env_at env (sa_model_config s) n) (catalog_iter (sa_tool_catalog s)))))"

definition after_compression :: "unit actor" where
  "after_compression = upd (\<lambda>s.
     s\<lparr>sa_runtime_metadata_state :=
          promote_notified_components_to_system_snapshot (sa_runtime_metadata_state s),
        sa_history := clear_context_model_token_usage (sa_history s)\<rparr>)"

section \<open>Requests that are too large\<close>

text \<open>
  The warning to the user is a Chinese text, written here with the code point of each character in
  brackets: the provider rejected the request as too large, \<open>n\<close> earlier messages were dropped, which is a
  loss of data to be treated as a bug.
\<close>

definition pruned_warning :: "nat \<Rightarrow> string" where
  "pruned_warning n =
     ''[8b66][544a][ff1a][4e0a][6e38][62d2][7edd][4e86][672c][8f6e][8bf7][6c42][ff0c][539f]''
      @ ''[56e0][662f][8bf7][6c42][4f53][8fc7][5927][3002][7cfb][7edf][5df2][4ece][5f53][524d]''
      @ ''[4e0a][4e0b][6587][4e2d][4e22][5f03][8f83][65e9][7684] ''
      @ show_nat n
      @ '' [6761][6d88][606f][5e76][81ea][52a8][91cd][8bd5][ff1b][8fd9][4ee3][8868][53d1]''
      @ ''[751f][4e86][4e0a][4e0b][6587][6570][636e][4e22][5931][ff0c][5e94][6309] bug [5904]''
      @ ''[7406][5e76][6392][67e5][3002]''"

definition prune_history_after_request_too_large :: "actor_env \<Rightarrow> bool actor" where
  "prune_history_after_request_too_large env = gets (\<lambda>s.
     case request_too_large_prune_start (sa_history s) of
       None \<Rightarrow> okM False
     | Some prune_start \<Rightarrow>
         andthen (upd (\<lambda>s. s\<lparr>sa_history := drop prune_start (sa_history s)\<rparr>))
           (gets (\<lambda>s.
              andthen (emit env (Progress (pruned_warning prune_start) (sa_current_plan s)))
                (andthen (persist_state_if_history_closed env) (okM True)))))"

definition compact_history_after_request_too_large :: "actor_env \<Rightarrow> string \<Rightarrow> bool actor" where
  "compact_history_after_request_too_large env phase = gets (\<lambda>s.
     if count_unclosed_tool_calls (sa_history s) > 0 then okM False
     else case sa_compressor s of
       None \<Rightarrow> okM False
     | Some compressor \<Rightarrow>
         andthen (emit_compact_started env phase)
           (bnd (system_prompt_for_current_initial env) (\<lambda>system_prompt.
            bnd (gets (\<lambda>s. compression_memory_context env (sa_history s) None)) (\<lambda>compression_context.
            bnd (call_compressor env (\<lambda>ce tools.
                   compact_now_with_tools ce compressor system_prompt compression_context tools)) (\<lambda>r.
              case r of
                Inr rep \<Rightarrow>
                  andthen (when_act (rep_compressed rep)
                             (andthen after_compression (persist_state_if_history_closed env)))
                    (andthen (emit_compact_completed env rep) (okM (rep_compressed rep)))
              | Inl error \<Rightarrow>
                  andthen (emit_compact_failed env ''request_too_large_compaction''
                             (''context compression before provider retry failed: '' @ compression_error_text error))
                    (okM False))))))"

section \<open>Appending to the history\<close>

definition request_too_large_prune_max_attempts :: nat where
  "request_too_large_prune_max_attempts = 8"

definition compression_failed :: "actor_env \<Rightarrow> string \<Rightarrow> bool \<Rightarrow> compression_error \<Rightarrow> 'a actor" where
  "compression_failed env phase announced error =
     andthen (when_act announced (emit_compact_failed env phase (compression_error_text error)))
       (errM (Compression (compression_error_text error)))"

text \<open>\<open>n\<close> is the number of prune attempts that are left.\<close>

primrec append_compression_loop ::
  "actor_env \<Rightarrow> string \<Rightarrow> session_compressor \<Rightarrow> chat_message \<Rightarrow> string option \<Rightarrow> bool \<Rightarrow> nat \<Rightarrow>
     compression_report actor" where
  "append_compression_loop env phase compressor message system_prompt announced 0 =
     bnd (compression_memory_context_for_append env compressor message) (\<lambda>compression_context.
     bnd (call_compressor env (\<lambda>ce tools.
            append_with_compression_with_tools ce compressor message system_prompt compression_context tools)) (\<lambda>r.
       case r of
         Inr rep \<Rightarrow> okM rep
       | Inl error \<Rightarrow> compression_failed env phase announced error))"
| "append_compression_loop env phase compressor message system_prompt announced (Suc n) =
     bnd (compression_memory_context_for_append env compressor message) (\<lambda>compression_context.
     bnd (call_compressor env (\<lambda>ce tools.
            append_with_compression_with_tools ce compressor message system_prompt compression_context tools)) (\<lambda>r.
       case r of
         Inr rep \<Rightarrow> okM rep
       | Inl error \<Rightarrow>
           (if compression_error_is_request_too_large error
            then bnd (prune_history_after_request_too_large env) (\<lambda>pruned.
                   if pruned then append_compression_loop env phase compressor message system_prompt announced n
                   else compression_failed env phase announced error)
            else compression_failed env phase announced error)))"

definition push_history :: "actor_env \<Rightarrow> chat_message \<Rightarrow> unit actor" where
  "push_history env message =
     andthen (upd (\<lambda>s. s\<lparr>sa_history := sa_history s @ [message]\<rparr>)) (persist_state_if_history_closed env)"

definition append_with_compressor :: "actor_env \<Rightarrow> string \<Rightarrow> session_compressor \<Rightarrow> chat_message \<Rightarrow> unit actor" where
  "append_with_compressor env phase compressor message =
     bnd (system_prompt_for_current_initial env) (\<lambda>system_prompt. gets (\<lambda>s.
       (let announced = would_compress env compressor message s
        in andthen (when_act announced (flush_all_messages_before_compression env))
             (andthen (when_act announced (emit_compact_started env phase))
                (bnd (append_compression_loop env phase compressor message system_prompt announced
                        request_too_large_prune_max_attempts) (\<lambda>rep.
                   andthen (when_act (rep_compressed rep) after_compression)
                     (andthen (when_act announced (emit_compact_completed env rep))
                        (persist_state_if_history_closed env))))))))"

definition ensure_indexed_id :: "actor_env \<Rightarrow> nat \<Rightarrow> chat_message \<Rightarrow> chat_message actor" where
  "ensure_indexed_id env index message =
     (if message_id_has_all_messages_index (cm_message_id message) then okM message
      else bnd (ask (en_random env)) (\<lambda>random.
             okM (message\<lparr>cm_message_id := message_id_for_all_messages_index index random\<rparr>)))"

definition store_message :: "actor_env \<Rightarrow> string \<Rightarrow> chat_message \<Rightarrow> unit actor" where
  "store_message env phase message = gets (\<lambda>s.
     case sa_compressor s of
       None \<Rightarrow> push_history env message
     | Some compressor \<Rightarrow>
         (if append_message_should_defer_compression phase message then push_history env message
          else append_with_compressor env phase compressor message))"

text \<open>The transcript gets the message first, whatever happens to the history.\<close>

definition append_history_message :: "actor_env \<Rightarrow> string \<Rightarrow> chat_message \<Rightarrow> nat actor" where
  "append_history_message env phase message = gets (\<lambda>s.
     bnd (ensure_indexed_id env (length (sa_all_messages s)) message) (\<lambda>message.
       andthen (upd (\<lambda>s. s\<lparr>sa_all_messages := sa_all_messages s @ [message]\<rparr>))
         (andthen (store_message env phase message) (okM (length (sa_all_messages s))))))"

section \<open>Notices and restored state\<close>

text \<open>
  The question about the workspace stands for \<open>workspace_root\<close>, \<open>data_root\<close> and the files
  below them; the prompt about remote aliases reads the SSH configuration.
\<close>

definition aliases_prompt :: "actor_env \<Rightarrow> session_initial option \<Rightarrow> string actor" where
  "aliases_prompt env initial =
     (case initial of
        None \<Rightarrow> okM []
      | Some i \<Rightarrow> ask (\<lambda>n. remote_aliases_prompt_for_mode (en_ssh env n) (si_tool_remote_mode i)))"

definition workspace_prompt :: "session_initial option \<Rightarrow> string" where
  "workspace_prompt initial = unwrap_or [] (Option.bind initial si_remote_workspace_instructions)"

definition read_workspace :: "actor_env \<Rightarrow> workspace_files actor" where
  "read_workspace env =
     bnd (ask (en_workspace env)) (\<lambda>r.
       case r of Inl e \<Rightarrow> errM (RuntimeMetadata_error e) | Inr files \<Rightarrow> okM files)"

definition initialize_runtime_metadata :: "actor_env \<Rightarrow> session_initial \<Rightarrow> unit actor" where
  "initialize_runtime_metadata env initial =
     bnd (read_workspace env) (\<lambda>files.
     bnd (aliases_prompt env (Some initial)) (\<lambda>aliases. gets (\<lambda>s.
       case initialize_from_workspace (en_json env) (en_hash env) files aliases (workspace_prompt (Some initial))
              (si_memory_enabled initial) (sa_runtime_metadata_state s) of
         Inl e \<Rightarrow> errM (of_load_error e)
       | Inr st \<Rightarrow> upd (\<lambda>s. s\<lparr>sa_runtime_metadata_state := st\<rparr>))))"

definition observe_runtime_metadata :: "actor_env \<Rightarrow> string list actor" where
  "observe_runtime_metadata env = gets (\<lambda>s.
     bnd (read_workspace env) (\<lambda>files.
     bnd (aliases_prompt env (sa_initial s)) (\<lambda>aliases.
       case observe_for_user_turn_from_workspace (en_json env) (en_hash env) files aliases
              (workspace_prompt (sa_initial s))
              (case sa_initial s of None \<Rightarrow> False | Some i \<Rightarrow> si_memory_enabled i)
              (sa_runtime_metadata_state s) of
         Inl e \<Rightarrow> errM (of_load_error e)
       | Inr (notices, st) \<Rightarrow>
           andthen (upd (\<lambda>s. s\<lparr>sa_runtime_metadata_state := st\<rparr>)) (okM notices))))"

definition append_runtime_notice :: "actor_env \<Rightarrow> string \<Rightarrow> unit actor" where
  "append_runtime_notice env notice =
     bnd (fresh_message_id env) (\<lambda>i.
     bnd (append_history_message env ''runtime_synthetic''
            (chat_message_new i User [Context \<lparr>ci_text = notice\<rparr>])) (\<lambda>_. okM ()))"

definition append_runtime_synthetic_messages :: "actor_env \<Rightarrow> chat_message \<Rightarrow> unit actor" where
  "append_runtime_synthetic_messages env input_message =
     bnd (observe_runtime_metadata env) (\<lambda>notices.
       andthen (for_each (append_runtime_notice env) notices)
         (case render_incoming_user_metadata_notice input_message of
            None \<Rightarrow> okM ()
          | Some notice \<Rightarrow> append_runtime_notice env notice))"

definition mark_loaded_skills_from_message :: "actor_env \<Rightarrow> chat_message \<Rightarrow> nat \<Rightarrow> unit actor" where
  "mark_loaded_skills_from_message env message turn_number =
     (let skill_names = loaded_skill_names_from_message (en_json env) message
      in if skill_names = [] then okM ()
         else upd (\<lambda>s. s\<lparr>sa_runtime_metadata_state :=
                            mark_loaded_skills skill_names turn_number (sa_runtime_metadata_state s)\<rparr>))"

definition restore_persisted_state ::
  "actor_env \<Rightarrow> session_actor_persisted_state \<Rightarrow> session_initial \<Rightarrow> unit actor" where
  "restore_persisted_state env saved incoming_initial =
     bnd (ask (en_restore_times env)) (\<lambda>history_times.
     bnd (ask (en_restore_times env)) (\<lambda>all_times.
       andthen (upd (\<lambda>s. s\<lparr>sa_history := stamp_missing_assistant_message_times history_times (ps_current_messages saved),
                           sa_all_messages := stamp_missing_assistant_message_times all_times (ps_all_messages saved),
                           sa_next_turn_id := max (ps_next_turn_id saved) 1,
                           sa_next_batch_id := max (ps_next_batch_id saved) 1,
                           sa_runtime_metadata_state := ps_runtime_metadata_state saved\<rparr>))
         (gets (\<lambda>s.
            if rm_prompt_components (sa_runtime_metadata_state s) = []
            then initialize_runtime_metadata env incoming_initial
            else upd (\<lambda>s. s\<lparr>sa_runtime_metadata_state :=
                   initialize_missing_component (en_hash env) remote_workspace_component
                     (workspace_prompt (Some incoming_initial)) (sa_runtime_metadata_state s)\<rparr>)))))"

section \<open>Tool batches\<close>

definition allocate_turn_id :: "string actor" where
  "allocate_turn_id = gets (\<lambda>s.
     andthen (upd (\<lambda>s. s\<lparr>sa_next_turn_id := saturating_add (sa_next_turn_id s) 1\<rparr>))
       (okM (''turn_'' @ show_nat (sa_next_turn_id s))))"

definition allocate_batch_id :: "string \<Rightarrow> string actor" where
  "allocate_batch_id turn_id = gets (\<lambda>s.
     andthen (upd (\<lambda>s. s\<lparr>sa_next_batch_id := saturating_add (sa_next_batch_id s) 1\<rparr>))
       (okM (turn_id @ ''_batch_'' @ show_nat (sa_next_batch_id s))))"

definition provider_enabled_tool_names :: "tool_catalog \<Rightarrow> string set" where
  "provider_enabled_tool_names catalog = td_name ` set (catalog_iter catalog)"

definition schedule_tool_call :: "tool_catalog \<Rightarrow> tool_call_item \<Rightarrow> tool_batch_operation" where
  "schedule_tool_call catalog tool_call =
     (let name = tc_tool_name tool_call
      in if name \<notin> provider_enabled_tool_names catalog
         then operation_from_item (UnsupportedTool tool_call (name @ '' is disabled for this provider''))
         else case catalog_get name catalog of
           Some definition' \<Rightarrow>
             \<lparr>op_item =
                (if should_execute_registered name catalog then RegisteredTool tool_call
                 else UnsupportedTool tool_call
                        (name @ '' is not executable through the local tool batch executor'')),
              op_concurrency = td_concurrency definition'\<rparr>
         | None \<Rightarrow> operation_from_item (UnsupportedTool tool_call (name @ '' is not registered in this session'')))"

definition build_tool_batch :: "string \<Rightarrow> tool_call_item list \<Rightarrow> tool_batch actor" where
  "build_tool_batch turn_id tool_calls =
     bnd (allocate_batch_id turn_id) (\<lambda>batch_id. gets (\<lambda>s.
       (let operations = map (schedule_tool_call (sa_tool_catalog s)) tool_calls
        in if operations = [] then errM (Tool ''tool calls produced an empty tool batch'')
           else okM \<lparr>tb_batch_id = batch_id, tb_operations = operations\<rparr>)))"

section \<open>Provider requests\<close>

definition stamp_now :: "actor_env \<Rightarrow> chat_message \<Rightarrow> chat_message actor" where
  "stamp_now env message =
     bnd (ask (en_rfc3339 env)) (\<lambda>now. okM (stamp_assistant_message_time now message))"

text \<open>Append a message of the turn and announce it with the index it got.\<close>

definition append_and_announce :: "actor_env \<Rightarrow> string \<Rightarrow> chat_message \<Rightarrow> nat actor" where
  "append_and_announce env phase message =
     bnd (append_history_message env phase message) (\<lambda>index.
       andthen (emit env (message_appended index message)) (okM index))"

definition repair_reason :: string where
  "repair_reason =
     ''previous tool call did not receive a tool result before the session continued; ''
     @ ''closing it locally so the provider can accept the next request''"

definition repair_unclosed_tool_calls_before_provider_request ::
  "actor_env \<Rightarrow> string \<Rightarrow> nat \<Rightarrow> unit actor" where
  "repair_unclosed_tool_calls_before_provider_request env turn_id step_index = gets (\<lambda>s.
     (let unclosed_tool_calls = collect_unclosed_tool_calls (sa_history s)
      in if unclosed_tool_calls = [] then okM ()
         else
           bnd (fresh_message_id env) (\<lambda>i.
           bnd (stamp_now env (with_turn_metadata turn_id step_index Repair
                  (chat_message_new i Assistant
                     (map (\<lambda>tool_call. ToolResult (tool_error_result_for_tool_call tool_call repair_reason))
                        unclosed_tool_calls)))) (\<lambda>tool_message.
           bnd (append_and_announce env ''tool_result_repair'' tool_message) (\<lambda>_. okM ())))))"

definition provider_request_token_estimate ::
  "actor_env \<Rightarrow> session_actor \<Rightarrow> chat_message list \<Rightarrow> session_actor_error + token_estimate option" where
  "provider_request_token_estimate env s messages =
     (if mc_token_max_context (sa_model_config s) = 0 then Inr None
      else if \<not> sa_token_estimator s then Inr None
      else case cached_context_token_estimate (en_estimate_normalized env) messages
                  (mc_provider_type (sa_model_config s)) (mc_model_name (sa_model_config s)) of
        Inl e \<Rightarrow> Inl e
      | Inr (Some cached_estimate) \<Rightarrow> Inr (Some cached_estimate)
      | Inr None \<Rightarrow>
          (case en_estimate_normalized env messages of
             Inl e \<Rightarrow> Inl (Compression e)
           | Inr estimate \<Rightarrow> Inr (Some estimate)))"

definition set_provider_context :: "string \<Rightarrow> provider_request \<Rightarrow> unit actor" where
  "set_provider_context turn_id request =
     upd (\<lambda>s. s\<lparr>sa_provider_context := Some request, sa_provider_context_turn_id := Some turn_id\<rparr>)"

text \<open>\<open>incremental_suffix\<close>: what has to be appended to the context the provider already has.\<close>

definition incremental_suffix :: "session_actor \<Rightarrow> string \<Rightarrow> provider_request \<Rightarrow> chat_message list option" where
  "incremental_suffix s turn_id request =
     (if sa_provider_context_turn_id s = Some turn_id then
        (case sa_provider_context s of
           None \<Rightarrow> None
         | Some existing \<Rightarrow>
             (if provider_request_envelope_matches existing request \<and>
                 take (length (prq_messages existing)) (prq_messages request) = prq_messages existing
              then Some (drop (length (prq_messages existing)) (prq_messages request)) else None))
      else None)"

definition sync_provider_context :: "actor_env \<Rightarrow> string \<Rightarrow> provider_request \<Rightarrow> unit actor" where
  "sync_provider_context env turn_id request = gets (\<lambda>s.
     case incremental_suffix s turn_id request of
       Some appended \<Rightarrow>
         andthen (when_act (appended \<noteq> []) (provider_do env (CallAppend appended)))
           (set_provider_context turn_id request)
     | None \<Rightarrow>
         (let request = request\<lparr>prq_reset_incremental_context := True\<rparr>
          in andthen (provider_do env (CallSet request)) (set_provider_context turn_id request)))"

definition current_provider_history :: "actor_env \<Rightarrow> session_actor \<Rightarrow> chat_message list" where
  "current_provider_history env s =
     en_normalize_provider env (en_normalize_model env (sa_history s) (sa_model_config s))"

definition oversized_estimate :: "session_actor \<Rightarrow> token_estimate option \<Rightarrow> nat option" where
  "oversized_estimate s estimate =
     map_option te_total_tokens
       (filter_option (\<lambda>e. te_total_tokens e \<ge> mc_token_max_context (sa_model_config s)) estimate)"

definition oversized_reason :: "nat \<Rightarrow> nat \<Rightarrow> string" where
  "oversized_reason estimated_tokens max_context =
     ''estimated provider request tokens '' @ show_nat estimated_tokens @ '' exceed model context ''
     @ show_nat max_context"

definition provider_request_id :: "string \<Rightarrow> nat \<Rightarrow> nat \<Rightarrow> string" where
  "provider_request_id turn_id step_index attempts =
     turn_id @ ''_provider_'' @ show_nat step_index @ ''_'' @ show_nat attempts"

definition active_request ::
  "string \<Rightarrow> string \<Rightarrow> string \<Rightarrow> nat \<Rightarrow> nat \<Rightarrow> nat \<Rightarrow> nat \<Rightarrow> nat \<Rightarrow> active_provider_request" where
  "active_request request_id message_id turn_id turn_number step_index attempts millis now =
     \<lparr>apr_request_id = request_id, apr_message_id = message_id, apr_turn_id = turn_id,
      apr_turn_number = turn_number, apr_step_index = step_index, apr_request_too_large_attempts = attempts,
      apr_started_at_ms = millis, apr_next_stream_event_index = 0, apr_last_activity_at = now\<rparr>"

definition provider_request_for :: "string \<Rightarrow> chat_message list \<Rightarrow> tool_catalog \<Rightarrow> provider_request" where
  "provider_request_for system_prompt provider_history catalog =
     \<lparr>prq_system_prompt = Some system_prompt, prq_messages = provider_history,
      prq_tools = catalog_iter catalog, prq_image_edit_mask = None,
      prq_image_size = None, prq_reset_incremental_context = False\<rparr>"

text \<open>The end of the loop: the request fits and is handed to the provider session.\<close>

definition send_provider_request ::
  "actor_env \<Rightarrow> string \<Rightarrow> nat \<Rightarrow> nat \<Rightarrow> nat \<Rightarrow> string \<Rightarrow> chat_message list \<Rightarrow> unit actor" where
  "send_provider_request env turn_id turn_number step_index attempts system_prompt provider_history =
     (let request_id = provider_request_id turn_id step_index attempts
      in bnd (ask (en_random env)) (\<lambda>random. gets (\<lambda>s.
         (let message_id = message_id_for_all_messages_index (length (sa_all_messages s)) random
          in andthen (sync_provider_context env turn_id
                        (provider_request_for system_prompt provider_history (sa_tool_catalog s)))
               (andthen (provider_do env (CallStart request_id))
                  (bnd (ask (en_now env)) (\<lambda>now.
                   bnd (ask (en_time_millis env)) (\<lambda>millis.
                     andthen (upd (\<lambda>s. s\<lparr>sa_last_provider_request_started_at := Some now,
                                sa_active_provider_request := Some
                                  (active_request request_id message_id turn_id turn_number step_index attempts
                                     millis now)\<rparr>))
                       (schedule_provider_supersede_grace_event_if_needed env)))))))))"

function provider_request_loop ::
  "actor_env \<Rightarrow> string \<Rightarrow> nat \<Rightarrow> nat \<Rightarrow> nat \<Rightarrow> unit actor" where
  "provider_request_loop env turn_id turn_number step_index attempts =
     andthen (repair_unclosed_tool_calls_before_provider_request env turn_id step_index)
       (bnd (system_prompt_for_current_initial env) (\<lambda>prompt.
          case prompt of
            None \<Rightarrow> errM MissingInitial
          | Some system_prompt \<Rightarrow> gets (\<lambda>s.
              bnd (from_result (provider_request_token_estimate env s (current_provider_history env s))) (\<lambda>estimate.
                case oversized_estimate s estimate of
                  None \<Rightarrow> send_provider_request env turn_id turn_number step_index attempts system_prompt
                            (current_provider_history env s)
                | Some estimated_tokens \<Rightarrow>
                    (if attempts \<ge> request_too_large_prune_max_attempts
                     then errM (provider_preflight
                            (oversized_reason estimated_tokens (mc_token_max_context (sa_model_config s))
                             @ '' after '' @ show_nat request_too_large_prune_max_attempts @ '' prune attempts''))
                     else
                       bnd (if attempts = 0
                            then compact_history_after_request_too_large env ''provider_request_preflight''
                            else okM False) (\<lambda>compacted.
                         if compacted then provider_request_loop env turn_id turn_number step_index (attempts + 1)
                         else bnd (prune_history_after_request_too_large env) (\<lambda>pruned.
                           if pruned then provider_request_loop env turn_id turn_number step_index (attempts + 1)
                           else errM (provider_preflight
                                  (oversized_reason estimated_tokens (mc_token_max_context (sa_model_config s)))))))))))"
  by pat_completeness auto
termination
  by (relation "measure (\<lambda>(env, turn_id, turn_number, step_index, attempts).
        request_too_large_prune_max_attempts - attempts)") auto

declare provider_request_loop.simps [simp del]

definition start_provider_request :: "actor_env \<Rightarrow> string \<Rightarrow> nat \<Rightarrow> nat \<Rightarrow> nat \<Rightarrow> unit actor" where
  "start_provider_request env turn_id turn_number step_index attempts = gets (\<lambda>s.
     if sa_active_provider_request s \<noteq> None
     then errM (from_provider_error (Subprocess ''provider request is already running''))
     else provider_request_loop env turn_id turn_number step_index attempts)"

end
