(* ===== verification/Actor_Turns.thy ===== *)
theory Actor_Turns
  imports Actor_History
begin

text \<open>
  The event handlers of \<open>core/src/session_actor/actor.rs\<close>: provider events, tool events,
  data requests, control requests and timers, the step \<open>recv_step\<close> that takes one of them
  from the channels, and the loop of \<open>agent_server/src/main.rs\<close> that repeats it.
\<close>

section \<open>Provider events\<close>

definition clear_current_plan :: "actor_env \<Rightarrow> unit actor" where
  "clear_current_plan env =
     andthen (upd (\<lambda>s. s\<lparr>sa_history := filter (\<lambda>m. \<not> is_task_plan_context_message m) (sa_history s)\<rparr>))
       (gets (\<lambda>s.
          andthen (upd (\<lambda>s. s\<lparr>sa_current_plan := None\<rparr>))
            (andthen (when_act (sa_current_plan s \<noteq> None) (emit env (PlanUpdated None)))
               (persist_state_if_history_closed env))))"

definition start_tool_batch :: "actor_env \<Rightarrow> tool_batch \<Rightarrow> (tool_batch_error + tool_batch_handle) actor" where
  "start_tool_batch env batch =
     bnd (ask (\<lambda>n. en_tool_start env n batch)) (\<lambda>r.
       case r of
         Inl e \<Rightarrow> okM (Inl e)
       | Inr handle \<Rightarrow>
           andthen (upd (\<lambda>s. s\<lparr>sa_tool_log := sa_tool_log s @ [OpStart batch]\<rparr>)) (okM (Inr handle)))"

definition finish_turn :: "actor_env \<Rightarrow> active_provider_request \<Rightarrow> nat \<Rightarrow> chat_message \<Rightarrow> unit actor" where
  "finish_turn env active index model_message =
     andthen (emit env (TurnCompleted (apr_turn_id active) (Some (cm_message_id model_message)) (Some index)
                          model_message))
       (andthen (mark_turn_returned env (apr_turn_number active))
          (bnd (attempt (clear_current_plan env)) (\<lambda>_. okM ())))"

definition run_tool_calls :: "actor_env \<Rightarrow> active_provider_request \<Rightarrow> tool_call_item list \<Rightarrow> unit actor" where
  "run_tool_calls env active tool_calls =
     bnd (build_tool_batch (apr_turn_id active) tool_calls) (\<lambda>batch.
       (let batch_progress = progress_summary (en_json env) batch
        in andthen (gets (\<lambda>s. emit env (Progress (''running tool batch '' @ tb_batch_id batch @ '': '' @ batch_progress)
                                 (sa_current_plan s))))
             (bnd (start_tool_batch env batch) (\<lambda>started.
                case started of
                  Inl error \<Rightarrow>
                    bnd (fresh_message_id env) (\<lambda>i.
                    bnd (stamp_now env (with_turn_metadata (apr_turn_id active) (apr_step_index active) ToolResult_part
                           (tool_error_message_for_operations i (tb_operations batch)
                              (''tool batch failed to start: '' @ tool_batch_error_text error)))) (\<lambda>tool_message.
                    bnd (append_and_announce env ''tool_result'' tool_message) (\<lambda>_.
                      start_provider_request env (apr_turn_id active) (apr_turn_number active)
                        (saturating_add (apr_step_index active) 1) 0)))
                | Inr handle \<Rightarrow>
                    bnd (ask (en_time_millis env)) (\<lambda>millis.
                      upd (\<lambda>s. s\<lparr>sa_active_tool_batch := Some
                             \<lparr>atb_turn_id = apr_turn_id active, atb_turn_number = apr_turn_number active,
                              atb_step_index = apr_step_index active, atb_handle = handle,
                              atb_operations = tb_operations batch, atb_operation_summary = batch_progress,
                              atb_started_at_ms = millis, atb_interrupt = None\<rparr>\<rparr>))))))"

definition process_provider_message ::
  "actor_env \<Rightarrow> active_provider_request \<Rightarrow> chat_message \<Rightarrow> unit actor" where
  "process_provider_message env active model_message =
     bnd (stamp_now env (model_message\<lparr>cm_message_id := apr_message_id active\<rparr>)) (\<lambda>stamped.
       (let tool_calls = collect_tool_calls stamped;
            model_message = with_turn_metadata (apr_turn_id active) (apr_step_index active)
              (if tool_calls = [] then FinalResponse else ModelResponse) stamped
        in bnd (append_and_announce env ''model_response'' model_message) (\<lambda>index.
             if tool_calls = [] then finish_turn env active index model_message
             else run_tool_calls env active tool_calls)))"

definition emit_provider_stream_event ::
  "actor_env \<Rightarrow> string \<Rightarrow> string \<Rightarrow> nat \<Rightarrow> nat \<Rightarrow> provider_stream_event \<Rightarrow> unit actor" where
  "emit_provider_stream_event env message_id turn_id step_index in_message_index event = gets (\<lambda>s.
     (let model_message_index = length (sa_history s)
      in case event of
           KeepAlive \<Rightarrow> okM ()
         | RawJson _ \<Rightarrow> okM ()
         | OutputTextDelta item_id delta \<Rightarrow>
             emit env (StreamAssistantMessageDelta message_id turn_id in_message_index (Some step_index)
               (Some ModelResponse) item_id delta (Some model_message_index))
         | ToolCallInputDelta item_id call_id tool_name delta \<Rightarrow>
             emit env (StreamToolCallDelta message_id turn_id in_message_index (Some step_index)
               (Some ModelResponse) item_id call_id tool_name delta)
         | ReasoningSummaryDelta item_id delta summary_index \<Rightarrow>
             emit env (StreamReasoningSummaryDelta message_id turn_id in_message_index (Some step_index)
               (Some ModelResponse) item_id summary_index delta)
         | ReasoningSummaryPartAdded item_id summary_index \<Rightarrow>
             emit env (StreamReasoningSummaryPartAdded message_id turn_id in_message_index (Some step_index)
               (Some ModelResponse) item_id summary_index)))"

definition finish_turn_error ::
  "actor_env \<Rightarrow> session_actor_error \<Rightarrow> pending_continuation option \<Rightarrow> unit actor" where
  "finish_turn_error env error continuation =
     (let can_continue = continuation \<noteq> None \<and> is_recoverable_turn_error error
      in andthen (when_act can_continue (upd (\<lambda>s. s\<lparr>sa_pending_continuation := continuation\<rparr>)))
           (andthen (emit_turn_failed env (actor_error_text error) (error_detail error) can_continue)
              (if can_continue then okM () else errM error)))"

text \<open>The handler may end by panicking: \<open>Panic\<close> is no error value, so no \<open>match\<close> sees it.\<close>

definition or_finish_turn_error :: "actor_env \<Rightarrow> unit actor \<Rightarrow> pending_continuation \<Rightarrow> unit actor" where
  "or_finish_turn_error env m continuation =
     bnd (attempt m) (\<lambda>r.
       case r of
         Inr _ \<Rightarrow> okM ()
       | Inl error \<Rightarrow>
           (if error = Panic then errM Panic else finish_turn_error env error (Some continuation)))"

definition step_when_waiting :: "session_actor_step \<Rightarrow> session_actor_step actor" where
  "step_when_waiting otherwise = gets (\<lambda>s.
     if sa_active_provider_request s \<noteq> None then okM WaitingProviderRequest
     else if sa_active_tool_batch s \<noteq> None then okM WaitingToolBatch
     else okM otherwise)"

definition handle_stream_event ::
  "actor_env \<Rightarrow> active_provider_request \<Rightarrow> provider_stream_event \<Rightarrow> unit actor" where
  "handle_stream_event env active event =
     bnd (ask (en_now env)) (\<lambda>now.
       andthen (upd (\<lambda>s. s\<lparr>sa_active_provider_request := Some
                  (active\<lparr>apr_next_stream_event_index := saturating_add (apr_next_stream_event_index active) 1,
                          apr_last_activity_at := now\<rparr>)\<rparr>))
         (andthen (emit_provider_stream_event env (apr_message_id active) (apr_turn_id active)
                     (apr_step_index active) (apr_next_stream_event_index active) event)
            (wake_or_schedule_provider_supersede_if_needed env)))"

definition handle_request_too_large ::
  "actor_env \<Rightarrow> active_provider_request \<Rightarrow> provider_error \<Rightarrow> unit actor" where
  "handle_request_too_large env active error =
     (let retry = start_provider_request env (apr_turn_id active) (apr_turn_number active) (apr_step_index active)
            (saturating_add (apr_request_too_large_attempts active) 1)
      in bnd (if apr_request_too_large_attempts active = 0
              then compact_history_after_request_too_large env ''provider_request'' else okM False) (\<lambda>compacted.
           if compacted then retry
           else bnd (prune_history_after_request_too_large env) (\<lambda>pruned.
             if pruned then retry
             else finish_turn_error env (from_provider_error error) (Some CurrentHistory))))"

definition handle_provider_failure ::
  "actor_env \<Rightarrow> active_provider_request \<Rightarrow> provider_error \<Rightarrow> unit actor" where
  "handle_provider_failure env active error =
     (let actor_error = from_provider_error error
      in andthen (emit env (StreamError (apr_message_id active) (apr_turn_id active)
                              (apr_next_stream_event_index active) (Some (apr_step_index active))
                              (Some ModelResponse) None None (sed_reason (error_detail actor_error))
                              (error_detail actor_error)))
           (finish_turn_error env actor_error (Some CurrentHistory)))"

text \<open>The final result of the active request, which is taken out of the state first.\<close>

definition handle_provider_result ::
  "actor_env \<Rightarrow> active_provider_request \<Rightarrow> provider_error + chat_message \<Rightarrow> unit actor" where
  "handle_provider_result env active result =
     (case result of
        Inr message \<Rightarrow> process_provider_message env active message
      | Inl error \<Rightarrow>
          (if is_request_too_large error \<and>
              apr_request_too_large_attempts active < request_too_large_prune_max_attempts
           then handle_request_too_large env active error
           else handle_provider_failure env active error))"

definition take_provider_result ::
  "actor_env \<Rightarrow> active_provider_request \<Rightarrow> provider_error + chat_message \<Rightarrow> session_actor_step actor" where
  "take_provider_result env active result =
     andthen (upd (\<lambda>s. s\<lparr>sa_active_provider_request := None\<rparr>))
       (andthen disarm_provider_supersede_grace_event
          (andthen (handle_provider_result env active result) (step_when_waiting ProcessedData)))"

definition handle_provider_event :: "actor_env \<Rightarrow> provider_event \<Rightarrow> session_actor_step actor" where
  "handle_provider_event env event = gets (\<lambda>s.
     case sa_active_provider_request s of
       None \<Rightarrow> okM Idle
     | Some active \<Rightarrow>
         (case event of
            Stream request_id stream_event \<Rightarrow>
              andthen (when_act (request_id = apr_request_id active \<and> provider_stream_event_is_renderable stream_event)
                         (handle_stream_event env active stream_event))
                (okM WaitingProviderRequest)
          | Retry request_id retry max_count delay_ms error \<Rightarrow>
              andthen (wake_or_schedule_provider_supersede_if_needed env) (okM WaitingProviderRequest)
          | ResultEvent request_id result \<Rightarrow>
              (if request_id \<noteq> apr_request_id active then okM WaitingProviderRequest
               else take_provider_result env active result)))"

section \<open>Timers\<close>

definition handle_internal_event :: "actor_env \<Rightarrow> session_actor_internal_event \<Rightarrow> session_actor_step actor" where
  "handle_internal_event env event =
     (case event of
        ProviderSupersedeGraceElapsed timer_id \<Rightarrow> gets (\<lambda>s.
          if sa_active_timer_id s \<noteq> Some timer_id then okM Idle
          else
            andthen (upd (\<lambda>s. s\<lparr>sa_active_timer_id := None\<rparr>))
              (bnd (ask (en_try_provider_event env)) (\<lambda>provider_event.
                 case provider_event of
                   Some event \<Rightarrow> handle_provider_event env event
                 | None \<Rightarrow>
                     andthen (wake_or_schedule_provider_supersede_if_needed env) (step_when_waiting Idle)))))"

section \<open>Tool events\<close>

definition handle_tool_progress_event :: "actor_env \<Rightarrow> tool_batch_progress \<Rightarrow> session_actor_step actor" where
  "handle_tool_progress_event env progress = gets (\<lambda>s.
     case sa_active_tool_batch s of
       None \<Rightarrow> okM Idle
     | Some active \<Rightarrow>
         (if tbp_batch_id progress \<noteq> tbh_batch_id (atb_handle active) then okM WaitingToolBatch
          else andthen (emit env (StreamToolResultDone (atb_turn_id active) (Some (atb_step_index active))
                                    (Some ToolResult_part) (tbp_batch_id progress) (tbp_result progress)))
                 (okM WaitingToolBatch)))"

definition completion_message ::
  "actor_env \<Rightarrow> active_tool_batch \<Rightarrow> string + chat_message \<Rightarrow> chat_message actor" where
  "completion_message env active result =
     bnd (case result of
            Inr message \<Rightarrow> okM message
          | Inl error \<Rightarrow>
              bnd (fresh_message_id env) (\<lambda>i.
                okM (tool_error_message_for_operations i (atb_operations active)
                       (''tool batch failed before returning results: '' @ error)))) (\<lambda>message.
       stamp_now env (with_turn_metadata (atb_turn_id active) (atb_step_index active) ToolResult_part message))"

text \<open>After the active batch has been taken out of the state.\<close>

definition finish_tool_batch ::
  "actor_env \<Rightarrow> active_tool_batch \<Rightarrow> string + chat_message \<Rightarrow> session_actor_step actor" where
  "finish_tool_batch env active result =
     andthen (tool_do env (OpFinish (tbh_batch_id (atb_handle active))))
       (bnd (completion_message env active result) (\<lambda>tool_message.
          andthen (mark_loaded_skills_from_message env tool_message (atb_turn_number active))
            (bnd (append_and_announce env ''tool_result'' tool_message) (\<lambda>_.
               if atb_interrupt active = Some SupersededByUserMessage
               then andthen (mark_turn_returned env (atb_turn_number active)) (okM ProcessedData)
               else
                 andthen (or_finish_turn_error env
                     (start_provider_request env (atb_turn_id active) (atb_turn_number active)
                        (wrapping_add (atb_step_index active) 1) 0) CurrentHistory)
                   (gets (\<lambda>s.
                      if sa_active_tool_batch s \<noteq> None then okM WaitingToolBatch
                      else if sa_active_provider_request s \<noteq> None then okM WaitingProviderRequest
                      else okM ProcessedData))))))"

definition drain_tool_progress :: "actor_env \<Rightarrow> unit actor" where
  "drain_tool_progress env =
     bnd (ask (en_queued_progress env)) (\<lambda>queued.
       for_each (\<lambda>progress. bnd (handle_tool_progress_event env progress) (\<lambda>_. okM ())) queued)"

definition handle_tool_completion_event :: "actor_env \<Rightarrow> tool_batch_completion \<Rightarrow> session_actor_step actor" where
  "handle_tool_completion_event env completion =
     andthen (drain_tool_progress env)
       (gets (\<lambda>s.
          case sa_active_tool_batch s of
            None \<Rightarrow> okM Idle
          | Some active \<Rightarrow>
              (if tbc_batch_id completion \<noteq> tbh_batch_id (atb_handle active)
               then errM (Tool (''unexpected tool batch completion '' @ tbc_batch_id completion
                                @ '', expected '' @ tbh_batch_id (atb_handle active)))
               else
                 andthen (upd (\<lambda>s. s\<lparr>sa_active_tool_batch := None\<rparr>))
                   (finish_tool_batch env active (tbc_result completion)))))"

section \<open>Turns\<close>

text \<open>One input of a turn: the notices that precede a user message, then the message.\<close>

definition append_input :: "actor_env \<Rightarrow> string \<Rightarrow> session_request \<Rightarrow> unit actor" where
  "append_input env turn_id request =
     (let append = (\<lambda>message. bnd (append_history_message env ''input''
            (with_turn_metadata turn_id 0 UserInput message)) (\<lambda>_. okM ()))
      in case request of
           EnqueueUserMessage message \<Rightarrow> andthen (append_runtime_synthetic_messages env message) (append message)
         | EnqueueActorMessage message \<Rightarrow> append message
         | _ \<Rightarrow> errM UnexpectedDataRequest)"

definition announce_messages_from :: "actor_env \<Rightarrow> nat \<Rightarrow> unit actor" where
  "announce_messages_from env start = gets (\<lambda>s.
     for_each (\<lambda>(index, message). emit env (message_appended index message))
       (enumerate start (drop start (sa_all_messages s))))"

definition start_turn :: "actor_env \<Rightarrow> string \<Rightarrow> nat \<Rightarrow> unit actor" where
  "start_turn env turn_id turn_number =
     andthen (gets (\<lambda>s. emit env (TurnStarted turn_id (sa_current_plan s))))
       (or_finish_turn_error env (start_provider_request env turn_id turn_number 0 0) CurrentHistory)"

text \<open>
  A failed append ends the turn with \<open>finish_turn_error\<close>; if that makes the turn
  resumable, the method returns there. \<open>UnexpectedDataRequest\<close> is returned as it is.
\<close>

definition append_inputs :: "actor_env \<Rightarrow> string \<Rightarrow> session_request list \<Rightarrow> bool actor" where
  "append_inputs env turn_id requests =
     bnd (attempt (for_each (append_input env turn_id) requests)) (\<lambda>r.
       case r of
         Inr _ \<Rightarrow> okM True
       | Inl error \<Rightarrow>
           (if error = Panic \<or> error = UnexpectedDataRequest then errM error
            else andthen (finish_turn_error env error (Some (DataRequests requests))) (okM False)))"

definition run_turn_from_data_requests :: "actor_env \<Rightarrow> session_request list \<Rightarrow> unit actor" where
  "run_turn_from_data_requests env requests = gets (\<lambda>s.
     if sa_initial s = None then errM MissingInitial
     else
       andthen (upd (\<lambda>s. s\<lparr>sa_pending_continuation := None\<rparr>))
         (bnd allocate_turn_id (\<lambda>turn_id.
          bnd (gets (\<lambda>s. okM (sa_next_turn_id s - 1))) (\<lambda>turn_number.
          bnd (append_inputs env turn_id requests) (\<lambda>appended.
            if \<not> appended then okM ()
            else andthen (announce_messages_from env (length (sa_all_messages s)))
                   (start_turn env turn_id turn_number))))))"

definition continue_turn_from_history :: "actor_env \<Rightarrow> unit actor" where
  "continue_turn_from_history env = gets (\<lambda>s.
     if sa_history s = []
     then control_rejected env ''cannot continue without existing session history''
            (JObject [(''command'', JString ''continue_turn'')])
     else
       bnd allocate_turn_id (\<lambda>turn_id.
       bnd (gets (\<lambda>s. okM (sa_next_turn_id s - 1))) (\<lambda>turn_number.
         start_turn env turn_id turn_number)))"

definition run_pending_data_if_idle :: "actor_env \<Rightarrow> session_actor_step \<Rightarrow> session_actor_step actor" where
  "run_pending_data_if_idle env fallback = gets (\<lambda>s.
     if sa_shutdown s \<or> sa_active_provider_request s \<noteq> None \<or> sa_active_tool_batch s \<noteq> None \<or>
        sa_pending_data s = []
     then okM fallback
     else
       (let data_requests = sa_pending_data s
        in andthen (upd (\<lambda>s. s\<lparr>sa_pending_data := []\<rparr>))
             (if list_ex (\<lambda>r. case r of EnqueueUserMessage _ \<Rightarrow> False | EnqueueActorMessage _ \<Rightarrow> False | _ \<Rightarrow> True)
                   data_requests
              then errM UnexpectedDataRequest
              else andthen (run_turn_from_data_requests env data_requests) (step_when_waiting ProcessedData))))"

section \<open>Control requests\<close>

definition reason_payload :: "string \<Rightarrow> string option \<Rightarrow> json" where
  "reason_payload command reason = JObject [(''command'', JString command), (''reason'', jopt reason)]"

definition handle_continue_turn :: "actor_env \<Rightarrow> string option \<Rightarrow> unit actor" where
  "handle_continue_turn env reason = gets (\<lambda>s.
     if sa_initial s = None then errM MissingInitial
     else if sa_active_provider_request s \<noteq> None
     then control_rejected env ''cannot continue while a provider request is running''
            (reason_payload ''continue_turn'' reason)
     else if sa_active_tool_batch s \<noteq> None
     then control_rejected env ''cannot continue while a tool batch is running''
            (reason_payload ''continue_turn'' reason)
     else case sa_pending_continuation s of
       None \<Rightarrow> control_rejected env ''no recoverable failed turn is pending''
                (reason_payload ''continue_turn'' reason)
     | Some continuation \<Rightarrow>
         andthen (upd (\<lambda>s. s\<lparr>sa_pending_continuation := None\<rparr>))
           (case continuation of
              CurrentHistory \<Rightarrow> continue_turn_from_history env
            | DataRequests requests \<Rightarrow> run_turn_from_data_requests env requests))"

definition compact_now_payload :: json where
  "compact_now_payload = JObject [(''type'', JString ''compact_now'')]"

definition handle_compact_now :: "actor_env \<Rightarrow> unit actor" where
  "handle_compact_now env = gets (\<lambda>s.
     if sa_active_tool_batch s \<noteq> None \<or> count_unclosed_tool_calls (sa_history s) > 0
     then control_rejected env ''cannot compact while a tool batch or unfinished tool call is active''
            compact_now_payload
     else case sa_compressor s of
       None \<Rightarrow> control_rejected env ''context compression is not available for this session'' compact_now_payload
     | Some compressor \<Rightarrow>
         andthen (emit_compact_started env ''manual_compaction'')
           (bnd (system_prompt_for_current_initial env) (\<lambda>system_prompt.
            bnd (gets (\<lambda>s. compression_memory_context env (sa_history s) None)) (\<lambda>compression_context.
            bnd (call_compressor env (\<lambda>ce tools.
                   compact_now_with_tools ce compressor system_prompt compression_context tools)) (\<lambda>r.
              case r of
                Inr rep \<Rightarrow>
                  andthen (when_act (rep_compressed rep)
                             (andthen after_compression (persist_state_if_history_closed env)))
                    (emit_compact_completed env rep)
              | Inl error \<Rightarrow>
                  emit_compact_failed env ''manual_compaction''
                    (''manual context compression failed: '' @ compression_error_text error))))))"

definition fail_with :: "(string \<Rightarrow> session_actor_error) \<Rightarrow> string option \<Rightarrow> unit actor" where
  "fail_with wrap r = (case r of Some e \<Rightarrow> errM (wrap e) | None \<Rightarrow> okM ())"

definition build_estimator :: "actor_env \<Rightarrow> model_config \<Rightarrow> nat option \<Rightarrow> bool actor" where
  "build_estimator env mc threshold_tokens =
     (case en_build_estimator env mc of
        None \<Rightarrow> okM True
      | Some error \<Rightarrow> (if threshold_tokens = None then okM False else errM (Compression error)))"

definition load_saved :: "actor_env \<Rightarrow> session_initial \<Rightarrow> unit actor" where
  "load_saved env initial =
     bnd (ask (en_fresh_ids env)) (\<lambda>fresh_ids.
     bnd (with_disk (load (en_store env) fresh_ids)) (\<lambda>loaded.
       case loaded of
         Some saved \<Rightarrow> restore_persisted_state env saved initial
       | None \<Rightarrow> initialize_runtime_metadata env initial))"

definition unfinished_turn_message :: string where
  "unfinished_turn_message =
     ''session restored with an unfinished turn; ask the user whether to continue processing''"

definition announce_unfinished_turn :: "actor_env \<Rightarrow> unit actor" where
  "announce_unfinished_turn env = gets (\<lambda>s.
     when_act (restored_history_needs_continuation (sa_history s))
       (andthen (upd (\<lambda>s. s\<lparr>sa_pending_continuation := Some CurrentHistory\<rparr>))
          (emit_turn_failed env unfinished_turn_message
             (error_detail_new ''session_actor.restore'' ''unfinished_turn''
                ''session restored with an unfinished turn'') True)))"

definition handle_initial :: "actor_env \<Rightarrow> session_initial \<Rightarrow> unit actor" where
  "handle_initial env initial = gets (\<lambda>s.
     if sa_initial s \<noteq> None
     then control_rejected env ''session initial has already been applied'' (en_initial_json env initial)
     else
       andthen (bnd (ask (en_open_logger env)) (fail_with Logging))
         (andthen (bnd (ask (en_open_store env)) (fail_with Persistence))
            (bnd (case en_build_catalog env (sa_model_config s) initial of
                    Inl e \<Rightarrow> errM (ToolCatalog_error e) | Inr catalog \<Rightarrow> okM catalog) (\<lambda>catalog.
             andthen (upd (\<lambda>s. s\<lparr>sa_tool_catalog := catalog\<rparr>))
               (let threshold_tokens = active_compression_threshold_tokens (sa_model_config s) initial
                in bnd (build_estimator env (sa_model_config s) threshold_tokens) (\<lambda>estimator.
                   bnd (from_result (build_session_compressor threshold_tokens initial estimator)) (\<lambda>compressor.
                     andthen (load_saved env initial)
                       (andthen (upd (\<lambda>s. s\<lparr>sa_state_store := True, sa_compressor := compressor,
                                             sa_token_estimator := estimator, sa_initial := Some initial\<rparr>))
                          (andthen (persist_state env) (announce_unfinished_turn env))))))))))"

definition handle_control :: "actor_env \<Rightarrow> session_request \<Rightarrow> unit actor" where
  "handle_control env control =
     (case control of
        Initial initial \<Rightarrow> handle_initial env initial
      | Shutdown \<Rightarrow> upd (\<lambda>s. s\<lparr>sa_shutdown := True\<rparr>)
      | CancelTurn reason \<Rightarrow> handle_cancel_turn env reason
      | ContinueTurn reason \<Rightarrow> handle_continue_turn env reason
      | CompactNow \<Rightarrow> handle_compact_now env
      | QuerySessionView query_id payload \<Rightarrow> handle_query_session_view env query_id payload
      | QueryMessageHistory request_id offset limit \<Rightarrow> handle_query_message_history env request_id offset limit
      | QueryMessageDetail request_id message_id \<Rightarrow> handle_query_message_detail env request_id message_id
      | other \<Rightarrow> control_rejected env ''control command is not implemented by SessionActor yet''
                   (en_request_json env other))"

definition is_user_request :: "session_request \<Rightarrow> bool" where
  "is_user_request request = (case request of EnqueueUserMessage _ \<Rightarrow> True | _ \<Rightarrow> False)"

definition handle_request_event :: "actor_env \<Rightarrow> session_request \<Rightarrow> session_actor_step actor" where
  "handle_request_event env request =
     (case mailbox_kind request of
        Control \<Rightarrow>
          andthen (handle_control env request)
            (gets (\<lambda>s. okM (if sa_shutdown s then ShutdownStep else ProcessedControl)))
      | Data \<Rightarrow>
          andthen (upd (\<lambda>s. s\<lparr>sa_pending_data := sa_pending_data s @ [request]\<rparr>))
            (andthen (gets (\<lambda>s. when_act (is_user_request request \<and> sa_active_tool_batch s \<noteq> None)
                               (request_active_tool_interrupt env SupersededByUserMessage)))
               (andthen (gets (\<lambda>s. when_act (is_user_request request \<and> sa_active_provider_request s \<noteq> None)
                                  (schedule_provider_supersede_grace_event_if_needed env)))
                  (step_when_waiting ProcessedData))))"

section \<open>The loop\<close>

text \<open>What \<open>select!\<close> may take from the channels: a message, or that a channel is closed.\<close>

datatype actor_input =
    RequestIn session_request
  | RequestsClosed
  | CompletionIn tool_batch_completion
  | CompletionsClosed
  | ProgressIn tool_batch_progress
  | ProgressClosed
  | ProviderIn provider_event
  | ProviderClosed
  | InternalIn session_actor_internal_event
  | InternalClosed

definition recv_one_event :: "actor_env \<Rightarrow> actor_input \<Rightarrow> session_actor_step actor" where
  "recv_one_event env input =
     (case input of
        RequestIn request \<Rightarrow> handle_request_event env request
      | RequestsClosed \<Rightarrow> errM (Mailbox ''session actor request channel closed'')
      | CompletionIn completion \<Rightarrow> handle_tool_completion_event env completion
      | CompletionsClosed \<Rightarrow> errM (Tool ''tool completion channel disconnected'')
      | ProgressIn progress \<Rightarrow> handle_tool_progress_event env progress
      | ProgressClosed \<Rightarrow> errM (Tool ''tool progress channel disconnected'')
      | ProviderIn event \<Rightarrow> handle_provider_event env event
      | ProviderClosed \<Rightarrow> errM (from_provider_error (Subprocess ''provider event channel disconnected''))
      | InternalIn event \<Rightarrow> handle_internal_event env event
      | InternalClosed \<Rightarrow> errM (Mailbox ''session actor internal event channel closed''))"

definition recv_step :: "actor_env \<Rightarrow> actor_input \<Rightarrow> session_actor_step actor" where
  "recv_step env input = bnd (recv_one_event env input) (run_pending_data_if_idle env)"

text \<open>
  The loop of the agent server over the inputs taken one after another; it ends at the
  shutdown, at the first error, which it reports as a crash, or when it is told to stop
  (the flag before an input).
\<close>

definition runtime_crashed :: "session_actor_error \<Rightarrow> session_event" where
  "runtime_crashed error =
     RuntimeCrashed (actor_error_text error)
       (error_detail_new ''agent_server.session_actor'' ''runtime_crashed'' (actor_error_text error))"

fun run_actor_loop ::
  "actor_env \<Rightarrow> (bool \<times> actor_input) list \<Rightarrow> session_actor \<Rightarrow> session_event option \<times> session_actor" where
  "run_actor_loop env [] s = (None, s)"
| "run_actor_loop env ((stop, input) # inputs) s =
     (if stop then (None, s)
      else case recv_step env input s of
        (Inr ShutdownStep, s') \<Rightarrow> (None, s')
      | (Inr _, s') \<Rightarrow> run_actor_loop env inputs s'
      | (Inl error, s') \<Rightarrow> (Some (runtime_crashed error), s'))"

end
