(* ===== verification/Actor_Frames.thy ===== *)
theory Actor_Frames
  imports Actor_Turns
begin

text \<open>
  What the handlers of the session actor may change. Each locale below is a contract on a
  relation between the states before and after a handler: it lists the writes the relation
  tolerates, and derives that every handler which only makes such writes stays inside the
  relation, whatever the outcome. The interpretations at the end discharge the contracts
  for the relations from which the invariants of the actor follow.
\<close>

section \<open>Announcements\<close>

definition same_message :: "chat_message \<Rightarrow> chat_message \<Rightarrow> bool" where
  "same_message m m' \<longleftrightarrow> m\<lparr>cm_message_id := []\<rparr> = m'\<lparr>cm_message_id := []\<rparr>"

text \<open>An event that announces a message points at a transcript entry with that content.\<close>

definition announce_ok :: "chat_message list \<Rightarrow> session_event \<Rightarrow> bool" where
  "announce_ok all_messages event =
     (case event of
        MessageAppended index turn_id step_index message_part message \<Rightarrow>
          index < length all_messages \<and> same_message (all_messages ! index) message \<and>
          turn_id = cm_turn_id message \<and> step_index = cm_step_index message \<and>
          message_part = cm_message_part message
      | _ \<Rightarrow> True)"

definition quiet :: "session_event \<Rightarrow> bool" where
  "quiet event = (case event of MessageAppended _ _ _ _ _ \<Rightarrow> False | _ \<Rightarrow> True)"

lemma same_message_refl [simp]: "same_message m m"
  by (simp add: same_message_def)

lemma same_message_with_id [simp]: "same_message (m\<lparr>cm_message_id := i\<rparr>) m"
  by (simp add: same_message_def)

lemma quiet_announce_ok: "quiet e \<Longrightarrow> announce_ok all_messages e"
  by (cases e) (simp_all add: quiet_def announce_ok_def)

lemma announce_ok_prefix: "announce_ok xs e \<Longrightarrow> prefix xs ys \<Longrightarrow> announce_ok ys e"
  by (cases e) (auto simp: announce_ok_def prefix_nth dest: prefix_length_le)

lemma announce_ok_appended:
  "announce_ok xs (message_appended i m) \<longleftrightarrow> i < length xs \<and> same_message (xs ! i) m"
  by (simp add: announce_ok_def message_appended_def)

section \<open>The provider's context\<close>

text \<open>
  The calls that leave the context of the provider session alone, and when appending
  messages to it yields a given request.
\<close>

definition context_free :: "provider_call \<Rightarrow> bool" where
  "context_free c = (case c of CallSet _ \<Rightarrow> False | CallAppend _ \<Rightarrow> False | _ \<Rightarrow> True)"

definition extends_context :: "session_actor \<Rightarrow> provider_request \<Rightarrow> chat_message list \<Rightarrow> bool" where
  "extends_context s rq ms \<longleftrightarrow>
     (\<exists>existing. sa_provider_context s = Some existing \<and> provider_request_envelope_matches existing rq \<and>
                 prq_messages rq = prq_messages existing @ ms)"

lemma incremental_suffix_extends:
  "incremental_suffix s turn_id rq = Some ms \<Longrightarrow> extends_context s rq ms"
  unfolding incremental_suffix_def extends_context_def
  by (auto split: if_splits option.splits) (metis append_take_drop_id)

section \<open>Questions to the environment\<close>

locale service_frame = frame_relation R
  for R :: "session_actor \<Rightarrow> session_actor \<Rightarrow> bool" +
  assumes R_io: "R s (s\<lparr>sa_io := n\<rparr>)"
    and R_disk: "R s (s\<lparr>sa_disk := d\<rparr>)"
begin

lemma frame_ask [frame]: "steps_in R (ask f)"
  by (simp add: steps_in_def ask_def R_io)

lemma frame_fresh_message_id [frame]: "steps_in R (fresh_message_id env)"
  unfolding fresh_message_id_def by (intro frame)

lemma frame_with_disk [frame]: "steps_in R (with_disk m)"
  by (auto simp: steps_in_def with_disk_def R_disk split: prod.split)

lemma frame_system_prompt [frame]: "steps_in R (system_prompt_for_current_initial env)"
  unfolding system_prompt_for_current_initial_def
  by (rule steps_gets) (auto intro!: frame split: option.split sum.split)

lemma frame_persist_state [frame]: "steps_in R (persist_state env)"
  unfolding persist_state_def by (rule steps_gets) (auto intro!: frame split: option.split)

lemma frame_persist_if_closed [frame]: "steps_in R (persist_state_if_history_closed env)"
  unfolding persist_state_if_history_closed_def by (rule steps_gets) (auto intro!: frame)

lemma frame_flush [frame]: "steps_in R (flush_all_messages_before_compression env)"
  unfolding flush_all_messages_before_compression_def by (rule steps_gets) (auto intro!: frame)

lemma frame_grace_remaining [frame]: "steps_in R (provider_supersede_grace_remaining env)"
  unfolding provider_supersede_grace_remaining_def
  by (rule steps_gets) (auto intro!: frame simp: Let_def split: option.split)

lemma frame_search_memory [frame]: "steps_in R (search_memory_scope_for_compression env bridge scope query)"
  unfolding search_memory_scope_for_compression_def Let_def
  by (rule steps_bnd) (auto intro!: frame split: sum.split option.split)

lemma frame_memory_context [frame]: "steps_in R (compression_memory_context env ms next)"
  unfolding compression_memory_context_def Let_def
  by (rule steps_gets) (auto intro!: frame split: option.split)

lemma frame_memory_context_for_append [frame]:
  "steps_in R (compression_memory_context_for_append env compressor m)"
  unfolding compression_memory_context_for_append_def by (rule steps_gets) (auto intro!: frame)

lemma frame_read_workspace [frame]: "steps_in R (read_workspace env)"
  unfolding read_workspace_def by (rule steps_bnd) (auto intro!: frame split: sum.split)

lemma frame_aliases_prompt [frame]: "steps_in R (aliases_prompt env i)"
  unfolding aliases_prompt_def by (auto intro!: frame split: option.split)

lemma frame_stamp_now [frame]: "steps_in R (stamp_now env m)"
  unfolding stamp_now_def by (intro frame)

lemma frame_ensure_indexed_id [frame]: "steps_in R (ensure_indexed_id env i m)"
  unfolding ensure_indexed_id_def by (auto intro!: frame)

end

section \<open>Writes that nothing outside the actor sees\<close>

locale silent_frame = service_frame +
  assumes R_history: "R s (s\<lparr>sa_history := h\<rparr>)"
    and R_metadata: "R s (s\<lparr>sa_runtime_metadata_state := st\<rparr>)"
begin

lemma frame_with_history [frame]: "steps_in R (with_history m)"
  by (auto simp: steps_in_def with_history_def R_history split: prod.split)

lemma frame_call_compressor [frame]: "steps_in R (call_compressor env f)"
  unfolding call_compressor_def by (intro frame)

lemma R_compressed: "R s (s\<lparr>sa_runtime_metadata_state := st, sa_history := h\<rparr>)"
  by (rule R_trans [OF R_metadata R_history])

lemma frame_after_compression [frame]: "steps_in R after_compression"
  unfolding after_compression_def by (rule steps_upd) (rule R_compressed)

lemma frame_push_history [frame]: "steps_in R (push_history env m)"
  unfolding push_history_def by (auto intro!: frame steps_upd R_history)

lemma frame_initialize_metadata [frame]: "steps_in R (initialize_runtime_metadata env initial)"
  unfolding initialize_runtime_metadata_def
  by (intro steps_bnd steps_gets) (auto intro!: frame steps_upd R_metadata split: sum.split)

lemma frame_observe_metadata [frame]: "steps_in R (observe_runtime_metadata env)"
  unfolding observe_runtime_metadata_def
  by (intro steps_bnd steps_gets) (auto intro!: frame steps_upd R_metadata split: sum.split prod.split)

lemma frame_mark_loaded_skills [frame]: "steps_in R (mark_loaded_skills_from_message env m n)"
  unfolding mark_loaded_skills_from_message_def Let_def by (auto intro!: frame steps_upd R_metadata)

end

section \<open>Writes that touch neither the transcript nor what is running\<close>

locale core_frame = silent_frame +
  assumes R_emitted: "announce_ok (sa_all_messages s) e \<Longrightarrow> R s (s\<lparr>sa_emitted := sa_emitted s @ [e]\<rparr>)"
    and R_provider_log: "context_free c \<Longrightarrow> R s (s\<lparr>sa_provider_log := sa_provider_log s @ [c]\<rparr>)"
    and R_context_set:
      "prq_reset_incremental_context rq \<Longrightarrow>
         R s (s\<lparr>sa_provider_log := sa_provider_log s @ [CallSet rq],
                sa_provider_context := Some rq, sa_provider_context_turn_id := Some i\<rparr>)"
    and R_context_append:
      "extends_context s rq ms \<Longrightarrow>
         R s (s\<lparr>sa_provider_log := sa_provider_log s @ (if ms = [] then [] else [CallAppend ms]),
                sa_provider_context := Some rq, sa_provider_context_turn_id := Some i\<rparr>)"
    and R_tool_log: "R s (s\<lparr>sa_tool_log := sa_tool_log s @ [oper]\<rparr>)"
    and R_returned: "R s (s\<lparr>sa_last_agent_returned_at := a, sa_last_completed_turn_number := k\<rparr>)"
    and R_active_timer: "R s (s\<lparr>sa_active_timer_id := t\<rparr>)"
    and R_timers: "R s (s\<lparr>sa_timers := sa_timers s @ [x], sa_next_timer_id := j\<rparr>)"
    and R_plan: "R s (s\<lparr>sa_current_plan := pl\<rparr>)"
    and R_continuation: "R s (s\<lparr>sa_pending_continuation := ct\<rparr>)"
    and R_turn_id: "R s (s\<lparr>sa_next_turn_id := saturating_add (sa_next_turn_id s) 1\<rparr>)"
    and R_batch_id: "R s (s\<lparr>sa_next_batch_id := saturating_add (sa_next_batch_id s) 1\<rparr>)"
begin

lemma frame_emit [frame]: "quiet e \<Longrightarrow> steps_in R (emit env e)"
  unfolding emit_def
  by (rule steps_bnd) (auto intro!: frame steps_upd R_emitted quiet_announce_ok split: option.split)

lemma frame_provider_do [frame]: "context_free call \<Longrightarrow> steps_in R (provider_do env call)"
  unfolding provider_do_def
  by (rule steps_bnd) (auto intro!: frame steps_upd R_provider_log split: option.split)

lemma frame_emits [frame]:
  "steps_in R (emit_turn_failed env error err_detail can_continue)"
  "steps_in R (emit_compact_failed env phase reason)"
  "steps_in R (emit_compact_started env phase)"
  "steps_in R (emit_compact_completed env rep)"
  "steps_in R (control_rejected env reason payload)"
  by (simp_all add: emit_turn_failed_def emit_compact_failed_def emit_compact_started_def
      emit_compact_completed_def control_rejected_def frame_emit quiet_def)

lemma R_schedule:
  "R s (s\<lparr>sa_active_timer_id := t, sa_timers := sa_timers s @ [x], sa_next_timer_id := j\<rparr>)"
  using R_trans [OF R_active_timer [of s t] R_timers [of "s\<lparr>sa_active_timer_id := t\<rparr>" j x]] by simp

lemma frame_schedule [frame]: "steps_in R (schedule_provider_supersede_grace_event_if_needed env)"
  unfolding schedule_provider_supersede_grace_event_if_needed_def
  by (rule steps_gets) (auto intro!: frame steps_upd R_schedule split: option.split)

lemma frame_disarm [frame]: "steps_in R disarm_provider_supersede_grace_event"
  unfolding disarm_provider_supersede_grace_event_def by (rule steps_upd) (rule R_active_timer)

lemma frame_mark_turn_returned [frame]: "steps_in R (mark_turn_returned env n)"
  unfolding mark_turn_returned_def by (auto intro!: frame steps_upd R_returned)

lemma frame_prune [frame]: "steps_in R (prune_history_after_request_too_large env)"
  unfolding prune_history_after_request_too_large_def
  by (rule steps_gets) (auto intro!: frame steps_upd R_history simp: quiet_def split: option.split)

lemma frame_compact [frame]: "steps_in R (compact_history_after_request_too_large env phase)"
  unfolding compact_history_after_request_too_large_def
  by (rule steps_gets) (auto intro!: frame split: option.split sum.split)

lemma frame_compression_failed [frame]: "steps_in R (compression_failed env phase b e)"
  unfolding compression_failed_def by (intro frame)

lemma frame_append_compression_loop [frame]:
  "steps_in R (append_compression_loop env phase compressor m sp announced n)"
  by (induction n) (auto intro!: frame split: sum.split)

lemma frame_append_with_compressor [frame]: "steps_in R (append_with_compressor env phase compressor m)"
  unfolding append_with_compressor_def Let_def by (auto intro!: frame)

lemma frame_store_message [frame]: "steps_in R (store_message env phase m)"
  unfolding store_message_def by (rule steps_gets) (auto intro!: frame split: option.split)

lemma frame_sync_provider_context [frame]: "steps_in R (sync_provider_context env turn_id request)"
proof (rule steps_inI)
  fix s :: session_actor
  let ?s1 = "s\<lparr>sa_io := Suc (sa_io s)\<rparr>"
  have io: "R s ?s1" by (rule R_io)
  show "R s (snd (sync_provider_context env turn_id request s))"
  proof (cases "incremental_suffix s turn_id request")
    case None
    let ?rq = "request\<lparr>prq_reset_incremental_context := True\<rparr>"
    from None show ?thesis
      using io R_trans [OF io R_context_set [of ?rq ?s1 turn_id]]
      by (auto simp: sync_provider_context_def set_provider_context_def provider_do_def ask_def act_defs Let_def
          split: option.split)
  next
    case (Some ms)
    then have ext: "extends_context s request ms" by (rule incremental_suffix_extends)
    then have "extends_context ?s1 request ms" by (simp add: extends_context_def)
    from R_trans [OF io R_context_append [OF this, of turn_id]] R_context_append [OF ext, of turn_id] io Some
    show ?thesis
      by (auto simp: sync_provider_context_def set_provider_context_def provider_do_def ask_def act_defs
          split: option.split)
  qed
qed

lemma frame_step_when_waiting [frame]: "steps_in R (step_when_waiting x)"
  unfolding step_when_waiting_def by (rule steps_gets) (auto intro!: frame)

lemma frame_completion_message [frame]: "steps_in R (completion_message env active result)"
  unfolding completion_message_def by (auto intro!: frame split: sum.split)

lemma frame_tool_do [frame]: "steps_in R (tool_do env oper)"
  unfolding tool_do_def by (rule steps_bnd) (auto intro!: frame steps_upd R_tool_log split: option.split)

lemma frame_allocate [frame]: "steps_in R allocate_turn_id" "steps_in R (allocate_batch_id turn_id)"
  unfolding allocate_turn_id_def allocate_batch_id_def
  by (auto intro!: frame steps_upd R_turn_id R_batch_id simp del: One_nat_def)

lemma frame_build_tool_batch [frame]: "steps_in R (build_tool_batch turn_id tool_calls)"
  unfolding build_tool_batch_def Let_def by (auto intro!: frame)

lemma frame_clear_current_plan [frame]: "steps_in R (clear_current_plan env)"
  unfolding clear_current_plan_def by (auto intro!: frame steps_upd R_history R_plan simp: quiet_def)

lemma frame_start_tool_batch [frame]: "steps_in R (start_tool_batch env batch)"
  unfolding start_tool_batch_def by (rule steps_bnd) (auto intro!: frame steps_upd R_tool_log split: sum.split)

lemma frame_finish_turn [frame]: "steps_in R (finish_turn env active index m)"
  unfolding finish_turn_def by (auto intro!: frame simp: quiet_def)

lemma frame_finish_turn_error [frame]: "steps_in R (finish_turn_error env error continuation)"
  unfolding finish_turn_error_def Let_def by (auto intro!: frame steps_upd R_continuation)

lemma frame_or_finish [frame]: "steps_in R m \<Longrightarrow> steps_in R (or_finish_turn_error env m continuation)"
  unfolding or_finish_turn_error_def by (rule steps_bnd) (auto intro!: frame split: sum.split)

lemma frame_tool_progress [frame]: "steps_in R (handle_tool_progress_event env progress)"
  unfolding handle_tool_progress_event_def
  by (rule steps_gets) (auto intro!: frame simp: quiet_def split: option.split)

lemma frame_compact_now [frame]: "steps_in R (handle_compact_now env)"
  unfolding handle_compact_now_def
  by (rule steps_gets) (auto intro!: frame split: option.split sum.split)

lemma frame_queries [frame]:
  "steps_in R (handle_query_session_view env q p)"
  "steps_in R (handle_query_message_history env q offset limit)"
  "steps_in R (handle_query_message_detail env q i)"
  unfolding handle_query_session_view_def handle_query_message_history_def handle_query_message_detail_def
  by (auto intro!: frame simp: quiet_def)

lemma frame_provider_failure [frame]: "steps_in R (handle_provider_failure env active error)"
  unfolding handle_provider_failure_def Let_def by (auto intro!: frame simp: quiet_def)

lemma frame_drain [frame]: "steps_in R (drain_tool_progress env)"
  unfolding drain_tool_progress_def by (auto intro!: frame)

end

text \<open>First instance: none of these handlers touches the transcript.\<close>

interpretation same_transcript: core_frame "\<lambda>s s'. sa_all_messages s' = sa_all_messages s"
  by unfold_locales simp_all

lemma emit_all_messages [simp]: "sa_all_messages (snd (emit env e s)) = sa_all_messages s"
  by (simp add: emit_def ask_def act_defs split: option.split)

text \<open>
  What appending does to the transcript, whatever the outcome: one entry is added at the end,
  with the content of the message, and the index returned is its position.
\<close>

lemma ensure_indexed_id_run:
  "\<exists>m' n. ensure_indexed_id env i m s = (Inr m', s\<lparr>sa_io := n\<rparr>) \<and> same_message m' m \<and>
     (message_id_has_all_messages_index (cm_message_id m) \<longrightarrow> m' = m)"
proof (cases "message_id_has_all_messages_index (cm_message_id m)")
  case True
  then show ?thesis by (intro exI [of _ m] exI [of _ "sa_io s"]) (simp add: ensure_indexed_id_def okM_def)
next
  case False
  then show ?thesis
    by (intro exI [of _ "m\<lparr>cm_message_id := message_id_for_all_messages_index i (en_random env (sa_io s))\<rparr>"]
        exI [of _ "Suc (sa_io s)"]) (simp add: ensure_indexed_id_def ask_def bnd_def okM_def)
qed

text \<open>The run of an append: the state after the transcript was extended, then the history.\<close>

lemma append_history_message_run:
  "\<exists>m' n. same_message m' m \<and> (message_id_has_all_messages_index (cm_message_id m) \<longrightarrow> m' = m) \<and>
     append_history_message env phase m s =
       andthen (store_message env phase m') (okM (length (sa_all_messages s)))
         (s\<lparr>sa_io := n, sa_all_messages := sa_all_messages s @ [m']\<rparr>)"
proof -
  obtain m' n where run: "ensure_indexed_id env (length (sa_all_messages s)) m s = (Inr m', s\<lparr>sa_io := n\<rparr>)"
    and m: "same_message m' m" "message_id_has_all_messages_index (cm_message_id m) \<longrightarrow> m' = m"
    using ensure_indexed_id_run by blast
  from run have "append_history_message env phase m s =
       andthen (store_message env phase m') (okM (length (sa_all_messages s)))
         (s\<lparr>sa_io := n, sa_all_messages := sa_all_messages s @ [m']\<rparr>)"
    by (simp add: append_history_message_def gets_def andthen_def bnd_def upd_def)
  with m show ?thesis by blast
qed

lemma append_history_message_post:
  assumes "append_history_message env phase m s = (r, s')"
  shows "\<exists>m'. sa_all_messages s' = sa_all_messages s @ [m'] \<and> same_message m' m \<and>
           (message_id_has_all_messages_index (cm_message_id m) \<longrightarrow> m' = m) \<and>
           (\<forall>index. r = Inr index \<longrightarrow> index = length (sa_all_messages s))"
proof -
  obtain m' n where m: "same_message m' m" "message_id_has_all_messages_index (cm_message_id m) \<longrightarrow> m' = m"
    and run: "append_history_message env phase m s =
       andthen (store_message env phase m') (okM (length (sa_all_messages s)))
         (s\<lparr>sa_io := n, sa_all_messages := sa_all_messages s @ [m']\<rparr>)"
    using append_history_message_run by blast
  have "sa_all_messages s' = sa_all_messages (s\<lparr>sa_io := n, sa_all_messages := sa_all_messages s @ [m']\<rparr>)"
    by (rule steps_inE [OF same_transcript.steps_andthen [OF same_transcript.frame_store_message
            same_transcript.steps_ok] trans [OF run [symmetric] assms]])
  moreover have "\<forall>index. r = Inr index \<longrightarrow> index = length (sa_all_messages s)"
    using run assms by (auto simp: andthen_def bnd_def okM_def split: prod.splits sum.splits)
  ultimately show ?thesis using m by auto
qed

section \<open>Writes that extend the transcript\<close>

locale append_frame = core_frame +
  assumes R_append: "R s (s\<lparr>sa_all_messages := sa_all_messages s @ [m]\<rparr>)"
begin

lemma frame_append_history_message [frame]: "steps_in R (append_history_message env phase m)"
  unfolding append_history_message_def
  by (rule steps_gets) (auto intro!: frame steps_upd R_append)

lemma emit_at: "announce_ok (sa_all_messages s) e \<Longrightarrow> R s (snd (emit env e s))"
proof -
  assume ok: "announce_ok (sa_all_messages s) e"
  let ?s1 = "s\<lparr>sa_io := Suc (sa_io s)\<rparr>"
  have "R ?s1 (?s1\<lparr>sa_emitted := sa_emitted ?s1 @ [e]\<rparr>)" using ok by (intro R_emitted) simp
  then show ?thesis
    using R_trans [OF R_io [of s "Suc (sa_io s)"]] R_io
    by (auto simp: emit_def ask_def act_defs split: option.split)
qed

lemma frame_append_and_announce [frame]: "steps_in R (append_and_announce env phase m)"
proof (rule steps_inI)
  fix s
  obtain r s1 where app: "append_history_message env phase m s = (r, s1)" by fastforce
  have step: "R s s1" using steps_inE [OF frame_append_history_message app] .
  show "R s (snd (append_and_announce env phase m s))"
  proof (cases r)
    case (Inl e)
    then show ?thesis using app step by (simp add: append_and_announce_def bnd_def)
  next
    case (Inr index)
    then have "announce_ok (sa_all_messages s1) (message_appended index m)"
      using append_history_message_post [OF app] by (auto simp: announce_ok_appended nth_append)
    then have "R s1 (snd (emit env (message_appended index m) s1))" by (rule emit_at)
    moreover have "snd (append_and_announce env phase m s) = snd (emit env (message_appended index m) s1)"
      using app Inr by (simp add: append_and_announce_def andthen_def bnd_def okM_def split: prod.split sum.split)
    ultimately show ?thesis using R_trans [OF step] by simp
  qed
qed

lemma emit_each_at:
  "(\<And>e. e \<in> set es \<Longrightarrow> announce_ok (sa_all_messages s) e) \<Longrightarrow> R s (snd (for_each (emit env) es s))"
proof (induction es arbitrary: s)
  case Nil
  then show ?case by (simp add: okM_def R_refl)
next
  case (Cons e es)
  obtain r s1 where e: "emit env e s = (r, s1)" by fastforce
  have s1: "R s s1" using emit_at [of s e env] Cons.prems e by simp
  have "sa_all_messages s1 = sa_all_messages s" using e emit_all_messages [of env e s] by simp
  then have "R s1 (snd (for_each (emit env) es s1))" using Cons.prems by (intro Cons.IH) auto
  with s1 e show ?case by (cases r) (auto simp: andthen_def bnd_def intro: R_trans)
qed

lemma for_each_map: "for_each f (map g xs) = for_each (\<lambda>x. f (g x)) xs"
  by (induction xs) simp_all

lemma frame_announce_messages [frame]: "steps_in R (announce_messages_from env start)"
proof (rule steps_inI)
  fix s :: session_actor
  let ?es = "map (\<lambda>(index, message). message_appended index message)
      (enumerate start (drop start (sa_all_messages s)))"
  have "announce_messages_from env start s = for_each (emit env) ?es s"
    by (simp add: announce_messages_from_def gets_def for_each_map case_prod_unfold)
  moreover have "R s (snd (for_each (emit env) ?es s))"
    by (rule emit_each_at) (auto simp: announce_ok_appended in_set_enumerate_eq nth_drop)
  ultimately show "R s (snd (announce_messages_from env start s))" by simp
qed

lemma frame_runtime_notice [frame]: "steps_in R (append_runtime_notice env notice)"
  unfolding append_runtime_notice_def by (auto intro!: frame)

lemma frame_runtime_synthetic [frame]: "steps_in R (append_runtime_synthetic_messages env m)"
  unfolding append_runtime_synthetic_messages_def by (auto intro!: frame split: option.split)

lemma frame_append_input [frame]: "steps_in R (append_input env turn_id request)"
  unfolding append_input_def Let_def by (auto intro!: frame split: session_request.split)

lemma frame_repair [frame]: "steps_in R (repair_unclosed_tool_calls_before_provider_request env turn_id k)"
  unfolding repair_unclosed_tool_calls_before_provider_request_def Let_def
  by (rule steps_gets) (auto intro!: frame)

lemma frame_append_inputs [frame]: "steps_in R (append_inputs env turn_id requests)"
  unfolding append_inputs_def by (auto intro!: frame split: sum.split)

end

section \<open>Writes that start and stop a provider request\<close>

locale request_frame = append_frame +
  assumes R_started: "R s (s\<lparr>sa_last_provider_request_started_at := t\<rparr>)"
    and R_request: "R s (s\<lparr>sa_active_provider_request := a\<rparr>)"
begin

lemma frame_send_provider_request [frame]:
  "steps_in R (send_provider_request env turn_id turn_number k attempts sp h)"
  unfolding send_provider_request_def Let_def
  by (auto intro!: frame steps_upd R_trans [OF R_started R_request] simp: context_free_def)

lemma frame_provider_request_loop [frame]:
  "steps_in R (provider_request_loop env turn_id turn_number k attempts)"
proof (induction "request_too_large_prune_max_attempts - attempts" arbitrary: attempts rule: less_induct)
  case less
  show ?case
    unfolding provider_request_loop.simps [of env turn_id turn_number k attempts]
    by (auto intro!: frame less diff_less_mono2 simp: not_le split: option.split)
qed

lemma frame_start_provider_request [frame]:
  "steps_in R (start_provider_request env turn_id turn_number k attempts)"
  unfolding start_provider_request_def by (rule steps_gets) (auto intro!: frame)

lemma frame_cancel_provider_request [frame]: "steps_in R (cancel_active_provider_request env reason b)"
  unfolding cancel_active_provider_request_def
  by (rule steps_gets) (auto intro!: frame steps_upd R_request simp: quiet_def context_free_def split: option.split)

lemma frame_wake_or_schedule [frame]: "steps_in R (wake_or_schedule_provider_supersede_if_needed env)"
  unfolding wake_or_schedule_provider_supersede_if_needed_def by (rule steps_gets) (auto intro!: frame)

lemma frame_emit_stream [frame]: "steps_in R (emit_provider_stream_event env i t k n event)"
  unfolding emit_provider_stream_event_def Let_def
  by (rule steps_gets) (auto intro!: frame simp: quiet_def split: provider_stream_event.split)

lemma frame_handle_stream [frame]: "steps_in R (handle_stream_event env active event)"
  unfolding handle_stream_event_def by (auto intro!: frame steps_upd R_request)

lemma frame_request_too_large [frame]: "steps_in R (handle_request_too_large env active error)"
  unfolding handle_request_too_large_def Let_def by (auto intro!: frame)

lemma frame_start_turn [frame]: "steps_in R (start_turn env turn_id turn_number)"
  unfolding start_turn_def by (auto intro!: frame simp: quiet_def)

lemma frame_run_turn [frame]: "steps_in R (run_turn_from_data_requests env requests)"
  unfolding run_turn_from_data_requests_def
  by (rule steps_gets) (auto intro!: frame steps_upd R_continuation)

lemma frame_continue_from_history [frame]: "steps_in R (continue_turn_from_history env)"
  unfolding continue_turn_from_history_def by (rule steps_gets) (auto intro!: frame)

lemma frame_continue_turn [frame]: "steps_in R (handle_continue_turn env reason)"
  unfolding handle_continue_turn_def
  by (rule steps_gets) (auto intro!: frame steps_upd R_continuation split: option.split pending_continuation.split)

lemma frame_finish_tool_batch [frame]: "steps_in R (finish_tool_batch env active result)"
  unfolding finish_tool_batch_def by (auto intro!: frame)

end

section \<open>Writes of the turn handlers\<close>

locale turn_frame = request_frame +
  assumes R_batch: "R s (s\<lparr>sa_active_tool_batch := b\<rparr>)"
    and R_pending: "R s (s\<lparr>sa_pending_data := ds\<rparr>)"
    and R_shutdown: "R s (s\<lparr>sa_shutdown := True\<rparr>)"
begin

lemma frame_tool_interrupt [frame]: "steps_in R (request_active_tool_interrupt env interrupt)"
  unfolding request_active_tool_interrupt_def
  by (rule steps_gets) (auto intro!: frame steps_upd R_batch simp: quiet_def split: option.split)

lemma frame_handle_cancel_turn [frame]: "steps_in R (handle_cancel_turn env reason)"
  unfolding handle_cancel_turn_def by (rule steps_gets) (auto intro!: frame)

lemma frame_run_tool_calls [frame]: "steps_in R (run_tool_calls env active tool_calls)"
  unfolding run_tool_calls_def Let_def
  by (auto intro!: frame steps_upd R_batch simp: quiet_def split: sum.split)

lemma frame_process_provider_message [frame]: "steps_in R (process_provider_message env active m)"
  unfolding process_provider_message_def Let_def by (auto intro!: frame)

lemma frame_provider_result [frame]: "steps_in R (handle_provider_result env active result)"
  unfolding handle_provider_result_def by (auto intro!: frame split: sum.split)

lemma frame_take_provider_result [frame]: "steps_in R (take_provider_result env active result)"
  unfolding take_provider_result_def by (auto intro!: frame steps_upd R_request)

lemma frame_handle_provider_event [frame]: "steps_in R (handle_provider_event env event)"
  unfolding handle_provider_event_def
  by (rule steps_gets) (auto intro!: frame split: option.split provider_event.split)

lemma frame_handle_internal_event [frame]: "steps_in R (handle_internal_event env event)"
  unfolding handle_internal_event_def
  by (cases event) (auto intro!: frame steps_upd R_active_timer split: option.split)

lemma frame_tool_completion [frame]: "steps_in R (handle_tool_completion_event env completion)"
  unfolding handle_tool_completion_event_def
  by (auto intro!: frame steps_upd R_batch split: option.split)

lemma frame_run_pending_data [frame]: "steps_in R (run_pending_data_if_idle env fallback)"
  unfolding run_pending_data_if_idle_def Let_def
  by (rule steps_gets) (auto intro!: frame steps_upd R_pending)

text \<open>The only request left out is the one that applies the initial configuration.\<close>

lemma frame_handle_control:
  assumes "\<And>initial. control \<noteq> Initial initial"
  shows "steps_in R (handle_control env control)"
  using assms unfolding handle_control_def
  by (auto intro!: frame steps_upd R_shutdown split: session_request.split)

lemma frame_handle_request:
  assumes "\<And>initial. request \<noteq> Initial initial"
  shows "steps_in R (handle_request_event env request)"
  unfolding handle_request_event_def
  by (auto intro!: frame frame_handle_control assms steps_upd R_pending split: session_mailbox_kind.split)

lemma frame_recv_one_event:
  assumes "\<And>initial. input \<noteq> RequestIn (Initial initial)"
  shows "steps_in R (recv_one_event env input)"
  using assms unfolding recv_one_event_def
  by (auto intro!: frame frame_handle_request split: actor_input.split)

lemma frame_recv_step:
  assumes "\<And>initial. input \<noteq> RequestIn (Initial initial)"
  shows "steps_in R (recv_step env input)"
  unfolding recv_step_def by (intro steps_bnd frame_recv_one_event assms frame_run_pending_data)

end

end
