(* ===== verification/Actor_Samples.thy ===== *)
theory Actor_Samples
  imports Actor_Turns
begin

text \<open>
  A concrete environment in which every service succeeds, and a run of the actor in it:
  the initial configuration is applied and a first message starts a turn. The properties
  of the actor that have hypotheses are instantiated here.
\<close>

section \<open>A sample environment\<close>

text \<open>Every service succeeds; used to instantiate the properties that have hypotheses.\<close>

definition sample_env :: actor_env where
  "sample_env =
     \<lparr>en_emit = \<lambda>_ _. None, en_now = \<lambda>n. n, en_time_millis = \<lambda>n. n, en_rfc3339 = \<lambda>_. ''now'',
      en_random = \<lambda>_. 0, en_fresh_ids = \<lambda>_ _. ''id'', en_restore_times = \<lambda>_ _. ''now'',
      en_provider = \<lambda>_ _. None, en_tool_start = \<lambda>_ b. Inr \<lparr>tbh_batch_id = tb_batch_id b\<rparr>,
      en_tool_op = \<lambda>_ _. None, en_provider_prompt = \<lambda>_ _. Inr None, en_compact_history = \<lambda>_ _. Inr None,
      en_send = \<lambda>_ _ _. Inl EmptyChoices, en_sleep = \<lambda>_ _. 0, en_bridge = None,
      en_workspace = \<lambda>_. Inr \<lparr>wf_identity = Absent, wf_user_meta = Absent, wf_ancestors = [], wf_skills = NoSkillRoot\<rparr>,
      en_ssh = \<lambda>_. \<lparr>sf_ssh_config_var = None, sf_home_var = None, sf_canonicalize = \<lambda>_. None, sf_read = \<lambda>_. None\<rparr>,
      en_try_provider_event = \<lambda>_. None, en_queued_progress = \<lambda>_. [], en_open_logger = \<lambda>_. None,
      en_open_store = \<lambda>_. None,
      en_store = \<lparr>sl_state_to_json = \<lambda>_. Inr [], sl_state_of_json = \<lambda>_. Inl [], sl_message_to_json = \<lambda>_. Inr [],
                  sl_index_to_json = \<lambda>_. Inr [], sl_io_error = \<lambda>_. None\<rparr>,
      en_json = \<lparr>from_str = \<lambda>_. None, to_string_pretty = \<lambda>_. None\<rparr>, en_hash = \<lambda>_. 0,
      en_compaction_mode = Summary, en_estimate = \<lambda>ms. Inr (length ms),
      en_estimate_normalized = \<lambda>ms. Inr \<lparr>te_text_tokens = length ms, te_multimodal_tokens = 0,
                                          te_reasoning_tokens = 0, te_total_tokens = length ms\<rparr>,
      en_build_estimator = \<lambda>_. None, en_parse_result = \<lambda>_. Inl [], en_parse_memory = \<lambda>_. None,
      en_build_catalog = \<lambda>_ _. Inr tool_catalog_new, en_system_prompt = \<lambda>_ _ _. ''prompt'',
      en_normalize_model = \<lambda>ms _. ms, en_normalize_provider = \<lambda>ms. ms, en_message_json = \<lambda>_. JNull,
      en_request_json = \<lambda>_. JNull, en_initial_json = \<lambda>_. JNull\<rparr>"

definition sample_actor :: session_actor where
  "sample_actor = (session_actor_new sample_model tool_catalog_new session_dir_empty)
     \<lparr>sa_initial := Some (session_initial_new ''s'' Foreground)\<rparr>"


section \<open>A run\<close>

definition sample_inputs :: "(bool \<times> actor_input) list" where
  "sample_inputs =
     [(False, RequestIn (Initial (session_initial_new ''s'' Foreground))),
      (False, RequestIn (EnqueueActorMessage (chat_message_new ''m'' User [])))]"

definition sample_run :: session_actor where
  "sample_run = snd (run_actor_loop sample_env sample_inputs
     (session_actor_new sample_model tool_catalog_new session_dir_empty))"

text \<open>Saving cannot fail in the sample environment; the disk is left unevaluated.\<close>

definition succeeds :: "('s, 'e, 'a) act \<Rightarrow> bool" where
  "succeeds m \<longleftrightarrow> (\<forall>s. \<exists>y. fst (m s) = Inr y)"

lemma succeeds_bnd: "succeeds m \<Longrightarrow> (\<And>x. succeeds (f x)) \<Longrightarrow> succeeds (bnd m f)"
  unfolding succeeds_def bnd_def by (metis (mono_tags, lifting) case_prod_beta old.sum.simps(6))

lemma succeeds_andthen: "succeeds m \<Longrightarrow> succeeds n \<Longrightarrow> succeeds (andthen m n)"
  by (simp add: andthen_def succeeds_bnd)

lemma succeeds_ok: "succeeds (okM x)"
  by (simp add: succeeds_def okM_def)

lemma succeeds_from_result: "r = Inr x \<Longrightarrow> succeeds (from_result r)"
  by (simp add: from_result_def succeeds_ok)

lemma succeeds_gets: "(\<And>s. succeeds (f s)) \<Longrightarrow> succeeds (gets f)"
  by (simp add: succeeds_def gets_def)

lemma succeeds_for_each: "(\<And>x. succeeds (f x)) \<Longrightarrow> succeeds (for_each f xs)"
  by (induction xs) (simp_all add: succeeds_ok succeeds_andthen)

lemma succeeds_io_op: "succeeds (io_op (en_store sample_env) what f)"
  by (simp add: succeeds_def io_op_def sample_env_def)

lemmas succeeds_rules = succeeds_bnd succeeds_andthen succeeds_ok succeeds_gets succeeds_for_each succeeds_io_op

lemma sample_store: "sl_state_to_json (en_store sample_env) st = Inr []"
  "sl_message_to_json (en_store sample_env) m = Inr []" "sl_index_to_json (en_store sample_env) i = Inr []"
  by (simp_all add: sample_env_def)

lemma succeeds_write_indexed: "succeeds (write_indexed_loop (en_store sample_env) path n ms index)"
  by (induction ms arbitrary: n index)
    (auto intro!: succeeds_rules succeeds_from_result sample_store simp: append_file_def Let_def)

lemma succeeds_save: "succeeds (save (en_store sample_env) st)"
  unfolding save_def fs_write_def write_messages_jsonl_def write_messages_jsonl_with_index_def create_file_def
    append_file_def flush_file_def
  by (intro succeeds_rules succeeds_write_indexed) (rule succeeds_from_result sample_store)+

lemma with_disk_save:
  "with_disk (save (en_store sample_env) st) s =
     (Inr (), s\<lparr>sa_disk := snd (save (en_store sample_env) st (sa_disk s))\<rparr>)"
proof -
  obtain y :: unit and d where "save (en_store sample_env) st (sa_disk s) = (Inr y, d)"
    using succeeds_save [of st] unfolding succeeds_def by (metis prod.collapse)
  then show ?thesis by (simp add: with_disk_def)
qed

lemma sample_metadata:
  "\<exists>st'. initialize_from_workspace (en_json sample_env) (en_hash sample_env)
     \<lparr>wf_identity = Absent, wf_user_meta = Absent, wf_ancestors = [], wf_skills = NoSkillRoot\<rparr> a w b st = Inr st'"
  by (simp add: initialize_from_workspace_def load_workspace_runtime_metadata_def read_optional_workspace_file_def
      load_user_meta_snapshot_def load_user_memory_snapshot_def discover_workdir_root_def load_workspace_skills_def)

definition sample_ready :: "session_actor \<Rightarrow> bool" where
  "sample_ready s \<longleftrightarrow> (\<exists>st d. s = (session_actor_new sample_model tool_catalog_new session_dir_empty)
     \<lparr>sa_tool_catalog := tool_catalog_new, sa_runtime_metadata_state := st, sa_state_store := True,
      sa_token_estimator := True, sa_io := 5, sa_initial := Some (session_initial_new ''s'' Foreground), sa_disk := d\<rparr>)"

lemma sample_load:
  assumes "sa_disk s = session_dir_empty"
  shows "\<exists>st. load_saved sample_env (session_initial_new ''s'' Foreground) s =
    (Inr (), s\<lparr>sa_runtime_metadata_state := st, sa_io := sa_io s + 3\<rparr>)"
proof -
  obtain st where st: "initialize_from_workspace (en_json sample_env) (en_hash sample_env)
     \<lparr>wf_identity = Absent, wf_user_meta = Absent, wf_ancestors = [], wf_skills = NoSkillRoot\<rparr>
     (remote_aliases_prompt_for_mode (en_ssh sample_env (sa_io s + 2)) Selectable) [] False (sa_runtime_metadata_state s) = Inr st"
    using sample_metadata by blast
  have ws: "en_workspace sample_env =
      (\<lambda>_. Inr \<lparr>wf_identity = Absent, wf_user_meta = Absent, wf_ancestors = [], wf_skills = NoSkillRoot\<rparr>)"
    by (simp add: sample_env_def)
  then show ?thesis
    using st assms by (cases s) (simp add: load_saved_def load_def session_dir_empty_def act_defs ask_def with_disk_def
        initialize_runtime_metadata_def read_workspace_def aliases_prompt_def ws
        session_initial_new_def workspace_prompt_def eval_nat_numeral)
qed

lemma sample_initial:
  "\<exists>s. handle_initial sample_env (session_initial_new ''s'' Foreground)
     (session_actor_new sample_model tool_catalog_new session_dir_empty) = (Inr (), s) \<and> sample_ready s"
proof -
  let ?new = "session_actor_new sample_model tool_catalog_new session_dir_empty"
  obtain st where st: "load_saved sample_env (session_initial_new ''s'' Foreground)
      (?new\<lparr>sa_io := Suc (Suc 0), sa_tool_catalog := tool_catalog_new\<rparr>) =
      (Inr (), ?new\<lparr>sa_io := 5, sa_tool_catalog := tool_catalog_new, sa_runtime_metadata_state := st\<rparr>)"
    using sample_load [of "?new\<lparr>sa_io := Suc (Suc 0), sa_tool_catalog := tool_catalog_new\<rparr>"]
    by (auto simp: session_actor_new_def)
  have env: "en_open_logger sample_env = (\<lambda>_. None)" "en_open_store sample_env = (\<lambda>_. None)"
    "en_build_catalog sample_env = (\<lambda>_ _. Inr tool_catalog_new)" "en_build_estimator sample_env = (\<lambda>_. None)"
    by (simp_all add: sample_env_def)
  have new: "sa_initial ?new = None" "sa_io ?new = 0" "sa_history ?new = []" "sa_all_messages ?new = []"
    by (simp_all add: session_actor_new_def)
  have "si_compression_threshold_tokens (session_initial_new ''s'' Foreground) = None"
    by (simp add: session_initial_new_def)
  with st show ?thesis
    by (simp add: handle_initial_def act_defs ask_def fail_with_def build_estimator_def env new
        active_compression_threshold_tokens_def build_session_compressor_def
        persist_state_def announce_unfinished_turn_def Let_def with_disk_save restored_history_needs_continuation_def sample_ready_def)
      (intro exI [of _ st] exI, simp add: session_actor_new_def)
qed

lemma sample_turn:
  assumes "sample_ready s"
  shows "\<exists>rq s'. recv_step sample_env (RequestIn (EnqueueActorMessage (chat_message_new ''m'' User []))) s =
     (Inr WaitingProviderRequest, s') \<and> sa_provider_log s' = [CallSet rq, CallStart ''turn_1_provider_0_0''] \<and>
     prq_reset_incremental_context rq \<and> length (prq_messages rq) = 1"
proof -
  have id: "message_id_has_all_messages_index ''m'' = False"
    by (simp add: message_id_has_all_messages_index_def strip_prefix_def starts_with_def)
  have nums: "show_nat (Suc 0) = ''1''" "show_nat 0 = ''0''"
    by code_simp+
  note start_provider_request_eval = start_provider_request_def provider_request_loop.simps
    repair_unclosed_tool_calls_before_provider_request_def system_prompt_for_current_initial_def
    provider_request_token_estimate_def sample_model_def current_provider_history_def oversized_estimate_def
    send_provider_request_def sync_provider_context_def incremental_suffix_def provider_do_def set_provider_context_def
    schedule_provider_supersede_grace_event_if_needed_def provider_supersede_grace_remaining_def
    has_pending_user_message_def provider_request_id_def provider_request_for_def cached_context_token_estimate_def
  have [simp]: "en_emit sample_env = (\<lambda>_ _. None)" "en_provider sample_env = (\<lambda>_ _. None)"
      "en_provider_prompt sample_env = (\<lambda>_ _. Inr None)" "en_estimate_normalized sample_env = (\<lambda>ms. Inr \<lparr>te_text_tokens = length ms, te_multimodal_tokens = 0,
                                          te_reasoning_tokens = 0, te_total_tokens = length ms\<rparr>)"
       "en_normalize_model sample_env = (\<lambda>ms _. ms)"  "en_normalize_provider sample_env = (\<lambda>ms. ms)"
    by (simp_all add: sample_env_def)
  obtain st d where s: "s = (session_actor_new sample_model tool_catalog_new session_dir_empty)
     \<lparr>sa_tool_catalog := tool_catalog_new, sa_runtime_metadata_state := st, sa_state_store := True,
      sa_token_estimator := True, sa_io := 5, sa_initial := Some (session_initial_new ''s'' Foreground), sa_disk := d\<rparr>"
    using assms by (auto simp: sample_ready_def)
  show ?thesis
    by (simp add: s session_actor_new_def recv_step_def recv_one_event_def handle_request_event_def act_defs
        is_user_request_def step_when_waiting_def run_pending_data_if_idle_def Let_def
        run_turn_from_data_requests_def allocate_turn_id_def append_inputs_def append_input_def
        append_history_message_def ensure_indexed_id_def ask_def store_message_def push_history_def
        persist_state_if_history_closed_def persist_state_def with_disk_save announce_messages_from_def
        start_turn_def emit_def message_appended_def or_finish_turn_error_def count_unclosed_tool_calls_def
        collect_unclosed_tool_calls_def start_provider_request_eval id nums with_turn_metadata_def chat_message_new_def)
qed

text \<open>The provider was given the message as its context and was asked to start.\<close>

lemma sample_run_log:
  "\<exists>rq. sa_provider_log sample_run = [CallSet rq, CallStart ''turn_1_provider_0_0''] \<and>
     prq_reset_incremental_context rq \<and> length (prq_messages rq) = 1"
proof -
  let ?new = "session_actor_new sample_model tool_catalog_new session_dir_empty"
  let ?i = "session_initial_new ''s'' Foreground"
  obtain s where s: "handle_initial sample_env ?i ?new = (Inr (), s)" "sample_ready s"
    using sample_initial by blast
  then have "sa_pending_data s = []" "\<not> sa_shutdown s" by (auto simp: sample_ready_def session_actor_new_def)
  with s(1) have "recv_step sample_env (RequestIn (Initial ?i)) ?new = (Inr ProcessedControl, s)"
    by (simp add: recv_step_def recv_one_event_def handle_request_event_def handle_control_def act_defs
        run_pending_data_if_idle_def)
  then show ?thesis
    using sample_turn [OF s(2)] by (auto simp: sample_run_def sample_inputs_def)
qed

end
