(* ===== verification/Actor_Invariants.thy ===== *)
theory Actor_Invariants
  imports Actor_Frames Actor_Samples
begin

text \<open>
  Invariants of the session actor over whole runs of the agent server's loop: the
  interpretations of the frame contracts, the reachable states, and the properties that
  every sequence of inputs keeps.
\<close>

section \<open>Guarantees from a precondition\<close>

text \<open>\<open>ensures P m Q\<close>: started where \<open>P\<close> holds, \<open>m\<close> ends where \<open>Q\<close> holds, whatever its outcome.\<close>

definition ensures :: "('s \<Rightarrow> bool) \<Rightarrow> ('s, 'e, 'a) act \<Rightarrow> ('s \<Rightarrow> bool) \<Rightarrow> bool" where
  "ensures P m Q \<longleftrightarrow> (\<forall>s. P s \<longrightarrow> Q (snd (m s)))"

lemma ensures_frame: "steps_in R m \<Longrightarrow> (\<And>s s'. P s \<Longrightarrow> R s s' \<Longrightarrow> Q s') \<Longrightarrow> ensures P m Q"
  by (auto simp: ensures_def dest: steps_inD)

lemma ensuresI: "(\<And>s. P s \<Longrightarrow> Q (snd (m s))) \<Longrightarrow> ensures P m Q"
  by (simp add: ensures_def)

lemma ensures_at: "ensures P m Q \<Longrightarrow> P s \<Longrightarrow> Q (snd (m s))"
  by (simp add: ensures_def)

lemma ensuresD: "ensures P m Q \<Longrightarrow> P s \<Longrightarrow> m s = (r, s') \<Longrightarrow> Q s'"
  by (metis ensures_def snd_conv)

lemma ensures_bnd:
  assumes "ensures P m P'" and "\<And>s. P' s \<Longrightarrow> Q s" and "\<And>x. ensures P' (f x) Q"
  shows "ensures P (bnd m f) Q"
  using assms by (auto simp: ensures_def bnd_def split: prod.split sum.split)

lemma ensures_andthen:
  "ensures P m P' \<Longrightarrow> (\<And>s. P' s \<Longrightarrow> Q s) \<Longrightarrow> ensures P' n Q \<Longrightarrow> ensures P (andthen m n) Q"
  by (auto simp: andthen_def intro: ensures_bnd)

lemma ensures_gets: "(\<And>s. P s \<Longrightarrow> ensures (\<lambda>t. t = s) (f s) Q) \<Longrightarrow> ensures P (gets f) Q"
  by (simp add: ensures_def gets_def)

lemma ensures_upd: "(\<And>s. P s \<Longrightarrow> Q (f s)) \<Longrightarrow> ensures P (upd f) Q"
  by (simp add: ensures_def upd_def)

lemma ensures_weaken: "ensures P' m Q' \<Longrightarrow> (\<And>s. P s \<Longrightarrow> P' s) \<Longrightarrow> (\<And>s. Q' s \<Longrightarrow> Q s) \<Longrightarrow> ensures P m Q"
  by (simp add: ensures_def)

lemma ensures_attempt: "ensures P m Q \<Longrightarrow> ensures P (attempt m) Q"
  by (simp add: ensures_def attempt_def case_prod_beta)

lemma ensures_ok: "(\<And>s. P s \<Longrightarrow> Q s) \<Longrightarrow> ensures P (okM x) Q"
  by (simp add: ensures_def okM_def)

lemma ensures_err: "(\<And>s. P s \<Longrightarrow> Q s) \<Longrightarrow> ensures P (errM e) Q"
  by (simp add: ensures_def errM_def)

section \<open>Relations\<close>

definition running :: "session_actor \<Rightarrow> active_provider_request option \<times> active_tool_batch option" where
  "running s = (sa_active_provider_request s, sa_active_tool_batch s)"

definition idle :: "session_actor \<Rightarrow> bool" where
  "idle s \<longleftrightarrow> running s = (None, None)"

definition exclusive :: "session_actor \<Rightarrow> bool" where
  "exclusive s \<longleftrightarrow> sa_active_provider_request s = None \<or> sa_active_tool_batch s = None"

text \<open>
  Growth: the initial configuration stays, the transcript and the logs are only extended,
  the new events announce entries that are there, the counters do not fall.
\<close>

definition grows :: "session_actor \<Rightarrow> session_actor \<Rightarrow> bool" where
  "grows s s' \<longleftrightarrow>
     sa_initial s' = sa_initial s \<and> prefix (sa_all_messages s) (sa_all_messages s') \<and>
     (\<exists>es. sa_emitted s' = sa_emitted s @ es \<and> list_all (announce_ok (sa_all_messages s')) es) \<and>
     prefix (sa_provider_log s) (sa_provider_log s') \<and> prefix (sa_tool_log s) (sa_tool_log s') \<and>
     prefix (sa_timers s) (sa_timers s') \<and>
     min (sa_next_turn_id s) u64_max \<le> sa_next_turn_id s' \<and>
     min (sa_next_batch_id s) u64_max \<le> sa_next_batch_id s'"

lemma grows_trans: "grows s t \<Longrightarrow> grows t u \<Longrightarrow> grows s u"
proof -
  assume st: "grows s t" and tu: "grows t u"
  obtain es fs where "sa_emitted t = sa_emitted s @ es" "list_all (announce_ok (sa_all_messages t)) es"
    and "sa_emitted u = sa_emitted t @ fs" "list_all (announce_ok (sa_all_messages u)) fs"
    using st tu by (auto simp: grows_def)
  moreover have "list_all (announce_ok (sa_all_messages u)) es"
    using calculation(2) tu by (auto simp: grows_def list_all_iff intro: announce_ok_prefix)
  ultimately have "\<exists>gs. sa_emitted u = sa_emitted s @ gs \<and> list_all (announce_ok (sa_all_messages u)) gs"
    by (intro exI [of _ "es @ fs"]) simp
  then show ?thesis using st tu unfolding grows_def
    by (auto intro: prefix_order.trans simp: min_def split: if_splits)
qed

interpretation growth: turn_frame grows
proof unfold_locales
  show "grows s t \<Longrightarrow> grows t u \<Longrightarrow> grows s u" for s t u by (rule grows_trans)
  show "announce_ok (sa_all_messages s) e \<Longrightarrow> grows s (s\<lparr>sa_emitted := sa_emitted s @ [e]\<rparr>)" for s e
    by (simp add: grows_def)
qed (auto simp: grows_def saturating_add_def min_def)

text \<open>What is running stays, or at least the tool batch stays.\<close>

interpretation same_running: append_frame "\<lambda>s s'. running s' = running s"
  by unfold_locales (simp_all add: running_def)

interpretation same_batch: request_frame "\<lambda>s s'. sa_active_tool_batch s' = sa_active_tool_batch s"
  by unfold_locales simp_all

lemma ensures_idle: "steps_in (\<lambda>s s'. running s' = running s) m \<Longrightarrow> ensures idle m idle"
  by (erule ensures_frame) (auto simp: idle_def)

lemma ensures_no_batch:
  "steps_in (\<lambda>s s'. sa_active_tool_batch s' = sa_active_tool_batch s) m \<Longrightarrow>
     ensures (\<lambda>s. sa_active_tool_batch s = None) m exclusive"
  by (erule ensures_frame) (auto simp: exclusive_def)

lemma ensures_exclusive: "steps_in (\<lambda>s s'. running s' = running s) m \<Longrightarrow> ensures exclusive m exclusive"
  by (erule ensures_frame) (auto simp: exclusive_def running_def)

lemma idle_exclusive: "idle s \<Longrightarrow> exclusive s"
  by (simp add: idle_def exclusive_def running_def)

lemma idle_no_batch: "idle s \<Longrightarrow> sa_active_tool_batch s = None"
  by (simp add: idle_def running_def)

lemma ensures_start: "steps_in (\<lambda>s s'. sa_active_tool_batch s' = sa_active_tool_batch s) m \<Longrightarrow> ensures idle m exclusive"
  by (rule ensures_weaken [OF ensures_no_batch]) (auto dest: idle_no_batch)

section \<open>One thing at a time\<close>

lemmas running_frames = same_running.frame_build_tool_batch same_running.frame_start_tool_batch
  same_running.frame_fresh_message_id same_running.frame_stamp_now same_running.frame_append_and_announce
  same_running.frame_finish_turn same_running.frame_ask same_running.frame_completion_message
  same_running.frame_mark_loaded_skills same_running.frame_mark_turn_returned same_running.frame_tool_do
  same_running.frame_disarm same_running.frame_step_when_waiting

lemma run_tool_calls_exclusive: "ensures idle (run_tool_calls env active tool_calls) exclusive"
proof -
  have announce: "ensures idle (gets (\<lambda>s. emit env (Progress t (sa_current_plan s)))) idle" for t
    by (rule ensures_idle) (auto intro!: same_running.steps_gets same_running.frame_emit simp: quiet_def)
  have failed: "ensures idle
      (bnd (fresh_message_id env) (\<lambda>i. bnd (stamp_now env (m i)) (\<lambda>tm. bnd (append_and_announce env ph tm)
         (\<lambda>_. start_provider_request env a b c d)))) exclusive" for m ph a b c d
    by (intro ensures_bnd [where P' = idle] ensures_idle running_frames idle_exclusive)
      (assumption | rule ensures_start same_batch.frame_start_provider_request)+
  have started: "ensures idle (bnd (ask g) (\<lambda>x. upd (\<lambda>s. s\<lparr>sa_active_tool_batch := b x\<rparr>))) exclusive" for g b
    by (rule ensures_bnd [where P' = idle])
      (auto intro!: ensures_idle running_frames ensures_upd simp: idle_def running_def exclusive_def)
  show ?thesis
    unfolding run_tool_calls_def Let_def
    by (intro ensures_bnd [where P' = idle] ensures_andthen [where P' = idle] ensures_idle running_frames
        announce idle_exclusive; assumption?) (auto split: sum.split intro: failed started)
qed

lemma process_provider_message_exclusive: "ensures idle (process_provider_message env active m) exclusive"
  unfolding process_provider_message_def Let_def
  by (intro ensures_bnd [where P' = idle] ensures_idle running_frames idle_exclusive; assumption?)
    (auto intro: run_tool_calls_exclusive ensures_weaken [OF ensures_idle] same_running.frame_finish_turn
      simp: idle_exclusive)

lemma handle_provider_result_exclusive: "ensures idle (handle_provider_result env active result) exclusive"
  unfolding handle_provider_result_def
  by (auto split: sum.split intro: process_provider_message_exclusive ensures_start
      same_batch.frame_request_too_large same_batch.frame_provider_failure)

lemma ensures_then_step: "ensures P m exclusive \<Longrightarrow> ensures P (andthen m (step_when_waiting x)) exclusive"
  by (rule ensures_andthen [where P' = exclusive]) (auto intro: ensures_exclusive running_frames)

lemma ensures_idle_then:
  "steps_in (\<lambda>s s'. running s' = running s) m \<Longrightarrow> ensures idle n exclusive \<Longrightarrow> ensures idle (andthen m n) exclusive"
  by (rule ensures_andthen [where P' = idle]) (auto intro: ensures_idle idle_exclusive)

lemma ensures_upd_then:
  "(\<And>s. P s \<Longrightarrow> P' (f s)) \<Longrightarrow> (\<And>s. P' s \<Longrightarrow> Q s) \<Longrightarrow> ensures P' n Q \<Longrightarrow> ensures P (andthen (upd f) n) Q"
  by (rule ensures_andthen [where P' = P']) (auto intro: ensures_upd)

lemma take_provider_result_exclusive:
  "ensures (\<lambda>s. sa_active_tool_batch s = None) (take_provider_result env active result) exclusive"
proof -
  have "ensures idle (andthen (handle_provider_result env active result) (step_when_waiting ProcessedData)) exclusive"
    by (rule ensures_then_step) (rule handle_provider_result_exclusive)
  then have "ensures idle (andthen disarm_provider_supersede_grace_event
      (andthen (handle_provider_result env active result) (step_when_waiting ProcessedData))) exclusive"
    by (rule ensures_idle_then [OF same_running.frame_disarm])
  then show ?thesis
    unfolding take_provider_result_def
    by (rule ensures_upd_then [where P' = idle, rotated 2]) (auto simp: idle_def running_def exclusive_def)
qed

lemma handle_provider_event_exclusive: "ensures exclusive (handle_provider_event env event) exclusive"
proof (rule ensuresI)
  fix s assume ex: "exclusive s"
  show "exclusive (snd (handle_provider_event env event s))"
  proof (cases "sa_active_provider_request s")
    case None
    then show ?thesis using ex by (simp add: handle_provider_event_def gets_def okM_def)
  next
    case (Some active)
    then have nb: "sa_active_tool_batch s = None" using ex by (simp add: exclusive_def)
    have stream: "exclusive (snd (andthen (when_act b (handle_stream_event env active e)) (okM x) s))" for b e x
      by (rule ensures_at [OF ensures_no_batch])
        (auto intro!: same_batch.steps_andthen same_batch.steps_when same_batch.frame_handle_stream
          same_batch.steps_ok nb)
    have retry: "exclusive (snd (andthen (wake_or_schedule_provider_supersede_if_needed env) (okM x) s))" for x
      by (rule ensures_at [OF ensures_no_batch])
        (auto intro!: same_batch.steps_andthen same_batch.frame_wake_or_schedule same_batch.steps_ok nb)
    have taken: "exclusive (snd (take_provider_result env active r s))" for r
      by (rule ensures_at [OF take_provider_result_exclusive]) (rule nb)
    show ?thesis
      using Some ex stream retry taken
      by (cases event) (auto simp: handle_provider_event_def gets_def okM_def)
  qed
qed

lemma wake_exclusive: "ensures exclusive (wake_or_schedule_provider_supersede_if_needed env) exclusive"
proof (rule ensuresI)
  fix s assume ex: "exclusive s"
  show "exclusive (snd (wake_or_schedule_provider_supersede_if_needed env s))"
  proof (cases "sa_active_provider_request s")
    case None
    then show ?thesis using ex
      by (simp add: wake_or_schedule_provider_supersede_if_needed_def gets_def okM_def)
  next
    case (Some active)
    then have "sa_active_tool_batch s = None" using ex by (simp add: exclusive_def)
    with ensures_no_batch [OF same_batch.frame_wake_or_schedule] show ?thesis by (rule ensures_at)
  qed
qed

lemma handle_internal_event_exclusive: "ensures exclusive (handle_internal_event env event) exclusive"
proof (rule ensuresI)
  fix s assume ex: "exclusive s"
  obtain timer_id where event: "event = ProviderSupersedeGraceElapsed timer_id" by (cases event)
  have woken: "ensures exclusive (case pe of
        Some e \<Rightarrow> handle_provider_event env e
      | None \<Rightarrow> andthen (wake_or_schedule_provider_supersede_if_needed env) (step_when_waiting Idle)) exclusive" for pe
    by (auto split: option.split intro: handle_provider_event_exclusive ensures_then_step wake_exclusive)
  have "ensures exclusive (andthen (upd (\<lambda>s. s\<lparr>sa_active_timer_id := None\<rparr>))
      (bnd (ask (en_try_provider_event env)) (\<lambda>pe. case pe of
        Some e \<Rightarrow> handle_provider_event env e
      | None \<Rightarrow> andthen (wake_or_schedule_provider_supersede_if_needed env) (step_when_waiting Idle)))) exclusive"
  proof (rule ensures_upd_then [where P' = exclusive])
    show "ensures exclusive (bnd (ask (en_try_provider_event env)) (\<lambda>pe. case pe of
        Some e \<Rightarrow> handle_provider_event env e
      | None \<Rightarrow> andthen (wake_or_schedule_provider_supersede_if_needed env) (step_when_waiting Idle))) exclusive"
      by (rule ensures_bnd [where P' = exclusive])
        (simp_all only: ensures_exclusive [OF same_running.frame_ask] woken)
  qed (simp_all add: exclusive_def)
  from ensures_at [OF this ex] show "exclusive (snd (handle_internal_event env event s))"
    using ex by (simp add: handle_internal_event_def event gets_def okM_def)
qed

lemma finish_tool_batch_exclusive: "ensures idle (finish_tool_batch env active result) exclusive"
  by (intro ensures_start same_batch.frame_finish_tool_batch)

lemma handle_tool_completion_exclusive: "ensures exclusive (handle_tool_completion_event env completion) exclusive"
  unfolding handle_tool_completion_event_def
proof (rule ensures_andthen [OF ensures_exclusive [OF same_running.frame_drain]])
  have taken: "ensures (\<lambda>s. sa_active_provider_request s = None)
      (andthen (upd (\<lambda>s. s\<lparr>sa_active_tool_batch := None\<rparr>)) (finish_tool_batch env active r)) exclusive" for active r
    by (rule ensures_upd_then [where P' = idle]) (auto intro: finish_tool_batch_exclusive idle_exclusive
        simp: idle_def running_def)
  show "ensures exclusive (gets (\<lambda>s.
          case sa_active_tool_batch s of
            None \<Rightarrow> okM Idle
          | Some active \<Rightarrow>
              (if tbc_batch_id completion \<noteq> tbh_batch_id (atb_handle active)
               then errM (Tool (''unexpected tool batch completion '' @ tbc_batch_id completion
                                @ '', expected '' @ tbh_batch_id (atb_handle active)))
               else
                 andthen (upd (\<lambda>s. s\<lparr>sa_active_tool_batch := None\<rparr>))
                   (finish_tool_batch env active (tbc_result completion))))) exclusive"
    by (rule ensures_gets)
      (auto split: option.split intro: ensures_ok ensures_err ensures_weaken [OF taken] simp: exclusive_def)
qed simp

lemma run_turn_exclusive:
  "ensures idle (run_turn_from_data_requests env requests) exclusive"
  "ensures idle (continue_turn_from_history env) exclusive"
  by (intro ensures_start same_batch.frame_run_turn same_batch.frame_continue_from_history)+

lemma run_pending_data_exclusive: "ensures exclusive (run_pending_data_if_idle env fallback) exclusive"
proof (rule ensuresI)
  fix s assume ex: "exclusive s"
  have turn: "ensures idle (andthen (upd (\<lambda>s. s\<lparr>sa_pending_data := []\<rparr>))
      (if b then errM e else andthen (run_turn_from_data_requests env ds) (step_when_waiting x))) exclusive" for b e ds x
  proof (rule ensures_upd_then [where P' = idle])
    show "ensures idle (if b then errM e
        else andthen (run_turn_from_data_requests env ds) (step_when_waiting x)) exclusive"
      by (auto intro: ensures_err idle_exclusive ensures_then_step run_turn_exclusive)
  qed (simp_all add: idle_def running_def exclusive_def)
  show "exclusive (snd (run_pending_data_if_idle env fallback s))"
    using ex ensures_at [OF turn, of s]
    by (auto simp: run_pending_data_if_idle_def gets_def okM_def Let_def idle_def running_def)
qed

section \<open>Applying the initial configuration\<close>

text \<open>Nothing that runs, waits or has been said is touched; the events added announce no message.\<close>

definition initializes :: "session_actor \<Rightarrow> session_actor \<Rightarrow> bool" where
  "initializes s s' \<longleftrightarrow>
     running s' = running s \<and> sa_pending_data s' = sa_pending_data s \<and> sa_shutdown s' = sa_shutdown s \<and>
     sa_provider_log s' = sa_provider_log s \<and> sa_provider_context s' = sa_provider_context s \<and>
     sa_tool_log s' = sa_tool_log s \<and> sa_timers s' = sa_timers s \<and>
     (\<exists>es. sa_emitted s' = sa_emitted s @ es \<and> list_all quiet es)"

interpretation initializing: silent_frame initializes
proof unfold_locales
  show "initializes s t \<Longrightarrow> initializes t u \<Longrightarrow> initializes s u" for s t u
    by (force simp: initializes_def)
qed (simp_all add: initializes_def running_def)

lemma initializing_emit: "quiet e \<Longrightarrow> steps_in initializes (emit env e)"
  unfolding emit_def
  by (rule initializing.steps_bnd)
    (auto intro!: initializing.frame_ask initializing.steps_err initializing.steps_upd
      simp: initializes_def running_def split: option.split)

lemma initializing_restore: "steps_in initializes (restore_persisted_state env saved initial)"
  unfolding restore_persisted_state_def
  by (intro initializing.steps_bnd initializing.frame_ask initializing.steps_andthen initializing.steps_gets)
    (auto intro!: initializing.steps_upd initializing.frame_initialize_metadata simp: initializes_def running_def)

lemma initializing_load_saved: "steps_in initializes (load_saved env initial)"
  unfolding load_saved_def
  by (intro initializing.steps_bnd initializing.frame_ask initializing.frame_with_disk)
    (auto intro: initializing_restore initializing.frame_initialize_metadata split: option.split)

lemma initializing_announce: "steps_in initializes (announce_unfinished_turn env)"
  unfolding announce_unfinished_turn_def emit_turn_failed_def
  by (intro initializing.steps_gets initializing.steps_when initializing.steps_andthen initializing.steps_upd
      initializing_emit) (auto simp: initializes_def running_def quiet_def)

lemma initializing_handle_initial: "steps_in initializes (handle_initial env initial)"
  unfolding handle_initial_def control_rejected_def fail_with_def build_estimator_def Let_def
  by (auto intro!: frame initializing_load_saved initializing_announce initializing_emit initializing.steps_upd
      simp: initializes_def running_def quiet_def split: option.split sum.split)

section \<open>Exclusivity over a run\<close>

lemma initializes_exclusive: "initializes s s' \<Longrightarrow> exclusive s \<Longrightarrow> exclusive s'"
  by (auto simp: initializes_def exclusive_def running_def)

lemma interrupt_exclusive: "ensures exclusive (request_active_tool_interrupt env interrupt) exclusive"
proof (rule ensuresI)
  fix s assume ex: "exclusive s"
  show "exclusive (snd (request_active_tool_interrupt env interrupt s))"
  proof (cases "sa_active_tool_batch s")
    case None
    then show ?thesis
      using ensures_at [OF ensures_exclusive [OF same_running.frame_emits(5)] ex]
      by (simp add: request_active_tool_interrupt_def gets_def)
  next
    case (Some active)
    let ?free = "\<lambda>s. sa_active_provider_request s = None"
    have free: "?free s" using ex Some by (simp add: exclusive_def)
    have keep: "steps_in (\<lambda>s s'. running s' = running s) m \<Longrightarrow> ensures ?free m ?free" for m :: "unit actor"
      by (erule ensures_frame) (auto simp: running_def)
    have "ensures ?free (andthen (tool_do env (OpInterrupt (atb_handle active)))
        (andthen (upd (\<lambda>s. s\<lparr>sa_active_tool_batch := b\<rparr>))
           (if c then okM () else gets (\<lambda>s. emit env (Progress m (sa_current_plan s)))))) ?free" for b c m
      by (rule ensures_andthen [where P' = ?free], rule keep, rule same_running.frame_tool_do, simp,
          rule ensures_upd_then [where P' = ?free], simp, simp, rule keep)
        (auto intro!: same_running.steps_gets same_running.frame_emit same_running.steps_ok simp: quiet_def)
    from ensures_at [OF this free] show ?thesis
      using Some ex free by (auto simp: request_active_tool_interrupt_def gets_def okM_def exclusive_def)
  qed
qed

lemma cancel_exclusive: "ensures exclusive (handle_cancel_turn env reason) exclusive"
proof (rule ensuresI)
  fix s assume ex: "exclusive s"
  show "exclusive (snd (handle_cancel_turn env reason s))"
  proof (cases "sa_active_provider_request s")
    case None
    then show ?thesis
      using ensures_at [OF interrupt_exclusive ex] by (simp add: handle_cancel_turn_def gets_def)
  next
    case (Some active)
    then have "sa_active_tool_batch s = None" using ex by (simp add: exclusive_def)
    from ensures_at [OF ensures_no_batch [OF same_batch.frame_cancel_provider_request] this] Some
    show ?thesis by (simp add: handle_cancel_turn_def gets_def)
  qed
qed

lemma continue_exclusive: "ensures exclusive (handle_continue_turn env reason) exclusive"
proof (rule ensuresI)
  fix s assume ex: "exclusive s"
  have reject: "exclusive (snd (control_rejected env a b s))" for a b
    by (rule ensures_at [OF ensures_exclusive [OF same_running.frame_emits(5)] ex])
  have turn: "ensures idle (andthen (upd (\<lambda>s. s\<lparr>sa_pending_continuation := None\<rparr>))
      (case c of CurrentHistory \<Rightarrow> continue_turn_from_history env
       | DataRequests requests \<Rightarrow> run_turn_from_data_requests env requests)) exclusive" for c
    by (rule ensures_upd_then [where P' = idle])
      (auto intro: idle_exclusive run_turn_exclusive split: pending_continuation.split simp: idle_def running_def)
  show "exclusive (snd (handle_continue_turn env reason s))"
    using ex reject ensures_at [OF turn, of s]
    by (auto simp: handle_continue_turn_def gets_def errM_def idle_def running_def split: option.splits)
qed

lemma handle_control_exclusive: "ensures exclusive (handle_control env control) exclusive"
proof -
  have keep: "steps_in (\<lambda>s s'. running s' = running s) m \<Longrightarrow> ensures exclusive m exclusive" for m :: "unit actor"
    by (rule ensures_exclusive)
  show ?thesis
    unfolding handle_control_def
    by (cases control)
      (auto intro: cancel_exclusive continue_exclusive keep ensures_upd same_running.frame_emits same_running.frame_queries
        same_running.frame_compact_now ensures_frame [OF initializing_handle_initial] initializes_exclusive
        simp: exclusive_def)
qed

lemma handle_request_exclusive: "ensures exclusive (handle_request_event env request) exclusive"
proof (cases "mailbox_kind request")
  case Control
  have done': "ensures exclusive (gets (\<lambda>s. okM (f s))) exclusive" for f :: "session_actor \<Rightarrow> session_actor_step"
    by (auto simp: ensures_def gets_def okM_def)
  show ?thesis
    unfolding handle_request_event_def Control session_mailbox_kind.case
    by (rule ensures_andthen [OF handle_control_exclusive _ done'])
next
  case Data
  have guarded: "ensures exclusive m exclusive \<Longrightarrow> ensures exclusive (gets (\<lambda>s. when_act (b s) m)) exclusive"
    for b and m :: "unit actor"
    by (auto simp: ensures_def gets_def when_act_def okM_def)
  have steps: "ensures exclusive (andthen (gets (\<lambda>s. when_act (b s) (request_active_tool_interrupt env i)))
      (andthen (gets (\<lambda>s. when_act (c s) (schedule_provider_supersede_grace_event_if_needed env)))
         (step_when_waiting x))) exclusive" for b c i x
    by (intro ensures_andthen [OF guarded [OF interrupt_exclusive]] ensures_then_step guarded ensures_exclusive
        same_running.frame_schedule)
  show ?thesis
    unfolding handle_request_event_def using Data steps
    by (auto intro!: ensures_upd_then [where P' = exclusive] simp: exclusive_def)
qed

lemma recv_step_exclusive: "ensures exclusive (recv_step env input) exclusive"
proof -
  have "ensures exclusive (recv_one_event env input) exclusive"
    unfolding recv_one_event_def
    by (cases input)
      (auto intro: handle_request_exclusive handle_tool_completion_exclusive handle_provider_event_exclusive
        handle_internal_event_exclusive ensures_err ensures_exclusive same_running.frame_tool_progress)
  then show ?thesis
    unfolding recv_step_def by (rule ensures_bnd) (auto intro: run_pending_data_exclusive)
qed

text \<open>
  The rule for runs: \<open>I\<close> holds before every step and after every successful one, \<open>J\<close>
  wherever the loop may end.
\<close>

lemma run_actor_loop_rule:
  assumes "\<And>s input r s'. I s \<Longrightarrow> recv_step env input s = (r, s') \<Longrightarrow> J s' \<and> (\<forall>x. r = Inr x \<longrightarrow> I s')"
    and "\<And>s. I s \<Longrightarrow> J s" and "I s"
  shows "J (snd (run_actor_loop env inputs s))"
  using assms(3)
proof (induction inputs arbitrary: s)
  case Nil
  then show ?case by (simp add: assms(2))
next
  case (Cons i inputs)
  obtain stop input where i: "i = (stop, input)" by fastforce
  obtain r s' where step: "recv_step env input s = (r, s')" by fastforce
  then show ?case
    using assms(1) [OF Cons.prems step] assms(2) Cons i
    by (cases r) (auto split: session_actor_step.split)
qed

text \<open>
  C1. The actor does one thing at a time: whatever requests, provider events, tool events and
  timers arrive in whatever order, and whatever the services answer, there is never a
  provider request and a tool batch in flight together, also not in the state a crash leaves
  behind.
\<close>

theorem provider_and_tools_exclusive:
  "sa_active_provider_request (snd (run_actor_loop env inputs (session_actor_new mc catalog disk))) = None \<or>
   sa_active_tool_batch (snd (run_actor_loop env inputs (session_actor_new mc catalog disk))) = None"
proof -
  have "exclusive (session_actor_new mc catalog disk)"
    by (simp add: exclusive_def session_actor_new_def)
  then have "exclusive (snd (run_actor_loop env inputs (session_actor_new mc catalog disk)))"
    by (rule run_actor_loop_rule [where I = exclusive, rotated 2])
      (use ensuresD [OF recv_step_exclusive] in blast)+
  then show ?thesis by (simp add: exclusive_def)
qed

section \<open>Before the initial configuration\<close>

definition blank :: "session_actor \<Rightarrow> bool" where
  "blank s \<longleftrightarrow> sa_initial s = None \<and> idle s \<and> sa_all_messages s = []"

definition stays_blank :: "session_actor \<Rightarrow> session_actor \<Rightarrow> bool" where
  "stays_blank s s' \<longleftrightarrow>
     (blank s \<longrightarrow> blank s' \<and> (\<exists>es. sa_emitted s' = sa_emitted s @ es \<and> list_all quiet es))"

lemma announce_ok_empty: "announce_ok [] e \<Longrightarrow> quiet e"
  by (cases e) (simp_all add: announce_ok_def quiet_def)

interpretation blank: core_frame stays_blank
proof unfold_locales
  show "stays_blank s t \<Longrightarrow> stays_blank t u \<Longrightarrow> stays_blank s u" for s t u
    by (force simp: stays_blank_def)
  show "announce_ok (sa_all_messages s) e \<Longrightarrow> stays_blank s (s\<lparr>sa_emitted := sa_emitted s @ [e]\<rparr>)" for s e
    by (auto simp: stays_blank_def blank_def idle_def running_def dest: announce_ok_empty)
qed (simp_all add: stays_blank_def blank_def idle_def running_def)

lemma blank_gets: "(\<And>s. blank s \<Longrightarrow> stays_blank s (snd (f s s))) \<Longrightarrow> steps_in stays_blank (gets f)"
  by (rule blank.steps_gets_at) (auto simp: stays_blank_def)

lemma blank_upd: "(\<And>s. blank s \<Longrightarrow> blank (f s) \<and> sa_emitted (f s) = sa_emitted s) \<Longrightarrow> steps_in stays_blank (upd f)"
  by (rule blank.steps_upd) (auto simp: stays_blank_def)

lemma blankD [dest]: "blank s \<Longrightarrow> sa_initial s = None" "blank s \<Longrightarrow> sa_active_provider_request s = None"
  "blank s \<Longrightarrow> sa_active_tool_batch s = None" "blank s \<Longrightarrow> sa_all_messages s = []"
  by (simp_all add: blank_def idle_def running_def)

lemma stays_blank_refl [simp]: "stays_blank s s"
  by (rule blank.R_refl)

lemma blank_provider_event: "steps_in stays_blank (handle_provider_event env event)"
  unfolding handle_provider_event_def by (rule blank_gets) (auto simp: okM_def)

lemma blank_wake: "steps_in stays_blank (wake_or_schedule_provider_supersede_if_needed env)"
  unfolding wake_or_schedule_provider_supersede_if_needed_def by (rule blank_gets) (auto simp: okM_def)

lemma blank_internal_event: "steps_in stays_blank (handle_internal_event env event)"
  unfolding handle_internal_event_def
  by (cases event) (auto intro!: frame blank_upd blank_wake blank_provider_event
      simp: blank_def idle_def running_def split: option.split)

lemma blank_completion: "steps_in stays_blank (handle_tool_completion_event env completion)"
  unfolding handle_tool_completion_event_def
  by (intro blank.steps_andthen blank.frame_drain blank_gets) (auto simp: okM_def)

lemma blank_interrupt: "steps_in stays_blank (request_active_tool_interrupt env interrupt)"
  unfolding request_active_tool_interrupt_def
proof (rule blank_gets)
  fix s assume "blank s"
  then have "sa_active_tool_batch s = None" by blast
  then show "stays_blank s (snd ((case sa_active_tool_batch s of
       None \<Rightarrow> control_rejected env ''no active interruptible turn''
                (JObject [(''command'', JString ''cancel_turn'')])
     | Some active \<Rightarrow>
         (if atb_interrupt active \<noteq> None then okM ()
          else
            andthen (tool_do env (OpInterrupt (atb_handle active)))
              (andthen (upd (\<lambda>s. s\<lparr>sa_active_tool_batch := Some (active\<lparr>atb_interrupt := Some interrupt\<rparr>)\<rparr>))
                 (if interrupt = SupersededByUserMessage then okM ()
                  else gets (\<lambda>s.
                    emit env (Progress (''interrupt requested for tool batch '' @ tbh_batch_id (atb_handle active))
                                (sa_current_plan s))))))) s))"
    using steps_inD [OF blank.frame_emits(5)] by simp
qed

lemma blank_cancel: "steps_in stays_blank (handle_cancel_turn env reason)"
  unfolding handle_cancel_turn_def
  by (rule blank_gets) (auto intro: steps_inD [OF blank_interrupt])

lemma blank_continue: "steps_in stays_blank (handle_continue_turn env reason)"
  unfolding handle_continue_turn_def by (rule blank_gets) (auto simp: errM_def)

lemma blank_run_pending: "steps_in stays_blank (run_pending_data_if_idle env fallback)"
  unfolding run_pending_data_if_idle_def run_turn_from_data_requests_def Let_def
  by (rule blank_gets) (auto simp: andthen_def bnd_def upd_def gets_def okM_def errM_def stays_blank_def
      blank_def idle_def running_def)

lemma blank_handle_control:
  assumes "\<And>initial. control \<noteq> Initial initial"
  shows "steps_in stays_blank (handle_control env control)"
  using assms unfolding handle_control_def
  by (cases control) (auto intro!: frame blank_cancel blank_continue blank_upd simp: blank_def idle_def running_def)

lemma blank_handle_request:
  assumes "\<And>initial. request \<noteq> Initial initial"
  shows "steps_in stays_blank (handle_request_event env request)"
  unfolding handle_request_event_def
  by (auto intro!: frame blank_interrupt blank_handle_control assms blank_upd
      simp: blank_def idle_def running_def split: session_mailbox_kind.split)

lemma blank_recv_step:
  assumes "\<And>initial. input \<noteq> RequestIn (Initial initial)"
  shows "steps_in stays_blank (recv_step env input)"
proof -
  have "steps_in stays_blank (recv_one_event env input)"
    using assms unfolding recv_one_event_def
    by (cases input) (auto intro!: frame blank_handle_request blank_completion blank_provider_event blank_internal_event)
  then show ?thesis unfolding recv_step_def by (rule blank.steps_bnd) (rule blank_run_pending)
qed

section \<open>The transcript over a run\<close>

lemma recv_step_grows:
  assumes "sa_initial s \<noteq> None" and "recv_step env input s = (r, s')"
  shows "grows s s'"
proof (cases "\<exists>initial. input = RequestIn (Initial initial)")
  case False
  then show ?thesis using steps_inE [OF growth.frame_recv_step assms(2)] by blast
next
  case True
  then obtain initial where input: "input = RequestIn (Initial initial)" by blast
  have "handle_initial env initial s =
      control_rejected env ''session initial has already been applied'' (en_initial_json env initial) s"
    using assms(1) by (simp add: handle_initial_def gets_def)
  then have run: "recv_step env input s =
      bnd (andthen (control_rejected env ''session initial has already been applied'' (en_initial_json env initial))
             (gets (\<lambda>s. okM (if sa_shutdown s then ShutdownStep else ProcessedControl))))
        (run_pending_data_if_idle env) s"
    by (simp add: input recv_step_def recv_one_event_def handle_request_event_def handle_control_def
        andthen_def bnd_def)
  have frame: "steps_in grows (bnd (andthen (control_rejected env a b)
      (gets (\<lambda>s. okM (if sa_shutdown s then ShutdownStep else ProcessedControl)))) (run_pending_data_if_idle env))" for a b
    by (auto intro!: growth.steps_bnd growth.steps_andthen growth.steps_gets growth.steps_ok growth.frame_emits
        growth.frame_run_pending_data)
  show ?thesis
    by (rule steps_inE [OF frame trans [OF run [symmetric] assms(2)]])
qed

text \<open>
  C2. The transcript is append-only: once the initial configuration is applied, no sequence of
  inputs changes or drops an entry of \<open>all_messages\<close> or an event already sent, changes the
  configuration, or lets the turn and batch counters fall (they saturate at the largest
  64-bit number), even when the history itself is compressed, pruned or repaired.
\<close>

theorem transcript_append_only:
  assumes "sa_initial s \<noteq> None" and "s' = snd (run_actor_loop env inputs s)"
  shows "prefix (sa_all_messages s) (sa_all_messages s') \<and> prefix (sa_emitted s) (sa_emitted s') \<and>
         sa_initial s' = sa_initial s \<and>
         min (sa_next_turn_id s) u64_max \<le> sa_next_turn_id s' \<and>
         min (sa_next_batch_id s) u64_max \<le> sa_next_batch_id s'"
proof -
  have "grows s (snd (run_actor_loop env inputs s))"
  proof (rule run_actor_loop_rule [where I = "grows s"])
    fix t input r t' assume st: "grows s t" and "recv_step env input t = (r, t')"
    moreover have "sa_initial t \<noteq> None" using st assms(1) by (simp add: grows_def)
    ultimately have "grows t t'" by (blast intro: recv_step_grows)
    then show "grows s t' \<and> (\<forall>x. r = Inr x \<longrightarrow> grows s t')" using grows_trans [OF st] by simp
  qed (simp_all add: growth.R_refl)
  then show ?thesis by (auto simp: assms(2) grows_def)
qed

theorem transcript_append_only_witness:
  "sa_initial sample_actor \<noteq> None \<and>
   prefix (sa_all_messages sample_actor) (sa_all_messages (snd (run_actor_loop sample_env sample_inputs sample_actor))) \<and>
   sa_next_turn_id sample_actor \<le> sa_next_turn_id (snd (run_actor_loop sample_env sample_inputs sample_actor))"
proof -
  have set: "sa_initial sample_actor \<noteq> None" and turn: "sa_next_turn_id sample_actor = 1"
    by (simp_all add: sample_actor_def session_actor_new_def)
  show ?thesis
    using transcript_append_only [OF set refl, of sample_env sample_inputs] set turn by (simp add: u64_max_def)
qed

definition announced :: "session_actor \<Rightarrow> bool" where
  "announced s \<longleftrightarrow> list_all (announce_ok (sa_all_messages s)) (sa_emitted s)"

definition announcing :: "session_actor \<Rightarrow> bool" where
  "announcing s \<longleftrightarrow> announced s \<and> (sa_initial s = None \<longrightarrow> blank s \<and> list_all quiet (sa_emitted s))"

lemma grows_announced: "grows s s' \<Longrightarrow> announced s \<Longrightarrow> announced s'"
  by (auto simp: grows_def announced_def list_all_iff intro: announce_ok_prefix)

lemma quiet_announced: "list_all quiet (sa_emitted s) \<Longrightarrow> announced s"
  by (auto simp: announced_def list_all_iff intro: quiet_announce_ok)

lemma handle_initial_sets:
  assumes "handle_initial env initial s = (Inr x, s')" and "sa_initial s = None"
  shows "sa_initial s' = Some initial"
proof -
  have announce: "steps_in grows (announce_unfinished_turn env)"
    unfolding announce_unfinished_turn_def
    by (auto intro!: growth.steps_andthen growth.steps_gets growth.steps_when
        growth.frame_emits growth.steps_upd growth.R_continuation)
  obtain t u v where t: "persist_state env t = (Inr (), u)" "announce_unfinished_turn env u = (v, s')"
    and set: "sa_initial t = Some initial"
    using assms by (auto simp: handle_initial_def gets_def Let_def bnd_ok andthen_ok upd_def)
  have "grows t s'"
    using steps_inE [OF growth.frame_persist_state t(1)] steps_inE [OF announce t(2)] by (rule grows_trans)
  then show ?thesis using set by (simp add: grows_def)
qed

lemma recv_initial_announcing:
  assumes inv: "announcing s" and none: "sa_initial s = None"
    and step: "recv_step env (RequestIn (Initial initial)) s = (r, s')"
  shows "announced s' \<and> (\<forall>x. r = Inr x \<longrightarrow> announcing s')"
proof -
  obtain r1 s1 where run: "handle_initial env initial s = (r1, s1)" by fastforce
  have "initializes s s1" using steps_inE [OF initializing_handle_initial run] .
  then have s1: "announced s1"
    using inv none by (auto simp: announcing_def initializes_def intro!: quiet_announced)
  show ?thesis
  proof (cases r1)
    case (Inl e)
    then have "r = Inl e" "s' = s1"
      using step run by (simp_all add: recv_step_def recv_one_event_def handle_request_event_def
          handle_control_def andthen_def bnd_def)
    then show ?thesis using s1 by simp
  next
    case (Inr u)
    then have "grows s1 s'"
      using step run steps_inE [OF growth.frame_run_pending_data]
      by (auto simp: recv_step_def recv_one_event_def handle_request_event_def
          handle_control_def andthen_def bnd_def gets_def okM_def)
    moreover have "sa_initial s1 = Some initial" using handle_initial_sets [OF _ none] run Inr by blast
    ultimately show ?thesis using grows_announced [of s1 s'] s1 by (simp add: announcing_def grows_def)
  qed
qed

lemma recv_step_announcing:
  assumes inv: "announcing s" and step: "recv_step env input s = (r, s')"
  shows "announced s' \<and> (\<forall>x. r = Inr x \<longrightarrow> announcing s')"
proof (cases "sa_initial s = None")
  case False
  then have g: "grows s s'" using recv_step_grows step by blast
  then have "sa_initial s' \<noteq> None" using False by (simp add: grows_def)
  then show ?thesis using inv grows_announced [OF g] by (auto simp: announcing_def)
next
  case none: True
  show ?thesis
  proof (cases "\<exists>initial. input = RequestIn (Initial initial)")
    case True
    then show ?thesis using recv_initial_announcing [OF inv none] step by blast
  next
    case False
    then have "stays_blank s s'" using steps_inE [OF blank_recv_step step] by blast
    then show ?thesis using inv none
      by (auto simp: stays_blank_def announcing_def intro!: quiet_announced)
  qed
qed

text \<open>
  C3. What is announced is in the transcript: after any run, every \<open>MessageAppended\<close> event that
  was sent carries the index of an entry of \<open>all_messages\<close> that has the announced content
  (everything but the message identifier), turn, step and part.
\<close>

theorem announcements_are_transcript_entries:
  "list_all (announce_ok (sa_all_messages (snd (run_actor_loop env inputs (session_actor_new mc catalog disk)))))
     (sa_emitted (snd (run_actor_loop env inputs (session_actor_new mc catalog disk))))"
proof -
  have "announcing (session_actor_new mc catalog disk)"
    by (simp add: announcing_def announced_def blank_def idle_def running_def session_actor_new_def)
  then have "announced (snd (run_actor_loop env inputs (session_actor_new mc catalog disk)))"
    by (intro run_actor_loop_rule [where I = announcing and J = announced] recv_step_announcing)
      (simp_all add: announcing_def)
  then show ?thesis by (simp add: announced_def)
qed

end
