(* ===== verification/Actor_Context.thy ===== *)
theory Actor_Context
  imports Actor_Invariants
begin

text \<open>
  The context of the provider session as the actor sees it. The actor keeps a copy of the
  request it last gave to the provider session and sends only what has to be appended; here
  the copy is compared with what the calls that were accepted add up to.
\<close>

section \<open>What the calls add up to\<close>

fun apply_call :: "provider_call \<Rightarrow> provider_request option \<Rightarrow> provider_request option" where
  "apply_call (CallSet request) context = Some request"
| "apply_call (CallAppend messages) context =
     map_option (\<lambda>c. c\<lparr>prq_messages := prq_messages c @ messages\<rparr>) context"
| "apply_call (CallStart request_id) context = context"
| "apply_call CallAbort context = context"

definition replay :: "provider_call list \<Rightarrow> provider_request option" where
  "replay calls = fold apply_call calls None"

text \<open>Equal but for the flag that asks the provider to drop its incremental state.\<close>

definition same_request :: "provider_request \<Rightarrow> provider_request \<Rightarrow> bool" where
  "same_request rq rq' \<longleftrightarrow>
     rq\<lparr>prq_reset_incremental_context := False\<rparr> = rq'\<lparr>prq_reset_incremental_context := False\<rparr>"

definition in_sync :: "session_actor \<Rightarrow> bool" where
  "in_sync s \<longleftrightarrow>
     rel_option same_request (sa_provider_context s) (replay (sa_provider_log s)) \<and>
     (\<forall>rq. replay (sa_provider_log s) = Some rq \<longrightarrow> prq_reset_incremental_context rq)"

lemma replay_Nil [simp]: "replay [] = None"
  by (simp add: replay_def)

lemma replay_snoc [simp]: "replay (calls @ [c]) = apply_call c (replay calls)"
  by (simp add: replay_def)

lemma apply_context_free [simp]: "context_free c \<Longrightarrow> apply_call c context = context"
  by (cases c) (simp_all add: context_free_def)

lemma same_request_iff:
  "same_request rq rq' \<longleftrightarrow>
     prq_system_prompt rq = prq_system_prompt rq' \<and> prq_messages rq = prq_messages rq' \<and> prq_tools rq = prq_tools rq' \<and>
     prq_image_edit_mask rq = prq_image_edit_mask rq' \<and> prq_image_size rq = prq_image_size rq'"
  by (cases rq; cases rq') (auto simp: same_request_def)

lemma extends_same_request:
  assumes "provider_request_envelope_matches existing rq" and "prq_messages rq = prq_messages existing @ ms"
    and "same_request existing c"
  shows "same_request rq (c\<lparr>prq_messages := prq_messages c @ ms\<rparr>)"
  using assms by (simp add: same_request_iff provider_request_envelope_matches_def)

lemma in_sync_append:
  assumes "in_sync s" and "extends_context s rq ms"
  shows "in_sync (s\<lparr>sa_provider_log := sa_provider_log s @ (if ms = [] then [] else [CallAppend ms]),
                    sa_provider_context := Some rq, sa_provider_context_turn_id := Some i\<rparr>)"
proof -
  obtain existing where ext: "sa_provider_context s = Some existing" "provider_request_envelope_matches existing rq"
    "prq_messages rq = prq_messages existing @ ms"
    using assms(2) by (auto simp: extends_context_def)
  then obtain c where c: "replay (sa_provider_log s) = Some c" "same_request existing c"
    using assms(1) by (auto simp: in_sync_def option_rel_Some1)
  have "same_request rq (c\<lparr>prq_messages := prq_messages c @ ms\<rparr>)"
    by (rule extends_same_request [OF ext(2,3) c(2)])
  then show ?thesis using assms(1) c by (auto simp: in_sync_def same_request_iff)
qed

section \<open>The copy is exact\<close>

interpretation synced: turn_frame "\<lambda>s s'. in_sync s \<longrightarrow> in_sync s'"
proof unfold_locales
  show "in_sync s \<longrightarrow> in_sync (s\<lparr>sa_provider_log := sa_provider_log s @ (if ms = [] then [] else [CallAppend ms]),
      sa_provider_context := Some rq, sa_provider_context_turn_id := Some i\<rparr>)"
    if "extends_context s rq ms" for s rq ms i
    using in_sync_append [OF _ that] by blast
  show "in_sync s \<longrightarrow> in_sync t \<Longrightarrow> in_sync t \<longrightarrow> in_sync u \<Longrightarrow> in_sync s \<longrightarrow> in_sync u" for s t u
    by blast
qed (simp_all add: in_sync_def same_request_def)

lemma recv_step_synced:
  assumes "in_sync s" and "recv_step env input s = (r, s')"
  shows "in_sync s'"
proof (cases "\<exists>initial. input = RequestIn (Initial initial)")
  case False
  then show ?thesis using steps_inE [OF synced.frame_recv_step assms(2)] assms(1) by blast
next
  case True
  then obtain initial where input: "input = RequestIn (Initial initial)" by blast
  obtain r1 s1 where run: "handle_initial env initial s = (r1, s1)" by fastforce
  have "initializes s s1" using steps_inE [OF initializing_handle_initial run] .
  then have "in_sync s1" using assms(1) by (simp add: initializes_def in_sync_def)
  then show ?thesis
    using assms(2) run steps_inE [OF synced.frame_run_pending_data]
    by (cases r1) (auto simp: input recv_step_def recv_one_event_def handle_request_event_def
        handle_control_def andthen_def bnd_def gets_def okM_def)
qed

lemma run_actor_loop_synced:
  "in_sync (snd (run_actor_loop env inputs (session_actor_new mc catalog disk)))"
proof (rule run_actor_loop_rule [where I = in_sync and J = in_sync])
  show "in_sync (session_actor_new mc catalog disk)" by (simp add: in_sync_def session_actor_new_def)
qed (blast intro: recv_step_synced)+

section \<open>The provider session\<close>

text \<open>
  The calls of a run of the provider session that came from the actor and succeeded.
  \<open>set\<close> and \<open>append\<close> wait for the answer; \<open>start_current\<close> and \<open>abort\<close> only put a
  command into the channel.
\<close>

definition accepted_call :: "provider_input \<Rightarrow> provider_session \<Rightarrow> provider_call list" where
  "accepted_call i s =
     (case i of
        Set_context request \<Rightarrow> (if fst (provider_session_step i s) = Some Done then [CallSet request] else [])
      | Append messages \<Rightarrow> (if fst (provider_session_step i s) = Some Done then [CallAppend messages] else [])
      | StartCurrent request_id _ \<Rightarrow> [CallStart request_id]
      | Abort \<Rightarrow> [CallAbort]
      | _ \<Rightarrow> [])"

fun accepted_calls :: "provider_input list \<Rightarrow> provider_session \<Rightarrow> provider_call list" where
  "accepted_calls [] s = []"
| "accepted_calls (i # inputs) s =
     (if psn_stopped s then []
      else accepted_call i s @ accepted_calls inputs (snd (provider_session_step i s)))"

lemma provider_session_step_context:
  "psn_context (snd (provider_session_step i s)) = fold apply_call (accepted_call i s) (psn_context s)"
  by (cases i) (auto simp: accepted_call_def push_event_def split: option.splits provider_event.splits)

lemma provider_session_run_context:
  "psn_context (provider_session_run inputs s) = fold apply_call (accepted_calls inputs s) (psn_context s)"
  by (induction inputs arbitrary: s) (simp_all add: provider_session_step_context)

text \<open>
  C5. The actor's copy refines the provider session: take any run of the actor and any run of
  the provider session thread (with its own failures, worker events and completions in
  between) whose accepted calls are the ones the actor made. Then the context the session
  thread holds is the one the actor believes it holds, message by message, in system prompt,
  tools and image options.
\<close>

theorem provider_context_refined:
  assumes "s' = snd (run_actor_loop env inputs (session_actor_new mc catalog disk))"
    and "accepted_calls provider_inputs provider_session_new = sa_provider_log s'"
  shows "rel_option same_request (sa_provider_context s')
           (psn_context (provider_session_run provider_inputs provider_session_new))"
  using run_actor_loop_synced [of env inputs mc catalog disk] assms
  by (simp add: provider_session_run_context provider_session_new_def in_sync_def replay_def)

theorem provider_context_refined_witness:
  "\<exists>rq. accepted_calls [Set_context rq, StartCurrent ''turn_1_provider_0_0'' None] provider_session_new =
          sa_provider_log sample_run \<and>
        rel_option same_request (sa_provider_context sample_run)
          (psn_context (provider_session_run [Set_context rq, StartCurrent ''turn_1_provider_0_0'' None]
             provider_session_new))"
proof -
  obtain rq where "sa_provider_log sample_run = [CallSet rq, CallStart ''turn_1_provider_0_0'']"
    using sample_run_log by blast
  then have calls: "accepted_calls [Set_context rq, StartCurrent ''turn_1_provider_0_0'' None] provider_session_new =
      sa_provider_log sample_run"
    by (simp add: accepted_call_def provider_session_new_def)
  show ?thesis
    by (rule exI [of _ rq]) (use calls provider_context_refined [OF sample_run_def calls] in blast)
qed

text \<open>
  The flag that makes a provider drop its incremental state is never lowered: in every such
  pair of runs the context of the provider session has \<open>reset_incremental_context\<close> set, also
  after an \<open>append\<close>, for which the actor itself assumes that it is not set.
\<close>

theorem reset_flag_never_lowered:
  assumes "s' = snd (run_actor_loop env inputs (session_actor_new mc catalog disk))"
    and "accepted_calls provider_inputs provider_session_new = sa_provider_log s'"
    and "psn_context (provider_session_run provider_inputs provider_session_new) = Some request"
  shows "prq_reset_incremental_context request"
  using run_actor_loop_synced [of env inputs mc catalog disk] assms
  by (simp add: provider_session_run_context provider_session_new_def in_sync_def replay_def)

end
