(* ===== verification/Actor_Properties.thy ===== *)
theory Actor_Properties
  imports Actor_Context
begin

text \<open>
  What the handlers of the session actor achieve: a request reaches the provider only with a
  history in which every tool call is answered, the mirrored provider context is what the
  provider session holds, accepted input is never lost, and the timing of a user message
  that supersedes a running request.
\<close>

section \<open>Requests are closed\<close>

text \<open>Steps on which the history, the model and the catalogue stay.\<close>

definition keeps_history :: "session_actor \<Rightarrow> session_actor \<Rightarrow> bool" where
  "keeps_history s s' \<longleftrightarrow> sa_history s' = sa_history s \<and> sa_model_config s' = sa_model_config s \<and>
     sa_tool_catalog s' = sa_tool_catalog s"

interpretation same_history: service_frame keeps_history
  by unfold_locales (simp_all add: keeps_history_def)

lemma keeps_history_emit: "steps_in keeps_history (emit env e)"
  unfolding emit_def
  by (rule same_history.steps_bnd)
    (auto intro!: frame same_history.steps_upd simp: keeps_history_def split: option.split)

lemma keeps_history_provider_do: "steps_in keeps_history (provider_do env c)"
  unfolding provider_do_def
  by (rule same_history.steps_bnd)
    (auto intro!: frame same_history.steps_upd simp: keeps_history_def split: option.split)

lemma keeps_history_sync: "steps_in keeps_history (sync_provider_context env turn_id request)"
  unfolding sync_provider_context_def set_provider_context_def Let_def
  by (rule same_history.steps_gets)
    (auto intro!: frame keeps_history_provider_do same_history.steps_upd simp: keeps_history_def split: option.split)

lemma keeps_history_schedule: "steps_in keeps_history (schedule_provider_supersede_grace_event_if_needed env)"
  unfolding schedule_provider_supersede_grace_event_if_needed_def
  by (rule same_history.steps_gets)
    (auto intro!: frame same_history.steps_upd simp: keeps_history_def split: option.split)

text \<open>A message that answers tools goes into the history as it is.\<close>

lemma push_history_history: "sa_history (snd (push_history env m s)) = sa_history s @ [m]"
  using steps_inD [OF same_history.frame_persist_if_closed, of "s\<lparr>sa_history := sa_history s @ [m]\<rparr>" env]
  by (simp add: push_history_def andthen_def bnd_def upd_def keeps_history_def)

lemma append_tool_result_history:
  assumes "append_history_message env phase m s = (r, s')" and "starts_with ''tool_result'' phase"
  shows "\<exists>m'. sa_history s' = sa_history s @ [m'] \<and> same_message m' m"
proof -
  obtain m' n where m: "same_message m' m"
    and run: "append_history_message env phase m s =
       andthen (store_message env phase m') (okM (length (sa_all_messages s)))
         (s\<lparr>sa_io := n, sa_all_messages := sa_all_messages s @ [m']\<rparr>)"
    using append_history_message_run by blast
  let ?s1 = "s\<lparr>sa_io := n, sa_all_messages := sa_all_messages s @ [m']\<rparr>"
  have "store_message env phase m' ?s1 = push_history env m' ?s1"
    using assms(2)
    by (simp add: store_message_def gets_def append_message_should_defer_compression_def split: option.split)
  then have "s' = snd (push_history env m' ?s1)"
    using run assms(1) by (auto simp: andthen_def bnd_def okM_def split: prod.splits sum.splits)
  then show ?thesis using m by (auto simp: push_history_history)
qed

lemma same_message_data: "same_message m m' \<Longrightarrow> cm_data m = cm_data m' \<and> cm_role m = cm_role m' \<and>
    cm_turn_id m = cm_turn_id m' \<and> cm_message_part m = cm_message_part m'"
  by (cases m; cases m') (simp add: same_message_def)

lemma repaired_history_closed:
  assumes "cm_data m = map (\<lambda>c. ToolResult (tool_error_result_for_tool_call c reason)) (collect_unclosed_tool_calls h)"
  shows "collect_unclosed_tool_calls (h @ [m]) = []"
  using assms
  by (intro results_close [of m "map (\<lambda>c. tool_error_result_for_tool_call c reason) (collect_unclosed_tool_calls h)"])
    (auto simp: comp_def tool_error_result_for_tool_call_def image_image)

lemma repair_closes:
  assumes "repair_unclosed_tool_calls_before_provider_request env turn_id k s = (Inr (), s')"
  shows "collect_unclosed_tool_calls (sa_history s') = []"
proof (cases "collect_unclosed_tool_calls (sa_history s) = []")
  case True
  then show ?thesis using assms
    by (simp add: repair_unclosed_tool_calls_before_provider_request_def gets_def Let_def okM_def)
next
  case False
  let ?items = "map (\<lambda>c. ToolResult (tool_error_result_for_tool_call c repair_reason))
      (collect_unclosed_tool_calls (sa_history s))"
  obtain i s1 s2 m s3 x y where ids: "fresh_message_id env s = (Inr i, s1)"
    and stamp: "stamp_now env (with_turn_metadata turn_id k Repair (chat_message_new i Assistant ?items)) s1 = (Inr m, s2)"
    and app: "append_history_message env ''tool_result_repair'' m s2 = (Inr x, s3)"
    and ann: "emit env (message_appended x m) s3 = (Inr y, s')"
    using assms False
    by (auto simp: repair_unclosed_tool_calls_before_provider_request_def gets_def Let_def bnd_ok andthen_ok
        append_and_announce_def okM_def)
  have "sa_history s2 = sa_history s"
    using ids stamp by (auto simp: fresh_message_id_def stamp_now_def bnd_ok ask_def okM_def)
  moreover have "cm_data m = ?items"
    using stamp by (auto simp: stamp_now_def bnd_ok ask_def okM_def stamp_assistant_message_time_def split: if_splits)
  moreover obtain m' where "sa_history s3 = sa_history s2 @ [m']" "same_message m' m"
    using append_tool_result_history [OF app] by (auto simp: starts_with_def)
  moreover have "sa_history s' = sa_history s3"
    using steps_inE [OF keeps_history_emit ann] by (simp add: keeps_history_def)
  ultimately show ?thesis
    using repaired_history_closed [of m' repair_reason "sa_history s"] same_message_data [of m' m] by simp
qed

text \<open>If the loop succeeds, its last round repaired the history and then sent it.\<close>

lemma provider_request_loop_ok:
  assumes "provider_request_loop env turn_id n k a s = (Inr (), s')"
  shows "\<exists>t b sp. a \<le> b \<and> b \<le> max a request_too_large_prune_max_attempts \<and>
           collect_unclosed_tool_calls (sa_history t) = [] \<and>
           send_provider_request env turn_id n k b sp (current_provider_history env t) t = (Inr (), s')"
  using assms
proof (induction "request_too_large_prune_max_attempts - a" arbitrary: a s rule: less_induct)
  case less
  have run: "(\<exists>s1 sp t. repair_unclosed_tool_calls_before_provider_request env turn_id k s = (Inr (), s1) \<and>
        system_prompt_for_current_initial env s1 = (Inr (Some sp), t) \<and>
        send_provider_request env turn_id n k a sp (current_provider_history env t) t = (Inr (), s')) \<or>
      (a < request_too_large_prune_max_attempts \<and> (\<exists>u. provider_request_loop env turn_id n k (a + 1) u = (Inr (), s')))"
    using less.prems unfolding provider_request_loop.simps [of env turn_id n k a]
    by (auto simp: andthen_ok bnd_ok gets_def from_result_ok errM_def not_le split: option.splits if_splits)
  then consider (sent) s1 sp t where "repair_unclosed_tool_calls_before_provider_request env turn_id k s = (Inr (), s1)"
      "system_prompt_for_current_initial env s1 = (Inr (Some sp), t)"
      "send_provider_request env turn_id n k a sp (current_provider_history env t) t = (Inr (), s')"
    | (again) u where "a < request_too_large_prune_max_attempts"
      "provider_request_loop env turn_id n k (a + 1) u = (Inr (), s')" by blast
  then show ?case
  proof cases
    case sent
    have "keeps_history s1 t" by (rule steps_inE [OF same_history.frame_system_prompt sent(2)])
    then have "collect_unclosed_tool_calls (sa_history t) = []"
      using repair_closes [OF sent(1)] by (simp add: keeps_history_def)
    then show ?thesis using sent(3) by (intro exI [of _ t] exI [of _ a] exI [of _ sp]) simp
  next
    case again
    from less.hyps [OF _ again(2)] again(1) obtain t b sp where "a + 1 \<le> b"
      "b \<le> max (a + 1) request_too_large_prune_max_attempts"
      "collect_unclosed_tool_calls (sa_history t) = []"
      "send_provider_request env turn_id n k b sp (current_provider_history env t) t = (Inr (), s')"
      by (auto simp: diff_less_mono2)
    then show ?thesis using again(1) by (intro exI [of _ t] exI [of _ b] exI [of _ sp]) auto
  qed
qed

lemma sync_provider_context_ok:
  assumes "sync_provider_context env turn_id request s = (Inr (), s')"
  shows "\<exists>rq. sa_provider_context s' = Some rq \<and> prq_messages rq = prq_messages request \<and>
           prq_system_prompt rq = prq_system_prompt request \<and> prq_tools rq = prq_tools request"
  using assms
  by (auto simp: sync_provider_context_def set_provider_context_def gets_def andthen_ok upd_def Let_def
      split: option.splits)

lemma send_provider_request_ok:
  assumes "send_provider_request env turn_id n k a sp h s = (Inr (), s')"
  shows "\<exists>active rq log. sa_active_provider_request s' = Some active \<and> apr_turn_id active = turn_id \<and>
           apr_turn_number active = n \<and> apr_step_index active = k \<and> apr_request_too_large_attempts active = a \<and>
           sa_provider_context s' = Some rq \<and> prq_messages rq = h \<and> prq_system_prompt rq = Some sp \<and>
           prq_tools rq = catalog_iter (sa_tool_catalog s) \<and>
           sa_provider_log s' = log @ [CallStart (apr_request_id active)] \<and> keeps_history s s'"
proof -
  define rid where "rid = provider_request_id turn_id k a"
  obtain rnd s1 s2 s3 now s4 millis s5 where
    rnd: "ask (en_random env) s = (Inr rnd, s1)"
    and sync: "sync_provider_context env turn_id (provider_request_for sp h (sa_tool_catalog s1)) s1 = (Inr (), s2)"
    and start: "provider_do env (CallStart rid) s2 = (Inr (), s3)"
    and now: "ask (en_now env) s3 = (Inr now, s4)" and millis: "ask (en_time_millis env) s4 = (Inr millis, s5)"
    and sched: "schedule_provider_supersede_grace_event_if_needed env
        (s5\<lparr>sa_last_provider_request_started_at := Some now, sa_active_provider_request := Some
           (active_request rid (message_id_for_all_messages_index (length (sa_all_messages s1)) rnd)
              turn_id n k a millis now)\<rparr>) = (Inr (), s')"
    using assms unfolding send_provider_request_def rid_def [symmetric] Let_def
    by (auto simp: bnd_ok andthen_ok gets_def upd_def)
  define act where "act = active_request rid (message_id_for_all_messages_index (length (sa_all_messages s1)) rnd)
      turn_id n k a millis now"
  note sched = sched [folded act_def]
  have act: "apr_request_id act = rid" "apr_turn_id act = turn_id" "apr_turn_number act = n"
    "apr_step_index act = k" "apr_request_too_large_attempts act = a"
    by (simp_all add: act_def active_request_def)
  let ?s6 = "s5\<lparr>sa_last_provider_request_started_at := Some now, sa_active_provider_request := Some act\<rparr>"
  have same: "sa_active_provider_request s' = sa_active_provider_request ?s6 \<and>
      sa_provider_context s' = sa_provider_context ?s6 \<and> sa_provider_log s' = sa_provider_log ?s6"
    using sched
    by (auto simp: schedule_provider_supersede_grace_event_if_needed_def provider_supersede_grace_remaining_def
        gets_def ask_def Let_def bnd_def okM_def upd_def split: if_splits option.splits)
  have "keeps_history s s1" "keeps_history s3 s4" "keeps_history s4 s5"
    using rnd now millis by (auto simp: ask_def keeps_history_def)
  moreover have "keeps_history s1 s2" by (rule steps_inE [OF keeps_history_sync sync])
  moreover have "keeps_history s2 s3" by (rule steps_inE [OF keeps_history_provider_do start])
  moreover have "keeps_history ?s6 s'" by (rule steps_inE [OF keeps_history_schedule sched])
  moreover have "keeps_history s5 ?s6" by (simp add: keeps_history_def)
  ultimately have keep: "keeps_history s s'" "sa_tool_catalog s1 = sa_tool_catalog s"
    by (auto simp: keeps_history_def)
  obtain rq where rq: "sa_provider_context s2 = Some rq" "prq_messages rq = h" "prq_system_prompt rq = Some sp"
    "prq_tools rq = catalog_iter (sa_tool_catalog s1)"
    using sync_provider_context_ok [OF sync] by (auto simp: provider_request_for_def)
  have "sa_provider_context s' = Some rq" "\<exists>log. sa_provider_log s' = log @ [CallStart (apr_request_id act)]"
    using same start now millis rq(1) act(1)
    by (auto simp: provider_do_def ask_def bnd_ok upd_def errM_def split: option.splits)
  then show ?thesis using same act rq keep by auto
qed

text \<open>
  C4. Only a closed history reaches the provider: when \<open>start_provider_request\<close> succeeds, no
  tool call of the history is unanswered, the context given to the provider holds exactly the
  current normalized history with the catalogue's tools, the provider was asked last to start
  this very request, and the prune attempts spent are within the limit of eight.
\<close>

theorem provider_sees_closed_history:
  assumes "start_provider_request env turn_id turn_number step_index attempts s = (Inr (), s')"
    and "attempts \<le> request_too_large_prune_max_attempts"
  shows "collect_unclosed_tool_calls (sa_history s') = [] \<and>
         (\<exists>active rq log. sa_active_provider_request s' = Some active \<and> apr_turn_id active = turn_id \<and>
            apr_step_index active = step_index \<and>
            attempts \<le> apr_request_too_large_attempts active \<and>
            apr_request_too_large_attempts active \<le> request_too_large_prune_max_attempts \<and>
            sa_provider_context s' = Some rq \<and> prq_messages rq = current_provider_history env s' \<and>
            prq_tools rq = catalog_iter (sa_tool_catalog s') \<and>
            sa_provider_log s' = log @ [CallStart (apr_request_id active)])"
proof -
  have "provider_request_loop env turn_id turn_number step_index attempts s = (Inr (), s')"
    using assms(1) by (auto simp: start_provider_request_def gets_def errM_def split: if_splits)
  then obtain t b sp where b: "attempts \<le> b" "b \<le> max attempts request_too_large_prune_max_attempts"
    and closed: "collect_unclosed_tool_calls (sa_history t) = []"
    and send: "send_provider_request env turn_id turn_number step_index b sp (current_provider_history env t) t = (Inr (), s')"
    using provider_request_loop_ok by blast
  have "keeps_history t s'" using send_provider_request_ok [OF send] by blast
  then show ?thesis
    using send_provider_request_ok [OF send] b closed assms(2)
    by (auto simp: keeps_history_def current_provider_history_def)
qed

theorem provider_sees_closed_history_witness:
  "fst (start_provider_request sample_env ''t'' 1 0 0 sample_actor) = Inr () \<and>
   collect_unclosed_tool_calls (sa_history (snd (start_provider_request sample_env ''t'' 1 0 0 sample_actor))) = [] \<and>
   sa_provider_context (snd (start_provider_request sample_env ''t'' 1 0 0 sample_actor)) \<noteq> None"
proof -
  have ok: "fst (start_provider_request sample_env ''t'' 1 0 0 sample_actor) = Inr ()"
    by (simp add: start_provider_request_def provider_request_loop.simps act_defs sample_actor_def
        session_actor_new_def repair_unclosed_tool_calls_before_provider_request_def
        collect_unclosed_tool_calls_def system_prompt_for_current_initial_def ask_def sample_env_def
        provider_request_token_estimate_def sample_model_def current_provider_history_def oversized_estimate_def
        send_provider_request_def Let_def sync_provider_context_def incremental_suffix_def provider_do_def
        set_provider_context_def schedule_provider_supersede_grace_event_if_needed_def
        provider_supersede_grace_remaining_def has_pending_user_message_def)
  then have run: "start_provider_request sample_env ''t'' 1 0 0 sample_actor =
      (Inr (), snd (start_provider_request sample_env ''t'' 1 0 0 sample_actor))"
    by (metis prod.collapse)
  show ?thesis using provider_sees_closed_history [OF run] ok by auto
qed

end
