(* ===== verification/Actor_Behaviour.thy ===== *)
theory Actor_Behaviour
  imports Actor_Properties
begin

text \<open>
  What a client of the session actor can rely on: accepted input is never lost, a final
  answer is recorded and announced under one identity, history pages are exact, and when a
  new user message supersedes a provider request that is running.
\<close>

text \<open>The turn handlers do not touch the queue of data requests.\<close>

interpretation same_queue: request_frame "\<lambda>s s'. sa_pending_data s' = sa_pending_data s"
  by unfold_locales simp_all

section \<open>Accepted input\<close>

definition request_message :: "session_request \<Rightarrow> chat_message option" where
  "request_message request =
     (case request of EnqueueUserMessage m \<Rightarrow> Some m | EnqueueActorMessage m \<Rightarrow> Some m | _ \<Rightarrow> None)"

text \<open>The transcript holds the message of the request, as input of the turn.\<close>

definition recorded :: "session_actor \<Rightarrow> string \<Rightarrow> session_request \<Rightarrow> bool" where
  "recorded s turn_id request \<longleftrightarrow>
     (\<exists>m m'. request_message request = Some m \<and> m' \<in> set (sa_all_messages s) \<and>
        same_message m' (with_turn_metadata turn_id 0 UserInput m))"

lemma grows_recorded: "grows s s' \<Longrightarrow> recorded s turn_id request \<Longrightarrow> recorded s' turn_id request"
  unfolding grows_def recorded_def by (meson set_mono_prefix subsetD)

lemma append_input_recorded:
  assumes "append_input env turn_id request s = (Inr (), s')"
  shows "recorded s' turn_id request"
proof -
  obtain m t i where m: "request_message request = Some m"
    and app: "append_history_message env ''input'' (with_turn_metadata turn_id 0 UserInput m) t = (Inr i, s')"
    using assms
    by (auto simp: append_input_def request_message_def Let_def andthen_ok bnd_ok okM_def errM_def
        split: session_request.splits)
  then show ?thesis using append_history_message_post [OF app] by (auto simp: recorded_def)
qed

lemma append_inputs_recorded:
  "for_each (append_input env turn_id) requests s = (Inr (), s') \<Longrightarrow> \<forall>request \<in> set requests. recorded s' turn_id request"
proof (induction requests arbitrary: s)
  case (Cons request requests)
  then obtain t where one: "append_input env turn_id request s = (Inr (), t)"
    and rest: "for_each (append_input env turn_id) requests t = (Inr (), s')"
    by (auto simp: andthen_ok)
  have "steps_in grows (for_each (append_input env turn_id) requests)"
    by (rule growth.steps_for_each) (rule growth.frame_append_input)
  from steps_inE [OF this rest] have "recorded s' turn_id request"
    using append_input_recorded [OF one] by (rule grows_recorded)
  with Cons.IH [OF rest] show ?case by simp
qed simp

lemma finish_turn_error_ok:
  assumes "finish_turn_error env error (Some continuation) s = (Inr (), s')"
  shows "sa_pending_continuation s' = Some continuation"
  using assms
  by (auto simp: finish_turn_error_def emit_turn_failed_def emit_def ask_def act_defs Let_def
      split: if_splits option.splits)

lemma run_turn_records:
  assumes "run_turn_from_data_requests env requests s = (Inr (), s')"
  shows "(\<exists>turn_id. \<forall>request \<in> set requests. recorded s' turn_id request) \<or>
         sa_pending_continuation s' = Some (DataRequests requests)"
proof -
  obtain turn_id t appended u where app: "append_inputs env turn_id requests t = (Inr appended, u)"
    and rest: "(if \<not> appended then okM ()
        else andthen (announce_messages_from env (length (sa_all_messages s)))
               (start_turn env turn_id (sa_next_turn_id t - 1))) u = (Inr (), s')"
    using assms
    by (auto simp: run_turn_from_data_requests_def gets_def errM_def andthen_ok bnd_ok okM_def split: if_splits)
  obtain r v where loop: "for_each (append_input env turn_id) requests t = (r, v)" by fastforce
  have outcome: "appended \<and> r = Inr () \<and> u = v \<or>
      \<not> appended \<and> (\<exists>e. finish_turn_error env e (Some (DataRequests requests)) v = (Inr (), u))"
    using app loop
    by (cases r) (auto simp: append_inputs_def bnd_ok attempt_def errM_def okM_def andthen_ok split: if_splits)
  show ?thesis
  proof (cases appended)
    case True
    then have "for_each (append_input env turn_id) requests t = (Inr (), u)" using outcome loop by blast
    then have rec: "\<forall>request \<in> set requests. recorded u turn_id request" by (rule append_inputs_recorded)
    have "steps_in grows (andthen (announce_messages_from env n) (start_turn env turn_id k))" for n k
      by (intro growth.steps_andthen growth.frame_announce_messages growth.frame_start_turn)
    from steps_inE [OF this] have "grows u s'" using rest True by (auto simp del: One_nat_def)
    with rec show ?thesis using grows_recorded by blast
  next
    case False
    then have "sa_pending_continuation u = Some (DataRequests requests)"
      using outcome finish_turn_error_ok by blast
    then show ?thesis using False rest by (simp add: okM_def)
  qed
qed

text \<open>
  C6. Accepted input is not lost: when the idle actor takes the queued data requests and the step
  ends without an error, then either all their messages are in the transcript, as inputs of one
  new turn, or all of them are kept for a retry by \<open>continue_turn\<close>.
\<close>

theorem queued_input_not_lost:
  assumes "run_pending_data_if_idle env fallback s = (Inr step, s')"
    and "sa_pending_data s \<noteq> []" and "idle s" and "\<not> sa_shutdown s"
  shows "sa_pending_data s' = [] \<and>
         ((\<exists>turn_id. \<forall>request \<in> set (sa_pending_data s). recorded s' turn_id request) \<or>
          sa_pending_continuation s' = Some (DataRequests (sa_pending_data s)))"
proof -
  obtain t where turn: "run_turn_from_data_requests env (sa_pending_data s) (s\<lparr>sa_pending_data := []\<rparr>) = (Inr (), t)"
    and step: "step_when_waiting ProcessedData t = (Inr step, s')"
    using assms
    by (auto simp: run_pending_data_if_idle_def gets_def Let_def andthen_ok upd_def errM_def idle_def running_def
        split: if_splits)
  have "s' = t" using step by (auto simp: step_when_waiting_def gets_def okM_def split: if_splits)
  moreover have "sa_pending_data t = []"
    using steps_inE [OF same_queue.frame_run_turn turn] by simp
  ultimately show ?thesis using run_turn_records [OF turn] by simp
qed

theorem queued_input_not_lost_witness:
  "\<exists>s s'. sa_pending_data s = [EnqueueActorMessage (chat_message_new ''m'' User [])] \<and> idle s \<and> \<not> sa_shutdown s \<and>
     run_pending_data_if_idle sample_env ProcessedData s = (Inr WaitingProviderRequest, s') \<and>
     sa_pending_data s' = [] \<and>
     ((\<exists>turn_id. recorded s' turn_id (EnqueueActorMessage (chat_message_new ''m'' User []))) \<or>
      sa_pending_continuation s' = Some (DataRequests (sa_pending_data s)))"
proof -
  let ?data = "EnqueueActorMessage (chat_message_new ''m'' User [])"
  obtain t where t: "sample_ready t" using sample_initial by blast
  define s where "s = t\<lparr>sa_pending_data := [?data]\<rparr>"
  have facts: "sa_pending_data s = [?data]" "idle s" "\<not> sa_shutdown s"
    using t by (auto simp: s_def sample_ready_def session_actor_new_def idle_def running_def)
  have "recv_step sample_env (RequestIn ?data) t = run_pending_data_if_idle sample_env ProcessedData s"
    using t by (auto simp: s_def sample_ready_def session_actor_new_def recv_step_def recv_one_event_def
        handle_request_event_def act_defs is_user_request_def step_when_waiting_def)
  then obtain s' where "run_pending_data_if_idle sample_env ProcessedData s = (Inr WaitingProviderRequest, s')"
    using sample_turn [OF t] by auto
  with facts queued_input_not_lost [OF this] show ?thesis by (intro exI [of _ s] exI [of _ s']) auto
qed

section \<open>Final answers\<close>

lemma emit_ok: "emit env e s = (Inr (), s') \<Longrightarrow> s' = s\<lparr>sa_io := Suc (sa_io s), sa_emitted := sa_emitted s @ [e]\<rparr>"
  by (auto simp: emit_def ask_def act_defs split: option.splits)

lemma append_and_announce_ok:
  assumes "append_and_announce env phase m s = (Inr index, s')"
    and "message_id_has_all_messages_index (cm_message_id m)"
  shows "index = length (sa_all_messages s) \<and> sa_all_messages s' = sa_all_messages s @ [m] \<and>
         (\<exists>es. sa_emitted s' = sa_emitted s @ es @ [message_appended index m])"
proof -
  obtain t where app: "append_history_message env phase m s = (Inr index, t)"
    and ann: "emit env (message_appended index m) t = (Inr (), s')"
    using assms(1) by (auto simp: append_and_announce_def bnd_ok andthen_ok okM_def)
  obtain es where "sa_emitted t = sa_emitted s @ es"
    using steps_inE [OF growth.frame_append_history_message app] by (auto simp: grows_def)
  moreover note append_history_message_post [OF app]
  ultimately show ?thesis using emit_ok [OF ann] assms(2) by auto
qed

text \<open>
  C7. A final answer has one identity: when the provider's message without tool calls is
  processed, the transcript gets exactly one entry, and the announcement of the entry and the
  completion of the turn are emitted one after the other, with the index of the entry and
  the very same message, whose identifier is the one the stream events carried and whose
  content is the provider's.
\<close>

theorem final_answer_recorded:
  assumes "process_provider_message env active message s = (Inr (), s')"
    and "collect_tool_calls message = []"
    and "message_id_has_all_messages_index (apr_message_id active)"
  shows "\<exists>m es fs. cm_message_id m = apr_message_id active \<and> cm_data m = cm_data message \<and>
           cm_turn_id m = Some (apr_turn_id active) \<and> cm_message_part m = Some FinalResponse \<and>
           sa_all_messages s' = sa_all_messages s @ [m] \<and>
           sa_emitted s' = sa_emitted s @ es @
             [message_appended (length (sa_all_messages s)) m,
              TurnCompleted (apr_turn_id active) (Some (cm_message_id m)) (Some (length (sa_all_messages s))) m] @ fs"
proof -
  obtain now where stamp: "stamp_now env (message\<lparr>cm_message_id := apr_message_id active\<rparr>) s =
      (Inr (stamp_assistant_message_time now (message\<lparr>cm_message_id := apr_message_id active\<rparr>)),
       s\<lparr>sa_io := Suc (sa_io s)\<rparr>)"
    by (simp add: stamp_now_def ask_def bnd_def okM_def)
  let ?s0 = "s\<lparr>sa_io := Suc (sa_io s)\<rparr>"
  define m where "m = with_turn_metadata (apr_turn_id active) (apr_step_index active) FinalResponse
      (stamp_assistant_message_time now (message\<lparr>cm_message_id := apr_message_id active\<rparr>))"
  have m: "cm_message_id m = apr_message_id active" "cm_data m = cm_data message"
    "cm_turn_id m = Some (apr_turn_id active)" "cm_message_part m = Some FinalResponse"
    by (simp_all add: m_def with_turn_metadata_def stamp_assistant_message_time_def)
  have none: "collect_tool_calls (stamp_assistant_message_time now (message\<lparr>cm_message_id := apr_message_id active\<rparr>)) = []"
    using assms(2) by (simp add: collect_tool_calls_def stamp_assistant_message_time_def)
  obtain index t u v where app: "append_and_announce env ''model_response'' m ?s0 = (Inr index, t)"
    and fin: "emit env (TurnCompleted (apr_turn_id active) (Some (cm_message_id m)) (Some index) m) t = (Inr (), u)"
    and rest: "andthen (mark_turn_returned env (apr_turn_number active))
        (bnd (attempt (clear_current_plan env)) (\<lambda>_. okM ())) u = (Inr v, s')"
    using assms(1) stamp none
    by (auto simp: process_provider_message_def bnd_ok Let_def finish_turn_def m_def andthen_ok)
  have "steps_in grows (andthen (mark_turn_returned env (apr_turn_number active))
      (bnd (attempt (clear_current_plan env)) (\<lambda>_. okM ())))"
    by (auto intro!: growth.steps_andthen growth.steps_bnd growth.steps_attempt growth.frame_mark_turn_returned
        growth.frame_clear_current_plan growth.steps_ok)
  from steps_inE [OF this rest] obtain fs where fs: "sa_emitted s' = sa_emitted u @ fs" by (auto simp: grows_def)
  have "steps_in (\<lambda>s s'. sa_all_messages s' = sa_all_messages s)
      (andthen (mark_turn_returned env (apr_turn_number active)) (bnd (attempt (clear_current_plan env)) (\<lambda>_. okM ())))"
    by (auto intro!: same_transcript.steps_andthen same_transcript.steps_bnd
        same_transcript.steps_attempt same_transcript.frame_mark_turn_returned
        same_transcript.frame_clear_current_plan same_transcript.steps_ok)
  from steps_inE [OF this rest] have "sa_all_messages s' = sa_all_messages u" .
  moreover obtain es where "sa_emitted t = sa_emitted s @ es @ [message_appended (length (sa_all_messages s)) m]"
    "sa_all_messages t = sa_all_messages s @ [m]" "index = length (sa_all_messages s)"
    using append_and_announce_ok [OF app] m assms(3) by auto
  ultimately show ?thesis
    using emit_ok [OF fin] fs m by (intro exI [of _ m] exI [of _ es] exI [of _ fs]) simp
qed

definition sample_active :: active_provider_request where
  "sample_active = active_request ''r'' (message_id_for_all_messages_index 0 0) ''t'' 1 0 0 0 0"

theorem final_answer_recorded_witness:
  "\<exists>s' m es fs. process_provider_message sample_env sample_active (chat_message_new ''p'' Assistant []) sample_actor =
       (Inr (), s') \<and> sa_all_messages s' = [m] \<and> cm_message_id m = apr_message_id sample_active \<and>
     sa_emitted s' = es @ [message_appended 0 m, TurnCompleted ''t'' (Some (cm_message_id m)) (Some 0) m] @ fs"
proof -
  have id: "message_id_has_all_messages_index (apr_message_id sample_active)"
    by (simp add: sample_active_def active_request_def message_id_roundtrip)
  have calls: "collect_tool_calls (chat_message_new ''p'' Assistant []) = []"
    by (simp add: collect_tool_calls_def chat_message_new_def)
  have "fst (process_provider_message sample_env sample_active (chat_message_new ''p'' Assistant []) sample_actor) = Inr ()"
    using id
    by (simp add: process_provider_message_def stamp_now_def ask_def act_defs sample_env_def
        stamp_assistant_message_time_def chat_message_new_def Let_def append_and_announce_def
        append_history_message_def ensure_indexed_id_def with_turn_metadata_def sample_actor_def
        session_actor_new_def store_message_def push_history_def persist_state_if_history_closed_def
        persist_state_def collect_tool_calls_def emit_def finish_turn_def mark_turn_returned_def
        clear_current_plan_def is_task_plan_context_message_def)
  then obtain s' where run: "process_provider_message sample_env sample_active (chat_message_new ''p'' Assistant [])
      sample_actor = (Inr (), s')"
    by (metis prod.collapse)
  have "sa_all_messages sample_actor = []" "sa_emitted sample_actor = []" "apr_turn_id sample_active = ''t''"
    by (simp_all add: sample_actor_def session_actor_new_def sample_active_def active_request_def)
  with final_answer_recorded [OF run calls id] run show ?thesis by auto
qed

section \<open>History pages\<close>

lemma page_nth:
  assumes "length xs \<le> u64_max"
  shows "length (page offset limit xs) = min limit (length xs - offset) \<and>
         (\<forall>i < length (page offset limit xs). page offset limit xs ! i = xs ! (min offset (length xs) + i))"
proof -
  have "page offset limit xs = take limit (drop offset xs)"
    using assms by (simp add: page_def page_bounds_def Let_def saturating_add_def min_def take_drop add.commute)
  moreover have "xs ! (min offset (length xs) + i) = xs ! (offset + i)" if "i < length (drop offset xs)" for i
    using that by (auto simp: min_def)
  ultimately show ?thesis by auto
qed

text \<open>
  C40. History pages are exact: a message history query answers with the messages
  \<open>offset, offset + 1, ...\<close> of the transcript, each with its own index, as many as the limit
  (at most 500) and the transcript allow, none beyond the end, and with the total and the
  last message of the whole transcript, whatever offset and limit the client sends.
\<close>

theorem message_history_exact:
  assumes "length all_messages \<le> u64_max"
  shows "smh_total (message_history request_id offset limit all_messages) = length all_messages \<and>
         length (smh_messages (message_history request_id offset limit all_messages)) =
           min (min limit 500) (length all_messages - offset) \<and>
         (\<forall>i < length (smh_messages (message_history request_id offset limit all_messages)).
            smh_messages (message_history request_id offset limit all_messages) ! i =
              session_message_record_of (offset + i) (all_messages ! (offset + i))) \<and>
         map_option smr_index (smh_last_message (message_history request_id offset limit all_messages)) =
           (if all_messages = [] then None else Some (length all_messages - 1))"
proof -
  note page_nth [OF assms, of offset "min limit 500"]
  moreover have "min offset (length all_messages) = offset" if "i < min (min limit 500) (length all_messages - offset)" for i
    using that by auto
  ultimately show ?thesis
    by (auto simp: message_history_def Let_def nth_enumerate_eq session_message_record_of_def)
qed

theorem message_history_exact_witness:
  "length (smh_messages (message_history ''q'' 1 7 [chat_message_new ''a'' User [], chat_message_new ''b'' User [],
     chat_message_new ''c'' User []])) = 2 \<and>
   smh_messages (message_history ''q'' 1 7 [chat_message_new ''a'' User [], chat_message_new ''b'' User [],
     chat_message_new ''c'' User []]) ! 1 = session_message_record_of (Suc 1) (chat_message_new ''c'' User [])"
  using message_history_exact [of "[chat_message_new ''a'' User [], chat_message_new ''b'' User [],
     chat_message_new ''c'' User []]" "''q''" 1 7]
  by (auto simp: u64_max_def)

section \<open>Superseding a request\<close>

text \<open>
  A request that is running alone, silent since before the grace period whenever the clock is
  read from now on, with no timer armed.
\<close>

definition silent_request :: "actor_env \<Rightarrow> session_actor \<Rightarrow> active_provider_request \<Rightarrow> bool" where
  "silent_request env s active \<longleftrightarrow>
     sa_active_provider_request s = Some active \<and> sa_active_tool_batch s = None \<and> sa_active_timer_id s = None \<and>
     \<not> sa_shutdown s \<and> (\<forall>n \<ge> sa_io s. en_now env n \<ge> apr_last_activity_at active + provider_supersede_grace)"

lemma late_user_message_step:
  assumes "silent_request env s active"
  shows "recv_step env (RequestIn (EnqueueUserMessage m)) s =
    (Inr WaitingProviderRequest, s\<lparr>sa_pending_data := sa_pending_data s @ [EnqueueUserMessage m], sa_io := Suc (sa_io s)\<rparr>)"
  using assms
  by (auto simp: silent_request_def recv_step_def recv_one_event_def handle_request_event_def act_defs
      is_user_request_def schedule_provider_supersede_grace_event_if_needed_def has_pending_user_message_def
      provider_supersede_grace_remaining_def ask_def step_when_waiting_def run_pending_data_if_idle_def Let_def)

text \<open>
  A user message that arrives late supersedes nothing: when the running request has been
  silent for longer than the grace period and no timer is armed, then however many user
  messages arrive, the actor only queues them; it neither cancels the request nor arms a
  timer, so the request goes on until the provider says something by itself.
\<close>

theorem late_user_messages_only_queued:
  assumes "silent_request env s active"
  shows "run_actor_loop env (map (\<lambda>m. (False, RequestIn (EnqueueUserMessage m))) messages) s =
    (None, s\<lparr>sa_pending_data := sa_pending_data s @ map EnqueueUserMessage messages,
             sa_io := sa_io s + length messages\<rparr>)"
  using assms
proof (induction messages arbitrary: s)
  case (Cons m messages)
  let ?t = "s\<lparr>sa_pending_data := sa_pending_data s @ [EnqueueUserMessage m], sa_io := Suc (sa_io s)\<rparr>"
  have "silent_request env ?t active" using Cons.prems by (simp add: silent_request_def)
  from Cons.IH [OF this] show ?case by (simp add: late_user_message_step [OF Cons.prems])
qed simp

text \<open>
  C8. An early user message does supersede in the end: when its timer fires, the provider has
  nothing queued and the request has been silent for the grace period, the request is
  aborted with the reason \<open>superseded_by_user_message\<close>, no turn failure is reported, and the
  queued input is left for the turn that the same step then starts.
\<close>

theorem supersede_timer_cancels:
  assumes "sa_active_provider_request s = Some active" and "sa_active_tool_batch s = None"
    and "has_pending_user_message s" and "sa_active_timer_id s = Some timer_id"
    and "en_try_provider_event env (sa_io s) = None"
    and "en_now env (Suc (sa_io s)) \<ge> apr_last_activity_at active + provider_supersede_grace"
    and "\<And>n. en_provider env n CallAbort = None" and "\<And>n e. en_emit env n e = None"
  shows "\<exists>s'. recv_one_event env (InternalIn (ProviderSupersedeGraceElapsed timer_id)) s = (Inr Idle, s') \<and>
           idle s' \<and> sa_active_timer_id s' = None \<and> sa_pending_data s' = sa_pending_data s \<and>
           sa_provider_log s' = sa_provider_log s @ [CallAbort] \<and>
           (\<exists>err. sa_emitted s' = sa_emitted s @
              [StreamError (apr_message_id active) (apr_turn_id active) (apr_next_stream_event_index active)
                 (Some (apr_step_index active)) (Some ModelResponse) None None ''superseded_by_user_message'' err]) \<and>
           recv_step env (InternalIn (ProviderSupersedeGraceElapsed timer_id)) s = run_pending_data_if_idle env Idle s'"
proof -
  have "provider_supersede_grace \<le> en_now env (Suc (sa_io s)) - apr_last_activity_at active"
    using assms(6) by simp
  then show ?thesis
    using assms
    by (simp add: recv_step_def recv_one_event_def handle_internal_event_def act_defs ask_def
        wake_or_schedule_provider_supersede_if_needed_def provider_supersede_grace_remaining_def Let_def
        cancel_active_provider_request_def disarm_provider_supersede_grace_event_def provider_do_def
        mark_turn_returned_def emit_def step_when_waiting_def idle_def running_def has_pending_user_message_def)
qed

theorem supersede_timer_cancels_witness:
  "\<exists>s'. recv_one_event (sample_env\<lparr>en_now := \<lambda>_. 1000\<rparr>) (InternalIn (ProviderSupersedeGraceElapsed 1))
          (sample_actor\<lparr>sa_active_provider_request := Some sample_active, sa_active_timer_id := Some 1,
             sa_pending_data := [EnqueueUserMessage (chat_message_new ''a'' User [])]\<rparr>) = (Inr Idle, s') \<and>
        sa_provider_log s' = [CallAbort] \<and> idle s'"
proof -
  let ?s = "sample_actor\<lparr>sa_active_provider_request := Some sample_active, sa_active_timer_id := Some 1,
             sa_pending_data := [EnqueueUserMessage (chat_message_new ''a'' User [])]\<rparr>"
  let ?env = "sample_env\<lparr>en_now := \<lambda>_. 1000\<rparr>"
  have "sa_active_provider_request ?s = Some sample_active" "sa_active_tool_batch ?s = None"
    "has_pending_user_message ?s" "sa_active_timer_id ?s = Some 1" "en_try_provider_event ?env (sa_io ?s) = None"
    "en_now ?env (Suc (sa_io ?s)) \<ge> apr_last_activity_at sample_active + provider_supersede_grace"
    "\<And>n. en_provider ?env n CallAbort = None" "\<And>n e. en_emit ?env n e = None" "sa_provider_log ?s = []"
    by (simp_all add: sample_actor_def session_actor_new_def has_pending_user_message_def sample_env_def
        sample_active_def active_request_def provider_supersede_grace_def)
  with supersede_timer_cancels [of ?s sample_active 1 ?env] show ?thesis by auto
qed

end
