(* ===== verification/Tool_Runtime.thy ===== *)
theory Tool_Runtime
  imports Session_State
begin

text \<open>
  Model of the pure part of \<open>core/src/session_actor/tool_runtime.rs\<close>: tool arguments, the
  machine a tool call runs on, bounded tool output and shell quoting. Spawning and killing
  processes is not modelled.
\<close>

section \<open>Errors and arguments\<close>

datatype local_tool_error =
    EmptyBatch_local string
  | InvalidArguments string
  | UnsupportedTool_error string
  | Io string
  | Remote string
  | Bridge_local string

fun local_tool_error_text :: "local_tool_error \<Rightarrow> string" where
  "local_tool_error_text (EmptyBatch_local e) = ''tool batch '' @ e @ '' is empty''"
| "local_tool_error_text (InvalidArguments e) = ''invalid tool arguments: '' @ e"
| "local_tool_error_text (UnsupportedTool_error e) = ''unsupported tool: '' @ e"
| "local_tool_error_text (Io e) = ''io failed: '' @ e"
| "local_tool_error_text (Remote e) = ''remote command failed: '' @ e"
| "local_tool_error_text (Bridge_local e) = ''conversation bridge failed: '' @ e"

text \<open>The text of a JSON syntax error is left out of the message.\<close>

definition parse_arguments :: "json_lib \<Rightarrow> string \<Rightarrow> local_tool_error + json" where
  "parse_arguments lib text =
     (case from_str lib text of
        None \<Rightarrow> Inl (InvalidArguments ''tool arguments must be JSON: '')
      | Some value \<Rightarrow>
          (case as_object value of
             None \<Rightarrow> Inl (InvalidArguments ''tool arguments must be an object'')
           | Some object \<Rightarrow> Inr object))"

definition normalize_tool_value :: "json_lib \<Rightarrow> json \<Rightarrow> string" where
  "normalize_tool_value lib value =
     (case value of JString text \<Rightarrow> text | other \<Rightarrow> unwrap_or ''{}'' (to_string_pretty lib other))"

definition string_arg :: "json \<Rightarrow> string \<Rightarrow> local_tool_error + string" where
  "string_arg arguments key =
     (case get_str key arguments of
        None \<Rightarrow> Inl (InvalidArguments (''missing string argument '' @ key))
      | Some v \<Rightarrow> Inr v)"

definition arg_with_default ::
  "(json \<Rightarrow> 'a option) \<Rightarrow> string \<Rightarrow> json \<Rightarrow> string \<Rightarrow> 'a \<Rightarrow> local_tool_error + 'a" where
  "arg_with_default as type_name arguments key default_value =
     (case json_get key arguments of
        None \<Rightarrow> Inr default_value
      | Some v \<Rightarrow>
          (case as v of
             None \<Rightarrow> Inl (InvalidArguments (''argument '' @ key @ '' must be '' @ type_name))
           | Some x \<Rightarrow> Inr x))"

definition string_arg_with_default :: "json \<Rightarrow> string \<Rightarrow> string \<Rightarrow> local_tool_error + string" where
  "string_arg_with_default = arg_with_default as_str ''a string''"

definition usize_arg_with_default :: "json \<Rightarrow> string \<Rightarrow> nat \<Rightarrow> local_tool_error + nat" where
  "usize_arg_with_default = arg_with_default as_u64 ''an integer''"

definition bool_arg_with_default :: "json \<Rightarrow> string \<Rightarrow> bool \<Rightarrow> local_tool_error + bool" where
  "bool_arg_with_default = arg_with_default as_bool ''a boolean''"

definition f64_arg_with_default :: "json \<Rightarrow> string \<Rightarrow> rat \<Rightarrow> local_tool_error + rat" where
  "f64_arg_with_default = arg_with_default as_f64 ''a number''"

section \<open>Where a tool call runs\<close>

datatype execution_target_t =
    Local_target
  | RemoteSsh string "string option"

text \<open>Control characters of the first 256 code points.\<close>

definition is_control :: "char \<Rightarrow> bool" where
  "is_control ch \<longleftrightarrow> (let n = (of_char ch :: nat) in n < 32 \<or> 127 \<le> n \<and> n < 160)"

definition shell_metacharacters :: string where
  "shell_metacharacters = CHR 0x27 # CHR 0x22 # ''`$;&|<>()''"

definition validate_remote_host :: "string \<Rightarrow> local_tool_error + unit" where
  "validate_remote_host host =
     (let trimmed = trim host
      in if trimmed = [] \<or> trimmed = ''local''
         then Inl (InvalidArguments ''remote host must be a non-empty ~/.ssh/config Host alias'')
         else if starts_with ''-'' trimmed \<or> list_ex rust_whitespace trimmed \<or> list_ex is_control trimmed \<or>
                 CHR ''/'' \<in> set trimmed \<or> CHR 0x5C \<in> set trimmed \<or>
                 list_ex (\<lambda>ch. ch \<in> set shell_metacharacters) trimmed
         then Inl (InvalidArguments ''remote host must be a safe ~/.ssh/config Host alias'')
         else Inr ())"

definition normalize_optional_cwd :: "string option \<Rightarrow> string option" where
  "normalize_optional_cwd cwd = filter_option (\<lambda>c. c \<noteq> []) (map_option trim cwd)"

definition fixed_target :: "string \<Rightarrow> string option \<Rightarrow> local_tool_error + execution_target_t" where
  "fixed_target host cwd =
     (case validate_remote_host host of
        Inl e \<Rightarrow> Inl e
      | Inr _ \<Rightarrow> Inr (RemoteSsh host (normalize_optional_cwd cwd)))"

definition execution_target :: "tool_remote_mode \<Rightarrow> json \<Rightarrow> local_tool_error + execution_target_t" where
  "execution_target mode arguments =
     (case mode of
        Selectable \<Rightarrow>
          (case json_get ''remote'' arguments of
             None \<Rightarrow> Inr Local_target
           | Some value \<Rightarrow>
               (case as_str value of
                  None \<Rightarrow> Inl (InvalidArguments ''argument remote must be a string'')
                | Some raw \<Rightarrow>
                    (let host = trim raw
                     in if host = [] then Inr Local_target
                        else case validate_remote_host host of
                          Inl e \<Rightarrow> Inl e
                        | Inr _ \<Rightarrow> Inr (RemoteSsh host None))))
      | FixedSsh host cwd \<Rightarrow> fixed_target host cwd)"

section \<open>Paths\<close>

text \<open>
  The components of a Unix path: empty segments and \<open>.\<close> are dropped, except a \<open>.\<close> that
  starts a relative path.
\<close>

datatype path_component = RootDir | CurDir | ParentDir | Normal string

fun split_slash :: "string \<Rightarrow> string list" where
  "split_slash [] = [[]]"
| "split_slash (c # cs) =
     (if c = CHR ''/'' then [] # split_slash cs
      else case split_slash cs of
        [] \<Rightarrow> [[c]]
      | segment # segments \<Rightarrow> (c # segment) # segments)"

definition segment_component :: "string \<Rightarrow> path_component" where
  "segment_component segment = (if segment = ''..'' then ParentDir else Normal segment)"

definition path_components :: "string \<Rightarrow> path_component list" where
  "path_components path =
     (if starts_with ''/'' path then [RootDir]
      else case split_slash path of segment # _ \<Rightarrow> if segment = ''.'' then [CurDir] else [] | [] \<Rightarrow> [])
     @ map segment_component (filter (\<lambda>s. s \<noteq> [] \<and> s \<noteq> ''.'') (split_slash path))"

definition path_is_absolute :: "string \<Rightarrow> bool" where
  "path_is_absolute path = starts_with ''/'' path"

definition path_starts_with :: "string \<Rightarrow> string \<Rightarrow> bool" where
  "path_starts_with base path \<longleftrightarrow> prefix (path_components base) (path_components path)"

definition is_local_special_workspace_path :: "string \<Rightarrow> string \<Rightarrow> bool" where
  "is_local_special_workspace_path workspace_root raw_path =
     (let path = trim (unwrap_or raw_path (strip_prefix ''file://'' raw_path))
      in if path = [] \<or> path = ''.'' then False
         else if path_is_absolute path then path_starts_with workspace_root path
         else case path_components path of
           Normal first # _ \<Rightarrow> first = ''.stellaclaw''
         | _ \<Rightarrow> False)"

definition execution_target_for_path ::
  "string \<Rightarrow> tool_remote_mode \<Rightarrow> json \<Rightarrow> string list \<Rightarrow> local_tool_error + execution_target_t" where
  "execution_target_for_path workspace_root mode arguments path_keys =
     (case mode of
        FixedSsh host cwd \<Rightarrow>
          (if list_ex (\<lambda>key. case get_str key arguments of
                         None \<Rightarrow> False
                       | Some path \<Rightarrow> is_local_special_workspace_path workspace_root path) path_keys
           then Inr Local_target
           else fixed_target host cwd)
      | Selectable \<Rightarrow> execution_target mode arguments)"

definition resolve_local_path :: "string \<Rightarrow> string \<Rightarrow> string" where
  "resolve_local_path workspace_root path =
     (if path = [] then workspace_root
      else if path_is_absolute path then path else path_join workspace_root path)"

section \<open>Text\<close>

definition clamp_tool_output_chars :: "nat \<Rightarrow> nat" where
  "clamp_tool_output_chars requested = min requested 1000"

definition truncate_tool_text :: "string \<Rightarrow> nat \<Rightarrow> string \<times> bool" where
  "truncate_tool_text value max_chars = truncate_context_text value (clamp_tool_output_chars max_chars)"

definition shell_quote :: "string \<Rightarrow> string" where
  "shell_quote value =
     (if value = [] then [CHR 0x27, CHR 0x27]
      else CHR 0x27 #
        concat (map (\<lambda>c. if c = CHR 0x27 then [CHR 0x27, CHR 0x22, CHR 0x27, CHR 0x22, CHR 0x27] else [c]) value)
        @ [CHR 0x27])"

section \<open>Laws\<close>

text \<open>
  How a POSIX shell reads a word: characters stand for themselves, quotes switch the mode.
  \<open>None\<close> where the text ends inside quotes, where a character would start an expansion, and
  where an unquoted character would end the word or has a meaning of its own.
\<close>

datatype quote_mode = Unquoted | SingleQuoted | DoubleQuoted

definition ends_word :: "char \<Rightarrow> bool" where
  "ends_word c \<longleftrightarrow> rust_whitespace c \<or> c = CHR 0x5C \<or> c = CHR ''#'' \<or> c = CHR ''*'' \<or> c = CHR ''?'' \<or>
     c = CHR ''['' \<or> c = CHR ''~'' \<or> c \<in> set shell_metacharacters"

fun read_shell_word :: "quote_mode \<Rightarrow> string \<Rightarrow> string option" where
  "read_shell_word Unquoted [] = Some []"
| "read_shell_word Unquoted (c # cs) =
     (if c = CHR 0x27 then read_shell_word SingleQuoted cs
      else if c = CHR 0x22 then read_shell_word DoubleQuoted cs
      else if ends_word c then None
      else map_option ((#) c) (read_shell_word Unquoted cs))"
| "read_shell_word SingleQuoted [] = None"
| "read_shell_word SingleQuoted (c # cs) =
     (if c = CHR 0x27 then read_shell_word Unquoted cs
      else map_option ((#) c) (read_shell_word SingleQuoted cs))"
| "read_shell_word DoubleQuoted [] = None"
| "read_shell_word DoubleQuoted (c # cs) =
     (if c = CHR 0x22 then read_shell_word Unquoted cs
      else if c = CHR ''$'' \<or> c = CHR ''`'' \<or> c = CHR 0x5C then None
      else map_option ((#) c) (read_shell_word DoubleQuoted cs))"

lemma read_quoted_body:
  "read_shell_word SingleQuoted
     (concat (map (\<lambda>c. if c = CHR 0x27 then [CHR 0x27, CHR 0x22, CHR 0x27, CHR 0x22, CHR 0x27] else [c]) value)
        @ CHR 0x27 # rest) = map_option ((@) value) (read_shell_word Unquoted rest)"
  by (induction "value") (auto simp: option.map_comp comp_def option.map_ident_strong)

lemma validate_remote_host_ok:
  assumes "validate_remote_host host = Inr u"
  shows "trim host \<noteq> [] \<and> hd (trim host) \<noteq> CHR ''-'' \<and>
         (\<forall>c \<in> set (trim host). \<not> rust_whitespace c \<and> \<not> is_control c \<and> c \<noteq> CHR ''/'' \<and> c \<noteq> CHR 0x5C \<and>
            c \<notin> set shell_metacharacters)"
proof -
  have "starts_with ''-'' s \<longleftrightarrow> s \<noteq> [] \<and> hd s = CHR ''-''" for s
    by (cases s) (auto simp: starts_with_def)
  then show ?thesis
    using assms by (auto simp: validate_remote_host_def Let_def list_ex_iff split: if_splits)
qed

lemma tool_text_bounded: "length (fst (truncate_tool_text v max_chars)) \<le> min max_chars 1000"
  using truncate_context_text_bound [of v "min max_chars 1000"]
  by (simp add: truncate_tool_text_def clamp_tool_output_chars_def)

section \<open>Properties\<close>

text \<open>
  C38. Quoting is exact: a shell that reads a quoted value, followed by any further text, reads
  exactly the value (quotes, dollar signs, newlines and all) and then the rest, so no
  value can end its word or start an expansion.
\<close>

theorem shell_quote_exact:
  "read_shell_word Unquoted (shell_quote v @ rest) = map_option ((@) v) (read_shell_word Unquoted rest)"
proof (cases v)
  case Nil
  then show ?thesis by (simp add: shell_quote_def option.map_ident_strong)
next
  case (Cons c cs)
  then have "shell_quote v @ rest = CHR 0x27 # concat (map (\<lambda>c. if c = CHR 0x27
      then [CHR 0x27, CHR 0x22, CHR 0x27, CHR 0x22, CHR 0x27] else [c]) v) @ CHR 0x27 # rest"
    by (simp add: shell_quote_def)
  then show ?thesis using read_quoted_body [of v rest] by simp
qed

text \<open>
  C39. A tool call goes to a remote machine only under a safe name: the target's host is, up to
  surrounding blanks (which only a configured host may have), a nonempty word that starts
  with no dash and holds no blank, control character, slash, quote or other character a
  shell would interpret; and no path argument of the call names the local workspace.
\<close>

theorem remote_target_safe:
  assumes "execution_target_for_path workspace_root mode arguments path_keys = Inr (RemoteSsh host cwd)"
  shows "trim host \<noteq> [] \<and> hd (trim host) \<noteq> CHR ''-'' \<and>
         (\<forall>c \<in> set (trim host). \<not> rust_whitespace c \<and> \<not> is_control c \<and> c \<noteq> CHR ''/'' \<and> c \<noteq> CHR 0x5C \<and>
            c \<notin> set shell_metacharacters) \<and>
         (mode = Selectable \<longrightarrow> host = trim host) \<and>
         (mode \<noteq> Selectable \<longrightarrow> (\<forall>key \<in> set path_keys. \<forall>path. get_str key arguments = Some path \<longrightarrow>
            \<not> is_local_special_workspace_path workspace_root path))"
proof -
  have "(\<exists>u. validate_remote_host host = Inr u) \<and> (mode = Selectable \<longrightarrow> host = trim host) \<and>
      (mode \<noteq> Selectable \<longrightarrow> (\<forall>key \<in> set path_keys. \<forall>path. get_str key arguments = Some path \<longrightarrow>
            \<not> is_local_special_workspace_path workspace_root path))"
    using assms
    by (cases mode) (auto simp: execution_target_for_path_def execution_target_def fixed_target_def Let_def list_ex_iff
        split: option.splits sum.splits if_splits)
  then show ?thesis using validate_remote_host_ok [of host] by blast
qed

theorem remote_target_safe_witness:
  "execution_target_for_path ''/w'' Selectable (JObject [(''remote'', JString '' web '')]) [] = Inr (RemoteSsh ''web'' None) \<and>
   hd (trim ''web'') \<noteq> CHR ''-''"
proof -
  have run: "execution_target_for_path ''/w'' Selectable (JObject [(''remote'', JString '' web '')]) [] =
      Inr (RemoteSsh ''web'' None)"
  proof -
    have "trim '' web '' = ''web''" "trim ''web'' = ''web''"
      by (simp_all add: trim_def trim_start_def trim_end_def rust_whitespace_def)
    moreover have "validate_remote_host ''web'' = Inr ()" by code_simp
    ultimately show ?thesis
      by (simp add: execution_target_for_path_def execution_target_def Let_def json_get_def as_str_def)
  qed
  from run remote_target_safe [OF run] show ?thesis by blast
qed

end
