(* ===== verification/Tool_Executor.thy ===== *)
theory Tool_Executor
  imports Tool_Runtime Tool_Protocol
begin

text \<open>
  Model of \<open>core/src/session_actor/tool_executor.rs\<close>: running a batch of tool calls. A tool
  implementation is a parameter that answers or panics. The threads of a parallel segment,
  their result channel, the interrupt channel and the collecting thread form the step
  relation \<open>segment_step\<close>; the interleaving is any. A batch is then a run over its
  operations. The three methods the actor calls are functions on the running batch.
\<close>

section \<open>Results\<close>

definition tool_error_result :: "tool_batch_operation \<Rightarrow> string \<Rightarrow> tool_result_item" where
  "tool_error_result operation error =
     (let tool_call = item_tool_call (op_item operation)
      in \<lparr>tr_tool_call_id = tc_tool_call_id tool_call, tr_tool_name = tc_tool_name tool_call,
          tr_result = from_json (JObject [(''error'', JString error)])\<rparr>)"

definition interrupted_results :: "tool_batch_operation list \<Rightarrow> tool_result_item list" where
  "interrupted_results operations =
     map (\<lambda>operation. tool_error_result operation ''tool batch interrupted before this tool completed'') operations"

definition is_shell_result :: "tool_result_content \<Rightarrow> bool" where
  "is_shell_result result \<longleftrightarrow> Option.bind (trc_structured result) (get_str ''kind'') = Some ''shell_result''"

definition max_tool_result_context_chars :: nat where
  "max_tool_result_context_chars = 100000"

definition default_truncated_tool_result_preview_chars :: nat where
  "default_truncated_tool_result_preview_chars = 80000"

definition truncated_value :: "nat \<Rightarrow> string \<Rightarrow> json" where
  "truncated_value total_chars preview =
     JObject
       [(''truncated'', JBool True), (''limit_chars'', JInt (int max_tool_result_context_chars)),
        (''original_chars'', JInt (int total_chars)),
        (''note'', JString (''Tool result exceeded the 100000 character runtime limit and was truncated to ''
           @ ''100000 characters. Tools should return bounded output; the complete untruncated result was not saved.'')),
        (''preview'', JString preview)]"

definition truncated_tool_result_message :: "json_lib \<Rightarrow> nat \<Rightarrow> string \<Rightarrow> string" where
  "truncated_tool_result_message lib total_chars preview = normalize_tool_value lib (truncated_value total_chars preview)"

function preview_loop :: "json_lib \<Rightarrow> nat \<Rightarrow> string \<Rightarrow> nat \<Rightarrow> string" where
  "preview_loop lib total_chars original preview_chars =
     (let preview = fst (truncate_context_text original preview_chars)
      in if length (truncated_tool_result_message lib total_chars preview) \<le> max_tool_result_context_chars \<or>
            preview_chars = 0
         then preview
         else preview_loop lib total_chars original (saturating_mul preview_chars 4 div 5))"
  by pat_completeness auto
termination
  by (relation "measure (\<lambda>(_, _, _, preview_chars). preview_chars)") (auto simp: saturating_mul_def min_def)

declare preview_loop.simps [simp del]

definition capped_truncated_tool_result_preview :: "json_lib \<Rightarrow> nat \<Rightarrow> string \<Rightarrow> string" where
  "capped_truncated_tool_result_preview lib total_chars original =
     preview_loop lib total_chars original default_truncated_tool_result_preview_chars"

text \<open>\<open>normalize_legacy_context\<close> does nothing.\<close>

definition cap_tool_result_context :: "json_lib \<Rightarrow> tool_result_item \<Rightarrow> tool_result_item" where
  "cap_tool_result_context lib result =
     (if is_shell_result (tr_result result) then result
      else
        (let rendered = tool_result_text lib result;
             total_chars = length rendered
         in if total_chars \<le> max_tool_result_context_chars then result
            else result\<lparr>tr_result :=
                   (from_json (truncated_value total_chars
                      (capped_truncated_tool_result_preview lib total_chars rendered)))
                   \<lparr>trc_files := trc_files (tr_result result)\<rparr>\<rparr>))"

section \<open>One operation\<close>

datatype 'a thread_end = Returned 'a | Panicked

type_synonym tool_impl = "string \<Rightarrow> json \<Rightarrow> (local_tool_error + tool_result_content) thread_end"

definition call_tool ::
  "tool_impl \<Rightarrow> tool_catalog \<Rightarrow> string \<Rightarrow> json \<Rightarrow> (local_tool_error + tool_result_content) thread_end" where
  "call_tool impl catalog name args =
     (case btree_get name (cat_entries catalog) of
        Some (Base _) \<Rightarrow> impl name args
      | Some (Ext _) \<Rightarrow> impl name args
      | Some (ProviderNativeEntry _) \<Rightarrow>
          Returned (Inl (UnsupportedTool_error (name @ '' is provider-native and cannot be executed locally'')))
      | None \<Rightarrow> Returned (Inl (UnsupportedTool_error name)))"

definition execute_registered_tool ::
  "json_lib \<Rightarrow> tool_impl \<Rightarrow> tool_catalog option \<Rightarrow> tool_call_item \<Rightarrow> (local_tool_error + tool_result_item) thread_end" where
  "execute_registered_tool lib impl catalog tool_call =
     (case catalog of
        None \<Rightarrow> Returned (Inl (UnsupportedTool_error (tc_tool_name tool_call @ '' requires a registered tool catalog'')))
      | Some tool_catalog \<Rightarrow>
          (case parse_arguments lib (ci_text (tc_arguments tool_call)) of
             Inl e \<Rightarrow> Returned (Inl e)
           | Inr arguments \<Rightarrow>
               (case call_tool impl tool_catalog (tc_tool_name tool_call) arguments of
                  Panicked \<Rightarrow> Panicked
                | Returned (Inl e) \<Rightarrow> Returned (Inl e)
                | Returned (Inr result) \<Rightarrow>
                    Returned (Inr \<lparr>tr_tool_call_id = tc_tool_call_id tool_call,
                                   tr_tool_name = tc_tool_name tool_call, tr_result = result\<rparr>))))"

definition execute_operation ::
  "json_lib \<Rightarrow> tool_impl \<Rightarrow> tool_catalog option \<Rightarrow> tool_batch_item \<Rightarrow> (local_tool_error + tool_result_item) thread_end" where
  "execute_operation lib impl catalog item =
     (case item of
        RegisteredTool tool_call \<Rightarrow>
          (case execute_registered_tool lib impl catalog tool_call of
             Returned (Inr result) \<Rightarrow> Returned (Inr (cap_tool_result_context lib result))
           | other \<Rightarrow> other)
      | UnsupportedTool _ reason \<Rightarrow> Returned (Inl (UnsupportedTool_error reason)))"

text \<open>\<open>poisoned\<close>: a thread panicked earlier while it held the lock for writing.\<close>

definition execute_scheduled_operation ::
  "json_lib \<Rightarrow> tool_impl \<Rightarrow> tool_catalog option \<Rightarrow> bool \<Rightarrow> tool_batch_operation \<Rightarrow> (string + tool_result_item) thread_end" where
  "execute_scheduled_operation lib impl catalog poisoned scheduled =
     (if poisoned then Returned (Inl ''tool execution lock poisoned'')
      else case execute_operation lib impl catalog (op_item scheduled) of
        Panicked \<Rightarrow> Panicked
      | Returned (Inl error) \<Rightarrow> Returned (Inl (local_tool_error_text error))
      | Returned (Inr result) \<Rightarrow> Returned (Inr result))"

text \<open>The ends a thread of the operation may come to, whatever the tools do.\<close>

definition operation_end ::
  "json_lib \<Rightarrow> tool_catalog option \<Rightarrow> bool \<Rightarrow> tool_batch_operation \<Rightarrow> (string + tool_result_item) thread_end \<Rightarrow> bool" where
  "operation_end lib catalog poisoned scheduled e \<longleftrightarrow>
     (\<exists>impl. e = execute_scheduled_operation lib impl catalog poisoned scheduled)"

datatype operation_outcome = Completed tool_result_item | ToolError string

text \<open>
  A thread that sends its result has nothing left that could panic, so it is joined without
  an error; one that panics drops its sender.
\<close>

definition finish_operation_result :: "(string + tool_result_item) thread_end \<Rightarrow> operation_outcome" where
  "finish_operation_result e =
     (case e of
        Returned (Inr result) \<Rightarrow> Completed result
      | Returned (Inl error) \<Rightarrow> ToolError error
      | Panicked \<Rightarrow> ToolError ''tool stopped'')"

definition serial_result :: "tool_batch_operation \<Rightarrow> operation_outcome \<Rightarrow> tool_result_item" where
  "serial_result operation outcome =
     (case outcome of Completed result \<Rightarrow> result | ToolError error \<Rightarrow> tool_error_result operation error)"

section \<open>A parallel segment\<close>

definition next_serial_operation_index :: "tool_batch_operation list \<Rightarrow> nat \<Rightarrow> nat" where
  "next_serial_operation_index operations start =
     max (start + length (takeWhile (\<lambda>operation. op_concurrency operation \<noteq> Serial) (drop start operations)))
       (start + 1)"

text \<open>
  Where the collecting thread is: in the \<open>select!\<close> of the outer loop, in the \<open>try_recv\<close> loop
  after an interrupt, in the \<open>recv\<close> loop after it, or past the loop. The sender of the
  interrupt channel lives in the executor until the batch is finished, so that channel is
  never found disconnected.
\<close>

datatype segment_control = Selecting | Draining | Waiting | Segment_done

record segment =
  sg_running :: "nat list"
  sg_panicked :: "nat list"
  sg_channel :: "(nat \<times> (string + tool_result_item)) list"
  sg_results :: "tool_result_item option list"
  sg_completed :: nat
  sg_interrupted :: bool
  sg_progress :: "tool_result_item list"
  sg_signals :: nat
  sg_control :: segment_control

text \<open>\<open>signals\<close> interrupts will arrive; when is up to the schedule.\<close>

definition segment_start :: "tool_batch_operation list \<Rightarrow> nat \<Rightarrow> segment" where
  "segment_start operations signals =
     \<lparr>sg_running = [0..<length operations], sg_panicked = [], sg_channel = [],
      sg_results = replicate (length operations) None, sg_completed = 0, sg_interrupted = False,
      sg_progress = [], sg_signals = signals, sg_control = Selecting\<rparr>"

definition parallel_result :: "tool_batch_operation \<Rightarrow> string + tool_result_item \<Rightarrow> tool_result_item" where
  "parallel_result operation result =
     (case result of Inr r \<Rightarrow> r | Inl error \<Rightarrow> tool_error_result operation error)"

definition collect_parallel_result ::
  "tool_batch_operation list \<Rightarrow> nat \<Rightarrow> string + tool_result_item \<Rightarrow> segment \<Rightarrow> segment" where
  "collect_parallel_result operations index result s =
     (let r = parallel_result (operations ! index) result
      in s\<lparr>sg_channel := tl (sg_channel s), sg_results := (sg_results s)[index := Some r],
           sg_progress := sg_progress s @ [r], sg_completed := sg_completed s + 1\<rparr>)"

definition collect_disconnected_parallel_results :: "tool_batch_operation list \<Rightarrow> segment \<Rightarrow> segment" where
  "collect_disconnected_parallel_results operations s =
     s\<lparr>sg_results := map (\<lambda>index. case sg_results s ! index of
          Some r \<Rightarrow> Some r
        | None \<Rightarrow> Some (tool_error_result (operations ! index)
                    (if index \<in> set (sg_panicked s) then ''tool panicked'' else ''tool stopped'')))
        [0..<length operations]\<rparr>"

inductive segment_step ::
  "(tool_batch_operation \<Rightarrow> (string + tool_result_item) thread_end \<Rightarrow> bool) \<Rightarrow> tool_batch_operation list \<Rightarrow>
     segment \<Rightarrow> segment \<Rightarrow> bool"
  for ends :: "tool_batch_operation \<Rightarrow> (string + tool_result_item) thread_end \<Rightarrow> bool"
    and operations :: "tool_batch_operation list" where
  thread_returns: "i \<in> set (sg_running s) \<Longrightarrow> ends (operations ! i) (Returned r) \<Longrightarrow>
    segment_step ends operations s (s\<lparr>sg_running := remove1 i (sg_running s), sg_channel := sg_channel s @ [(i, r)]\<rparr>)"
| thread_panics: "i \<in> set (sg_running s) \<Longrightarrow> ends (operations ! i) Panicked \<Longrightarrow>
    segment_step ends operations s (s\<lparr>sg_running := remove1 i (sg_running s), sg_panicked := i # sg_panicked s\<rparr>)"
| recv_result: "sg_control s = Selecting \<or> sg_control s = Waiting \<Longrightarrow> sg_completed s < length operations \<Longrightarrow>
    sg_channel s = (i, r) # rest \<Longrightarrow> segment_step ends operations s (collect_parallel_result operations i r s)"
| select_disconnected: "sg_control s = Selecting \<Longrightarrow> sg_completed s < length operations \<Longrightarrow>
    sg_channel s = [] \<Longrightarrow> sg_running s = [] \<Longrightarrow>
    segment_step ends operations s (collect_disconnected_parallel_results operations (s\<lparr>sg_control := Segment_done\<rparr>))"
| select_interrupt: "sg_control s = Selecting \<Longrightarrow> sg_completed s < length operations \<Longrightarrow> sg_signals s > 0 \<Longrightarrow>
    segment_step ends operations s (s\<lparr>sg_interrupted := True, sg_signals := sg_signals s - 1, sg_control := Draining\<rparr>)"
| select_end: "sg_control s = Selecting \<Longrightarrow> sg_completed s \<ge> length operations \<Longrightarrow>
    segment_step ends operations s (s\<lparr>sg_control := Segment_done\<rparr>)"
| drain_result: "sg_control s = Draining \<Longrightarrow> sg_channel s = (i, r) # rest \<Longrightarrow>
    segment_step ends operations s (collect_parallel_result operations i r s)"
| drain_end: "sg_control s = Draining \<Longrightarrow> sg_channel s = [] \<Longrightarrow>
    segment_step ends operations s (s\<lparr>sg_control := Waiting\<rparr>)"
| wait_disconnected: "sg_control s = Waiting \<Longrightarrow> sg_completed s < length operations \<Longrightarrow>
    sg_channel s = [] \<Longrightarrow> sg_running s = [] \<Longrightarrow>
    segment_step ends operations s (collect_disconnected_parallel_results operations (s\<lparr>sg_control := Selecting\<rparr>))"
| wait_end: "sg_control s = Waiting \<Longrightarrow> sg_completed s \<ge> length operations \<Longrightarrow>
    segment_step ends operations s (s\<lparr>sg_control := Selecting\<rparr>)"

definition segment_outcome :: "tool_batch_operation list \<Rightarrow> segment \<Rightarrow> tool_result_item list" where
  "segment_outcome operations s =
     map (\<lambda>(index, result). unwrap_or (tool_error_result (operations ! index) ''tool stopped'') result)
       (enumerate 0 (sg_results s))"

section \<open>A batch\<close>

text \<open>
  \<open>run_operations poisoned operations results progress\<close>: the loop of \<open>execute_batch\<close> from the
  first of \<open>operations\<close> on.
\<close>

inductive run_operations ::
  "json_lib \<Rightarrow> tool_catalog option \<Rightarrow> bool \<Rightarrow> tool_batch_operation list \<Rightarrow> tool_result_item list \<Rightarrow>
     tool_result_item list \<Rightarrow> bool"
  for lib :: json_lib and catalog :: "tool_catalog option" where
  all_done: "run_operations lib catalog poisoned [] [] []"
| interrupted_before: "run_operations lib catalog poisoned (operation # operations)
    (interrupted_results (operation # operations)) (interrupted_results (operation # operations))"
| serial: "op_concurrency operation = Serial \<Longrightarrow> operation_end lib catalog poisoned operation e \<Longrightarrow>
    result = serial_result operation (finish_operation_result e) \<Longrightarrow>
    run_operations lib catalog (poisoned \<or> e = Panicked) operations results progress \<Longrightarrow>
    run_operations lib catalog poisoned (operation # operations) (result # results) (result # progress)"
| serial_interrupted: "op_concurrency operation = Serial \<Longrightarrow> operation_end lib catalog poisoned operation e \<Longrightarrow>
    result = serial_result operation (finish_operation_result e) \<Longrightarrow>
    run_operations lib catalog poisoned (operation # operations) (result # interrupted_results operations)
      (result # interrupted_results operations)"
| parallel: "op_concurrency operation \<noteq> Serial \<Longrightarrow>
    n = next_serial_operation_index (operation # operations) 0 \<Longrightarrow>
    segment_ops = take n (operation # operations) \<Longrightarrow>
    (segment_step (operation_end lib catalog poisoned) segment_ops)\<^sup>*\<^sup>* (segment_start segment_ops signals) s \<Longrightarrow>
    sg_control s = Segment_done \<Longrightarrow> \<not> sg_interrupted s \<Longrightarrow>
    run_operations lib catalog poisoned (drop n (operation # operations)) results progress \<Longrightarrow>
    run_operations lib catalog poisoned (operation # operations) (segment_outcome segment_ops s @ results)
      (sg_progress s @ progress)"
| parallel_interrupted: "op_concurrency operation \<noteq> Serial \<Longrightarrow>
    n = next_serial_operation_index (operation # operations) 0 \<Longrightarrow>
    segment_ops = take n (operation # operations) \<Longrightarrow>
    (segment_step (operation_end lib catalog poisoned) segment_ops)\<^sup>*\<^sup>* (segment_start segment_ops signals) s \<Longrightarrow>
    sg_control s = Segment_done \<Longrightarrow> sg_interrupted s \<Longrightarrow>
    rest = interrupted_results (drop n (operation # operations)) \<Longrightarrow>
    run_operations lib catalog poisoned (operation # operations) (segment_outcome segment_ops s @ rest)
      (sg_progress s @ rest)"

inductive execute_batch ::
  "json_lib \<Rightarrow> tool_catalog option \<Rightarrow> string \<Rightarrow> tool_batch \<Rightarrow> local_tool_error + chat_message \<Rightarrow>
     tool_result_item list \<Rightarrow> bool" for lib catalog fresh_id where
  empty_batch: "tb_operations batch = [] \<Longrightarrow>
    execute_batch lib catalog fresh_id batch (Inl (EmptyBatch_local (tb_batch_id batch))) []"
| full_batch: "tb_operations batch \<noteq> [] \<Longrightarrow>
    run_operations lib catalog False (tb_operations batch) results progress \<Longrightarrow>
    execute_batch lib catalog fresh_id batch (Inr (into_result_message fresh_id results)) progress"

section \<open>The interface of the actor\<close>

text \<open>The batch that is running, by its identifier, and the interrupts not yet taken from its channel.\<close>

record local_executor =
  ex_running :: "string option"
  ex_signals :: nat

definition executor_new :: local_executor where
  "executor_new = \<lparr>ex_running = None, ex_signals = 0\<rparr>"

definition executor_start :: "tool_batch \<Rightarrow> local_executor \<Rightarrow> (tool_batch_error + tool_batch_handle) \<times> local_executor" where
  "executor_start batch ex =
     (if tb_operations batch = [] then (Inl (EmptyBatch (tb_batch_id batch)), ex)
      else case ex_running ex of
        Some running \<Rightarrow> (Inl (Start (''tool batch '' @ running @ '' is already running'')), ex)
      | None \<Rightarrow> (Inr \<lparr>tbh_batch_id = tb_batch_id batch\<rparr>, \<lparr>ex_running = Some (tb_batch_id batch), ex_signals = 0\<rparr>))"

definition executor_interrupt :: "tool_batch_handle \<Rightarrow> local_executor \<Rightarrow> (tool_batch_error + unit) \<times> local_executor" where
  "executor_interrupt handle ex =
     (if ex_running ex = Some (tbh_batch_id handle)
      then (Inr (), ex\<lparr>ex_signals := ex_signals ex + 1\<rparr>)
      else (Inl (Interrupt (''unknown tool batch '' @ tbh_batch_id handle)), ex))"

text \<open>\<open>panicked\<close>: the worker thread of the batch panicked.\<close>

definition executor_finish :: "string \<Rightarrow> bool \<Rightarrow> local_executor \<Rightarrow> (tool_batch_error + unit) \<times> local_executor" where
  "executor_finish batch_id panicked ex =
     (if ex_running ex = Some batch_id
      then (if panicked then Inl (Finish (''tool batch '' @ batch_id @ '' panicked'')) else Inr (),
            ex\<lparr>ex_running := None\<rparr>)
      else (Inl (Finish (''unknown tool batch '' @ batch_id)), ex))"

section \<open>Laws\<close>

text \<open>A result that answers an operation carries the identifier and the name of its call.\<close>

definition answers_operation :: "tool_batch_operation \<Rightarrow> tool_result_item \<Rightarrow> bool" where
  "answers_operation operation result \<longleftrightarrow>
     tr_tool_call_id result = tc_tool_call_id (item_tool_call (op_item operation)) \<and>
     tr_tool_name result = tc_tool_name (item_tool_call (op_item operation))"

lemma error_answers [simp]: "answers_operation operation (tool_error_result operation e)"
  by (simp add: answers_operation_def tool_error_result_def Let_def)

lemma cap_keeps_call [simp]:
  "tr_tool_call_id (cap_tool_result_context lib r) = tr_tool_call_id r"
  "tr_tool_name (cap_tool_result_context lib r) = tr_tool_name r"
  by (simp_all add: cap_tool_result_context_def Let_def)

lemma operation_end_answers:
  "operation_end lib catalog poisoned operation (Returned (Inr r)) \<Longrightarrow> answers_operation operation r"
  unfolding operation_end_def
  by (auto simp: execute_scheduled_operation_def execute_operation_def execute_registered_tool_def
      answers_operation_def split: if_splits thread_end.splits sum.splits option.splits tool_batch_item.splits)

lemma operation_end_exists: "\<exists>e. operation_end lib catalog poisoned operation e"
  by (auto simp: operation_end_def)

lemma serial_result_answers:
  "operation_end lib catalog poisoned operation e \<Longrightarrow>
     answers_operation operation (serial_result operation (finish_operation_result e))"
  by (auto simp: serial_result_def finish_operation_result_def operation_end_answers
      split: thread_end.split sum.split)

lemma interrupted_answer: "list_all2 answers_operation operations (interrupted_results operations)"
  by (simp add: interrupted_results_def list_all2_map2 list_all2_same)

subsection \<open>Segments\<close>

text \<open>
  Every index is with a thread, in the channel, lost to a panic, or has its result; it is in
  the channel at most once; results answer their operations; \<open>completed\<close> does not exceed
  the number of results.
\<close>

definition segment_inv :: "tool_batch_operation list \<Rightarrow> segment \<Rightarrow> bool" where
  "segment_inv operations s \<longleftrightarrow>
     length (sg_results s) = length operations \<and>
     distinct (sg_running s @ map fst (sg_channel s)) \<and>
     (\<forall>i \<in> set (sg_running s) \<union> fst ` set (sg_channel s). i < length operations \<and> sg_results s ! i = None) \<and>
     (\<forall>(i, r) \<in> set (sg_channel s). answers_operation (operations ! i) (parallel_result (operations ! i) r)) \<and>
     (\<forall>i < length operations. \<forall>r. sg_results s ! i = Some r \<longrightarrow> answers_operation (operations ! i) r) \<and>
     sg_completed s \<le> card {i. i < length operations \<and> sg_results s ! i \<noteq> None} \<and>
     set (sg_progress s) \<subseteq> {r. Some r \<in> set (sg_results s)} \<and>
     (sg_control s = Segment_done \<longrightarrow> None \<notin> set (sg_results s))"

lemma segment_inv_start: "segment_inv operations (segment_start operations signals)"
  by (auto simp: segment_inv_def segment_start_def)

lemma completed_all:
  assumes "segment_inv operations s" and "sg_completed s \<ge> length operations"
  shows "None \<notin> set (sg_results s)"
proof
  assume "None \<in> set (sg_results s)"
  then obtain i where i: "i < length operations" "sg_results s ! i = None"
    using assms(1) by (auto simp: segment_inv_def in_set_conv_nth)
  then have "{j. j < length operations \<and> sg_results s ! j \<noteq> None} \<subseteq> {..<length operations} - {i}" by blast
  then have "card {j. j < length operations \<and> sg_results s ! j \<noteq> None} \<le> card ({..<length operations} - {i})"
    by (rule card_mono [rotated]) simp
  moreover have "sg_completed s \<le> card {j. j < length operations \<and> sg_results s ! j \<noteq> None}"
    using assms(1) unfolding segment_inv_def by blast
  ultimately have "length operations \<le> card ({..<length operations} - {i})" using assms(2) by linarith
  with i(1) show False by simp
qed

lemma collect_inv:
  assumes inv: "segment_inv operations s" and ch: "sg_channel s = (i, r) # rest" and run: "sg_control s \<noteq> Segment_done"
  shows "segment_inv operations (collect_parallel_result operations i r s)"
proof -
  let ?t = "collect_parallel_result operations i r s"
  have i: "i < length operations" "sg_results s ! i = None" "length (sg_results s) = length operations"
    using inv ch by (auto simp: segment_inv_def)
  have sets: "{j. j < length operations \<and> sg_results ?t ! j \<noteq> None} =
      insert i {j. j < length operations \<and> sg_results s ! j \<noteq> None}"
    using i by (auto simp: collect_parallel_result_def Let_def nth_list_update)
  have "card {j. j < length operations \<and> sg_results ?t ! j \<noteq> None} =
      Suc (card {j. j < length operations \<and> sg_results s ! j \<noteq> None})"
    unfolding sets using i by (subst card_insert_disjoint) auto
  moreover have "set (sg_progress ?t) \<subseteq> {x. Some x \<in> set (sg_results ?t)}"
  proof
    fix x assume "x \<in> set (sg_progress ?t)"
    then consider "x = parallel_result (operations ! i) r" | "Some x \<in> set (sg_results s)"
      using inv by (auto simp: collect_parallel_result_def Let_def segment_inv_def)
    then show "x \<in> {x. Some x \<in> set (sg_results ?t)}"
    proof cases
      case 1
      then show ?thesis using i by (simp add: collect_parallel_result_def Let_def set_update_memI)
    next
      case 2
      then obtain j where "j < length (sg_results s)" "sg_results s ! j = Some x"
        by (auto simp: in_set_conv_nth)
      then have "j < length (sg_results ?t)" "sg_results ?t ! j = Some x"
        using i by (auto simp: collect_parallel_result_def Let_def nth_list_update)
      then show ?thesis by (metis mem_Collect_eq nth_mem)
    qed
  qed
  ultimately show ?thesis
    using inv ch run i
    by (auto simp: segment_inv_def collect_parallel_result_def Let_def nth_list_update)
qed

lemma disconnected_inv:
  assumes inv: "segment_inv operations s" and idle: "sg_channel s = []" "sg_running s = []"
  shows "segment_inv operations (collect_disconnected_parallel_results operations (s\<lparr>sg_control := c\<rparr>))"
proof -
  let ?t = "collect_disconnected_parallel_results operations (s\<lparr>sg_control := c\<rparr>)"
  have results: "sg_results ?t ! i = (case sg_results s ! i of Some r \<Rightarrow> Some r
      | None \<Rightarrow> Some (tool_error_result (operations ! i)
          (if i \<in> set (sg_panicked s) then ''tool panicked'' else ''tool stopped'')))" if "i < length operations" for i
    using that by (simp add: collect_disconnected_parallel_results_def split: option.split)
  have none: "None \<notin> set (sg_results ?t)"
    by (auto simp: collect_disconnected_parallel_results_def split: option.splits)
  have all: "{i. i < length operations \<and> sg_results ?t ! i \<noteq> None} = {..<length operations}"
    by (auto simp: results split: option.splits)
  have "card {i. i < length operations \<and> sg_results s ! i \<noteq> None} \<le> card {..<length operations}"
    by (rule card_mono) auto
  then have le: "sg_completed s \<le> length operations" using inv by (simp add: segment_inv_def)
  have "set (sg_progress ?t) \<subseteq> {r. Some r \<in> set (sg_results ?t)}"
  proof
    fix x assume "x \<in> set (sg_progress ?t)"
    then have "Some x \<in> set (sg_results s)"
      using inv by (auto simp: collect_disconnected_parallel_results_def segment_inv_def)
    then obtain j where "j < length operations" "sg_results s ! j = Some x"
      using inv by (auto simp: in_set_conv_nth segment_inv_def)
    then have "j < length (sg_results ?t)" "sg_results ?t ! j = Some x"
      using results by (auto simp: collect_disconnected_parallel_results_def)
    then show "x \<in> {r. Some r \<in> set (sg_results ?t)}" by (metis mem_Collect_eq nth_mem)
  qed
  moreover have "answers_operation (operations ! i) r"
    if "i < length operations" "sg_results ?t ! i = Some r" for i r
    using that results [OF that(1)] inv by (auto simp: segment_inv_def split: option.splits)
  moreover have "length (sg_results ?t) = length operations" "sg_running ?t = []" "sg_channel ?t = []"
    "sg_completed ?t = sg_completed s"
    using idle by (simp_all add: collect_disconnected_parallel_results_def)
  ultimately show ?thesis using none all le unfolding segment_inv_def by simp
qed

lemma segment_step_inv:
  assumes "segment_step ends operations s t" and "segment_inv operations s"
    and "\<And>operation r. ends operation (Returned (Inr r)) \<Longrightarrow> answers_operation operation r"
  shows "segment_inv operations t"
  using assms(1)
proof cases
  case (thread_returns i r)
  have "answers_operation (operations ! i) (parallel_result (operations ! i) r)"
    using thread_returns(3) assms(3) by (cases r) (auto simp: parallel_result_def)
  then show ?thesis using assms(2) thread_returns by (auto simp: segment_inv_def)
next
  case (thread_panics i)
  then show ?thesis using assms(2) by (auto simp: segment_inv_def)
next
  case (recv_result i r rest)
  then show ?thesis using collect_inv [OF assms(2)] by auto
next
  case select_disconnected
  then show ?thesis using disconnected_inv [OF assms(2)] by simp
next
  case select_end
  then show ?thesis using assms(2) completed_all [OF assms(2)] by (simp add: segment_inv_def)
next
  case (drain_result i r rest)
  then show ?thesis using collect_inv [OF assms(2)] by simp
next
  case wait_disconnected
  then show ?thesis using disconnected_inv [OF assms(2)] by simp
qed (use assms(2) in \<open>simp_all add: segment_inv_def\<close>)

lemma segment_steps_inv:
  assumes "(segment_step (operation_end lib catalog poisoned) operations)\<^sup>*\<^sup>* (segment_start operations signals) s"
  shows "segment_inv operations s"
  using assms
  by (induction rule: rtranclp_induct)
    (auto intro: segment_inv_start segment_step_inv operation_end_answers)

text \<open>Every step makes the rest of the run shorter, and until the end there is a step.\<close>

definition control_rank :: "segment_control \<Rightarrow> nat" where
  "control_rank c = (case c of Segment_done \<Rightarrow> 0 | Selecting \<Rightarrow> 1 | Waiting \<Rightarrow> 2 | Draining \<Rightarrow> 3)"

definition segment_measure :: "segment \<Rightarrow> nat" where
  "segment_measure s =
     3 * length (sg_running s) + 2 * length (sg_channel s) + 4 * sg_signals s + control_rank (sg_control s)"

lemma length_remove1_in: "x \<in> set xs \<Longrightarrow> length xs = Suc (length (remove1 x xs))"
  by (induction xs) auto

lemma segment_step_decreases: "segment_step ends operations s t \<Longrightarrow> segment_measure t < segment_measure s"
proof (induction rule: segment_step.induct)
  case (thread_returns i s r)
  from thread_returns(1) have "length (sg_running s) = Suc (length (remove1 i (sg_running s)))" by (rule length_remove1_in)
  then show ?case by (simp add: segment_measure_def)
next
  case (thread_panics i s)
  from thread_panics(1) have "length (sg_running s) = Suc (length (remove1 i (sg_running s)))" by (rule length_remove1_in)
  then show ?case by (simp add: segment_measure_def)
qed (auto simp: segment_measure_def control_rank_def collect_parallel_result_def Let_def
      collect_disconnected_parallel_results_def)

lemma segment_progress:
  assumes "sg_control s \<noteq> Segment_done" and "\<And>operation. \<exists>e. ends operation e"
  shows "\<exists>t. segment_step ends operations s t"
proof (cases "sg_running s")
  case (Cons i js)
  obtain e where "ends (operations ! i) e" using assms(2) by blast
  moreover have "i \<in> set (sg_running s)" using Cons by simp
  ultimately show ?thesis by (cases e) (blast intro: segment_step.intros)+
next
  case Nil
  show ?thesis
  proof (cases "sg_channel s")
    case Nil': Nil
    with Nil assms(1) show ?thesis
      by (cases "sg_control s"; cases "sg_completed s < length operations")
        (auto intro: select_disconnected select_end drain_end wait_disconnected wait_end simp: not_less)
  next
    case (Cons x rest)
    obtain i r where x: "x = (i, r)" by (cases x)
    with Cons assms(1) show ?thesis
      by (cases "sg_control s"; cases "sg_completed s < length operations")
        (auto intro: recv_result drain_result select_end wait_end simp: not_less)
  qed
qed

lemma segment_finishes:
  assumes "\<And>operation. \<exists>e. ends operation e"
  shows "\<exists>t. (segment_step ends operations)\<^sup>*\<^sup>* s t \<and> sg_control t = Segment_done"
proof (induction "segment_measure s" arbitrary: s rule: less_induct)
  case less
  show ?case
  proof (cases "sg_control s = Segment_done")
    case False
    then obtain t where t: "segment_step ends operations s t" using segment_progress assms by blast
    from less [OF segment_step_decreases [OF t]] obtain u
      where "(segment_step ends operations)\<^sup>*\<^sup>* t u" "sg_control u = Segment_done" by blast
    with t show ?thesis by (meson converse_rtranclp_into_rtranclp)
  qed blast
qed

lemma segment_outcome_answers:
  assumes "segment_inv operations s" and "sg_control s = Segment_done"
  shows "list_all2 answers_operation operations (segment_outcome operations s) \<and>
         set (sg_progress s) \<subseteq> set (segment_outcome operations s)"
proof -
  have len: "length (sg_results s) = length operations" and none: "None \<notin> set (sg_results s)"
    using assms by (auto simp: segment_inv_def)
  have nth: "sg_results s ! i = Some (segment_outcome operations s ! i)" if "i < length operations" for i
    using that len none nth_mem [of i "sg_results s"]
    by (cases "sg_results s ! i") (auto simp: segment_outcome_def nth_enumerate_eq unwrap_or_def)
  have out: "length (segment_outcome operations s) = length operations"
    by (simp add: segment_outcome_def len)
  have "list_all2 answers_operation operations (segment_outcome operations s)"
    using assms(1) out nth by (auto simp: list_all2_conv_all_nth segment_inv_def)
  moreover have "set (sg_progress s) \<subseteq> set (segment_outcome operations s)"
  proof
    fix x assume "x \<in> set (sg_progress s)"
    then have "Some x \<in> set (sg_results s)" using assms(1) by (auto simp: segment_inv_def)
    then obtain i where "i < length operations" "sg_results s ! i = Some x" by (auto simp: in_set_conv_nth len)
    then show "x \<in> set (segment_outcome operations s)" using nth out by (metis nth_mem option.inject)
  qed
  ultimately show ?thesis ..
qed

subsection \<open>Batches\<close>

lemma run_operations_answers:
  "run_operations lib catalog poisoned operations results progress \<Longrightarrow>
     list_all2 answers_operation operations results \<and> set progress \<subseteq> set results"
proof (induction rule: run_operations.induct)
  case (parallel operation n operations segment_ops poisoned signals s results progress)
  have seg: "list_all2 answers_operation segment_ops (segment_outcome segment_ops s)"
    "set (sg_progress s) \<subseteq> set (segment_outcome segment_ops s)"
    using segment_outcome_answers [OF segment_steps_inv [OF parallel(4)] parallel(5)] by auto
  have "list_all2 answers_operation (segment_ops @ drop n (operation # operations)) (segment_outcome segment_ops s @ results)"
    using seg(1) parallel.IH by (auto intro: list_all2_appendI)
  then show ?case using seg(2) parallel.IH parallel.hyps(3) by auto
next
  case (parallel_interrupted operation n operations segment_ops poisoned signals s rest)
  have seg: "list_all2 answers_operation segment_ops (segment_outcome segment_ops s)"
    "set (sg_progress s) \<subseteq> set (segment_outcome segment_ops s)"
    using segment_outcome_answers [OF segment_steps_inv [OF parallel_interrupted(4)] parallel_interrupted(5)] by auto
  have "list_all2 answers_operation (segment_ops @ drop n (operation # operations)) (segment_outcome segment_ops s @ rest)"
    using seg(1) parallel_interrupted(7) by (auto intro: list_all2_appendI interrupted_answer)
  then show ?case using seg(2) parallel_interrupted(3) by auto
qed (auto intro: serial_result_answers interrupted_answer)

lemma next_serial_pos: "start < next_serial_operation_index operations start"
  by (simp add: next_serial_operation_index_def)

text \<open>Whatever the tools do, a batch that is not interrupted runs to its end.\<close>

lemma run_operations_total: "\<exists>results progress. run_operations lib catalog poisoned operations results progress"
proof (induction "length operations" arbitrary: operations poisoned rule: less_induct)
  case less
  show ?case
  proof (cases operations)
    case Nil
    then show ?thesis using all_done by blast
  next
    case (Cons operation rest)
    show ?thesis
    proof (cases "op_concurrency operation = Serial")
      case True
      obtain e where e: "operation_end lib catalog poisoned operation e" using operation_end_exists by blast
      obtain results progress where "run_operations lib catalog (poisoned \<or> e = Panicked) rest results progress"
        using less [of rest "poisoned \<or> e = Panicked"] Cons by auto
      from serial [OF True e refl this] show ?thesis using Cons by blast
    next
      case False
      let ?n = "next_serial_operation_index (operation # rest) 0"
      let ?ops = "take ?n (operation # rest)"
      obtain s where s: "(segment_step (operation_end lib catalog poisoned) ?ops)\<^sup>*\<^sup>* (segment_start ?ops 0) s"
        "sg_control s = Segment_done"
        using segment_finishes operation_end_exists by blast
      obtain results progress where "run_operations lib catalog poisoned (drop ?n (operation # rest)) results progress"
        using less [of "drop ?n (operation # rest)" poisoned] Cons next_serial_pos [of 0 "operation # rest"] by auto
      from parallel [OF False refl refl s _ this] parallel_interrupted [OF False refl refl s _ refl]
      show ?thesis using Cons by (cases "sg_interrupted s") blast+
    qed
  qed
qed

lemma preview_loop_fits:
  "length (truncated_tool_result_message lib n (preview_loop lib n original k)) \<le> max_tool_result_context_chars \<or>
   preview_loop lib n original k = []"
proof (induction lib n original k rule: preview_loop.induct)
  case (1 lib n original k)
  let ?fits = "length (truncated_tool_result_message lib n (fst (truncate_context_text original k))) \<le> max_tool_result_context_chars"
  consider "?fits" | "\<not> ?fits" "k = 0" | "\<not> ?fits" "k \<noteq> 0" by blast
  then show ?case
  proof cases
    case 2
    have "fst (truncate_context_text original 0) = []"
      by (simp add: truncate_context_text_def Let_def)
    then show ?thesis using 2 by (simp add: preview_loop.simps [of lib n original 0] Let_def)
  next
    case 3
    then show ?thesis using 1 [OF refl] by (simp add: preview_loop.simps [of lib n original k] Let_def)
  qed (simp add: preview_loop.simps [of lib n original k] Let_def)
qed

section \<open>Properties\<close>

text \<open>
  C9. A batch answers every call exactly once: whatever the tools return, however they fail or
  panic, in whatever order their threads end and whenever an interrupt arrives, the message
  of a batch holds one result per operation, in the order of the operations and with the
  identifier and name of its call; progress only reports results that are in the message;
  and a history whose unanswered calls are those of the batch is closed by it.
\<close>

theorem batch_answers_every_call:
  assumes "execute_batch lib catalog fresh_id batch (Inr message) progress"
  shows "\<exists>results. cm_data message = map ToolResult results \<and>
           list_all2 answers_operation (tb_operations batch) results \<and> set progress \<subseteq> set results \<and>
           (\<forall>h. tc_tool_call_id ` set (collect_unclosed_tool_calls h) \<subseteq>
                  (\<lambda>operation. tc_tool_call_id (item_tool_call (op_item operation))) ` set (tb_operations batch) \<longrightarrow>
                collect_unclosed_tool_calls (h @ [message]) = [])"
proof -
  obtain results where run: "run_operations lib catalog False (tb_operations batch) results progress"
    and data: "cm_data message = map ToolResult results"
    using assms by cases (auto simp: into_result_message_def chat_message_new_def)
  note answers = run_operations_answers [OF run]
  have "(\<lambda>operation. tc_tool_call_id (item_tool_call (op_item operation))) ` set (tb_operations batch) \<subseteq>
      tr_tool_call_id ` set results"
  proof
    fix i assume "i \<in> (\<lambda>operation. tc_tool_call_id (item_tool_call (op_item operation))) ` set (tb_operations batch)"
    then obtain k where "k < length (tb_operations batch)" "i = tc_tool_call_id (item_tool_call (op_item (tb_operations batch ! k)))"
      by (auto simp: in_set_conv_nth)
    then have "k < length results" "i = tr_tool_call_id (results ! k)"
      using answers by (auto simp: list_all2_conv_all_nth answers_operation_def)
    then show "i \<in> tr_tool_call_id ` set results" by simp
  qed
  note results_answer = this
  have close: "collect_unclosed_tool_calls (h @ [message]) = []"
    if "tc_tool_call_id ` set (collect_unclosed_tool_calls h) \<subseteq>
      (\<lambda>operation. tc_tool_call_id (item_tool_call (op_item operation))) ` set (tb_operations batch)" for h
    by (rule results_close [OF data subset_trans [OF that results_answer]])
  show ?thesis
    by (intro exI [of _ results] conjI data conjunct1 [OF answers] conjunct2 [OF answers] allI impI close)
qed

definition sample_operation :: "string \<Rightarrow> tool_concurrency \<Rightarrow> tool_batch_operation" where
  "sample_operation call_id concurrency =
     \<lparr>op_item = UnsupportedTool \<lparr>tc_item_id = None, tc_tool_call_id = call_id, tc_tool_name = ''t'', tc_arguments = \<lparr>ci_text = ''{}''\<rparr>\<rparr> ''off'',
      op_concurrency = concurrency\<rparr>"

theorem batch_answers_every_call_witness:
  "\<exists>message progress. execute_batch \<lparr>from_str = \<lambda>_. None, to_string_pretty = \<lambda>_. None\<rparr> None ''i''
       \<lparr>tb_batch_id = ''b'', tb_operations = [sample_operation ''1'' Serial, sample_operation ''2'' Parallel]\<rparr>
       (Inr message) progress \<and> length (cm_data message) = 2"
proof -
  let ?lib = "\<lparr>from_str = \<lambda>_. None, to_string_pretty = \<lambda>_. None\<rparr>"
  let ?ops = "[sample_operation ''1'' Serial, sample_operation ''2'' Parallel]"
  have "\<exists>results progress. run_operations ?lib None False ?ops results progress"
    by (rule run_operations_total)
  then obtain results progress where ops: "run_operations ?lib None False ?ops results progress"
    by blast
  have run: "execute_batch ?lib None ''i'' \<lparr>tb_batch_id = ''b'', tb_operations = ?ops\<rparr>
      (Inr (into_result_message ''i'' results)) progress"
    by (rule full_batch) (simp_all add: ops)
  obtain answers where "cm_data (into_result_message ''i'' results) = map ToolResult answers"
    "list_all2 answers_operation ?ops answers"
    using batch_answers_every_call [OF run] by auto
  then have "length (cm_data (into_result_message ''i'' results)) = 2" by (simp add: list_all2_lengthD [symmetric])
  with run show ?thesis by blast
qed

text \<open>
  C10. A parallel segment always comes to its end: in every reachable state either the segment
  is over, with one answer per operation, or some thread can take a step; and every step
  brings the end closer, so no schedule of threads and interrupts runs forever or gets
  stuck.
\<close>

theorem parallel_segment_completes:
  assumes "(segment_step (operation_end lib catalog poisoned) operations)\<^sup>*\<^sup>* (segment_start operations signals) s"
  shows "(if sg_control s = Segment_done
          then list_all2 answers_operation operations (segment_outcome operations s)
          else \<exists>t. segment_step (operation_end lib catalog poisoned) operations s t) \<and>
         (\<forall>t. segment_step (operation_end lib catalog poisoned) operations s t \<longrightarrow>
              segment_measure t < segment_measure s)"
proof (intro conjI allI impI)
  show "if sg_control s = Segment_done then list_all2 answers_operation operations (segment_outcome operations s)
    else \<exists>t. segment_step (operation_end lib catalog poisoned) operations s t"
  proof (cases "sg_control s = Segment_done")
    case True
    then show ?thesis using segment_outcome_answers [OF segment_steps_inv [OF assms]] by simp
  next
    case False
    then show ?thesis using segment_progress [OF False operation_end_exists] by simp
  qed
qed (rule segment_step_decreases)

theorem parallel_segment_completes_witness:
  "\<exists>s. (segment_step (operation_end \<lparr>from_str = \<lambda>_. None, to_string_pretty = \<lambda>_. None\<rparr> None False)
          [sample_operation ''1'' Parallel])\<^sup>*\<^sup>* (segment_start [sample_operation ''1'' Parallel] 1) s \<and>
        sg_control s = Segment_done \<and>
        list_all2 answers_operation [sample_operation ''1'' Parallel] (segment_outcome [sample_operation ''1'' Parallel] s)"
proof -
  obtain s where s: "(segment_step (operation_end \<lparr>from_str = \<lambda>_. None, to_string_pretty = \<lambda>_. None\<rparr> None False)
      [sample_operation ''1'' Parallel])\<^sup>*\<^sup>* (segment_start [sample_operation ''1'' Parallel] 1) s"
    "sg_control s = Segment_done"
    using segment_finishes operation_end_exists by blast
  with parallel_segment_completes [OF s(1)] show ?thesis by auto
qed

end
