(* ===== verification/Host_Config.thy ===== *)
theory Host_Config
  imports Session_Rpc Ordered_Map
begin

text \<open>
  Model of \<open>stellaclaw/src/config/mod.rs\<close>: the configuration of the host in its current
  version, its validation and the choice of the first model. Environment variables are
  arguments. The migrations of older versions (\<open>config/loaders\<close>) are not modelled.
\<close>

section \<open>Results\<close>

text \<open>A check followed by the rest of the function, and a \<open>for\<close> loop of checks.\<close>

definition check_then :: "'e + unit \<Rightarrow> 'e + 'a \<Rightarrow> 'e + 'a" where
  "check_then c r = (case c of Inl e \<Rightarrow> Inl e | Inr _ \<Rightarrow> r)"

fun check_all :: "('a \<Rightarrow> 'e + unit) \<Rightarrow> 'a list \<Rightarrow> 'e + unit" where
  "check_all f [] = Inr ()"
| "check_all f (x # xs) = check_then (f x) (check_all f xs)"

definition ensure :: "bool \<Rightarrow> 'e \<Rightarrow> 'e + unit" where
  "ensure b e = (if b then Inr () else Inl e)"

definition map_err :: "('e \<Rightarrow> 'f) \<Rightarrow> 'e + 'a \<Rightarrow> 'f + 'a" where
  "map_err f r = (case r of Inl e \<Rightarrow> Inl (f e) | Inr x \<Rightarrow> Inr x)"

lemma check_then_ok [simp]: "check_then c r = Inr x \<longleftrightarrow> c = Inr () \<and> r = Inr x"
  by (cases c) (simp_all add: check_then_def)

lemma check_all_ok [simp]: "check_all f xs = Inr () \<longleftrightarrow> (\<forall>x \<in> set xs. f x = Inr ())"
  by (induction xs) auto

lemma ensure_ok [simp]: "ensure b e = Inr () \<longleftrightarrow> b"
  by (simp add: ensure_def)

lemma map_err_ok [simp]: "map_err f r = Inr x \<longleftrightarrow> r = Inr x"
  by (cases r) (simp_all add: map_err_def)

section \<open>Data\<close>

datatype model_selection = Alias string | Inline model_config

record session_profile =
  sp_main_model :: model_selection

datatype tool_model_target = Alias_target string | Inline_target model_config

record session_defaults =
  sd_compression_threshold_tokens :: "nat option"
  sd_compression_retain_recent_tokens :: "nat option"
  sd_image_tool_model :: "tool_model_target option"
  sd_pdf_tool_model :: "tool_model_target option"
  sd_audio_tool_model :: "tool_model_target option"
  sd_image_generation_tool_model :: "tool_model_target option"
  sd_search_tool_model :: "tool_model_target option"
  sd_search_image_tool_model :: "tool_model_target option"
  sd_search_video_tool_model :: "tool_model_target option"
  sd_search_news_tool_model :: "tool_model_target option"

definition session_defaults_default :: session_defaults where
  "session_defaults_default =
     \<lparr>sd_compression_threshold_tokens = None, sd_compression_retain_recent_tokens = None,
      sd_image_tool_model = None, sd_pdf_tool_model = None, sd_audio_tool_model = None,
      sd_image_generation_tool_model = None, sd_search_tool_model = None,
      sd_search_image_tool_model = None, sd_search_video_tool_model = None,
      sd_search_news_tool_model = None\<rparr>"

record memory_config =
  mem_enabled :: bool
  mem_user_compaction_model_alias :: "string option"
  mem_dedupe_model_alias :: "string option"
  mem_user_soft_threshold_bytes :: nat
  mem_user_hard_threshold_bytes :: nat
  mem_user_retry_after_failed_hard_compaction_secs :: nat
  mem_user_soft_compaction_schedule :: string
  mem_write_candidate_limit :: nat
  mem_tool_result_max_bytes :: nat

definition memory_config_default :: memory_config where
  "memory_config_default =
     \<lparr>mem_enabled = False, mem_user_compaction_model_alias = None, mem_dedupe_model_alias = None,
      mem_user_soft_threshold_bytes = 4096, mem_user_hard_threshold_bytes = 8192,
      mem_user_retry_after_failed_hard_compaction_secs = 21600,
      mem_user_soft_compaction_schedule = ''daily'', mem_write_candidate_limit = 10,
      mem_tool_result_max_bytes = 4096\<rparr>"

datatype sandbox_mode = Subprocess | Bubblewrap

record sandbox_config =
  sc_mode :: sandbox_mode
  sc_bubblewrap_binary :: string
  sc_software_dir :: "string option"
  sc_software_mount_path :: string

definition sandbox_config_default :: sandbox_config where
  "sandbox_config_default =
     \<lparr>sc_mode = Subprocess, sc_bubblewrap_binary = ''bwrap'', sc_software_dir = None,
      sc_software_mount_path = ''/opt''\<rparr>"

record skill_sync_config =
  sk_skill_name :: "string list"
  sk_upstream :: "string list"

record telegram_channel_config =
  tg_id :: string
  tg_bot_token :: "string option"
  tg_bot_token_env :: string
  tg_api_base_url :: string
  tg_poll_timeout_seconds :: nat
  tg_poll_interval_ms :: nat
  tg_admin_user_ids :: "int list"

record web_channel_config =
  web_id :: string
  web_bind_addr :: string
  web_token_env :: string

datatype channel_config = Telegram telegram_channel_config | Web web_channel_config

record stellaclaw_config =
  cf_version :: string
  cf_agent_server_path :: "string option"
  cf_default_profile :: "session_profile option"
  cf_models :: "(string, model_config) btree_map"
  cf_available_agent_models :: "string list"
  cf_session_defaults :: session_defaults
  cf_memory :: memory_config
  cf_skill_sync :: "skill_sync_config list"
  cf_sandbox :: sandbox_config
  cf_channels :: "channel_config list"

definition latest_config_version :: string where
  "latest_config_version = ''0.14''"

section \<open>Selections\<close>

definition model_selection_resolve :: "model_selection \<Rightarrow> (string, model_config) btree_map \<Rightarrow> model_config option" where
  "model_selection_resolve selection models =
     (case selection of Alias alias \<Rightarrow> btree_get alias models | Inline model \<Rightarrow> Some model)"

definition model_selection_display_name :: "model_selection \<Rightarrow> (string, model_config) btree_map \<Rightarrow> string" where
  "model_selection_display_name selection models =
     (case selection of
        Alias alias \<Rightarrow> unwrap_or alias (map_option mc_model_name (btree_get alias models))
      | Inline model \<Rightarrow> mc_model_name model)"

definition parse_tool_model_target :: "string \<Rightarrow> string + (string \<times> bool)" where
  "parse_tool_model_target raw =
     (if trim raw = [] then Inl ''tool model target must not be empty''
      else case split_once (CHR '':'') raw of
        Some (alias, sfx) \<Rightarrow>
          if trim sfx \<noteq> ''self'' then
            Inl (''unsupported tool model target suffix '' @ [CHR 0x27] @ trim sfx @ [CHR 0x27] @ ''; expected '' @
                 [CHR 0x27] @ '':self'' @ [CHR 0x27])
          else if trim alias = [] then Inl ''tool model target alias must not be empty''
          else Inr (trim alias, True)
      | None \<Rightarrow> Inr (trim raw, False))"

definition tool_model_target_resolve ::
  "tool_model_target \<Rightarrow> (string, model_config) btree_map \<Rightarrow> model_config \<Rightarrow> string + model_config" where
  "tool_model_target_resolve target models session_model =
     (case target of
        Inline_target model \<Rightarrow> Inr model
      | Alias_target raw \<Rightarrow>
          (case parse_tool_model_target raw of
             Inl e \<Rightarrow> Inl e
           | Inr (alias, prefer_self) \<Rightarrow>
               if prefer_self then Inr session_model
               else case btree_get alias models of
                 Some model \<Rightarrow> Inr model
               | None \<Rightarrow> Inl (''unknown tool model alias '' @ [CHR 0x27] @ alias @ [CHR 0x27])))"

definition available_agent_models :: "stellaclaw_config \<Rightarrow> (string \<times> model_config) list" where
  "available_agent_models c =
     (if cf_available_agent_models c = [] then filter (\<lambda>(_, model). supports model Chat) (cf_models c)
      else List.map_filter
        (\<lambda>alias. filter_option (\<lambda>(_, model). supports model Chat)
           (map_option (Pair alias) (btree_get alias (cf_models c))))
        (cf_available_agent_models c))"

definition resolve_session_model :: "stellaclaw_config \<Rightarrow> session_profile \<Rightarrow> model_config option" where
  "resolve_session_model c profile = model_selection_resolve (sp_main_model profile) (cf_models c)"

definition model_selection_alias :: "stellaclaw_config \<Rightarrow> model_selection \<Rightarrow> string option" where
  "model_selection_alias c selection =
     (let named = \<lambda>p. map_option fst (find (\<lambda>(_, model). p model) (cf_models c))
      in case selection of
           Alias alias \<Rightarrow>
             if btree_contains alias (cf_models c) then Some alias else named (\<lambda>model. mc_model_name model = alias)
         | Inline target \<Rightarrow>
             or_else (named (\<lambda>model. model = target)) (named (\<lambda>model. mc_model_name model = mc_model_name target)))"

definition initial_main_model_name :: "stellaclaw_config \<Rightarrow> string option" where
  "initial_main_model_name c =
     or_else (Option.bind (cf_default_profile c) (\<lambda>profile. model_selection_alias c (sp_main_model profile)))
       (case available_agent_models c of [] \<Rightarrow> None | (name, _) # _ \<Rightarrow> Some name)"

definition initial_main_model :: "stellaclaw_config \<Rightarrow> model_config option" where
  "initial_main_model c =
     or_else (Option.bind (cf_default_profile c) (resolve_session_model c))
       (case available_agent_models c of [] \<Rightarrow> None | (_, model) # _ \<Rightarrow> Some model)"

definition initial_session_profile :: "stellaclaw_config \<Rightarrow> string + session_profile" where
  "initial_session_profile c =
     (case initial_main_model_name c of
        Some main_model \<Rightarrow> Inr \<lparr>sp_main_model = Alias main_model\<rparr>
      | None \<Rightarrow> Inl ''config must include at least one chat-capable model'')"

section \<open>Validation\<close>

definition validate_available_agent_models :: "stellaclaw_config \<Rightarrow> string + unit" where
  "validate_available_agent_models c =
     check_all
       (\<lambda>alias. case btree_get alias (cf_models c) of
          None \<Rightarrow> Inl (''available_agent_models references unknown model '' @ alias)
        | Some model \<Rightarrow> ensure (supports model Chat) (''available_agent_models entry '' @ alias @ '' is not chat-capable''))
       (cf_available_agent_models c)"

definition validate_memory_models :: "stellaclaw_config \<Rightarrow> string + unit" where
  "validate_memory_models c =
     check_all
       (\<lambda>(field, alias). case filter_option (\<lambda>a. a \<noteq> []) (map_option trim alias) of
          None \<Rightarrow> Inr ()
        | Some alias \<Rightarrow>
            (case btree_get alias (cf_models c) of
               None \<Rightarrow> Inl (field @ '' references unknown model '' @ alias)
             | Some model \<Rightarrow> ensure (supports model Chat) (field @ '' entry '' @ alias @ '' is not chat-capable'')))
       [(''memory.user_compaction_model_alias'', mem_user_compaction_model_alias (cf_memory c)),
        (''memory.dedupe_model_alias'', mem_dedupe_model_alias (cf_memory c))]"

definition is_ascii_alphanumeric :: "char \<Rightarrow> bool" where
  "is_ascii_alphanumeric c \<longleftrightarrow>
     is_ascii_digit c \<or> (65 \<le> (of_char c :: nat) \<and> (of_char c :: nat) \<le> 90) \<or>
     (97 \<le> (of_char c :: nat) \<and> (of_char c :: nat) \<le> 122)"

definition validate_skill_sync_name :: "string \<Rightarrow> string + unit" where
  "validate_skill_sync_name skill_name =
     (let name = trim skill_name
      in if name = [] then Inl ''skill name must not be empty''
         else if name \<noteq> skill_name then Inl ''skill name must not contain leading or trailing whitespace''
         else ensure (list_all (\<lambda>ch. is_ascii_alphanumeric ch \<or> ch \<in> set ''_-'') name)
           (''skill name may only contain ASCII letters, digits, '' @ [CHR 0x27] @ ''_'' @ [CHR 0x27] @ '' and '' @
            [CHR 0x27] @ ''-'' @ [CHR 0x27]))"

definition validate_skill_sync_upstream :: "string \<Rightarrow> string + unit" where
  "validate_skill_sync_upstream upstream =
     (let trimmed = trim upstream
      in if trimmed = [] then Inl ''upstream must not be empty''
         else if trimmed \<noteq> upstream then Inl ''upstream must not contain leading or trailing whitespace''
         else ensure (\<not> list_ex rust_whitespace trimmed) ''upstream must not contain whitespace'')"

definition validate_skill_sync :: "skill_sync_config list \<Rightarrow> string + unit" where
  "validate_skill_sync entries =
     check_all
       (\<lambda>(index, entry).
          let place = ''skill_sync['' @ show_nat index @ '']''
          in if sk_skill_name entry = [] then Inl (place @ ''.skill_name must not be empty'')
             else if sk_upstream entry = [] then Inl (place @ ''.upstream must not be empty'')
             else check_then
               (check_all (\<lambda>name. map_err (\<lambda>e. place @ ''.skill_name: '' @ e) (validate_skill_sync_name name))
                  (sk_skill_name entry))
               (check_all (\<lambda>up. map_err (\<lambda>e. place @ ''.upstream: '' @ e) (validate_skill_sync_upstream up))
                  (sk_upstream entry)))
       (enumerate 0 entries)"

definition sandbox_validate :: "sandbox_config \<Rightarrow> string + unit" where
  "sandbox_validate sandbox =
     (if trim (sc_bubblewrap_binary sandbox) = [] then Inl ''sandbox.bubblewrap_binary must not be empty''
      else if map_option trim (sc_software_dir sandbox) = Some [] then
        Inl ''sandbox.software_dir must not be empty when set''
      else let mount_path = trim (sc_software_mount_path sandbox)
        in if mount_path = [] then Inl ''sandbox.software_mount_path must not be empty''
           else ensure (starts_with ''/'' mount_path) ''sandbox.software_mount_path must be an absolute path'')"

definition web_channel_validate :: "web_channel_config \<Rightarrow> string + unit" where
  "web_channel_validate channel =
     (if trim (web_id channel) = [] then Inl ''web channel id must not be empty''
      else if trim (web_bind_addr channel) = [] then
        Inl (''web channel '' @ web_id channel @ '' bind_addr must not be empty'')
      else ensure (trim (web_token_env channel) \<noteq> []) (''web channel '' @ web_id channel @ '' token_env must not be empty''))"

definition resolve_bot_token :: "(string \<Rightarrow> string option) \<Rightarrow> telegram_channel_config \<Rightarrow> string + string" where
  "resolve_bot_token env_var channel =
     (case filter_option (\<lambda>token. trim token \<noteq> []) (tg_bot_token channel) of
        Some token \<Rightarrow> Inr token
      | None \<Rightarrow>
          (case env_var (tg_bot_token_env channel) of
             Some token \<Rightarrow> Inr token
           | None \<Rightarrow> Inl (''telegram channel '' @ tg_id channel @ '' requires bot_token or env '' @ tg_bot_token_env channel)))"

definition resolve_token :: "(string \<Rightarrow> string option) \<Rightarrow> web_channel_config \<Rightarrow> string + string" where
  "resolve_token env_var channel =
     (case env_var (web_token_env channel) of
        Some token \<Rightarrow> Inr token
      | None \<Rightarrow> Inl (''web channel '' @ web_id channel @ '' requires env '' @ web_token_env channel @ '' for Authorization token''))"

definition config_validate :: "stellaclaw_config \<Rightarrow> string + unit" where
  "config_validate c =
     (if cf_version c \<noteq> latest_config_version then
        Inl (''unsupported config version '' @ cf_version c @ ''; expected '' @ latest_config_version)
      else if cf_channels c = [] then Inl ''config must include at least one channel''
      else if cf_models c = [] then Inl ''config must include at least one model''
      else check_then (validate_available_agent_models c)
        (check_then (validate_memory_models c)
          (if available_agent_models c = [] then Inl ''config must include at least one chat-capable model''
           else check_then (sandbox_validate (cf_sandbox c))
             (check_then
               (check_all (\<lambda>channel. case channel of Web web \<Rightarrow> web_channel_validate web | Telegram _ \<Rightarrow> Inr ())
                  (cf_channels c))
               (validate_skill_sync (cf_skill_sync c))))))"

section \<open>Laws\<close>

lemma available_agent_models_sound:
  "btree_wf (cf_models c) \<Longrightarrow> (name, model) \<in> set (available_agent_models c) \<Longrightarrow>
     btree_get name (cf_models c) = Some model \<and> supports model Chat"
  by (auto simp: available_agent_models_def List.map_filter_def btree_get_def btree_wf_distinct
      map_of_eq_Some_iff filter_option_def split: if_splits option.splits)

lemma find_fst_key: "find p m = Some (k, v) \<Longrightarrow> k \<in> fst ` set m"
  by (drule find_SomeD) force

lemma model_selection_alias_known:
  "model_selection_alias c selection = Some name \<Longrightarrow> btree_get name (cf_models c) \<noteq> None"
  unfolding btree_get_def map_of_eq_None_iff
  by (cases selection)
    (auto simp: model_selection_alias_def Let_def btree_contains_def or_else_def split: if_splits option.splits
      dest: find_fst_key)

lemma initial_main_model_name_known:
  assumes "btree_wf (cf_models c)" and "initial_main_model_name c = Some name"
  shows "btree_get name (cf_models c) \<noteq> None"
proof -
  consider profile where "cf_default_profile c = Some profile" "model_selection_alias c (sp_main_model profile) = Some name"
    | model where "(name, model) \<in> set (available_agent_models c)"
    using assms(2) by (auto simp: initial_main_model_name_def or_else_def split: option.splits list.splits Option.bind_splits)
  then show ?thesis
    using model_selection_alias_known available_agent_models_sound [OF assms(1)] by cases auto
qed

section \<open>Property\<close>

text \<open>
  C37. A configuration that passes validation always has a first model: the initial session
  profile exists and resolves to a configured model. Unless the default profile names it, that
  model can chat; and every skill to synchronise has a name that is a single harmless path
  component.
\<close>

theorem validated_config_starts:
  assumes "config_validate c = Inr ()" and "btree_wf (cf_models c)"
  shows "(\<exists>profile model. initial_session_profile c = Inr profile \<and> resolve_session_model c profile = Some model \<and>
            (cf_default_profile c = None \<longrightarrow> supports model Chat)) \<and>
         (\<forall>entry \<in> set (cf_skill_sync c). \<forall>name \<in> set (sk_skill_name entry).
            name \<noteq> [] \<and> CHR ''/'' \<notin> set name \<and> CHR ''.'' \<notin> set name)"
proof -
  obtain name model rest where models: "available_agent_models c = (name, model) # rest"
    using assms(1) by (cases "available_agent_models c") (auto simp: config_validate_def split: if_splits)
  then obtain main where main: "initial_main_model_name c = Some main"
    by (cases "Option.bind (cf_default_profile c) (\<lambda>profile. model_selection_alias c (sp_main_model profile))")
      (simp_all add: initial_main_model_name_def or_else_def)
  from initial_main_model_name_known [OF assms(2) main] obtain m where m: "btree_get main (cf_models c) = Some m"
    by blast
  have chat: "supports m Chat" if "cf_default_profile c = None"
    using that main m models available_agent_models_sound [OF assms(2), of name model]
    by (simp add: initial_main_model_name_def or_else_def)
  have start: "initial_session_profile c = Inr \<lparr>sp_main_model = Alias main\<rparr> \<and>
      resolve_session_model c \<lparr>sp_main_model = Alias main\<rparr> = Some m"
    using main m by (simp add: initial_session_profile_def resolve_session_model_def model_selection_resolve_def)
  have sync: "validate_skill_sync (cf_skill_sync c) = Inr ()"
    using assms(1) by (auto simp: config_validate_def split: if_splits)
  have names: "validate_skill_sync_name name = Inr ()"
    if entry: "entry \<in> set (cf_skill_sync c)" and name: "name \<in> set (sk_skill_name entry)" for entry name
  proof -
    obtain i where "i < length (cf_skill_sync c)" "cf_skill_sync c ! i = entry"
      using entry by (auto simp: in_set_conv_nth)
    then have "(i, entry) \<in> set (enumerate 0 (cf_skill_sync c))" by (simp add: in_set_enumerate_eq)
    with sync have "check_all (\<lambda>name. map_err (\<lambda>e. (''skill_sync['' @ show_nat i @ '']'') @ ''.skill_name: '' @ e)
        (validate_skill_sync_name name)) (sk_skill_name entry) = Inr ()"
      unfolding validate_skill_sync_def check_all_ok [of _ "enumerate 0 (cf_skill_sync c)"] Let_def
      by (fastforce split: if_splits)
    then show ?thesis using name by simp
  qed
  have "name \<noteq> [] \<and> CHR ''/'' \<notin> set name \<and> CHR ''.'' \<notin> set name" if "validate_skill_sync_name name = Inr ()" for name
    using that by (auto simp: validate_skill_sync_name_def Let_def list_all_iff is_ascii_alphanumeric_def is_ascii_digit_def
        split: if_splits)
  with names have safe: "\<forall>entry \<in> set (cf_skill_sync c). \<forall>name \<in> set (sk_skill_name entry).
      name \<noteq> [] \<and> CHR ''/'' \<notin> set name \<and> CHR ''.'' \<notin> set name"
    by simp
  show ?thesis
    by (intro conjI exI [of _ "\<lparr>sp_main_model = Alias main\<rparr>"] exI [of _ m] impI chat safe conjunct1 [OF start] conjunct2 [OF start])
qed

definition sample_config :: stellaclaw_config where
  "sample_config =
     \<lparr>cf_version = ''0.14'', cf_agent_server_path = None, cf_default_profile = None,
      cf_models = [(''main'', sample_model)], cf_available_agent_models = [''main''],
      cf_session_defaults = session_defaults_default, cf_memory = memory_config_default,
      cf_skill_sync = [\<lparr>sk_skill_name = [''notes''], sk_upstream = [''git'']\<rparr>], cf_sandbox = sandbox_config_default,
      cf_channels = [Web \<lparr>web_id = ''w'', web_bind_addr = ''a'', web_token_env = ''t''\<rparr>]\<rparr>"

lemma sample_config_valid: "config_validate sample_config = Inr ()"
  by code_simp

theorem validated_config_starts_witness:
  "\<exists>profile. initial_session_profile sample_config = Inr profile \<and> resolve_session_model sample_config profile \<noteq> None"
  using validated_config_starts [OF sample_config_valid]
  by (auto simp: sample_config_def btree_wf_def)

end
