(* ===== verification/Service_Protos.thy ===== *)
theory Service_Protos
  imports Host_Config
begin

text \<open>
  The vocabulary of the services of a conversation: addresses and calls
  (\<open>stellaclaw/src/conversation_new.rs\<close>), the metadata of a conversation
  (\<open>conversation_metadata.rs\<close>) and the protocols of the kernel, of the agent sessions and of
  the scheduler (\<open>service_protos/\<close>). A payload is a JSON value. The derived serde code that
  turns requests and responses into JSON and back is the parameter \<open>codec\<close>.
\<close>

section \<open>Addresses\<close>

datatype service_scope = Local_scope | Conversation_scope string

record service_addr =
  ad_scope :: service_scope
  ad_path :: "string list"

definition local_path :: "string list \<Rightarrow> service_addr" where
  "local_path segments = \<lparr>ad_scope = Local_scope, ad_path = segments\<rparr>"

definition conversation_path :: "string \<Rightarrow> string list \<Rightarrow> service_addr" where
  "conversation_path conversation_id segments = \<lparr>ad_scope = Conversation_scope conversation_id, ad_path = segments\<rparr>"

definition kernel_addr :: service_addr where
  "kernel_addr = local_path [''kernel'']"

definition channel_id :: "string \<Rightarrow> service_addr" where
  "channel_id i = local_path [''channel'', i]"

definition agent_foreground_id :: "string \<Rightarrow> service_addr" where
  "agent_foreground_id i = local_path [''agent'', ''foreground'', i]"

definition agent_background :: "string \<Rightarrow> service_addr" where
  "agent_background i = local_path [''agent'', ''background'', i]"

definition agent_subagent :: "string \<Rightarrow> service_addr" where
  "agent_subagent i = local_path [''agent'', ''subagent'', i]"

definition cron_addr :: service_addr where
  "cron_addr = local_path [''cron'']"

definition memory_addr :: service_addr where
  "memory_addr = local_path [''memory'']"

definition skill_addr :: service_addr where
  "skill_addr = local_path [''skill'']"

definition tool_binary_addr :: service_addr where
  "tool_binary_addr = local_path [''tool_binary'']"

definition workspace_addr :: service_addr where
  "workspace_addr = local_path [''workspace'']"

definition terminal_addr :: service_addr where
  "terminal_addr = local_path [''terminal'']"

definition is_kernel :: "service_addr \<Rightarrow> bool" where
  "is_kernel addr \<longleftrightarrow> ad_scope addr = Local_scope \<and> ad_path addr = [''kernel'']"

definition local_service_id :: "string \<Rightarrow> service_addr \<Rightarrow> string option" where
  "local_service_id service_name addr =
     (if ad_scope addr = Local_scope then
        (case ad_path addr of
           first # i # _ \<Rightarrow> if first = service_name then Some i else None
         | _ \<Rightarrow> None)
      else None)"

definition storage_component :: "service_addr \<Rightarrow> string" where
  "storage_component addr =
     (case ad_scope addr of
        Local_scope \<Rightarrow> ''local''
      | Conversation_scope conversation_id \<Rightarrow> ''conversation_'' @ conversation_id)
     @ ''__'' @ join ''__'' (ad_path addr)"

definition addr_to_string :: "service_addr \<Rightarrow> string" where
  "addr_to_string addr =
     (case ad_scope addr of
        Local_scope \<Rightarrow> ''local:'' @ join ''/'' (ad_path addr)
      | Conversation_scope conversation_id \<Rightarrow> ''conversation/'' @ conversation_id @ '':'' @ join ''/'' (ad_path addr))"

text \<open>The derived serialization of an address, as it appears in status details.\<close>

definition addr_json :: "service_addr \<Rightarrow> json" where
  "addr_json addr =
     JObject
       [(''scope'', case ad_scope addr of
           Local_scope \<Rightarrow> JObject [(''scope'', JString ''local'')]
         | Conversation_scope c \<Rightarrow> JObject [(''scope'', JString ''conversation''), (''conversation_id'', JString c)]),
        (''path'', JArray (map JString (ad_path addr)))]"

definition opt_json :: "('a \<Rightarrow> json) \<Rightarrow> 'a option \<Rightarrow> json" where
  "opt_json f x = (case x of None \<Rightarrow> JNull | Some y \<Rightarrow> f y)"

section \<open>Calls and outputs\<close>

record service_call =
  sc_source :: service_addr
  sc_target :: service_addr
  sc_request_id :: "string option"
  sc_response_id :: "string option"
  sc_payload :: json

definition service_call_new :: "service_addr \<Rightarrow> service_addr \<Rightarrow> json \<Rightarrow> service_call" where
  "service_call_new source target payload =
     \<lparr>sc_source = source, sc_target = target, sc_request_id = None, sc_response_id = None, sc_payload = payload\<rparr>"

definition with_request_id :: "string \<Rightarrow> service_call \<Rightarrow> service_call" where
  "with_request_id request_id call = call\<lparr>sc_request_id := Some request_id\<rparr>"

definition response_to :: "service_addr \<Rightarrow> service_addr \<Rightarrow> json \<Rightarrow> string option \<Rightarrow> service_call" where
  "response_to source target payload response_id =
     \<lparr>sc_source = source, sc_target = target, sc_request_id = None, sc_response_id = response_id, sc_payload = payload\<rparr>"

record service_status_update =
  su_addr :: service_addr
  su_label :: string
  su_detail :: json

datatype service_output =
    Call service_call
  | Status service_status_update
  | Failed_output service_addr string
  | Stopped_output service_addr "string option"

text \<open>
  How a service or the kernel fails to return: an \<open>anyhow\<close> error with its context, outermost
  first, the panic of the running thread, a stack that is used up, or a wait for a thread that never ends.
\<close>

datatype service_error = Anyhow "string list" | Thread_panic | Stack_overflow | Blocked

section \<open>Agent sessions\<close>

datatype agent_session_kind = Foreground_session | Background_session | Subagent_session

record agent_session_binding =
  ab_event_sink :: service_addr
  ab_parent_addr :: "service_addr option"

datatype agent_message_origin = User_origin | Actor_origin | System_origin

text \<open>The fields of each variant stand in the order of the source.\<close>

datatype agent_session_event =
    UserMessageStarted_ev agent_message_origin "string option" chat_message
  | UserMessageCommitted_ev nat "string option" "nat option" "chat_message_part option" chat_message
  | MessageAppended_ev nat "string option" "nat option" "chat_message_part option" chat_message
  | TurnStarted_ev string "task_plan_view option"
  | PlanUpdated_ev "task_plan_view option"
  | StreamAssistantMessageDelta_ev string string nat "nat option" "chat_message_part option"
      "string option" string "nat option"
  | StreamToolCallDelta_ev string string nat "nat option" "chat_message_part option"
      string "string option" "string option" string
  | StreamReasoningSummaryDelta_ev string string nat "nat option" "chat_message_part option"
      "string option" int string
  | StreamReasoningSummaryPartAdded_ev string string nat "nat option" "chat_message_part option"
      "string option" int
  | StreamError_ev string string nat "nat option" "chat_message_part option" "string option"
      "nat option" string session_error_detail
  | StreamToolResultDone_ev string "nat option" "chat_message_part option" string tool_result_item
  | TurnCompleted_ev string "string option" "nat option" chat_message
  | TurnFailed_ev string session_error_detail bool
  | Terminated_ev "string option"
  | HostCoordinationRequested_ev json
  | InteractiveOutputRequested_ev json
  | SessionViewResult_ev string json
  | CompactStarted_ev string
  | CompactCompleted_ev bool nat nat nat nat nat
  | CompactFailed_ev string string
  | ControlRejected_ev string json
  | RuntimeCrashed_ev string session_error_detail

section \<open>Runtime configuration and metadata of a conversation\<close>

record conversation_runtime_config =
  rc_agent_server_path :: "string option"
  rc_session_profile :: "session_profile option"
  rc_models :: "(string, model_config) btree_map"
  rc_session_defaults :: session_defaults
  rc_memory_enabled :: bool
  rc_tool_remote_mode :: tool_remote_mode
  rc_sandbox :: "sandbox_config option"
  rc_reasoning_effort :: "string option"

record agent_session_launch_config =
  lc_session_id :: string
  lc_conversation_root :: string
  lc_workspace_root :: string
  lc_agent_server_path :: "string option"
  lc_session_profile :: "session_profile option"
  lc_models :: "(string, model_config) btree_map"
  lc_session_defaults :: session_defaults
  lc_memory_enabled :: bool
  lc_tool_remote_mode :: tool_remote_mode
  lc_sandbox :: "sandbox_config option"
  lc_reasoning_effort :: "string option"

record conversation_metadata =
  md_version :: nat
  md_conversation_id :: string
  md_nickname :: string
  md_channel_id :: string
  md_platform_chat_id :: string
  md_foreground_session_id :: string
  md_model_selection_pending :: bool
  md_session_nicknames :: "(string, string) btree_map"

definition default_foreground_session_id :: string where
  "default_foreground_session_id = ''local__agent__foreground__main''"

definition conversation_metadata_new :: "string \<Rightarrow> string \<Rightarrow> string \<Rightarrow> conversation_metadata" where
  "conversation_metadata_new conversation_id channel platform_chat_id =
     \<lparr>md_version = 1, md_conversation_id = conversation_id, md_nickname = conversation_id,
      md_channel_id = channel, md_platform_chat_id = platform_chat_id,
      md_foreground_session_id = default_foreground_session_id, md_model_selection_pending = True,
      md_session_nicknames = [(default_foreground_session_id, ''Main'')]\<rparr>"

datatype agent_session_request =
    EnqueueMessage agent_message_origin chat_message "string option"
  | CancelTurn_request "string option"
  | ContinueTurn_request "string option"
  | CompactNow_request
  | ResolveHostCoordination_request json
  | ChildSessionEvent service_addr agent_session_event
  | QueryContext string json
  | QueryMessages string nat nat
  | QueryMessageDetail_request string string
  | QueryStatus
  | UpdateLaunchConfig agent_session_launch_config
  | Shutdown_request "string option"

section \<open>The kernel protocol\<close>

record kernel_runtime_config_patch =
  kp_agent_server_path :: "string option option"
  kp_session_profile :: "session_profile option option"
  kp_models :: "(string, model_config) btree_map option"
  kp_session_defaults :: "session_defaults option"
  kp_memory_enabled :: "bool option"
  kp_tool_remote_mode :: "tool_remote_mode option"
  kp_sandbox :: "sandbox_config option option"
  kp_reasoning_effort :: "string option option"

record kernel_metadata_patch =
  kmp_conversation_nickname :: "string option"
  kmp_model_selection_pending :: "bool option"
  kmp_session_nicknames :: "(string, string option) btree_map"

datatype kernel_request =
    CreateAgentSession agent_session_kind "string option" "agent_session_binding option"
  | StopService service_addr "string option"
  | QueryRuntimeConfig
  | UpdateRuntimeConfig kernel_runtime_config_patch
  | QueryMetadata
  | UpdateMetadata kernel_metadata_patch
  | ListServices

datatype kernel_response =
    AgentSessionCreated service_addr
  | ServiceStopped service_addr
  | RuntimeConfig conversation_runtime_config
  | RuntimeConfigUpdated conversation_runtime_config "service_addr list"
  | Metadata conversation_metadata
  | MetadataUpdated conversation_metadata
  | Services "service_addr list"
  | Kernel_error string string

section \<open>The scheduler protocol\<close>

text \<open>An \<open>f64\<close>: a rational (every finite value is one), or one of the special values.\<close>

datatype f64 = Finite rat | Infinite bool | Not_a_number

datatype cron_schedule =
    Manual
  | IntervalSeconds f64
  | CronExpression string "string option"

datatype cron_task_output_policy = ForwardResultToForeground | StoreOnly

datatype cron_task_payload = Prompt string cron_task_output_policy

datatype cron_run_status = Running | Completed_run | Failed_run

record cron_task_registration =
  ct_task_id :: string
  ct_registered_by :: service_addr
  ct_channel_addr :: service_addr
  ct_name :: "string option"
  ct_description :: "string option"
  ct_enabled :: bool
  ct_foreground_session_addr :: "service_addr option"
  ct_schedule :: cron_schedule
  ct_payload :: cron_task_payload

record cron_task_status =
  cs_registration :: cron_task_registration
  cs_active_background_addr :: "service_addr option"
  cs_next_due_in_ms :: "nat option"
  cs_last_run_status :: "cron_run_status option"
  cs_last_result_summary :: "string option"
  cs_last_error :: "string option"
  cs_consecutive_failures :: nat

record cron_task_patch =
  cp_name :: "string option option"
  cp_description :: "string option option"
  cp_enabled :: "bool option"
  cp_schedule :: "cron_schedule option"
  cp_payload :: "cron_task_payload option"

datatype cron_request =
    RegisterTask cron_task_registration
  | UpdateTask string cron_task_patch
  | RemoveTask string
  | DisableTasksForOwner service_addr string
  | ListTasks "service_addr option"
  | GetTaskStatus string "service_addr option"
  | TriggerTaskNow string
  | AgentSessionEvent service_addr agent_session_event

datatype cron_response =
    Tasks "cron_task_registration list"
  | TaskStatus "cron_task_status option"
  | Task "cron_task_registration option"
  | Accepted
  | Rejected string

section \<open>Serialization\<close>

text \<open>
  What the derived serde code does: an encoder may fail with a text, a decoder tells why a
  payload is not a message of the protocol.
\<close>

record codec =
  encode_kernel_request :: "kernel_request \<Rightarrow> string + json"
  decode_kernel_request :: "json \<Rightarrow> string + kernel_request"
  encode_kernel_response :: "kernel_response \<Rightarrow> string + json"
  decode_kernel_response :: "json \<Rightarrow> string + kernel_response"
  encode_cron_request :: "cron_request \<Rightarrow> string + json"
  decode_cron_request :: "json \<Rightarrow> string + cron_request"
  encode_cron_response :: "cron_response \<Rightarrow> string + json"
  encode_agent_request :: "agent_session_request \<Rightarrow> string + json"
  encode_workspace_runtime_config :: "conversation_runtime_config \<Rightarrow> string + json"
  encode_terminal_runtime_config :: "conversation_runtime_config \<Rightarrow> string + json"
  agent_event_json :: "agent_session_event \<Rightarrow> json"

text \<open>A field of a patch: absent, or the new value.\<close>

definition set_some :: "('v \<Rightarrow> 'a \<Rightarrow> 'a) \<Rightarrow> 'v option \<Rightarrow> 'a \<Rightarrow> 'a" where
  "set_some f v x = (case v of None \<Rightarrow> x | Some y \<Rightarrow> f y x)"

definition encoded :: "string + 'a \<Rightarrow> ('s, service_error, 'a) act" where
  "encoded r = from_result (map_err (\<lambda>e. Anyhow [e]) r)"

definition call_with :: "service_addr \<Rightarrow> service_addr \<Rightarrow> string + json \<Rightarrow> string + service_call" where
  "call_with source target payload = map_sum id (service_call_new source target) payload"

definition create_agent_session_with_binding_call ::
  "codec \<Rightarrow> service_addr \<Rightarrow> agent_session_kind \<Rightarrow> string option \<Rightarrow> agent_session_binding \<Rightarrow> string + service_call" where
  "create_agent_session_with_binding_call cd source kind i binding =
     call_with source kernel_addr (encode_kernel_request cd (CreateAgentSession kind i (Some binding)))"

definition enqueue_message_call ::
  "codec \<Rightarrow> service_addr \<Rightarrow> service_addr \<Rightarrow> agent_message_origin \<Rightarrow> chat_message \<Rightarrow> string option \<Rightarrow> string + service_call" where
  "enqueue_message_call cd source target origin message ingress_id =
     call_with source target (encode_agent_request cd (EnqueueMessage origin message ingress_id))"

definition update_launch_config_call ::
  "codec \<Rightarrow> service_addr \<Rightarrow> service_addr \<Rightarrow> agent_session_launch_config \<Rightarrow> string + service_call" where
  "update_launch_config_call cd source target launch =
     call_with source target (encode_agent_request cd (UpdateLaunchConfig launch))"

definition disable_tasks_for_owner_call ::
  "codec \<Rightarrow> service_addr \<Rightarrow> service_addr \<Rightarrow> service_addr \<Rightarrow> string \<Rightarrow> string + service_call" where
  "disable_tasks_for_owner_call cd source target owner reason =
     call_with source target (encode_cron_request cd (DisableTasksForOwner owner reason))"

definition workspace_runtime_config_call ::
  "codec \<Rightarrow> service_addr \<Rightarrow> service_addr \<Rightarrow> conversation_runtime_config \<Rightarrow> string + service_call" where
  "workspace_runtime_config_call cd source target config =
     call_with source target (encode_workspace_runtime_config cd config)"

definition terminal_runtime_config_call ::
  "codec \<Rightarrow> service_addr \<Rightarrow> service_addr \<Rightarrow> conversation_runtime_config \<Rightarrow> string + service_call" where
  "terminal_runtime_config_call cd source target config =
     call_with source target (encode_terminal_runtime_config cd config)"

section \<open>Laws of addresses\<close>

lemmas addr_defs = local_path_def kernel_addr_def channel_id_def agent_foreground_id_def agent_background_def
  agent_subagent_def cron_addr_def memory_addr_def skill_addr_def tool_binary_addr_def workspace_addr_def terminal_addr_def

lemma is_kernel_iff: "is_kernel addr \<longleftrightarrow> addr = kernel_addr"
  by (cases addr) (auto simp: is_kernel_def addr_defs)

lemma agent_addr_inj [simp]:
  "agent_foreground_id i = agent_foreground_id j \<longleftrightarrow> i = j"
  "agent_background i = agent_background j \<longleftrightarrow> i = j"
  "agent_subagent i = agent_subagent j \<longleftrightarrow> i = j"
  "channel_id i = channel_id j \<longleftrightarrow> i = j"
  "agent_foreground_id i \<noteq> agent_background j" "agent_background j \<noteq> agent_foreground_id i"
  "agent_foreground_id i \<noteq> agent_subagent j" "agent_subagent j \<noteq> agent_foreground_id i"
  "agent_background i \<noteq> agent_subagent j" "agent_subagent j \<noteq> agent_background i"
  "kernel_addr \<noteq> agent_foreground_id i" "kernel_addr \<noteq> agent_background i" "kernel_addr \<noteq> agent_subagent i"
  "agent_foreground_id i \<noteq> kernel_addr" "agent_background i \<noteq> kernel_addr" "agent_subagent i \<noteq> kernel_addr"
  by (simp_all add: addr_defs)

text \<open>The addresses of agent sessions and of channels never share a storage directory.\<close>

definition session_addr :: "service_addr \<Rightarrow> bool" where
  "session_addr addr \<longleftrightarrow>
     (\<exists>i. addr = agent_foreground_id i \<or> addr = agent_background i \<or> addr = agent_subagent i \<or> addr = channel_id i)"

lemma storage_component_inj:
  "session_addr a \<Longrightarrow> session_addr b \<Longrightarrow> storage_component a = storage_component b \<Longrightarrow> a = b"
  by (auto simp: session_addr_def storage_component_def addr_defs)

end
