(* ===== verification/Hash_Map.thy ===== *)
theory Hash_Map
  imports Ordered_Map
begin

text \<open>
  Rust's \<open>HashMap\<close> as the services use it: the entries in the order in which \<open>iter()\<close>
  happens to yield them. Its laws are those of \<open>ordered_map\<close>, with distinct keys as
  well-formedness.
\<close>

type_synonym ('k, 'v) hash_map = "('k \<times> 'v) list"

definition hash_get :: "'k \<Rightarrow> ('k, 'v) hash_map \<Rightarrow> 'v option" where
  "hash_get k m = map_of m k"

definition hash_remove :: "'k \<Rightarrow> ('k, 'v) hash_map \<Rightarrow> ('k, 'v) hash_map" where
  "hash_remove k m = filter (\<lambda>(k', _). k' \<noteq> k) m"

definition hash_insert :: "'k \<Rightarrow> 'v \<Rightarrow> ('k, 'v) hash_map \<Rightarrow> ('k, 'v) hash_map" where
  "hash_insert k v m = (k, v) # hash_remove k m"

definition hash_retain :: "('k \<Rightarrow> 'v \<Rightarrow> bool) \<Rightarrow> ('k, 'v) hash_map \<Rightarrow> ('k, 'v) hash_map" where
  "hash_retain p m = filter (\<lambda>(k, v). p k v) m"

text \<open>A write through \<open>get_mut\<close>, and one through \<open>values_mut\<close>.\<close>

definition hash_adjust :: "'k \<Rightarrow> ('v \<Rightarrow> 'v) \<Rightarrow> ('k, 'v) hash_map \<Rightarrow> ('k, 'v) hash_map" where
  "hash_adjust k f m = map (\<lambda>(k', v). (k', if k' = k then f v else v)) m"

definition hash_map_values :: "('v \<Rightarrow> 'w) \<Rightarrow> ('k, 'v) hash_map \<Rightarrow> ('k, 'w) hash_map" where
  "hash_map_values f m = map (\<lambda>(k, v). (k, f v)) m"

definition hash_keys :: "('k, 'v) hash_map \<Rightarrow> 'k list" where
  "hash_keys m = map fst m"

definition hash_values :: "('k, 'v) hash_map \<Rightarrow> 'v list" where
  "hash_values m = map snd m"

definition hash_wf :: "('k, 'v) hash_map \<Rightarrow> bool" where
  "hash_wf m \<longleftrightarrow> distinct (map fst m)"

lemma distinct_map_filter_fst: "distinct (map f m) \<Longrightarrow> distinct (map f (filter p m))"
  by (induction m) auto

lemma keys_hash_remove: "set (hash_keys (hash_remove k m)) = set (hash_keys m) - {k}"
  by (auto simp: hash_keys_def hash_remove_def)

interpretation hash: ordered_map hash_wf hash_get hash_insert hash_remove hash_retain
proof unfold_locales
  fix m :: "('a, 'b) hash_map" and k j :: 'a and v :: 'b and p :: "'a \<Rightarrow> 'b \<Rightarrow> bool"
  show "hash_wf m \<Longrightarrow> hash_wf (hash_insert k v m)"
    by (auto simp: hash_wf_def hash_insert_def hash_remove_def distinct_map_filter_fst)
  show "hash_wf m \<Longrightarrow> hash_wf (hash_remove k m)"
    by (simp add: hash_wf_def hash_remove_def distinct_map_filter_fst)
  show "hash_wf m \<Longrightarrow> hash_wf (hash_retain p m)"
    by (simp add: hash_wf_def hash_retain_def distinct_map_filter_fst)
  show "hash_get j (hash_insert k v m) = (if j = k then Some v else hash_get j m)"
    by (simp add: hash_get_def hash_insert_def hash_remove_def map_of_filter_key)
  show "hash_get j (hash_remove k m) = (if j = k then None else hash_get j m)"
    by (simp add: hash_get_def hash_remove_def map_of_filter_key)
  show "hash_wf m \<Longrightarrow>
      hash_get j (hash_retain p m) =
        (case hash_get j m of Some v \<Rightarrow> if p j v then Some v else None | None \<Rightarrow> None)"
    by (simp add: hash_get_def hash_retain_def hash_wf_def map_of_filter_distinct)
qed

lemma hash_get_insert [simp]: "hash_get j (hash_insert k v m) = (if j = k then Some v else hash_get j m)"
  by (rule hash.get_insert)

lemma hash_get_remove [simp]: "hash_get j (hash_remove k m) = (if j = k then None else hash_get j m)"
  by (rule hash.get_remove)

lemma hash_get_adjust [simp]:
  "hash_get j (hash_adjust k f m) = (if j = k then map_option f (hash_get j m) else hash_get j m)"
  by (induction m) (auto simp: hash_get_def hash_adjust_def)

lemma hash_get_map_values [simp]: "hash_get j (hash_map_values f m) = map_option f (hash_get j m)"
  by (induction m) (auto simp: hash_get_def hash_map_values_def)

lemma hash_get_Nil [simp]: "hash_get j [] = None"
  by (simp add: hash_get_def)

lemma keys_hash_adjust [simp]: "hash_keys (hash_adjust k f m) = hash_keys m"
  by (simp add: hash_keys_def hash_adjust_def comp_def case_prod_beta)

lemma keys_hash_map_values [simp]: "hash_keys (hash_map_values f m) = hash_keys m"
  by (simp add: hash_keys_def hash_map_values_def comp_def case_prod_beta)

lemma keys_hash_insert: "set (hash_keys (hash_insert k v m)) = insert k (set (hash_keys m))"
  by (auto simp: hash_keys_def hash_insert_def hash_remove_def)

lemma hash_wf_keys: "hash_wf m \<longleftrightarrow> distinct (hash_keys m)"
  by (simp add: hash_wf_def hash_keys_def)

lemma hash_get_Some_in: "hash_get k m = Some v \<Longrightarrow> (k, v) \<in> set m"
  by (simp add: hash_get_def map_of_SomeD)

lemma hash_get_in: "hash_wf m \<Longrightarrow> (k, v) \<in> set m \<Longrightarrow> hash_get k m = Some v"
  by (simp add: hash_get_def hash_wf_def)

lemma hash_get_keys: "hash_get k m = None \<longleftrightarrow> k \<notin> set (hash_keys m)"
  by (simp add: hash_get_def hash_keys_def map_of_eq_None_iff)

lemma hash_wf_Nil [simp]: "hash_wf []"
  by (simp add: hash_wf_def)

lemma hash_wf_adjust [simp]: "hash_wf (hash_adjust k f m) = hash_wf m"
  by (simp add: hash_wf_keys)

lemma hash_wf_map_values [simp]: "hash_wf (hash_map_values f m) = hash_wf m"
  by (simp add: hash_wf_keys)

end
