(* ===== verification/Cron_Service.thy ===== *)
theory Cron_Service
  imports Service_Protos Hash_Map
begin

text \<open>
  Model of \<open>stellaclaw/src/services/cron.rs\<close>, the scheduler of a conversation. The local
  variables of its loop, the calls it has sent and its storage directory form \<open>cron_state\<close>;
  one iteration of the loop is \<open>cron_iteration\<close>. The clocks, the outbox, the file system, the
  \<open>cron\<close> and \<open>chrono-tz\<close> crates and the derived serde code are \<open>cron_env\<close>; every question to
  it carries a running number. Instants and durations are nanoseconds.
\<close>

section \<open>State\<close>

record scheduled_cron_task =
  st_registration :: cron_task_registration
  st_interval_anchor :: nat
  st_consecutive_failures :: nat
  st_last_error :: "string option"
  st_last_result_summary :: "string option"
  st_last_run_status :: "cron_run_status option"

record persisted_cron_task =
  pt_registration :: cron_task_registration
  pt_consecutive_failures :: nat
  pt_last_error :: "string option"
  pt_last_result_summary :: "string option"
  pt_last_run_status :: "cron_run_status option"

record cron_state_file =
  cf_file_version :: nat
  cf_next_run_id :: nat
  cf_tasks :: "persisted_cron_task list"

record pending_cron_run =
  pr_task :: cron_task_registration
  pr_triggered_by :: service_addr

record active_cron_run =
  ar_task_id :: string
  ar_triggered_by :: service_addr
  ar_channel_addr :: service_addr
  ar_foreground_session_addr :: "service_addr option"
  ar_output_policy :: cron_task_output_policy

record cron_env =
  ce_codec :: codec
  ce_addr :: service_addr
  ce_storage :: string
  ce_instant :: "nat \<Rightarrow> nat"
  ce_utc :: "nat \<Rightarrow> int"
  ce_outbox_closed :: "nat \<Rightarrow> bool"
  ce_fs_error :: "nat \<Rightarrow> string option"
  ce_encode_state :: "cron_state_file \<Rightarrow> string option"
  ce_decode_state :: "string \<Rightarrow> cron_state_file option"
  ce_schedule_error :: "string \<Rightarrow> string option"
  ce_timezone_error :: "string \<Rightarrow> string option"
  ce_next_after :: "string \<Rightarrow> string \<Rightarrow> int \<Rightarrow> int option"
  ce_kernel_response_json :: "kernel_response \<Rightarrow> json"
  ce_fresh_id :: "nat \<Rightarrow> string"

record cron_state =
  cr_tasks :: "(string, scheduled_cron_task) hash_map"
  cr_pending_runs :: "(service_addr, pending_cron_run) hash_map"
  cr_pending_order :: "service_addr list"
  cr_active_runs :: "(service_addr, active_cron_run) hash_map"
  cr_next_run_id :: nat
  cr_outbox :: "service_output list"
  cr_file :: "string option"
  cr_tmp_file :: "string option"
  cr_io :: nat

type_synonym 'a cron = "(cron_state, service_error, 'a) act"

definition cron_ask :: "(nat \<Rightarrow> 'a) \<Rightarrow> 'a cron" where
  "cron_ask f = (\<lambda>s. (Inr (f (cr_io s)), s\<lparr>cr_io := Suc (cr_io s)\<rparr>))"

definition scheduled_cron_task_new :: "cron_task_registration \<Rightarrow> nat \<Rightarrow> scheduled_cron_task" where
  "scheduled_cron_task_new registration now =
     \<lparr>st_registration = registration, st_interval_anchor = now, st_consecutive_failures = 0,
      st_last_error = None, st_last_result_summary = None, st_last_run_status = None\<rparr>"

definition from_persisted :: "persisted_cron_task \<Rightarrow> nat \<Rightarrow> scheduled_cron_task" where
  "from_persisted persisted now =
     \<lparr>st_registration = pt_registration persisted, st_interval_anchor = now,
      st_consecutive_failures = pt_consecutive_failures persisted, st_last_error = pt_last_error persisted,
      st_last_result_summary = pt_last_result_summary persisted, st_last_run_status = pt_last_run_status persisted\<rparr>"

definition persisted_task :: "scheduled_cron_task \<Rightarrow> persisted_cron_task" where
  "persisted_task task =
     \<lparr>pt_registration = st_registration task, pt_consecutive_failures = st_consecutive_failures task,
      pt_last_error = st_last_error task, pt_last_result_summary = st_last_result_summary task,
      pt_last_run_status = st_last_run_status task\<rparr>"

section \<open>Storage\<close>

definition fs_op :: "cron_env \<Rightarrow> string \<Rightarrow> (cron_state \<Rightarrow> cron_state) \<Rightarrow> unit cron" where
  "fs_op env what f =
     bnd (cron_ask (ce_fs_error env)) (\<lambda>r. case r of Some e \<Rightarrow> errM (Anyhow [what, e]) | None \<Rightarrow> upd f)"

definition state_path :: "cron_env \<Rightarrow> string" where
  "state_path env = ce_storage env @ ''/tasks.json''"

definition tmp_state_path :: "cron_env \<Rightarrow> string" where
  "tmp_state_path env = ce_storage env @ ''/tasks.json.tmp''"

definition current_state_file :: "cron_state \<Rightarrow> cron_state_file" where
  "current_state_file s =
     \<lparr>cf_file_version = 1, cf_next_run_id = cr_next_run_id s,
      cf_tasks = sort_key (\<lambda>task. ct_task_id (pt_registration task)) (map persisted_task (hash_values (cr_tasks s)))\<rparr>"

definition persist_tasks :: "cron_env \<Rightarrow> unit cron" where
  "persist_tasks env =
     andthen (fs_op env (''failed to create '' @ ce_storage env) (\<lambda>s. s))
       (gets (\<lambda>s. case ce_encode_state env (current_state_file s) of
          None \<Rightarrow> errM (Anyhow [''failed to encode cron state''])
        | Some content \<Rightarrow>
            andthen (fs_op env (''failed to write '' @ tmp_state_path env) (\<lambda>s. s\<lparr>cr_tmp_file := Some content\<rparr>))
              (fs_op env (''failed to rename '' @ tmp_state_path env @ '' to '' @ state_path env)
                 (\<lambda>s. s\<lparr>cr_file := cr_tmp_file s, cr_tmp_file := None\<rparr>))))"

definition load_tasks :: "cron_env \<Rightarrow> nat \<Rightarrow> unit cron" where
  "load_tasks env now =
     gets (\<lambda>s. case cr_file s of
        None \<Rightarrow> upd (\<lambda>s. s\<lparr>cr_tasks := [], cr_next_run_id := 1\<rparr>)
      | Some content \<Rightarrow>
          andthen (fs_op env (''failed to read '' @ state_path env) (\<lambda>s. s))
            (case ce_decode_state env content of
               None \<Rightarrow> errM (Anyhow [''failed to parse '' @ state_path env])
             | Some state \<Rightarrow>
                 upd (\<lambda>s. s\<lparr>cr_tasks := fold (\<lambda>task. hash_insert (ct_task_id (pt_registration task)) (from_persisted task now))
                                         (cf_tasks state) [],
                           cr_next_run_id := max (cf_next_run_id state) 1\<rparr>)))"

section \<open>Messages\<close>

definition cron_send :: "cron_env \<Rightarrow> service_output \<Rightarrow> unit cron" where
  "cron_send env output =
     bnd (cron_ask (ce_outbox_closed env)) (\<lambda>closed.
       if closed then errM (Anyhow [''sending on a disconnected channel''])
       else upd (\<lambda>s. s\<lparr>cr_outbox := cr_outbox s @ [output]\<rparr>))"

definition send_status :: "cron_env \<Rightarrow> string \<Rightarrow> (string \<times> json) list \<Rightarrow> unit cron" where
  "send_status env label entries =
     cron_send env (Status \<lparr>su_addr = ce_addr env, su_label = label, su_detail = JObject entries\<rparr>)"

definition reply_cron :: "cron_env \<Rightarrow> service_call \<Rightarrow> cron_response \<Rightarrow> unit cron" where
  "reply_cron env call response =
     bnd (encoded (encode_cron_response (ce_codec env) response)) (\<lambda>payload.
       cron_send env (Call (response_to (ce_addr env) (sc_source call) payload (sc_request_id call))))"

definition cron_task_message :: "string \<Rightarrow> cron_task_registration \<Rightarrow> chat_message" where
  "cron_task_message fresh_id task =
     (case ct_payload task of Prompt prompt _ \<Rightarrow> chat_message_new fresh_id User [Context \<lparr>ci_text = prompt\<rparr>])"

definition task_output_policy :: "cron_task_registration \<Rightarrow> cron_task_output_policy" where
  "task_output_policy task = (case ct_payload task of Prompt _ output_policy \<Rightarrow> output_policy)"

definition cron_result_message :: "chat_message \<Rightarrow> chat_message" where
  "cron_result_message message = message\<lparr>cm_role := User, cm_token_usage := None\<rparr>"

definition storage_id :: "string \<Rightarrow> string" where
  "storage_id value =
     (let i = map (\<lambda>ch. if is_ascii_alphanumeric ch then ch else CHR ''_'') value
      in if i = [] then ''task'' else i)"

section \<open>Validation\<close>

definition local_channel_id :: "service_addr \<Rightarrow> string option" where
  "local_channel_id addr =
     (if ad_scope addr = Local_scope then
        (case ad_path addr of [kind, i] \<Rightarrow> if kind = ''channel'' then Some i else None | _ \<Rightarrow> None)
      else None)"

definition local_foreground_id :: "service_addr \<Rightarrow> string option" where
  "local_foreground_id addr =
     (if ad_scope addr = Local_scope then
        (case ad_path addr of
           [kind, level, i] \<Rightarrow> if kind = ''agent'' \<and> level = ''foreground'' then Some i else None
         | _ \<Rightarrow> None)
      else None)"

definition timezone_name :: "string option \<Rightarrow> string" where
  "timezone_name timezone = unwrap_or ''Asia/Shanghai'' (filter_option (\<lambda>tz. tz \<noteq> []) (map_option trim timezone))"

definition parse_timezone :: "cron_env \<Rightarrow> string option \<Rightarrow> string + string" where
  "parse_timezone env timezone =
     (case ce_timezone_error env (timezone_name timezone) of
        Some error \<Rightarrow> Inl (''invalid timezone: '' @ error)
      | None \<Rightarrow> Inr (timezone_name timezone))"

definition validate_schedule :: "cron_env \<Rightarrow> cron_schedule \<Rightarrow> string + unit" where
  "validate_schedule env schedule =
     (case schedule of
        Manual \<Rightarrow> Inr ()
      | IntervalSeconds seconds \<Rightarrow>
          (case seconds of
             Finite r \<Rightarrow> ensure (r > 0) ''interval_seconds schedule must be finite and positive''
           | _ \<Rightarrow> Inl ''interval_seconds schedule must be finite and positive'')
      | CronExpression expression timezone \<Rightarrow>
          if trim expression = [] then Inl ''cron expression must not be empty''
          else (case ce_schedule_error env expression of
             Some error \<Rightarrow> Inl (''invalid cron expression: '' @ error)
           | None \<Rightarrow> map_sum id (\<lambda>_. ()) (parse_timezone env timezone)))"

definition validate_task_registration :: "cron_env \<Rightarrow> cron_task_registration \<Rightarrow> service_addr \<Rightarrow> string + unit" where
  "validate_task_registration env task source =
     (if trim (ct_task_id task) = [] then Inl ''task_id must not be empty''
      else check_then (validate_schedule env (ct_schedule task))
        (case local_channel_id (ct_channel_addr task) of
           None \<Rightarrow> Inl ''channel_addr must be a local channel address''
         | Some cid \<Rightarrow>
             check_then
               (case ct_foreground_session_addr task of
                  None \<Rightarrow> Inr ()
                | Some foreground \<Rightarrow>
                    (case local_foreground_id foreground of
                       None \<Rightarrow> Inl ''foreground_session_addr must be a local foreground agent address''
                     | Some fid \<Rightarrow> ensure (fid = cid) ''foreground_session_addr must match channel_addr id''))
             (check_then
               (case local_channel_id source of
                  None \<Rightarrow> Inr ()
                | Some i \<Rightarrow> ensure (i = cid) ''registering channel must match channel_addr id'')
               (case local_foreground_id source of
                  None \<Rightarrow> Inr ()
                | Some i \<Rightarrow> ensure (i = cid) ''registering foreground session must match channel_addr id''))))"

section \<open>Due times\<close>

text \<open>
  \<open>Duration\<close> holds 64-bit seconds; \<open>from_secs_f64\<close> rounds to nanoseconds and panics above.
  \<open>Instant\<close> holds signed 64-bit seconds; \<open>checked_add\<close> is \<open>None\<close> above, \<open>+\<close> panics.
\<close>

definition nanos_per_sec :: nat where
  "nanos_per_sec = 10 ^ 9"

definition from_secs_f64 :: "rat \<Rightarrow> service_error + nat" where
  "from_secs_f64 secs =
     (let n = nat (round_half_even (secs * of_nat nanos_per_sec))
      in if secs < 0 \<or> n \<ge> 2 ^ 64 * nanos_per_sec then Inl Thread_panic else Inr n)"

definition instant_limit :: nat where
  "instant_limit = 2 ^ 63 * nanos_per_sec"

definition checked_add_instant :: "nat \<Rightarrow> nat \<Rightarrow> nat option" where
  "checked_add_instant t d = (if t + d < instant_limit then Some (t + d) else None)"

definition add_instant :: "nat \<Rightarrow> nat \<Rightarrow> service_error + nat" where
  "add_instant t d = (case checked_add_instant t d of Some u \<Rightarrow> Inr u | None \<Rightarrow> Inl Thread_panic)"

definition next_cron_instant ::
  "cron_env \<Rightarrow> string \<Rightarrow> string option \<Rightarrow> nat \<Rightarrow> int \<Rightarrow> service_error + nat option" where
  "next_cron_instant env expression timezone now_instant now_utc =
     (case parse_timezone env timezone of
        Inl _ \<Rightarrow> Inr None
      | Inr tz \<Rightarrow>
          if ce_schedule_error env expression \<noteq> None then Inr None
          else (case ce_next_after env expression tz now_utc of
             None \<Rightarrow> Inr None
           | Some next_utc \<Rightarrow> map_sum id Some (add_instant now_instant (nat (next_utc - now_utc)))))"

definition next_wakeup_for_task :: "cron_env \<Rightarrow> scheduled_cron_task \<Rightarrow> nat \<Rightarrow> int \<Rightarrow> service_error + nat option" where
  "next_wakeup_for_task env task now_instant now_utc =
     (if \<not> ct_enabled (st_registration task) then Inr None
      else if validate_schedule env (ct_schedule (st_registration task)) \<noteq> Inr () then Inr None
      else case ct_schedule (st_registration task) of
        Manual \<Rightarrow> Inr None
      | IntervalSeconds seconds \<Rightarrow>
          (case seconds of
             Finite r \<Rightarrow>
               (case from_secs_f64 r of
                  Inl e \<Rightarrow> Inl e
                | Inr d \<Rightarrow>
                    let interval = max d 10000000
                    in case add_instant now_instant interval of
                         Inl e \<Rightarrow> Inl e
                       | Inr fallback \<Rightarrow>
                           Inr (Some (max (unwrap_or fallback (checked_add_instant (st_interval_anchor task) interval))
                                       now_instant)))
           | _ \<Rightarrow> Inl Thread_panic)
      | CronExpression expression timezone \<Rightarrow> next_cron_instant env expression timezone now_instant now_utc)"

record cron_wakeup =
  wk_at :: nat
  wk_task_ids :: "string list"

text \<open>The loop of \<open>next_wakeup\<close>, with the earliest instant and its tasks so far.\<close>

fun next_wakeup_loop ::
  "cron_env \<Rightarrow> nat \<Rightarrow> int \<Rightarrow> scheduled_cron_task list \<Rightarrow> nat option \<Rightarrow> string list \<Rightarrow>
     service_error + (nat option \<times> string list)" where
  "next_wakeup_loop env now_instant now_utc [] wakeup_at task_ids = Inr (wakeup_at, task_ids)"
| "next_wakeup_loop env now_instant now_utc (task # tasks) wakeup_at task_ids =
     (let i = ct_task_id (st_registration task)
      in case next_wakeup_for_task env task now_instant now_utc of
           Inl e \<Rightarrow> Inl e
         | Inr None \<Rightarrow> next_wakeup_loop env now_instant now_utc tasks wakeup_at task_ids
         | Inr (Some t) \<Rightarrow>
             (case wakeup_at of
                None \<Rightarrow> next_wakeup_loop env now_instant now_utc tasks (Some t) (task_ids @ [i])
              | Some current \<Rightarrow>
                  if t < current then next_wakeup_loop env now_instant now_utc tasks (Some t) [i]
                  else if t = current then next_wakeup_loop env now_instant now_utc tasks wakeup_at (task_ids @ [i])
                  else next_wakeup_loop env now_instant now_utc tasks wakeup_at task_ids))"

definition next_wakeup ::
  "cron_env \<Rightarrow> (string, scheduled_cron_task) hash_map \<Rightarrow> nat \<Rightarrow> int \<Rightarrow> service_error + cron_wakeup option" where
  "next_wakeup env tasks now_instant now_utc =
     map_sum id (\<lambda>(wakeup_at, task_ids). map_option (\<lambda>t. \<lparr>wk_at = t, wk_task_ids = sort task_ids\<rparr>) wakeup_at)
       (next_wakeup_loop env now_instant now_utc (hash_values tasks) None [])"

text \<open>\<open>due_task_ids\<close> returns the due tasks and restarts the interval of those that have one.\<close>

fun due_task_ids_loop ::
  "nat \<Rightarrow> string list \<Rightarrow> (string, scheduled_cron_task) hash_map \<Rightarrow> string list \<Rightarrow>
     string list \<times> (string, scheduled_cron_task) hash_map" where
  "due_task_ids_loop now [] tasks due = (sort due, tasks)"
| "due_task_ids_loop now (task_id # task_ids) tasks due =
     (case hash_get task_id tasks of
        None \<Rightarrow> due_task_ids_loop now task_ids tasks due
      | Some task \<Rightarrow>
          if \<not> ct_enabled (st_registration task) then due_task_ids_loop now task_ids tasks due
          else due_task_ids_loop now task_ids
            (case ct_schedule (st_registration task) of
               IntervalSeconds _ \<Rightarrow> hash_adjust task_id (\<lambda>task. task\<lparr>st_interval_anchor := now\<rparr>) tasks
             | _ \<Rightarrow> tasks)
            (due @ [task_id]))"

definition due_task_ids ::
  "(string, scheduled_cron_task) hash_map \<Rightarrow> cron_wakeup \<Rightarrow> nat \<Rightarrow> string list \<times> (string, scheduled_cron_task) hash_map" where
  "due_task_ids tasks wakeup now = due_task_ids_loop now (wk_task_ids wakeup) tasks []"

section \<open>Changes of the task table\<close>

text \<open>Name, description and the enabled flag are written before the new schedule is validated.\<close>

definition update_task ::
  "cron_env \<Rightarrow> string \<Rightarrow> service_addr \<Rightarrow> cron_task_patch \<Rightarrow> nat \<Rightarrow> (string, scheduled_cron_task) hash_map \<Rightarrow>
     (string + cron_task_registration) \<times> (string, scheduled_cron_task) hash_map" where
  "update_task env task_id source patch now tasks =
     (case hash_get task_id tasks of
        None \<Rightarrow> (Inl ''unknown task'', tasks)
      | Some task \<Rightarrow>
          if ct_registered_by (st_registration task) \<noteq> source then (Inl ''task is not owned by caller'', tasks)
          else
            let r = set_some (\<lambda>v r. r\<lparr>ct_enabled := v\<rparr>) (cp_enabled patch)
                      (set_some (\<lambda>v r. r\<lparr>ct_description := v\<rparr>) (cp_description patch)
                        (set_some (\<lambda>v r. r\<lparr>ct_name := v\<rparr>) (cp_name patch) (st_registration task)))
            in (case (case cp_schedule patch of None \<Rightarrow> Inr () | Some schedule \<Rightarrow> validate_schedule env schedule) of
                  Inl e \<Rightarrow> (Inl e, hash_adjust task_id (\<lambda>task. task\<lparr>st_registration := r\<rparr>) tasks)
                | Inr _ \<Rightarrow>
                    let r' = set_some (\<lambda>v r. r\<lparr>ct_payload := v\<rparr>) (cp_payload patch)
                               (set_some (\<lambda>v r. r\<lparr>ct_schedule := v\<rparr>) (cp_schedule patch) r)
                    in (Inr r', hash_adjust task_id (\<lambda>task. task\<lparr>st_registration := r', st_interval_anchor := now\<rparr>) tasks)))"

definition remove_task ::
  "string \<Rightarrow> service_addr \<Rightarrow> (string, scheduled_cron_task) hash_map \<Rightarrow>
     (string + cron_task_registration option) \<times> (string, scheduled_cron_task) hash_map" where
  "remove_task task_id source tasks =
     (case hash_get task_id tasks of
        None \<Rightarrow> (Inr None, tasks)
      | Some task \<Rightarrow>
          if ct_registered_by (st_registration task) \<noteq> source then (Inl ''task is not owned by caller'', tasks)
          else (Inr (Some (st_registration task)), hash_remove task_id tasks))"

definition owned_enabled :: "service_addr \<Rightarrow> scheduled_cron_task \<Rightarrow> bool" where
  "owned_enabled owner task \<longleftrightarrow> ct_registered_by (st_registration task) = owner \<and> ct_enabled (st_registration task)"

definition disable_tasks_for_owner ::
  "service_addr \<Rightarrow> (string, scheduled_cron_task) hash_map \<Rightarrow> nat \<times> (string, scheduled_cron_task) hash_map" where
  "disable_tasks_for_owner owner tasks =
     (length (filter (owned_enabled owner) (hash_values tasks)),
      hash_map_values (\<lambda>task. if owned_enabled owner task
        then task\<lparr>st_registration := (st_registration task)\<lparr>ct_enabled := False\<rparr>\<rparr> else task) tasks)"

definition mark_task_running ::
  "string \<Rightarrow> service_addr \<Rightarrow> (string, scheduled_cron_task) hash_map \<Rightarrow> (string, scheduled_cron_task) hash_map" where
  "mark_task_running task_id background_addr tasks =
     hash_adjust task_id (\<lambda>task. task\<lparr>st_last_run_status := Some Running, st_last_error := None,
       st_last_result_summary := Some (''Running in '' @ addr_to_string background_addr)\<rparr>) tasks"

definition mark_task_failed ::
  "string \<Rightarrow> string \<Rightarrow> (string, scheduled_cron_task) hash_map \<Rightarrow> nat \<times> (string, scheduled_cron_task) hash_map" where
  "mark_task_failed task_id message tasks =
     (case hash_get task_id tasks of
        None \<Rightarrow> (1, tasks)
      | Some task \<Rightarrow>
          let n = (st_consecutive_failures task + 1) mod 2 ^ 32
          in (n, hash_adjust task_id (\<lambda>task. task\<lparr>st_consecutive_failures := n, st_last_error := Some message,
                   st_last_run_status := Some Failed_run, st_last_result_summary := None\<rparr>) tasks))"

definition mark_task_completed :: "string \<Rightarrow> (string, scheduled_cron_task) hash_map \<Rightarrow> (string, scheduled_cron_task) hash_map" where
  "mark_task_completed task_id tasks =
     hash_adjust task_id (\<lambda>task. task\<lparr>st_consecutive_failures := 0, st_last_error := None,
       st_last_run_status := Some Completed_run, st_last_result_summary := Some ''completed''\<rparr>) tasks"

definition set_tasks :: "(string, scheduled_cron_task) hash_map \<Rightarrow> unit cron" where
  "set_tasks tasks = upd (\<lambda>s. s\<lparr>cr_tasks := tasks\<rparr>)"

section \<open>Runs\<close>

definition task_run_in_progress ::
  "(service_addr, pending_cron_run) hash_map \<Rightarrow> (service_addr, active_cron_run) hash_map \<Rightarrow> string \<Rightarrow> service_addr option" where
  "task_run_in_progress pending_runs active_runs task_id =
     or_else (map_option fst (find (\<lambda>(_, run). ct_task_id (pr_task run) = task_id) pending_runs))
       (map_option fst (find (\<lambda>(_, run). ar_task_id run = task_id) active_runs))"

definition task_status ::
  "cron_env \<Rightarrow> cron_state \<Rightarrow> string \<Rightarrow> nat \<Rightarrow> int \<Rightarrow> service_error + cron_task_status option" where
  "task_status env s task_id now_instant now_utc =
     (case hash_get task_id (cr_tasks s) of
        None \<Rightarrow> Inr None
      | Some task \<Rightarrow>
          map_sum id
            (\<lambda>wakeup. Some
               \<lparr>cs_registration = st_registration task,
                cs_active_background_addr = task_run_in_progress (cr_pending_runs s) (cr_active_runs s) task_id,
                cs_next_due_in_ms = map_option (\<lambda>t. min ((t - now_instant) div 1000000) u64_max) wakeup,
                cs_last_run_status = st_last_run_status task, cs_last_result_summary = st_last_result_summary task,
                cs_last_error = st_last_error task, cs_consecutive_failures = st_consecutive_failures task\<rparr>)
            (next_wakeup_for_task env task now_instant now_utc))"

definition background_id :: "cron_task_registration \<Rightarrow> nat \<Rightarrow> string" where
  "background_id task run_id = ''cron_'' @ storage_id (ct_task_id task) @ ''_'' @ show_nat run_id"

definition trigger_task :: "cron_env \<Rightarrow> cron_task_registration \<Rightarrow> service_addr \<Rightarrow> service_addr cron" where
  "trigger_task env task triggered_by =
     gets (\<lambda>s.
       let run_id = cr_next_run_id s;
           background_addr = agent_background (background_id task run_id);
           parent_addr = or_else (ct_foreground_session_addr task) (Some (ct_registered_by task))
       in andthen (upd (\<lambda>s. s\<lparr>cr_next_run_id := wrapping_add run_id 1,
                            cr_pending_runs := hash_insert background_addr \<lparr>pr_task = task, pr_triggered_by = triggered_by\<rparr>
                                                 (cr_pending_runs s),
                            cr_pending_order := cr_pending_order s @ [background_addr]\<rparr>))
          (andthen (send_status env ''task_triggered''
             [(''task_id'', JString (ct_task_id task)), (''background_addr'', addr_json background_addr),
              (''triggered_by'', addr_json triggered_by), (''registered_by'', addr_json (ct_registered_by task)),
              (''channel_addr'', addr_json (ct_channel_addr task)),
              (''foreground_session_addr'', opt_json addr_json (ct_foreground_session_addr task))])
          (bnd (encoded (create_agent_session_with_binding_call (ce_codec env) (ce_addr env) Background_session
                 (Some (background_id task run_id)) \<lparr>ab_event_sink = ce_addr env, ab_parent_addr = parent_addr\<rparr>)) (\<lambda>call.
             andthen (cron_send env (Call call)) (okM background_addr)))))"

definition start_run :: "cron_env \<Rightarrow> cron_task_registration \<Rightarrow> string \<Rightarrow> service_addr \<Rightarrow> unit cron" where
  "start_run env task task_id triggered_by =
     bnd (trigger_task env task triggered_by) (\<lambda>background_addr.
       andthen (upd (\<lambda>s. s\<lparr>cr_tasks := mark_task_running task_id background_addr (cr_tasks s)\<rparr>))
         (persist_tasks env))"

definition run_failed_fields ::
  "string \<Rightarrow> service_addr \<Rightarrow> service_addr \<Rightarrow> service_addr \<Rightarrow> string \<Rightarrow> string \<Rightarrow> json \<Rightarrow> nat \<Rightarrow> (string \<times> json) list" where
  "run_failed_fields task_id background_addr triggered_by channel_addr code message det failure_count =
     [(''task_id'', JString task_id), (''background_addr'', addr_json background_addr),
      (''triggered_by'', addr_json triggered_by), (''channel_addr'', addr_json channel_addr),
      (''code'', JString code), (''message'', JString message), (''detail'', det),
      (''consecutive_failures'', JInt (int failure_count))]"

definition record_failed_run :: "cron_env \<Rightarrow> service_addr \<Rightarrow> string \<Rightarrow> string \<Rightarrow> json \<Rightarrow> unit cron" where
  "record_failed_run env session code message det =
     gets (\<lambda>s. case hash_get session (cr_active_runs s) of
        None \<Rightarrow> okM ()
      | Some run \<Rightarrow>
          let (failure_count, tasks) = mark_task_failed (ar_task_id run) message (cr_tasks s)
          in andthen (upd (\<lambda>s. s\<lparr>cr_active_runs := hash_remove session (cr_active_runs s), cr_tasks := tasks\<rparr>))
             (andthen (send_status env ''task_run_failed''
                (run_failed_fields (ar_task_id run) session (ar_triggered_by run) (ar_channel_addr run)
                   code message det failure_count))
             (persist_tasks env)))"

definition record_pending_run_failed :: "cron_env \<Rightarrow> string \<Rightarrow> string \<Rightarrow> (string \<times> json) list \<Rightarrow> unit cron" where
  "record_pending_run_failed env code message det =
     gets (\<lambda>s. case cr_pending_order s of
        [] \<Rightarrow> send_status env ''kernel_response'' det
      | background_addr # order \<Rightarrow>
          andthen (upd (\<lambda>s. s\<lparr>cr_pending_order := order\<rparr>))
            (case hash_get background_addr (cr_pending_runs s) of
               None \<Rightarrow> okM ()
             | Some run \<Rightarrow>
                 let (failure_count, tasks) = mark_task_failed (ct_task_id (pr_task run)) message (cr_tasks s)
                 in andthen (upd (\<lambda>s. s\<lparr>cr_pending_runs := hash_remove background_addr (cr_pending_runs s), cr_tasks := tasks\<rparr>))
                    (andthen (send_status env ''task_run_failed''
                       (run_failed_fields (ct_task_id (pr_task run)) background_addr (pr_triggered_by run)
                          (ct_channel_addr (pr_task run)) code message (JObject det) failure_count))
                    (persist_tasks env))))"

definition error_detail_json :: "session_error_detail \<Rightarrow> json" where
  "error_detail_json d =
     JObject [(''module'', JString (sed_module d)), (''kind'', JString (sed_kind d)), (''reason'', JString (sed_reason d))]"

definition record_completed_run :: "cron_env \<Rightarrow> service_addr \<Rightarrow> chat_message \<Rightarrow> unit cron" where
  "record_completed_run env session message =
     gets (\<lambda>s. case hash_get session (cr_active_runs s) of
        None \<Rightarrow> okM ()
      | Some run \<Rightarrow>
          andthen (upd (\<lambda>s. s\<lparr>cr_active_runs := hash_remove session (cr_active_runs s),
                              cr_tasks := mark_task_completed (ar_task_id run) (cr_tasks s)\<rparr>))
          (andthen (send_status env ''task_run_completed''
             [(''task_id'', JString (ar_task_id run)), (''background_addr'', addr_json session),
              (''triggered_by'', addr_json (ar_triggered_by run)), (''channel_addr'', addr_json (ar_channel_addr run))])
          (andthen (case (ar_output_policy run, ar_foreground_session_addr run) of
               (ForwardResultToForeground, Some foreground) \<Rightarrow>
                 bnd (encoded (enqueue_message_call (ce_codec env) (ce_addr env) foreground Actor_origin
                        (cron_result_message message) None)) (\<lambda>call. cron_send env (Call call))
             | _ \<Rightarrow> okM ())
          (persist_tasks env))))"

definition handle_agent_session_event :: "cron_env \<Rightarrow> service_addr \<Rightarrow> agent_session_event \<Rightarrow> unit cron" where
  "handle_agent_session_event env session event =
     (case event of
        TurnCompleted_ev _ _ _ message \<Rightarrow> record_completed_run env session message
      | TurnFailed_ev error error_detail can_continue \<Rightarrow>
          record_failed_run env session ''turn_failed'' error
            (JObject [(''error_detail'', error_detail_json error_detail), (''can_continue'', JBool can_continue)])
      | RuntimeCrashed_ev error error_detail \<Rightarrow>
          record_failed_run env session ''runtime_crashed'' error
            (JObject [(''error_detail'', error_detail_json error_detail)])
      | CompactFailed_ev phase reason \<Rightarrow>
          record_failed_run env session ''compact_failed'' reason (JObject [(''phase'', JString phase)])
      | ControlRejected_ev reason payload \<Rightarrow>
          record_failed_run env session ''control_rejected'' reason (JObject [(''payload'', payload)])
      | _ \<Rightarrow>
          gets (\<lambda>s. case hash_get session (cr_active_runs s) of
             None \<Rightarrow> okM ()
           | Some run \<Rightarrow>
               send_status env ''task_run_event''
                 [(''task_id'', JString (ar_task_id run)), (''background_addr'', addr_json session),
                  (''event'', agent_event_json (ce_codec env) event)]))"

section \<open>The handlers of the loop\<close>

definition registration_fields :: "cron_task_registration \<Rightarrow> (string \<times> json) list" where
  "registration_fields task =
     [(''task_id'', JString (ct_task_id task)), (''registered_by'', addr_json (ct_registered_by task)),
      (''channel_addr'', addr_json (ct_channel_addr task)),
      (''foreground_session_addr'', opt_json addr_json (ct_foreground_session_addr task))]"

definition handle_register_task :: "cron_env \<Rightarrow> service_call \<Rightarrow> cron_task_registration \<Rightarrow> unit cron" where
  "handle_register_task env call requested =
     (let task = requested\<lparr>ct_registered_by := sc_source call\<rparr>
      in case validate_task_registration env task (sc_source call) of
           Inl reason \<Rightarrow>
             andthen (send_status env ''task_register_rejected'' (registration_fields task @ [(''reason'', JString reason)]))
               (reply_cron env call (Rejected reason))
         | Inr _ \<Rightarrow>
             andthen (send_status env ''task_registered'' (registration_fields task))
               (bnd (cron_ask (ce_instant env)) (\<lambda>now.
                 andthen (upd (\<lambda>s. s\<lparr>cr_tasks := hash_insert (ct_task_id task) (scheduled_cron_task_new task now) (cr_tasks s)\<rparr>))
                   (andthen (persist_tasks env) (reply_cron env call Accepted)))))"

definition handle_update_task :: "cron_env \<Rightarrow> service_call \<Rightarrow> string \<Rightarrow> cron_task_patch \<Rightarrow> unit cron" where
  "handle_update_task env call task_id patch =
     bnd (cron_ask (ce_instant env)) (\<lambda>now.
       gets (\<lambda>s. case update_task env task_id (sc_source call) patch now (cr_tasks s) of
          (Inr task, tasks) \<Rightarrow> andthen (set_tasks tasks) (andthen (persist_tasks env) (reply_cron env call (Task (Some task))))
        | (Inl reason, tasks) \<Rightarrow> andthen (set_tasks tasks) (reply_cron env call (Rejected reason))))"

definition handle_remove_task :: "cron_env \<Rightarrow> service_call \<Rightarrow> string \<Rightarrow> unit cron" where
  "handle_remove_task env call task_id =
     gets (\<lambda>s. case remove_task task_id (sc_source call) (cr_tasks s) of
        (Inr task, tasks) \<Rightarrow> andthen (set_tasks tasks) (andthen (persist_tasks env) (reply_cron env call (Task task)))
      | (Inl reason, tasks) \<Rightarrow> reply_cron env call (Rejected reason))"

definition handle_disable_tasks_for_owner :: "cron_env \<Rightarrow> service_call \<Rightarrow> service_addr \<Rightarrow> string \<Rightarrow> unit cron" where
  "handle_disable_tasks_for_owner env call owner reason =
     gets (\<lambda>s. case disable_tasks_for_owner owner (cr_tasks s) of (disabled, tasks) \<Rightarrow>
        andthen (set_tasks tasks)
       (andthen (persist_tasks env)
       (andthen (send_status env ''owner_tasks_disabled''
          [(''owner'', addr_json owner), (''disabled'', JInt (int disabled)), (''reason'', JString reason)])
        (when_act (\<not> is_kernel (sc_source call)) (reply_cron env call Accepted)))))"

definition owner_matches :: "service_addr option \<Rightarrow> cron_task_registration \<Rightarrow> bool" where
  "owner_matches owner registration \<longleftrightarrow> (case owner of None \<Rightarrow> True | Some o' \<Rightarrow> ct_registered_by registration = o')"

definition list_tasks :: "service_addr option \<Rightarrow> (string, scheduled_cron_task) hash_map \<Rightarrow> cron_task_registration list" where
  "list_tasks owner tasks =
     sort_key ct_task_id (filter (owner_matches owner) (map st_registration (hash_values tasks)))"

definition handle_get_task_status :: "cron_env \<Rightarrow> service_call \<Rightarrow> string \<Rightarrow> service_addr option \<Rightarrow> unit cron" where
  "handle_get_task_status env call task_id owner =
     bnd (cron_ask (ce_instant env)) (\<lambda>now_instant.
     bnd (cron_ask (ce_utc env)) (\<lambda>now_utc.
       gets (\<lambda>s. bnd (from_result (task_status env s task_id now_instant now_utc)) (\<lambda>status.
         reply_cron env call (TaskStatus (filter_option (\<lambda>status. owner_matches owner (cs_registration status)) status))))))"

definition handle_trigger_task_now :: "cron_env \<Rightarrow> service_call \<Rightarrow> string \<Rightarrow> unit cron" where
  "handle_trigger_task_now env call task_id =
     gets (\<lambda>s. case hash_get task_id (cr_tasks s) of
        None \<Rightarrow>
          andthen (send_status env ''task_trigger_rejected''
              [(''task_id'', JString task_id), (''reason'', JString ''unknown task'')])
            (reply_cron env call (Rejected ''unknown task''))
      | Some scheduled \<Rightarrow>
          let task = st_registration scheduled
          in if ct_registered_by task \<noteq> sc_source call then reply_cron env call (Rejected ''task is not owned by caller'')
             else if \<not> ct_enabled task then reply_cron env call (Rejected ''task is disabled'')
             else case task_run_in_progress (cr_pending_runs s) (cr_active_runs s) task_id of
               Some background_addr \<Rightarrow>
                 andthen (send_status env ''task_trigger_rejected''
                     [(''task_id'', JString task_id), (''background_addr'', addr_json background_addr),
                      (''reason'', JString ''task is already running'')])
                   (reply_cron env call (Rejected ''task is already running''))
             | None \<Rightarrow>
                 andthen (start_run env task task_id (sc_source call)) (reply_cron env call Accepted))"

definition activate_run :: "pending_cron_run \<Rightarrow> active_cron_run" where
  "activate_run pending =
     \<lparr>ar_task_id = ct_task_id (pr_task pending), ar_triggered_by = pr_triggered_by pending,
      ar_channel_addr = ct_channel_addr (pr_task pending),
      ar_foreground_session_addr = ct_foreground_session_addr (pr_task pending),
      ar_output_policy = task_output_policy (pr_task pending)\<rparr>"

definition handle_agent_session_created :: "cron_env \<Rightarrow> service_addr \<Rightarrow> unit cron" where
  "handle_agent_session_created env addr =
     gets (\<lambda>s. case hash_get addr (cr_pending_runs s) of
        None \<Rightarrow> send_status env ''agent_session_created'' [(''addr'', addr_json addr)]
      | Some pending \<Rightarrow>
          andthen (upd (\<lambda>s. s\<lparr>cr_pending_runs := hash_remove addr (cr_pending_runs s),
                              cr_pending_order := filter (\<lambda>a. a \<noteq> addr) (cr_pending_order s),
                              cr_active_runs := hash_insert addr (activate_run pending) (cr_active_runs s)\<rparr>))
          (andthen (send_status env ''task_background_created''
             [(''task_id'', JString (ct_task_id (pr_task pending))), (''background_addr'', addr_json addr),
              (''triggered_by'', addr_json (pr_triggered_by pending)),
              (''channel_addr'', addr_json (ct_channel_addr (pr_task pending)))])
          (bnd (cron_ask (ce_fresh_id env)) (\<lambda>fresh_id.
           bnd (encoded (enqueue_message_call (ce_codec env) (ce_addr env) addr System_origin
                  (cron_task_message fresh_id (pr_task pending)) None)) (\<lambda>call.
             cron_send env (Call call))))))"

definition handle_kernel_response :: "cron_env \<Rightarrow> string \<Rightarrow> service_call \<Rightarrow> unit cron" where
  "handle_kernel_response env error call =
     (case decode_kernel_response (ce_codec env) (sc_payload call) of
        Inr (AgentSessionCreated addr) \<Rightarrow> handle_agent_session_created env addr
      | Inr (Kernel_error code message) \<Rightarrow>
          record_pending_run_failed env ''kernel_create_agent_session_failed'' (code @ '': '' @ message)
            [(''code'', JString code), (''message'', JString message)]
      | Inr response \<Rightarrow>
          cron_send env (Status \<lparr>su_addr = ce_addr env, su_label = ''kernel_response'',
                                 su_detail = ce_kernel_response_json env response\<rparr>)
      | Inl _ \<Rightarrow> cron_send env (Failed_output (ce_addr env) (''bad cron payload: '' @ error)))"

definition handle_cron_call :: "cron_env \<Rightarrow> service_call \<Rightarrow> unit cron" where
  "handle_cron_call env call =
     (case decode_cron_request (ce_codec env) (sc_payload call) of
        Inr (RegisterTask task) \<Rightarrow> handle_register_task env call task
      | Inr (UpdateTask task_id patch) \<Rightarrow> handle_update_task env call task_id patch
      | Inr (RemoveTask task_id) \<Rightarrow> handle_remove_task env call task_id
      | Inr (DisableTasksForOwner owner reason) \<Rightarrow> handle_disable_tasks_for_owner env call owner reason
      | Inr (ListTasks owner) \<Rightarrow> gets (\<lambda>s. reply_cron env call (Tasks (list_tasks owner (cr_tasks s))))
      | Inr (GetTaskStatus task_id owner) \<Rightarrow> handle_get_task_status env call task_id owner
      | Inr (TriggerTaskNow task_id) \<Rightarrow> handle_trigger_task_now env call task_id
      | Inr (AgentSessionEvent session event) \<Rightarrow> handle_agent_session_event env session event
      | Inl error \<Rightarrow> handle_kernel_response env error call)"

definition run_due_task :: "cron_env \<Rightarrow> string \<Rightarrow> unit cron" where
  "run_due_task env task_id =
     gets (\<lambda>s. case hash_get task_id (cr_tasks s) of
        None \<Rightarrow> okM ()
      | Some scheduled \<Rightarrow>
          (case task_run_in_progress (cr_pending_runs s) (cr_active_runs s) task_id of
             Some background_addr \<Rightarrow>
               send_status env ''task_trigger_skipped''
                 [(''task_id'', JString task_id), (''background_addr'', addr_json background_addr),
                  (''reason'', JString ''task is already running'')]
           | None \<Rightarrow> start_run env (st_registration scheduled) task_id cron_addr))"

definition handle_timer :: "cron_env \<Rightarrow> cron_wakeup option \<Rightarrow> unit cron" where
  "handle_timer env wakeup =
     (case wakeup of
        None \<Rightarrow> okM ()
      | Some w \<Rightarrow>
          bnd (cron_ask (ce_instant env)) (\<lambda>now.
            gets (\<lambda>s. case due_task_ids (cr_tasks s) w now of (task_ids, tasks) \<Rightarrow>
              andthen (set_tasks tasks) (for_each (run_due_task env) task_ids))))"

text \<open>What \<open>select!\<close> finds ready.\<close>

datatype cron_input = Stop_signal "string option" | Inbox service_call | Inbox_closed | Timer

text \<open>One iteration; the result tells whether the loop goes on.\<close>

definition cron_iteration :: "cron_env \<Rightarrow> cron_input \<Rightarrow> bool cron" where
  "cron_iteration env input =
     bnd (cron_ask (ce_instant env)) (\<lambda>now_instant.
     bnd (cron_ask (ce_utc env)) (\<lambda>now_utc.
     gets (\<lambda>s. bnd (from_result (next_wakeup env (cr_tasks s) now_instant now_utc)) (\<lambda>wakeup.
       case input of
         Stop_signal reason \<Rightarrow> andthen (cron_send env (Stopped_output (ce_addr env) reason)) (okM False)
       | Inbox call \<Rightarrow> andthen (handle_cron_call env call) (okM True)
       | Inbox_closed \<Rightarrow> errM (Anyhow [''receiving on an empty and disconnected channel''])
       | Timer \<Rightarrow> andthen (handle_timer env wakeup) (okM True)))))"

fun cron_loop :: "cron_env \<Rightarrow> cron_input list \<Rightarrow> bool cron" where
  "cron_loop env [] = okM True"
| "cron_loop env (input # inputs) =
     bnd (cron_iteration env input) (\<lambda>continue. if continue then cron_loop env inputs else okM False)"

definition cron_service_run :: "cron_env \<Rightarrow> cron_input list \<Rightarrow> bool cron" where
  "cron_service_run env inputs =
     bnd (cron_ask (ce_instant env)) (\<lambda>now.
       andthen (upd (\<lambda>s. s\<lparr>cr_pending_runs := [], cr_pending_order := [], cr_active_runs := []\<rparr>))
         (andthen (load_tasks env now) (cron_loop env inputs)))"

end
