(* ===== verification/Act_Rules.thy ===== *)
theory Act_Rules
  imports Rust_Prelude
begin

text \<open>
  Rules for stateful code that the service models share, beside the frame rules of
  \<open>Rust_Prelude\<close>: frames for the step from one state, and success triples.
\<close>

section \<open>Pointwise frame rules and success triples\<close>

text \<open>\<open>step_in R s m\<close>: the step of \<open>m\<close> from the state \<open>s\<close> stays inside \<open>R\<close>.\<close>

definition step_in :: "('s \<Rightarrow> 's \<Rightarrow> bool) \<Rightarrow> 's \<Rightarrow> ('s, 'e, 'a) act \<Rightarrow> bool" where
  "step_in R s m \<longleftrightarrow> R s (snd (m s))"

context frame_relation begin

lemma step_upd: "R s (f s) \<Longrightarrow> step_in R s (upd f)"
  by (simp add: step_in_def upd_def)

lemma step_bnd:
  assumes "step_in R s m" and "\<And>x. steps_in R (f x)"
  shows "step_in R s (bnd m f)"
proof (cases "m s")
  case (Pair r s')
  then show ?thesis using assms
    by (cases r) (auto simp: step_in_def bnd_def intro: R_trans steps_inD)
qed

lemma step_andthen: "step_in R s m \<Longrightarrow> steps_in R n \<Longrightarrow> step_in R s (andthen m n)"
  unfolding andthen_def by (rule step_bnd)

text \<open>The second part may rely on the success of the first.\<close>

lemma step_bnd_at:
  assumes "step_in R s m" and "\<And>x t. m s = (Inr x, t) \<Longrightarrow> step_in R t (f x)"
  shows "step_in R s (bnd m f)"
proof (cases "m s")
  case (Pair r t)
  then show ?thesis using assms
    by (cases r) (auto simp: step_in_def bnd_def intro: R_trans)
qed

lemma step_andthen_at:
  "step_in R s m \<Longrightarrow> (\<And>x t. m s = (Inr x, t) \<Longrightarrow> step_in R t n) \<Longrightarrow> step_in R s (andthen m n)"
  unfolding andthen_def by (rule step_bnd_at)

lemma bnd_after: "(\<And>x. steps_in R (f x)) \<Longrightarrow> R (snd (m s)) (snd (bnd m f s))"
  by (cases "m s") (auto simp: bnd_def R_refl steps_inD split: sum.split)

lemma step_steps: "steps_in R m \<Longrightarrow> step_in R s m"
  by (simp add: step_in_def steps_in_def)

lemma steps_gets_step: "(\<And>s. step_in R s (f s)) \<Longrightarrow> steps_in R (gets f)"
  by (simp add: step_in_def steps_in_def gets_def)

lemma step_gets: "step_in R s (f s) \<Longrightarrow> step_in R s (gets f)"
  by (simp add: step_in_def gets_def)

lemma steps_for_each_in: "(\<And>x. x \<in> set xs \<Longrightarrow> steps_in R (f x)) \<Longrightarrow> steps_in R (for_each f xs)"
  by (induction xs) (auto intro: steps_ok steps_andthen)

lemma stepD: "step_in R s m \<Longrightarrow> R s (snd (m s))"
  by (simp add: step_in_def)

end

lemma andthen_upd [simp]: "andthen (upd f) m s = m (f s)"
  by (simp add: andthen_def bnd_def upd_def)

lemma gets_apply: "gets f s = f s s"
  by (simp add: gets_def)

lemma andthen_assoc: "andthen (andthen m n) k = andthen m (andthen n k)"
  by (rule ext) (simp add: andthen_def bnd_def split: prod.split sum.split)

text \<open>\<open>leads P m Q\<close>: a run of \<open>m\<close> from a state in \<open>P\<close> that succeeds ends in \<open>Q\<close>.\<close>

definition leads :: "('s \<Rightarrow> bool) \<Rightarrow> ('s, 'e, 'a) act \<Rightarrow> ('s \<Rightarrow> bool) \<Rightarrow> bool" where
  "leads P m Q \<longleftrightarrow> (\<forall>s x s'. P s \<longrightarrow> m s = (Inr x, s') \<longrightarrow> Q s')"

named_theorems leads_rules \<open>rules for \<open>leads\<close>\<close>

lemma leadsI: "(\<And>s x s'. P s \<Longrightarrow> m s = (Inr x, s') \<Longrightarrow> Q s') \<Longrightarrow> leads P m Q"
  by (auto simp: leads_def)

lemma leadsD: "leads P m Q \<Longrightarrow> P s \<Longrightarrow> m s = (Inr x, s') \<Longrightarrow> Q s'"
  by (auto simp: leads_def)

lemma leads_bnd: "leads P m Q \<Longrightarrow> (\<And>x. leads Q (f x) S) \<Longrightarrow> leads P (bnd m f) S"
  by (fastforce simp: leads_def bnd_ok)

lemma leads_andthen: "leads P m Q \<Longrightarrow> leads Q n S \<Longrightarrow> leads P (andthen m n) S"
  unfolding andthen_def by (rule leads_bnd)

lemma leads_gets: "(\<And>t. P t \<Longrightarrow> leads (\<lambda>s. s = t) (f t) Q) \<Longrightarrow> leads P (gets f) Q"
  by (auto simp: leads_def gets_def)

lemma leads_upd: "(\<And>s. P s \<Longrightarrow> Q (f s)) \<Longrightarrow> leads P (upd f) Q"
  by (auto simp: leads_def upd_def)

lemma leads_ok [leads_rules]: "leads P (okM x) P"
  by (simp add: leads_def okM_def)

lemma leads_err [leads_rules]: "leads P (errM e) Q"
  by (simp add: leads_def errM_def)

lemma leads_from_result [leads_rules]: "leads P (from_result r) P"
  by (simp add: leads_def from_result_ok)

lemma leads_pre: "leads P m Q \<Longrightarrow> (\<And>s. P' s \<Longrightarrow> P s) \<Longrightarrow> leads P' m Q"
  by (auto simp: leads_def)

lemma leads_post: "leads P m Q \<Longrightarrow> (\<And>s. Q s \<Longrightarrow> Q' s) \<Longrightarrow> leads P m Q'"
  by (auto simp: leads_def)

lemma leads_both: "leads P m Q \<Longrightarrow> leads P m Q' \<Longrightarrow> leads P m (\<lambda>s. Q s \<and> Q' s)"
  by (auto simp: leads_def)

lemma leads_for_each: "(\<And>x. leads P (f x) P) \<Longrightarrow> leads P (for_each f xs) P"
  by (induction xs) (auto intro: leads_ok leads_andthen)

lemma leads_frame: "steps_in (\<lambda>s s'. P s \<longrightarrow> P s') m \<Longrightarrow> leads P m P"
  by (fastforce simp: leads_def steps_in_def)

end
