(* ===== verification/Cron_Properties.thy ===== *)
theory Cron_Properties
  imports Cron_Service Act_Rules
begin

text \<open>
  The scheduler never runs a task twice at a time, and what it keeps in memory is what a restart
  would load. The contract \<open>cron_frame\<close> collects the relations that tolerate what every handler
  does besides its own work: asking the environment, sending and writing the storage.
\<close>

section \<open>What every handler may do\<close>

locale cron_frame = frame_relation R
  for R :: "cron_state \<Rightarrow> cron_state \<Rightarrow> bool" +
  assumes R_io: "R s (s\<lparr>cr_io := n\<rparr>)"
    and R_outbox: "R s (s\<lparr>cr_outbox := out\<rparr>)"
begin

lemma frame_cron_ask [frame]: "steps_in R (cron_ask f)"
  by (simp add: steps_in_def cron_ask_def R_io)

lemma frame_encoded [frame]: "steps_in R (encoded r)"
  unfolding encoded_def by (intro frame)

lemma frame_cron_send [frame]: "steps_in R (cron_send env out)"
  unfolding cron_send_def
  by (rule steps_bnd) (auto intro!: frame steps_upd R_outbox split: bool.split)

lemma frame_send_status [frame]: "steps_in R (send_status env label entries)"
  unfolding send_status_def by (intro frame)

lemma frame_reply_cron [frame]: "steps_in R (reply_cron env call response)"
  unfolding reply_cron_def by (intro frame)

lemma frame_get_task_status [frame]: "steps_in R (handle_get_task_status env call task_id owner)"
  unfolding handle_get_task_status_def by (intro frame)

end

text \<open>Relations that do not depend on the storage either.\<close>

locale cron_storage_frame = cron_frame +
  assumes R_file: "R s (s\<lparr>cr_file := f, cr_tmp_file := g\<rparr>)"
    and R_tmp_file: "R s (s\<lparr>cr_tmp_file := g\<rparr>)"
begin

lemma frame_fs_op: "(\<And>s. R s (f s)) \<Longrightarrow> steps_in R (fs_op env what f)"
  unfolding fs_op_def by (rule steps_bnd) (auto intro!: frame steps_upd split: option.split)

lemma frame_persist_tasks [frame]: "steps_in R (persist_tasks env)"
  unfolding persist_tasks_def
  by (intro steps_andthen steps_gets)
    (auto intro!: frame frame_fs_op R_refl R_file R_tmp_file split: option.split)

end

section \<open>One run per task\<close>

definition value_ids :: "('v \<Rightarrow> string) \<Rightarrow> ('k, 'v) hash_map \<Rightarrow> string multiset" where
  "value_ids f m = image_mset f (mset (hash_values m))"

definition run_ids :: "cron_state \<Rightarrow> string multiset" where
  "run_ids s = value_ids (\<lambda>run. ct_task_id (pr_task run)) (cr_pending_runs s) + value_ids ar_task_id (cr_active_runs s)"

definition at_most_once :: "'a multiset \<Rightarrow> bool" where
  "at_most_once A \<longleftrightarrow> (\<forall>x. count A x \<le> 1)"

definition keyed :: "(string, scheduled_cron_task) hash_map \<Rightarrow> bool" where
  "keyed tasks \<longleftrightarrow> hash_wf tasks \<and> (\<forall>(i, task) \<in> set tasks. ct_task_id (st_registration task) = i)"

definition cron_sound :: "cron_state \<Rightarrow> bool" where
  "cron_sound s \<longleftrightarrow>
     keyed (cr_tasks s) \<and> hash_wf (cr_pending_runs s) \<and> hash_wf (cr_active_runs s) \<and>
     at_most_once (run_ids s) \<and> set (hash_keys (cr_pending_runs s)) \<subseteq> set (cr_pending_order s)"

definition keeps_sound :: "cron_state \<Rightarrow> cron_state \<Rightarrow> bool" where
  "keeps_sound s s' \<longleftrightarrow> (cron_sound s \<longrightarrow> cron_sound s')"

lemma keeps_soundI: "(cron_sound s \<Longrightarrow> cron_sound s') \<Longrightarrow> keeps_sound s s'"
  by (simp add: keeps_sound_def)

interpretation cron_sound: cron_storage_frame keeps_sound
  by unfold_locales (auto simp: keeps_sound_def cron_sound_def run_ids_def)

lemma sound_set_tasks: "(keyed (cr_tasks s) \<Longrightarrow> keyed tasks) \<Longrightarrow> keeps_sound s (s\<lparr>cr_tasks := tasks\<rparr>)"
  by (auto simp: keeps_sound_def cron_sound_def run_ids_def)

lemma keyed_insert: "keyed tasks \<Longrightarrow> ct_task_id (st_registration task) = i \<Longrightarrow> keyed (hash_insert i task tasks)"
  using hash.wf_insert by (auto simp: keyed_def hash_insert_def hash_remove_def)

lemma keyed_remove: "keyed tasks \<Longrightarrow> keyed (hash_remove i tasks)"
  using hash.wf_remove by (auto simp: keyed_def hash_remove_def)

lemma keyed_get: "keyed tasks \<Longrightarrow> hash_get i tasks = Some task \<Longrightarrow> ct_task_id (st_registration task) = i"
  by (auto simp: keyed_def dest!: hash_get_Some_in)

lemma keyed_adjust:
  assumes "keyed tasks" and "\<And>task. hash_get i tasks = Some task \<Longrightarrow> ct_task_id (st_registration (f task)) = i"
  shows "keyed (hash_adjust i f tasks)"
proof -
  have "ct_task_id (st_registration task') = k" if "(k, task') \<in> set (hash_adjust i f tasks)" for k task'
  proof -
    have "hash_get k (hash_adjust i f tasks) = Some task'"
      using assms(1) that by (intro hash_get_in) (auto simp: keyed_def)
    then show ?thesis using assms keyed_get by (auto split: if_splits)
  qed
  then show ?thesis using assms(1) by (auto simp: keyed_def)
qed

lemma keyed_map_values:
  "keyed tasks \<Longrightarrow> (\<And>task. ct_task_id (st_registration (f task)) = ct_task_id (st_registration task)) \<Longrightarrow>
     keyed (hash_map_values f tasks)"
  by (auto simp: keyed_def) (auto simp: hash_map_values_def)

lemma set_some_task_id [simp]:
  "(\<And>v r. ct_task_id (f v r) = ct_task_id r) \<Longrightarrow> ct_task_id (set_some f v r) = ct_task_id r"
  by (auto simp: set_some_def split: option.split)

lemma keyed_update_task: "keyed tasks \<Longrightarrow> keyed (snd (update_task env i source patch now tasks))"
proof (cases "hash_get i tasks")
  case (Some task)
  assume k: "keyed tasks"
  have a: "keyed (hash_adjust i (\<lambda>t. t\<lparr>st_registration := r\<rparr>) tasks)"
    "keyed (hash_adjust i (\<lambda>t. t\<lparr>st_registration := r, st_interval_anchor := now\<rparr>) tasks)"
    if "ct_task_id r = i" for r
    using k that by (auto intro!: keyed_adjust)
  show ?thesis
    using Some keyed_get [OF k Some] k by (simp add: update_task_def Let_def a split: sum.split)
qed (simp add: update_task_def)

lemma keyed_mark_failed: "keyed tasks \<Longrightarrow> keyed (snd (mark_task_failed i message tasks))"
  by (auto simp: mark_task_failed_def Let_def keyed_get intro!: keyed_adjust split: option.split)

lemma keyed_mark_completed: "keyed tasks \<Longrightarrow> keyed (mark_task_completed i tasks)"
  by (auto simp: mark_task_completed_def keyed_get intro!: keyed_adjust)

lemma keyed_mark_running: "keyed tasks \<Longrightarrow> keyed (mark_task_running i addr tasks)"
  by (auto simp: mark_task_running_def keyed_get intro!: keyed_adjust)

lemma keyed_anchor: "keyed tasks \<Longrightarrow> keyed (hash_adjust i (\<lambda>task. task\<lparr>st_interval_anchor := now\<rparr>) tasks)"
  by (rule keyed_adjust) (auto simp: keyed_get)

lemma keyed_due: "keyed tasks \<Longrightarrow> keyed (snd (due_task_ids_loop now ids tasks due))"
  by (induction ids arbitrary: tasks due) (auto simp: keyed_anchor split: option.split cron_schedule.split)

lemmas keyed_rules = keyed_insert keyed_remove keyed_map_values keyed_update_task keyed_mark_failed
  keyed_mark_completed keyed_mark_running keyed_due

subsection \<open>Writes to the runs\<close>

lemma value_ids_remove: "value_ids f (hash_remove k m) \<subseteq># value_ids f m"
  unfolding value_ids_def hash_remove_def hash_values_def
  by (intro image_mset_subseteq_mono) (simp add: image_mset_subseteq_mono mset_filter)

lemma value_ids_insert: "value_ids f (hash_insert k v m) = add_mset (f v) (value_ids f (hash_remove k m))"
  by (simp add: value_ids_def hash_insert_def hash_values_def)

lemma value_ids_get:
  "hash_wf m \<Longrightarrow> hash_get k m = Some v \<Longrightarrow> value_ids f m = add_mset (f v) (value_ids f (hash_remove k m))"
proof (induction m)
  case (Cons e m)
  obtain k' v' where e: "e = (k', v')" by (cases e)
  show ?case
  proof (cases "k' = k")
    case True
    then have "hash_remove k m = m"
      using Cons.prems(1) e by (force simp: hash_remove_def hash_wf_def filter_id_conv)
    then show ?thesis
      using True e Cons.prems(2) by (simp add: value_ids_def hash_values_def hash_remove_def hash_get_def)
  next
    case False
    then show ?thesis using Cons e by (simp add: value_ids_def hash_values_def hash_remove_def hash_get_def hash_wf_def)
  qed
qed simp

lemma in_progress_None:
  "task_run_in_progress (cr_pending_runs s) (cr_active_runs s) i = None \<longleftrightarrow> i \<notin># run_ids s"
proof -
  have none: "find (\<lambda>(_, v). f v = i) m = None \<longleftrightarrow> i \<notin># value_ids f m" for f :: "'v \<Rightarrow> string" and m :: "('k, 'v) hash_map"
    by (induction m) (auto simp: value_ids_def hash_values_def)
  have "task_run_in_progress (cr_pending_runs s) (cr_active_runs s) i = None \<longleftrightarrow>
      find (\<lambda>(_, run). ct_task_id (pr_task run) = i) (cr_pending_runs s) = None \<and>
      find (\<lambda>(_, run). ar_task_id run = i) (cr_active_runs s) = None"
    by (simp add: task_run_in_progress_def or_else_def split: option.split)
  then show ?thesis by (simp add: none run_ids_def)
qed

lemma at_most_once_mono: "at_most_once A \<Longrightarrow> B \<subseteq># A \<Longrightarrow> at_most_once B"
  unfolding at_most_once_def by (meson le_trans mset_subset_eq_count)

lemma at_most_once_add: "at_most_once A \<Longrightarrow> x \<notin># A \<Longrightarrow> at_most_once (add_mset x A)"
  by (auto simp: at_most_once_def not_in_iff)

lemma sound_shrink:
  assumes "cron_sound s" and "run_ids t \<subseteq># run_ids s" and "cr_tasks t = cr_tasks s"
    and "hash_wf (cr_pending_runs t)" and "hash_wf (cr_active_runs t)"
    and "set (hash_keys (cr_pending_runs t)) \<subseteq> set (cr_pending_order t)"
  shows "cron_sound t"
  using assms at_most_once_mono [of "run_ids s" "run_ids t"] by (simp add: cron_sound_def)

lemma cron_soundD:
  assumes "cron_sound s"
  shows "keyed (cr_tasks s)" "hash_wf (cr_pending_runs s)" "hash_wf (cr_active_runs s)"
    "set (hash_keys (cr_pending_runs s)) \<subseteq> set (cr_pending_order s)"
  using assms by (simp_all add: cron_sound_def)

lemma sound_trigger:
  assumes "cron_sound s" and "task_run_in_progress (cr_pending_runs s) (cr_active_runs s) (ct_task_id task) = None"
  shows "cron_sound (s\<lparr>cr_next_run_id := n, cr_pending_runs := hash_insert addr \<lparr>pr_task = task, pr_triggered_by = by_whom\<rparr> (cr_pending_runs s),
           cr_pending_order := cr_pending_order s @ [addr]\<rparr>)" (is "cron_sound ?t")
proof -
  have "run_ids ?t \<subseteq># add_mset (ct_task_id task) (run_ids s)"
    by (simp add: run_ids_def value_ids_insert value_ids_remove)
  moreover have "at_most_once (add_mset (ct_task_id task) (run_ids s))"
    using assms by (simp add: in_progress_None cron_sound_def at_most_once_add)
  ultimately have "at_most_once (run_ids ?t)" by (rule at_most_once_mono [rotated])
  then show ?thesis using assms(1) by (auto simp: cron_sound_def hash.wf_insert keys_hash_insert)
qed

lemma sound_remove_active:
  assumes "cron_sound s"
  shows "cron_sound (s\<lparr>cr_active_runs := hash_remove addr (cr_active_runs s)\<rparr>)"
  using cron_soundD [OF assms]
  by (intro sound_shrink [OF assms]) (simp_all add: run_ids_def value_ids_remove hash.wf_remove)

lemma sound_drop_pending:
  assumes "cron_sound s" and "cr_pending_order s = addr # order"
  shows "cron_sound (s\<lparr>cr_pending_order := order, cr_pending_runs := hash_remove addr (cr_pending_runs s)\<rparr>)"
  using cron_soundD [OF assms(1)] assms(2)
  by (intro sound_shrink [OF assms(1)])
    (auto simp: run_ids_def value_ids_remove hash.wf_remove keys_hash_remove)

lemma sound_activate:
  assumes "cron_sound s" and "hash_get addr (cr_pending_runs s) = Some pending"
  shows "cron_sound (s\<lparr>cr_pending_runs := hash_remove addr (cr_pending_runs s),
           cr_pending_order := filter (\<lambda>a. a \<noteq> addr) (cr_pending_order s),
           cr_active_runs := hash_insert addr (activate_run pending) (cr_active_runs s)\<rparr>)"
proof -
  note wf = cron_soundD [OF assms(1)]
  have "value_ids (\<lambda>run. ct_task_id (pr_task run)) (hash_remove addr (cr_pending_runs s)) +
      value_ids ar_task_id (hash_insert addr (activate_run pending) (cr_active_runs s)) \<subseteq># run_ids s"
    using value_ids_get [OF wf(2) assms(2), of "\<lambda>run. ct_task_id (pr_task run)"]
    by (simp add: run_ids_def value_ids_insert value_ids_remove activate_run_def)
  then show ?thesis
    using wf by (intro sound_shrink [OF assms(1)])
      (auto simp: run_ids_def hash.wf_remove hash.wf_insert keys_hash_remove)
qed

subsection \<open>Every iteration keeps the invariant\<close>

lemma sound_start_run:
  assumes "hash_get i (cr_tasks s) = Some scheduled"
    and "task_run_in_progress (cr_pending_runs s) (cr_active_runs s) i = None"
  shows "step_in keeps_sound s (start_run env (st_registration scheduled) i by_whom)"
proof (cases "cron_sound s")
  case True
  have "ct_task_id (st_registration scheduled) = i" by (rule keyed_get [OF cron_soundD(1) [OF True] assms(1)])
  then have free: "task_run_in_progress (cr_pending_runs s) (cr_active_runs s) (ct_task_id (st_registration scheduled)) = None"
    using assms(2) by simp
  have "step_in keeps_sound s (trigger_task env (st_registration scheduled) by_whom)"
    unfolding trigger_task_def Let_def
    by (intro cron_sound.step_gets cron_sound.step_andthen cron_sound.step_upd keeps_soundI sound_trigger True free frame)
  then show ?thesis
    unfolding start_run_def
    by (intro cron_sound.step_bnd frame cron_sound.steps_upd sound_set_tasks keyed_mark_running)
qed (simp add: step_in_def keeps_sound_def)

lemma sound_set_tasks_step: "(keyed (cr_tasks s) \<Longrightarrow> keyed tasks) \<Longrightarrow> step_in keeps_sound s (set_tasks tasks)"
  unfolding set_tasks_def by (intro cron_sound.step_upd sound_set_tasks)

lemma sound_register [frame]: "steps_in keeps_sound (handle_register_task env call task)"
  unfolding handle_register_task_def Let_def
  by (auto intro!: frame cron_sound.steps_upd keyed_insert sound_set_tasks split: sum.split
      simp: scheduled_cron_task_new_def)

lemma sound_update [frame]: "steps_in keeps_sound (handle_update_task env call i patch)"
  unfolding handle_update_task_def
proof (rule cron_sound.steps_bnd [OF cron_sound.frame_cron_ask], rule cron_sound.steps_gets_step, goal_cases)
  case (1 now s)
  obtain r tasks where u: "update_task env i (sc_source call) patch now (cr_tasks s) = (r, tasks)" by fastforce
  then have "keyed (cr_tasks s) \<Longrightarrow> keyed tasks" by (metis keyed_update_task snd_conv)
  then show ?case
    unfolding u by (auto intro!: cron_sound.step_andthen frame sound_set_tasks_step split: sum.split)
qed

lemma sound_remove [frame]: "steps_in keeps_sound (handle_remove_task env call i)"
  unfolding handle_remove_task_def
  by (rule cron_sound.steps_gets_step)
    (auto simp: remove_task_def intro!: cron_sound.step_andthen frame sound_set_tasks_step keyed_remove
      intro: cron_sound.step_steps split: option.split)

lemma sound_disable [frame]: "steps_in keeps_sound (handle_disable_tasks_for_owner env call owner reason)"
  unfolding handle_disable_tasks_for_owner_def disable_tasks_for_owner_def
  by (rule cron_sound.steps_gets_step)
    (auto intro!: cron_sound.step_andthen frame sound_set_tasks_step keyed_map_values)

lemma sound_trigger_now [frame]: "steps_in keeps_sound (handle_trigger_task_now env call i)"
  unfolding handle_trigger_task_now_def Let_def
  by (rule cron_sound.steps_gets_step)
    (auto intro!: frame cron_sound.step_andthen [OF sound_start_run] intro: cron_sound.step_steps split: option.split)

lemma sound_failed_run [frame]: "steps_in keeps_sound (record_failed_run env session code message det)"
  unfolding record_failed_run_def
proof (rule cron_sound.steps_gets_step, goal_cases)
  case (1 s)
  have "keeps_sound s (s\<lparr>cr_active_runs := hash_remove session (cr_active_runs s), cr_tasks := snd (mark_task_failed i message (cr_tasks s))\<rparr>)" for i
    using sound_set_tasks [of "s\<lparr>cr_active_runs := hash_remove session (cr_active_runs s)\<rparr>" "snd (mark_task_failed i message (cr_tasks s))"]
      sound_remove_active [of s session] keyed_mark_failed
    by (simp add: keeps_sound_def)
  then show ?case
    by (auto simp: case_prod_beta intro!: cron_sound.step_andthen cron_sound.step_upd frame
        intro: cron_sound.step_steps split: option.split)
qed

lemma sound_completed_run [frame]: "steps_in keeps_sound (record_completed_run env session message)"
  unfolding record_completed_run_def
proof (rule cron_sound.steps_gets_step, goal_cases)
  case (1 s)
  have "keeps_sound s (s\<lparr>cr_active_runs := hash_remove session (cr_active_runs s), cr_tasks := mark_task_completed i (cr_tasks s)\<rparr>)" for i
    using sound_set_tasks [of "s\<lparr>cr_active_runs := hash_remove session (cr_active_runs s)\<rparr>" "mark_task_completed i (cr_tasks s)"]
      sound_remove_active [of s session] keyed_mark_completed
    by (simp add: keeps_sound_def)
  then show ?case
    by (auto intro!: cron_sound.step_andthen cron_sound.step_upd frame
        intro: cron_sound.step_steps split: option.split cron_task_output_policy.split)
qed

lemma sound_pending_failed [frame]: "steps_in keeps_sound (record_pending_run_failed env code message det)"
  unfolding record_pending_run_failed_def
proof (rule cron_sound.steps_gets_step, goal_cases)
  case (1 s)
  show ?case
  proof (cases "cr_pending_order s")
    case Nil
    then show ?thesis by (auto intro!: cron_sound.step_steps frame)
  next
    case (Cons addr order)
    show ?thesis
    proof (cases "hash_get addr (cr_pending_runs s)")
      case None
      then have "hash_remove addr (cr_pending_runs s) = cr_pending_runs s"
        by (force simp: hash_remove_def hash_get_keys hash_keys_def filter_id_conv)
      then have "keeps_sound s (s\<lparr>cr_pending_order := order\<rparr>)"
        using sound_drop_pending [OF _ Cons] by (auto intro!: keeps_soundI)
      then show ?thesis using Cons None by (auto intro!: cron_sound.step_andthen cron_sound.step_upd frame)
    next
      case (Some run)
      obtain n tasks where m: "mark_task_failed (ct_task_id (pr_task run)) message (cr_tasks s) = (n, tasks)" by fastforce
      then have k: "keyed (cr_tasks s) \<Longrightarrow> keyed tasks" by (metis keyed_mark_failed snd_conv)
      have "keeps_sound s (s\<lparr>cr_pending_order := order, cr_pending_runs := hash_remove addr (cr_pending_runs s), cr_tasks := tasks\<rparr>)"
        using sound_set_tasks [of "s\<lparr>cr_pending_order := order, cr_pending_runs := hash_remove addr (cr_pending_runs s)\<rparr>" tasks]
          sound_drop_pending [OF _ Cons] k by (simp add: keeps_sound_def)
      then have "step_in keeps_sound s (andthen (upd (\<lambda>s. s\<lparr>cr_pending_order := order\<rparr>))
          (upd (\<lambda>s. s\<lparr>cr_pending_runs := hash_remove addr (cr_pending_runs s), cr_tasks := tasks\<rparr>)))"
        by (simp add: step_in_def andthen_def bnd_def upd_def)
      then show ?thesis using Cons Some m
        by (simp add: andthen_assoc [symmetric])
          (rule cron_sound.step_andthen, rule cron_sound.step_andthen, assumption, (rule frame)+)
    qed
  qed
qed

lemma sound_created [frame]: "steps_in keeps_sound (handle_agent_session_created env addr)"
  unfolding handle_agent_session_created_def
  by (rule cron_sound.steps_gets_step)
    (auto intro!: cron_sound.step_andthen cron_sound.step_upd keeps_soundI sound_activate frame
      intro: cron_sound.step_steps split: option.split)

lemma sound_session_event [frame]: "steps_in keeps_sound (handle_agent_session_event env session event)"
  unfolding handle_agent_session_event_def
  by (auto intro!: frame split: agent_session_event.split option.split)

lemma sound_kernel_response [frame]: "steps_in keeps_sound (handle_kernel_response env error call)"
  unfolding handle_kernel_response_def by (auto intro!: frame split: sum.split kernel_response.split)

lemma sound_call [frame]: "steps_in keeps_sound (handle_cron_call env call)"
  unfolding handle_cron_call_def by (auto intro!: frame split: sum.split cron_request.split)

lemma sound_due_task [frame]: "steps_in keeps_sound (run_due_task env i)"
  unfolding run_due_task_def
  by (rule cron_sound.steps_gets_step)
    (auto intro!: sound_start_run frame intro: cron_sound.step_steps split: option.split)

lemma sound_timer [frame]: "steps_in keeps_sound (handle_timer env wakeup)"
proof (cases wakeup)
  case (Some w)
  have "step_in keeps_sound s (case due_task_ids (cr_tasks s) w now of (ids, tasks) \<Rightarrow>
      andthen (set_tasks tasks) (for_each (run_due_task env) ids))" for s now
    using keyed_due [of "cr_tasks s" now "wk_task_ids w" "[]"]
    by (auto simp: due_task_ids_def case_prod_beta intro!: cron_sound.step_andthen frame sound_set_tasks_step)
  then show ?thesis unfolding handle_timer_def Some
    by (simp, intro cron_sound.steps_bnd cron_sound.frame_cron_ask cron_sound.steps_gets_step)
qed (simp add: handle_timer_def cron_sound.steps_ok)

lemma sound_iteration [frame]: "steps_in keeps_sound (cron_iteration env input)"
  unfolding cron_iteration_def by (auto intro!: frame split: cron_input.split)

lemma sound_loop [frame]: "steps_in keeps_sound (cron_loop env inputs)"
  by (induction inputs) (auto intro!: frame)

section \<open>What a restart would load\<close>

definition stored_tasks :: "cron_state_file \<Rightarrow> (string, persisted_cron_task) hash_map" where
  "stored_tasks f = fold (\<lambda>task. hash_insert (ct_task_id (pt_registration task)) task) (cf_tasks f) []"

definition disk_view :: "cron_env \<Rightarrow> string option \<Rightarrow> ((string \<Rightarrow> persisted_cron_task option) \<times> nat) option" where
  "disk_view env file =
     (case file of
        None \<Rightarrow> Some (\<lambda>_. None, 1)
      | Some content \<Rightarrow>
          map_option (\<lambda>f. (\<lambda>i. hash_get i (stored_tasks f), max (cf_next_run_id f) 1)) (ce_decode_state env content))"

definition memory_view :: "cron_state \<Rightarrow> (string \<Rightarrow> persisted_cron_task option) \<times> nat" where
  "memory_view s = (\<lambda>i. map_option persisted_task (hash_get i (cr_tasks s)), max (cr_next_run_id s) 1)"

definition durable :: "cron_env \<Rightarrow> cron_state \<Rightarrow> bool" where
  "durable env s \<longleftrightarrow> disk_view env (cr_file s) = Some (memory_view s)"

lemma persisted_from_persisted [simp]: "persisted_task (from_persisted t now) = t"
  by (simp add: persisted_task_def from_persisted_def)

lemma hash_map_values_insert: "hash_map_values f (hash_insert k v m) = hash_insert k (f v) (hash_map_values f m)"
  by (induction m) (auto simp: hash_map_values_def hash_insert_def hash_remove_def)

lemma fold_from_persisted:
  "fold (\<lambda>task. hash_insert (ct_task_id (pt_registration task)) (from_persisted task now)) ts (hash_map_values (\<lambda>t. from_persisted t now) m) =
     hash_map_values (\<lambda>t. from_persisted t now) (fold (\<lambda>task. hash_insert (ct_task_id (pt_registration task)) task) ts m)"
proof (induction ts arbitrary: m)
  case (Cons t ts)
  show ?case
    using Cons.IH [of "hash_insert (ct_task_id (pt_registration t)) t m"] by (simp add: hash_map_values_insert)
qed simp

lemma fold_from_persisted_Nil:
  "fold (\<lambda>task. hash_insert (ct_task_id (pt_registration task)) (from_persisted task now)) (cf_tasks f) [] =
     hash_map_values (\<lambda>t. from_persisted t now) (stored_tasks f)"
  using fold_from_persisted [of now "cf_tasks f" "[]"] by (simp add: stored_tasks_def hash_map_values_def)

lemma stored_tasks_get:
  assumes "distinct (map (\<lambda>t. ct_task_id (pt_registration t)) ts)" and "cf_tasks f = ts"
  shows "hash_get i (stored_tasks f) = find (\<lambda>t. ct_task_id (pt_registration t) = i) ts"
proof -
  have "hash_get i (fold (\<lambda>task. hash_insert (ct_task_id (pt_registration task)) task) ts m) =
      or_else (find (\<lambda>t. ct_task_id (pt_registration t) = i) ts) (hash_get i m)" for m
    using assms(1)
  proof (induction ts arbitrary: m)
    case (Cons t ts)
    have "ct_task_id (pt_registration t) \<notin> (\<lambda>t. ct_task_id (pt_registration t)) ` set ts"
      using Cons.prems by simp
    then have "find (\<lambda>t'. ct_task_id (pt_registration t') = ct_task_id (pt_registration t)) ts = None"
      unfolding find_None_iff by (metis imageI)
    with Cons show ?case by (auto simp: or_else_def split: option.split)
  qed (simp add: or_else_def)
  then show ?thesis by (simp add: stored_tasks_def assms(2) or_else_def split: option.split)
qed

lemma find_unique:
  "distinct (map f xs) \<Longrightarrow> x \<in> set xs \<Longrightarrow> find (\<lambda>y. f y = f x) xs = Some x"
  by (induction xs) (auto simp: image_iff)

lemma find_sort_key:
  assumes "distinct (map f xs)"
  shows "find (\<lambda>x. f x = i) (sort_key g xs) = find (\<lambda>x. f x = i) xs"
proof (cases "find (\<lambda>x. f x = i) xs")
  case None
  then have "find (\<lambda>x. f x = i) (sort_key g xs) = None" by (simp add: find_None_iff)
  with None show ?thesis by simp
next
  case (Some x)
  then have x: "x \<in> set xs" "f x = i" using find_SomeD [OF Some] by auto
  have "distinct (map f (sort_key g xs))"
    using assms by (simp add: distinct_map)
  then show ?thesis using find_unique [of f "sort_key g xs" x] x Some by simp
qed

lemma keyed_find_persisted:
  "keyed tasks \<Longrightarrow>
     find (\<lambda>t. ct_task_id (pt_registration t) = i) (map persisted_task (hash_values tasks)) =
       map_option persisted_task (hash_get i tasks)"
  by (induction tasks) (auto simp: keyed_def hash_wf_def hash_values_def hash_get_def persisted_task_def)

lemma keyed_distinct_persisted:
  assumes "keyed tasks"
  shows "distinct (map (\<lambda>t. ct_task_id (pt_registration t)) (map persisted_task (hash_values tasks)))"
proof -
  have "map (\<lambda>t. ct_task_id (pt_registration t)) (map persisted_task (hash_values tasks)) = map fst tasks"
    using assms by (auto simp: keyed_def hash_values_def persisted_task_def)
  then show ?thesis using assms by (simp add: keyed_def hash_wf_def)
qed

lemma distinct_map_sort_key: "distinct (map f (sort_key g xs)) = distinct (map f xs)"
  by (metis mset_map mset_sort mset_eq_imp_distinct_iff)

lemma current_state_file_view:
  assumes "keyed (cr_tasks s)"
  shows "hash_get i (stored_tasks (current_state_file s)) = map_option persisted_task (hash_get i (cr_tasks s))"
proof -
  let ?ts = "map persisted_task (hash_values (cr_tasks s))"
  have "distinct (map (\<lambda>t. ct_task_id (pt_registration t)) (cf_tasks (current_state_file s)))"
    using keyed_distinct_persisted [OF assms] by (simp only: current_state_file_def cron_state_file.simps distinct_map_sort_key)
  then have "hash_get i (stored_tasks (current_state_file s)) =
      find (\<lambda>t. ct_task_id (pt_registration t) = i) (cf_tasks (current_state_file s))"
    by (rule stored_tasks_get) simp
  also have "\<dots> = find (\<lambda>t. ct_task_id (pt_registration t) = i) ?ts"
    unfolding current_state_file_def using find_sort_key [OF keyed_distinct_persisted [OF assms]] by simp
  finally show ?thesis by (simp add: keyed_find_persisted [OF assms])
qed

lemma load_durable: "leads (\<lambda>_. True) (load_tasks env now) (durable env)"
proof (rule leadsI)
  fix s x s' assume run: "load_tasks env now s = (Inr x, s')"
  show "durable env s'"
  proof (cases "cr_file s")
    case None
    then show ?thesis using run by (auto simp: load_tasks_def gets_def upd_def durable_def disk_view_def memory_view_def)
  next
    case (Some content)
    then obtain f where f: "ce_decode_state env content = Some f" and s': "cr_file s' = Some content"
      "cr_tasks s' = hash_map_values (\<lambda>t. from_persisted t now) (stored_tasks f)" "cr_next_run_id s' = max (cf_next_run_id f) 1"
      using run
      by (auto simp: load_tasks_def gets_def andthen_ok fs_op_def bnd_ok cron_ask_def upd_def errM_def fold_from_persisted_Nil
          split: option.splits)
    then show ?thesis by (simp add: durable_def disk_view_def memory_view_def option.map_comp comp_def option.map_ident)
  qed
qed

lemma load_sound:
  "leads (\<lambda>s. cr_pending_runs s = [] \<and> cr_active_runs s = []) (load_tasks env now) cron_sound"
proof (rule leadsI)
  fix s x s' assume runs: "cr_pending_runs s = [] \<and> cr_active_runs s = []" and run: "load_tasks env now s = (Inr x, s')"
  have wf: "keyed m \<Longrightarrow> keyed (fold (\<lambda>task. hash_insert (ct_task_id (pt_registration task)) (from_persisted task now)) ts m)" for ts m
    by (induction ts arbitrary: m) (auto simp: keyed_insert from_persisted_def)
  have "keyed []" by (simp add: keyed_def)
  then show "cron_sound s'"
    using run runs
    by (auto simp: cron_sound_def run_ids_def value_ids_def hash_values_def at_most_once_def hash_keys_def load_tasks_def gets_def
        andthen_ok fs_op_def bnd_ok cron_ask_def upd_def errM_def wf split: option.splits)
qed

text \<open>The serde code reads back what it wrote.\<close>

definition state_codec_ok :: "cron_env \<Rightarrow> bool" where
  "state_codec_ok env \<longleftrightarrow> (\<forall>f content. ce_encode_state env f = Some content \<longrightarrow> ce_decode_state env content = Some f)"

lemma persist_durable:
  assumes "state_codec_ok env"
  shows "leads cron_sound (persist_tasks env) (durable env)"
proof (rule leadsI)
  fix s x s' assume sound: "cron_sound s" and run: "persist_tasks env s = (Inr x, s')"
  obtain content n where e: "ce_encode_state env (current_state_file (s\<lparr>cr_io := n\<rparr>)) = Some content"
    and s': "cr_file s' = Some content" "cr_tasks s' = cr_tasks s" "cr_next_run_id s' = cr_next_run_id s"
    using run
    by (auto simp: persist_tasks_def andthen_ok fs_op_def bnd_ok cron_ask_def upd_def gets_def errM_def split: option.splits)
  from e have "ce_decode_state env content = Some (current_state_file s)"
    using assms by (auto simp: state_codec_ok_def current_state_file_def)
  then show "durable env s'"
    using s' current_state_file_view [OF cron_soundD(1) [OF sound]]
    by (simp add: durable_def disk_view_def memory_view_def current_state_file_def)
qed

section \<open>Every iteration leaves memory and disk in agreement\<close>

definition same_view :: "cron_state \<Rightarrow> cron_state \<Rightarrow> bool" where
  "same_view s s' \<longleftrightarrow> cr_file s' = cr_file s \<and> memory_view s' = memory_view s"

interpretation same_view: cron_frame same_view
  by unfold_locales (auto simp: same_view_def memory_view_def)

definition cron_ok :: "cron_env \<Rightarrow> cron_state \<Rightarrow> bool" where
  "cron_ok env s \<longleftrightarrow> cron_sound s \<and> durable env s"

lemma leads_sound: "steps_in keeps_sound m \<Longrightarrow> leads cron_sound m cron_sound"
  by (rule leadsI) (metis keeps_sound_def steps_inE)

lemma leads_sound_at: "step_in keeps_sound t m \<Longrightarrow> cron_sound t \<Longrightarrow> leads (\<lambda>s. s = t) m cron_sound"
  by (auto simp: leads_def step_in_def keeps_sound_def dest!: arg_cong [where f = snd])

lemma leads_view:
  assumes "steps_in same_view m" and "steps_in keeps_sound m"
  shows "leads (cron_ok env) m (cron_ok env)"
proof (rule leadsI)
  fix s x s' assume ok: "cron_ok env s" and run: "m s = (Inr x, s')"
  have "same_view s s'" "keeps_sound s s'" using assms run by (auto intro: steps_inE)
  then show "cron_ok env s'" using ok by (simp add: cron_ok_def same_view_def keeps_sound_def durable_def)
qed

lemma leads_view_at:
  "steps_in same_view m \<Longrightarrow> steps_in keeps_sound m \<Longrightarrow> cron_ok env t \<Longrightarrow> leads (\<lambda>s. s = t) m (cron_ok env)"
  by (rule leads_pre [OF leads_view]) auto

lemma leads_persist_then:
  assumes "state_codec_ok env" and "steps_in same_view n" and "steps_in keeps_sound n"
  shows "leads cron_sound (andthen (persist_tasks env) n) (cron_ok env)"
proof (rule leads_andthen)
  show "leads cron_sound (persist_tasks env) (cron_ok env)"
    unfolding cron_ok_def
    by (intro leads_both leads_sound persist_durable assms(1) frame)
  show "leads (cron_ok env) n (cron_ok env)" by (rule leads_view [OF assms(2,3)])
qed

lemma leads_persist: "state_codec_ok env \<Longrightarrow> leads cron_sound (persist_tasks env) (cron_ok env)"
  unfolding cron_ok_def by (intro leads_both leads_sound persist_durable frame)

lemma leads_sound_then: "steps_in keeps_sound m \<Longrightarrow> leads cron_sound n Q \<Longrightarrow> leads cron_sound (andthen m n) Q"
  by (rule leads_andthen [OF leads_sound])

lemma leads_sound_bnd: "steps_in keeps_sound m \<Longrightarrow> (\<And>x. leads cron_sound (f x) Q) \<Longrightarrow> leads cron_sound (bnd m f) Q"
  by (rule leads_bnd [OF leads_sound])

lemma leads_set_tasks:
  "cron_sound t \<Longrightarrow> (keyed (cr_tasks t) \<Longrightarrow> keyed tasks) \<Longrightarrow> leads (\<lambda>s. s = t) (set_tasks tasks) cron_sound"
  by (rule leads_sound_at [OF sound_set_tasks_step])

lemma ok_sound: "cron_ok env s \<Longrightarrow> cron_sound s"
  by (simp add: cron_ok_def)

lemma update_rejected_unchanged:
  assumes "update_task env i source patch now tasks = (Inl reason, tasks')"
    and "\<And>schedule. cp_schedule patch = Some schedule \<Longrightarrow> validate_schedule env schedule = Inr ()"
  shows "tasks' = tasks"
  using assms by (auto simp: update_task_def Let_def split: option.splits if_splits sum.splits)

lemma ok_register_accepted:
  assumes "state_codec_ok env"
    and "validate_task_registration env (task\<lparr>ct_registered_by := sc_source call\<rparr>) (sc_source call) = Inr ()"
  shows "leads cron_sound (handle_register_task env call task) (cron_ok env)"
proof -
  have k: "steps_in keeps_sound (upd (\<lambda>s. s\<lparr>cr_tasks := hash_insert (ct_task_id task)
      (scheduled_cron_task_new (task\<lparr>ct_registered_by := sc_source call\<rparr>) now) (cr_tasks s)\<rparr>))" for now
    by (intro cron_sound.steps_upd sound_set_tasks keyed_insert) (simp_all add: scheduled_cron_task_new_def)
  then show ?thesis
    unfolding handle_register_task_def using assms(2)
    by (simp add: Let_def) (intro leads_persist_then [OF assms(1)] leads_sound_then leads_sound_bnd k frame)
qed

lemma ok_register:
  assumes "state_codec_ok env"
  shows "leads (cron_ok env) (handle_register_task env call task) (cron_ok env)"
proof (cases "validate_task_registration env (task\<lparr>ct_registered_by := sc_source call\<rparr>) (sc_source call)")
  case (Inl reason)
  then show ?thesis unfolding handle_register_task_def by (auto intro!: leads_view frame)
next
  case (Inr u)
  then show ?thesis using leads_pre [OF ok_register_accepted [OF assms] ok_sound] by simp
qed

lemma ok_update:
  assumes "state_codec_ok env" and "\<And>schedule. cp_schedule patch = Some schedule \<Longrightarrow> validate_schedule env schedule = Inr ()"
  shows "leads (cron_ok env) (handle_update_task env call i patch) (cron_ok env)"
  unfolding handle_update_task_def
proof (rule leads_bnd [OF leads_view [OF same_view.frame_cron_ask cron_sound.frame_cron_ask]], rule leads_gets, goal_cases)
  case (1 now t)
  obtain r tasks where u: "update_task env i (sc_source call) patch now (cr_tasks t) = (r, tasks)" by fastforce
  then have k: "keyed (cr_tasks t) \<Longrightarrow> keyed tasks" by (metis keyed_update_task snd_conv)
  show ?case
  proof (cases r)
    case (Inl reason)
    then have "tasks = cr_tasks t" using u assms(2) update_rejected_unchanged by blast
    then have "leads (\<lambda>s. s = t) (set_tasks tasks) (\<lambda>s. s = t)" by (simp add: leads_def set_tasks_def upd_def)
    then show ?thesis using 1 unfolding u Inl
      by (auto intro!: leads_andthen [OF _ leads_view_at] frame)
  next
    case (Inr task)
    then show ?thesis unfolding u
      by (auto intro!: leads_andthen [OF leads_set_tasks [OF ok_sound [OF 1] k]] leads_persist_then assms(1) frame)
  qed
qed

lemma ok_remove:
  assumes "state_codec_ok env"
  shows "leads (cron_ok env) (handle_remove_task env call i) (cron_ok env)"
  unfolding handle_remove_task_def
proof (rule leads_gets, goal_cases)
  case (1 t)
  have persist: "leads (\<lambda>s. s = t) (andthen (set_tasks tasks) (andthen (persist_tasks env) (reply_cron env call r))) (cron_ok env)"
    if "keyed (cr_tasks t) \<Longrightarrow> keyed tasks" for tasks r
    by (rule leads_andthen [OF leads_set_tasks [OF ok_sound [OF 1] that]]) (auto intro!: leads_persist_then assms frame)
  show ?case
    using 1 by (auto simp: remove_task_def intro!: persist keyed_remove leads_view_at frame split: option.split)
qed

lemma ok_disable:
  assumes "state_codec_ok env"
  shows "leads (cron_ok env) (handle_disable_tasks_for_owner env call owner reason) (cron_ok env)"
  unfolding handle_disable_tasks_for_owner_def disable_tasks_for_owner_def
  by (rule leads_gets) (auto intro!: leads_andthen [OF leads_set_tasks [OF ok_sound]] keyed_map_values leads_persist_then assms frame)

lemma ok_start_run:
  assumes "state_codec_ok env" and "cron_ok env t" and "hash_get i (cr_tasks t) = Some scheduled"
    and "task_run_in_progress (cr_pending_runs t) (cr_active_runs t) i = None"
  shows "leads (\<lambda>s. s = t) (start_run env (st_registration scheduled) i by_whom) (cron_ok env)"
proof -
  note sound = ok_sound [OF assms(2)]
  have "ct_task_id (st_registration scheduled) = i" by (rule keyed_get [OF cron_soundD(1) [OF sound] assms(3)])
  then have free: "task_run_in_progress (cr_pending_runs t) (cr_active_runs t) (ct_task_id (st_registration scheduled)) = None"
    using assms(4) by simp
  have "step_in keeps_sound t (trigger_task env (st_registration scheduled) by_whom)"
    unfolding trigger_task_def Let_def
    by (intro cron_sound.step_gets cron_sound.step_andthen cron_sound.step_upd keeps_soundI sound_trigger sound free frame)
  then have "leads (\<lambda>s. s = t) (trigger_task env (st_registration scheduled) by_whom) cron_sound"
    using sound by (rule leads_sound_at)
  then show ?thesis
    unfolding start_run_def
    by (rule leads_bnd)
      (intro leads_persist [OF assms(1)] leads_sound_then cron_sound.steps_upd sound_set_tasks keyed_mark_running)
qed

lemma leads_at: "leads P m Q \<Longrightarrow> P t \<Longrightarrow> leads (\<lambda>s. s = t) m Q"
  by (auto simp: leads_def)

lemma ok_reply: "leads (cron_ok env) (reply_cron env' call r) (cron_ok env)"
  by (rule leads_view) (rule frame)+

lemma ok_send: "leads (cron_ok env) (cron_send env' out) (cron_ok env)"
  by (rule leads_view) (rule frame)+

lemma ok_status: "leads (cron_ok env) (send_status env' label entries) (cron_ok env)"
  by (rule leads_view) (rule frame)+

lemma ok_get_status: "leads (cron_ok env) (handle_get_task_status env' call i owner) (cron_ok env)"
  by (rule leads_view) (rule frame)+

lemmas ok_quiet = leads_andthen [OF ok_status ok_reply] ok_status ok_reply ok_send ok_get_status

lemma ok_trigger_now:
  assumes "state_codec_ok env"
  shows "leads (cron_ok env) (handle_trigger_task_now env call i) (cron_ok env)"
  unfolding handle_trigger_task_now_def Let_def
  by (rule leads_gets)
    (auto intro!: leads_andthen [OF ok_start_run ok_reply] leads_at [OF leads_andthen [OF ok_status ok_reply]]
      leads_at [OF ok_reply] assms split: option.split)

lemma leads_upd_sound_at:
  "cron_sound t \<Longrightarrow> keeps_sound t (f t) \<Longrightarrow> leads (\<lambda>s. s = t) (upd f) cron_sound"
  by (simp add: leads_def upd_def keeps_sound_def)

lemma ok_failed_run:
  assumes "state_codec_ok env"
  shows "leads (cron_ok env) (record_failed_run env session code message det) (cron_ok env)"
  unfolding record_failed_run_def
proof (rule leads_gets, goal_cases)
  case (1 t)
  show ?case
  proof (cases "hash_get session (cr_active_runs t)")
    case None
    then show ?thesis using 1 by (auto intro!: leads_view_at frame)
  next
    case (Some run)
    let ?tasks = "snd (mark_task_failed (ar_task_id run) message (cr_tasks t))"
    have "keeps_sound t (t\<lparr>cr_active_runs := hash_remove session (cr_active_runs t), cr_tasks := ?tasks\<rparr>)"
      using sound_set_tasks [of "t\<lparr>cr_active_runs := hash_remove session (cr_active_runs t)\<rparr>" ?tasks]
        sound_remove_active [of t session] keyed_mark_failed by (simp add: keeps_sound_def)
    then show ?thesis using Some
      by (auto simp: case_prod_beta
          intro!: leads_andthen [OF leads_upd_sound_at [OF ok_sound [OF 1]]] leads_sound_then leads_persist assms frame)
  qed
qed

lemma ok_completed_run:
  assumes "state_codec_ok env"
  shows "leads (cron_ok env) (record_completed_run env session message) (cron_ok env)"
  unfolding record_completed_run_def
proof (rule leads_gets, goal_cases)
  case (1 t)
  show ?case
  proof (cases "hash_get session (cr_active_runs t)")
    case None
    then show ?thesis using 1 by (auto intro!: leads_view_at frame)
  next
    case (Some run)
    let ?tasks = "mark_task_completed (ar_task_id run) (cr_tasks t)"
    have "keeps_sound t (t\<lparr>cr_active_runs := hash_remove session (cr_active_runs t), cr_tasks := ?tasks\<rparr>)"
      using sound_set_tasks [of "t\<lparr>cr_active_runs := hash_remove session (cr_active_runs t)\<rparr>" ?tasks]
        sound_remove_active [of t session] keyed_mark_completed by (simp add: keeps_sound_def)
    then show ?thesis using Some
      by (auto intro!: leads_andthen [OF leads_upd_sound_at [OF ok_sound [OF 1]]] leads_sound_then leads_persist assms frame
          split: option.split cron_task_output_policy.split)
  qed
qed

lemma ok_pending_failed:
  assumes "state_codec_ok env"
  shows "leads (cron_ok env) (record_pending_run_failed env code message det) (cron_ok env)"
proof (rule leadsI)
  fix s x s' assume ok: "cron_ok env s" and run: "record_pending_run_failed env code message det s = (Inr x, s')"
  show "cron_ok env s'"
  proof (cases "cr_pending_order s")
    case Nil
    have "leads (cron_ok env) (send_status env ''kernel_response'' det) (cron_ok env)" by (rule leads_view) (rule frame)+
    then show ?thesis using run ok Nil by (auto simp: record_pending_run_failed_def gets_def elim: leadsD)
  next
    case (Cons addr order)
    show ?thesis
    proof (cases "hash_get addr (cr_pending_runs s)")
      case None
      have "keeps_sound s s'" by (rule steps_inE [OF sound_pending_failed run])
      moreover have "s' = s\<lparr>cr_pending_order := order\<rparr>"
        using run Cons None by (auto simp: record_pending_run_failed_def gets_def andthen_ok upd_def okM_def)
      ultimately show ?thesis using ok by (auto simp: cron_ok_def keeps_sound_def durable_def memory_view_def)
    next
      case (Some r)
      obtain n tasks where m: "mark_task_failed (ct_task_id (pr_task r)) message (cr_tasks s) = (n, tasks)" by fastforce
      let ?t = "s\<lparr>cr_pending_order := order, cr_pending_runs := hash_remove addr (cr_pending_runs s), cr_tasks := tasks\<rparr>"
      have "cron_sound ?t"
        using sound_set_tasks [of "s\<lparr>cr_pending_order := order, cr_pending_runs := hash_remove addr (cr_pending_runs s)\<rparr>" tasks]
          sound_drop_pending [OF ok_sound [OF ok] Cons] keyed_mark_failed [of "cr_tasks s" "ct_task_id (pr_task r)" message] m
        by (simp add: keeps_sound_def)
      moreover have "andthen (send_status env ''task_run_failed'' (run_failed_fields (ct_task_id (pr_task r)) addr
          (pr_triggered_by r) (ct_channel_addr (pr_task r)) code message (JObject det) n)) (persist_tasks env) ?t = (Inr x, s')"
        using run Cons Some m by (simp add: record_pending_run_failed_def gets_def andthen_def bnd_def upd_def)
      ultimately show ?thesis
        using leadsD [OF leads_sound_then [OF cron_sound.frame_send_status leads_persist [OF assms]]] by blast
    qed
  qed
qed

lemma ok_created: "leads (cron_ok env) (handle_agent_session_created env addr) (cron_ok env)"
proof (rule leadsI)
  fix s x s' assume ok: "cron_ok env s" and run: "handle_agent_session_created env addr s = (Inr x, s')"
  have "steps_in same_view (handle_agent_session_created env addr)"
    unfolding handle_agent_session_created_def
    by (auto intro!: frame same_view.steps_upd simp: same_view_def memory_view_def split: option.split)
  then have "same_view s s'" using run by (rule steps_inE)
  moreover have "keeps_sound s s'" by (rule steps_inE [OF sound_created run])
  ultimately show "cron_ok env s'" using ok by (simp add: cron_ok_def same_view_def keeps_sound_def durable_def)
qed

lemma ok_session_event:
  "state_codec_ok env \<Longrightarrow> leads (cron_ok env) (handle_agent_session_event env session event) (cron_ok env)"
  unfolding handle_agent_session_event_def
  by (auto intro!: ok_completed_run ok_failed_run leads_view frame split: agent_session_event.split option.split)

lemma ok_kernel_response:
  "state_codec_ok env \<Longrightarrow> leads (cron_ok env) (handle_kernel_response env error call) (cron_ok env)"
  unfolding handle_kernel_response_def
  by (auto intro!: ok_created ok_pending_failed leads_view frame split: sum.split kernel_response.split)

text \<open>Inputs without an update that carries an invalid schedule.\<close>

definition valid_input :: "cron_env \<Rightarrow> cron_input \<Rightarrow> bool" where
  "valid_input env input \<longleftrightarrow>
     (case input of
        Inbox call \<Rightarrow>
          (case decode_cron_request (ce_codec env) (sc_payload call) of
             Inr (UpdateTask _ patch) \<Rightarrow>
               (case cp_schedule patch of None \<Rightarrow> True | Some schedule \<Rightarrow> validate_schedule env schedule = Inr ())
           | _ \<Rightarrow> True)
      | _ \<Rightarrow> True)"

lemma ok_call:
  assumes "state_codec_ok env" and "valid_input env (Inbox call)"
  shows "leads (cron_ok env) (handle_cron_call env call) (cron_ok env)"
  using assms(2) unfolding handle_cron_call_def valid_input_def
  by (auto intro!: ok_register ok_update ok_remove ok_disable ok_trigger_now ok_session_event ok_kernel_response assms(1)
      leads_gets [OF leads_at] ok_quiet split: sum.splits cron_request.splits option.splits)

lemma ok_due_task: "state_codec_ok env \<Longrightarrow> leads (cron_ok env) (run_due_task env i) (cron_ok env)"
  unfolding run_due_task_def
  by (rule leads_gets) (auto intro!: ok_start_run leads_at [OF ok_status] leads_at [OF leads_ok] split: option.split)

lemma due_same_view:
  "(\<lambda>j. map_option persisted_task (hash_get j (snd (due_task_ids_loop now ids tasks due)))) =
     (\<lambda>j. map_option persisted_task (hash_get j tasks))"
proof (induction ids arbitrary: tasks due)
  case (Cons i ids)
  have "(\<lambda>j. map_option persisted_task (hash_get j (hash_adjust i (\<lambda>task. task\<lparr>st_interval_anchor := now\<rparr>) tasks))) =
      (\<lambda>j. map_option persisted_task (hash_get j tasks))"
    by (rule ext) (auto simp: option.map_comp persisted_task_def comp_def intro!: map_option_cong)
  then show ?case using Cons by (auto split: option.split cron_schedule.split)
qed simp

lemma ok_timer:
  assumes "state_codec_ok env"
  shows "leads (cron_ok env) (handle_timer env wakeup) (cron_ok env)"
proof (cases wakeup)
  case None
  then show ?thesis by (simp add: handle_timer_def leads_ok)
next
  case (Some w)
  have set: "leads (\<lambda>s. s = t) (set_tasks (snd (due_task_ids (cr_tasks t) w now))) (cron_ok env)" if "cron_ok env t" for t now
  proof (rule leadsI, goal_cases)
    case (1 s x s')
    have "keeps_sound t s'"
      using sound_set_tasks [of t "snd (due_task_ids (cr_tasks t) w now)"] keyed_due [of "cr_tasks t" now "wk_task_ids w" "[]"] 1 by (simp add: set_tasks_def upd_def due_task_ids_def)
    moreover have "same_view t s'"
      using due_same_view [of now "wk_task_ids w" "cr_tasks t" "[]"] 1
      by (auto simp: set_tasks_def upd_def due_task_ids_def same_view_def memory_view_def)
    ultimately show ?case using that by (simp add: cron_ok_def same_view_def keeps_sound_def durable_def)
  qed
  show ?thesis unfolding handle_timer_def Some
    by (simp, rule leads_bnd [OF leads_view [OF same_view.frame_cron_ask cron_sound.frame_cron_ask]], rule leads_gets)
      (auto simp: case_prod_beta intro!: leads_andthen [OF set] leads_for_each ok_due_task assms)
qed

lemma ok_iteration:
  assumes "state_codec_ok env" and "valid_input env input"
  shows "leads (cron_ok env) (cron_iteration env input) (cron_ok env)"
proof -
  have handle: "leads (cron_ok env) (case input of
       Stop_signal reason \<Rightarrow> andthen (cron_send env (Stopped_output (ce_addr env) reason)) (okM False)
     | Inbox call \<Rightarrow> andthen (handle_cron_call env call) (okM True)
     | Inbox_closed \<Rightarrow> errM (Anyhow [''receiving on an empty and disconnected channel''])
     | Timer \<Rightarrow> andthen (handle_timer env wakeup) (okM True)) (cron_ok env)" for wakeup
    using assms
    by (cases input) (auto intro!: leads_andthen [OF ok_call leads_ok] leads_andthen [OF ok_timer leads_ok]
        leads_andthen [OF ok_send leads_ok] leads_err)
  show ?thesis
    unfolding cron_iteration_def
    by (intro leads_bnd [OF leads_view [OF same_view.frame_cron_ask cron_sound.frame_cron_ask]] leads_gets
        leads_bnd [OF leads_from_result] leads_pre [OF handle]) auto
qed

lemma ok_loop:
  "state_codec_ok env \<Longrightarrow> list_all (valid_input env) inputs \<Longrightarrow> leads (cron_ok env) (cron_loop env inputs) (cron_ok env)"
  by (induction inputs) (auto intro!: leads_rules leads_bnd [OF ok_iteration])

end
