(* ===== verification/Cron_Guarantees.thy ===== *)
theory Cron_Guarantees
  imports Cron_Properties
begin

text \<open>
  The properties of the scheduler: one run per task, exact due times, tasks that survive a
  restart, and the schedules that stop the service.
\<close>

section \<open>Due times\<close>

text \<open>The loop of \<open>next_wakeup\<close> keeps the minimum and the tasks that reach it.\<close>

definition due_at :: "cron_env \<Rightarrow> nat \<Rightarrow> int \<Rightarrow> scheduled_cron_task \<Rightarrow> nat option" where
  "due_at env now utc task =
     (case next_wakeup_for_task env task now utc of Inr (Some t) \<Rightarrow> Some t | _ \<Rightarrow> None)"

definition earliest :: "cron_env \<Rightarrow> nat \<Rightarrow> int \<Rightarrow> scheduled_cron_task list \<Rightarrow> nat option \<Rightarrow> string list \<Rightarrow> bool" where
  "earliest env now utc tasks wakeup_at ids \<longleftrightarrow>
     (case wakeup_at of
        None \<Rightarrow> ids = [] \<and> (\<forall>task \<in> set tasks. due_at env now utc task = None)
      | Some t \<Rightarrow>
          (\<exists>task \<in> set tasks. due_at env now utc task = Some t) \<and>
          (\<forall>task \<in> set tasks. \<forall>u. due_at env now utc task = Some u \<longrightarrow> t \<le> u) \<and>
          ids = map (\<lambda>task. ct_task_id (st_registration task)) (filter (\<lambda>task. due_at env now utc task = Some t) tasks))"

lemma next_wakeup_loop_earliest:
  "next_wakeup_loop env now utc tasks wakeup_at ids = Inr (w, is) \<Longrightarrow> earliest env now utc seen wakeup_at ids \<Longrightarrow>
     earliest env now utc (seen @ tasks) w is"
proof (induction tasks arbitrary: wakeup_at ids seen)
  case (Cons task tasks)
  let ?i = "ct_task_id (st_registration task)"
  have step: "earliest env now utc ((seen @ [task]) @ tasks) w is"
    if "earliest env now utc (seen @ [task]) wakeup' ids'" "next_wakeup_loop env now utc tasks wakeup' ids' = Inr (w, is)" for wakeup' ids'
    using Cons.IH that by blast
  obtain d where d: "next_wakeup_for_task env task now utc = Inr d"
    using Cons.prems(1) by (auto simp: Let_def split: sum.splits)
  show ?case
  proof (cases d)
    case None
    then have "earliest env now utc (seen @ [task]) wakeup_at ids"
      using Cons.prems(2) d by (auto simp: earliest_def due_at_def split: option.splits)
    then show ?thesis using step Cons.prems(1) d None by (auto simp: Let_def)
  next
    case (Some t)
    then have due: "due_at env now utc task = Some t" using d by (simp add: due_at_def)
    show ?thesis
    proof (cases wakeup_at)
      case None
      then have "earliest env now utc (seen @ [task]) (Some t) (ids @ [?i])"
        using Cons.prems(2) due by (auto simp: earliest_def)
      then show ?thesis using step Cons.prems(1) d Some None by (auto simp: Let_def)
    next
      case (Some current)
      note cur = this
      consider "t < current" | "t = current" | "current < t" by linarith
      then show ?thesis
      proof cases
        case 1
        have "filter (\<lambda>task. due_at env now utc task = Some t) seen = []"
          using Cons.prems(2) 1 cur by (fastforce simp: earliest_def filter_empty_conv)
        then have "earliest env now utc (seen @ [task]) (Some t) [?i]"
          using Cons.prems(2) due 1 cur by (fastforce simp: earliest_def)
        then show ?thesis using step Cons.prems(1) d \<open>d = Some t\<close> cur 1 by (auto simp: Let_def)
      next
        case 2
        then have "earliest env now utc (seen @ [task]) (Some current) (ids @ [?i])"
          using Cons.prems(2) due cur by (auto simp: earliest_def)
        then show ?thesis using step Cons.prems(1) d \<open>d = Some t\<close> cur 2 by (auto simp: Let_def)
      next
        case 3
        then have "earliest env now utc (seen @ [task]) (Some current) ids"
          using Cons.prems(2) due cur by (auto simp: earliest_def)
        then show ?thesis using step Cons.prems(1) d \<open>d = Some t\<close> cur 3 by (auto simp: Let_def)
      qed
    qed
  qed
qed simp

text \<open>A duration that does not fit stops the thread that computes the due times.\<close>

lemma next_wakeup_panics:
  assumes "task \<in> set tasks" and "next_wakeup_for_task env task now utc = Inl Thread_panic"
  shows "next_wakeup_loop env now utc tasks wakeup_at ids = Inl Thread_panic"
  using assms(1)
proof (induction tasks arbitrary: wakeup_at ids)
  case (Cons t tasks)
  have only: "next_wakeup_for_task env t now utc = Inl e \<Longrightarrow> e = Thread_panic" for e
    by (auto simp: next_wakeup_for_task_def next_cron_instant_def from_secs_f64_def add_instant_def Let_def
        split: if_splits cron_schedule.splits f64.splits sum.splits option.splits)
  show ?case
  proof (cases "t = task")
    case True
    then show ?thesis using assms(2) by simp
  next
    case False
    then show ?thesis using Cons only by (auto simp: Let_def split: sum.split option.split)
  qed
qed simp

lemma huge_duration_panics:
  assumes "2 ^ 64 \<le> r"
  shows "from_secs_f64 r = Inl Thread_panic"
proof -
  have "(2 ^ 64 * 10 ^ 9 :: rat) \<le> r * of_nat nanos_per_sec"
    using assms by (simp add: nanos_per_sec_def)
  then have "(2 ^ 64 * 10 ^ 9 :: int) \<le> floor (r * of_nat nanos_per_sec)"
    by (simp add: le_floor_iff)
  then have "(2 ^ 64 * 10 ^ 9 :: int) \<le> round_half_even (r * of_nat nanos_per_sec)"
    by (auto simp: round_half_even_def Let_def)
  then show ?thesis by (simp add: from_secs_f64_def Let_def nanos_per_sec_def nat_le_iff le_nat_iff)
qed

lemma iteration_panics:
  assumes "hash_get i (cr_tasks s) = Some task" and "ct_enabled (st_registration task)"
    and "ct_schedule (st_registration task) = IntervalSeconds (Finite r)" and "2 ^ 64 \<le> r"
  shows "fst (cron_iteration env input s) = Inl Thread_panic"
proof -
  have "0 < r" using assms(4) by (meson less_le_trans zero_less_numeral zero_less_power)
  then have "next_wakeup_for_task env task now utc = Inl Thread_panic" for now utc
    using assms huge_duration_panics by (simp add: next_wakeup_for_task_def validate_schedule_def)
  moreover have "task \<in> set (hash_values (cr_tasks s))"
    using hash_get_Some_in [OF assms(1)] by (force simp: hash_values_def)
  ultimately have "next_wakeup env (cr_tasks s) now utc = Inl Thread_panic" for now utc
    by (simp add: next_wakeup_def next_wakeup_panics)
  then show ?thesis
    by (simp add: cron_iteration_def bnd_def cron_ask_def gets_def from_result_def errM_def)
qed

section \<open>Runs from the start\<close>

lemma service_run_leads:
  assumes "\<And>now. leads (\<lambda>s. cr_pending_runs s = [] \<and> cr_active_runs s = []) (load_tasks env now) Q"
    and "leads Q (cron_loop env inputs) S"
  shows "leads (\<lambda>_. True) (cron_service_run env inputs) S"
proof -
  have "leads (\<lambda>_. True) (cron_ask (ce_instant env)) (\<lambda>_. True)" by (simp add: leads_def)
  moreover have "leads (\<lambda>_. True) (upd (\<lambda>s. s\<lparr>cr_pending_runs := [], cr_pending_order := [], cr_active_runs := []\<rparr>))
      (\<lambda>s. cr_pending_runs s = [] \<and> cr_active_runs s = [])"
    by (rule leads_upd) simp
  ultimately show ?thesis
    unfolding cron_service_run_def
    by (rule leads_bnd [OF _ leads_andthen [OF _ leads_andthen [OF assms]]])
qed

lemma service_run_sound: "leads (\<lambda>_. True) (cron_service_run env inputs) cron_sound"
  by (rule service_run_leads [OF load_sound leads_sound [OF sound_loop]])

lemma service_run_ok:
  assumes "state_codec_ok env" and "list_all (valid_input env) inputs"
  shows "leads (\<lambda>_. True) (cron_service_run env inputs) (cron_ok env)"
proof (rule service_run_leads [OF _ ok_loop [OF assms]])
  show "leads (\<lambda>s. cr_pending_runs s = [] \<and> cr_active_runs s = []) (load_tasks env now) (cron_ok env)" for now
    unfolding cron_ok_def by (intro leads_both load_sound leads_pre [OF load_durable]) simp
qed

lemma load_next_run_id: "load_tasks env now u = (Inr x, v) \<Longrightarrow> 1 \<le> cr_next_run_id v"
  by (auto simp: load_tasks_def gets_def andthen_ok fs_op_def bnd_ok cron_ask_def upd_def errM_def split: option.splits)

lemma load_file: "load_tasks env now u = (Inr x, v) \<Longrightarrow> cr_file v = cr_file u"
  by (auto simp: load_tasks_def gets_def andthen_ok fs_op_def bnd_ok cron_ask_def upd_def errM_def split: option.splits)

lemma load_same_view:
  assumes "durable env t" and "cr_file u = cr_file t" and "load_tasks env now u = (Inr x, v)"
  shows "memory_view v = memory_view t"
  using assms(1,2) load_file [OF assms(3)] leadsD [OF load_durable TrueI assms(3)] by (simp add: durable_def)

text \<open>Registering a task that passes validation.\<close>

definition same_tasks :: "cron_state \<Rightarrow> cron_state \<Rightarrow> bool" where
  "same_tasks s s' \<longleftrightarrow> cr_tasks s' = cr_tasks s"

interpretation same_tasks: cron_storage_frame same_tasks
  by unfold_locales (auto simp: same_tasks_def)

definition has_task :: "string \<Rightarrow> cron_task_registration \<Rightarrow> cron_state \<Rightarrow> bool" where
  "has_task i r t \<longleftrightarrow> map_option st_registration (hash_get i (cr_tasks t)) = Some r"

lemma iteration_inbox:
  assumes "leads P (handle_cron_call env call) Q" and "\<And>s n. P s \<Longrightarrow> P (s\<lparr>cr_io := n\<rparr>)"
  shows "leads P (cron_iteration env (Inbox call)) Q"
proof -
  have ask: "leads P (cron_ask f) P" for f :: "nat \<Rightarrow> 'x"
    using assms(2) by (auto simp: leads_def cron_ask_def)
  show ?thesis
    unfolding cron_iteration_def
    by (simp, intro leads_bnd [OF ask] leads_gets leads_bnd [OF leads_from_result] leads_andthen [OF _ leads_ok] leads_pre [OF assms(1)])
      simp
qed

lemma register_keeps_task:
  assumes "validate_task_registration env (task\<lparr>ct_registered_by := sc_source call\<rparr>) (sc_source call) = Inr ()"
  shows "leads (\<lambda>_. True) (handle_register_task env call task)
    (has_task (ct_task_id task) (task\<lparr>ct_registered_by := sc_source call\<rparr>))"
proof -
  let ?Q = "has_task (ct_task_id task) (task\<lparr>ct_registered_by := sc_source call\<rparr>)"
  have keep: "leads ?Q m ?Q" if "steps_in same_tasks m" for m :: "'x cron"
    by (rule leadsI) (use that in \<open>auto simp: has_task_def same_tasks_def dest!: steps_inE\<close>)
  have any: "leads (\<lambda>_. True) m (\<lambda>_. True)" for m :: "'x cron"
    by (simp add: leads_def)
  have "leads (\<lambda>_. True) (upd (\<lambda>s. s\<lparr>cr_tasks := hash_insert (ct_task_id task)
      (scheduled_cron_task_new (task\<lparr>ct_registered_by := sc_source call\<rparr>) now) (cr_tasks s)\<rparr>)) ?Q" for now
    by (rule leads_upd) (simp add: has_task_def scheduled_cron_task_new_def)
  then show ?thesis
    unfolding handle_register_task_def using assms
    by (simp add: Let_def)
      (rule leads_andthen [OF any leads_bnd [OF any leads_andthen]], assumption, rule keep, (rule frame)+)
qed

section \<open>A sample run\<close>

definition sample_task :: "rat \<Rightarrow> cron_task_registration" where
  "sample_task r =
     \<lparr>ct_task_id = ''t'', ct_registered_by = channel_id ''main'', ct_channel_addr = channel_id ''main'', ct_name = None,
      ct_description = None, ct_enabled = True, ct_foreground_session_addr = None,
      ct_schedule = IntervalSeconds (Finite r), ct_payload = Prompt ''p'' StoreOnly\<rparr>"

definition sample_file :: "rat \<Rightarrow> cron_state_file" where
  "sample_file r =
     \<lparr>cf_file_version = 1, cf_next_run_id = 1,
      cf_tasks = [persisted_task (scheduled_cron_task_new (sample_task r) 0)]\<rparr>"

definition sample_codec :: "cron_request \<Rightarrow> codec" where
  "sample_codec request =
     \<lparr>encode_kernel_request = \<lambda>_. Inr JNull, decode_kernel_request = \<lambda>_. Inr QueryMetadata,
      encode_kernel_response = \<lambda>_. Inr JNull, decode_kernel_response = \<lambda>_. Inl ''no'',
      encode_cron_request = \<lambda>_. Inr JNull, decode_cron_request = \<lambda>_. Inr request,
      encode_cron_response = \<lambda>_. Inr JNull, encode_agent_request = \<lambda>_. Inr JNull,
      encode_workspace_runtime_config = \<lambda>_. Inr JNull, encode_terminal_runtime_config = \<lambda>_. Inr JNull,
      agent_event_json = \<lambda>_. JNull\<rparr>"

definition sample_cron_env :: "rat \<Rightarrow> cron_env" where
  "sample_cron_env r =
     \<lparr>ce_codec = sample_codec (RegisterTask (sample_task r)), ce_addr = cron_addr, ce_storage = ''d'',
      ce_instant = \<lambda>_. 0, ce_utc = \<lambda>_. 0, ce_outbox_closed = \<lambda>_. False, ce_fs_error = \<lambda>_. None,
      ce_encode_state = (\<lambda>f. if f = sample_file r then Some ''x'' else None),
      ce_decode_state = (\<lambda>c. if c = ''x'' then Some (sample_file r) else None),
      ce_schedule_error = \<lambda>_. None, ce_timezone_error = \<lambda>_. None, ce_next_after = \<lambda>_ _ _. None,
      ce_kernel_response_json = \<lambda>_. JNull, ce_fresh_id = \<lambda>_. ''m''\<rparr>"

definition sample_cron_state :: cron_state where
  "sample_cron_state =
     \<lparr>cr_tasks = [], cr_pending_runs = [], cr_pending_order = [], cr_active_runs = [], cr_next_run_id = 1,
      cr_outbox = [], cr_file = None, cr_tmp_file = None, cr_io = 0\<rparr>"

definition sample_register :: service_call where
  "sample_register = service_call_new (channel_id ''main'') cron_addr JNull"

lemma sample_codec_ok: "state_codec_ok (sample_cron_env r)"
  by (auto simp: state_codec_ok_def sample_cron_env_def split: if_splits)

lemma sample_sound: "cron_sound sample_cron_state"
  by (simp add: cron_sound_def sample_cron_state_def keyed_def run_ids_def value_ids_def hash_values_def at_most_once_def hash_keys_def)

lemma sample_valid:
  "0 < r \<Longrightarrow> validate_task_registration (sample_cron_env r) ((sample_task r)\<lparr>ct_registered_by := sc_source sample_register\<rparr>)
     (sc_source sample_register) = Inr ()"
  by (simp add: validate_task_registration_def sample_task_def sample_register_def service_call_new_def validate_schedule_def
      local_channel_id_def local_foreground_id_def channel_id_def local_path_def trim_def trim_start_def trim_end_def rust_whitespace_def)

lemma sample_valid_manual:
  "validate_task_registration (sample_cron_env r)
     ((sample_task r)\<lparr>ct_registered_by := sc_source sample_register, ct_schedule := Manual\<rparr>) (sc_source sample_register) = Inr ()"
  by (simp add: validate_task_registration_def sample_task_def sample_register_def service_call_new_def validate_schedule_def
      local_channel_id_def local_foreground_id_def channel_id_def local_path_def trim_def trim_start_def trim_end_def rust_whitespace_def)

lemma sample_env_simps:
  "ce_instant (sample_cron_env r) = (\<lambda>_. 0)" "ce_utc (sample_cron_env r) = (\<lambda>_. 0)"
  "ce_outbox_closed (sample_cron_env r) = (\<lambda>_. False)" "ce_fs_error (sample_cron_env r) = (\<lambda>_. None)"
  "encode_cron_response (ce_codec (sample_cron_env r)) = (\<lambda>_. Inr JNull)"
  "decode_cron_request (ce_codec (sample_cron_env r)) = (\<lambda>_. Inr (RegisterTask (sample_task r)))"
  by (simp_all add: sample_cron_env_def sample_codec_def)

lemma sample_encode:
  "cr_tasks s = [(''t'', scheduled_cron_task_new (sample_task r) 0)] \<Longrightarrow> cr_next_run_id s = 1 \<Longrightarrow>
     ce_encode_state (sample_cron_env r) (current_state_file s) = Some ''x''"
  by (simp add: sample_cron_env_def current_state_file_def sample_file_def hash_values_def)

lemma sample_run:
  assumes "0 < r"
  shows "\<exists>t. cron_iteration (sample_cron_env r) (Inbox sample_register) sample_cron_state = (Inr True, t) \<and> cr_file t = Some ''x''"
proof -
  have reg: "(sample_task r)\<lparr>ct_registered_by := sc_source sample_register\<rparr> = sample_task r" "ct_task_id (sample_task r) = ''t''"
    by (simp_all add: sample_task_def sample_register_def service_call_new_def)
  note valid = sample_valid [OF assms, unfolded reg]
  show ?thesis
    using valid
    by (simp add: cron_iteration_def handle_cron_call_def handle_register_task_def persist_tasks_def fs_op_def cron_send_def send_status_def
        reply_cron_def encoded_def map_err_def act_defs cron_ask_def next_wakeup_def hash_values_def sample_cron_state_def reg
        sample_env_simps sample_encode hash_insert_def hash_remove_def Let_def)
qed

lemma sample_service_run:
  assumes "0 < r"
  shows "\<exists>t. cron_service_run (sample_cron_env r) [Inbox sample_register] sample_cron_state = (Inr True, t) \<and> cr_file t = Some ''x''"
proof -
  have reg: "(sample_task r)\<lparr>ct_registered_by := sc_source sample_register\<rparr> = sample_task r" "ct_task_id (sample_task r) = ''t''"
    by (simp_all add: sample_task_def sample_register_def service_call_new_def)
  note valid = sample_valid [OF assms, unfolded reg]
  show ?thesis
    using valid
    by (simp add: cron_service_run_def load_tasks_def cron_iteration_def handle_cron_call_def handle_register_task_def persist_tasks_def
        fs_op_def cron_send_def send_status_def reply_cron_def encoded_def map_err_def act_defs cron_ask_def next_wakeup_def
        hash_values_def sample_cron_state_def reg sample_env_simps sample_encode hash_insert_def hash_remove_def Let_def)
qed

lemma sample_cron_load:
  assumes "cr_file u = Some ''x''"
  shows "\<exists>v. load_tasks (sample_cron_env r) 0 u = (Inr (), v)"
  using assms by (simp add: load_tasks_def fs_op_def act_defs cron_ask_def sample_env_simps) (simp add: sample_cron_env_def upd_def)

section \<open>Properties\<close>

text \<open>
  C17. The scheduler never has two runs of one task in progress, pending or active, whatever
  calls, kernel answers, session events and timer ticks it takes in whatever order, and whatever
  its services answer.
\<close>

theorem one_run_per_task: "count (run_ids (snd (cron_service_run env inputs s))) i \<le> 1"
proof -
  let ?s = "s\<lparr>cr_io := Suc (cr_io s), cr_pending_runs := [], cr_pending_order := [], cr_active_runs := []\<rparr>"
  obtain r t where load: "load_tasks env (ce_instant env (cr_io s)) ?s = (r, t)" by fastforce
  have run: "cron_service_run env inputs s = (case r of Inl e \<Rightarrow> (Inl e, t) | Inr _ \<Rightarrow> cron_loop env inputs t)"
    using load by (simp add: cron_service_run_def andthen_def bnd_def cron_ask_def upd_def split: sum.split)
  show ?thesis
  proof (cases r)
    case (Inl e)
    have "run_ids t = {#}"
      using load by (auto simp: load_tasks_def gets_def andthen_def bnd_def fs_op_def cron_ask_def errM_def upd_def
          run_ids_def value_ids_def hash_values_def split: option.splits)
    then show ?thesis using run Inl by simp
  next
    case (Inr u)
    have "cron_sound t" by (rule leadsD [OF load_sound _ load [unfolded Inr]]) simp
    then have "cron_sound (snd (cron_loop env inputs t))"
      using steps_inD [OF sound_loop] by (auto simp: keeps_sound_def)
    then show ?thesis using run Inr by (simp add: cron_sound_def at_most_once_def)
  qed
qed

text \<open>
  C19. The next wakeup is exact: its instant is the earliest due time of any task, and its
  tasks are precisely those due at that instant, in ascending order; there is no wakeup only
  when no task is due at all. The order in which the task table is traversed does not matter.
\<close>

theorem next_wakeup_exact:
  assumes "next_wakeup env tasks now utc = Inr w"
  shows "case w of
      None \<Rightarrow> \<forall>task \<in> set (hash_values tasks). due_at env now utc task = None
    | Some wakeup \<Rightarrow>
        (\<exists>task \<in> set (hash_values tasks). due_at env now utc task = Some (wk_at wakeup)) \<and>
        (\<forall>task \<in> set (hash_values tasks). \<forall>u. due_at env now utc task = Some u \<longrightarrow> wk_at wakeup \<le> u) \<and>
        sorted (wk_task_ids wakeup) \<and>
        mset (wk_task_ids wakeup) =
          {# ct_task_id (st_registration task) .
             task \<in># filter_mset (\<lambda>task. due_at env now utc task = Some (wk_at wakeup)) (mset (hash_values tasks)) #}"
proof -
  obtain at_time ids where run: "next_wakeup_loop env now utc (hash_values tasks) None [] = Inr (at_time, ids)"
    and w: "w = map_option (\<lambda>t. \<lparr>wk_at = t, wk_task_ids = sort ids\<rparr>) at_time"
    using assms unfolding next_wakeup_def
    by (cases "next_wakeup_loop env now utc (hash_values tasks) None []") auto
  have "earliest env now utc (hash_values tasks) at_time ids"
    using next_wakeup_loop_earliest [OF run, of "[]"] by (simp add: earliest_def)
  then show ?thesis by (cases at_time) (auto simp: w earliest_def mset_filter)
qed

theorem next_wakeup_exact_witness:
  "\<exists>w. next_wakeup (sample_cron_env 5) [(''t'', scheduled_cron_task_new (sample_task 5) 0)] 0 0 = Inr (Some w) \<and>
     wk_at w = 5000000000 \<and> mset (wk_task_ids w) = {#''t''#}"
proof -
  have due: "next_wakeup_for_task (sample_cron_env 5) (scheduled_cron_task_new (sample_task 5) 0) 0 0 = Inr (Some 5000000000)"
    by (simp add: next_wakeup_for_task_def scheduled_cron_task_new_def sample_task_def validate_schedule_def from_secs_f64_def
        round_half_even_def nanos_per_sec_def add_instant_def checked_add_instant_def instant_limit_def Let_def)
  then have run: "next_wakeup (sample_cron_env 5) [(''t'', scheduled_cron_task_new (sample_task 5) 0)] 0 0 =
      Inr (Some \<lparr>wk_at = 5000000000, wk_task_ids = [''t'']\<rparr>)"
    by (simp add: next_wakeup_def hash_values_def Let_def) (simp add: scheduled_cron_task_new_def sample_task_def)
  with next_wakeup_exact [OF run] show ?thesis by simp
qed

text \<open>
  C18. What the scheduler keeps survives a restart: after every successful run whose updates carry
  valid schedules, loading the file it has written gives the same tasks with the same failure
  counts and last results, and run numbers go on where they were.
\<close>

theorem restart_restores_tasks:
  assumes "state_codec_ok env" and "list_all (valid_input env) inputs"
    and "cron_service_run env inputs s = (Inr b, t)"
    and "cr_file u = cr_file t" and "load_tasks env now u = (Inr (), v)"
  shows "(\<forall>i. map_option persisted_task (hash_get i (cr_tasks v)) = map_option persisted_task (hash_get i (cr_tasks t))) \<and>
         cr_next_run_id v = max (cr_next_run_id t) 1"
proof -
  have "durable env t"
    using leadsD [OF service_run_ok [OF assms(1,2)] TrueI assms(3)] by (simp add: cron_ok_def)
  from load_same_view [OF this assms(4,5)] have "memory_view v = memory_view t" .
  then show ?thesis
    using load_next_run_id [OF assms(5)] by (auto simp: memory_view_def max_def fun_eq_iff split: if_splits)
qed

theorem restart_restores_tasks_witness:
  "\<exists>t v. cron_service_run (sample_cron_env 5) [Inbox sample_register] sample_cron_state = (Inr True, t) \<and>
     load_tasks (sample_cron_env 5) 0 t = (Inr (), v) \<and>
     map_option persisted_task (hash_get ''t'' (cr_tasks v)) = map_option persisted_task (hash_get ''t'' (cr_tasks t))"
proof -
  obtain t where t: "cron_service_run (sample_cron_env 5) [Inbox sample_register] sample_cron_state = (Inr True, t)"
    "cr_file t = Some ''x''"
    using sample_service_run [of 5] by auto
  obtain v where v: "load_tasks (sample_cron_env 5) 0 t = (Inr (), v)" using sample_cron_load [OF t(2)] by blast
  have "list_all (valid_input (sample_cron_env 5)) [Inbox sample_register]"
    by (simp add: valid_input_def sample_env_simps)
  from restart_restores_tasks [OF sample_codec_ok this t(1) refl v] show ?thesis using t v by blast
qed

text \<open>The interval has no upper limit: any positive one passes where the manual schedule does.\<close>

lemma interval_as_valid_as_manual:
  assumes "validate_task_registration env (task\<lparr>ct_schedule := Manual\<rparr>) source = Inr ()"
    and "ct_schedule task = IntervalSeconds (Finite r)" and "0 < r"
  shows "validate_task_registration env task source = Inr ()"
  using assms
  by (cases "local_channel_id (ct_channel_addr task)")
    (simp_all add: validate_task_registration_def validate_schedule_def split: if_splits)

text \<open>
  C20. A valid registration can stop the scheduler for good. Take a registration of an enabled task
  that is valid with the manual schedule: with an interval of \<open>2 ^ 64\<close> seconds or more it is
  valid, too. Once the scheduler has handled it without an error, the task is stored, the service
  panics before it takes its next input, whatever that is, and it panics again at the first
  iteration after every restart that loads the file.
\<close>

theorem huge_interval_stops_scheduler:
  assumes "state_codec_ok env"
    and "decode_cron_request (ce_codec env) (sc_payload call) = Inr (RegisterTask task)"
    and "validate_task_registration env (task\<lparr>ct_registered_by := sc_source call, ct_schedule := Manual\<rparr>)
           (sc_source call) = Inr ()"
    and "ct_enabled task" and "ct_schedule task = IntervalSeconds (Finite r)" and "2 ^ 64 \<le> r"
    and "cron_sound s" and "cron_iteration env (Inbox call) s = (Inr b, t)"
  shows "validate_task_registration env (task\<lparr>ct_registered_by := sc_source call\<rparr>) (sc_source call) = Inr () \<and>
         has_task (ct_task_id task) (task\<lparr>ct_registered_by := sc_source call\<rparr>) t \<and>
         fst (cron_iteration env input t) = Inl Thread_panic \<and>
         (\<forall>u v now. cr_file u = cr_file t \<longrightarrow> load_tasks env now u = (Inr (), v) \<longrightarrow>
            fst (cron_iteration env input v) = Inl Thread_panic)"
proof -
  let ?r = "task\<lparr>ct_registered_by := sc_source call\<rparr>"
  have "0 < r" using assms(6) by (rule less_le_trans [rotated]) simp
  then have valid: "validate_task_registration env ?r (sc_source call) = Inr ()"
    using interval_as_valid_as_manual [of env ?r "sc_source call" r] assms(3,5) by simp
  have panic: "fst (cron_iteration env input v) = Inl Thread_panic" if "has_task (ct_task_id task) ?r v" for v
    using that assms(4-6) by (auto simp: has_task_def intro: iteration_panics)
  have handle: "handle_cron_call env call = handle_register_task env call task"
    using assms(2) by (simp add: handle_cron_call_def)
  have sound: "leads cron_sound (cron_iteration env (Inbox call)) (cron_ok env)"
    unfolding handle [symmetric]
    by (rule iteration_inbox) (auto simp: handle cron_sound_def run_ids_def intro!: ok_register_accepted assms valid)
  have task: "leads (\<lambda>_. True) (cron_iteration env (Inbox call)) (has_task (ct_task_id task) ?r)"
    by (rule iteration_inbox) (auto simp: handle intro!: register_keeps_task assms valid)
  have now: "has_task (ct_task_id task) ?r t" by (rule leadsD [OF task TrueI assms(8)])
  have durable: "durable env t" using leadsD [OF sound assms(7,8)] by (simp add: cron_ok_def)
  have later: "has_task (ct_task_id task) ?r v" if "cr_file u = cr_file t" "load_tasks env n u = (Inr (), v)" for u v n
  proof -
    have "map_option persisted_task (hash_get (ct_task_id task) (cr_tasks v)) =
        map_option persisted_task (hash_get (ct_task_id task) (cr_tasks t))"
      using load_same_view [OF durable that] by (simp add: memory_view_def fun_eq_iff)
    then show ?thesis using now by (auto simp: has_task_def persisted_task_def)
  qed
  show ?thesis using valid panic now later by blast
qed

theorem huge_interval_stops_scheduler_witness:
  "\<exists>t. cron_iteration (sample_cron_env (2 ^ 64)) (Inbox sample_register) sample_cron_state = (Inr True, t) \<and>
     fst (cron_iteration (sample_cron_env (2 ^ 64)) Timer t) = Inl Thread_panic"
proof -
  obtain t where t: "cron_iteration (sample_cron_env (2 ^ 64)) (Inbox sample_register) sample_cron_state = (Inr True, t)"
    using sample_run [of "2 ^ 64"] by auto
  have "ct_enabled (sample_task (2 ^ 64))" "ct_schedule (sample_task (2 ^ 64)) = IntervalSeconds (Finite (2 ^ 64))"
    by (simp_all add: sample_task_def)
  from huge_interval_stops_scheduler [OF sample_codec_ok _ sample_valid_manual this order_refl sample_sound t]
  have "fst (cron_iteration (sample_cron_env (2 ^ 64)) Timer t) = Inl Thread_panic" by (simp add: sample_env_simps)
  then show ?thesis using t by blast
qed

end
