(* ===== verification/Conversation_Kernel.thy ===== *)
theory Conversation_Kernel
  imports Service_Protos Hash_Map Runtime_Metadata
begin

text \<open>
  Model of \<open>stellaclaw/src/conversation_new.rs\<close>, the kernel of a conversation: the table of
  mounted services, the routing of their calls, the requests to the kernel itself, and the three
  files it keeps. The service threads run beside the kernel; what they send arrives as
  \<open>service_output\<close>, what the kernel sends is recorded in the inbox of the handle. The file system,
  thread creation, inboxes that may be closed, joins and the derived serde code are \<open>kernel_env\<close>;
  every question to it carries a running number.
\<close>

section \<open>Services\<close>

datatype service_kind =
    Channel_kind
  | AgentSession_kind agent_session_kind agent_session_binding
  | Cron_kind
  | Memory_kind
  | Skill_kind
  | ToolBinary_kind
  | Workspace_kind
  | Terminal_kind
  | Control_kind
  | Noop_kind string

text \<open>The service object that runs in the thread, by the arguments it is built with.\<close>

datatype conversation_service =
    Channel_service "service_addr option"
  | AgentSession_service agent_session_kind agent_session_binding agent_session_launch_config
  | Cron_service
  | Memory_service
  | Skill_service
  | ToolBinary_service sandbox_config
  | Workspace_service conversation_runtime_config
  | Terminal_service conversation_runtime_config
  | Control_service
  | Noop_service string

record service_handle =
  sh_addr :: service_addr
  sh_kind :: service_kind
  sh_storage :: string
  sh_service :: conversation_service
  sh_inbox :: "service_call list"

record service_manifest_entry =
  me_addr :: service_addr
  me_kind :: service_kind
  me_storage :: string

record service_manifest =
  mf_version :: nat
  mf_services :: "service_manifest_entry list"
  mf_next_background_id :: nat
  mf_next_subagent_id :: nat

record conversation_ref =
  cv_conversation_id :: string
  cv_workdir :: string
  cv_conversation_root :: string

section \<open>State and environment\<close>

text \<open>
  A file operation may fail; a write that fails may have truncated the file and written a first
  part of the content. A join returns when the thread has ended, with or without a panic, or never.
\<close>

datatype fs_answer = Fs_ok | Fs_error string "nat option"

datatype join_answer = Joined | Join_panicked | Join_waits_forever

record kernel_env =
  ke_codec :: codec
  ke_fs :: "nat \<Rightarrow> fs_answer"
  ke_spawn_error :: "nat \<Rightarrow> string option"
  ke_inbox_closed :: "nat \<Rightarrow> bool"
  ke_join :: "nat \<Rightarrow> join_answer"
  ke_encode_manifest :: "service_manifest \<Rightarrow> string + string"
  ke_decode_manifest :: "string \<Rightarrow> string + service_manifest"
  ke_encode_runtime_config :: "conversation_runtime_config \<Rightarrow> string + string"
  ke_decode_runtime_config :: "string \<Rightarrow> string + conversation_runtime_config"
  ke_encode_metadata :: "conversation_metadata \<Rightarrow> string + string"
  ke_decode_metadata :: "string \<Rightarrow> string + conversation_metadata"
  ke_stack_depth :: nat

record kernel_state =
  ks_conversation :: conversation_ref
  ks_refs :: "service_addr list"
  ks_metadata :: conversation_metadata
  ks_runtime_config :: conversation_runtime_config
  ks_services :: "(service_addr, service_handle) hash_map"
  ks_status_log :: "service_status_update list"
  ks_spawn_log :: "service_manifest_entry list"
  ks_next_background_id :: nat
  ks_next_subagent_id :: nat
  ks_stop_signals :: "(service_addr \<times> string) list"
  ks_manifest_file :: "string option"
  ks_runtime_config_file :: "string option"
  ks_metadata_file :: "string option"
  ks_io :: nat

type_synonym 'a kernel = "(kernel_state, service_error, 'a) act"

definition kask :: "(nat \<Rightarrow> 'a) \<Rightarrow> 'a kernel" where
  "kask f = (\<lambda>s. (Inr (f (ks_io s)), s\<lparr>ks_io := Suc (ks_io s)\<rparr>))"

text \<open>A \<open>match\<close> on a result; only an \<open>anyhow\<close> error is a value.\<close>

definition catching :: "'a kernel \<Rightarrow> (string list + 'a) kernel" where
  "catching m = (\<lambda>s. case m s of
       (Inl (Anyhow e), t) \<Rightarrow> (Inr (Inl e), t)
     | (Inl e, t) \<Rightarrow> (Inl e, t)
     | (Inr x, t) \<Rightarrow> (Inr (Inr x), t))"

text \<open>\<open>bail\<close> is \<open>Err(anyhow!(...))\<close>.\<close>

definition bail :: "string \<Rightarrow> 'a kernel" where
  "bail message = errM (Anyhow [message])"

section \<open>Runtime configuration\<close>

definition for_conversation :: conversation_runtime_config where
  "for_conversation =
     \<lparr>rc_agent_server_path = None, rc_session_profile = None, rc_models = [],
      rc_session_defaults = session_defaults_default, rc_memory_enabled = False,
      rc_tool_remote_mode = Selectable, rc_sandbox = None, rc_reasoning_effort = None\<rparr>"

definition session_defaults_has_values :: "session_defaults \<Rightarrow> bool" where
  "session_defaults_has_values d \<longleftrightarrow>
     sd_compression_threshold_tokens d \<noteq> None \<or> sd_compression_retain_recent_tokens d \<noteq> None \<or>
     sd_image_tool_model d \<noteq> None \<or> sd_pdf_tool_model d \<noteq> None \<or> sd_audio_tool_model d \<noteq> None \<or>
     sd_image_generation_tool_model d \<noteq> None \<or> sd_search_tool_model d \<noteq> None \<or>
     sd_search_image_tool_model d \<noteq> None \<or> sd_search_video_tool_model d \<noteq> None \<or>
     sd_search_news_tool_model d \<noteq> None"

text \<open>The flag \<open>changed\<close> and the configuration are threaded through the blocks of the function.\<close>

type_synonym merge_state = "bool \<times> conversation_runtime_config"

definition merge_block :: "bool \<Rightarrow> (conversation_runtime_config \<Rightarrow> conversation_runtime_config) \<Rightarrow> merge_state \<Rightarrow> merge_state" where
  "merge_block b f m = (if b then (True, f (snd m)) else m)"

definition merge_model :: "string \<times> model_config \<Rightarrow> merge_state \<Rightarrow> merge_state" where
  "merge_model entry m =
     (case entry of (name, model) \<Rightarrow>
        merge_block (btree_get name (rc_models (snd m)) \<noteq> Some model)
          (\<lambda>c. c\<lparr>rc_models := btree_insert name model (rc_models c)\<rparr>) m)"

definition merge_models :: "conversation_runtime_config \<Rightarrow> merge_state \<Rightarrow> merge_state" where
  "merge_models defaults m =
     (if rc_models (snd m) = [] \<and> rc_models defaults \<noteq> [] then
        (True, (snd m)\<lparr>rc_models := rc_models defaults\<rparr>)
      else if rc_models (snd m) \<noteq> [] \<and> rc_models defaults \<noteq> [] then
        fold merge_model (rc_models defaults) m
      else m)"

definition merge_host_defaults :: "conversation_runtime_config \<Rightarrow> conversation_runtime_config \<Rightarrow> merge_state" where
  "merge_host_defaults config defaults =
     (let m0 = (False, config);
          m1 = merge_block (rc_agent_server_path (snd m0) = None \<and> rc_agent_server_path defaults \<noteq> None)
                 (\<lambda>c. c\<lparr>rc_agent_server_path := rc_agent_server_path defaults\<rparr>) m0;
          m2 = merge_models defaults m1;
          m3 = merge_block (\<not> session_defaults_has_values (rc_session_defaults (snd m2)) \<and>
                            session_defaults_has_values (rc_session_defaults defaults))
                 (\<lambda>c. c\<lparr>rc_session_defaults := rc_session_defaults defaults\<rparr>) m2;
          m4 = merge_block (\<not> rc_memory_enabled (snd m3) \<and> rc_memory_enabled defaults)
                 (\<lambda>c. c\<lparr>rc_memory_enabled := True\<rparr>) m3
      in merge_block (rc_sandbox (snd m4) = None \<and> rc_sandbox defaults \<noteq> None)
           (\<lambda>c. c\<lparr>rc_sandbox := rc_sandbox defaults\<rparr>) m4)"

section \<open>Paths and files\<close>

definition services_dir :: "kernel_state \<Rightarrow> string" where
  "services_dir s =
     path_join (path_join (cv_workdir (ks_conversation s)) ''services'') (cv_conversation_id (ks_conversation s))"

definition manifest_path :: "kernel_state \<Rightarrow> string" where
  "manifest_path s = path_join (services_dir s) ''manifest.json''"

definition runtime_config_path :: "kernel_state \<Rightarrow> string" where
  "runtime_config_path s = path_join (services_dir s) ''runtime_config.json''"

definition metadata_path :: "kernel_state \<Rightarrow> string" where
  "metadata_path s = path_join (services_dir s) ''conversation_metadata.json''"

definition service_storage :: "service_addr \<Rightarrow> kernel_state \<Rightarrow> string" where
  "service_storage addr s = path_join (services_dir s) (storage_component addr)"

definition fs_do :: "kernel_env \<Rightarrow> string \<Rightarrow> unit kernel" where
  "fs_do env what =
     bnd (kask (ke_fs env)) (\<lambda>r. case r of Fs_ok \<Rightarrow> okM () | Fs_error e _ \<Rightarrow> errM (Anyhow [what, e]))"

text \<open>A write of \<open>content\<close>; \<open>put\<close> stores what the file then holds.\<close>

definition fs_put :: "kernel_env \<Rightarrow> string \<Rightarrow> (string \<Rightarrow> kernel_state \<Rightarrow> kernel_state) \<Rightarrow> string \<Rightarrow> unit kernel" where
  "fs_put env what put content =
     bnd (kask (ke_fs env)) (\<lambda>r. case r of
         Fs_ok \<Rightarrow> upd (put content)
       | Fs_error e None \<Rightarrow> errM (Anyhow [what, e])
       | Fs_error e (Some written) \<Rightarrow> andthen (upd (put (take written content))) (errM (Anyhow [what, e])))"

definition fs_context :: "string \<Rightarrow> string + 'a \<Rightarrow> 'a kernel" where
  "fs_context what r = from_result (map_err (\<lambda>e. Anyhow [what, e]) r)"

definition persist_file ::
  "kernel_env \<Rightarrow> string \<Rightarrow> string \<Rightarrow> (string \<Rightarrow> kernel_state \<Rightarrow> kernel_state) \<Rightarrow> string + string \<Rightarrow> unit kernel" where
  "persist_file env path failure put encoding =
     gets (\<lambda>s.
       andthen (fs_do env (''failed to create '' @ services_dir s))
         (bnd (fs_context failure encoding) (fs_put env (''failed to write '' @ path) put)))"

definition load_file :: "kernel_env \<Rightarrow> string \<Rightarrow> (string \<Rightarrow> string + 'a) \<Rightarrow> string \<Rightarrow> 'a kernel" where
  "load_file env path decode content =
     andthen (fs_do env (''failed to read '' @ path)) (fs_context (''failed to parse '' @ path) (decode content))"

definition manifest_entry :: "service_handle \<Rightarrow> service_manifest_entry" where
  "manifest_entry handle = \<lparr>me_addr = sh_addr handle, me_kind = sh_kind handle, me_storage = sh_storage handle\<rparr>"

definition current_manifest :: "kernel_state \<Rightarrow> service_manifest" where
  "current_manifest s =
     \<lparr>mf_version = 1,
      mf_services = sort_key (\<lambda>entry. addr_to_string (me_addr entry)) (map manifest_entry (hash_values (ks_services s))),
      mf_next_background_id = ks_next_background_id s, mf_next_subagent_id = ks_next_subagent_id s\<rparr>"

definition persist_manifest :: "kernel_env \<Rightarrow> unit kernel" where
  "persist_manifest env =
     gets (\<lambda>s. persist_file env (manifest_path s) ''failed to encode service manifest''
       (\<lambda>content s. s\<lparr>ks_manifest_file := Some content\<rparr>) (ke_encode_manifest env (current_manifest s)))"

definition persist_runtime_config :: "kernel_env \<Rightarrow> unit kernel" where
  "persist_runtime_config env =
     gets (\<lambda>s. persist_file env (runtime_config_path s) ''failed to encode runtime config''
       (\<lambda>content s. s\<lparr>ks_runtime_config_file := Some content\<rparr>) (ke_encode_runtime_config env (ks_runtime_config s)))"

definition persist_metadata :: "kernel_env \<Rightarrow> unit kernel" where
  "persist_metadata env =
     gets (\<lambda>s. persist_file env (metadata_path s) ''failed to encode conversation metadata''
       (\<lambda>content s. s\<lparr>ks_metadata_file := Some content\<rparr>) (ke_encode_metadata env (ks_metadata s)))"

definition load_manifest :: "kernel_env \<Rightarrow> string \<Rightarrow> service_manifest kernel" where
  "load_manifest env content = gets (\<lambda>s. load_file env (manifest_path s) (ke_decode_manifest env) content)"

definition load_runtime_config :: "kernel_env \<Rightarrow> string \<Rightarrow> conversation_runtime_config kernel" where
  "load_runtime_config env content = gets (\<lambda>s. load_file env (runtime_config_path s) (ke_decode_runtime_config env) content)"

definition load_metadata :: "kernel_env \<Rightarrow> string \<Rightarrow> conversation_metadata kernel" where
  "load_metadata env content = gets (\<lambda>s. load_file env (metadata_path s) (ke_decode_metadata env) content)"

section \<open>Mounting\<close>

definition has_service :: "service_addr \<Rightarrow> kernel_state \<Rightarrow> bool" where
  "has_service addr s \<longleftrightarrow> hash_get addr (ks_services s) \<noteq> None"

definition service_addrs :: "kernel_state \<Rightarrow> service_addr list" where
  "service_addrs s = sort_key addr_to_string (hash_keys (ks_services s))"

definition agent_workspace_root :: "kernel_state \<Rightarrow> string" where
  "agent_workspace_root s =
     (case rc_tool_remote_mode (ks_runtime_config s) of
        Selectable \<Rightarrow> cv_conversation_root (ks_conversation s)
      | FixedSsh _ _ \<Rightarrow> cv_conversation_root (ks_conversation s))"

definition agent_session_launch_config_of :: "service_addr \<Rightarrow> kernel_state \<Rightarrow> agent_session_launch_config" where
  "agent_session_launch_config_of addr s =
     (let config = ks_runtime_config s
      in \<lparr>lc_session_id = storage_component addr, lc_conversation_root = cv_conversation_root (ks_conversation s),
          lc_workspace_root = agent_workspace_root s, lc_agent_server_path = rc_agent_server_path config,
          lc_session_profile = rc_session_profile config, lc_models = rc_models config,
          lc_session_defaults = rc_session_defaults config, lc_memory_enabled = rc_memory_enabled config,
          lc_tool_remote_mode = rc_tool_remote_mode config, lc_sandbox = rc_sandbox config,
          lc_reasoning_effort = rc_reasoning_effort config\<rparr>)"

definition build_service :: "service_addr \<Rightarrow> service_kind \<Rightarrow> kernel_state \<Rightarrow> conversation_service" where
  "build_service addr kind s =
     (case kind of
        Channel_kind \<Rightarrow> Channel_service (if addr \<in> set (ks_refs s) then Some addr else None)
      | AgentSession_kind k binding \<Rightarrow> AgentSession_service k binding (agent_session_launch_config_of addr s)
      | Cron_kind \<Rightarrow> Cron_service
      | Memory_kind \<Rightarrow> Memory_service
      | Skill_kind \<Rightarrow> Skill_service
      | ToolBinary_kind \<Rightarrow> ToolBinary_service (unwrap_or sandbox_config_default (rc_sandbox (ks_runtime_config s)))
      | Workspace_kind \<Rightarrow> Workspace_service (ks_runtime_config s)
      | Terminal_kind \<Rightarrow> Terminal_service (ks_runtime_config s)
      | Control_kind \<Rightarrow> Control_service
      | Noop_kind name \<Rightarrow> Noop_service name)"

definition default_session_nickname :: "service_addr \<Rightarrow> string" where
  "default_session_nickname addr =
     (case ad_path addr of
        [kind, _, i] \<Rightarrow> if kind = ''agent'' then i else addr_to_string addr
      | _ \<Rightarrow> addr_to_string addr)"

definition ensure_agent_session_nickname :: "kernel_env \<Rightarrow> service_addr \<Rightarrow> service_kind \<Rightarrow> unit kernel" where
  "ensure_agent_session_nickname env addr kind =
     (case kind of
        AgentSession_kind _ _ \<Rightarrow>
          gets (\<lambda>s.
            if btree_contains (storage_component addr) (md_session_nicknames (ks_metadata s)) then okM ()
            else andthen (upd (\<lambda>s. s\<lparr>ks_metadata := (ks_metadata s)\<lparr>md_session_nicknames :=
                     btree_insert (storage_component addr) (default_session_nickname addr)
                       (md_session_nicknames (ks_metadata s))\<rparr>\<rparr>))
                   (persist_metadata env))
      | _ \<Rightarrow> okM ())"

definition insert_handle ::
  "service_addr \<Rightarrow> service_kind \<Rightarrow> conversation_service \<Rightarrow> kernel_state \<Rightarrow> kernel_state" where
  "insert_handle addr kind service s =
     s\<lparr>ks_spawn_log := ks_spawn_log s @ [\<lparr>me_addr = addr, me_kind = kind, me_storage = service_storage addr s\<rparr>],
       ks_services := hash_insert addr
         \<lparr>sh_addr = addr, sh_kind = kind, sh_storage = service_storage addr s, sh_service = service, sh_inbox = []\<rparr>
         (ks_services s)\<rparr>"

definition mount_service_instance ::
  "kernel_env \<Rightarrow> service_addr \<Rightarrow> service_kind \<Rightarrow> conversation_service \<Rightarrow> unit kernel" where
  "mount_service_instance env addr kind service =
     (if is_kernel addr then bail ''kernel is a reserved address''
      else gets (\<lambda>s.
        if has_service addr s then bail (''service already mounted at '' @ addr_to_string addr)
        else andthen (ensure_agent_session_nickname env addr kind)
          (andthen (gets (\<lambda>s. fs_do env (''failed to create service storage '' @ service_storage addr s)))
            (bnd (kask (ke_spawn_error env)) (\<lambda>r. case r of
                Some e \<Rightarrow> errM (Anyhow [''failed to spawn conversation service'', e])
              | None \<Rightarrow> andthen (upd (insert_handle addr kind service)) (persist_manifest env))))))"

definition mount_service :: "kernel_env \<Rightarrow> service_addr \<Rightarrow> service_kind \<Rightarrow> unit kernel" where
  "mount_service env addr kind = gets (\<lambda>s. mount_service_instance env addr kind (build_service addr kind s))"

definition standard_services :: "(service_addr \<times> service_kind) list" where
  "standard_services =
     [(channel_id ''main'', Channel_kind),
      (agent_foreground_id ''main'',
         AgentSession_kind Foreground_session \<lparr>ab_event_sink = channel_id ''main'', ab_parent_addr = None\<rparr>),
      (cron_addr, Cron_kind), (memory_addr, Memory_kind), (skill_addr, Skill_kind),
      (tool_binary_addr, ToolBinary_kind), (workspace_addr, Workspace_kind), (terminal_addr, Terminal_kind)]"

definition mount_standard_services :: "kernel_env \<Rightarrow> unit kernel" where
  "mount_standard_services env =
     for_each (\<lambda>(addr, kind). gets (\<lambda>s. if has_service addr s then okM () else mount_service env addr kind))
       standard_services"

section \<open>Requests to the kernel\<close>

text \<open>
  The routing of a call and the handling of a kernel request call each other; the operations below
  take the routing function as an argument.
\<close>

type_synonym dispatcher = "service_call \<Rightarrow> unit kernel"

definition respond :: "kernel_env \<Rightarrow> dispatcher \<Rightarrow> service_addr \<Rightarrow> string option \<Rightarrow> kernel_response \<Rightarrow> unit kernel" where
  "respond env dispatch target response_id response =
     bnd (encoded (encode_kernel_response (ke_codec env) response))
       (\<lambda>payload. dispatch (response_to kernel_addr target payload response_id))"

definition reply_kernel_error ::
  "kernel_env \<Rightarrow> dispatcher \<Rightarrow> service_addr \<Rightarrow> string \<Rightarrow> string \<Rightarrow> string option \<Rightarrow> unit kernel" where
  "reply_kernel_error env dispatch target code message response_id =
     respond env dispatch target response_id (Kernel_error code message)"

definition join_service :: "kernel_env \<Rightarrow> service_handle \<Rightarrow> unit kernel" where
  "join_service env handle =
     bnd (kask (ke_join env)) (\<lambda>r. case r of
         Joined \<Rightarrow> okM ()
       | Join_panicked \<Rightarrow> bail (''service '' @ addr_to_string (sh_addr handle) @ '' panicked'')
       | Join_waits_forever \<Rightarrow> errM Blocked)"

definition stop_service_internal :: "kernel_env \<Rightarrow> dispatcher \<Rightarrow> service_addr \<Rightarrow> string \<Rightarrow> bool \<Rightarrow> unit kernel" where
  "stop_service_internal env dispatch addr reason persist =
     gets (\<lambda>s.
       andthen
         (when_act (persist \<and> local_service_id ''agent'' addr \<noteq> None \<and> has_service cron_addr s)
           (bnd (encoded (disable_tasks_for_owner_call (ke_codec env) kernel_addr cron_addr addr reason)) dispatch))
         (gets (\<lambda>s. case hash_get addr (ks_services s) of
            None \<Rightarrow> okM ()
          | Some handle \<Rightarrow>
              andthen (upd (\<lambda>s. s\<lparr>ks_services := hash_remove addr (ks_services s),
                                 ks_stop_signals := ks_stop_signals s @ [(addr, reason)]\<rparr>))
                (andthen (join_service env handle) (when_act persist (persist_manifest env))))))"

definition stop_service :: "kernel_env \<Rightarrow> dispatcher \<Rightarrow> service_addr \<Rightarrow> string \<Rightarrow> unit kernel" where
  "stop_service env dispatch addr reason = stop_service_internal env dispatch addr reason True"

definition apply_runtime_config_patch ::
  "kernel_runtime_config_patch \<Rightarrow> conversation_runtime_config \<Rightarrow> conversation_runtime_config" where
  "apply_runtime_config_patch patch config =
     set_some (\<lambda>v c. c\<lparr>rc_reasoning_effort := v\<rparr>) (kp_reasoning_effort patch)
      (set_some (\<lambda>v c. c\<lparr>rc_sandbox := v\<rparr>) (kp_sandbox patch)
        (set_some (\<lambda>v c. c\<lparr>rc_tool_remote_mode := v\<rparr>) (kp_tool_remote_mode patch)
          (set_some (\<lambda>v c. c\<lparr>rc_memory_enabled := v\<rparr>) (kp_memory_enabled patch)
            (set_some (\<lambda>v c. c\<lparr>rc_session_defaults := v\<rparr>) (kp_session_defaults patch)
              (set_some (\<lambda>v c. c\<lparr>rc_models := v\<rparr>) (kp_models patch)
                (set_some (\<lambda>v c. c\<lparr>rc_session_profile := v\<rparr>) (kp_session_profile patch)
                  (set_some (\<lambda>v c. c\<lparr>rc_agent_server_path := v\<rparr>) (kp_agent_server_path patch) config)))))))"

definition patch_session_nickname ::
  "string \<times> string option \<Rightarrow> (string, string) btree_map \<Rightarrow> (string, string) btree_map" where
  "patch_session_nickname entry names =
     (case entry of (session_id, nickname) \<Rightarrow>
        (case nickname of
           Some nickname \<Rightarrow>
             if trim nickname = [] then btree_remove session_id names
             else btree_insert session_id (trim nickname) names
         | None \<Rightarrow> btree_remove session_id names))"

definition apply_metadata_patch :: "kernel_metadata_patch \<Rightarrow> conversation_metadata \<Rightarrow> conversation_metadata" where
  "apply_metadata_patch patch metadata =
     (let named = set_some (\<lambda>v m. m\<lparr>md_nickname := if trim v = [] then md_conversation_id m else trim v\<rparr>)
                    (kmp_conversation_nickname patch) metadata;
          pending = set_some (\<lambda>v m. m\<lparr>md_model_selection_pending := v\<rparr>) (kmp_model_selection_pending patch) named
      in pending\<lparr>md_session_nicknames := fold patch_session_nickname (kmp_session_nicknames patch) (md_session_nicknames pending)\<rparr>)"

text \<open>The call that carries the new configuration to a service, for the kinds that take it.\<close>

definition runtime_config_call :: "kernel_env \<Rightarrow> service_addr \<Rightarrow> service_kind \<Rightarrow> kernel_state \<Rightarrow> (string + service_call) option" where
  "runtime_config_call env addr kind s =
     (case kind of
        AgentSession_kind _ _ \<Rightarrow>
          Some (update_launch_config_call (ke_codec env) kernel_addr addr (agent_session_launch_config_of addr s))
      | Workspace_kind \<Rightarrow> Some (workspace_runtime_config_call (ke_codec env) kernel_addr addr (ks_runtime_config s))
      | Terminal_kind \<Rightarrow> Some (terminal_runtime_config_call (ke_codec env) kernel_addr addr (ks_runtime_config s))
      | _ \<Rightarrow> None)"

definition takes_runtime_config :: "service_kind \<Rightarrow> bool" where
  "takes_runtime_config kind =
     (case kind of AgentSession_kind _ _ \<Rightarrow> True | Workspace_kind \<Rightarrow> True | Terminal_kind \<Rightarrow> True | _ \<Rightarrow> False)"

definition send_runtime_config :: "kernel_env \<Rightarrow> dispatcher \<Rightarrow> service_addr \<times> service_kind \<Rightarrow> unit kernel" where
  "send_runtime_config env dispatch target =
     (case target of (addr, kind) \<Rightarrow>
        gets (\<lambda>s. case runtime_config_call env addr kind s of
            None \<Rightarrow> okM ()
          | Some call \<Rightarrow> bnd (encoded call) dispatch))"

definition runtime_config_targets :: "kernel_state \<Rightarrow> (service_addr \<times> service_kind) list" where
  "runtime_config_targets s =
     filter (\<lambda>(addr, kind). takes_runtime_config kind) (map (\<lambda>(addr, handle). (addr, sh_kind handle)) (ks_services s))"

definition broadcast_runtime_config_to_services :: "kernel_env \<Rightarrow> dispatcher \<Rightarrow> service_addr list kernel" where
  "broadcast_runtime_config_to_services env dispatch =
     gets (\<lambda>s. let targets = runtime_config_targets s
       in andthen (for_each (send_runtime_config env dispatch) targets) (okM (map fst targets)))"

section \<open>Agent sessions\<close>

definition agent_session_binding_of :: "service_addr \<Rightarrow> kernel_state \<Rightarrow> agent_session_binding option" where
  "agent_session_binding_of addr s =
     (case hash_get addr (ks_services s) of
        None \<Rightarrow> None
      | Some handle \<Rightarrow> (case sh_kind handle of AgentSession_kind _ binding \<Rightarrow> Some binding | _ \<Rightarrow> None))"

text \<open>A binding for a session whose parent has to be its creator.\<close>

definition child_binding ::
  "service_addr \<Rightarrow> agent_session_binding \<Rightarrow> agent_session_binding option \<Rightarrow> string \<Rightarrow> string + agent_session_binding" where
  "child_binding source parent_binding requested mismatch =
     (let binding = unwrap_or \<lparr>ab_event_sink = ab_event_sink parent_binding, ab_parent_addr = Some source\<rparr> requested
      in if ab_parent_addr binding \<noteq> Some source then Inl mismatch else Inr binding)"

definition resolve_agent_session_binding ::
  "service_addr \<Rightarrow> agent_session_kind \<Rightarrow> agent_session_binding option \<Rightarrow> kernel_state \<Rightarrow> string + agent_session_binding" where
  "resolve_agent_session_binding source kind requested s =
     (case kind of
        Foreground_session \<Rightarrow>
          if local_service_id ''channel'' source = None then Inl ''foreground sessions must be created by a channel''
          else
            (let binding = unwrap_or \<lparr>ab_event_sink = source, ab_parent_addr = None\<rparr> requested
             in if ab_event_sink binding \<noteq> source then Inl ''foreground event sink must match creator channel''
                else if ab_parent_addr binding \<noteq> None then Inl ''foreground sessions cannot have a parent session''
                else Inr binding)
      | Background_session \<Rightarrow>
          if source = cron_addr then
            (case requested of None \<Rightarrow> Inl ''background sessions require explicit binding'' | Some binding \<Rightarrow> Inr binding)
          else
            (case agent_session_binding_of source s of
               None \<Rightarrow> Inl ''background sessions must be created by cron or an agent session''
             | Some parent_binding \<Rightarrow> child_binding source parent_binding requested ''background parent must match creator'')
      | Subagent_session \<Rightarrow>
          (case agent_session_binding_of source s of
             None \<Rightarrow> Inl ''subagents must be created by an agent session''
           | Some parent_binding \<Rightarrow> child_binding source parent_binding requested ''subagent parent must match creator''))"

definition new_session_addr :: "service_addr \<Rightarrow> agent_session_kind \<Rightarrow> string option \<Rightarrow> service_addr kernel" where
  "new_session_addr source kind i =
     (case kind of
        Foreground_session \<Rightarrow>
          okM (agent_foreground_id (unwrap_or ''main'' (or_else i (local_service_id ''channel'' source))))
      | Background_session \<Rightarrow>
          (case i of
             Some i \<Rightarrow> okM (agent_background i)
           | None \<Rightarrow> gets (\<lambda>s.
               andthen (upd (\<lambda>s. s\<lparr>ks_next_background_id := wrapping_add (ks_next_background_id s) 1\<rparr>))
                 (okM (agent_background (''bg_'' @ show_nat (ks_next_background_id s))))))
      | Subagent_session \<Rightarrow>
          (case i of
             Some i \<Rightarrow> okM (agent_subagent i)
           | None \<Rightarrow> gets (\<lambda>s.
               andthen (upd (\<lambda>s. s\<lparr>ks_next_subagent_id := wrapping_add (ks_next_subagent_id s) 1\<rparr>))
                 (okM (agent_subagent (''sa_'' @ show_nat (ks_next_subagent_id s)))))))"

definition create_agent_session ::
  "kernel_env \<Rightarrow> service_addr \<Rightarrow> agent_session_kind \<Rightarrow> string option \<Rightarrow> agent_session_binding option \<Rightarrow> service_addr kernel" where
  "create_agent_session env source kind i requested =
     gets (\<lambda>s. case resolve_agent_session_binding source kind requested s of
         Inl message \<Rightarrow> bail message
       | Inr binding \<Rightarrow>
           bnd (new_session_addr source kind i) (\<lambda>addr.
             andthen (mount_service env addr (AgentSession_kind kind binding)) (okM addr)))"

section \<open>Routing\<close>

definition handle_create_agent_session ::
  "kernel_env \<Rightarrow> dispatcher \<Rightarrow> service_call \<Rightarrow> agent_session_kind \<Rightarrow> string option \<Rightarrow> agent_session_binding option \<Rightarrow> unit kernel" where
  "handle_create_agent_session env dispatch call kind i binding =
     bnd (catching (create_agent_session env (sc_source call) kind i binding)) (\<lambda>r. case r of
         Inl e \<Rightarrow>
           reply_kernel_error env dispatch (sc_source call) ''permission_denied''
             (''source is not allowed to create this agent session: '' @ hd e) (sc_request_id call)
       | Inr addr \<Rightarrow> respond env dispatch (sc_source call) (sc_request_id call) (AgentSessionCreated addr))"

definition handle_stop_service :: "kernel_env \<Rightarrow> dispatcher \<Rightarrow> service_call \<Rightarrow> service_addr \<Rightarrow> string option \<Rightarrow> unit kernel" where
  "handle_stop_service env dispatch call addr reason =
     gets (\<lambda>s.
       if \<not> has_service addr s then
         respond env dispatch (sc_source call) (sc_request_id call)
           (Kernel_error ''service_not_found'' (''service '' @ addr_to_string addr @ '' is not running''))
       else
         andthen (stop_service env dispatch addr (unwrap_or ''kernel stop request'' reason))
           (respond env dispatch (sc_source call) (sc_request_id call) (ServiceStopped addr)))"

definition handle_update_runtime_config ::
  "kernel_env \<Rightarrow> dispatcher \<Rightarrow> service_call \<Rightarrow> kernel_runtime_config_patch \<Rightarrow> unit kernel" where
  "handle_update_runtime_config env dispatch call patch =
     andthen (upd (\<lambda>s. s\<lparr>ks_runtime_config := apply_runtime_config_patch patch (ks_runtime_config s)\<rparr>))
       (andthen (persist_runtime_config env)
         (bnd (broadcast_runtime_config_to_services env dispatch) (\<lambda>updated_services.
           gets (\<lambda>s. respond env dispatch (sc_source call) (sc_request_id call)
             (RuntimeConfigUpdated (ks_runtime_config s) updated_services)))))"

definition handle_update_metadata ::
  "kernel_env \<Rightarrow> dispatcher \<Rightarrow> service_call \<Rightarrow> kernel_metadata_patch \<Rightarrow> unit kernel" where
  "handle_update_metadata env dispatch call patch =
     andthen (upd (\<lambda>s. s\<lparr>ks_metadata := apply_metadata_patch patch (ks_metadata s)\<rparr>))
       (andthen (persist_metadata env)
         (gets (\<lambda>s. respond env dispatch (sc_source call) (sc_request_id call) (MetadataUpdated (ks_metadata s)))))"

definition handle_kernel_call :: "kernel_env \<Rightarrow> dispatcher \<Rightarrow> service_call \<Rightarrow> unit kernel" where
  "handle_kernel_call env dispatch call =
     (case decode_kernel_request (ke_codec env) (sc_payload call) of
        Inr (CreateAgentSession kind i binding) \<Rightarrow> handle_create_agent_session env dispatch call kind i binding
      | Inr (StopService addr reason) \<Rightarrow> handle_stop_service env dispatch call addr reason
      | Inr QueryRuntimeConfig \<Rightarrow>
          gets (\<lambda>s. respond env dispatch (sc_source call) (sc_request_id call) (RuntimeConfig (ks_runtime_config s)))
      | Inr (UpdateRuntimeConfig patch) \<Rightarrow> handle_update_runtime_config env dispatch call patch
      | Inr QueryMetadata \<Rightarrow>
          gets (\<lambda>s. respond env dispatch (sc_source call) (sc_request_id call) (Metadata (ks_metadata s)))
      | Inr (UpdateMetadata patch) \<Rightarrow> handle_update_metadata env dispatch call patch
      | Inr ListServices \<Rightarrow>
          gets (\<lambda>s. respond env dispatch (sc_source call) (sc_request_id call) (Services (service_addrs s)))
      | Inl error \<Rightarrow>
          reply_kernel_error env dispatch (sc_source call) ''bad_kernel_request''
            (''kernel request was not understood: '' @ error) (sc_request_id call))"

text \<open>\<open>inbox_tx.send\<close> of a mounted service.\<close>

definition deliver :: "kernel_env \<Rightarrow> service_call \<Rightarrow> unit kernel" where
  "deliver env call =
     bnd (kask (ke_inbox_closed env)) (\<lambda>closed.
       if closed then bail ''service inbox closed''
       else upd (\<lambda>s. s\<lparr>ks_services := hash_adjust (sc_target call) (\<lambda>h. h\<lparr>sh_inbox := sh_inbox h @ [call]\<rparr>) (ks_services s)\<rparr>))"

text \<open>The number counts the nested calls for which the stack has room.\<close>

primrec dispatch_call :: "kernel_env \<Rightarrow> nat \<Rightarrow> dispatcher" where
  "dispatch_call env 0 = (\<lambda>call. errM Stack_overflow)"
| "dispatch_call env (Suc n) = (\<lambda>call.
     if is_kernel (sc_target call) then handle_kernel_call env (dispatch_call env n) call
     else gets (\<lambda>s.
       if has_service (sc_target call) s then deliver env call
       else if sc_request_id call \<noteq> None \<and> \<not> is_kernel (sc_source call) \<and> has_service (sc_source call) s then
         respond env (dispatch_call env n) (sc_source call) (sc_request_id call)
           (Kernel_error ''service_not_found'' (''service '' @ addr_to_string (sc_target call) @ '' is not running''))
       else bail (''unknown service target '' @ addr_to_string (sc_target call))))"

section \<open>The kernel thread\<close>

definition stop_all :: "kernel_env \<Rightarrow> string \<Rightarrow> unit kernel" where
  "stop_all env reason =
     gets (\<lambda>s. for_each (\<lambda>addr. stop_service_internal env (dispatch_call env (ke_stack_depth env)) addr reason False)
       (hash_keys (ks_services s)))"

definition stopped_detail :: "string option \<Rightarrow> json" where
  "stopped_detail reason = JObject [(''reason'', opt_json JString reason)]"

definition handle_stopped :: "kernel_env \<Rightarrow> service_addr \<Rightarrow> string option \<Rightarrow> unit kernel" where
  "handle_stopped env addr reason =
     andthen
       (gets (\<lambda>s. case hash_get addr (ks_services s) of
          None \<Rightarrow> okM ()
        | Some handle \<Rightarrow>
            andthen (upd (\<lambda>s. s\<lparr>ks_services := hash_remove addr (ks_services s)\<rparr>))
              (andthen (join_service env handle) (persist_manifest env))))
       (upd (\<lambda>s. s\<lparr>ks_status_log := ks_status_log s @
          [\<lparr>su_addr = addr, su_label = ''stopped'', su_detail = stopped_detail reason\<rparr>]\<rparr>))"

definition handle_output :: "kernel_env \<Rightarrow> service_output \<Rightarrow> unit kernel" where
  "handle_output env output =
     (case output of
        Call call \<Rightarrow> dispatch_call env (ke_stack_depth env) call
      | Status status \<Rightarrow> upd (\<lambda>s. s\<lparr>ks_status_log := ks_status_log s @ [status]\<rparr>)
      | Failed_output addr error \<Rightarrow> bail (''service '' @ addr_to_string addr @ '' failed: '' @ error)
      | Stopped_output addr reason \<Rightarrow> handle_stopped env addr reason)"

definition drain_outputs :: "kernel_env \<Rightarrow> service_output list \<Rightarrow> unit kernel" where
  "drain_outputs env outputs = for_each (handle_output env) outputs"

text \<open>What \<open>select!\<close> finds ready; the result tells whether the loop still runs.\<close>

datatype kernel_event = Shutdown_input string | Input_closed | Output service_output | Output_closed

fun kernel_loop :: "kernel_env \<Rightarrow> kernel_event list \<Rightarrow> bool kernel" where
  "kernel_loop env [] = okM True"
| "kernel_loop env (Shutdown_input reason # _) = andthen (stop_all env reason) (okM False)"
| "kernel_loop env (Input_closed # _) = andthen (stop_all env ''kernel input channel closed'') (okM False)"
| "kernel_loop env (Output_closed # _) = andthen (stop_all env ''service output channel closed'') (okM False)"
| "kernel_loop env (Output output # rest) =
     bnd (catching (handle_output env output)) (\<lambda>r. case r of
         Inr _ \<Rightarrow> kernel_loop env rest
       | Inl e \<Rightarrow>
           bnd (catching (stop_all env (''conversation kernel failed: '' @ join '': '' e))) (\<lambda>_. errM (Anyhow e)))"

definition kernel_drop :: "kernel_env \<Rightarrow> unit kernel" where
  "kernel_drop env = bnd (catching (stop_all env ''conversation kernel dropped'')) (\<lambda>_. okM ())"

text \<open>A method that consumes the kernel; \<open>kept\<close> tells whether the kernel lives on.\<close>

definition dropping :: "kernel_env \<Rightarrow> ('a \<Rightarrow> bool) \<Rightarrow> 'a kernel \<Rightarrow> 'a kernel" where
  "dropping env kept m =
     bnd (catching m) (\<lambda>r. case r of
         Inr x \<Rightarrow> if kept x then okM x else andthen (kernel_drop env) (okM x)
       | Inl e \<Rightarrow> andthen (kernel_drop env) (errM (Anyhow e)))"

definition kernel_run :: "kernel_env \<Rightarrow> kernel_event list \<Rightarrow> bool kernel" where
  "kernel_run env events = dropping env (\<lambda>running. running) (kernel_loop env events)"

section \<open>Opening\<close>

definition kernel_new :: "conversation_ref \<Rightarrow> service_addr list \<Rightarrow> kernel_state \<Rightarrow> kernel_state" where
  "kernel_new conversation refs s =
     s\<lparr>ks_conversation := conversation, ks_refs := refs,
       ks_metadata := conversation_metadata_new (cv_conversation_id conversation) [] [],
       ks_runtime_config := for_conversation, ks_services := [], ks_status_log := [], ks_spawn_log := [],
       ks_next_background_id := 1, ks_next_subagent_id := 1, ks_stop_signals := []\<rparr>"

definition open_metadata :: "kernel_env \<Rightarrow> unit kernel" where
  "open_metadata env =
     gets (\<lambda>s. case ks_metadata_file s of
         Some content \<Rightarrow> bnd (load_metadata env content) (\<lambda>metadata. upd (\<lambda>s. s\<lparr>ks_metadata := metadata\<rparr>))
       | None \<Rightarrow> persist_metadata env)"

definition mount_manifest :: "kernel_env \<Rightarrow> unit kernel" where
  "mount_manifest env =
     gets (\<lambda>s. case ks_manifest_file s of
         None \<Rightarrow> okM ()
       | Some content \<Rightarrow>
           bnd (load_manifest env content) (\<lambda>manifest.
             andthen (upd (\<lambda>s. s\<lparr>ks_next_background_id := max (mf_next_background_id manifest) 1,
                               ks_next_subagent_id := max (mf_next_subagent_id manifest) 1\<rparr>))
               (for_each (\<lambda>entry. mount_service env (me_addr entry) (me_kind entry)) (mf_services manifest))))"

definition kernel_open :: "kernel_env \<Rightarrow> conversation_ref \<Rightarrow> service_addr list \<Rightarrow> unit kernel" where
  "kernel_open env conversation refs =
     dropping env (\<lambda>_. True)
       (andthen (upd (kernel_new conversation refs))
         (andthen (open_metadata env)
           (andthen
             (gets (\<lambda>s. case ks_runtime_config_file s of
                 Some content \<Rightarrow> bnd (load_runtime_config env content) (\<lambda>config. upd (\<lambda>s. s\<lparr>ks_runtime_config := config\<rparr>))
               | None \<Rightarrow> okM ()))
             (mount_manifest env))))"

definition open_runtime_config :: "kernel_env \<Rightarrow> conversation_runtime_config \<Rightarrow> unit kernel" where
  "open_runtime_config env defaults =
     gets (\<lambda>s. case ks_runtime_config_file s of
         Some content \<Rightarrow>
           bnd (load_runtime_config env content) (\<lambda>config.
             (case merge_host_defaults config defaults of (changed, merged) \<Rightarrow>
                andthen (upd (\<lambda>s. s\<lparr>ks_runtime_config := merged\<rparr>)) (when_act changed (persist_runtime_config env))))
       | None \<Rightarrow> andthen (upd (\<lambda>s. s\<lparr>ks_runtime_config := defaults\<rparr>)) (persist_runtime_config env))"

definition open_or_bootstrap ::
  "kernel_env \<Rightarrow> conversation_ref \<Rightarrow> service_addr list \<Rightarrow> conversation_runtime_config \<Rightarrow> unit kernel" where
  "open_or_bootstrap env conversation refs defaults =
     dropping env (\<lambda>_. True)
       (andthen (upd (kernel_new conversation refs))
         (andthen (open_metadata env)
           (andthen (open_runtime_config env defaults)
             (andthen (mount_manifest env) (mount_standard_services env)))))"

end
