(* ===== verification/Kernel_Rules.thy ===== *)
theory Kernel_Rules
  imports Conversation_Kernel Act_Rules
begin

text \<open>
  What every operation of the kernel tolerates. The contract \<open>kernel_frame\<close> collects the
  relations that ignore questions to the environment, the metadata, the runtime configuration and
  their files; \<open>kernel_manifest_frame\<close> those that ignore the manifest file too; and
  \<open>kernel_table_frame\<close> those that tolerate every change the kernel makes to its table.
\<close>

lemma snd_catching [simp]: "snd (catching m s) = snd (m s)"
  by (simp add: catching_def split: prod.split sum.split service_error.split)

section \<open>Frames\<close>

locale kernel_frame = frame_relation R
  for R :: "kernel_state \<Rightarrow> kernel_state \<Rightarrow> bool" +
  assumes R_io: "R s (s\<lparr>ks_io := n\<rparr>)"
    and R_metadata: "R s (s\<lparr>ks_metadata := m\<rparr>)"
    and R_metadata_file: "R s (s\<lparr>ks_metadata_file := f\<rparr>)"
    and R_runtime_config: "R s (s\<lparr>ks_runtime_config := c\<rparr>)"
    and R_runtime_config_file: "R s (s\<lparr>ks_runtime_config_file := f\<rparr>)"
begin

lemma frame_kask [frame]: "steps_in R (kask f)"
  by (simp add: steps_in_def kask_def R_io)

lemma frame_bail [frame]: "steps_in R (bail message)"
  unfolding bail_def by (intro frame)

lemma frame_catching [frame]: "steps_in R m \<Longrightarrow> steps_in R (catching m)"
  by (simp add: steps_in_def)

lemma frame_encoded [frame]: "steps_in R (encoded r)"
  unfolding encoded_def by (intro frame)

lemma frame_fs_context [frame]: "steps_in R (fs_context what r)"
  unfolding fs_context_def by (intro frame)

lemma frame_fs_do [frame]: "steps_in R (fs_do env what)"
  unfolding fs_do_def by (intro frame) (auto intro: frame split: fs_answer.split)

lemma frame_fs_put: "(\<And>s c. R s (put c s)) \<Longrightarrow> steps_in R (fs_put env what put content)"
  unfolding fs_put_def
  by (intro frame) (auto intro!: frame steps_upd split: fs_answer.split option.split)

lemma frame_persist_file: "(\<And>s c. R s (put c s)) \<Longrightarrow> steps_in R (persist_file env path failure put encoding)"
  unfolding persist_file_def by (intro frame frame_fs_put)

lemma frame_persist_metadata [frame]: "steps_in R (persist_metadata env)"
  unfolding persist_metadata_def by (intro steps_gets frame_persist_file R_metadata_file)

lemma frame_persist_runtime_config [frame]: "steps_in R (persist_runtime_config env)"
  unfolding persist_runtime_config_def by (intro steps_gets frame_persist_file R_runtime_config_file)

lemma frame_load_file [frame]: "steps_in R (load_file env path decode content)"
  unfolding load_file_def by (intro frame)

lemma frame_load [frame]:
  "steps_in R (load_manifest env content)"
  "steps_in R (load_runtime_config env content)"
  "steps_in R (load_metadata env content)"
  unfolding load_manifest_def load_runtime_config_def load_metadata_def by (intro frame)+

lemma frame_join_service [frame]: "steps_in R (join_service env handle)"
  unfolding join_service_def by (intro frame) (auto intro: frame split: join_answer.split)

lemma frame_nickname [frame]: "steps_in R (ensure_agent_session_nickname env addr kind)"
  unfolding ensure_agent_session_nickname_def
  by (cases kind) (auto intro!: frame steps_upd R_metadata)

lemma frame_open_metadata [frame]: "steps_in R (open_metadata env)"
  unfolding open_metadata_def
  by (intro frame) (auto intro!: frame steps_upd R_metadata split: option.split)

lemma frame_open_runtime_config [frame]: "steps_in R (open_runtime_config env defaults)"
  unfolding open_runtime_config_def
  by (intro frame) (auto intro!: frame steps_upd R_runtime_config split: option.split prod.split)

lemma frame_respond [frame]: "(\<And>call. steps_in R (d call)) \<Longrightarrow> steps_in R (respond env d target rid response)"
  unfolding respond_def by (intro frame) auto

end

locale kernel_manifest_frame = kernel_frame +
  assumes R_manifest_file: "R s (s\<lparr>ks_manifest_file := f\<rparr>)"
begin

lemma frame_persist_manifest [frame]: "steps_in R (persist_manifest env)"
  unfolding persist_manifest_def by (intro steps_gets frame_persist_file R_manifest_file)

end

text \<open>Relations that tolerate what the kernel writes into its manifest file, if not everything.\<close>

locale kernel_persist_frame = kernel_frame R
  for R :: "kernel_state \<Rightarrow> kernel_state \<Rightarrow> bool" +
  fixes env :: kernel_env
  assumes frame_persist [frame]: "steps_in R (persist_manifest env)"

text \<open>\<open>good\<close> tells which services may be mounted where.\<close>

locale kernel_table_frame = kernel_persist_frame +
  fixes good :: "service_addr \<Rightarrow> service_kind \<Rightarrow> bool"
  assumes R_counters: "R s (s\<lparr>ks_next_background_id := a\<rparr>)" "R s (s\<lparr>ks_next_subagent_id := b\<rparr>)"
    and R_status_log: "R s (s\<lparr>ks_status_log := l\<rparr>)"
    and R_insert: "\<not> is_kernel addr \<Longrightarrow> good addr kind \<Longrightarrow> R s (insert_handle addr kind service s)"
begin

lemma frame_mount_instance:
  "(\<not> is_kernel addr \<Longrightarrow> good addr kind) \<Longrightarrow> steps_in R (mount_service_instance env addr kind service)"
  unfolding mount_service_instance_def
  by (auto intro!: frame steps_upd R_insert split: option.split)

lemma frame_mount: "(\<not> is_kernel addr \<Longrightarrow> good addr kind) \<Longrightarrow> steps_in R (mount_service env addr kind)"
  unfolding mount_service_def by (intro steps_gets frame_mount_instance)

lemma frame_new_session_addr [frame]: "steps_in R (new_session_addr source kind i)"
  unfolding new_session_addr_def
  by (cases kind; cases i) (auto intro!: frame steps_upd R_counters)

end

text \<open>Relations that tolerate deliveries and removals as well.\<close>

locale kernel_run_frame = kernel_table_frame +
  assumes R_deliver: "R s (s\<lparr>ks_services := hash_adjust addr (\<lambda>h. h\<lparr>sh_inbox := sh_inbox h @ [call]\<rparr>) (ks_services s)\<rparr>)"
    and R_remove: "R s (s\<lparr>ks_services := hash_remove addr (ks_services s)\<rparr>)"
    and R_stop: "R s (s\<lparr>ks_stop_signals := l\<rparr>)"
    and good_session: "resolve_agent_session_binding source kind requested s = Inr binding \<Longrightarrow>
          fst (new_session_addr source kind i u) = Inr addr \<Longrightarrow> good addr (AgentSession_kind kind binding)"
begin

lemma R_stop_service: "R s (s\<lparr>ks_services := hash_remove addr (ks_services s), ks_stop_signals := l\<rparr>)"
  using R_trans [OF R_remove R_stop] by simp

lemma frame_deliver [frame]: "steps_in R (deliver env call)"
  unfolding deliver_def by (auto intro!: frame steps_upd R_deliver)

lemma frame_stop_service_internal:
  "(\<And>call. steps_in R (d call)) \<Longrightarrow> steps_in R (stop_service_internal env d addr reason persist)"
  unfolding stop_service_internal_def
  by (auto intro!: frame steps_upd R_stop_service split: option.split)

lemma frame_send_runtime_config: "(\<And>call. steps_in R (d call)) \<Longrightarrow> steps_in R (send_runtime_config env d target)"
  unfolding send_runtime_config_def by (auto intro!: frame split: prod.split option.split)

lemma frame_broadcast:
  "(\<And>call. steps_in R (d call)) \<Longrightarrow> steps_in R (broadcast_runtime_config_to_services env d)"
  unfolding broadcast_runtime_config_to_services_def Let_def
  by (intro frame frame_send_runtime_config)

lemma frame_create_agent_session [frame]: "steps_in R (create_agent_session env source kind i requested)"
  unfolding create_agent_session_def
proof (rule steps_gets)
  fix s
  show "steps_in R (case resolve_agent_session_binding source kind requested s of
          Inl message \<Rightarrow> bail message
        | Inr binding \<Rightarrow> bnd (new_session_addr source kind i) (\<lambda>addr.
            andthen (mount_service env addr (AgentSession_kind kind binding)) (okM addr)))"
  proof (cases "resolve_agent_session_binding source kind requested s")
    case (Inr binding)
    have "R u (snd (bnd (new_session_addr source kind i) (\<lambda>addr.
        andthen (mount_service env addr (AgentSession_kind kind binding)) (okM addr)) u))" for u
    proof (cases "new_session_addr source kind i u")
      case (Pair r t)
      have "R u t" using steps_inE [OF frame_new_session_addr Pair] .
      moreover have "steps_in R (andthen (mount_service env addr (AgentSession_kind kind binding)) (okM addr))"
        if "r = Inr addr" for addr
        using that Pair Inr by (intro frame frame_mount good_session [of source kind requested s binding i u]) auto
      ultimately show ?thesis
        using Pair by (auto simp: bnd_def intro: R_trans steps_inD split: sum.split)
    qed
    then show ?thesis using Inr by (simp add: steps_inI)
  qed (auto intro: frame)
qed

lemma frame_handle_kernel_call:
  assumes "\<And>call. steps_in R (d call)"
  shows "steps_in R (handle_kernel_call env d call)"
  unfolding handle_kernel_call_def handle_create_agent_session_def handle_stop_service_def stop_service_def
    handle_update_runtime_config_def handle_update_metadata_def reply_kernel_error_def
  by (auto intro!: frame frame_stop_service_internal frame_broadcast steps_upd R_runtime_config R_metadata assms
      split: sum.split kernel_request.split)

lemma frame_dispatch [frame]: "steps_in R (dispatch_call env n call)"
proof (induction n arbitrary: call)
  case (Suc n)
  then show ?case by (auto intro!: frame frame_handle_kernel_call)
qed (auto intro: frame)

lemma frame_stop_all [frame]: "steps_in R (stop_all env reason)"
  unfolding stop_all_def by (intro frame frame_stop_service_internal)

lemma frame_handle_output [frame]: "steps_in R (handle_output env out)"
  unfolding handle_output_def handle_stopped_def
  by (cases out) (auto intro!: frame steps_upd R_status_log R_remove split: option.split)

lemma frame_kernel_loop [frame]: "steps_in R (kernel_loop env events)"
proof (induction events)
  case (Cons event events)
  then show ?case by (cases event) (auto intro!: frame split: sum.split)
qed (auto intro: frame)

lemma frame_kernel_drop [frame]: "steps_in R (kernel_drop env)"
  unfolding kernel_drop_def by (intro frame)

lemma dropping_after: "R (snd (m s)) (snd (dropping env kept m s))"
proof -
  have "R (snd (catching m s)) (snd (dropping env kept m s))"
    unfolding dropping_def by (rule bnd_after) (auto intro!: frame split: sum.split)
  then show ?thesis by simp
qed

lemma frame_dropping: "steps_in R m \<Longrightarrow> steps_in R (dropping env kept m)"
  unfolding dropping_def by (auto intro!: frame split: sum.split)

lemma frame_kernel_run [frame]: "steps_in R (kernel_run env events)"
  unfolding kernel_run_def by (intro frame_dropping frame)

lemma frame_mount_standard:
  "(\<And>addr kind. (addr, kind) \<in> set standard_services \<Longrightarrow> good addr kind) \<Longrightarrow> steps_in R (mount_standard_services env)"
  unfolding mount_standard_services_def
  by (rule steps_for_each_in) (auto intro!: frame frame_mount)

end

section \<open>Opening\<close>

text \<open>The files of metadata and configuration are read before the manifest.\<close>

definition keeps_manifest :: "kernel_state \<Rightarrow> kernel_state \<Rightarrow> bool" where
  "keeps_manifest s t \<longleftrightarrow> ks_services t = ks_services s \<and> ks_manifest_file t = ks_manifest_file s"

interpretation manifest: kernel_frame keeps_manifest
  by unfold_locales (auto simp: keeps_manifest_def)

lemma load_file_ok: "load_file env path decode content s = (Inr x, t) \<Longrightarrow> decode content = Inr x"
  by (auto simp: load_file_def andthen_ok fs_context_def from_result_ok map_err_ok)

lemma load_manifest_ok: "load_manifest env content s = (Inr m, t) \<Longrightarrow> ke_decode_manifest env content = Inr m"
  by (auto simp: load_manifest_def gets_def dest: load_file_ok)

context kernel_run_frame begin

lemma step_mount_manifest:
  assumes "\<And>content m entry. ks_manifest_file s = Some content \<Longrightarrow> ke_decode_manifest env content = Inr m \<Longrightarrow>
      entry \<in> set (mf_services m) \<Longrightarrow> good (me_addr entry) (me_kind entry)"
  shows "step_in R s (mount_manifest env)"
proof (cases "ks_manifest_file s")
  case None
  then show ?thesis by (simp add: mount_manifest_def gets_def okM_def step_in_def R_refl)
next
  case (Some content)
  have "step_in R s (bnd (load_manifest env content) (\<lambda>manifest.
      andthen (upd (\<lambda>s. s\<lparr>ks_next_background_id := max (mf_next_background_id manifest) 1,
                        ks_next_subagent_id := max (mf_next_subagent_id manifest) 1\<rparr>))
        (for_each (\<lambda>entry. mount_service env (me_addr entry) (me_kind entry)) (mf_services manifest))))"
  proof (rule step_bnd_at)
    fix m t
    assume "load_manifest env content s = (Inr m, t)"
    then have "good (me_addr entry) (me_kind entry)" if "entry \<in> set (mf_services m)" for entry
      using assms [OF Some _ that] load_manifest_ok by blast
    then have "steps_in R (for_each (\<lambda>entry. mount_service env (me_addr entry) (me_kind entry)) (mf_services m))"
      by (intro steps_for_each_in frame_mount)
    then show "step_in R t (andthen (upd (\<lambda>s. s\<lparr>ks_next_background_id := max (mf_next_background_id m) 1,
        ks_next_subagent_id := max (mf_next_subagent_id m) 1\<rparr>))
        (for_each (\<lambda>entry. mount_service env (me_addr entry) (me_kind entry)) (mf_services m)))"
      by (intro step_andthen step_upd R_trans [OF R_counters(1) R_counters(2)])
  qed (rule step_steps [OF frame_load(1)])
  then show ?thesis by (simp add: step_in_def mount_manifest_def gets_def Some)
qed

lemma step_open:
  assumes good_entry: "\<And>content m entry. ks_manifest_file s = Some content \<Longrightarrow> ke_decode_manifest env content = Inr m \<Longrightarrow>
      entry \<in> set (mf_services m) \<Longrightarrow> good (me_addr entry) (me_kind entry)"
    and standard: "\<And>addr kind. (addr, kind) \<in> set standard_services \<Longrightarrow> good addr kind"
  shows "R (kernel_new conversation refs s) (snd (open_or_bootstrap env conversation refs defaults s))"
proof -
  let ?new = "kernel_new conversation refs s"
  have "step_in R u (andthen (mount_manifest env) (mount_standard_services env))"
    if "open_metadata env ?new = (Inr x, t)" "open_runtime_config env defaults t = (Inr y, u)" for x y t u
  proof -
    have "ks_manifest_file u = ks_manifest_file s"
      using steps_inE [OF manifest.frame_open_metadata that(1)] steps_inE [OF manifest.frame_open_runtime_config that(2)]
      by (simp add: keeps_manifest_def kernel_new_def)
    then have "step_in R u (mount_manifest env)" by (intro step_mount_manifest good_entry) auto
    then show ?thesis by (rule step_andthen) (rule frame_mount_standard, rule standard)
  qed
  then have "step_in R t (andthen (open_runtime_config env defaults) (andthen (mount_manifest env) (mount_standard_services env)))"
    if "open_metadata env ?new = (Inr x, t)" for x t
    using that by (intro step_andthen_at [OF step_steps [OF frame_open_runtime_config]])
  then have "step_in R ?new (andthen (open_metadata env) (andthen (open_runtime_config env defaults)
      (andthen (mount_manifest env) (mount_standard_services env))))"
    by (rule step_andthen_at [OF step_steps [OF frame_open_metadata]])
  then have "R ?new (snd (andthen (upd (kernel_new conversation refs)) (andthen (open_metadata env)
      (andthen (open_runtime_config env defaults) (andthen (mount_manifest env) (mount_standard_services env)))) s))"
    by (simp add: step_in_def)
  then show ?thesis
    unfolding open_or_bootstrap_def by (rule R_trans [OF _ dropping_after])
qed

end

end
