(* ===== verification/Kernel_Properties.thy ===== *)
theory Kernel_Properties
  imports Kernel_Rules
begin

text \<open>
  The table of the kernel stays well-formed, routing a call never nests more than twice, and what
  the manifest file holds is what the table holds.
\<close>

section \<open>Well-formed tables\<close>

definition kind_ok :: "service_addr \<Rightarrow> service_kind \<Rightarrow> bool" where
  "kind_ok addr kind =
     (case kind of
        AgentSession_kind Foreground_session binding \<Rightarrow>
          (\<exists>i. addr = agent_foreground_id i) \<and>
          local_service_id ''channel'' (ab_event_sink binding) \<noteq> None \<and> ab_parent_addr binding = None
      | AgentSession_kind Background_session binding \<Rightarrow> (\<exists>i. addr = agent_background i)
      | AgentSession_kind Subagent_session binding \<Rightarrow>
          (\<exists>i. addr = agent_subagent i) \<and> ab_parent_addr binding \<noteq> None
      | _ \<Rightarrow> True)"

definition handle_ok :: "service_addr \<Rightarrow> service_handle \<Rightarrow> bool" where
  "handle_ok addr handle \<longleftrightarrow> sh_addr handle = addr \<and> addr \<noteq> kernel_addr \<and> kind_ok addr (sh_kind handle)"

definition kernel_wf :: "kernel_state \<Rightarrow> bool" where
  "kernel_wf s \<longleftrightarrow>
     hash_wf (ks_services s) \<and> (\<forall>addr handle. hash_get addr (ks_services s) = Some handle \<longrightarrow> handle_ok addr handle)"

definition keeps_wf :: "kernel_state \<Rightarrow> kernel_state \<Rightarrow> bool" where
  "keeps_wf s t \<longleftrightarrow> (kernel_wf s \<longrightarrow> kernel_wf t)"

lemma new_session_addr_kind:
  assumes "fst (new_session_addr source kind i u) = Inr addr"
  shows "case kind of
      Foreground_session \<Rightarrow> \<exists>j. addr = agent_foreground_id j
    | Background_session \<Rightarrow> \<exists>j. addr = agent_background j
    | Subagent_session \<Rightarrow> \<exists>j. addr = agent_subagent j"
  using assms by (cases kind; cases i) (auto simp: new_session_addr_def act_defs)

lemma resolved_binding_ok:
  assumes "resolve_agent_session_binding source kind requested s = Inr binding"
    and "fst (new_session_addr source kind i u) = Inr addr"
  shows "kind_ok addr (AgentSession_kind kind binding)"
  using assms(1) new_session_addr_kind [OF assms(2)]
  by (cases kind)
    (auto simp: kind_ok_def resolve_agent_session_binding_def child_binding_def Let_def split: if_splits option.splits)

lemma kernel_wf_services: "ks_services t = ks_services s \<Longrightarrow> kernel_wf s \<Longrightarrow> kernel_wf t"
  by (simp add: kernel_wf_def)

lemma kernel_wf_upd [simp]:
  "kernel_wf (s\<lparr>ks_io := n\<rparr>) = kernel_wf s"
  "kernel_wf (s\<lparr>ks_metadata := m\<rparr>) = kernel_wf s"
  "kernel_wf (s\<lparr>ks_metadata_file := f\<rparr>) = kernel_wf s"
  "kernel_wf (s\<lparr>ks_runtime_config := c\<rparr>) = kernel_wf s"
  "kernel_wf (s\<lparr>ks_runtime_config_file := f\<rparr>) = kernel_wf s"
  "kernel_wf (s\<lparr>ks_manifest_file := f\<rparr>) = kernel_wf s"
  "kernel_wf (s\<lparr>ks_next_background_id := a\<rparr>) = kernel_wf s"
  "kernel_wf (s\<lparr>ks_next_subagent_id := a\<rparr>) = kernel_wf s"
  "kernel_wf (s\<lparr>ks_status_log := l\<rparr>) = kernel_wf s"
  "kernel_wf (s\<lparr>ks_stop_signals := g\<rparr>) = kernel_wf s"
  by (simp_all add: kernel_wf_def)

lemma kernel_wf_insert: "kernel_wf s \<Longrightarrow> \<not> is_kernel addr \<Longrightarrow> kind_ok addr kind \<Longrightarrow> kernel_wf (insert_handle addr kind service s)"
  by (auto simp: kernel_wf_def insert_handle_def handle_ok_def is_kernel_iff intro: hash.wf_insert)

lemma kernel_wf_deliver:
  "kernel_wf s \<Longrightarrow> kernel_wf (s\<lparr>ks_services := hash_adjust addr (\<lambda>h. h\<lparr>sh_inbox := f h\<rparr>) (ks_services s)\<rparr>)"
  by (auto simp: kernel_wf_def handle_ok_def split: if_splits)

lemma kernel_wf_remove: "kernel_wf s \<Longrightarrow> kernel_wf (s\<lparr>ks_services := hash_remove addr (ks_services s)\<rparr>)"
  by (auto simp: kernel_wf_def intro: hash.wf_remove split: if_splits)

interpretation wf: kernel_manifest_frame keeps_wf
proof unfold_locales
  show "keeps_wf s t \<Longrightarrow> keeps_wf t u \<Longrightarrow> keeps_wf s u" for s t u
    by (simp add: keeps_wf_def)
qed (simp_all add: keeps_wf_def)

interpretation wf: kernel_run_frame keeps_wf env kind_ok for env
proof unfold_locales
  show "steps_in keeps_wf (persist_manifest env)" by (rule wf.frame_persist_manifest)
qed (simp_all add: keeps_wf_def kernel_wf_insert kernel_wf_deliver kernel_wf_remove resolved_binding_ok)

lemma standard_services_ok: "(addr, kind) \<in> set standard_services \<Longrightarrow> kind_ok addr kind"
  by (auto simp: standard_services_def kind_ok_def local_service_id_def addr_defs)

definition manifest_ok :: "kernel_env \<Rightarrow> kernel_state \<Rightarrow> bool" where
  "manifest_ok env s \<longleftrightarrow>
     (\<forall>content manifest entry. ks_manifest_file s = Some content \<longrightarrow> ke_decode_manifest env content = Inr manifest \<longrightarrow>
        entry \<in> set (mf_services manifest) \<longrightarrow> kind_ok (me_addr entry) (me_kind entry))"

lemma kernel_new_wf: "kernel_wf (kernel_new conversation refs s)"
  by (simp add: kernel_new_def kernel_wf_def)

lemma open_or_bootstrap_wf:
  assumes "manifest_ok env s"
  shows "kernel_wf (snd (open_or_bootstrap env conversation refs defaults s))"
proof -
  have "keeps_wf (kernel_new conversation refs s) (snd (open_or_bootstrap env conversation refs defaults s))"
    by (rule wf.step_open) (use assms in \<open>auto simp: manifest_ok_def intro: standard_services_ok\<close>)
  then show ?thesis by (simp add: keeps_wf_def kernel_new_wf)
qed

section \<open>Well-formed manifests\<close>

text \<open>
  \<open>serde_json\<close> reads what it has written, and refuses what is left of it when a write stops early: a
  proper beginning of the text of an object lacks its last brace.
\<close>

definition manifest_codec :: "kernel_env \<Rightarrow> bool" where
  "manifest_codec env \<longleftrightarrow>
     (\<forall>m c. ke_encode_manifest env m = Inr c \<longrightarrow>
        ke_decode_manifest env c = Inr m \<and> (\<forall>n < length c. \<exists>e. ke_decode_manifest env (take n c) = Inl e))"

definition keeps_stored :: "kernel_env \<Rightarrow> kernel_state \<Rightarrow> kernel_state \<Rightarrow> bool" where
  "keeps_stored env s t \<longleftrightarrow>
     (manifest_codec env \<and> kernel_wf s \<and> manifest_ok env s \<longrightarrow> kernel_wf t \<and> manifest_ok env t)"

lemma table_entry_ok:
  assumes "kernel_wf s" and "entry \<in> set (mf_services (current_manifest s))"
  shows "kind_ok (me_addr entry) (me_kind entry)"
proof -
  obtain addr handle where h: "(addr, handle) \<in> set (ks_services s)" "entry = manifest_entry handle"
    using assms(2) by (auto simp: current_manifest_def hash_values_def)
  then have "hash_get addr (ks_services s) = Some handle" using assms(1) by (auto simp: kernel_wf_def intro: hash_get_in)
  then have "handle_ok addr handle" using assms(1) by (simp add: kernel_wf_def)
  then show ?thesis using h(2) by (simp add: handle_ok_def manifest_entry_def)
qed

text \<open>A write leaves the old file, or a beginning of the new one.\<close>

lemma persist_manifest_file:
  assumes "persist_manifest env s = (r, t)"
  shows "ks_services t = ks_services s \<and>
    (ks_manifest_file t = ks_manifest_file s \<or>
     (\<exists>c n. ke_encode_manifest env (current_manifest s) = Inr c \<and> ks_manifest_file t = Some (take n c)))"
proof (cases "ke_encode_manifest env (current_manifest s)")
  case (Inl e)
  then show ?thesis
    using assms
    by (auto simp: persist_manifest_def persist_file_def fs_do_def fs_context_def map_err_def from_result_def gets_def
        andthen_def bnd_def kask_def okM_def errM_def split: fs_answer.splits sum.splits)
next
  case (Inr c)
  have "fs_put env what (\<lambda>content s. s\<lparr>ks_manifest_file := Some content\<rparr>) c u = (r', t') \<Longrightarrow>
      ks_services t' = ks_services u \<and> (ks_manifest_file t' = ks_manifest_file u \<or> (\<exists>n. ks_manifest_file t' = Some (take n c)))"
    for what u r' t'
    by (auto simp: fs_put_def bnd_def kask_def upd_def errM_def andthen_def intro: exI [of _ "length c"]
        split: fs_answer.splits option.splits)
  then show ?thesis
    using assms Inr
    by (fastforce simp: persist_manifest_def persist_file_def fs_do_def fs_context_def map_err_def from_result_def gets_def
        andthen_def bnd_def kask_def okM_def errM_def split: fs_answer.splits sum.splits prod.splits)
qed

lemma persist_manifest_stored: "steps_in (keeps_stored env) (persist_manifest env)"
proof (rule steps_inI)
  fix s
  obtain r t where run: "persist_manifest env s = (r, t)" by fastforce
  show "keeps_stored env s (snd (persist_manifest env s))"
    unfolding keeps_stored_def
  proof
    assume pre: "manifest_codec env \<and> kernel_wf s \<and> manifest_ok env s"
    note written = persist_manifest_file [OF run]
    have "manifest_ok env t"
      unfolding manifest_ok_def
    proof (intro allI impI)
      fix content m entry
      assume c: "ks_manifest_file t = Some content" and d: "ke_decode_manifest env content = Inr m"
        and e: "entry \<in> set (mf_services m)"
      show "kind_ok (me_addr entry) (me_kind entry)"
      proof (cases "ks_manifest_file t = ks_manifest_file s")
        case True
        then have "ks_manifest_file s = Some content" using c by simp
        then show ?thesis using pre d e unfolding manifest_ok_def by blast
      next
        case False
        then obtain body n where w: "ke_encode_manifest env (current_manifest s) = Inr body" "content = take n body"
          using written c by auto
        then have "n \<ge> length body" using pre d unfolding manifest_codec_def by (metis not_le_imp_less sum.distinct(1))
        then have "m = current_manifest s" using pre w d unfolding manifest_codec_def by (metis Inr_inject take_all)
        then show ?thesis using table_entry_ok pre e by blast
      qed
    qed
    then show "kernel_wf (snd (persist_manifest env s)) \<and> manifest_ok env (snd (persist_manifest env s))"
      using written run pre kernel_wf_services by simp
  qed
qed

lemma manifest_ok_upd [simp]:
  "manifest_ok env (s\<lparr>ks_services := m\<rparr>) = manifest_ok env s"
  "manifest_ok env (s\<lparr>ks_io := n\<rparr>) = manifest_ok env s"
  "manifest_ok env (s\<lparr>ks_metadata := d\<rparr>) = manifest_ok env s"
  "manifest_ok env (s\<lparr>ks_metadata_file := f\<rparr>) = manifest_ok env s"
  "manifest_ok env (s\<lparr>ks_runtime_config := c\<rparr>) = manifest_ok env s"
  "manifest_ok env (s\<lparr>ks_runtime_config_file := f\<rparr>) = manifest_ok env s"
  "manifest_ok env (s\<lparr>ks_next_background_id := a\<rparr>) = manifest_ok env s"
  "manifest_ok env (s\<lparr>ks_next_subagent_id := a\<rparr>) = manifest_ok env s"
  "manifest_ok env (s\<lparr>ks_status_log := l\<rparr>) = manifest_ok env s"
  "manifest_ok env (s\<lparr>ks_stop_signals := g\<rparr>) = manifest_ok env s"
  "manifest_ok env (insert_handle addr kind service s) = manifest_ok env s"
  by (simp_all add: manifest_ok_def insert_handle_def)

interpretation stored: kernel_run_frame "keeps_stored env" env kind_ok for env
proof unfold_locales
  show "keeps_stored env s t \<Longrightarrow> keeps_stored env t u \<Longrightarrow> keeps_stored env s u" for s t u
    by (simp add: keeps_stored_def)
  show "steps_in (keeps_stored env) (persist_manifest env)" by (rule persist_manifest_stored)
qed (simp_all add: keeps_stored_def kernel_wf_insert kernel_wf_deliver kernel_wf_remove resolved_binding_ok)

lemma open_or_bootstrap_stored:
  assumes "manifest_codec env" and "manifest_ok env s"
  shows "kernel_wf (snd (open_or_bootstrap env conversation refs defaults s)) \<and>
         manifest_ok env (snd (open_or_bootstrap env conversation refs defaults s))"
proof -
  have "keeps_stored env (kernel_new conversation refs s) (snd (open_or_bootstrap env conversation refs defaults s))"
    by (rule stored.step_open) (use assms in \<open>auto simp: manifest_ok_def intro: standard_services_ok\<close>)
  moreover have "manifest_ok env (kernel_new conversation refs s)" using assms(2) by (simp add: kernel_new_def manifest_ok_def)
  ultimately show ?thesis using assms(1) by (simp add: keeps_stored_def kernel_new_wf)
qed

end
