(* ===== verification/Kernel_Routing.thy ===== *)
theory Kernel_Routing
  imports Kernel_Properties
begin

text \<open>
  Routing: how deep calls nest, that every request to the kernel gets exactly one answer when
  nothing around the kernel fails, and what happens to a call that nobody can take.
\<close>

section \<open>Ways of not returning\<close>

text \<open>\<open>avoids e m\<close>: no run of \<open>m\<close> ends in \<open>e\<close>. The contract is about the errors that no code sees.\<close>

definition avoids :: "service_error \<Rightarrow> ('s, service_error, 'a) act \<Rightarrow> bool" where
  "avoids e m \<longleftrightarrow> (\<forall>s. fst (m s) \<noteq> Inl e)"

lemma avoidsD: "avoids e m \<Longrightarrow> m s = (r, t) \<Longrightarrow> r \<noteq> Inl e"
  by (metis avoids_def fst_conv)

named_theorems avoid \<open>rules for \<open>avoids\<close>\<close>

lemma avoids_bnd [avoid]: "avoids e m \<Longrightarrow> (\<And>x. avoids e (f x)) \<Longrightarrow> avoids e (bnd m f)"
  by (auto simp: avoids_def bnd_def split: prod.split sum.split) (metis fst_conv)

lemma avoids_andthen [avoid]: "avoids e m \<Longrightarrow> avoids e n \<Longrightarrow> avoids e (andthen m n)"
  unfolding andthen_def by (rule avoids_bnd)

lemma avoids_gets [avoid]: "(\<And>s. avoids e (f s)) \<Longrightarrow> avoids e (gets f)"
  by (simp add: avoids_def gets_def)

lemma avoids_pure [avoid]: "avoids e (okM x)" "avoids e (upd f)" "avoids e (kask g)"
  by (simp_all add: avoids_def okM_def upd_def kask_def)

lemma avoids_when [avoid]: "avoids e m \<Longrightarrow> avoids e (when_act b m)"
  by (simp add: when_act_def avoids_pure)

lemma avoids_for_each [avoid]: "(\<And>x. avoids e (f x)) \<Longrightarrow> avoids e (for_each f xs)"
  by (induction xs) (auto intro: avoid)

lemma avoids_catching [avoid]: "avoids e m \<Longrightarrow> avoids e (catching m)"
  by (auto simp: avoids_def catching_def split: prod.split sum.split service_error.split) (metis fst_conv)+

locale abort_kind =
  fixes e :: service_error
  assumes not_anyhow: "Anyhow x \<noteq> e"
begin

lemma avoids_err [avoid]: "avoids e (errM (Anyhow x))"
  by (simp add: avoids_def errM_def not_anyhow)

lemma avoids_bail [avoid]: "avoids e (bail x)"
  unfolding bail_def by (rule avoids_err)

lemma avoids_encoded [avoid]: "avoids e (encoded r)"
  by (cases r) (auto simp: avoids_def encoded_def map_err_def from_result_def okM_def errM_def not_anyhow)

lemma avoids_fs_context [avoid]: "avoids e (fs_context what r)"
  by (cases r) (auto simp: avoids_def fs_context_def map_err_def from_result_def okM_def errM_def not_anyhow)

lemma avoids_fs_do [avoid]: "avoids e (fs_do env what)"
  unfolding fs_do_def by (intro avoid) (auto intro: avoid split: fs_answer.split)

lemma avoids_fs_put [avoid]: "avoids e (fs_put env what put content)"
  unfolding fs_put_def by (intro avoid) (auto intro!: avoid split: fs_answer.split option.split)

lemma avoids_persist [avoid]:
  "avoids e (persist_manifest env)" "avoids e (persist_metadata env)" "avoids e (persist_runtime_config env)"
  unfolding persist_manifest_def persist_metadata_def persist_runtime_config_def persist_file_def by (intro avoid)+

lemma avoids_nickname [avoid]: "avoids e (ensure_agent_session_nickname env addr kind)"
  unfolding ensure_agent_session_nickname_def by (cases kind) (auto intro!: avoid)

lemma avoids_mount [avoid]: "avoids e (mount_service env addr kind)"
  unfolding mount_service_def mount_service_instance_def by (auto intro!: avoid split: option.split)

lemma avoids_create [avoid]: "avoids e (create_agent_session env source kind i requested)"
proof -
  have "avoids e (new_session_addr source kind i)"
    unfolding new_session_addr_def by (cases kind; cases i) (auto intro!: avoid)
  then show ?thesis
    unfolding create_agent_session_def by (auto intro!: avoid split: sum.split)
qed

lemma avoids_deliver [avoid]: "avoids e (deliver env call)"
  unfolding deliver_def by (auto intro!: avoid)

lemma avoids_respond [avoid]: "(\<And>call. avoids e (d call)) \<Longrightarrow> avoids e (respond env d target rid response)"
  unfolding respond_def by (intro avoid) auto

lemma avoids_join: "e \<noteq> Blocked \<Longrightarrow> avoids e (join_service env handle)"
  unfolding join_service_def
  by (rule avoids_bnd [OF avoids_pure(3)])
    (auto simp: avoids_def errM_def bail_def okM_def not_anyhow split: join_answer.split)

lemma avoids_stop: 
  "e \<noteq> Blocked \<Longrightarrow> (\<And>call. avoids e (d call)) \<Longrightarrow> avoids e (stop_service_internal env d addr reason persist)"
  unfolding stop_service_internal_def by (auto intro!: avoid avoids_join split: option.split)

lemma avoids_broadcast: "(\<And>call. avoids e (d call)) \<Longrightarrow> avoids e (broadcast_runtime_config_to_services env d)"
  unfolding broadcast_runtime_config_to_services_def send_runtime_config_def Let_def
  by (auto intro!: avoid split: prod.split option.split)

lemma avoids_kernel_call:
  assumes "e \<noteq> Blocked" and "\<And>call. avoids e (d call)"
  shows "avoids e (handle_kernel_call env d call)"
  unfolding handle_kernel_call_def handle_create_agent_session_def handle_stop_service_def stop_service_def
    handle_update_runtime_config_def handle_update_metadata_def reply_kernel_error_def
  by (auto intro!: avoid avoids_stop avoids_broadcast assms split: sum.split kernel_request.split)

end

interpretation overflow: abort_kind Stack_overflow
  by unfold_locales simp

interpretation blocked: abort_kind Blocked
  by unfold_locales simp

interpretation panic: abort_kind Thread_panic
  by unfold_locales simp

section \<open>How deep calls nest\<close>

text \<open>The calls the kernel makes itself: no answer is expected, and they never go to the kernel.\<close>

definition plain_call :: "service_call \<Rightarrow> bool" where
  "plain_call call \<longleftrightarrow> sc_target call \<noteq> kernel_addr \<and> sc_request_id call = None"

definition agree :: "dispatcher \<Rightarrow> dispatcher \<Rightarrow> bool" where
  "agree d d' \<longleftrightarrow> (\<forall>call. plain_call call \<longrightarrow> d call = d' call)"

lemma plain_response: "target \<noteq> kernel_addr \<Longrightarrow> plain_call (response_to source target payload rid)"
  by (simp add: plain_call_def response_to_def)

lemma plain_call_with: "call_with source target r = Inr call \<Longrightarrow> target \<noteq> kernel_addr \<Longrightarrow> plain_call call"
  by (cases r) (auto simp: call_with_def plain_call_def service_call_new_def)

lemma encoded_bnd_cong: "(\<And>x. r = Inr x \<Longrightarrow> f x = g x) \<Longrightarrow> bnd (encoded r) f = bnd (encoded r) g"
  by (cases r) (auto simp: encoded_def map_err_def from_result_def bnd_def okM_def errM_def)

lemma bnd_cong_at: "m s = m' s \<Longrightarrow> (\<And>x t. m s = (Inr x, t) \<Longrightarrow> f x t = g x t) \<Longrightarrow> bnd m f s = bnd m' g s"
  by (auto simp: bnd_def split: prod.split sum.split)

lemma agree_respond: "agree d d' \<Longrightarrow> target \<noteq> kernel_addr \<Longrightarrow> respond env d target rid r = respond env d' target rid r"
  by (simp add: respond_def agree_def plain_response)

lemma agree_stop:
  assumes "agree d d'"
  shows "stop_service_internal env d addr reason persist = stop_service_internal env d' addr reason persist"
proof -
  have "cron_addr \<noteq> kernel_addr" by (simp add: addr_defs)
  then have "bnd (encoded (disable_tasks_for_owner_call (ke_codec env) kernel_addr cron_addr addr reason)) d =
      bnd (encoded (disable_tasks_for_owner_call (ke_codec env) kernel_addr cron_addr addr reason)) d'"
    using assms unfolding disable_tasks_for_owner_call_def
    by (intro encoded_bnd_cong) (auto simp: agree_def dest: plain_call_with)
  then show ?thesis by (simp add: stop_service_internal_def)
qed

lemma agree_send_runtime_config:
  assumes "agree d d'" and "addr \<noteq> kernel_addr"
  shows "send_runtime_config env d (addr, kind) = send_runtime_config env d' (addr, kind)"
proof -
  have "bnd (encoded call) d = bnd (encoded call) d'" if "runtime_config_call env addr kind s = Some call" for call s
    using that assms
    by (intro encoded_bnd_cong)
      (auto simp: agree_def runtime_config_call_def update_launch_config_call_def workspace_runtime_config_call_def
        terminal_runtime_config_call_def dest: plain_call_with split: service_kind.splits)
  then show ?thesis by (auto simp: send_runtime_config_def gets_def split: option.split)
qed

lemma for_each_cong: "(\<And>x. x \<in> set xs \<Longrightarrow> f x = g x) \<Longrightarrow> for_each f xs = for_each g xs"
  by (induction xs) auto

lemma targets_mounted: "kernel_wf s \<Longrightarrow> (addr, kind) \<in> set (runtime_config_targets s) \<Longrightarrow> has_service addr s \<and> addr \<noteq> kernel_addr"
  by (auto simp: runtime_config_targets_def kernel_wf_def handle_ok_def has_service_def dest!: hash_get_in)

lemma agree_broadcast:
  assumes "agree d d'" and "kernel_wf s"
  shows "broadcast_runtime_config_to_services env d s = broadcast_runtime_config_to_services env d' s"
proof -
  have "for_each (send_runtime_config env d) (runtime_config_targets s) =
      for_each (send_runtime_config env d') (runtime_config_targets s)"
    using targets_mounted [OF assms(2)] by (intro for_each_cong) (auto intro: agree_send_runtime_config assms(1))
  then show ?thesis by (simp add: broadcast_runtime_config_to_services_def gets_def Let_def)
qed

lemma agree_update_runtime_config:
  assumes "agree d d'" and "kernel_wf s" and "sc_source call \<noteq> kernel_addr"
  shows "handle_update_runtime_config env d call patch s = handle_update_runtime_config env d' call patch s"
proof -
  show ?thesis
    using assms unfolding handle_update_runtime_config_def agree_respond [OF assms(1,3)]
    by (auto simp: andthen_def [of "persist_runtime_config env"] keeps_wf_def
        intro!: bnd_cong_at agree_broadcast dest!: steps_inE [OF wf.frame_persist_runtime_config])
qed

lemma agree_kernel_call:
  assumes "agree d d'" and "kernel_wf s" and "sc_source call \<noteq> kernel_addr"
  shows "handle_kernel_call env d call s = handle_kernel_call env d' call s"
  using assms
  by (auto simp: handle_kernel_call_def handle_create_agent_session_def handle_stop_service_def stop_service_def
      handle_update_metadata_def reply_kernel_error_def agree_respond [OF assms(1,3)] agree_stop [OF assms(1)]
      intro: agree_update_runtime_config split: sum.split kernel_request.split cong: if_cong)

lemma dispatch_plain: "agree (dispatch_call env (Suc m)) (dispatch_call env (Suc n))"
  by (auto simp: agree_def plain_call_def is_kernel_iff cong: if_cong)

lemma dispatch_deep_enough:
  assumes "kernel_wf s" and "sc_source call \<noteq> kernel_addr" and "agree (dispatch_call env (Suc 0)) d"
  shows "dispatch_call env (Suc (Suc n)) call s =
     (if is_kernel (sc_target call) then handle_kernel_call env d call s
      else if has_service (sc_target call) s then deliver env call s
      else if sc_request_id call \<noteq> None \<and> has_service (sc_source call) s then
        respond env d (sc_source call) (sc_request_id call)
          (Kernel_error ''service_not_found'' (''service '' @ addr_to_string (sc_target call) @ '' is not running'')) s
      else bail (''unknown service target '' @ addr_to_string (sc_target call)) s)"
proof -
  have "agree (dispatch_call env (Suc n)) d"
    using assms(3) dispatch_plain [of env n 0] by (simp add: agree_def del: dispatch_call.simps)
  then show ?thesis
    using assms(1,2)
    by (simp add: dispatch_call.simps(2) [of env "Suc n"] agree_kernel_call agree_respond gets_def is_kernel_iff
        del: dispatch_call.simps)
qed

text \<open>A dispatcher that never calls itself, with the same effect on what the kernel sends.\<close>

definition shallow :: "kernel_env \<Rightarrow> dispatcher" where
  "shallow env call = (if plain_call call then dispatch_call env 1 call else okM ())"

lemma agree_shallow: "agree (dispatch_call env (Suc 0)) (shallow env)"
  by (simp add: agree_def shallow_def del: dispatch_call.simps)

lemma shallow_returns: "avoids Stack_overflow (shallow env call)"
  by (auto simp: shallow_def plain_call_def is_kernel_iff intro!: avoid overflow.avoids_deliver overflow.avoids_bail)

section \<open>Answers to kernel requests\<close>

text \<open>Nothing around the kernel fails.\<close>

definition fault_free :: "kernel_env \<Rightarrow> bool" where
  "fault_free env \<longleftrightarrow>
     (\<forall>n. ke_fs env n = Fs_ok) \<and> (\<forall>n. \<not> ke_inbox_closed env n) \<and> (\<forall>n. ke_join env n = Joined) \<and>
     (\<forall>r. \<exists>p. encode_kernel_response (ke_codec env) r = Inr p) \<and>
     (\<forall>r. \<exists>p. encode_cron_request (ke_codec env) r = Inr p) \<and>
     (\<forall>r. \<exists>p. encode_agent_request (ke_codec env) r = Inr p) \<and>
     (\<forall>r. \<exists>p. encode_workspace_runtime_config (ke_codec env) r = Inr p) \<and>
     (\<forall>r. \<exists>p. encode_terminal_runtime_config (ke_codec env) r = Inr p) \<and>
     (\<forall>m. \<exists>c. ke_encode_manifest env m = Inr c) \<and> (\<forall>m. \<exists>c. ke_encode_runtime_config env m = Inr c) \<and>
     (\<forall>m. \<exists>c. ke_encode_metadata env m = Inr c) \<and> 2 \<le> ke_stack_depth env"

lemma fault_free_encodes:
  assumes "fault_free env"
  shows "\<exists>p. encode_kernel_response (ke_codec env) a = Inr p"
    "\<exists>p. encode_cron_request (ke_codec env) b = Inr p"
    "\<exists>p. encode_agent_request (ke_codec env) c = Inr p"
    "\<exists>p. encode_workspace_runtime_config (ke_codec env) r = Inr p"
    "\<exists>p. encode_terminal_runtime_config (ke_codec env) r = Inr p"
    "\<exists>c. ke_encode_manifest env m = Inr c"
    "\<exists>c. ke_encode_runtime_config env r = Inr c"
    "\<exists>c. ke_encode_metadata env d = Inr c"
  using assms unfolding fault_free_def by blast+

definition inbox_of :: "service_addr \<Rightarrow> kernel_state \<Rightarrow> service_call list option" where
  "inbox_of addr s = map_option sh_inbox (hash_get addr (ks_services s))"

text \<open>What a service receives while its request is handled, and the answer.\<close>

definition is_notice :: "service_call \<Rightarrow> bool" where
  "is_notice call \<longleftrightarrow> sc_source call = kernel_addr \<and> sc_request_id call = None \<and> sc_response_id call = None"

definition is_answer :: "service_addr \<Rightarrow> string option \<Rightarrow> service_call \<Rightarrow> bool" where
  "is_answer src rid call \<longleftrightarrow>
     sc_source call = kernel_addr \<and> sc_target call = src \<and> sc_request_id call = None \<and> sc_response_id call = rid"

definition notified :: "service_addr \<Rightarrow> kernel_state \<Rightarrow> kernel_state \<Rightarrow> bool" where
  "notified src s t \<longleftrightarrow>
     (\<forall>xs. inbox_of src s = Some xs \<longrightarrow> (\<exists>ns. list_all is_notice ns \<and> inbox_of src t = Some (xs @ ns)))"

lemma notified_inbox: "inbox_of src t = inbox_of src s \<Longrightarrow> notified src s t"
  by (force simp: notified_def)

interpretation noticed: kernel_manifest_frame "notified src" for src
proof unfold_locales
  fix s t u
  assume st: "notified src s t" and tu: "notified src t u"
  show "notified src s u"
    unfolding notified_def
  proof (intro allI impI)
    fix xs
    assume "inbox_of src s = Some xs"
    then obtain ns where ns: "list_all is_notice ns" "inbox_of src t = Some (xs @ ns)" using st by (auto simp: notified_def)
    then obtain ns' where "list_all is_notice ns'" "inbox_of src u = Some ((xs @ ns) @ ns')" using tu by (auto simp: notified_def)
    then show "\<exists>ns. list_all is_notice ns \<and> inbox_of src u = Some (xs @ ns)"
      using ns by (intro exI [of _ "ns @ ns'"]) simp
  qed
qed (auto simp: inbox_of_def insert_handle_def intro!: notified_inbox)

interpretation noticed: kernel_table_frame "notified src" env "\<lambda>addr _. addr \<noteq> src" for src env
proof unfold_locales
  show "steps_in (notified src) (persist_manifest env)" by (rule noticed.frame_persist_manifest)
qed (auto simp: inbox_of_def insert_handle_def intro!: notified_inbox intro: noticed.R_trans)

lemma noticed_mount: "steps_in (notified src) (mount_service env addr kind)"
proof (cases "addr = src")
  case True
  have "notified src s (snd (mount_service_instance env src kind service s))" for s service
  proof (cases "is_kernel src \<or> has_service src s")
    case True
    then show ?thesis by (auto simp: mount_service_instance_def gets_def bail_def errM_def noticed.R_refl)
  next
    case False
    then show ?thesis by (simp add: notified_def inbox_of_def has_service_def)
  qed
  then show ?thesis using True by (simp add: steps_in_def mount_service_def gets_def)
qed (rule noticed.frame_mount)

lemma noticed_create: "steps_in (notified src) (create_agent_session env source kind i requested)"
  unfolding create_agent_session_def
  by (auto intro!: noticed.steps_gets noticed.steps_bnd noticed.steps_andthen noticed.steps_ok noticed.frame_bail
      noticed.frame_new_session_addr noticed_mount split: sum.split)

definition ready :: "service_addr \<Rightarrow> kernel_state \<Rightarrow> bool" where
  "ready src s \<longleftrightarrow> kernel_wf s \<and> has_service src s"

text \<open>\<open>serves src s m\<close>: from the state \<open>s\<close>, \<open>m\<close> succeeds and sends the service at most notices.\<close>

definition serves :: "service_addr \<Rightarrow> kernel_state \<Rightarrow> 'a kernel \<Rightarrow> bool" where
  "serves src s m \<longleftrightarrow> (\<exists>x t. m s = (Inr x, t) \<and> ready src t \<and> notified src s t)"

definition concludes :: "service_addr \<Rightarrow> string option \<Rightarrow> kernel_state \<Rightarrow> unit kernel \<Rightarrow> bool" where
  "concludes src rid s m \<longleftrightarrow>
     (\<exists>t ns reply. m s = (Inr (), t) \<and> list_all is_notice ns \<and> is_answer src rid reply \<and>
        inbox_of src t = Some (the (inbox_of src s) @ ns @ [reply]))"

lemma concludesI:
  "m s = (Inr (), t) \<Longrightarrow> inbox_of src t = Some (the (inbox_of src s) @ [ans]) \<Longrightarrow> is_answer src rid ans \<Longrightarrow>
   concludes src rid s m"
  unfolding concludes_def by (intro exI [of _ t] exI [of _ "[]"] exI [of _ ans]) simp

lemma ready_inbox: "ready src s \<Longrightarrow> \<exists>xs. inbox_of src s = Some xs"
  by (auto simp: ready_def has_service_def inbox_of_def)

lemma serves_bnd:
  assumes "serves src s m" and "\<And>x t. m s = (Inr x, t) \<Longrightarrow> ready src t \<Longrightarrow> serves src t (f x)"
  shows "serves src s (bnd m f)"
proof -
  obtain x t where m: "m s = (Inr x, t)" "ready src t" "notified src s t" using assms(1) by (auto simp: serves_def)
  then obtain y u where "f x t = (Inr y, u)" "ready src u" "notified src t u" using assms(2) by (auto simp: serves_def)
  then show ?thesis using m noticed.R_trans by (auto simp: serves_def bnd_def)
qed

lemma concludes_bnd:
  assumes "serves src s m" and "ready src s" and "\<And>x t. m s = (Inr x, t) \<Longrightarrow> ready src t \<Longrightarrow> concludes src rid t (f x)"
  shows "concludes src rid s (bnd m f)"
proof -
  obtain x t where m: "m s = (Inr x, t)" "ready src t" "notified src s t" using assms(1) by (auto simp: serves_def)
  obtain xs where xs: "inbox_of src s = Some xs" using ready_inbox [OF assms(2)] by blast
  then obtain ns where ns: "list_all is_notice ns" "inbox_of src t = Some (xs @ ns)" using m by (auto simp: notified_def)
  obtain u ns' reply where "f x t = (Inr (), u)" "list_all is_notice ns'" "is_answer src rid reply"
    "inbox_of src u = Some ((xs @ ns) @ ns' @ [reply])"
    using assms(3) [OF m(1,2)] ns by (auto simp: concludes_def)
  then show ?thesis
    using m xs ns unfolding concludes_def
    by (intro exI [of _ u] exI [of _ "ns @ ns'"] exI [of _ reply]) (simp add: bnd_def)
qed

lemma serves_andthen:
  "serves src s m \<Longrightarrow> (\<And>t. m s = (Inr (), t) \<Longrightarrow> ready src t \<Longrightarrow> serves src t n) \<Longrightarrow> serves src s (andthen m n)"
  unfolding andthen_def by (rule serves_bnd) auto

lemma concludes_andthen:
  "serves src s m \<Longrightarrow> ready src s \<Longrightarrow> (\<And>t. m s = (Inr (), t) \<Longrightarrow> ready src t \<Longrightarrow> concludes src rid t n) \<Longrightarrow>
   concludes src rid s (andthen m n)"
  unfolding andthen_def by (rule concludes_bnd) auto

lemma serves_gets: "serves src s (f s) \<Longrightarrow> serves src s (gets f)"
  by (simp add: serves_def gets_def)

lemma concludes_gets: "concludes src rid s (f s) \<Longrightarrow> concludes src rid s (gets f)"
  by (simp add: concludes_def gets_def)

lemma serves_ok: "ready src s \<Longrightarrow> serves src s (okM x)"
  by (simp add: serves_def okM_def noticed.R_refl)

lemma serves_when: "ready src s \<Longrightarrow> (b \<Longrightarrow> serves src s m) \<Longrightarrow> serves src s (when_act b m)"
  by (simp add: when_act_def serves_ok)

text \<open>An operation that succeeds and leaves the table alone.\<close>

lemma serves_keeps:
  "ready src s \<Longrightarrow> m s = (Inr x, t) \<Longrightarrow> ks_services t = ks_services s \<Longrightarrow> serves src s m"
  by (auto simp: serves_def ready_def has_service_def inbox_of_def
      intro!: notified_inbox kernel_wf_services [of t s])

lemma serves_encoded: "ready src s \<Longrightarrow> r = Inr p \<Longrightarrow> serves src s (encoded r)"
  by (rule serves_keeps [of _ _ _ p s]) (simp_all add: encoded_def map_err_def from_result_def okM_def)

lemma fs_do_free: "fault_free env \<Longrightarrow> fs_do env what s = (Inr (), s\<lparr>ks_io := Suc (ks_io s)\<rparr>)"
  by (simp add: fs_do_def fault_free_def kask_def bnd_def okM_def)

lemma fs_put_free: "fault_free env \<Longrightarrow> fs_put env what put content s = (Inr (), put content (s\<lparr>ks_io := Suc (ks_io s)\<rparr>))"
  by (simp add: fs_put_def fault_free_def kask_def bnd_def upd_def)

lemma persist_file_free:
  "fault_free env \<Longrightarrow> encoding = Inr content \<Longrightarrow>
   persist_file env path failure put encoding s = (Inr (), put content (s\<lparr>ks_io := Suc (Suc (ks_io s))\<rparr>))"
  by (simp add: persist_file_def gets_def andthen_def bnd_def fs_do_free fs_put_free fs_context_def map_err_def
      from_result_def okM_def)

lemma persist_manifest_free:
  assumes "fault_free env"
  obtains content where "ke_encode_manifest env (current_manifest s) = Inr content"
    "persist_manifest env s = (Inr (), s\<lparr>ks_io := Suc (Suc (ks_io s)), ks_manifest_file := Some content\<rparr>)"
proof -
  obtain content where "ke_encode_manifest env (current_manifest s) = Inr content" using fault_free_encodes(6) [OF assms] by blast
  then show ?thesis using that assms by (simp add: persist_manifest_def gets_def persist_file_free)
qed

lemma serves_persist:
  assumes "fault_free env" and "ready src s"
  shows "serves src s (persist_manifest env)" "serves src s (persist_metadata env)" "serves src s (persist_runtime_config env)"
proof -
  show "serves src s (persist_manifest env)"
    by (rule persist_manifest_free [OF assms(1), of s]) (auto intro: serves_keeps assms)
  obtain c where "ke_encode_metadata env (ks_metadata s) = Inr c" using fault_free_encodes(8) [OF assms(1)] by blast
  then show "serves src s (persist_metadata env)"
    using assms by (auto simp: persist_metadata_def gets_def persist_file_free intro!: serves_keeps)
  obtain c' where "ke_encode_runtime_config env (ks_runtime_config s) = Inr c'" using fault_free_encodes(7) [OF assms(1)] by blast
  then show "serves src s (persist_runtime_config env)"
    using assms by (auto simp: persist_runtime_config_def gets_def persist_file_free intro!: serves_keeps)
qed

lemma shallow_deliver:
  assumes "fault_free env" and "plain_call call" and "has_service (sc_target call) s"
  shows "shallow env call s =
    (Inr (), s\<lparr>ks_io := Suc (ks_io s),
       ks_services := hash_adjust (sc_target call) (\<lambda>h. h\<lparr>sh_inbox := sh_inbox h @ [call]\<rparr>) (ks_services s)\<rparr>)"
  using assms by (simp add: shallow_def plain_call_def is_kernel_iff gets_def deliver_def kask_def bnd_def upd_def fault_free_def)

lemma inbox_deliver:
  "inbox_of src (s\<lparr>ks_io := n, ks_services := hash_adjust target (\<lambda>h. h\<lparr>sh_inbox := sh_inbox h @ [call]\<rparr>) (ks_services s)\<rparr>) =
   (if src = target then map_option (\<lambda>xs. xs @ [call]) (inbox_of src s) else inbox_of src s)"
  by (simp add: inbox_of_def option.map_comp comp_def)

lemma serves_shallow:
  assumes "fault_free env" and "plain_call call" and "is_notice call" and "has_service (sc_target call) s" and "ready src s"
  shows "serves src s (shallow env call)"
proof -
  let ?t = "s\<lparr>ks_io := Suc (ks_io s),
       ks_services := hash_adjust (sc_target call) (\<lambda>h. h\<lparr>sh_inbox := sh_inbox h @ [call]\<rparr>) (ks_services s)\<rparr>"
  have "kernel_wf ?t" using kernel_wf_deliver [of "s\<lparr>ks_io := Suc (ks_io s)\<rparr>" "sc_target call"] assms(5) by (simp add: ready_def)
  then have "ready src ?t" using assms(5) by (auto simp: ready_def has_service_def)
  moreover have "notified src s ?t"
    unfolding notified_def inbox_deliver using assms(3)
    by (auto intro!: exI [of _ "[call]"] exI [of _ "[] :: service_call list"] )
  ultimately show ?thesis using shallow_deliver [OF assms(1,2,4)] by (auto simp: serves_def)
qed

lemma concludes_respond:
  assumes "fault_free env" and "ready src s"
  shows "concludes src rid s (respond env (shallow env) src rid response)"
proof -
  obtain p where p: "encode_kernel_response (ke_codec env) response = Inr p" using fault_free_encodes(1) [OF assms(1)] by blast
  let ?reply = "response_to kernel_addr src p rid"
  have src: "src \<noteq> kernel_addr" "has_service src s"
    using assms(2) by (auto simp: ready_def has_service_def kernel_wf_def handle_ok_def)
  obtain xs where xs: "inbox_of src s = Some xs" using ready_inbox [OF assms(2)] by blast
  have "respond env (shallow env) src rid response s = shallow env ?reply s"
    using p by (simp add: respond_def encoded_def map_err_def from_result_def bnd_def okM_def)
  also have "\<dots> = (Inr (), s\<lparr>ks_io := Suc (ks_io s),
      ks_services := hash_adjust src (\<lambda>h. h\<lparr>sh_inbox := sh_inbox h @ [?reply]\<rparr>) (ks_services s)\<rparr>)"
    using shallow_deliver [OF assms(1), of ?reply s] src by (simp add: plain_response response_to_def plain_call_def)
  finally show ?thesis
    by (rule concludesI [where ans = ?reply]) (simp_all add: xs inbox_deliver is_answer_def response_to_def)
qed

lemma notice_call_with: "call_with kernel_addr target r = Inr call \<Longrightarrow> is_notice call \<and> sc_target call = target"
  by (cases r) (auto simp: call_with_def is_notice_def service_call_new_def)

lemma serves_call_with:
  assumes "fault_free env" and "ready src s" and "r = Inr p" and "target \<noteq> kernel_addr" and "has_service target s"
  shows "serves src s (bnd (encoded (call_with kernel_addr target r)) (shallow env))"
proof -
  obtain call where call: "call_with kernel_addr target r = Inr call" using assms(3) by (simp add: call_with_def)
  then have "bnd (encoded (call_with kernel_addr target r)) (shallow env) s = shallow env call s"
    by (simp add: encoded_def map_err_def from_result_def bnd_def okM_def)
  then show ?thesis
    using serves_shallow [of env call s src] plain_call_with [OF call] notice_call_with [OF call] assms by (simp add: serves_def)
qed

lemma serves_stop:
  assumes "fault_free env" and "ready src s" and "addr \<noteq> src"
  shows "serves src s (stop_service_internal env (shallow env) addr reason True)"
  unfolding stop_service_internal_def
proof (intro serves_gets serves_andthen serves_when)
  show "ready src s" by fact
  obtain p where "encode_cron_request (ke_codec env) (DisableTasksForOwner addr reason) = Inr p"
    using fault_free_encodes(2) [OF assms(1)] by blast
  then show "serves src s (bnd (encoded (disable_tasks_for_owner_call (ke_codec env) kernel_addr cron_addr addr reason)) (shallow env))"
    if "True \<and> local_service_id ''agent'' addr \<noteq> None \<and> has_service cron_addr s"
    unfolding disable_tasks_for_owner_call_def using assms that
    by (intro serves_call_with) (auto simp: addr_defs)
next
  fix t
  assume t: "ready src t"
  let ?u = "t\<lparr>ks_services := hash_remove addr (ks_services t), ks_stop_signals := ks_stop_signals t @ [(addr, reason)]\<rparr>"
  have "kernel_wf ?u" using kernel_wf_remove [of t addr] t by (simp add: ready_def kernel_wf_def)
  then have u: "ready src ?u" "notified src t ?u"
    using t assms(3) by (auto simp: ready_def has_service_def inbox_of_def intro!: notified_inbox)
  have join: "serves src v (join_service env handle)" if "ready src v" for v handle
    using assms(1) that by (auto simp: join_service_def kask_def bnd_def okM_def fault_free_def intro!: serves_keeps)
  have "serves src ?u (andthen (join_service env handle) (when_act True (persist_manifest env)))" for handle
    by (rule serves_andthen) (auto simp: when_act_def intro: join u serves_persist assms)
  then have "serves src t (andthen (upd (\<lambda>s. s\<lparr>ks_services := hash_remove addr (ks_services s),
      ks_stop_signals := ks_stop_signals s @ [(addr, reason)]\<rparr>))
      (andthen (join_service env handle) (when_act True (persist_manifest env))))" for handle
    using noticed.R_trans [OF u(2)] unfolding serves_def by fastforce
  then show "serves src t (case hash_get addr (ks_services t) of None \<Rightarrow> okM ()
      | Some handle \<Rightarrow> andthen (upd (\<lambda>s. s\<lparr>ks_services := hash_remove addr (ks_services s),
          ks_stop_signals := ks_stop_signals s @ [(addr, reason)]\<rparr>))
          (andthen (join_service env handle) (when_act True (persist_manifest env))))"
    using t by (auto intro: serves_ok split: option.split)
qed

lemma serves_send_runtime_config:
  assumes "fault_free env" and "ready src s" and "has_service addr s" and "addr \<noteq> kernel_addr"
  shows "serves src s (send_runtime_config env (shallow env) (addr, kind))"
proof -
  have "serves src s (bnd (encoded call) (shallow env))" if call: "runtime_config_call env addr kind s = Some call" for call
  proof -
    obtain r p where "call = call_with kernel_addr addr r" "r = Inr p"
      using call fault_free_encodes(3-5) [OF assms(1)]
      by (cases kind) (fastforce simp: runtime_config_call_def update_launch_config_call_def
          workspace_runtime_config_call_def terminal_runtime_config_call_def)+
    then show ?thesis using assms by (auto intro: serves_call_with)
  qed
  then show ?thesis
    unfolding send_runtime_config_def using assms(2) by (auto intro!: serves_gets serves_ok split: option.split)
qed

definition same_keys :: "kernel_state \<Rightarrow> kernel_state \<Rightarrow> bool" where
  "same_keys s t \<longleftrightarrow> hash_keys (ks_services t) = hash_keys (ks_services s)"

interpretation keys: kernel_frame same_keys
  by unfold_locales (auto simp: same_keys_def)

lemma keys_send_runtime_config: "steps_in same_keys (send_runtime_config env (shallow env) target)"
proof -
  have "steps_in same_keys (shallow env call)" for call
    by (auto simp: shallow_def plain_call_def is_kernel_iff deliver_def same_keys_def
        intro!: keys.steps_ok keys.steps_gets keys.steps_bnd keys.steps_upd keys.frame_kask keys.frame_bail)
  then show ?thesis
    unfolding send_runtime_config_def
    by (auto intro!: keys.steps_gets keys.steps_bnd keys.steps_ok keys.frame_encoded split: prod.split option.split)
qed

lemma serves_mounted: "send_runtime_config env (shallow env) target s = (r, t) \<Longrightarrow> has_service addr t = has_service addr s"
  by (drule steps_inE [OF keys_send_runtime_config]) (simp add: same_keys_def has_service_def hash_get_keys del: not_None_eq)

lemma serves_broadcast:
  assumes "fault_free env" and "ready src s"
  shows "serves src s (broadcast_runtime_config_to_services env (shallow env))"
proof -
  have "serves src t (for_each (send_runtime_config env (shallow env)) targets)"
    if "ready src t" "\<forall>(addr, kind) \<in> set targets. has_service addr t \<and> addr \<noteq> kernel_addr" for t targets
    using that
  proof (induction targets arbitrary: t)
    case (Cons target targets)
    then show ?case
      using serves_mounted
      by (cases target) (fastforce intro!: serves_andthen serves_send_runtime_config assms(1))
  qed (simp add: serves_ok)
  then have "serves src s (for_each (send_runtime_config env (shallow env)) (runtime_config_targets s))"
    using targets_mounted [of s] assms(2) by (auto simp: ready_def)
  then show ?thesis
    unfolding broadcast_runtime_config_to_services_def Let_def
    by (intro serves_gets serves_andthen serves_ok)
qed

lemma serves_create:
  assumes "ready src s"
  shows "serves src s (catching (create_agent_session env source kind i requested))"
proof -
  obtain r t where create: "create_agent_session env source kind i requested s = (r, t)" by fastforce
  have "notified src s t" using steps_inE [OF noticed_create create] .
  moreover have "kernel_wf t" using steps_inE [OF wf.frame_create_agent_session create] assms by (simp add: keeps_wf_def ready_def)
  moreover have "has_service src t"
    using \<open>notified src s t\<close> ready_inbox [OF assms] by (auto simp: notified_def inbox_of_def has_service_def)
  moreover have "\<exists>x. catching (create_agent_session env source kind i requested) s = (Inr x, t)"
    using create avoidsD [OF overflow.avoids_create create] avoidsD [OF blocked.avoids_create create]
      avoidsD [OF panic.avoids_create create]
    by (auto simp: catching_def split: sum.split service_error.split)
  ultimately show ?thesis by (auto simp: serves_def ready_def)
qed

lemma serves_upd:
  "ready src s \<Longrightarrow> ks_services (f s) = ks_services s \<Longrightarrow> serves src s (upd f)"
  by (rule serves_keeps [of _ _ _ _ "f s"]) (simp_all add: upd_def)

lemma concludes_kernel_call:
  assumes "fault_free env" and "ready (sc_source call) s"
    and "\<And>reason. decode_kernel_request (ke_codec env) (sc_payload call) \<noteq> Inr (StopService (sc_source call) reason)"
  shows "concludes (sc_source call) (sc_request_id call) s (handle_kernel_call env (shallow env) call)"
proof -
  note replied = concludes_respond [OF assms(1)]
  show ?thesis
  proof (cases "decode_kernel_request (ke_codec env) (sc_payload call)")
    case (Inl e)
    then show ?thesis using assms by (simp add: handle_kernel_call_def reply_kernel_error_def replied)
  next
    case (Inr request)
    show ?thesis
    proof (cases request)
      case (CreateAgentSession kind i binding)
      then show ?thesis
        using Inr assms(2)
        by (auto simp: handle_kernel_call_def handle_create_agent_session_def reply_kernel_error_def
            intro!: concludes_bnd serves_create replied split: sum.split)
    next
      case (StopService addr reason)
      then have "addr \<noteq> sc_source call" using Inr assms(3) by auto
      then show ?thesis
        using Inr StopService assms(2)
        by (auto simp: handle_kernel_call_def handle_stop_service_def stop_service_def
            intro!: concludes_gets concludes_andthen serves_stop assms(1) replied)
    next
      case (UpdateRuntimeConfig patch)
      then show ?thesis
        using Inr assms(2)
        by (auto simp: handle_kernel_call_def handle_update_runtime_config_def
            intro!: concludes_gets concludes_andthen concludes_bnd serves_upd serves_persist serves_broadcast assms(1) replied)
    next
      case (UpdateMetadata patch)
      then show ?thesis
        using Inr assms(2)
        by (auto simp: handle_kernel_call_def handle_update_metadata_def
            intro!: concludes_gets concludes_andthen serves_upd serves_persist assms(1) replied)
    qed (use Inr assms(2) in \<open>auto simp: handle_kernel_call_def intro!: concludes_gets replied\<close>)
  qed
qed

end
