(* ===== verification/Kernel_Guarantees.thy ===== *)
theory Kernel_Guarantees
  imports Kernel_Routing
begin

text \<open>
  What the clients of the kernel may rely on: a table that stays well-formed from the start on,
  routing that always ends, one answer for each request; and the price of a message that cannot be
  delivered.
\<close>

section \<open>Stopping everything\<close>

lemma stop_quietly:
  assumes "\<forall>n. ke_join env n = Joined"
  shows "\<exists>t. stop_service_internal env d addr reason False s = (Inr (), t) \<and>
    ks_services t = hash_remove addr (ks_services s) \<and>
    ks_stop_signals t = ks_stop_signals s @ (if has_service addr s then [(addr, reason)] else [])"
proof (cases "hash_get addr (ks_services s)")
  case None
  then have "hash_remove addr (ks_services s) = ks_services s"
    by (force simp: hash_remove_def hash_get_def map_of_eq_None_iff intro!: filter_True)
  then show ?thesis using None by (simp add: stop_service_internal_def gets_def when_act_def has_service_def andthen_def bnd_def okM_def)
next
  case (Some handle)
  then show ?thesis
    using assms
    by (simp add: stop_service_internal_def gets_def when_act_def has_service_def andthen_def bnd_def okM_def upd_def
        join_service_def kask_def)
qed

lemma stop_each:
  assumes "\<forall>n. ke_join env n = Joined" and "distinct addrs" and "\<forall>addr \<in> set addrs. has_service addr s"
  shows "\<exists>t. for_each (\<lambda>addr. stop_service_internal env d addr reason False) addrs s = (Inr (), t) \<and>
    ks_services t = filter (\<lambda>(k, _). k \<notin> set addrs) (ks_services s) \<and>
    ks_stop_signals t = ks_stop_signals s @ map (\<lambda>addr. (addr, reason)) addrs"
  using assms(2,3)
proof (induction addrs arbitrary: s)
  case Nil
  then show ?case by (simp add: okM_def case_prod_unfold)
next
  case (Cons addr addrs)
  obtain t where t: "stop_service_internal env d addr reason False s = (Inr (), t)"
    "ks_services t = hash_remove addr (ks_services s)" "ks_stop_signals t = ks_stop_signals s @ [(addr, reason)]"
    using stop_quietly [OF assms(1), of d addr reason s] Cons.prems by auto
  have "\<forall>a \<in> set addrs. has_service a t" using Cons.prems t(2) by (auto simp: has_service_def)
  then obtain u where "for_each (\<lambda>addr. stop_service_internal env d addr reason False) addrs t = (Inr (), u)"
    "ks_services u = filter (\<lambda>(k, _). k \<notin> set addrs) (ks_services t)"
    "ks_stop_signals u = ks_stop_signals t @ map (\<lambda>addr. (addr, reason)) addrs"
    using Cons.IH [of t] Cons.prems by (auto simp del: for_each.simps)
  then show ?case
    using t by (auto simp: andthen_def bnd_def hash_remove_def case_prod_beta intro!: filter_cong)
qed

lemma stop_all_quietly:
  assumes "\<forall>n. ke_join env n = Joined" and "kernel_wf s"
  shows "\<exists>t. stop_all env reason s = (Inr (), t) \<and> ks_services t = [] \<and>
    ks_stop_signals t = ks_stop_signals s @ map (\<lambda>addr. (addr, reason)) (hash_keys (ks_services s))"
proof -
  have "distinct (hash_keys (ks_services s))" using assms(2) by (simp add: kernel_wf_def hash_wf_keys)
  moreover have "\<forall>addr \<in> set (hash_keys (ks_services s)). has_service addr s"
    using hash_get_keys by (fastforce simp: has_service_def)
  moreover have "filter (\<lambda>(k, _). k \<notin> set (hash_keys (ks_services s))) (ks_services s) = []"
    by (force simp: filter_empty_conv hash_keys_def)
  ultimately show ?thesis
    using stop_each [OF assms(1), of "hash_keys (ks_services s)" s "dispatch_call env (ke_stack_depth env)" reason]
    by (simp add: stop_all_def gets_def)
qed

lemma failed_output_ends:
  assumes "handle_output env out s = (Inl (Anyhow e), s)" and "\<forall>n. ke_join env n = Joined" and "kernel_wf s"
  shows "\<exists>t. kernel_run env (Output out # events) s = (Inl (Anyhow e), t) \<and> ks_services t = [] \<and>
    ks_stop_signals t = ks_stop_signals s @
      map (\<lambda>addr. (addr, ''conversation kernel failed: '' @ join '': '' e)) (hash_keys (ks_services s))"
proof -
  obtain t where t: "stop_all env (''conversation kernel failed: '' @ join '': '' e) s = (Inr (), t)" "ks_services t = []"
    "ks_stop_signals t = ks_stop_signals s @
      map (\<lambda>addr. (addr, ''conversation kernel failed: '' @ join '': '' e)) (hash_keys (ks_services s))"
    using stop_all_quietly [OF assms(2,3)] by blast
  have wf: "kernel_wf t" using t(2) by (simp add: kernel_wf_def)
  obtain u where u: "stop_all env ''conversation kernel dropped'' t = (Inr (), u)" "ks_services u = []"
    "ks_stop_signals u = ks_stop_signals t"
    using stop_all_quietly [OF assms(2) wf, of "''conversation kernel dropped''"] t(2) by (auto simp: hash_keys_def)
  have "kernel_loop env (Output out # events) s = (Inl (Anyhow e), t)"
    using assms(1) t(1) by (simp add: catching_def bnd_def errM_def)
  then have "kernel_run env (Output out # events) s = (Inl (Anyhow e), u)"
    using u(1) by (simp add: kernel_run_def dropping_def kernel_drop_def catching_def bnd_def andthen_def errM_def okM_def
        del: kernel_loop.simps)
  then show ?thesis using u t by simp
qed

section \<open>A sample kernel\<close>

definition sample_codec :: codec where
  "sample_codec =
     \<lparr>encode_kernel_request = (\<lambda>_. Inr JNull), decode_kernel_request = (\<lambda>_. Inr ListServices),
      encode_kernel_response = (\<lambda>_. Inr JNull), decode_kernel_response = (\<lambda>_. Inl []),
      encode_cron_request = (\<lambda>_. Inr JNull), decode_cron_request = (\<lambda>_. Inl []),
      encode_cron_response = (\<lambda>_. Inr JNull), encode_agent_request = (\<lambda>_. Inr JNull),
      encode_workspace_runtime_config = (\<lambda>_. Inr JNull), encode_terminal_runtime_config = (\<lambda>_. Inr JNull),
      agent_event_json = (\<lambda>_. JNull)\<rparr>"

definition sample_kernel_env :: kernel_env where
  "sample_kernel_env =
     \<lparr>ke_codec = sample_codec, ke_fs = (\<lambda>_. Fs_ok), ke_spawn_error = (\<lambda>_. None), ke_inbox_closed = (\<lambda>_. False),
      ke_join = (\<lambda>_. Joined), ke_encode_manifest = (\<lambda>_. Inr []), ke_decode_manifest = (\<lambda>_. Inl []),
      ke_encode_runtime_config = (\<lambda>_. Inr []), ke_decode_runtime_config = (\<lambda>_. Inl []),
      ke_encode_metadata = (\<lambda>_. Inr []), ke_decode_metadata = (\<lambda>_. Inl []), ke_stack_depth = 2\<rparr>"

definition sample_channel :: service_handle where
  "sample_channel =
     \<lparr>sh_addr = channel_id ''main'', sh_kind = Channel_kind, sh_storage = ''/w'', sh_service = Channel_service None,
      sh_inbox = []\<rparr>"

definition sample_kernel :: kernel_state where
  "sample_kernel =
     \<lparr>ks_conversation = \<lparr>cv_conversation_id = ''c'', cv_workdir = ''/w'', cv_conversation_root = ''/r''\<rparr>,
      ks_refs = [], ks_metadata = conversation_metadata_new ''c'' [] [], ks_runtime_config = for_conversation,
      ks_services = [(channel_id ''main'', sample_channel)], ks_status_log = [], ks_spawn_log = [],
      ks_next_background_id = 1, ks_next_subagent_id = 1, ks_stop_signals = [], ks_manifest_file = None,
      ks_runtime_config_file = None, ks_metadata_file = None, ks_io = 0\<rparr>"

lemma sample_fault_free: "fault_free sample_kernel_env"
  by (simp add: fault_free_def sample_kernel_env_def sample_codec_def)

lemma sample_kernel_wf: "kernel_wf sample_kernel"
  by (auto simp: kernel_wf_def sample_kernel_def sample_channel_def hash_wf_def hash_get_def handle_ok_def kind_ok_def addr_defs
      split: if_splits)

lemma sample_has_channel: "has_service (channel_id ''main'') sample_kernel"
  by (simp add: has_service_def sample_kernel_def hash_get_def)

section \<open>Properties\<close>

text \<open>
  C14. Routing ends: handling a call that does not come from the kernel itself never nests more than
  one call in another, so room for two is as good as room for any number, and the stack is never
  used up, whatever the services, files and threads do.
\<close>

theorem routing_terminates:
  assumes "kernel_wf s" and "sc_source call \<noteq> kernel_addr"
  shows "dispatch_call env (n + 2) call s = dispatch_call env 2 call s \<and>
         fst (dispatch_call env (n + 2) call s) \<noteq> Inl Stack_overflow"
proof -
  have shallow: "avoids Stack_overflow (handle_kernel_call env (shallow env) call)"
    "avoids Stack_overflow (deliver env call)" "avoids Stack_overflow (bail message :: unit kernel)"
    "avoids Stack_overflow (respond env (shallow env) target rid response)" for message target rid response
    by (auto intro: overflow.avoids_kernel_call shallow_returns overflow.avoids_deliver overflow.avoids_bail
        overflow.avoids_respond)
  note deep = dispatch_deep_enough [OF assms agree_shallow]
  have "dispatch_call env (Suc (Suc n)) call s = dispatch_call env (Suc (Suc 0)) call s" by (simp only: deep)
  moreover have "fst (dispatch_call env (Suc (Suc n)) call s) \<noteq> Inl Stack_overflow"
    unfolding deep using shallow by (simp add: avoids_def)
  ultimately show ?thesis by (simp only: numeral_2_eq_2 add_Suc_right add_0_right simp_thms)
qed

theorem routing_terminates_witness:
  "fst (dispatch_call sample_kernel_env 7 (service_call_new (channel_id ''main'') kernel_addr JNull) sample_kernel) \<noteq> Inl Stack_overflow"
proof -
  have "sc_source (service_call_new (channel_id ''main'') kernel_addr JNull) \<noteq> kernel_addr"
    by (simp add: service_call_new_def addr_defs)
  from routing_terminates [OF sample_kernel_wf this, of sample_kernel_env 5] show ?thesis
    by (simp del: dispatch_call.simps) (metis (no_types, lifting))
qed

text \<open>
  C11. Every request to the kernel is answered exactly once: when nothing around the kernel fails and
  the request is not to stop the requesting service itself, handling it succeeds, and the
  service receives some notices without identifiers and then one answer that carries the
  identifier of the request. That holds for requests that are refused or not understood, too.
\<close>

theorem kernel_answers_requests:
  assumes "fault_free env" and "kernel_wf s" and "has_service (sc_source call) s" and "sc_target call = kernel_addr"
    and "\<forall>reason. decode_kernel_request (ke_codec env) (sc_payload call) \<noteq> Inr (StopService (sc_source call) reason)"
  shows "\<exists>t notices ans. handle_output env (Call call) s = (Inr (), t) \<and>
    inbox_of (sc_source call) t = Some (the (inbox_of (sc_source call) s) @ notices @ [ans]) \<and>
    list_all is_notice notices \<and> is_answer (sc_source call) (sc_request_id call) ans"
proof -
  have ready: "ready (sc_source call) s" using assms by (simp add: ready_def)
  have src: "sc_source call \<noteq> kernel_addr"
    using assms by (auto simp: has_service_def kernel_wf_def handle_ok_def)
  obtain n where n: "ke_stack_depth env = Suc (Suc n)"
    using assms(1) le_Suc_ex [of 2 "ke_stack_depth env"] by (auto simp: fault_free_def)
  have "handle_output env (Call call) s = handle_kernel_call env (shallow env) call s"
    using dispatch_deep_enough [OF assms(2) src agree_shallow] assms(4)
    by (simp add: handle_output_def n is_kernel_iff del: dispatch_call.simps)
  then show ?thesis
    using concludes_kernel_call [OF assms(1) ready] assms(5) by (auto simp: concludes_def)
qed

theorem kernel_answers_requests_witness:
  "\<exists>t notices ans. handle_output sample_kernel_env
       (Call (with_request_id ''7'' (service_call_new (channel_id ''main'') kernel_addr JNull))) sample_kernel = (Inr (), t) \<and>
     inbox_of (channel_id ''main'') t = Some (notices @ [ans]) \<and> sc_response_id ans = Some ''7''"
proof -
  let ?call = "with_request_id ''7'' (service_call_new (channel_id ''main'') kernel_addr JNull)"
  have call: "sc_source ?call = channel_id ''main''" "sc_target ?call = kernel_addr" "sc_request_id ?call = Some ''7''"
    "sc_payload ?call = JNull"
    by (simp_all add: with_request_id_def service_call_new_def)
  have "\<forall>reason. decode_kernel_request (ke_codec sample_kernel_env) (sc_payload ?call) \<noteq> Inr (StopService (sc_source ?call) reason)"
    by (simp add: sample_kernel_env_def sample_codec_def)
  moreover have "inbox_of (channel_id ''main'') sample_kernel = Some []"
    by (simp add: inbox_of_def sample_kernel_def sample_channel_def hash_get_def)
  ultimately show ?thesis
    using kernel_answers_requests [OF sample_fault_free sample_kernel_wf, of ?call] sample_has_channel
    unfolding call is_answer_def by auto
qed

text \<open>
  C15. A message for a session that no longer runs ends the whole conversation: calls built by
  \<open>enqueue_message_call\<close> carry no request identifier, so the kernel has nobody to answer, fails,
  and stops every service.
\<close>

theorem undeliverable_message_ends_conversation:
  assumes "enqueue_message_call (ke_codec env) source target origin message ingress_id = Inr call"
    and "target \<noteq> kernel_addr" and "\<not> has_service target s" and "kernel_wf s"
    and "\<forall>n. ke_join env n = Joined" and "0 < ke_stack_depth env"
  shows "\<exists>t. kernel_run env (Output (Call call) # events) s =
      (Inl (Anyhow [''unknown service target '' @ addr_to_string target]), t) \<and> ks_services t = [] \<and>
    set (hash_keys (ks_services s)) \<subseteq> fst ` set (ks_stop_signals t)"
proof -
  obtain n where n: "ke_stack_depth env = Suc n" using assms(6) by (cases "ke_stack_depth env") auto
  have call: "sc_target call = target" "sc_request_id call = None"
    using assms(1) unfolding enqueue_message_call_def call_with_def
    by (cases "encode_agent_request (ke_codec env) (EnqueueMessage origin message ingress_id)"; auto simp: service_call_new_def)+
  have "handle_output env (Call call) s = (Inl (Anyhow [''unknown service target '' @ addr_to_string target]), s)"
    using assms(2,3) call by (simp add: handle_output_def n is_kernel_iff gets_def bail_def errM_def)
  from failed_output_ends [OF this assms(5,4), of events] show ?thesis by force
qed

theorem undeliverable_message_ends_conversation_witness:
  "\<exists>call t. enqueue_message_call (ke_codec sample_kernel_env) cron_addr (agent_foreground_id ''gone'') Actor_origin
       (chat_message_new ''m'' User []) None = Inr call \<and>
     kernel_run sample_kernel_env [Output (Call call)] sample_kernel =
       (Inl (Anyhow [''unknown service target local:agent/foreground/gone'']), t) \<and>
     ks_services t = []"
proof -
  let ?target = "agent_foreground_id ''gone''"
  obtain call where call: "enqueue_message_call (ke_codec sample_kernel_env) cron_addr ?target Actor_origin
      (chat_message_new ''m'' User []) None = Inr call"
    by (simp add: enqueue_message_call_def call_with_def sample_kernel_env_def sample_codec_def)
  have "\<not> has_service ?target sample_kernel"
    by (simp add: has_service_def sample_kernel_def hash_get_def addr_defs)
  moreover have "\<forall>n. ke_join sample_kernel_env n = Joined" "0 < ke_stack_depth sample_kernel_env" "?target \<noteq> kernel_addr"
    by (simp_all add: sample_kernel_env_def addr_defs)
  moreover have "addr_to_string ?target = ''local:agent/foreground/gone''"
    by (simp add: addr_to_string_def addr_defs)
  ultimately show ?thesis
    using undeliverable_message_ends_conversation [OF call _ _ sample_kernel_wf, of "[]"] call by auto
qed

end
