(* ===== verification/Kernel_Restart.thy ===== *)
theory Kernel_Restart
  imports Kernel_Guarantees "HOL-Library.Countable"
begin

text \<open>
  The manifest: what the kernel writes about its services while it runs, and what a later kernel
  makes of it, also when that one fails on the way.
\<close>

section \<open>The manifest and the table\<close>

definition table_entries :: "kernel_state \<Rightarrow> service_manifest_entry list" where
  "table_entries s = mf_services (current_manifest s)"

definition stored_entries :: "kernel_env \<Rightarrow> kernel_state \<Rightarrow> service_manifest_entry list option" where
  "stored_entries env s =
     (case ks_manifest_file s of
        None \<Rightarrow> Some []
      | Some content \<Rightarrow>
          (case ke_decode_manifest env content of Inl _ \<Rightarrow> None | Inr manifest \<Rightarrow> Some (mf_services manifest)))"

definition durable_table :: "kernel_env \<Rightarrow> kernel_state \<Rightarrow> bool" where
  "durable_table env s \<longleftrightarrow> stored_entries env s = Some (table_entries s)"

text \<open>The file system works and \<open>serde_json\<close> reads what it has written.\<close>

definition manifest_safe :: "kernel_env \<Rightarrow> bool" where
  "manifest_safe env \<longleftrightarrow>
     (\<forall>n. ke_fs env n = Fs_ok) \<and> (\<forall>m. \<exists>c. ke_encode_manifest env m = Inr c \<and> ke_decode_manifest env c = Inr m)"

definition kind_at :: "kernel_state \<Rightarrow> service_addr \<Rightarrow> service_kind option" where
  "kind_at s addr = map_option sh_kind (hash_get addr (ks_services s))"

lemma table_entries_cong: "ks_services t = ks_services s \<Longrightarrow> table_entries t = table_entries s"
  by (simp add: table_entries_def current_manifest_def)

lemma set_table_entries: "set (table_entries s) = manifest_entry ` set (hash_values (ks_services s))"
  by (simp add: table_entries_def current_manifest_def)

lemma table_entries_deliver:
  "table_entries (s\<lparr>ks_services := hash_adjust addr (\<lambda>h. h\<lparr>sh_inbox := f h\<rparr>) (ks_services s)\<rparr>) = table_entries s"
proof -
  have "map manifest_entry (hash_values (hash_adjust addr (\<lambda>h. h\<lparr>sh_inbox := f h\<rparr>) m)) = map manifest_entry (hash_values m)" for m
    by (induction m) (auto simp: hash_values_def hash_adjust_def manifest_entry_def)
  then show ?thesis by (simp add: table_entries_def current_manifest_def)
qed

lemma wf_table_entries:
  assumes "kernel_wf s"
  shows "(\<exists>e \<in> set (table_entries s). me_addr e = addr \<and> me_kind e = kind) \<longleftrightarrow> kind_at s addr = Some kind"
proof
  assume "\<exists>e \<in> set (table_entries s). me_addr e = addr \<and> me_kind e = kind"
  then obtain a handle where h: "(a, handle) \<in> set (ks_services s)" "sh_addr handle = addr" "sh_kind handle = kind"
    by (auto simp: set_table_entries manifest_entry_def hash_values_def)
  then have get: "hash_get a (ks_services s) = Some handle" using assms by (auto simp: kernel_wf_def intro: hash_get_in)
  then have "a = addr" using assms h(2) by (auto simp: kernel_wf_def handle_ok_def)
  then show "kind_at s addr = Some kind" using get h(3) by (simp add: kind_at_def)
next
  assume "kind_at s addr = Some kind"
  then obtain handle where h: "hash_get addr (ks_services s) = Some handle" "sh_kind handle = kind" by (auto simp: kind_at_def)
  then have "handle \<in> set (hash_values (ks_services s))" "sh_addr handle = addr"
    using assms by (auto simp: hash_values_def kernel_wf_def handle_ok_def dest!: hash_get_Some_in intro: rev_image_eqI)
  then show "\<exists>e \<in> set (table_entries s). me_addr e = addr \<and> me_kind e = kind"
    using h(2) by (auto simp: set_table_entries manifest_entry_def)
qed

section \<open>Relations\<close>

definition same_table :: "kernel_state \<Rightarrow> kernel_state \<Rightarrow> bool" where
  "same_table s t \<longleftrightarrow> ks_services t = ks_services s \<and> ks_spawn_log t = ks_spawn_log s"

interpretation table: kernel_manifest_frame same_table
  by unfold_locales (auto simp: same_table_def)

definition unmounted :: "kernel_state \<Rightarrow> kernel_state \<Rightarrow> bool" where
  "unmounted s t \<longleftrightarrow> ks_services t = ks_services s \<and> ks_spawn_log t = ks_spawn_log s \<and> ks_manifest_file t = ks_manifest_file s"

interpretation unmounted: kernel_frame unmounted
  by unfold_locales (auto simp: unmounted_def)

text \<open>What is on disk and in the log survives a shutdown.\<close>

definition same_record :: "kernel_state \<Rightarrow> kernel_state \<Rightarrow> bool" where
  "same_record s t \<longleftrightarrow> ks_spawn_log t = ks_spawn_log s \<and> ks_manifest_file t = ks_manifest_file s"

interpretation recorded: kernel_frame same_record
  by unfold_locales (auto simp: same_record_def)

lemma record_stop_all: "steps_in same_record (stop_all env reason)"
  unfolding stop_all_def stop_service_internal_def
  by (auto simp: when_act_def same_record_def
      intro!: recorded.steps_gets recorded.steps_for_each recorded.steps_andthen recorded.steps_ok recorded.steps_upd
        recorded.frame_join_service split: option.split)

lemma record_drop: "steps_in same_record (kernel_drop env)"
  unfolding kernel_drop_def by (intro recorded.steps_bnd recorded.frame_catching record_stop_all recorded.steps_ok)

lemma record_dropping: "same_record (snd (m s)) (snd (dropping env kept m s))"
proof -
  have "same_record (snd (catching m s)) (snd (dropping env kept m s))"
    unfolding dropping_def
    by (rule recorded.bnd_after) (auto intro!: recorded.steps_ok recorded.steps_andthen recorded.steps_err record_drop split: sum.split)
  then show ?thesis by simp
qed

lemma record_shutdown: "steps_in same_record (kernel_run env [Shutdown_input reason])"
proof (rule steps_inI)
  fix s
  have "steps_in same_record (kernel_loop env [Shutdown_input reason])"
    by (auto intro!: recorded.steps_andthen record_stop_all recorded.steps_ok)
  then show "same_record s (snd (kernel_run env [Shutdown_input reason] s))"
    unfolding kernel_run_def by (rule recorded.R_trans [OF steps_inD [of same_record] record_dropping])
qed

section \<open>Mounting\<close>

lemma persist_manifest_safe:
  assumes "manifest_safe env"
  shows "\<exists>t. persist_manifest env s = (Inr (), t) \<and> durable_table env t"
proof -
  obtain c where c: "ke_encode_manifest env (current_manifest s) = Inr c" "ke_decode_manifest env c = Inr (current_manifest s)"
    using assms by (auto simp: manifest_safe_def)
  then show ?thesis
    using assms
    by (simp add: persist_manifest_def persist_file_def gets_def andthen_def bnd_def fs_do_def fs_put_def fs_context_def map_err_def
        from_result_def okM_def upd_def kask_def manifest_safe_def durable_table_def stored_entries_def table_entries_def
        current_manifest_def)
qed

text \<open>A mount changes nothing of the record, or it adds the service to the table, the log and the file.\<close>

definition mounts :: "kernel_env \<Rightarrow> service_addr \<Rightarrow> service_kind \<Rightarrow> kernel_state \<Rightarrow> kernel_state \<Rightarrow> bool" where
  "mounts env addr kind s t \<longleftrightarrow>
     \<not> has_service addr s \<and> durable_table env t \<and>
     (\<exists>handle. sh_addr handle = addr \<and> sh_kind handle = kind \<and> ks_services t = hash_insert addr handle (ks_services s) \<and>
        ks_spawn_log t = ks_spawn_log s @ [manifest_entry handle])"

lemma insert_persist_mounts:
  assumes "manifest_safe env" and "\<not> has_service addr s" and "unmounted s u"
  shows "\<exists>t. andthen (upd (insert_handle addr kind service)) (persist_manifest env) u = (Inr (), t) \<and> mounts env addr kind s t"
proof -
  let ?v = "insert_handle addr kind service u"
  obtain t where t: "persist_manifest env ?v = (Inr (), t)" "durable_table env t" using persist_manifest_safe [OF assms(1)] by blast
  have "same_table ?v t" using steps_inE [OF table.frame_persist_manifest t(1)] .
  then have "mounts env addr kind s t"
    using assms(2,3) t(2) unfolding mounts_def
    by (auto simp: same_table_def unmounted_def insert_handle_def manifest_entry_def
        intro!: exI [of _ "\<lparr>sh_addr = addr, sh_kind = kind, sh_storage = service_storage addr u, sh_service = service, sh_inbox = []\<rparr>"])
  then show ?thesis using t(1) by auto
qed

lemma mount_outcome:
  assumes "manifest_safe env" and run: "mount_service env addr kind s = (r, t)"
  shows "(r = Inr () \<and> mounts env addr kind s t) \<or> ((\<exists>e. r = Inl e) \<and> unmounted s t)"
proof -
  define pre where "pre = andthen (ensure_agent_session_nickname env addr kind)
      (gets (\<lambda>s. fs_do env (''failed to create service storage '' @ service_storage addr s)))"
  let ?service = "build_service addr kind s"
  show ?thesis
  proof (cases "is_kernel addr \<or> has_service addr s")
    case True
    then have "\<exists>e. mount_service env addr kind s = (Inl e, s)"
      by (cases "is_kernel addr") (auto simp: mount_service_def mount_service_instance_def gets_def bail_def errM_def)
    then show ?thesis using run by (auto simp: unmounted.R_refl)
  next
    case False
    obtain r' u where pre: "pre s = (r', u)" by fastforce
    have "steps_in unmounted pre"
      unfolding pre_def by (intro unmounted.steps_andthen unmounted.frame_nickname unmounted.steps_gets unmounted.frame_fs_do)
    then have u: "unmounted s u" using pre by (rule steps_inE)
    then have u': "unmounted s (u\<lparr>ks_io := Suc (ks_io u)\<rparr>)" by (simp add: unmounted_def)
    have free: "is_kernel addr = False" "has_service addr s = False" using False by simp_all
    have inst: "mount_service env addr kind s = andthen pre (bnd (kask (ke_spawn_error env)) (\<lambda>r. case r of
        Some e \<Rightarrow> errM (Anyhow [''failed to spawn conversation service'', e])
      | None \<Rightarrow> andthen (upd (insert_handle addr kind ?service)) (persist_manifest env))) s"
      by (simp only: mount_service_def mount_service_instance_def gets_apply pre_def andthen_assoc free if_False)
    have "(r, t) = (case r' of Inl e \<Rightarrow> (Inl e, u) | Inr _ \<Rightarrow>
        (case ke_spawn_error env (ks_io u) of
           Some e \<Rightarrow> (Inl (Anyhow [''failed to spawn conversation service'', e]), u\<lparr>ks_io := Suc (ks_io u)\<rparr>)
         | None \<Rightarrow> andthen (upd (insert_handle addr kind ?service)) (persist_manifest env) (u\<lparr>ks_io := Suc (ks_io u)\<rparr>)))"
      using run pre unfolding inst
      by (cases r'; cases "ke_spawn_error env (ks_io u)") (auto simp: andthen_def [of pre] bnd_def kask_def errM_def)
    then show ?thesis
      using u u' insert_persist_mounts [OF assms(1) _ u', of addr kind ?service] False
      by (auto split: sum.splits option.splits)
  qed
qed

section \<open>The table stays durable\<close>

definition keeps_durable :: "kernel_env \<Rightarrow> kernel_state \<Rightarrow> kernel_state \<Rightarrow> bool" where
  "keeps_durable env s t \<longleftrightarrow> (durable_table env s \<longrightarrow> durable_table env t)"

lemma unmounted_durable: "unmounted s t \<Longrightarrow> durable_table env t = durable_table env s"
  by (simp add: unmounted_def durable_table_def stored_entries_def table_entries_def current_manifest_def)

lemma unmounted_upd:
  "unmounted s (s\<lparr>ks_io := n\<rparr>)" "unmounted s (s\<lparr>ks_metadata := m\<rparr>)" "unmounted s (s\<lparr>ks_metadata_file := f\<rparr>)"
  "unmounted s (s\<lparr>ks_runtime_config := c\<rparr>)" "unmounted s (s\<lparr>ks_runtime_config_file := f\<rparr>)"
  "unmounted s (s\<lparr>ks_next_background_id := a\<rparr>)" "unmounted s (s\<lparr>ks_next_subagent_id := a\<rparr>)"
  "unmounted s (s\<lparr>ks_status_log := l\<rparr>)"
  by (simp_all add: unmounted_def)

interpretation durable: kernel_frame "keeps_durable env" for env
  by unfold_locales (auto simp: keeps_durable_def unmounted_durable [OF unmounted_upd(1)] unmounted_durable [OF unmounted_upd(2)]
      unmounted_durable [OF unmounted_upd(3)] unmounted_durable [OF unmounted_upd(4)] unmounted_durable [OF unmounted_upd(5)])

lemma durable_mount: "manifest_safe env \<Longrightarrow> steps_in (keeps_durable env) (mount_service env addr kind)"
proof (rule steps_inI)
  fix s
  assume safe: "manifest_safe env"
  obtain r t where run: "mount_service env addr kind s = (r, t)" by fastforce
  show "keeps_durable env s (snd (mount_service env addr kind s))"
    using mount_outcome [OF safe run] run by (auto simp: keeps_durable_def mounts_def unmounted_durable)
qed

lemma durable_create: "manifest_safe env \<Longrightarrow> steps_in (keeps_durable env) (create_agent_session env source kind i requested)"
proof -
  assume "manifest_safe env"
  moreover have "steps_in (keeps_durable env) (new_session_addr source kind i)"
    unfolding new_session_addr_def
    by (cases kind; cases i) (auto simp: keeps_durable_def unmounted_durable [OF unmounted_upd(6)] unmounted_durable [OF unmounted_upd(7)]
        intro!: durable.steps_ok durable.steps_gets durable.steps_andthen durable.steps_upd)
  ultimately show ?thesis
    unfolding create_agent_session_def
    by (auto intro!: durable.steps_gets durable.steps_bnd durable.steps_andthen durable.steps_ok durable.frame_bail
        durable_mount split: sum.split)
qed

abbreviation stays_durable :: "kernel_env \<Rightarrow> 'a kernel \<Rightarrow> bool" where
  "stays_durable env m \<equiv> leads (durable_table env) m (durable_table env)"

lemma leads_keeps: "steps_in (keeps_durable env) m \<Longrightarrow> stays_durable env m"
  by (rule leads_frame) (simp add: steps_in_def keeps_durable_def)

lemma durable_upd: "(\<And>s. unmounted s (f s)) \<Longrightarrow> stays_durable env (upd f)"
  using unmounted_durable by (intro leads_upd) blast

lemma durable_persist: "manifest_safe env \<Longrightarrow> leads P (persist_manifest env) (durable_table env)"
proof (rule leadsI)
  fix s x t
  assume "manifest_safe env" "persist_manifest env s = (Inr x, t)"
  then show "durable_table env t" using persist_manifest_safe [of env s] by auto
qed

lemma durable_deliver: "stays_durable env (deliver env call)"
proof -
  have "durable_table env (s\<lparr>ks_services := hash_adjust addr (\<lambda>h. h\<lparr>sh_inbox := f h\<rparr>) (ks_services s)\<rparr>)"
    if "durable_table env s" for s addr f
    using that by (simp add: durable_table_def table_entries_deliver) (simp add: stored_entries_def)
  then show ?thesis
    unfolding deliver_def
    by (intro leads_keeps durable.steps_bnd durable.frame_kask)
      (auto simp: keeps_durable_def intro!: durable.steps_upd durable.frame_bail)
qed

lemma durable_gets: "(\<And>s. stays_durable env (f s)) \<Longrightarrow> stays_durable env (gets f)"
  by (auto simp: leads_def gets_def)

lemma durable_bnd: "stays_durable env m \<Longrightarrow> (\<And>x. stays_durable env (f x)) \<Longrightarrow> stays_durable env (bnd m f)"
  by (rule leads_bnd)

lemma durable_andthen: "stays_durable env m \<Longrightarrow> stays_durable env n \<Longrightarrow> stays_durable env (andthen m n)"
  by (rule leads_andthen)

lemmas durable_rules = durable_gets durable_bnd durable_andthen leads_keeps [OF durable.frame_encoded]
  leads_keeps [OF durable.frame_persist_metadata] leads_keeps [OF durable.frame_persist_runtime_config]
  leads_keeps [OF durable.frame_bail] leads_keeps [OF durable.frame_join_service] leads_ok durable_upd

lemma durable_removed:
  assumes "manifest_safe env"
  shows "leads P (andthen (upd f) (andthen (join_service env handle) (persist_manifest env))) (durable_table env)"
  by (intro leads_andthen [where Q = "\<lambda>_. True"] durable_persist assms) (simp_all add: leads_def)

lemma durable_respond: "(\<And>call. stays_durable env (d call)) \<Longrightarrow> stays_durable env (respond env d target rid response)"
  unfolding respond_def by (intro durable_rules) auto

lemma durable_stop:
  assumes "manifest_safe env" and "\<And>call. stays_durable env (d call)"
  shows "stays_durable env (stop_service env d addr reason)"
  unfolding stop_service_def stop_service_internal_def when_act_def
  by (auto intro!: durable_gets durable_andthen durable_bnd leads_keeps [OF durable.frame_encoded] leads_ok assms
      durable_removed [OF assms(1)] split: option.split)

lemma durable_broadcast:
  "(\<And>call. stays_durable env (d call)) \<Longrightarrow> stays_durable env (broadcast_runtime_config_to_services env d)"
  unfolding broadcast_runtime_config_to_services_def send_runtime_config_def Let_def
  by (auto intro!: durable_rules leads_for_each split: prod.split option.split)

lemma durable_kernel_call:
  assumes "manifest_safe env" and "\<And>call. stays_durable env (d call)"
  shows "stays_durable env (handle_kernel_call env d call)"
  unfolding handle_kernel_call_def handle_create_agent_session_def handle_stop_service_def
    handle_update_runtime_config_def handle_update_metadata_def reply_kernel_error_def
  by (auto intro!: durable_gets durable_bnd durable_andthen durable_upd durable_respond durable_stop durable_broadcast
      leads_keeps [OF durable.frame_catching] durable_create leads_keeps [OF durable.frame_persist_metadata]
      leads_keeps [OF durable.frame_persist_runtime_config] unmounted_upd assms
      split: sum.split kernel_request.split)

lemma durable_dispatch: "manifest_safe env \<Longrightarrow> stays_durable env (dispatch_call env n call)"
proof (induction n arbitrary: call)
  case (Suc n)
  then show ?case
    by (auto intro!: durable_kernel_call durable_gets durable_deliver durable_respond leads_keeps [OF durable.frame_bail])
qed (auto intro: leads_err)

lemma durable_output: "manifest_safe env \<Longrightarrow> stays_durable env (handle_output env out)"
  unfolding handle_output_def handle_stopped_def
  by (cases out)
    (auto intro!: durable_dispatch durable_upd unmounted_upd leads_keeps [OF durable.frame_bail] durable_andthen durable_gets
      leads_ok durable_removed split: option.split)

lemma durable_loop:
  "manifest_safe env \<Longrightarrow> kernel_loop env events s = (Inr True, t) \<Longrightarrow> durable_table env s \<Longrightarrow> durable_table env t"
proof (induction env events arbitrary: s rule: kernel_loop.induct)
  case (5 env out rest)
  obtain r u where run: "handle_output env out s = (r, u)" by fastforce
  with 5 show ?case
    using leadsD [OF durable_output [OF 5(2)] 5(4)]
    by (cases r) (auto simp: bnd_def catching_def errM_def split: service_error.splits prod.splits sum.splits)
qed (auto simp: okM_def andthen_ok)

lemma kernel_run_running: "kernel_run env events s = (Inr True, t) \<Longrightarrow> kernel_loop env events s = (Inr True, t)"
  by (cases "kernel_loop env events s")
    (auto simp: kernel_run_def dropping_def bnd_def catching_def okM_def andthen_ok errM_def
      split: sum.splits service_error.splits if_splits prod.splits)

section \<open>Opening\<close>

lemma mounts_kind:
  "mounts env addr kind s t \<Longrightarrow> kind_at s addr = None \<and> kind_at t = (kind_at s)(addr := Some kind)"
  by (auto simp: mounts_def kind_at_def has_service_def fun_eq_iff)

lemma mounted_entries:
  assumes "manifest_safe env" and "for_each (\<lambda>e. mount_service env (me_addr e) (me_kind e)) entries s = (Inr (), t)"
  shows "kind_at t addr = Some kind \<longleftrightarrow>
    kind_at s addr = Some kind \<or> (\<exists>e \<in> set entries. me_addr e = addr \<and> me_kind e = kind)"
  using assms(2)
proof (induction entries arbitrary: s)
  case (Cons e entries)
  then obtain u where u: "mount_service env (me_addr e) (me_kind e) s = (Inr (), u)"
    "for_each (\<lambda>e. mount_service env (me_addr e) (me_kind e)) entries u = (Inr (), t)"
    by (auto simp: andthen_ok)
  have "mounts env (me_addr e) (me_kind e) s u" using mount_outcome [OF assms(1) u(1)] by auto
  then have "kind_at u addr = Some kind \<longleftrightarrow> kind_at s addr = Some kind \<or> me_addr e = addr \<and> me_kind e = kind"
    by (auto dest!: mounts_kind split: if_splits)
  then show ?case using Cons.IH [OF u(2)] by auto
qed (simp add: okM_def)

lemma mounted_standard:
  assumes "manifest_safe env"
    and "for_each (\<lambda>(addr, kind). gets (\<lambda>s. if has_service addr s then okM () else mount_service env addr kind)) services s = (Inr (), t)"
  shows "(kind_at s addr = Some kind \<longrightarrow> kind_at t addr = Some kind) \<and>
    (kind_at t addr = Some kind \<longrightarrow> kind_at s addr = Some kind \<or> (addr, kind) \<in> set services)"
  using assms(2)
proof (induction services arbitrary: s)
  case (Cons service services)
  obtain a k where service: "service = (a, k)" by fastforce
  then obtain u where u: "gets (\<lambda>s. if has_service a s then okM () else mount_service env a k) s = (Inr (), u)"
    "for_each (\<lambda>(addr, kind). gets (\<lambda>s. if has_service addr s then okM () else mount_service env addr kind)) services u = (Inr (), t)"
    using Cons.prems by (auto simp: andthen_ok)
  have "u = s \<or> mounts env a k s u"
    using u(1) mount_outcome [OF assms(1), of a k s "Inr ()" u] by (auto simp: gets_apply okM_def split: if_splits)
  then have "(kind_at s addr = Some kind \<longrightarrow> kind_at u addr = Some kind) \<and>
      (kind_at u addr = Some kind \<longrightarrow> kind_at s addr = Some kind \<or> (addr, kind) = (a, k))"
    by (auto dest!: mounts_kind split: if_splits)
  then show ?case using Cons.IH [OF u(2)] service by auto
qed (simp add: okM_def)

text \<open>What a successful opening does with the manifest it finds.\<close>

lemma dropping_ok: "dropping env (\<lambda>_. True) m s = (Inr x, t) \<longleftrightarrow> m s = (Inr x, t)"
  by (cases "m s") (auto simp: dropping_def bnd_def catching_def okM_def errM_def andthen_def split: sum.splits service_error.splits prod.splits)

lemma opened:
  assumes "open_or_bootstrap env conversation refs defaults s = (Inr (), v)"
  obtains u w where "unmounted (kernel_new conversation refs s) u" "mount_manifest env u = (Inr (), w)"
    "mount_standard_services env w = (Inr (), v)"
proof -
  obtain a u w where run: "open_metadata env (kernel_new conversation refs s) = (Inr (), a)"
    "open_runtime_config env defaults a = (Inr (), u)" "mount_manifest env u = (Inr (), w)"
    "mount_standard_services env w = (Inr (), v)"
    using assms unfolding open_or_bootstrap_def dropping_ok by (auto simp: andthen_ok [of "upd _"] andthen_ok upd_def)
  have "unmounted (kernel_new conversation refs s) u"
    using unmounted.R_trans [OF steps_inE [OF unmounted.frame_open_metadata run(1)]
      steps_inE [OF unmounted.frame_open_runtime_config run(2)]] .
  then show ?thesis using that run by blast
qed

lemma mount_manifest_ok:
  assumes "mount_manifest env u = (Inr (), w)"
  obtains entries u' where "stored_entries env u = Some entries" "unmounted u u'"
    "for_each (\<lambda>e. mount_service env (me_addr e) (me_kind e)) entries u' = (Inr (), w)"
proof (cases "ks_manifest_file u")
  case None
  then show ?thesis using assms that [of "[]" u] by (simp add: mount_manifest_def gets_apply stored_entries_def okM_def unmounted.R_refl)
next
  case (Some content)
  then obtain m x where load: "load_manifest env content u = (Inr m, x)"
    and rest: "for_each (\<lambda>e. mount_service env (me_addr e) (me_kind e)) (mf_services m)
      (x\<lparr>ks_next_background_id := max (mf_next_background_id m) 1, ks_next_subagent_id := max (mf_next_subagent_id m) 1\<rparr>) = (Inr (), w)"
    using assms by (auto simp: mount_manifest_def gets_apply bnd_ok)
  have "unmounted u x" using steps_inE [OF unmounted.frame_load(1) load] .
  then show ?thesis
    using that [OF _ _ rest] load_manifest_ok [OF load] Some by (simp add: stored_entries_def unmounted_def)
qed

lemma opened_kinds:
  assumes "manifest_safe env" and "open_or_bootstrap env conversation refs defaults s = (Inr (), v)"
  obtains entries where "stored_entries env s = Some entries"
    "\<And>addr kind. \<exists>e \<in> set entries. me_addr e = addr \<and> me_kind e = kind \<Longrightarrow> kind_at v addr = Some kind"
    "\<And>addr kind. kind_at v addr = Some kind \<Longrightarrow>
       (\<exists>e \<in> set entries. me_addr e = addr \<and> me_kind e = kind) \<or> (addr, kind) \<in> set standard_services"
proof -
  obtain u w where run: "unmounted (kernel_new conversation refs s) u" "mount_manifest env u = (Inr (), w)"
    "mount_standard_services env w = (Inr (), v)"
    using opened [OF assms(2)] .
  obtain entries u' where m: "stored_entries env u = Some entries" "unmounted u u'"
    "for_each (\<lambda>e. mount_service env (me_addr e) (me_kind e)) entries u' = (Inr (), w)"
    using mount_manifest_ok [OF run(2)] .
  have on_disk: "stored_entries env s = Some entries"
    using m(1) run(1) by (simp add: unmounted_def stored_entries_def kernel_new_def)
  have none: "kind_at u' addr = None" for addr
    using run(1) m(2) by (simp add: unmounted_def kernel_new_def kind_at_def)
  show ?thesis
    using that [OF on_disk] mounted_entries [OF assms(1) m(3)] mounted_standard [OF assms(1) run(3) [unfolded mount_standard_services_def]] none
    by auto
qed

lemma opened_durable:
  assumes "manifest_safe env" and "open_or_bootstrap env conversation refs defaults s = (Inr (), v)"
  shows "durable_table env v"
proof -
  obtain u w where run: "unmounted (kernel_new conversation refs s) u" "mount_manifest env u = (Inr (), w)"
    "mount_standard_services env w = (Inr (), v)"
    using opened [OF assms(2)] .
  obtain entries u' where m: "stored_entries env u = Some entries" "unmounted u u'"
    "for_each (\<lambda>e. mount_service env (me_addr e) (me_kind e)) entries u' = (Inr (), w)"
    using mount_manifest_ok [OF run(2)] .
  have "durable_table env w"
  proof (cases entries)
    case Nil
    then have "durable_table env u" using m(1) run(1)
      by (simp add: durable_table_def table_entries_def current_manifest_def unmounted_def kernel_new_def hash_values_def)
    then show ?thesis using m Nil unmounted_durable [OF m(2)] by (simp add: okM_def)
  next
    case (Cons e es)
    then obtain x where x: "mount_service env (me_addr e) (me_kind e) u' = (Inr (), x)"
      "for_each (\<lambda>e. mount_service env (me_addr e) (me_kind e)) es x = (Inr (), w)"
      using m(3) by (auto simp: andthen_ok)
    have "durable_table env x" using mount_outcome [OF assms(1) x(1)] by (auto simp: mounts_def)
    moreover have keep: "steps_in (keeps_durable env) (for_each (\<lambda>e. mount_service env (me_addr e) (me_kind e)) es)"
      by (intro durable.steps_for_each durable_mount assms(1))
    ultimately show ?thesis using steps_inE [OF keep x(2)] by (simp add: keeps_durable_def)
  qed
  moreover have keep: "steps_in (keeps_durable env) (mount_standard_services env)"
    unfolding mount_standard_services_def
    by (auto intro!: durable.steps_for_each durable.steps_gets durable.steps_ok durable_mount assms(1))
  ultimately show ?thesis using steps_inE [OF keep run(3)] by (simp add: keeps_durable_def)
qed

section \<open>An opening that fails\<close>

text \<open>As long as nothing is stopped, the log of started services lists the table.\<close>

definition logged :: "kernel_env \<Rightarrow> kernel_state \<Rightarrow> bool" where
  "logged env s \<longleftrightarrow>
     mset (table_entries s) = mset (ks_spawn_log s) \<and> (ks_spawn_log s \<noteq> [] \<longrightarrow> durable_table env s)"

definition keeps_logged :: "kernel_env \<Rightarrow> kernel_state \<Rightarrow> kernel_state \<Rightarrow> bool" where
  "keeps_logged env s t \<longleftrightarrow> (logged env s \<longrightarrow> logged env t)"

lemma unmounted_logged: "unmounted s t \<Longrightarrow> logged env t = logged env s"
  using table_entries_cong [of t s] unmounted_durable [of s t env] by (simp add: logged_def unmounted_def)

interpretation logged: kernel_frame "keeps_logged env" for env
  by unfold_locales (auto simp: keeps_logged_def unmounted_logged [OF unmounted_upd(1)] unmounted_logged [OF unmounted_upd(2)]
      unmounted_logged [OF unmounted_upd(3)] unmounted_logged [OF unmounted_upd(4)] unmounted_logged [OF unmounted_upd(5)])

lemma mset_table_entries: "mset (table_entries s) = image_mset (manifest_entry \<circ> snd) (mset (ks_services s))"
  by (simp add: table_entries_def current_manifest_def hash_values_def comp_def)

lemma mounts_logged: "mounts env addr kind s t \<Longrightarrow> logged env s \<Longrightarrow> logged env t"
proof -
  assume m: "mounts env addr kind s t" and l: "logged env s"
  then obtain handle where h: "ks_services t = hash_insert addr handle (ks_services s)"
    "ks_spawn_log t = ks_spawn_log s @ [manifest_entry handle]" "durable_table env t"
    by (auto simp: mounts_def)
  have "hash_remove addr (ks_services s) = ks_services s"
    using m by (force simp: mounts_def has_service_def hash_remove_def hash_get_def map_of_eq_None_iff intro!: filter_True)
  then have "ks_services t = (addr, handle) # ks_services s" using h(1) by (simp add: hash_insert_def)
  then show ?thesis using h l by (simp add: logged_def mset_table_entries)
qed

lemma logged_mount: "manifest_safe env \<Longrightarrow> steps_in (keeps_logged env) (mount_service env addr kind)"
proof (rule steps_inI)
  fix s
  assume safe: "manifest_safe env"
  obtain r t where run: "mount_service env addr kind s = (r, t)" by fastforce
  show "keeps_logged env s (snd (mount_service env addr kind s))"
    using mount_outcome [OF safe run] run by (auto simp: keeps_logged_def unmounted_logged intro: mounts_logged)
qed

lemma logged_open:
  assumes "manifest_safe env"
  shows "steps_in (keeps_logged env) (andthen (open_metadata env) (andthen (open_runtime_config env defaults)
      (andthen (mount_manifest env) (mount_standard_services env))))"
proof -
  have "steps_in (keeps_logged env) (upd (\<lambda>s. s\<lparr>ks_next_background_id := a, ks_next_subagent_id := b\<rparr>))" for a b
    using unmounted_logged [OF unmounted.R_trans [OF unmounted_upd(6) unmounted_upd(7)]]
    by (intro logged.steps_upd) (simp add: keeps_logged_def)
  then show ?thesis
    unfolding mount_manifest_def mount_standard_services_def
    by (auto intro!: logged.steps_andthen logged.steps_gets logged.steps_bnd logged.steps_for_each logged.steps_ok
        logged.frame_open_metadata logged.frame_open_runtime_config logged.frame_load logged_mount assms split: option.split)
qed

lemma logged_new: "logged env (kernel_new conversation refs s)"
  by (simp add: logged_def kernel_new_def table_entries_def current_manifest_def hash_values_def)

section \<open>An opening that works\<close>

lemma has_service_kind: "has_service addr s \<longleftrightarrow> kind_at s addr \<noteq> None"
  by (simp add: has_service_def kind_at_def)

lemma persist_free:
  assumes "fault_free env"
  shows "\<exists>t. persist_metadata env s = (Inr (), t)" "\<exists>t. persist_runtime_config env s = (Inr (), t)"
  using fault_free_encodes(7) [OF assms, of "ks_runtime_config s"] fault_free_encodes(8) [OF assms, of "ks_metadata s"]
  by (auto simp: persist_metadata_def persist_runtime_config_def gets_apply persist_file_free assms)

lemma nickname_free: "fault_free env \<Longrightarrow> \<exists>t. ensure_agent_session_nickname env addr kind s = (Inr (), t)"
  using persist_free(1) by (cases kind) (auto simp: ensure_agent_session_nickname_def gets_apply okM_def)

lemma mount_succeeds:
  assumes "fault_free env" and "manifest_safe env" and "\<forall>n. ke_spawn_error env n = None"
    and "addr \<noteq> kernel_addr" and "kind_at s addr = None"
  shows "\<exists>t. mount_service env addr kind s = (Inr (), t) \<and> kind_at t = (kind_at s)(addr := Some kind)"
proof -
  have "is_kernel addr = False" "has_service addr s = False"
    using assms(4,5) by (simp_all add: is_kernel_iff has_service_kind)
  moreover obtain u where "ensure_agent_session_nickname env addr kind s = (Inr (), u)" using nickname_free [OF assms(1)] by blast
  moreover have "\<exists>t. persist_manifest env v = (Inr (), t)" for v using persist_manifest_safe [OF assms(2)] by blast
  ultimately obtain t where t: "mount_service env addr kind s = (Inr (), t)"
    using assms(1,3)
    by (auto simp: mount_service_def mount_service_instance_def gets_apply andthen_def bnd_def fs_do_free kask_def upd_def)
  then show ?thesis using mount_outcome [OF assms(2) t] by (auto dest: mounts_kind)
qed

lemma mount_entries_succeed:
  assumes "fault_free env" and "manifest_safe env" and "\<forall>n. ke_spawn_error env n = None"
    and "distinct (map me_addr entries)" and "\<forall>e \<in> set entries. me_addr e \<noteq> kernel_addr \<and> kind_at s (me_addr e) = None"
  shows "\<exists>t. for_each (\<lambda>e. mount_service env (me_addr e) (me_kind e)) entries s = (Inr (), t)"
  using assms(4,5)
proof (induction entries arbitrary: s)
  case (Cons e entries)
  obtain u where u: "mount_service env (me_addr e) (me_kind e) s = (Inr (), u)" "kind_at u = (kind_at s)(me_addr e := Some (me_kind e))"
    using mount_succeeds [OF assms(1-3), of "me_addr e" s "me_kind e"] Cons.prems by auto
  have "\<forall>e' \<in> set entries. me_addr e' \<noteq> kernel_addr \<and> kind_at u (me_addr e') = None"
    using Cons.prems u(2) by (auto simp: image_iff)
  then obtain t where "for_each (\<lambda>e. mount_service env (me_addr e) (me_kind e)) entries u = (Inr (), t)"
    using Cons.IH [of u] Cons.prems by auto
  then show ?case using u(1) by (simp add: andthen_def bnd_def)
qed (simp add: okM_def)

lemma mount_standard_succeeds:
  assumes "fault_free env" and "manifest_safe env" and "\<forall>n. ke_spawn_error env n = None"
    and "\<forall>(addr, kind) \<in> set services. addr \<noteq> kernel_addr"
  shows "\<exists>t. for_each (\<lambda>(addr, kind). gets (\<lambda>s. if has_service addr s then okM () else mount_service env addr kind)) services s = (Inr (), t)"
  using assms(4)
proof (induction services arbitrary: s)
  case (Cons service services)
  obtain addr kind where service: "service = (addr, kind)" by fastforce
  have "\<exists>u. gets (\<lambda>s. if has_service addr s then okM () else mount_service env addr kind) s = (Inr (), u)"
    using mount_succeeds [OF assms(1-3), of addr s kind] Cons.prems service
    by (auto simp: gets_apply okM_def has_service_kind)
  then show ?case using Cons service by (auto simp: andthen_def bnd_def)
qed (simp add: okM_def)

lemma load_file_free:
  "fault_free env \<Longrightarrow> decode content = Inr x \<Longrightarrow> load_file env path decode content s = (Inr x, s\<lparr>ks_io := Suc (ks_io s)\<rparr>)"
  by (simp add: load_file_def fs_do_free andthen_def bnd_def fs_context_def map_err_def from_result_def okM_def)

lemma open_metadata_free:
  assumes "fault_free env" and "\<forall>c. \<exists>m. ke_decode_metadata env c = Inr m"
  shows "\<exists>t. open_metadata env s = (Inr (), t)"
proof (cases "ks_metadata_file s")
  case None
  then show ?thesis using persist_free(1) [OF assms(1), of s] by (simp add: open_metadata_def gets_apply)
next
  case (Some content)
  obtain m where "ke_decode_metadata env content = Inr m" using assms(2) by blast
  then show ?thesis
    using Some by (simp add: open_metadata_def gets_apply load_metadata_def bnd_def upd_def load_file_free assms(1))
qed

lemma open_runtime_config_free:
  assumes "fault_free env" and "\<forall>c. \<exists>m. ke_decode_runtime_config env c = Inr m"
  shows "\<exists>t. open_runtime_config env defaults s = (Inr (), t)"
proof (cases "ks_runtime_config_file s")
  case None
  then show ?thesis using persist_free(2) [OF assms(1)] by (simp add: open_runtime_config_def gets_apply)
next
  case (Some content)
  obtain m where m: "ke_decode_runtime_config env content = Inr m" using assms(2) by blast
  obtain changed merged where "merge_host_defaults m defaults = (changed, merged)" by fastforce
  then show ?thesis
    using Some m persist_free(2) [OF assms(1)]
    by (cases changed) (simp_all add: open_runtime_config_def gets_apply load_runtime_config_def bnd_def load_file_free assms(1)
        when_act_def okM_def)
qed

lemma open_succeeds:
  assumes free: "fault_free env" and safe: "manifest_safe env" and spawn: "\<forall>n. ke_spawn_error env n = None"
    and decode: "\<forall>c. \<exists>m. ke_decode_metadata env c = Inr m" "\<forall>c. \<exists>m. ke_decode_runtime_config env c = Inr m"
    and stored: "stored_entries env s = Some entries" "distinct (map me_addr entries)" "kernel_addr \<notin> me_addr ` set entries"
  shows "\<exists>v. open_or_bootstrap env conversation refs defaults s = (Inr (), v)"
proof -
  let ?n = "kernel_new conversation refs s"
  obtain a where a: "open_metadata env ?n = (Inr (), a)" using open_metadata_free [OF free decode(1)] by blast
  obtain b where b: "open_runtime_config env defaults a = (Inr (), b)" using open_runtime_config_free [OF free decode(2)] by blast
  have "unmounted ?n b"
    using unmounted.R_trans [OF steps_inE [OF unmounted.frame_open_metadata a] steps_inE [OF unmounted.frame_open_runtime_config b]] .
  then have disk: "stored_entries env b = Some entries" and none: "ks_services b = []"
    using stored(1) by (simp_all add: unmounted_def stored_entries_def kernel_new_def)
  have "\<exists>w. mount_manifest env b = (Inr (), w)"
  proof (cases "ks_manifest_file b")
    case None
    then show ?thesis by (simp add: mount_manifest_def gets_apply okM_def)
  next
    case (Some content)
    then obtain m where m: "ke_decode_manifest env content = Inr m" "mf_services m = entries"
      using disk by (auto simp: stored_entries_def split: sum.splits)
    have "\<exists>w. for_each (\<lambda>e. mount_service env (me_addr e) (me_kind e)) entries (b\<lparr>ks_io := i, ks_next_background_id := j, ks_next_subagent_id := k\<rparr>) = (Inr (), w)" for i j k
      using stored(2,3) by (intro mount_entries_succeed free safe spawn) (auto simp: kind_at_def none image_iff)
    then show ?thesis
      using Some m by (simp add: mount_manifest_def gets_apply load_manifest_def bnd_def load_file_free free)
  qed
  then obtain w where w: "mount_manifest env b = (Inr (), w)" by blast
  have "\<forall>(addr, kind) \<in> set standard_services. addr \<noteq> kernel_addr" by (simp add: standard_services_def addr_defs)
  from mount_standard_succeeds [OF free safe spawn this] obtain v where "mount_standard_services env w = (Inr (), v)"
    unfolding mount_standard_services_def by blast
  then show ?thesis
    unfolding open_or_bootstrap_def dropping_ok using a b w by (auto simp: andthen_ok upd_def)
qed

lemma table_entries_distinct:
  assumes "kernel_wf s"
  shows "distinct (map me_addr (table_entries s))" "kernel_addr \<notin> me_addr ` set (table_entries s)"
proof -
  have handle: "sh_addr handle = addr \<and> addr \<noteq> kernel_addr" if "(addr, handle) \<in> set (ks_services s)" for addr handle
    using that assms hash_get_in [of "ks_services s" addr handle] by (auto simp: kernel_wf_def handle_ok_def)
  then have keys: "map (me_addr \<circ> manifest_entry \<circ> snd) (ks_services s) = map fst (ks_services s)"
    by (auto simp: manifest_entry_def)
  have "mset (map me_addr (table_entries s)) = mset (map (me_addr \<circ> manifest_entry \<circ> snd) (ks_services s))"
    by (simp add: mset_table_entries multiset.map_comp comp_assoc)
  then have "mset (map me_addr (table_entries s)) = mset (map fst (ks_services s))" unfolding keys .
  moreover have "distinct (map fst (ks_services s))" using assms by (simp add: kernel_wf_def hash_wf_def)
  ultimately show "distinct (map me_addr (table_entries s))" by (metis mset_eq_imp_distinct_iff)
  show "kernel_addr \<notin> me_addr ` set (table_entries s)"
    using handle by (force simp: set_table_entries manifest_entry_def hash_values_def)
qed

section \<open>A sample disk\<close>

text \<open>Addresses, kinds and manifests are countable, so there is a codec that reads what it writes.\<close>

instance service_scope :: countable
  by countable_datatype

instance service_addr_ext :: (countable) countable
  by (rule countable_classI [of "\<lambda>a. to_nat (ad_scope a, ad_path a, service_addr.more a)"]) simp

instance agent_session_kind :: countable
  by countable_datatype

instance agent_session_binding_ext :: (countable) countable
  by (rule countable_classI [of "\<lambda>b. to_nat (ab_event_sink b, ab_parent_addr b, agent_session_binding.more b)"]) simp

instance service_kind :: countable
  by countable_datatype

instance service_manifest_entry_ext :: (countable) countable
  by (rule countable_classI [of "\<lambda>e. to_nat (me_addr e, me_kind e, me_storage e, service_manifest_entry.more e)"]) simp

instance service_manifest_ext :: (countable) countable
  by (rule countable_classI [of "\<lambda>m. to_nat (mf_version m, mf_services m, mf_next_background_id m, mf_next_subagent_id m,
        service_manifest.more m)"]) simp

definition disk_env :: "nat option \<Rightarrow> kernel_env" where
  "disk_env failing =
     sample_kernel_env
       \<lparr>ke_spawn_error := (\<lambda>n. if failing = Some n then Some ''no thread'' else None),
        ke_encode_manifest := (\<lambda>m. Inr (show_nat (to_nat m) @ [CHR ''}''])),
        ke_decode_manifest := (\<lambda>c. if CHR ''}'' \<in> set c then Inr (from_nat (digits_value (butlast c))) else Inl []),
        ke_decode_runtime_config := (\<lambda>_. Inr for_conversation),
        ke_decode_metadata := (\<lambda>_. Inr (conversation_metadata_new ''c'' [] []))\<rparr>"

lemma disk_env_safe: "manifest_safe (disk_env failing)"
  by (simp add: manifest_safe_def disk_env_def sample_kernel_env_def)

lemma disk_env_codec: "manifest_codec (disk_env failing)"
proof -
  have "CHR ''}'' \<notin> set (show_nat n)" for n
    using show_nat_digits [of n] by (auto simp: list_all_iff is_ascii_digit_def)
  then show ?thesis by (auto simp: manifest_codec_def disk_env_def dest: in_set_takeD)
qed

lemma disk_env_free: "fault_free (disk_env failing)"
  by (simp add: fault_free_def disk_env_def sample_kernel_env_def sample_codec_def)

lemma disk_env_spawns: "\<forall>n. ke_spawn_error (disk_env None) n = None"
  by (simp add: disk_env_def sample_kernel_env_def)

lemma disk_env_decodes:
  "\<forall>c. \<exists>m. ke_decode_metadata (disk_env failing) c = Inr m"
  "\<forall>c. \<exists>m. ke_decode_runtime_config (disk_env failing) c = Inr m"
  by (simp_all add: disk_env_def sample_kernel_env_def)

lemma shutdown_succeeds:
  assumes "\<forall>n. ke_join env n = Joined" and "kernel_wf s"
  shows "\<exists>t. kernel_run env [Shutdown_input reason] s = (Inr False, t)"
proof -
  obtain t where t: "stop_all env reason s = (Inr (), t)" "ks_services t = []"
    using stop_all_quietly [OF assms] by blast
  then obtain u where "stop_all env ''conversation kernel dropped'' t = (Inr (), u)"
    using stop_all_quietly [OF assms(1), of t] by (auto simp: kernel_wf_def)
  then show ?thesis
    using t by (simp add: kernel_run_def dropping_def kernel_drop_def catching_def bnd_def andthen_def okM_def)
qed

lemma dropping_failed:
  assumes "\<exists>x u. m s = (Inl (Anyhow x), u) \<and> length (ks_spawn_log u) = n"
  shows "\<exists>e t. dropping env kept m s = (Inl e, t) \<and> length (ks_spawn_log t) = n"
proof -
  obtain x u where m: "m s = (Inl (Anyhow x), u)" "length (ks_spawn_log u) = n" using assms by blast
  obtain r t where run: "dropping env kept m s = (r, t)" by fastforce
  have "r = Inr y \<Longrightarrow> False" for y
    using run m(1) by (auto simp: dropping_def bnd_ok catching_def andthen_ok errM_def)
  then have "\<exists>e. r = Inl e" by (cases r) auto
  moreover have "same_record u t" using record_dropping [of m s env kept] run m(1) by simp
  ultimately show ?thesis using run m(2) by (auto simp: same_record_def)
qed

definition sample_entries :: "service_manifest_entry list" where
  "sample_entries = map (\<lambda>name. \<lparr>me_addr = local_path [name], me_kind = Noop_kind name, me_storage = ''/s''\<rparr>) [''a'', ''b'', ''c'']"

definition sample_disk :: kernel_state where
  "sample_disk =
     sample_kernel
       \<lparr>ks_manifest_file := Some (show_nat (to_nat
          \<lparr>mf_version = 1, mf_services = sample_entries, mf_next_background_id = 1, mf_next_subagent_id = 1\<rparr>) @ [CHR ''}''])\<rparr>"

lemma sample_disk_stored: "stored_entries (disk_env failing) sample_disk = Some sample_entries"
  by (simp add: stored_entries_def sample_disk_def disk_env_def)

lemma sample_disk_open:
  "\<exists>e t. open_or_bootstrap (disk_env (Some 10)) (ks_conversation sample_kernel) [] for_conversation sample_disk = (Inl e, t) \<and>
     length (ks_spawn_log t) = 1"
proof -
  let ?env = "disk_env (Some 10)"
  have body: "\<exists>x u. andthen (upd (kernel_new (ks_conversation sample_kernel) [])) (andthen (open_metadata ?env)
      (andthen (open_runtime_config ?env for_conversation) (andthen (mount_manifest ?env) (mount_standard_services ?env)))) sample_disk =
      (Inl (Anyhow x), u) \<and> length (ks_spawn_log u) = 1"
    by (simp add: open_metadata_def open_runtime_config_def persist_metadata_def persist_runtime_config_def persist_file_def
        mount_manifest_def load_manifest_def load_file_def mount_service_def mount_service_instance_def persist_manifest_def
        ensure_agent_session_nickname_def insert_handle_def has_service_def is_kernel_def local_path_def
        fs_do_def fs_put_def fs_context_def map_err_def from_result_def kask_def gets_apply andthen_def bnd_def okM_def errM_def upd_def
        sample_disk_def sample_kernel_def sample_entries_def kernel_new_def disk_env_def sample_kernel_env_def)
  show ?thesis
    unfolding open_or_bootstrap_def using dropping_failed body by blast
qed

section \<open>The lives of a conversation\<close>

text \<open>
  A conversation is served by one kernel after another; each is opened on the files that the one
  before has left, wherever that one has failed or was shut down.
\<close>

definition kernel_life ::
    "kernel_env \<Rightarrow> conversation_ref \<times> service_addr list \<times> conversation_runtime_config \<times> kernel_event list \<Rightarrow> bool kernel" where
  "kernel_life env = (\<lambda>(conversation, refs, defaults, events).
     bnd (open_or_bootstrap env conversation refs defaults) (\<lambda>_. kernel_run env events))"

fun kernel_lives ::
    "kernel_env \<Rightarrow> (conversation_ref \<times> service_addr list \<times> conversation_runtime_config \<times> kernel_event list) list \<Rightarrow>
      kernel_state \<Rightarrow> kernel_state" where
  "kernel_lives env [] s = s"
| "kernel_lives env (life # lives) s = kernel_lives env lives (snd (kernel_life env life s))"

lemma kernel_life_stored:
  assumes "manifest_codec env" and "manifest_ok env s"
  shows "kernel_wf (snd (kernel_life env life s)) \<and> manifest_ok env (snd (kernel_life env life s))"
proof -
  obtain conversation refs defaults events where life: "life = (conversation, refs, defaults, events)" by (cases life)
  have "keeps_stored env (snd (open_or_bootstrap env conversation refs defaults s)) (snd (kernel_life env life s))"
    unfolding life kernel_life_def prod.case by (rule stored.bnd_after) (rule stored.frame_kernel_run)
  then show ?thesis using open_or_bootstrap_stored [OF assms] assms(1) by (auto simp: keeps_stored_def)
qed

lemma kernel_lives_stored:
  "manifest_codec env \<Longrightarrow> manifest_ok env s \<Longrightarrow> lives \<noteq> [] \<Longrightarrow> kernel_wf (kernel_lives env lives s)"
proof (induction lives arbitrary: s)
  case (Cons life lives)
  then show ?case using kernel_life_stored [of env s life] by (cases "lives = []") auto
qed simp

lemma standard_mounted:
  assumes "manifest_safe env"
    and "for_each (\<lambda>(addr, kind). gets (\<lambda>s. if has_service addr s then okM () else mount_service env addr kind)) services s = (Inr (), t)"
    and "kind_at s addr \<noteq> None \<or> addr \<in> fst ` set services"
  shows "kind_at t addr \<noteq> None"
  using assms(2,3)
proof (induction services arbitrary: s)
  case (Cons service services)
  obtain a k where service: "service = (a, k)" by fastforce
  then obtain u where u: "gets (\<lambda>s. if has_service a s then okM () else mount_service env a k) s = (Inr (), u)"
    "for_each (\<lambda>(addr, kind). gets (\<lambda>s. if has_service addr s then okM () else mount_service env addr kind)) services u = (Inr (), t)"
    using Cons.prems by (auto simp: andthen_ok)
  have "u = s \<and> has_service a s \<or> mounts env a k s u"
    using u(1) mount_outcome [OF assms(1), of a k s "Inr ()" u] by (auto simp: gets_apply okM_def split: if_splits)
  then have "kind_at s addr \<noteq> None \<or> addr = a \<Longrightarrow> kind_at u addr \<noteq> None"
    by (auto simp: kind_at_def has_service_def mounts_def)
  then show ?case using Cons.IH [OF u(2)] Cons.prems(2) service by auto
qed (simp add: okM_def)

lemma opened_standard:
  assumes "manifest_safe env" and "open_or_bootstrap env conversation refs defaults s = (Inr (), v)"
    and "addr \<in> fst ` set standard_services"
  shows "has_service addr v"
proof -
  obtain u w where run: "unmounted (kernel_new conversation refs s) u" "mount_manifest env u = (Inr (), w)"
    "mount_standard_services env w = (Inr (), v)"
    using opened [OF assms(2)] .
  then have "kind_at v addr \<noteq> None"
    using standard_mounted [OF assms(1)] assms(3) by (simp add: mount_standard_services_def)
  then show ?thesis by (simp add: kind_at_def has_service_def)
qed

text \<open>A kernel on a fresh directory is opened and shut down, and another is opened.\<close>

lemma sample_restart:
  obtains s u v where "open_or_bootstrap (disk_env None) (ks_conversation sample_kernel) [] for_conversation sample_kernel = (Inr (), s)"
    "kernel_run (disk_env None) [Shutdown_input ''bye''] s = (Inr False, u)"
    "open_or_bootstrap (disk_env None) (ks_conversation sample_kernel) [] for_conversation u = (Inr (), v)"
    "kernel_wf s" "stored_entries (disk_env None) u = Some (table_entries s)"
proof -
  let ?env = "disk_env None" and ?c = "ks_conversation sample_kernel"
  note opens = open_succeeds [OF disk_env_free disk_env_safe disk_env_spawns disk_env_decodes]
  have empty: "stored_entries ?env sample_kernel = Some []" "manifest_ok ?env sample_kernel"
    by (simp_all add: stored_entries_def manifest_ok_def sample_kernel_def)
  then obtain s where s: "open_or_bootstrap ?env ?c [] for_conversation sample_kernel = (Inr (), s)"
    using opens [OF empty(1), of ?c "[]" for_conversation] by auto
  have wf: "kernel_wf s" using open_or_bootstrap_wf [OF empty(2), of ?c "[]" for_conversation] s by simp
  obtain u where u: "kernel_run ?env [Shutdown_input ''bye''] s = (Inr False, u)"
    using shutdown_succeeds [OF _ wf, of ?env] by (auto simp: disk_env_def sample_kernel_env_def)
  have stored: "stored_entries ?env u = Some (table_entries s)"
    using opened_durable [OF disk_env_safe s] steps_inE [OF record_shutdown u]
    by (simp add: same_record_def durable_table_def stored_entries_def)
  then obtain v where "open_or_bootstrap ?env ?c [] for_conversation u = (Inr (), v)"
    using opens table_entries_distinct [OF wf] by blast
  then show ?thesis using that s u wf stored by blast
qed

lemma idle_run: "kernel_run env [] s = (Inr True, s)"
  by (simp add: kernel_run_def dropping_def bnd_def catching_def okM_def)

section \<open>Properties\<close>

text \<open>
  C13. A conversation that starts without a manifest keeps a well-formed table for good: through any
  sequence of kernels, each opened on the files the one before has left, whatever is sent to
  them, whatever fails, also in the middle of writing the manifest, and whenever they are shut down. A
  table is well-formed when it has one handle per address, none for the kernel's own address,
  every agent session under an address of its kind, foreground sessions bound to a channel and
  without a parent, subagents with one. The manifest is read by a decoder that inverts its encoder and
  refuses a manifest cut short.
\<close>

theorem kernel_table_well_formed:
  assumes "manifest_codec env" and "ks_manifest_file s = None" and "lives \<noteq> []"
  shows "kernel_wf (kernel_lives env lives s)"
proof -
  have "manifest_ok env s" using assms(2) by (simp add: manifest_ok_def)
  then show ?thesis using kernel_lives_stored assms(1,3) by blast
qed

theorem kernel_table_well_formed_witness:
  "\<exists>content. let first = (ks_conversation sample_kernel, [], for_conversation, [Shutdown_input ''bye'']);
       second = (ks_conversation sample_kernel, [], for_conversation, [])
     in ks_manifest_file sample_kernel = None \<and>
        ks_manifest_file (kernel_lives (disk_env None) [first] sample_kernel) = Some content \<and>
        kernel_wf (kernel_lives (disk_env None) [first, second] sample_kernel) \<and>
        has_service (agent_foreground_id ''main'') (kernel_lives (disk_env None) [first, second] sample_kernel)"
proof -
  let ?env = "disk_env None" and ?c = "ks_conversation sample_kernel" and ?main = "agent_foreground_id ''main''"
  obtain s u v where run: "open_or_bootstrap ?env ?c [] for_conversation sample_kernel = (Inr (), s)"
    "kernel_run ?env [Shutdown_input ''bye''] s = (Inr False, u)"
    "open_or_bootstrap ?env ?c [] for_conversation u = (Inr (), v)"
    and wf: "kernel_wf s" and stored: "stored_entries ?env u = Some (table_entries s)"
    by (rule sample_restart)
  have fresh: "ks_manifest_file sample_kernel = None" by (simp add: sample_kernel_def)
  have main: "?main \<in> fst ` set standard_services" by (simp add: standard_services_def)
  obtain kind where "kind_at s ?main = Some kind"
    using opened_standard [OF disk_env_safe run(1) main] by (auto simp: has_service_def kind_at_def)
  then have "table_entries s \<noteq> []" using wf_table_entries [OF wf] by force
  then obtain content where content: "ks_manifest_file u = Some content"
    using stored by (cases "ks_manifest_file u") (auto simp: stored_entries_def)
  show ?thesis
    using kernel_table_well_formed [OF disk_env_codec fresh,
        of "[(?c, [], for_conversation, [Shutdown_input ''bye'']), (?c, [], for_conversation, [])]" None]
      run content fresh opened_standard [OF disk_env_safe run(3) main]
    by (simp add: kernel_life_def bnd_def idle_run)
qed

text \<open>
  C12. A restart brings the services back: a kernel that is opened, handles any messages and is shut
  down leaves a manifest from which the next kernel mounts exactly the services that were
  mounted, each with its kind and binding, and otherwise only missing standard services.
\<close>

theorem restart_restores_services:
  assumes "manifest_safe env" and "manifest_ok env s0"
    and "open_or_bootstrap env conversation refs defaults s0 = (Inr (), s)"
    and "kernel_run env events s = (Inr True, t)"
    and "kernel_run env [Shutdown_input reason] t = (Inr running, u)"
    and "open_or_bootstrap env conversation refs' defaults' u = (Inr (), v)"
  shows "(kind_at t addr = Some kind \<longrightarrow> kind_at v addr = Some kind) \<and>
         (kind_at v addr = Some kind \<longrightarrow> kind_at t addr = Some kind \<or> (addr, kind) \<in> set standard_services)"
proof -
  have "durable_table env t"
    using durable_loop [OF assms(1) kernel_run_running [OF assms(4)] opened_durable [OF assms(1,3)]] .
  moreover have "same_record t u" using steps_inE [OF record_shutdown assms(5)] .
  ultimately have stored: "stored_entries env u = Some (table_entries t)"
    by (simp add: same_record_def durable_table_def stored_entries_def)
  have "kernel_wf s" using open_or_bootstrap_wf [OF assms(2), of conversation refs defaults] assms(3) by simp
  then have "kernel_wf t" using steps_inE [OF wf.frame_kernel_run assms(4)] by (simp add: keeps_wf_def)
  note entries = wf_table_entries [OF this]
  show ?thesis using opened_kinds [OF assms(1,6)] stored entries by (metis option.inject)
qed

theorem restart_restores_services_witness:
  "\<exists>s u v. open_or_bootstrap (disk_env None) (ks_conversation sample_kernel) [] for_conversation sample_kernel = (Inr (), s) \<and>
     kernel_run (disk_env None) [Shutdown_input ''bye''] s = (Inr False, u) \<and>
     open_or_bootstrap (disk_env None) (ks_conversation sample_kernel) [] for_conversation u = (Inr (), v) \<and>
     (\<forall>addr kind. kind_at s addr = Some kind \<longrightarrow> kind_at v addr = Some kind)"
proof -
  obtain s u v where run: "open_or_bootstrap (disk_env None) (ks_conversation sample_kernel) [] for_conversation sample_kernel = (Inr (), s)"
    "kernel_run (disk_env None) [Shutdown_input ''bye''] s = (Inr False, u)"
    "open_or_bootstrap (disk_env None) (ks_conversation sample_kernel) [] for_conversation u = (Inr (), v)"
    by (rule sample_restart)
  have "manifest_ok (disk_env None) sample_kernel" by (simp add: manifest_ok_def sample_kernel_def)
  from restart_restores_services [OF disk_env_safe this run(1) idle_run run(2,3)] show ?thesis using run by blast
qed

text \<open>
  C16. An opening that fails forgets services: each mount writes a manifest of the services mounted so
  far, over the one that is being read, so when a later mount fails the file is left with the
  services that were started before and none of the others.
\<close>

theorem failed_open_forgets_services:
  assumes "manifest_safe env" and "open_or_bootstrap env conversation refs defaults s = (Inl e, t)"
    and "ks_spawn_log t \<noteq> []"
  shows "\<exists>entries. stored_entries env t = Some entries \<and> mset entries = mset (ks_spawn_log t)"
proof -
  define u where "u = snd (andthen (upd (kernel_new conversation refs)) (andthen (open_metadata env)
      (andthen (open_runtime_config env defaults) (andthen (mount_manifest env) (mount_standard_services env)))) s)"
  have "logged env u"
    using steps_inD [OF logged_open [OF assms(1)]] logged_new by (auto simp: u_def keeps_logged_def)
  moreover have "same_record u t"
    using record_dropping assms(2) unfolding u_def open_or_bootstrap_def by (metis snd_conv)
  ultimately show ?thesis
    using assms(3) by (auto simp: logged_def same_record_def durable_table_def stored_entries_def)
qed

theorem failed_open_forgets_services_witness:
  "\<exists>e t entry. stored_entries (disk_env (Some 10)) sample_disk = Some sample_entries \<and> length sample_entries = 3 \<and>
     open_or_bootstrap (disk_env (Some 10)) (ks_conversation sample_kernel) [] for_conversation sample_disk = (Inl e, t) \<and>
     stored_entries (disk_env (Some 10)) t = Some [entry]"
proof -
  obtain e t where t: "open_or_bootstrap (disk_env (Some 10)) (ks_conversation sample_kernel) [] for_conversation sample_disk = (Inl e, t)"
    "length (ks_spawn_log t) = 1"
    using sample_disk_open by blast
  then have "ks_spawn_log t \<noteq> []" by auto
  from failed_open_forgets_services [OF disk_env_safe t(1) this] obtain entries
    where entries: "stored_entries (disk_env (Some 10)) t = Some entries" "mset entries = mset (ks_spawn_log t)" by blast
  then have "length entries = 1" using t(2) by (metis size_mset)
  then show ?thesis
    using entries t(1) sample_disk_stored by (auto simp: length_Suc_conv sample_entries_def)
qed

end
