(* ===== verification/File_System.thy ===== *)
theory File_System
  imports Tool_Runtime Hash_Map Act_Rules
begin

text \<open>
  The file system as the file tools see it through \<open>std::fs\<close>: a table from locations (the
  names from the root down) to regular files, directories and symbolic links. Path resolution
  follows links, at most forty in a walk, and treats \<open>.\<close>, \<open>..\<close> and a trailing slash as the
  kernel does. Every call that reads or writes consumes one event, by which the environment lets
  it proceed, refuses it, or interrupts a write after some bytes.

  Hard links, devices, mount points, permissions and processes that change the tree between two
  calls are outside the model.
\<close>

section \<open>Bytes\<close>

text \<open>
  A byte is a HOL \<open>char\<close>. UTF-8 is restricted to the scalar values of the model's texts: one
  byte below 128, two bytes below 256.
\<close>

type_synonym bytes = string

definition utf8_char :: "char \<Rightarrow> bytes" where
  "utf8_char c =
     (let n = of_char c :: nat
      in if n < 128 then [c] else [char_of (192 + n div 64), char_of (128 + n mod 64)])"

definition utf8_encode :: "string \<Rightarrow> bytes" where
  "utf8_encode s = concat (map utf8_char s)"

definition continuation_byte :: "char \<Rightarrow> bool" where
  "continuation_byte b \<longleftrightarrow> 128 \<le> (of_char b :: nat) \<and> (of_char b :: nat) < 192"

fun utf8_decode :: "bytes \<Rightarrow> string option" where
  "utf8_decode [] = Some []"
| "utf8_decode [b] = (if (of_char b :: nat) < 128 then Some [b] else None)"
| "utf8_decode (b # b2 # bs) =
     (if (of_char b :: nat) < 128 then map_option ((#) b) (utf8_decode (b2 # bs))
      else if ((of_char b :: nat) = 194 \<or> (of_char b :: nat) = 195) \<and> continuation_byte b2
      then map_option ((#) (char_of ((of_char b - 192) * 64 + (of_char b2 - 128 :: nat)))) (utf8_decode bs)
      else None)"

lemma of_char_bound: "(of_char c :: nat) < 256"
  using nat_of_char_less_256 by simp

lemma utf8_decode_char: "utf8_decode (utf8_char c @ bs) = map_option ((#) c) (utf8_decode bs)"
proof (cases "(of_char c :: nat) < 128")
  case True
  then show ?thesis by (cases bs) (simp_all add: utf8_char_def)
next
  case False
  let ?n = "of_char c :: nat"
  have n: "128 \<le> ?n" "?n < 256" using False of_char_bound by simp_all
  have d: "?n div 64 = 2 \<or> ?n div 64 = 3" using n by linarith
  have lead: "(of_char (char_of (192 + ?n div 64) :: char) :: nat) = 192 + ?n div 64"
    using d by auto
  have tail: "(of_char (char_of (128 + ?n mod 64) :: char) :: nat) = 128 + ?n mod 64"
    by simp
  have "(char_of ((192 + ?n div 64 - 192) * 64 + (128 + ?n mod 64 - 128)) :: char) = c"
    by simp
  then show ?thesis
    using False d n lead tail
    by (auto simp: utf8_char_def Let_def continuation_byte_def simp del: of_char_of char_of_mod_256)
qed

lemma utf8_round_trip [simp]: "utf8_decode (utf8_encode s) = Some s"
  by (induction s) (simp_all add: utf8_encode_def utf8_decode_char)

lemma length_utf8_encode: "length (utf8_encode s) = utf8_len s"
  by (induction s) (simp_all add: utf8_encode_def utf8_len_def utf8_char_def Let_def)

section \<open>The tree\<close>

type_synonym location = "string list"

datatype fs_node = Regular bytes | Directory | Symlink string

type_synonym fs_tree = "(location, fs_node) hash_map"

datatype io_error =
    Not_found
  | Not_a_directory
  | Is_a_directory
  | Too_many_links
  | Already_exists
  | Invalid_utf8
  | Nul_in_path
  | Os_error string

datatype io_event = Proceed | Refuse string | Interrupt nat string

record fs_state =
  nodes :: fs_tree
  cwd :: location
  events :: "io_event list"

type_synonym 'a io = "(fs_state, io_error, 'a) act"

definition node_at :: "fs_tree \<Rightarrow> location \<Rightarrow> fs_node option" where
  "node_at m l = (if l = [] then Some Directory else hash_get l m)"

section \<open>Path resolution\<close>

text \<open>
  The names the kernel walks through; a trailing slash asks for a directory, as \<open>.\<close> does.
\<close>

definition os_segments :: "string \<Rightarrow> string list" where
  "os_segments p =
     (let names = filter (\<lambda>s. s \<noteq> []) (split_slash p)
      in names @ (if names \<noteq> [] \<and> last p = CHR ''/'' then [''.''] else []))"

text \<open>
  Walking on from the directory \<open>cur\<close>, with at most \<open>k\<close> links to follow. The last name may be
  absent: the walk then ends at the location where it would be created.
\<close>

function walk :: "fs_tree \<Rightarrow> nat \<Rightarrow> location \<Rightarrow> string list \<Rightarrow> io_error + location" where
  "walk m k cur [] = Inr cur"
| "walk m k cur (s # ss) =
     (if node_at m cur \<noteq> Some Directory then Inl Not_a_directory
      else if s = ''.'' then walk m k cur ss
      else if s = ''..'' then walk m k (butlast cur) ss
      else case node_at m (cur @ [s]) of
        None \<Rightarrow> if ss = [] then Inr (cur @ [s]) else Inl Not_found
      | Some (Symlink t) \<Rightarrow>
          (if k = 0 then Inl Too_many_links
           else walk m (k - 1) (if path_is_absolute t then [] else cur) (os_segments t @ ss))
      | Some n \<Rightarrow> walk m k (cur @ [s]) ss)"
  by pat_completeness auto
termination
  by (relation "measures [\<lambda>(m, k, cur, ss). k, \<lambda>(m, k, cur, ss). length ss]") auto

definition max_links :: nat where
  "max_links = 40"

definition start_of :: "fs_state \<Rightarrow> string \<Rightarrow> location" where
  "start_of s p = (if path_is_absolute p then [] else cwd s)"

definition checked_path :: "string \<Rightarrow> io_error + string list" where
  "checked_path p =
     (if CHR 0x00 \<in> set p then Inl Nul_in_path
      else if p = [] then Inl Not_found
      else Inr (os_segments p))"

text \<open>Where a path leads when all links are followed.\<close>

definition lookup :: "fs_state \<Rightarrow> string \<Rightarrow> io_error + location" where
  "lookup s p =
     (case checked_path p of
        Inl e \<Rightarrow> Inl e
      | Inr segments \<Rightarrow> walk (nodes s) max_links (start_of s p) segments)"

text \<open>The directory entry a path names: a link in the last place is not followed.\<close>

definition entry_of :: "fs_state \<Rightarrow> string \<Rightarrow> io_error + location" where
  "entry_of s p =
     (case checked_path p of
        Inl e \<Rightarrow> Inl e
      | Inr segments \<Rightarrow>
          (if segments = [] \<or> last segments = ''.'' \<or> last segments = ''..''
           then walk (nodes s) max_links (start_of s p) segments
           else case walk (nodes s) max_links (start_of s p) (butlast segments) of
             Inl e \<Rightarrow> Inl e
           | Inr d \<Rightarrow>
               (case node_at (nodes s) d of
                  None \<Rightarrow> Inl Not_found
                | Some Directory \<Rightarrow> Inr (d @ [last segments])
                | Some _ \<Rightarrow> Inl Not_a_directory)))"

definition resolve :: "fs_state \<Rightarrow> string \<Rightarrow> io_error + location" where
  "resolve s p =
     (case lookup s p of
        Inl e \<Rightarrow> Inl e
      | Inr l \<Rightarrow> if node_at (nodes s) l = None then Inl Not_found else Inr l)"

definition show_location :: "location \<Rightarrow> string" where
  "show_location l = ''/'' @ join ''/'' l"

text \<open>\<open>Path::canonicalize\<close>, \<open>exists\<close>, \<open>is_dir\<close> and \<open>symlink_metadata\<close>.\<close>

definition canonicalize :: "fs_state \<Rightarrow> string \<Rightarrow> io_error + string" where
  "canonicalize s p = (case resolve s p of Inl e \<Rightarrow> Inl e | Inr l \<Rightarrow> Inr (show_location l))"

definition path_exists :: "fs_state \<Rightarrow> string \<Rightarrow> bool" where
  "path_exists s p \<longleftrightarrow> (case resolve s p of Inl _ \<Rightarrow> False | Inr _ \<Rightarrow> True)"

definition is_dir :: "fs_state \<Rightarrow> string \<Rightarrow> bool" where
  "is_dir s p \<longleftrightarrow>
     (case resolve s p of Inl _ \<Rightarrow> False | Inr l \<Rightarrow> node_at (nodes s) l = Some Directory)"

definition symlink_metadata :: "fs_state \<Rightarrow> string \<Rightarrow> io_error + fs_node" where
  "symlink_metadata s p =
     (case entry_of s p of
        Inl e \<Rightarrow> Inl e
      | Inr l \<Rightarrow> (case node_at (nodes s) l of None \<Rightarrow> Inl Not_found | Some n \<Rightarrow> Inr n))"

text \<open>\<open>Path::parent\<close> of an absolute path: the text up to the last component.\<close>

definition trim_segments :: "string list \<Rightarrow> string list" where
  "trim_segments segments = rev (dropWhile (\<lambda>s. s = [] \<or> s = ''.'') (rev segments))"

definition parent_dir :: "string \<Rightarrow> string option" where
  "parent_dir p =
     (case trim_segments (split_slash p) of
        [] \<Rightarrow> None
      | segments \<Rightarrow>
          (let up = trim_segments (butlast segments)
           in Some (if up = [] then (if path_is_absolute p then ''/'' else []) else join ''/'' up)))"

section \<open>Calls that read or write\<close>

definition next_event :: "io_event io" where
  "next_event =
     gets (\<lambda>s. case events s of
       [] \<Rightarrow> okM Proceed
     | e # es \<Rightarrow> andthen (upd (\<lambda>s. s\<lparr>events := es\<rparr>)) (okM e))"

text \<open>A call that an adverse event fails before it has any effect.\<close>

definition os_call :: "'a io \<Rightarrow> 'a io" where
  "os_call m =
     bnd next_event (\<lambda>ev. case ev of
       Proceed \<Rightarrow> m
     | Refuse e \<Rightarrow> errM (Os_error e)
     | Interrupt _ e \<Rightarrow> errM (Os_error e))"

definition read_bytes :: "string \<Rightarrow> bytes io" where
  "read_bytes p =
     os_call (gets (\<lambda>s. case resolve s p of
       Inl e \<Rightarrow> errM e
     | Inr l \<Rightarrow> (case node_at (nodes s) l of
           Some (Regular b) \<Rightarrow> okM b
         | _ \<Rightarrow> errM Is_a_directory)))"

definition read_to_string :: "string \<Rightarrow> string io" where
  "read_to_string p =
     bnd (read_bytes p) (\<lambda>b. case utf8_decode b of
       None \<Rightarrow> errM Invalid_utf8
     | Some t \<Rightarrow> okM t)"

definition put_node :: "location \<Rightarrow> fs_node \<Rightarrow> unit io" where
  "put_node l n = upd (\<lambda>s. s\<lparr>nodes := hash_insert l n (nodes s)\<rparr>)"

text \<open>
  Opening a file for writing, creating it if it is absent: the file then holds what \<open>kept\<close>
  leaves of its bytes (nothing when it is truncated). \<open>write_all\<close> adds at the end; when it is
  interrupted it leaves a part of the data behind.
\<close>

definition open_write :: "(bytes \<Rightarrow> bytes) \<Rightarrow> string \<Rightarrow> location io" where
  "open_write kept p =
     os_call (gets (\<lambda>s. case lookup s p of
       Inl e \<Rightarrow> errM e
     | Inr l \<Rightarrow>
         (case node_at (nodes s) l of
            Some (Regular b) \<Rightarrow> andthen (put_node l (Regular (kept b))) (okM l)
          | None \<Rightarrow> andthen (put_node l (Regular [])) (okM l)
          | Some _ \<Rightarrow> errM Is_a_directory)))"

definition append_bytes :: "location \<Rightarrow> bytes \<Rightarrow> unit io" where
  "append_bytes l data =
     gets (\<lambda>s. case node_at (nodes s) l of
       Some (Regular b) \<Rightarrow> put_node l (Regular (b @ data))
     | _ \<Rightarrow> okM ())"

definition write_all :: "location \<Rightarrow> bytes \<Rightarrow> unit io" where
  "write_all l data =
     bnd next_event (\<lambda>ev. case ev of
       Proceed \<Rightarrow> append_bytes l data
     | Refuse e \<Rightarrow> errM (Os_error e)
     | Interrupt n e \<Rightarrow> andthen (append_bytes l (take n data)) (errM (Os_error e)))"

text \<open>\<open>fs::write\<close>.\<close>

definition write_file :: "string \<Rightarrow> bytes \<Rightarrow> unit io" where
  "write_file p data = bnd (open_write (\<lambda>_. []) p) (\<lambda>l. write_all l data)"

definition remove_file :: "string \<Rightarrow> unit io" where
  "remove_file p =
     os_call (gets (\<lambda>s. case entry_of s p of
       Inl e \<Rightarrow> errM e
     | Inr l \<Rightarrow> (case node_at (nodes s) l of
           None \<Rightarrow> errM Not_found
         | Some Directory \<Rightarrow> errM Is_a_directory
         | Some _ \<Rightarrow> upd (\<lambda>s. s\<lparr>nodes := hash_remove l (nodes s)\<rparr>))))"

definition create_dir :: "string \<Rightarrow> unit io" where
  "create_dir p =
     os_call (gets (\<lambda>s. case entry_of s p of
       Inl e \<Rightarrow> errM e
     | Inr l \<Rightarrow> (case node_at (nodes s) l of
           Some _ \<Rightarrow> errM Already_exists
         | None \<Rightarrow> put_node l Directory)))"

subsection \<open>\<open>create_dir_all\<close>\<close>

lemma split_slash_ne [simp]: "split_slash p \<noteq> []"
  by (induction p) (auto split: list.splits)

lemma join_Cons: "join sep (x # xs) = (if xs = [] then x else x @ sep @ join sep xs)"
  by (cases xs) simp_all

lemma join_snoc: "join sep (xs @ [x]) = (if xs = [] then x else join sep xs @ sep @ x)"
  by (induction xs) (simp_all add: join_Cons)

lemma join_split_slash [simp]: "join ''/'' (split_slash p) = p"
proof (induction p)
  case (Cons c p)
  obtain x xs where "split_slash p = x # xs" by (cases "split_slash p") simp_all
  with Cons show ?case by (auto simp: join_Cons split: if_splits)
qed simp

lemma length_join_append: "length (join sep xs) \<le> length (join sep (xs @ ys))"
proof (induction ys rule: rev_induct)
  case (snoc y ys)
  then show ?case by (simp add: join_snoc flip: append_assoc)
qed simp

lemma length_join_prefix: "prefix xs ys \<Longrightarrow> length (join sep xs) \<le> length (join sep ys)"
  by (auto simp: prefix_def length_join_append)

lemma prefix_trim_segments: "prefix (trim_segments xs) xs"
  unfolding trim_segments_def
  by (metis suffix_dropWhile suffix_to_prefix rev_rev_ident)

lemma last_trim_segments: "trim_segments xs \<noteq> [] \<Longrightarrow> last (trim_segments xs) \<noteq> [] \<and> last (trim_segments xs) \<noteq> ''.''"
  using hd_dropWhile [of "\<lambda>s. s = [] \<or> s = ''.''" "rev xs"]
  by (auto simp: trim_segments_def last_rev)

lemma hd_split_slash: "hd (split_slash p) = [] \<longleftrightarrow> p = [] \<or> path_is_absolute p"
  by (cases p) (auto simp: path_is_absolute_def starts_with_def split: list.splits)

lemma parent_dir_shorter:
  assumes "parent_dir p = Some q"
  shows "length q < length p"
proof -
  define T where "T = trim_segments (split_slash p)"
  define U where "U = trim_segments (butlast T)"
  have ne: "T \<noteq> []"
    and q: "q = (if U = [] then (if path_is_absolute p then ''/'' else []) else join ''/'' U)"
    using assms by (auto simp: parent_dir_def T_def U_def Let_def split: list.splits)
  have lst: "last T \<noteq> []" using last_trim_segments ne by (simp add: T_def)
  have T: "T = butlast T @ [last T]" using ne by simp
  have "length (join ''/'' T) \<le> length p"
    using length_join_prefix [OF prefix_trim_segments, of "''/''" "split_slash p"] by (simp add: T_def)
  moreover have len: "length (join ''/'' T) =
      (if butlast T = [] then length (last T) else length (join ''/'' (butlast T)) + 1 + length (last T))"
    by (subst T) (simp add: join_snoc)
  moreover have "length (join ''/'' U) \<le> length (join ''/'' (butlast T))"
    unfolding U_def by (rule length_join_prefix [OF prefix_trim_segments])
  moreover have "butlast T \<noteq> []" if "path_is_absolute p"
  proof
    assume "butlast T = []"
    then have "T = [last T]" using T by simp
    moreover have "prefix T (split_slash p)" unfolding T_def by (rule prefix_trim_segments)
    ultimately have "hd (split_slash p) = last T" by (metis list.sel(1) prefix_def append_Cons)
    with that lst hd_split_slash [of p] show False by simp
  qed
  moreover have "Suc 0 \<le> length (last T)" using lst by (simp add: Suc_le_eq)
  ultimately have "length q < length p" if "p \<noteq> []" using q that by (simp split: if_splits)
  moreover have "p \<noteq> []" using ne by (auto simp: T_def trim_segments_def)
  ultimately show ?thesis by simp
qed

definition dir_or_fail :: "string \<Rightarrow> io_error \<Rightarrow> unit io" where
  "dir_or_fail p e = gets (\<lambda>s. if is_dir s p then okM () else errM e)"

function create_dir_all :: "string \<Rightarrow> unit io" where
  "create_dir_all p =
     (if p = [] then okM ()
      else bnd (attempt (create_dir p)) (\<lambda>r. case r of
        Inr _ \<Rightarrow> okM ()
      | Inl Not_found \<Rightarrow>
          (case parent_dir p of
             None \<Rightarrow> errM (Os_error ''failed to create whole tree'')
           | Some parent \<Rightarrow>
               andthen (create_dir_all parent)
                 (bnd (attempt (create_dir p)) (\<lambda>r. case r of
                    Inr _ \<Rightarrow> okM ()
                  | Inl e \<Rightarrow> dir_or_fail p e)))
      | Inl e \<Rightarrow> dir_or_fail p e))"
  by pat_completeness auto
termination
  by (relation "measure length") (auto dest: parent_dir_shorter)

declare create_dir_all.simps [simp del]

text \<open>The ancestors of a path, up to the first that exists.\<close>

function nearest_existing :: "fs_state \<Rightarrow> string \<Rightarrow> string option" where
  "nearest_existing s p =
     (if path_exists s p then Some p
      else case parent_dir p of None \<Rightarrow> None | Some parent \<Rightarrow> nearest_existing s parent)"
  by pat_completeness auto
termination
  by (relation "measure (\<lambda>(s, p). length p)") (auto dest: parent_dir_shorter)

declare nearest_existing.simps [simp del]

end
