(* ===== verification/Patch_Parser.thy ===== *)
theory Patch_Parser
  imports File_System
begin

text \<open>
  Model of the pure half of \<open>tools/stellaclaw-fs-tool/src/lib.rs\<close>: the format of patches written
  in the style of Codex and their parser, the application of update chunks to a text, and the
  rewriting of the paths in a unified diff before \<open>git apply\<close> reads it.
\<close>

section \<open>Data\<close>

datatype patch_format = Auto_format | Codex_format | Unified_format

record apply_patch_options =
  po_workspace :: string
  po_format :: patch_format
  po_check :: bool
  po_strip :: nat
  po_reverse :: bool
  po_max_output_chars :: nat

text \<open>The two kinds of \<open>PatchError\<close>, with the message.\<close>

datatype patch_error = Invalid_arguments string | Io_failure string

record codex_patch_chunk =
  chunk_old :: string
  chunk_new :: string

datatype codex_patch_op =
    Add_file string string
  | Delete_file string
  | Update_file string "string option" "codex_patch_chunk list"

definition resolve_format :: "patch_format \<Rightarrow> string \<Rightarrow> patch_format" where
  "resolve_format format patch =
     (case format of
        Auto_format \<Rightarrow>
          (if starts_with ''*** Begin Patch'' (trim_start patch) then Codex_format else Unified_format)
      | other \<Rightarrow> other)"

section \<open>Lines\<close>

fun replace_crlf :: "string \<Rightarrow> string" where
  "replace_crlf [] = []"
| "replace_crlf [c] = [c]"
| "replace_crlf (c # d # cs) =
     (if c = CHR 0x0D \<and> d = CHR 0x0A then CHR 0x0A # replace_crlf cs else c # replace_crlf (d # cs))"

fun split_newline :: "string \<Rightarrow> string list" where
  "split_newline [] = [[]]"
| "split_newline (c # cs) =
     (if c = CHR 0x0A then [] # split_newline cs
      else case split_newline cs of
        [] \<Rightarrow> [[c]]
      | line # lines \<Rightarrow> (c # line) # lines)"

definition blank_line :: "string \<Rightarrow> bool" where
  "blank_line line \<longleftrightarrow> trim line = []"

section \<open>The parser\<close>

definition begin_patch :: string where "begin_patch = ''*** Begin Patch''"
definition end_patch :: string where "end_patch = ''*** End Patch''"
definition add_header :: string where "add_header = ''*** Add File: ''"
definition delete_header :: string where "delete_header = ''*** Delete File: ''"
definition update_header :: string where "update_header = ''*** Update File: ''"
definition move_header :: string where "move_header = ''*** Move to: ''"
definition end_of_file :: string where "end_of_file = ''*** End of File''"

definition is_codex_patch_header :: "string \<Rightarrow> bool" where
  "is_codex_patch_header line \<longleftrightarrow>
     line = end_patch \<or> starts_with add_header line \<or> starts_with delete_header line
     \<or> starts_with update_header line"

definition expect_line :: "string list \<Rightarrow> string \<Rightarrow> patch_error + unit" where
  "expect_line lines expected =
     (if (case lines of [] \<Rightarrow> False | line # _ \<Rightarrow> line = expected) then Inr ()
      else Inl (Invalid_arguments (''codex patch must start with '' @ expected)))"

definition split_patch_line :: "string \<Rightarrow> (char \<times> string) option" where
  "split_patch_line line =
     (case line of
        [] \<Rightarrow> None
      | kind # text \<Rightarrow> if kind \<in> {CHR '' '', CHR ''-'', CHR ''+''} then Some (kind, text) else None)"

definition empty_chunk :: codex_patch_chunk where
  "empty_chunk = \<lparr>chunk_old = [], chunk_new = []\<rparr>"

definition push_non_empty_chunk ::
  "codex_patch_chunk list \<Rightarrow> codex_patch_chunk \<Rightarrow> codex_patch_chunk list" where
  "push_non_empty_chunk chunks current =
     (if chunk_old current = [] \<and> chunk_new current = [] then chunks else chunks @ [current])"

definition safe_patch_path :: "string \<Rightarrow> patch_error + string" where
  "safe_patch_path raw =
     (let path = trim raw
      in if path = [] then Inl (Invalid_arguments ''patch path must not be empty'')
         else if path_is_absolute path
              \<or> list_ex (\<lambda>c. c = ParentDir \<or> c = RootDir) (path_components path)
         then Inl (Invalid_arguments ''codex patch paths must be relative workspace paths without ..'')
         else Inr path)"

text \<open>The lines of an added file, up to the next header.\<close>

fun add_file_lines :: "string \<Rightarrow> string list \<Rightarrow> patch_error + (string \<times> string list)" where
  "add_file_lines content [] = Inr (content, [])"
| "add_file_lines content (line # lines) =
     (if is_codex_patch_header line then Inr (content, line # lines)
      else case strip_prefix ''+'' line of
        None \<Rightarrow> Inl (Invalid_arguments ''add file lines must start with +'')
      | Some text \<Rightarrow> add_file_lines (content @ text @ newline) lines)"

definition extend_chunk :: "char \<Rightarrow> string \<Rightarrow> codex_patch_chunk \<Rightarrow> codex_patch_chunk" where
  "extend_chunk kind text chunk =
     (if kind = CHR '' '' then
        chunk\<lparr>chunk_old := chunk_old chunk @ text @ newline, chunk_new := chunk_new chunk @ text @ newline\<rparr>
      else if kind = CHR ''-'' then chunk\<lparr>chunk_old := chunk_old chunk @ text @ newline\<rparr>
      else chunk\<lparr>chunk_new := chunk_new chunk @ text @ newline\<rparr>)"

text \<open>The chunks of an update, up to the next header.\<close>

fun update_file_lines ::
  "codex_patch_chunk list \<Rightarrow> codex_patch_chunk \<Rightarrow> string list \<Rightarrow>
     patch_error + (codex_patch_chunk list \<times> string list)" where
  "update_file_lines chunks current [] = Inr (push_non_empty_chunk chunks current, [])"
| "update_file_lines chunks current (line # lines) =
     (if is_codex_patch_header line then Inr (push_non_empty_chunk chunks current, line # lines)
      else if line = end_of_file then update_file_lines chunks current lines
      else if line = ''@@'' \<or> starts_with ''@@ '' line
      then update_file_lines (push_non_empty_chunk chunks current) empty_chunk lines
      else case split_patch_line line of
        None \<Rightarrow> Inl (Invalid_arguments (''invalid update line: '' @ line))
      | Some (kind, text) \<Rightarrow> update_file_lines chunks (extend_chunk kind text current) lines)"

text \<open>The optional line with the new name of an updated file.\<close>

definition move_line :: "string list \<Rightarrow> patch_error + (string option \<times> string list)" where
  "move_line lines =
     (case lines of
        [] \<Rightarrow> Inr (None, [])
      | line # rest \<Rightarrow>
          (case strip_prefix move_header line of
             None \<Rightarrow> Inr (None, lines)
           | Some path \<Rightarrow>
               (case safe_patch_path path of Inl e \<Rightarrow> Inl e | Inr path \<Rightarrow> Inr (Some path, rest))))"

text \<open>One section of a patch, and the lines after it.\<close>

definition parse_add :: "string \<Rightarrow> string list \<Rightarrow> patch_error + (codex_patch_op \<times> string list)" where
  "parse_add path lines =
     (case safe_patch_path path of
        Inl e \<Rightarrow> Inl e
      | Inr path \<Rightarrow>
          (case add_file_lines [] lines of
             Inl e \<Rightarrow> Inl e
           | Inr (content, rest) \<Rightarrow>
               (if content = [] then
                  Inl (Invalid_arguments ''add file section must contain at least one + line'')
                else Inr (Add_file path content, rest))))"

definition parse_update :: "string \<Rightarrow> string list \<Rightarrow> patch_error + (codex_patch_op \<times> string list)" where
  "parse_update path lines =
     (case safe_patch_path path of
        Inl e \<Rightarrow> Inl e
      | Inr path \<Rightarrow>
          (case move_line lines of
             Inl e \<Rightarrow> Inl e
           | Inr (move_to, lines) \<Rightarrow>
               (case update_file_lines [] empty_chunk lines of
                  Inl e \<Rightarrow> Inl e
                | Inr (chunks, rest) \<Rightarrow>
                    (if move_to = None \<and> chunks = [] then
                       Inl (Invalid_arguments ''update file section must contain changes or a move'')
                     else Inr (Update_file path move_to chunks, rest)))))"

definition parse_section :: "string \<Rightarrow> string list \<Rightarrow> patch_error + (codex_patch_op \<times> string list)" where
  "parse_section line lines =
     (case strip_prefix add_header line of
        Some path \<Rightarrow> parse_add path lines
      | None \<Rightarrow>
          (case strip_prefix delete_header line of
             Some path \<Rightarrow>
               (case safe_patch_path path of Inl e \<Rightarrow> Inl e | Inr path \<Rightarrow> Inr (Delete_file path, lines))
           | None \<Rightarrow>
               (case strip_prefix update_header line of
                  Some path \<Rightarrow> parse_update path lines
                | None \<Rightarrow> Inl (Invalid_arguments (''unknown codex patch header: '' @ line)))))"

lemma add_file_lines_shorter: "add_file_lines content lines = Inr (c, rest) \<Longrightarrow> length rest \<le> length lines"
  by (induction content lines rule: add_file_lines.induct) (auto split: if_splits option.splits)

lemma update_file_lines_shorter:
  "update_file_lines chunks current lines = Inr (cs, rest) \<Longrightarrow> length rest \<le> length lines"
proof (induction chunks current lines rule: update_file_lines.induct)
  case (2 chunks current line lines)
  then show ?case by (fastforce split: if_splits option.splits)
qed simp

lemma move_line_shorter: "move_line lines = Inr (m, rest) \<Longrightarrow> length rest \<le> length lines"
  by (auto simp: move_line_def split: list.splits option.splits sum.splits)

lemma parse_section_shorter: "parse_section line lines = Inr (patch_op, rest) \<Longrightarrow> length rest \<le> length lines"
  by (auto simp: parse_section_def parse_add_def parse_update_def
      split: option.splits sum.splits if_splits
      dest!: add_file_lines_shorter update_file_lines_shorter move_line_shorter)

function parse_sections ::
  "codex_patch_op list \<Rightarrow> string list \<Rightarrow> patch_error + (codex_patch_op list \<times> string list)" where
  "parse_sections ops [] = Inl (Invalid_arguments ''codex patch missing *** End Patch'')"
| "parse_sections ops (line # lines) =
     (if line = end_patch then Inr (ops, lines)
      else case parse_section line lines of
        Inl e \<Rightarrow> Inl e
      | Inr (patch_op, rest) \<Rightarrow> parse_sections (ops @ [patch_op]) rest)"
  by pat_completeness auto
termination
  by (relation "measure (\<lambda>(_, lines). length lines)")
     (auto dest!: parse_section_shorter)

definition parse_codex_patch :: "string \<Rightarrow> patch_error + codex_patch_op list" where
  "parse_codex_patch patch =
     (let lines = dropWhile blank_line (split_newline (replace_crlf patch))
      in case expect_line lines begin_patch of
           Inl e \<Rightarrow> Inl e
         | Inr _ \<Rightarrow>
             (case parse_sections [] (tl lines) of
                Inl e \<Rightarrow> Inl e
              | Inr (ops, rest) \<Rightarrow>
                  (if list_ex (\<lambda>line. \<not> blank_line line) rest then
                     Inl (Invalid_arguments ''unexpected content after *** End Patch'')
                   else if ops = [] then
                     Inl (Invalid_arguments ''codex patch must contain at least one file operation'')
                   else Inr ops)))"

section \<open>Chunks\<close>

definition display_patch_path :: "string \<Rightarrow> string" where
  "display_patch_path = map (\<lambda>c. if c = CHR 0x5C then CHR ''/'' else c)"

text \<open>
  \<open>str::matches(..).count()\<close> of a non-empty pattern: occurrences that overlap an earlier one are
  not counted. \<open>replacen(.., 1)\<close> replaces the first occurrence.
\<close>

function count_matches :: "string \<Rightarrow> string \<Rightarrow> nat" where
  "count_matches pat s =
     (if pat = [] \<or> s = [] then 0
      else if starts_with pat s then Suc (count_matches pat (drop (length pat) s))
      else count_matches pat (tl s))"
  by pat_completeness auto
termination
  by (relation "measure (\<lambda>(_, s). length s)") auto

declare count_matches.simps [simp del]

fun replace_first :: "string \<Rightarrow> string \<Rightarrow> string \<Rightarrow> string" where
  "replace_first old new [] = (if old = [] then new else [])"
| "replace_first old new (c # cs) =
     (if starts_with old (c # cs) then new @ drop (length old) (c # cs)
      else c # replace_first old new cs)"

fun verify_chunks_match :: "string \<Rightarrow> string \<Rightarrow> codex_patch_chunk list \<Rightarrow> patch_error + unit" where
  "verify_chunks_match path current [] = Inr ()"
| "verify_chunks_match path current (chunk # chunks) =
     (if chunk_old chunk = [] then
        Inl (Invalid_arguments
          (''update chunk for '' @ display_patch_path path @ '' has no old/context lines''))
      else if count_matches (chunk_old chunk) current \<noteq> 1 then
        Inl (Invalid_arguments
          (''update chunk for '' @ display_patch_path path @ '' matched ''
            @ show_nat (count_matches (chunk_old chunk) current)
            @ '' locations; include more context''))
      else verify_chunks_match path
             (replace_first (chunk_old chunk) (chunk_new chunk) current) chunks)"

definition apply_chunks :: "codex_patch_chunk list \<Rightarrow> string \<Rightarrow> string" where
  "apply_chunks chunks content =
     fold (\<lambda>chunk. replace_first (chunk_old chunk) (chunk_new chunk)) chunks content"

text \<open>The paths an operation reports as changed.\<close>

definition collect_codex_patch_paths :: "codex_patch_op \<Rightarrow> string list" where
  "collect_codex_patch_paths patch_op =
     (case patch_op of
        Add_file path _ \<Rightarrow> [display_patch_path path]
      | Delete_file path \<Rightarrow> [display_patch_path path]
      | Update_file path move_to _ \<Rightarrow>
          display_patch_path path
          # (case move_to of None \<Rightarrow> [] | Some target \<Rightarrow> [display_patch_path target]))"

section \<open>Paths of a unified diff\<close>

text \<open>\<open>{path:?}\<close>.\<close>

definition debug_char :: "char \<Rightarrow> string" where
  "debug_char c =
     (let n = of_char c :: nat
      in if c = CHR 0x22 then [CHR 0x5C, CHR 0x22]
         else if c = CHR 0x5C then [CHR 0x5C, CHR 0x5C]
         else if n = 0 then CHR 0x5C # ''0''
         else if n = 9 then CHR 0x5C # ''t''
         else if n = 10 then CHR 0x5C # ''n''
         else if n = 13 then CHR 0x5C # ''r''
         else if n < 32 \<or> 127 \<le> n \<and> n \<le> 160 \<or> n = 173 then CHR 0x5C # ''u{'' @ show_base 16 n @ ''}''
         else [c])"

definition debug_str :: "string \<Rightarrow> string" where
  "debug_str s = CHR 0x22 # concat (map debug_char s) @ [CHR 0x22]"

text \<open>\<open>Path::strip_prefix\<close> of an absolute path: the text after the components of the base.\<close>

fun skip_names :: "nat \<Rightarrow> string list \<Rightarrow> string list" where
  "skip_names n [] = []"
| "skip_names n (s # ss) =
     (if s = [] \<or> s = ''.'' then skip_names n ss
      else case n of 0 \<Rightarrow> s # ss | Suc n' \<Rightarrow> skip_names n' ss)"

definition path_strip_prefix :: "string \<Rightarrow> string \<Rightarrow> string option" where
  "path_strip_prefix base path =
     (if path_starts_with base path then
        Some (join ''/'' (trim_segments (skip_names (length (path_components base) - 1) (split_slash path))))
      else None)"

definition normalize_unified_path_token ::
  "string \<Rightarrow> string option \<Rightarrow> string \<Rightarrow> patch_error + string" where
  "normalize_unified_path_token path base base_label =
     (if path = ''/dev/null'' \<or> \<not> path_is_absolute path then Inr path
      else case base of
        None \<Rightarrow>
          Inl (Invalid_arguments
            (''unified patch path '' @ debug_str path @ '' is absolute; use a workspace-relative path''))
      | Some base \<Rightarrow>
          (case path_strip_prefix base path of
             None \<Rightarrow>
               Inl (Invalid_arguments
                 (''unified patch path '' @ debug_str path @ '' is absolute and outside the ''
                   @ base_label @ '' '' @ base @ ''; use a relative patch path''))
           | Some relative \<Rightarrow>
               (if relative = [] then
                  Inl (Invalid_arguments
                    (''unified patch path '' @ debug_str path @ '' points at the '' @ base_label
                      @ '' root; use a file path''))
                else Inr relative)))"

definition split_unified_header_path :: "string \<Rightarrow> string \<times> string" where
  "split_unified_header_path rest =
     (if CHR 0x09 \<in> set rest
      then (takeWhile (\<lambda>c. c \<noteq> CHR 0x09) rest, dropWhile (\<lambda>c. c \<noteq> CHR 0x09) rest)
      else if starts_with ''/'' rest \<and> list_ex rust_whitespace rest
      then (takeWhile (\<lambda>c. \<not> rust_whitespace c) rest, dropWhile (\<lambda>c. \<not> rust_whitespace c) rest)
      else (rest, []))"

text \<open>Each of the following returns the new text and whether it set the flag \<open>changed\<close>.\<close>

definition normalize_unified_file_header ::
  "string \<Rightarrow> string \<Rightarrow> string option \<Rightarrow> string \<Rightarrow> patch_error + (string \<times> bool)" where
  "normalize_unified_file_header marker rest base base_label =
     (case split_unified_header_path rest of
        (path, trailer) \<Rightarrow>
          (case normalize_unified_path_token path base base_label of
             Inl e \<Rightarrow> Inl e
           | Inr normalized \<Rightarrow> Inr (marker @ normalized @ trailer, normalized \<noteq> path)))"

definition normalize_diff_git_header ::
  "string \<Rightarrow> string option \<Rightarrow> string \<Rightarrow> patch_error + (string \<times> bool)" where
  "normalize_diff_git_header rest base base_label =
     (case split_whitespace rest of
        [] \<Rightarrow> Inr (''diff --git '', False)
      | [old_path, new_path] \<Rightarrow>
          (case normalize_unified_path_token old_path base base_label of
             Inl e \<Rightarrow> Inl e
           | Inr normalized_old \<Rightarrow>
               (case normalize_unified_path_token new_path base base_label of
                  Inl e \<Rightarrow> Inl e
                | Inr normalized_new \<Rightarrow>
                    Inr (''diff --git '' @ normalized_old @ '' '' @ normalized_new,
                         normalized_old \<noteq> old_path \<or> normalized_new \<noteq> new_path)))
      | _ \<Rightarrow> Inr (''diff --git '' @ rest, False))"

definition normalize_unified_line ::
  "string option \<Rightarrow> string \<Rightarrow> string \<Rightarrow> patch_error + (string \<times> bool)" where
  "normalize_unified_line base base_label line =
     (case strip_prefix ''--- '' line of
        Some rest \<Rightarrow> normalize_unified_file_header ''--- '' rest base base_label
      | None \<Rightarrow>
          (case strip_prefix ''+++ '' line of
             Some rest \<Rightarrow> normalize_unified_file_header ''+++ '' rest base base_label
           | None \<Rightarrow>
               (case strip_prefix ''diff --git '' line of
                  Some rest \<Rightarrow> normalize_diff_git_header rest base base_label
                | None \<Rightarrow> Inr (line, False))))"

fun normalize_unified_lines ::
  "string option \<Rightarrow> string \<Rightarrow> string list \<Rightarrow> patch_error + (string list \<times> bool)" where
  "normalize_unified_lines base base_label [] = Inr ([], False)"
| "normalize_unified_lines base base_label (line # lines) =
     (case normalize_unified_line base base_label line of
        Inl e \<Rightarrow> Inl e
      | Inr (normalized, changed) \<Rightarrow>
          (case normalize_unified_lines base base_label lines of
             Inl e \<Rightarrow> Inl e
           | Inr (rest, changed') \<Rightarrow> Inr (normalized # rest, changed \<or> changed')))"

text \<open>
  \<open>split_inclusive\<close> ends a segment after each newline and yields no empty last segment; the
  lines of \<open>split_newline\<close>, joined again by newlines, are the same text, and its empty last line
  is passed through unchanged.
\<close>

definition normalize_unified_patch_paths ::
  "string \<Rightarrow> string option \<Rightarrow> string \<Rightarrow> patch_error + string" where
  "normalize_unified_patch_paths patch base base_label =
     (case normalize_unified_lines base base_label (split_newline patch) of
        Inl e \<Rightarrow> Inl e
      | Inr (lines, changed) \<Rightarrow> Inr (if changed then join newline lines else patch))"

end
