(* ===== verification/Patch_Tool.thy ===== *)
theory Patch_Tool
  imports Patch_Parser Host_Config
begin

text \<open>
  Model of the part of \<open>tools/stellaclaw-fs-tool/src/lib.rs\<close> that works on the file system:
  resolution of the paths of a request inside the workspace, the verification and application of
  Codex patches, and reading, writing and hashing files. The process \<open>git apply\<close>, the SHA-256
  digest and the text of an \<open>io::Error\<close> are parameters.
\<close>

section \<open>Environment\<close>

record process_output =
  out_code :: "int option"
  out_stdout :: string
  out_stderr :: string

datatype git_failure =
    Git_spawn string
  | Git_stdin_missing
  | Git_write string
  | Git_wait string

text \<open>\<open>git apply\<close> gets its arguments, its working directory and its standard input.\<close>

record tool_env =
  io_text :: "io_error \<Rightarrow> string"
  git_apply :: "string list \<Rightarrow> string \<Rightarrow> string \<Rightarrow> fs_state \<Rightarrow> (git_failure + process_output) \<times> fs_state"
  sha256 :: "bytes \<Rightarrow> bytes"

type_synonym 'a patch_act = "(fs_state, patch_error, 'a) act"

text \<open>\<open>map_err\<close> of a call, and a failed one reported with a message before the error's text.\<close>

definition with_error :: "('e \<Rightarrow> 'f) \<Rightarrow> ('s, 'e, 'a) act \<Rightarrow> ('s, 'f, 'a) act" where
  "with_error f m = (\<lambda>s. case m s of (r, s') \<Rightarrow> (map_err f r, s'))"

definition io_message :: "tool_env \<Rightarrow> string \<Rightarrow> io_error \<Rightarrow> patch_error" where
  "io_message env what e = Io_failure (what @ '': '' @ io_text env e)"

definition patch_io :: "tool_env \<Rightarrow> string \<Rightarrow> 'a io \<Rightarrow> 'a patch_act" where
  "patch_io env what m = with_error (io_message env what) m"

text \<open>A call that only looks at the tree.\<close>

definition look :: "(fs_state \<Rightarrow> 'e + 'a) \<Rightarrow> (fs_state, 'e, 'a) act" where
  "look f = gets (\<lambda>s. from_result (f s))"

section \<open>Staying inside the workspace\<close>

definition canonical_workspace :: "tool_env \<Rightarrow> string \<Rightarrow> string patch_act" where
  "canonical_workspace env workspace =
     bnd (patch_io env (''failed to canonicalize workspace '' @ workspace)
            (look (\<lambda>s. canonicalize s workspace)))
       (\<lambda>canonical. gets (\<lambda>s.
          if is_dir s canonical then okM canonical
          else errM (Invalid_arguments (''workspace '' @ workspace @ '' is not a directory''))))"

definition ensure_inside_workspace :: "string \<Rightarrow> string \<Rightarrow> patch_error + unit" where
  "ensure_inside_workspace workspace path =
     (if path_starts_with workspace path then Inr ()
      else Inl (Invalid_arguments (''patch path '' @ path @ '' escapes workspace '' @ workspace)))"

definition ensure_parent_stays_inside_workspace :: "tool_env \<Rightarrow> string \<Rightarrow> string \<Rightarrow> unit patch_act" where
  "ensure_parent_stays_inside_workspace env workspace target =
     (case parent_dir target of
        None \<Rightarrow> errM (Invalid_arguments (''patch path '' @ target @ '' has no parent''))
      | Some parent \<Rightarrow>
          gets (\<lambda>s. case nearest_existing s parent of
            None \<Rightarrow> errM (Invalid_arguments (''patch path '' @ target @ '' has no existing ancestor''))
          | Some current \<Rightarrow>
              bnd (patch_io env (''failed to canonicalize parent '' @ current)
                     (look (\<lambda>s. canonicalize s current)))
                (\<lambda>canonical. from_result (ensure_inside_workspace workspace canonical))))"

definition workspace_path_for_write :: "tool_env \<Rightarrow> string \<Rightarrow> string \<Rightarrow> string patch_act" where
  "workspace_path_for_write env workspace relative =
     (let target = path_join workspace relative
      in andthen (ensure_parent_stays_inside_workspace env workspace target) (okM target))"

definition ensure_parent_dir :: "tool_env \<Rightarrow> string \<Rightarrow> string \<Rightarrow> unit patch_act" where
  "ensure_parent_dir env target workspace =
     (case parent_dir target of
        None \<Rightarrow> errM (Invalid_arguments ''patch target has no parent directory'')
      | Some parent \<Rightarrow>
          andthen (ensure_parent_stays_inside_workspace env workspace target)
            (patch_io env (''failed to create '' @ parent) (create_dir_all parent)))"

definition not_an_existing_file :: "string \<Rightarrow> patch_error" where
  "not_an_existing_file relative =
     Invalid_arguments (display_patch_path relative @ '' is not an existing file'')"

definition workspace_existing_file :: "tool_env \<Rightarrow> string \<Rightarrow> string \<Rightarrow> string patch_act" where
  "workspace_existing_file env workspace relative =
     (let target = path_join workspace relative
      in bnd (with_error (\<lambda>_. not_an_existing_file relative) (look (\<lambda>s. canonicalize s target)))
           (\<lambda>canonical. andthen (from_result (ensure_inside_workspace workspace canonical))
             (bnd (patch_io env (''failed to stat '' @ target) (look (\<lambda>s. symlink_metadata s target)))
               (\<lambda>metadata. case metadata of
                  Regular _ \<Rightarrow> okM target
                | _ \<Rightarrow> errM (not_an_existing_file relative)))))"

definition reject_symlink :: "tool_env \<Rightarrow> string \<Rightarrow> unit patch_act" where
  "reject_symlink env path =
     bnd (patch_io env (''failed to stat '' @ path) (look (\<lambda>s. symlink_metadata s path)))
       (\<lambda>metadata. case metadata of
          Symlink _ \<Rightarrow> errM (Invalid_arguments (''refusing to patch symlink '' @ path))
        | _ \<Rightarrow> okM ())"

definition already_exists :: "string \<Rightarrow> patch_error" where
  "already_exists path = Invalid_arguments (display_patch_path path @ '' already exists'')"

section \<open>Codex patches\<close>

text \<open>\<open>Path\<close> equality compares components.\<close>

definition same_path :: "string \<Rightarrow> string \<Rightarrow> bool" where
  "same_path p q \<longleftrightarrow> path_components p = path_components q"

definition verify_move_target :: "tool_env \<Rightarrow> string \<Rightarrow> string \<Rightarrow> string option \<Rightarrow> unit patch_act" where
  "verify_move_target env workspace path move_to =
     (case move_to of
        None \<Rightarrow> okM ()
      | Some move_to \<Rightarrow>
          bnd (workspace_path_for_write env workspace move_to) (\<lambda>target. gets (\<lambda>s.
            if path_exists s target \<and> \<not> same_path move_to path then errM (already_exists move_to)
            else when_act (path_exists s target) (reject_symlink env target))))"

definition verify_codex_patch_op :: "tool_env \<Rightarrow> string \<Rightarrow> codex_patch_op \<Rightarrow> unit patch_act" where
  "verify_codex_patch_op env workspace patch_op =
     (case patch_op of
        Add_file path _ \<Rightarrow>
          bnd (workspace_path_for_write env workspace path) (\<lambda>target. gets (\<lambda>s.
            if path_exists s target then errM (already_exists path) else okM ()))
      | Delete_file path \<Rightarrow>
          bnd (workspace_existing_file env workspace path) (reject_symlink env)
      | Update_file path move_to chunks \<Rightarrow>
          bnd (workspace_existing_file env workspace path) (\<lambda>source.
            andthen (reject_symlink env source)
              (andthen (verify_move_target env workspace path move_to)
                (bnd (patch_io env (''failed to read '' @ source) (read_to_string source))
                  (\<lambda>content. from_result (verify_chunks_match path content chunks))))))"

definition write_patched :: "tool_env \<Rightarrow> string \<Rightarrow> string \<Rightarrow> string \<Rightarrow> unit patch_act" where
  "write_patched env workspace target content =
     andthen (ensure_parent_dir env target workspace)
       (patch_io env (''failed to write '' @ target) (write_file target (utf8_encode content)))"

text \<open>An applied operation returns the paths it inserts into \<open>files_changed\<close>.\<close>

definition apply_codex_patch_op :: "tool_env \<Rightarrow> string \<Rightarrow> codex_patch_op \<Rightarrow> string list patch_act" where
  "apply_codex_patch_op env workspace patch_op =
     (case patch_op of
        Add_file path content \<Rightarrow>
          bnd (workspace_path_for_write env workspace path) (\<lambda>target.
            andthen (write_patched env workspace target content)
              (okM [display_patch_path path]))
      | Delete_file path \<Rightarrow>
          bnd (workspace_existing_file env workspace path) (\<lambda>target.
            andthen (reject_symlink env target)
              (andthen (patch_io env (''failed to delete '' @ target) (remove_file target))
                (okM [display_patch_path path])))
      | Update_file path move_to chunks \<Rightarrow>
          bnd (workspace_existing_file env workspace path) (\<lambda>source.
            andthen (reject_symlink env source)
              (bnd (patch_io env (''failed to read '' @ source) (read_to_string source)) (\<lambda>content.
                bnd (workspace_path_for_write env workspace (unwrap_or path move_to)) (\<lambda>target.
                  andthen (gets (\<lambda>s. when_act (path_exists s target) (reject_symlink env target)))
                    (andthen (write_patched env workspace target (apply_chunks chunks content))
                      (andthen
                        (when_act (case move_to of None \<Rightarrow> False | Some m \<Rightarrow> \<not> same_path m path)
                          (patch_io env (''failed to delete '' @ source) (remove_file source)))
                        (okM (display_patch_path path
                          # (case move_to of None \<Rightarrow> [] | Some m \<Rightarrow> [display_patch_path m]))))))))))"

fun apply_all_ops :: "tool_env \<Rightarrow> string \<Rightarrow> codex_patch_op list \<Rightarrow> string list patch_act" where
  "apply_all_ops env workspace [] = okM []"
| "apply_all_ops env workspace (patch_op # ops) =
     bnd (apply_codex_patch_op env workspace patch_op) (\<lambda>changed.
       bnd (apply_all_ops env workspace ops) (\<lambda>more. okM (changed @ more)))"

definition codex_result :: "bool \<Rightarrow> string list \<Rightarrow> nat \<Rightarrow> json" where
  "codex_result check files_changed operation_count =
     JObject [(''format'', JString ''codex''), (''applied'', JBool True), (''check'', JBool check),
       (''files_changed'', JArray (map JString (btree_set files_changed))),
       (''operation_count'', JInt (int operation_count))]"

definition apply_codex_patch :: "tool_env \<Rightarrow> string \<Rightarrow> apply_patch_options \<Rightarrow> string \<Rightarrow> json patch_act" where
  "apply_codex_patch env patch options workspace =
     (if po_strip options \<noteq> 0 \<or> po_reverse options then
        errM (Invalid_arguments ''format=codex does not support --strip or --reverse'')
      else
        bnd (from_result (parse_codex_patch patch)) (\<lambda>ops.
          andthen (for_each (verify_codex_patch_op env workspace) ops)
            (bnd (if po_check options then okM (concat (map collect_codex_patch_paths ops))
                  else apply_all_ops env workspace ops)
              (\<lambda>files_changed.
                 okM (codex_result (po_check options) files_changed (length ops))))))"

section \<open>Unified diffs\<close>

definition truncate_text :: "string \<Rightarrow> nat \<Rightarrow> string \<times> bool" where
  "truncate_text text max_chars =
     (if length text \<le> max_chars then (text, False)
      else (take max_chars text @ newline @ ''... truncated ...'', True))"

definition process_output_result :: "process_output \<Rightarrow> nat \<Rightarrow> json" where
  "process_output_result output max_output_chars =
     (let (stdout, stdout_truncated) = truncate_text (out_stdout output) max_output_chars;
          (stderr, stderr_truncated) = truncate_text (out_stderr output) max_output_chars
      in JObject
          ([(''format'', JString ''unified''), (''applied'', JBool (out_code output = Some 0))]
           @ (case out_code output of None \<Rightarrow> [] | Some code \<Rightarrow> [(''returncode'', JInt code)])
           @ (if stdout = [] then [] else [(''stdout'', JString stdout)])
           @ (if stderr = [] then [] else [(''stderr'', JString stderr)])
           @ (if stdout_truncated then [(''stdout_truncated'', JBool True)] else [])
           @ (if stderr_truncated then [(''stderr_truncated'', JBool True)] else [])))"

definition git_arguments :: "apply_patch_options \<Rightarrow> string list" where
  "git_arguments options =
     [''apply'', ''--recount'', ''--whitespace=nowarn'', ''-p'' @ show_nat (po_strip options)]
     @ (if po_reverse options then [''--reverse''] else [])
     @ (if po_check options then [''--check''] else [])"

fun git_error :: "git_failure \<Rightarrow> patch_error" where
  "git_error (Git_spawn e) = Io_failure (''failed to spawn git apply: '' @ e)"
| "git_error Git_stdin_missing = Io_failure ''failed to open git apply stdin''"
| "git_error (Git_write e) = Io_failure (''failed to write patch to git apply: '' @ e)"
| "git_error (Git_wait e) = Io_failure (''failed to wait for git apply: '' @ e)"

definition apply_unified_patch :: "tool_env \<Rightarrow> string \<Rightarrow> apply_patch_options \<Rightarrow> string \<Rightarrow> json patch_act" where
  "apply_unified_patch env patch options workspace =
     bnd (from_result (normalize_unified_patch_paths patch (Some workspace) ''workspace'')) (\<lambda>patch.
       bnd (with_error git_error (git_apply env (git_arguments options) workspace patch)) (\<lambda>output.
         okM (process_output_result output (po_max_output_chars options))))"

section \<open>The entry point\<close>

definition error_kind :: "patch_error \<Rightarrow> string" where
  "error_kind e = (case e of Invalid_arguments _ \<Rightarrow> ''invalid_arguments'' | Io_failure _ \<Rightarrow> ''io'')"

definition error_message :: "patch_error \<Rightarrow> string" where
  "error_message e = (case e of Invalid_arguments m \<Rightarrow> m | Io_failure m \<Rightarrow> m)"

definition apply_patch_inner :: "tool_env \<Rightarrow> string \<Rightarrow> apply_patch_options \<Rightarrow> json patch_act" where
  "apply_patch_inner env patch options =
     bnd (canonical_workspace env (po_workspace options)) (\<lambda>workspace.
       case resolve_format (po_format options) patch of
         Codex_format \<Rightarrow> apply_codex_patch env patch options workspace
       | _ \<Rightarrow> apply_unified_patch env patch options workspace)"

text \<open>The three tools return a JSON value in every case.\<close>

definition reporting :: "(patch_error \<Rightarrow> json) \<Rightarrow> json patch_act \<Rightarrow> fs_state \<Rightarrow> json \<times> fs_state" where
  "reporting f m s = (case m s of (Inl e, s') \<Rightarrow> (f e, s') | (Inr v, s') \<Rightarrow> (v, s'))"

definition patch_failed :: "patch_error \<Rightarrow> json" where
  "patch_failed e =
     JObject [(''applied'', JBool False), (''error_kind'', JString (error_kind e)),
       (''error'', JString (error_message e))]"

definition tool_error :: "patch_error \<Rightarrow> json" where
  "tool_error e =
     JObject [(''ok'', JBool False), (''error_kind'', JString (error_kind e)),
       (''error'', JString (error_message e))]"

definition apply_patch :: "tool_env \<Rightarrow> string \<Rightarrow> apply_patch_options \<Rightarrow> fs_state \<Rightarrow> json \<times> fs_state" where
  "apply_patch env patch options = reporting patch_failed (apply_patch_inner env patch options)"

section \<open>Reading, writing and hashing files\<close>

record file_read_options =
  fr_workspace :: string
  fr_file_path :: string
  fr_start_line :: nat
  fr_end_line :: "nat option"
  fr_limit :: "nat option"

record file_write_options =
  fw_workspace :: string
  fw_file_path :: string
  fw_content :: string
  fw_mode :: string

record file_hash_options =
  fh_workspace :: string
  fh_file_path :: string

fun normalize_workspace_relative_path :: "string list \<Rightarrow> path_component list \<Rightarrow> patch_error + string" where
  "normalize_workspace_relative_path parts [] = Inr (join ''/'' parts)"
| "normalize_workspace_relative_path parts (Normal part # cs) =
     normalize_workspace_relative_path (parts @ [part]) cs"
| "normalize_workspace_relative_path parts (CurDir # cs) = normalize_workspace_relative_path parts cs"
| "normalize_workspace_relative_path parts (ParentDir # cs) =
     Inl (Invalid_arguments ''file_path must be a workspace-relative path without ..'')"
| "normalize_workspace_relative_path parts (RootDir # cs) =
     Inl (Invalid_arguments ''file_path must be a workspace-relative path'')"

fun normalize_absolute_path ::
  "string \<Rightarrow> location \<Rightarrow> path_component list \<Rightarrow> patch_error + string" where
  "normalize_absolute_path path l [] = Inr (show_location l)"
| "normalize_absolute_path path l (RootDir # cs) = normalize_absolute_path path [] cs"
| "normalize_absolute_path path l (Normal part # cs) = normalize_absolute_path path (l @ [part]) cs"
| "normalize_absolute_path path l (CurDir # cs) = normalize_absolute_path path l cs"
| "normalize_absolute_path path l (ParentDir # cs) =
     (if l = [] then
        Inl (Invalid_arguments (''file path '' @ path @ '' escapes filesystem root''))
      else normalize_absolute_path path (butlast l) cs)"

definition resolve_workspace_path :: "string \<Rightarrow> string \<Rightarrow> patch_error + string" where
  "resolve_workspace_path workspace raw =
     (let path = trim raw
      in if path = [] then Inr workspace
         else if path_is_absolute path then
           (case normalize_absolute_path path [] (path_components path) of
              Inl e \<Rightarrow> Inl e
            | Inr normalized \<Rightarrow>
                (if path_starts_with workspace normalized then Inr normalized
                 else Inl (Invalid_arguments
                   (''file path '' @ path @ '' is outside workspace '' @ workspace
                     @ ''; use a workspace-relative path''))))
         else (case normalize_workspace_relative_path [] (path_components path) of
             Inl e \<Rightarrow> Inl e
           | Inr relative \<Rightarrow> Inr (path_join workspace relative)))"

definition resolve_existing_workspace_file ::
  "tool_env \<Rightarrow> string \<Rightarrow> string \<Rightarrow> (string \<times> string \<times> string) patch_act" where
  "resolve_existing_workspace_file env workspace file_path =
     bnd (canonical_workspace env workspace) (\<lambda>workspace.
       bnd (from_result (resolve_workspace_path workspace file_path)) (\<lambda>path.
         bnd (patch_io env (''failed to canonicalize '' @ path) (look (\<lambda>s. canonicalize s path)))
           (\<lambda>canonical. andthen (from_result (ensure_inside_workspace workspace canonical))
             (gets (\<lambda>s.
                if is_dir s canonical then
                  errM (Invalid_arguments (path @ '' is a directory, not a file''))
                else okM (workspace, path, canonical))))))"

definition numbered_lines :: "nat \<Rightarrow> nat \<Rightarrow> string \<Rightarrow> string list" where
  "numbered_lines start_line limit text =
     map (\<lambda>(index, line). show_nat (index + 1) @ '': '' @ line)
       (take limit (drop (start_line - 1) (List.enumerate 0 (str_lines text))))"

text \<open>The number of lines to show.\<close>

definition read_limit :: "nat \<Rightarrow> nat option \<Rightarrow> nat option \<Rightarrow> patch_error + nat" where
  "read_limit start_line end_line limit =
     (case end_line of
        Some end_line \<Rightarrow>
          (if end_line < start_line then
             Inl (Invalid_arguments ''argument end_line must be greater than or equal to start_line'')
           else Inr (end_line - start_line + 1))
      | None \<Rightarrow> Inr (unwrap_or 200 limit))"

definition file_read_result :: "string \<Rightarrow> nat \<Rightarrow> nat \<Rightarrow> string \<Rightarrow> json" where
  "file_read_result path start_line limit text =
     (let selected = numbered_lines start_line limit text;
          total_lines = length (str_lines text);
          end_line = (if selected = [] then start_line - 1 else start_line + length selected - 1)
      in JObject [(''file_path'', JString path), (''start_line'', JInt (int start_line)),
           (''end_line'', JInt (int end_line)), (''total_lines'', JInt (int total_lines)),
           (''truncated'', JBool (end_line < total_lines)),
           (''content'', JString (join newline selected))])"

definition file_read_inner :: "tool_env \<Rightarrow> file_read_options \<Rightarrow> json patch_act" where
  "file_read_inner env options =
     bnd (resolve_existing_workspace_file env (fr_workspace options) (fr_file_path options))
       (\<lambda>(_, path, canonical).
         bnd (patch_io env (''failed to read '' @ path) (read_to_string canonical)) (\<lambda>text.
           let start_line = max (fr_start_line options) 1
           in bnd (from_result (read_limit start_line (fr_end_line options) (fr_limit options)))
                (\<lambda>limit. okM (file_read_result path start_line limit text))))"

definition file_read_tool :: "tool_env \<Rightarrow> file_read_options \<Rightarrow> fs_state \<Rightarrow> json \<times> fs_state" where
  "file_read_tool env options = reporting tool_error (file_read_inner env options)"

definition hex_lower :: "bytes \<Rightarrow> string" where
  "hex_lower bs =
     concat (map (\<lambda>b. [digit_char (of_char b div 16), digit_char (of_char b mod 16)]) bs)"

text \<open>\<open>metadata\<close> and \<open>File::open\<close> follow links.\<close>

definition open_existing :: "string \<Rightarrow> location io" where
  "open_existing p = os_call (look (\<lambda>s. resolve s p))"

definition read_open :: "location \<Rightarrow> bytes io" where
  "read_open l =
     os_call (look (\<lambda>s. case node_at (nodes s) l of
       Some (Regular b) \<Rightarrow> Inr b
     | _ \<Rightarrow> Inl Is_a_directory))"

definition metadata_len :: "string \<Rightarrow> nat io" where
  "metadata_len p =
     look (\<lambda>s. case resolve s p of
       Inl e \<Rightarrow> Inl e
     | Inr l \<Rightarrow> Inr (case node_at (nodes s) l of Some (Regular b) \<Rightarrow> length b | _ \<Rightarrow> 0))"

definition file_hash_inner :: "tool_env \<Rightarrow> file_hash_options \<Rightarrow> json patch_act" where
  "file_hash_inner env options =
     bnd (resolve_existing_workspace_file env (fh_workspace options) (fh_file_path options))
       (\<lambda>(_, path, canonical).
         bnd (patch_io env (''failed to stat '' @ path) (metadata_len canonical)) (\<lambda>len.
           bnd (patch_io env (''failed to open '' @ path) (open_existing canonical)) (\<lambda>handle.
             bnd (patch_io env (''failed to read '' @ path) (read_open handle)) (\<lambda>data.
               okM (JObject [(''ok'', JBool True), (''file_path'', JString path),
                 (''bytes'', JInt (int len)), (''sha256'', JString (hex_lower (sha256 env data)))])))))"

definition file_hash_tool :: "tool_env \<Rightarrow> file_hash_options \<Rightarrow> fs_state \<Rightarrow> json \<times> fs_state" where
  "file_hash_tool env options = reporting tool_error (file_hash_inner env options)"

text \<open>The bytes handed to the writer, which is taken to accept them.\<close>

definition file_bytes_to_writer :: "tool_env \<Rightarrow> file_hash_options \<Rightarrow> fs_state \<Rightarrow> (string + bytes) \<times> fs_state" where
  "file_bytes_to_writer env options =
     with_error error_message
       (bnd (resolve_existing_workspace_file env (fh_workspace options) (fh_file_path options))
         (\<lambda>(_, path, canonical).
           bnd (patch_io env (''failed to open '' @ path) (open_existing canonical)) (\<lambda>handle.
             patch_io env (''failed to write '' @ path @ '' bytes'') (read_open handle))))"

text \<open>What opening with \<open>append\<close> or \<open>truncate\<close> keeps of the file.\<close>

definition kept_bytes :: "string \<Rightarrow> patch_error + (bytes \<Rightarrow> bytes)" where
  "kept_bytes mode =
     (if mode = ''append'' then Inr (\<lambda>old. old)
      else if mode = ''overwrite'' then Inr (\<lambda>_. [])
      else Inl (Invalid_arguments ''mode must be either overwrite or append''))"

definition write_with_mode :: "tool_env \<Rightarrow> string \<Rightarrow> string \<Rightarrow> string \<Rightarrow> unit patch_act" where
  "write_with_mode env mode path content =
     bnd (from_result (kept_bytes mode)) (\<lambda>kept.
       bnd (patch_io env (''failed to open '' @ path) (open_write kept path)) (\<lambda>handle.
         patch_io env (''failed to write '' @ path) (write_all handle (utf8_encode content))))"

definition check_write_target :: "tool_env \<Rightarrow> string \<Rightarrow> string \<Rightarrow> unit patch_act" where
  "check_write_target env workspace path =
     gets (\<lambda>s. when_act (path_exists s path)
       (bnd (patch_io env (''failed to canonicalize '' @ path) (look (\<lambda>s. canonicalize s path)))
         (\<lambda>canonical. andthen (from_result (ensure_inside_workspace workspace canonical))
           (reject_symlink env path))))"

definition file_write_inner :: "tool_env \<Rightarrow> file_write_options \<Rightarrow> json patch_act" where
  "file_write_inner env options =
     bnd (canonical_workspace env (fw_workspace options)) (\<lambda>workspace.
       bnd (from_result (resolve_workspace_path workspace (fw_file_path options))) (\<lambda>path.
         andthen (ensure_parent_stays_inside_workspace env workspace path)
           (andthen (check_write_target env workspace path)
             (andthen
               (case parent_dir path of
                  None \<Rightarrow> okM ()
                | Some parent \<Rightarrow> patch_io env (''failed to create '' @ parent) (create_dir_all parent))
               (andthen (write_with_mode env (fw_mode options) path (fw_content options))
                 (okM (JObject [(''file_path'', JString path), (''mode'', JString (fw_mode options)),
                    (''bytes_written'', JInt (int (utf8_len (fw_content options))))])))))))"

definition file_write_tool :: "tool_env \<Rightarrow> file_write_options \<Rightarrow> fs_state \<Rightarrow> json \<times> fs_state" where
  "file_write_tool env options = reporting tool_error (file_write_inner env options)"

end
