(* ===== verification/Fs_Laws.thy ===== *)
theory Fs_Laws
  imports File_System
begin

text \<open>
  Laws of the file system model: what a walk through the tree depends on, how the text of a path
  and that of its parent are related, and which locations the calls of \<open>std::fs\<close> change.
\<close>

section \<open>Walks\<close>

definition kind_of :: "fs_node \<Rightarrow> fs_node" where
  "kind_of n = (case n of Regular _ \<Rightarrow> Regular [] | _ \<Rightarrow> n)"

text \<open>A larger tree in which every old node keeps its kind.\<close>

definition tree_grows :: "fs_tree \<Rightarrow> fs_tree \<Rightarrow> bool" where
  "tree_grows m m' \<longleftrightarrow> (\<forall>l n. node_at m l = Some n \<longrightarrow> map_option kind_of (node_at m' l) = Some (kind_of n))"

lemma kind_of_simps [simp]:
  "kind_of (Regular b) = Regular []" "kind_of Directory = Directory" "kind_of (Symlink t) = Symlink t"
  by (simp_all add: kind_of_def)

lemma kind_of_eq [simp]:
  "kind_of n = Directory \<longleftrightarrow> n = Directory"
  "kind_of n = Symlink t \<longleftrightarrow> n = Symlink t"
  "kind_of n = Regular b \<longleftrightarrow> b = [] \<and> (\<exists>c. n = Regular c)"
  by (cases n; auto)+

lemma tree_growsD:
  assumes "tree_grows m m'"
  shows "node_at m l = Some Directory \<Longrightarrow> node_at m' l = Some Directory"
    and "node_at m l = Some (Symlink t) \<Longrightarrow> node_at m' l = Some (Symlink t)"
    and "node_at m l = Some (Regular b) \<Longrightarrow> \<exists>c. node_at m' l = Some (Regular c)"
  using assms by (fastforce simp: tree_grows_def)+

lemma tree_grows_refl [simp]: "tree_grows m m"
  by (simp add: tree_grows_def)

lemma tree_grows_trans: "tree_grows m m' \<Longrightarrow> tree_grows m' m'' \<Longrightarrow> tree_grows m m''"
  by (fastforce simp: tree_grows_def)

lemma walk_tree_grows:
  "walk m k c ss = Inr l \<Longrightarrow> node_at m l \<noteq> None \<Longrightarrow> tree_grows m m' \<Longrightarrow> walk m' k c ss = Inr l"
proof (induction m k c ss rule: walk.induct)
  case (2 m k c s ss)
  from 2 tree_growsD [OF \<open>tree_grows m m'\<close>, of "c @ [s]"] tree_growsD(1) [OF \<open>tree_grows m m'\<close>, of c]
  show ?case
    by (auto split: if_splits option.splits fs_node.splits)
qed simp

text \<open>A walk composes at every name it reaches.\<close>

lemma walk_append:
  "walk m k c ss = Inr d \<Longrightarrow> node_at m d \<noteq> None \<Longrightarrow>
     \<exists>j. \<forall>ts. walk m k c (ss @ ts) = walk m j d ts"
proof (induction m k c ss rule: walk.induct)
  case (1 m k c)
  then show ?case by auto
next
  case (2 m k c s ss)
  then show ?case by (auto split: if_splits option.splits fs_node.splits)
qed

lemma walk_append_err: "walk m k c ss = Inl e \<Longrightarrow> walk m k c (ss @ ts) = Inl e"
proof (induction m k c ss rule: walk.induct)
  case (2 m k c s ss)
  then show ?case by (auto split: if_splits option.splits fs_node.splits)
qed simp

lemma walk_append_stuck:
  "walk m k c ss = Inr d \<Longrightarrow> node_at m d \<noteq> Some Directory \<Longrightarrow> ts \<noteq> [] \<Longrightarrow> \<exists>e. walk m k c (ss @ ts) = Inl e"
proof (induction m k c ss rule: walk.induct)
  case (1 m k c)
  then show ?case by (cases ts) auto
next
  case (2 m k c s ss)
  then show ?case by (auto split: if_splits option.splits fs_node.splits)
qed

lemma walk_prefix:
  assumes "walk m k c (ss @ ts) = Inr l" and "ts \<noteq> []"
  obtains d j where "walk m k c ss = Inr d" "node_at m d = Some Directory"
    "\<And>us. walk m k c (ss @ us) = walk m j d us"
proof (cases "walk m k c ss")
  case (Inl e)
  then show ?thesis using assms walk_append_err [OF Inl, of ts] by simp
next
  case (Inr d)
  then have dir: "node_at m d = Some Directory"
    using assms walk_append_stuck [OF Inr _ assms(2)] by fastforce
  then obtain j where "\<forall>us. walk m k c (ss @ us) = walk m j d us"
    using walk_append [OF Inr] by auto
  then show ?thesis using that Inr dir by blast
qed

text \<open>Names \<open>.\<close> on the way make no difference.\<close>

definition only_dots :: "string list \<Rightarrow> bool" where
  "only_dots ds \<longleftrightarrow> (\<forall>d \<in> set ds. d = ''.'')"

lemma walk_dots: "only_dots ds \<Longrightarrow> ts \<noteq> [] \<Longrightarrow> walk m k c (ds @ ts) = walk m k c ts"
proof (induction ds)
  case (Cons d ds)
  then have "walk m k c (ds @ ts) = walk m k c ts" by (simp add: only_dots_def)
  moreover have "d = ''.''" using Cons by (simp add: only_dots_def)
  moreover obtain t ts' where "ts = t # ts'" using Cons by (cases ts) simp_all
  ultimately show ?case by auto
qed simp

lemma walk_end_dots:
  assumes "walk m k c ds = Inr l" "only_dots ds" "ds \<noteq> []"
  shows "l = c \<and> node_at m c = Some Directory"
  using assms
proof (induction ds)
  case (Cons d ds)
  then show ?case by (cases "ds = []") (auto simp: only_dots_def split: if_splits)
qed simp

lemma walk_append_missing:
  "walk m k c (ss @ [n]) = Inr l \<Longrightarrow> node_at m l = None \<Longrightarrow> only_dots ds \<Longrightarrow> ds \<noteq> [] \<Longrightarrow>
     \<exists>e. walk m k c (ss @ [n] @ ds) = Inl e"
  using walk_append_stuck [of m k c "ss @ [n]" l ds] by simp

section \<open>Locations and their names\<close>

definition valid_name :: "string \<Rightarrow> bool" where
  "valid_name s \<longleftrightarrow> s \<noteq> [] \<and> s \<noteq> ''.'' \<and> s \<noteq> ''..'' \<and> CHR ''/'' \<notin> set s \<and> CHR 0x00 \<notin> set s"

definition valid_location :: "location \<Rightarrow> bool" where
  "valid_location l \<longleftrightarrow> (\<forall>s \<in> set l. valid_name s)"

text \<open>
  A well-formed tree: the node above a node is a directory, and names are names.
\<close>

definition fs_wf :: "fs_state \<Rightarrow> bool" where
  "fs_wf s \<longleftrightarrow>
     list_all (\<lambda>l. node_at (nodes s) (butlast l) = Some Directory \<and> valid_location l) (hash_keys (nodes s))"

lemma node_at_keys: "node_at m l = None \<longleftrightarrow> l \<noteq> [] \<and> l \<notin> set (hash_keys m)"
  by (auto simp: node_at_def hash_get_keys)

lemma fs_wf_iff:
  "fs_wf s \<longleftrightarrow>
     (\<forall>l. node_at (nodes s) l = None
        \<or> node_at (nodes s) (butlast l) = Some Directory \<and> valid_location l)"
proof -
  have "node_at (nodes s) (butlast []) = Some Directory \<and> valid_location []"
    by (simp add: node_at_def valid_location_def)
  then show ?thesis unfolding fs_wf_def list_all_iff node_at_keys by blast
qed

lemma fs_wf_up: "fs_wf s \<Longrightarrow> node_at (nodes s) l = Some x \<Longrightarrow> node_at (nodes s) (butlast l) = Some Directory"
  and node_valid: "fs_wf s \<Longrightarrow> node_at (nodes s) l = Some x \<Longrightarrow> valid_location l"
  unfolding fs_wf_iff by (metis option.distinct(1))+

lemma fs_wf_parent:
  assumes "fs_wf s" "node_at (nodes s) (l @ [n]) = Some x"
  shows "node_at (nodes s) l = Some Directory"
  using fs_wf_up [OF assms] by simp

lemma valid_location_append [simp]: "valid_location (xs @ ys) \<longleftrightarrow> valid_location xs \<and> valid_location ys"
  by (auto simp: valid_location_def)

lemma valid_location_butlast: "valid_location l \<Longrightarrow> valid_location (butlast l)"
  by (auto simp: valid_location_def dest: in_set_butlastD)

lemma split_slash_no_slash: "x \<in> set (split_slash p) \<Longrightarrow> CHR ''/'' \<notin> set x"
  by (induction p arbitrary: x) (auto split: if_splits list.splits)

lemma set_split_slash: "x \<in> set (split_slash p) \<Longrightarrow> set x \<subseteq> set p"
  by (induction p arbitrary: x) (auto split: if_splits list.splits, blast+)

lemma os_segments_names:
  "x \<in> set (os_segments p) \<Longrightarrow> CHR 0x00 \<notin> set p \<Longrightarrow> x = ''.'' \<or> x = ''..'' \<or> valid_name x"
  using split_slash_no_slash [of x p] set_split_slash [of x p]
  by (auto simp: os_segments_def Let_def valid_name_def split: if_splits)

lemma lookup_iff:
  "lookup s p = Inr l \<longleftrightarrow>
     CHR 0x00 \<notin> set p \<and> p \<noteq> [] \<and> walk (nodes s) max_links (start_of s p) (os_segments p) = Inr l"
  by (auto simp: lookup_def checked_path_def)

lemma resolve_iff: "resolve s p = Inr l \<longleftrightarrow> lookup s p = Inr l \<and> node_at (nodes s) l \<noteq> None"
  by (auto simp: resolve_def split: sum.splits)

lemma path_exists_iff: "path_exists s p \<longleftrightarrow> (\<exists>l. resolve s p = Inr l)"
  by (auto simp: path_exists_def split: sum.splits)

lemma is_dir_iff: "is_dir s p \<longleftrightarrow> (\<exists>l. resolve s p = Inr l \<and> node_at (nodes s) l = Some Directory)"
  by (auto simp: is_dir_def split: sum.splits)

lemma resolve_valid: "fs_wf s \<Longrightarrow> resolve s p = Inr l \<Longrightarrow> valid_location l"
  using node_valid by (auto simp: resolve_iff)

text \<open>The text of a location names it.\<close>

lemma split_slash_append: "CHR ''/'' \<notin> set x \<Longrightarrow> split_slash (x @ CHR ''/'' # p) = x # split_slash p"
  by (induction x) auto

lemma split_slash_single: "CHR ''/'' \<notin> set x \<Longrightarrow> split_slash x = [x]"
  by (induction x) auto

lemma split_slash_join:
  "xs \<noteq> [] \<Longrightarrow> (\<forall>x \<in> set xs. CHR ''/'' \<notin> set x) \<Longrightarrow> split_slash (join ''/'' xs) = xs"
proof (induction xs)
  case (Cons x xs)
  then show ?case by (auto simp: join_Cons split_slash_append split_slash_single)
qed simp

lemma path_is_absolute_show [simp]: "path_is_absolute (show_location l)"
  by (simp add: path_is_absolute_def show_location_def starts_with_def)

lemma split_slash_show:
  assumes "valid_location l"
  shows "split_slash (show_location l) = [] # (if l = [] then [[]] else l)"
  using assms split_slash_join [of l]
  by (auto simp: show_location_def valid_location_def valid_name_def)

lemma path_components_show:
  assumes "valid_location l"
  shows "path_components (show_location l) = RootDir # map Normal l"
proof -
  have "filter (\<lambda>s. s \<noteq> [] \<and> s \<noteq> ''.'') l = l" and "map segment_component l = map Normal l"
    using assms by (auto simp: valid_location_def valid_name_def segment_component_def filter_id_conv)
  moreover have "starts_with ''/'' (show_location l)"
    by (simp add: show_location_def starts_with_def)
  ultimately show ?thesis
    using split_slash_show [OF assms] by (simp add: path_components_def)
qed

section \<open>A path and its parent\<close>

lemma trim_segments_split:
  obtains Z where "xs = trim_segments xs @ Z" "\<And>z. z \<in> set Z \<Longrightarrow> z = [] \<or> z = ''.''"
proof
  let ?P = "\<lambda>s. s = [] \<or> s = ''.''"
  show "xs = trim_segments xs @ rev (takeWhile ?P (rev xs))"
    unfolding trim_segments_def
    by (metis rev_append rev_rev_ident takeWhile_dropWhile_id)
  show "\<And>z. z \<in> set (rev (takeWhile ?P (rev xs))) \<Longrightarrow> z = [] \<or> z = ''.''"
    by (auto dest: set_takeWhileD)
qed

lemma last_join: "xs \<noteq> [] \<Longrightarrow> last xs \<noteq> [] \<Longrightarrow> last (join sep xs) = last (last xs)"
  by (induction xs rule: rev_induct) (auto simp: join_snoc)

lemma set_join: "set (join sep xs) \<subseteq> (\<Union>x \<in> set xs. set x) \<union> set sep"
  by (induction xs) (auto simp: join_Cons)

lemma os_segments_join:
  assumes "U \<noteq> []" "last U \<noteq> []" "\<forall>x \<in> set U. CHR ''/'' \<notin> set x"
  shows "os_segments (join ''/'' U) = filter (\<lambda>s. s \<noteq> []) U"
proof -
  have "last (last U) \<noteq> CHR ''/''" using assms by (metis last_in_set)
  then have "last (join ''/'' U) \<noteq> CHR ''/''" using assms last_join by metis
  then show ?thesis using assms split_slash_join [of U] by (simp add: os_segments_def)
qed

definition file_name :: "string \<Rightarrow> string" where
  "file_name p = last (trim_segments (split_slash p))"

lemma parent_dir_segments:
  assumes "parent_dir p = Some q" and "path_is_absolute p"
  obtains n ds ds' where "os_segments p = os_segments q @ ds' @ n # ds" "only_dots ds" "only_dots ds'"
    "n \<noteq> ''.''" "path_is_absolute q" "set q \<subseteq> set p" "n = file_name p"
    "os_segments q = [] \<or> last (os_segments q) \<noteq> ''.''"
proof -
  let ?names = "filter (\<lambda>s. s \<noteq> [])"
  define T where "T = trim_segments (split_slash p)"
  define U where "U = trim_segments (butlast T)"
  have ne: "T \<noteq> []" and q: "q = (if U = [] then ''/'' else join ''/'' U)"
    using assms by (auto simp: parent_dir_def T_def U_def Let_def split: list.splits)
  obtain Z where Z: "split_slash p = T @ Z" "\<And>z. z \<in> set Z \<Longrightarrow> z = [] \<or> z = ''.''"
    using trim_segments_split unfolding T_def by metis
  obtain Y where Y: "butlast T = U @ Y" "\<And>z. z \<in> set Y \<Longrightarrow> z = [] \<or> z = ''.''"
    using trim_segments_split unfolding U_def by metis
  have T: "T = U @ Y @ [last T]" using ne Y(1) by (metis append.assoc append_butlast_last_id)
  have lst: "last T \<noteq> []" "last T \<noteq> ''.''" using last_trim_segments ne by (simp_all add: T_def)
  have whole: "split_slash p = U @ Y @ last T # Z" using Z(1) T by (metis append.assoc append_Cons append_Nil)
  have noslash: "\<forall>x \<in> set U. CHR ''/'' \<notin> set x" "CHR ''/'' \<notin> set (last T)"
    using split_slash_no_slash [of _ p] whole by auto
  have last_U: "U \<noteq> [] \<Longrightarrow> last U \<noteq> []" using last_trim_segments unfolding U_def by blast
  have seg_q: "os_segments q = ?names U"
    using q os_segments_join [of U] noslash last_U by (auto simp: os_segments_def)
  define tl_dots where "tl_dots = ?names Z @ (if last p = CHR ''/'' then [''.''] else [])"
  have "os_segments p = os_segments q @ ?names Y @ last T # tl_dots"
    using lst unfolding seg_q by (auto simp: os_segments_def Let_def whole tl_dots_def)
  moreover have "only_dots tl_dots" "only_dots (?names Y)"
    using Z(2) Y(2) by (auto simp: only_dots_def tl_dots_def)
  moreover have "path_is_absolute q"
  proof (cases "U = []")
    case False
    then have "hd (split_slash q) = hd (split_slash p)"
      using q noslash split_slash_join [of U] whole by simp
    moreover have "q \<noteq> []" using False q last_U last_join [of U] noslash split_slash_join [of U] by auto
    ultimately show ?thesis using hd_split_slash [of p] hd_split_slash [of q] assms(2) by simp
  qed (use q in \<open>simp add: path_is_absolute_def starts_with_def\<close>)
  moreover have "set q \<subseteq> set p"
  proof (cases "U = []")
    case True
    then show ?thesis using q assms(2) by (auto simp: path_is_absolute_def starts_with_iff)
  next
    case False
    have "CHR ''/'' \<in> set p" using assms(2) by (auto simp: path_is_absolute_def starts_with_iff)
    moreover have "set x \<subseteq> set p" if "x \<in> set U" for x
      using set_split_slash [of x p] that whole by simp
    ultimately show ?thesis using q False set_join [of "''/''" U] by fastforce
  qed
  moreover have "last (filter (\<lambda>s. s \<noteq> []) U) = last U" if "U \<noteq> []"
    using last_U [OF that] that by (cases U rule: rev_cases) simp_all
  moreover have "U \<noteq> [] \<Longrightarrow> last U \<noteq> ''.''" using last_trim_segments unfolding U_def by blast
  ultimately show ?thesis using that lst unfolding seg_q by (cases "U = []") (auto simp: T_def file_name_def)
qed

section \<open>What a call may change\<close>

text \<open>
  \<open>stays_in ws s s'\<close>: between \<open>s\<close> and \<open>s'\<close> nothing outside the location \<open>ws\<close> changed, no link
  appeared and no directory went away.
\<close>

definition stays_in :: "location \<Rightarrow> fs_state \<Rightarrow> fs_state \<Rightarrow> bool" where
  "stays_in ws s s' \<longleftrightarrow>
     (\<forall>l. \<not> prefix ws l \<longrightarrow> node_at (nodes s') l = node_at (nodes s) l)
     \<and> (\<forall>l t. node_at (nodes s') l = Some (Symlink t) \<longrightarrow> node_at (nodes s) l = Some (Symlink t))
     \<and> (\<forall>l. node_at (nodes s) l = Some Directory \<longrightarrow> node_at (nodes s') l = Some Directory)
     \<and> cwd s' = cwd s
     \<and> (fs_wf s \<longrightarrow> fs_wf s')"

lemma stays_in_refl: "stays_in ws s s"
  by (simp add: stays_in_def)

lemma stays_in_trans: "stays_in ws s t \<Longrightarrow> stays_in ws t u \<Longrightarrow> stays_in ws s u"
  unfolding stays_in_def by metis

interpretation confined: frame_relation "stays_in ws" for ws
  by unfold_locales (fact stays_in_refl, fact stays_in_trans)

lemma node_at_insert [simp]:
  "l \<noteq> [] \<Longrightarrow> node_at (hash_insert l n m) l' = (if l' = l then Some n else node_at m l')"
  by (simp add: node_at_def)

lemma node_at_remove [simp]:
  "l \<noteq> [] \<Longrightarrow> node_at (hash_remove l m) l' = (if l' = l then None else node_at m l')"
  by (simp add: node_at_def)

lemma node_at_Nil [simp]: "node_at m [] = Some Directory"
  by (simp add: node_at_def)

lemma fs_wfI:
  assumes "\<And>l x. node_at (nodes s) l = Some x \<Longrightarrow>
      node_at (nodes s) (butlast l) = Some Directory \<and> valid_location l"
  shows "fs_wf s"
  unfolding fs_wf_iff using assms by (meson not_None_eq)

lemma fs_wf_insert:
  assumes "fs_wf s" "node_at (nodes s) d = Some Directory" "node_at (nodes s) (d @ [n]) \<noteq> Some Directory"
    and "valid_name n"
  shows "fs_wf (s\<lparr>nodes := hash_insert (d @ [n]) x (nodes s)\<rparr>)"
proof (rule fs_wfI)
  fix l y
  let ?s = "s\<lparr>nodes := hash_insert (d @ [n]) x (nodes s)\<rparr>"
  assume y: "node_at (nodes ?s) l = Some y"
  show "node_at (nodes ?s) (butlast l) = Some Directory \<and> valid_location l"
  proof (cases "l = d @ [n]")
    case True
    then show ?thesis using assms(2,4) node_valid [OF assms(1,2)] by (simp add: valid_location_def)
  next
    case False
    then have "node_at (nodes s) (butlast l) = Some Directory" "valid_location l"
      using y fs_wf_up [OF assms(1)] node_valid [OF assms(1)] by simp_all
    moreover from this have "butlast l \<noteq> d @ [n]" using assms(3) by metis
    ultimately show ?thesis by simp
  qed
qed

lemma fs_wf_remove:
  assumes "fs_wf s" "node_at (nodes s) l \<noteq> Some Directory"
  shows "fs_wf (s\<lparr>nodes := hash_remove l (nodes s)\<rparr>)"
proof (rule fs_wfI)
  fix k y
  let ?s = "s\<lparr>nodes := hash_remove l (nodes s)\<rparr>"
  assume y: "node_at (nodes ?s) k = Some y"
  have ne: "l \<noteq> []" using assms(2) by auto
  then have old: "node_at (nodes s) k = Some y" using y by (simp split: if_splits)
  then have "node_at (nodes s) (butlast k) = Some Directory" by (rule fs_wf_up [OF assms(1)])
  moreover from this have "butlast k \<noteq> l" using assms(2) by metis
  ultimately show "node_at (nodes ?s) (butlast k) = Some Directory \<and> valid_location k"
    using ne node_valid [OF assms(1) old] by simp
qed

lemma stays_in_insert:
  assumes "prefix ws d" "node_at (nodes s) d = Some Directory"
    and "node_at (nodes s) (d @ [n]) = None \<and> x = Directory
         \<or> node_at (nodes s) (d @ [n]) \<noteq> Some Directory \<and> (\<exists>b. x = Regular b)"
    and "valid_name n"
  shows "stays_in ws s (s\<lparr>nodes := hash_insert (d @ [n]) x (nodes s)\<rparr>)"
  using assms fs_wf_insert [of s d n x] by (auto simp: stays_in_def)

lemma stays_in_remove:
  assumes "prefix ws l" "node_at (nodes s) l \<noteq> Some Directory"
  shows "stays_in ws s (s\<lparr>nodes := hash_remove l (nodes s)\<rparr>)"
proof -
  have "l \<noteq> []" using assms(2) by auto
  then show ?thesis using assms fs_wf_remove [of s l] by (auto simp: stays_in_def)
qed

lemma stays_in_events [simp]: "stays_in ws s (s\<lparr>events := es\<rparr>)"
  by (simp add: stays_in_def fs_wf_def)

section \<open>Paths in a tree\<close>

lemma resolve_cong:
  assumes "nodes s = nodes s'" "cwd s = cwd s'"
  shows "resolve s p = resolve s' p" and "entry_of s p = entry_of s' p" and "lookup s p = lookup s' p"
  unfolding resolve_def lookup_def entry_of_def start_of_def assms by (rule refl)+

lemma parent_dir_None: "parent_dir p = None \<Longrightarrow> only_dots (os_segments p)"
proof -
  assume "parent_dir p = None"
  then have trimmed: "trim_segments (split_slash p) = []"
    by (auto simp: parent_dir_def Let_def split: list.splits)
  obtain Z where "split_slash p = trim_segments (split_slash p) @ Z" "\<And>z. z \<in> set Z \<Longrightarrow> z = [] \<or> z = ''.''"
    using trim_segments_split by metis
  then have "\<forall>z \<in> set (split_slash p). z = [] \<or> z = ''.''" using trimmed by simp
  then show ?thesis by (auto simp: only_dots_def os_segments_def Let_def)
qed

lemma absolute_ne: "path_is_absolute p \<Longrightarrow> p \<noteq> []"
  by (auto simp: path_is_absolute_def starts_with_def)

text \<open>Names after a location that is reached, and dots that end a path.\<close>

lemma walk_to_dir:
  assumes "walk m k c (ss @ ds) = Inr d" "only_dots ds" "node_at m d \<noteq> None"
  shows "walk m k c ss = Inr d"
proof (cases "ds = []")
  case False
  then obtain d' j where d': "walk m k c ss = Inr d'" "\<And>us. walk m k c (ss @ us) = walk m j d' us"
    using walk_prefix [OF assms(1)] by metis
  then have "walk m j d' ds = Inr d" using assms(1) by simp
  then show ?thesis using walk_end_dots assms(2) False d'(1) by blast
qed (use assms in simp)

lemma resolve_iff_absolute:
  "path_is_absolute p \<Longrightarrow>
     resolve s p = Inr l \<longleftrightarrow>
       CHR 0x00 \<notin> set p \<and> walk (nodes s) max_links [] (os_segments p) = Inr l \<and> node_at (nodes s) l \<noteq> None"
  using absolute_ne by (auto simp: resolve_iff lookup_iff start_of_def)

lemma lookup_iff_absolute:
  "path_is_absolute p \<Longrightarrow>
     lookup s p = Inr l \<longleftrightarrow>
       CHR 0x00 \<notin> set p \<and> walk (nodes s) max_links [] (os_segments p) = Inr l"
  using absolute_ne by (auto simp: lookup_iff start_of_def)

text \<open>The entry that a path names lies in the directory to which its parent resolves.\<close>

lemma entry_in_parent:
  assumes wf: "fs_wf s" and abs: "path_is_absolute p" and e: "entry_of s p = Inr l"
    and nd: "node_at (nodes s) l \<noteq> Some Directory"
  obtains q d where "parent_dir p = Some q" "resolve s q = Inr d" "node_at (nodes s) d = Some Directory"
    "l = d @ [file_name p]" "walk (nodes s) max_links [] (butlast (os_segments p)) = Inr d"
    "os_segments p = butlast (os_segments p) @ [file_name p]" "valid_name (file_name p)"
proof -
  let ?segs = "os_segments p" and ?walk = "walk (nodes s) max_links []"
  have nul: "CHR 0x00 \<notin> set p" and ent:
    "(if ?segs = [] \<or> last ?segs = ''.'' \<or> last ?segs = ''..'' then ?walk ?segs
      else case ?walk (butlast ?segs) of
        Inl e \<Rightarrow> Inl e
      | Inr d \<Rightarrow>
          (case node_at (nodes s) d of
             None \<Rightarrow> Inl Not_found
           | Some Directory \<Rightarrow> Inr (d @ [last ?segs])
           | Some _ \<Rightarrow> Inl Not_a_directory)) = Inr l"
    using e abs by (auto simp: entry_of_def checked_path_def start_of_def split: if_splits sum.splits)
  have names: "\<not> (?segs = [] \<or> last ?segs = ''.'' \<or> last ?segs = ''..'')"
  proof
    assume special: "?segs = [] \<or> last ?segs = ''.'' \<or> last ?segs = ''..''"
    then have w: "?walk ?segs = Inr l" using ent by simp
    have "?segs \<noteq> []" using w nd by auto
    then have sp: "?segs = butlast ?segs @ [last ?segs]" by simp
    then have "?walk (butlast ?segs @ [last ?segs]) = Inr l" using w by simp
    then obtain d j where d: "node_at (nodes s) d = Some Directory" "walk (nodes s) j d [last ?segs] = Inr l"
      using walk_prefix by (metis not_Cons_self2)
    then have "l = d \<or> l = butlast d"
      using special \<open>?segs \<noteq> []\<close> by (auto split: if_splits)
    then show False using d(1) nd fs_wf_up [OF wf d(1)] by auto
  qed
  from names have ne: "?segs \<noteq> []" "last ?segs \<noteq> ''.''"
    and w: "case ?walk (butlast ?segs) of Inl e \<Rightarrow> False | Inr d \<Rightarrow>
        node_at (nodes s) d = Some Directory \<and> l = d @ [last ?segs]"
    using ent names by (auto split: sum.splits option.splits fs_node.splits)
  then obtain d where d: "?walk (butlast ?segs) = Inr d" "node_at (nodes s) d = Some Directory"
    "l = d @ [last ?segs]" by (auto split: sum.splits)
  obtain q where q: "parent_dir p = Some q"
    using parent_dir_None [of p] ne by (cases "parent_dir p") (auto simp: only_dots_def)
  obtain n ds ds' where seg: "?segs = os_segments q @ ds' @ n # ds" "only_dots ds" "only_dots ds'"
    "path_is_absolute q" "set q \<subseteq> set p" "n = file_name p"
    using parent_dir_segments [OF q abs] by metis
  have "ds = []"
  proof (rule ccontr)
    assume "ds \<noteq> []"
    then have "last ?segs = last ds" using seg(1) by simp
    then show False using seg(2) ne(2) last_in_set [OF \<open>ds \<noteq> []\<close>] unfolding only_dots_def by metis
  qed
  then have n: "last ?segs = n" "butlast ?segs = os_segments q @ ds'"
    using seg(1) by (simp_all add: butlast_append)
  have "?walk (os_segments q) = Inr d"
    by (rule walk_to_dir [where ds = ds']) (use d n(2) seg(3) in simp_all)
  moreover have "CHR 0x00 \<notin> set q" using seg(5) nul by blast
  ultimately have "resolve s q = Inr d" using d(2) by (simp add: resolve_iff_absolute [OF seg(4)])
  moreover have "?segs = butlast ?segs @ [file_name p]"
    using append_butlast_last_id [OF ne(1)] n(1) seg(6) by simp
  moreover have "valid_name (file_name p)"
    using os_segments_names [OF last_in_set [OF ne(1)] nul] names n(1) seg(6) by simp
  ultimately show ?thesis using that [OF q _ d(2) _ d(1)] d(3) n(1) seg(6) by simp
qed

text \<open>An entry that is no link is where the path leads, also when the tree has grown.\<close>

lemma entry_reached:
  assumes wf: "fs_wf s" and abs: "path_is_absolute p" and e: "entry_of s p = Inr l"
    and nd: "node_at (nodes s) l \<noteq> Some Directory" and g: "tree_grows (nodes s) (nodes s')"
    and nl: "\<And>t. node_at (nodes s') l \<noteq> Some (Symlink t)"
  shows "lookup s' p = Inr l"
proof -
  let ?segs = "os_segments p" and ?walk = "walk (nodes s') max_links []"
  obtain d where d: "node_at (nodes s) d = Some Directory" "l = d @ [file_name p]"
    "walk (nodes s) max_links [] (butlast ?segs) = Inr d"
    "?segs = butlast ?segs @ [file_name p]" "file_name p \<noteq> ''.''" "file_name p \<noteq> ''..''"
    using entry_in_parent [OF wf abs e nd] unfolding valid_name_def by metis
  have w: "?walk (butlast ?segs) = Inr d" using walk_tree_grows [OF d(3) _ g] d(1) by simp
  have dir: "node_at (nodes s') d = Some Directory" using tree_growsD(1) [OF g d(1)] .
  then obtain j where "\<forall>us. ?walk (butlast ?segs @ us) = walk (nodes s') j d us"
    using walk_append [OF w] by auto
  then have "?walk ?segs = walk (nodes s') j d [file_name p]" using d(4) by metis
  also have "\<dots> = Inr l"
    using d dir nl by (auto split: option.splits fs_node.splits)
  finally show ?thesis
    using e abs by (auto simp: lookup_iff_absolute entry_of_def checked_path_def split: if_splits)
qed

lemma entry_missing:
  assumes "fs_wf s" "path_is_absolute p" "entry_of s p = Inr l" "node_at (nodes s) l = None"
  shows "\<not> path_exists s p"
  using entry_reached [OF assms(1-3), of s] assms(4) by (auto simp: path_exists_iff resolve_iff)

lemma entry_grows:
  assumes wf: "fs_wf s" and abs: "path_is_absolute p" and e: "entry_of s p = Inr l"
    and nd: "node_at (nodes s) l \<noteq> Some Directory" and g: "tree_grows (nodes s) (nodes s')"
  shows "entry_of s' p = Inr l"
proof -
  obtain d where d: "node_at (nodes s) d = Some Directory" "l = d @ [file_name p]"
    "walk (nodes s) max_links [] (butlast (os_segments p)) = Inr d"
    "os_segments p = butlast (os_segments p) @ [file_name p]" "file_name p \<noteq> ''.''" "file_name p \<noteq> ''..''"
    using entry_in_parent [OF wf abs e nd] unfolding valid_name_def by metis
  have w: "walk (nodes s') max_links [] (butlast (os_segments p)) = Inr d"
    using walk_tree_grows [OF d(3) _ g] d(1) by simp
  have dir: "node_at (nodes s') d = Some Directory" using tree_growsD(1) [OF g d(1)] .
  have "last (os_segments p) = file_name p" "os_segments p \<noteq> []" using d(4) by (metis last_snoc, auto)
  moreover have "checked_path p = Inr (os_segments p)"
    using e by (auto simp: entry_of_def checked_path_def split: if_splits)
  ultimately show ?thesis
    using abs w dir d(2,5,6) by (simp add: entry_of_def start_of_def)
qed

text \<open>Where a write to a path ends up, when its last name is not that of a link.\<close>

lemma lookup_in_parent:
  assumes wf: "fs_wf s" and abs: "path_is_absolute p" and q: "parent_dir p = Some q"
    and l: "lookup s p = Inr l" and nd: "node_at (nodes s) l \<noteq> Some Directory"
    and plain: "\<And>d t. resolve s q = Inr d \<Longrightarrow> node_at (nodes s) (d @ [file_name p]) \<noteq> Some (Symlink t)"
  obtains d where "resolve s q = Inr d" "node_at (nodes s) d = Some Directory" "l = d @ [file_name p]"
    "valid_name (file_name p)"
proof -
  let ?walk = "walk (nodes s) max_links []"
  obtain n ds ds' where seg: "os_segments p = os_segments q @ ds' @ n # ds" "only_dots ds" "only_dots ds'"
    "n \<noteq> ''.''" "path_is_absolute q" "set q \<subseteq> set p" "n = file_name p"
    using parent_dir_segments [OF q abs] by metis
  have w: "?walk (os_segments q @ ds' @ n # ds) = Inr l" and nul: "CHR 0x00 \<notin> set q"
    using l abs seg(1,6) by (auto simp: lookup_iff_absolute)
  then obtain d j where d: "?walk (os_segments q) = Inr d" "node_at (nodes s) d = Some Directory"
    and "walk (nodes s) j d (ds' @ n # ds) = Inr l"
    using walk_prefix [OF w] by (metis Nil_is_append_conv list.distinct(1))
  then have last: "walk (nodes s) j d (n # ds) = Inr l" using walk_dots [OF seg(3)] by simp
  have rq: "resolve s q = Inr d" using d nul by (simp add: resolve_iff_absolute [OF seg(5)])
  have dots: "l' = l \<and> ds = []" if "walk (nodes s) j l' ds = Inr l" for l'
    using walk_end_dots [OF that seg(2)] that nd by (cases "ds = []") auto
  have nd_dots: "n \<noteq> ''..''"
  proof
    assume "n = ''..''"
    then have "l = butlast d" using last dots d(2) by auto
    then show False using nd fs_wf_up [OF wf d(2)] by simp
  qed
  then have "l = d @ [n]"
    using last d(2) seg(4) dots plain [OF rq] seg(7) by (auto split: if_splits option.splits fs_node.splits)
  moreover have "CHR 0x00 \<notin> set p" using l abs by (simp add: lookup_iff_absolute)
  then have "valid_name n" using os_segments_names [of n p] seg(1,4) nd_dots by simp
  ultimately show ?thesis using that rq d(2) seg(7) by simp
qed

section \<open>Calls\<close>

lemma next_event_step:
  "\<exists>ev es. next_event s = (Inr ev, s\<lparr>events := es\<rparr>)"
proof (cases "events s")
  case Nil
  then have "next_event s = (Inr Proceed, s\<lparr>events := events s\<rparr>)"
    by (simp add: next_event_def gets_apply okM_def)
  then show ?thesis by blast
qed (auto simp: next_event_def gets_apply okM_def)

lemma os_call_cases:
  assumes "os_call m s = (r, s')"
  obtains (ran) es where "m (s\<lparr>events := es\<rparr>) = (r, s')"
  | (refused) e es where "r = Inl (Os_error e)" "s' = s\<lparr>events := es\<rparr>"
proof -
  obtain ev es where "next_event s = (Inr ev, s\<lparr>events := es\<rparr>)" using next_event_step by blast
  then show ?thesis using assms that by (cases ev) (auto simp: os_call_def bnd_def errM_def)
qed

text \<open>A call whose failures leave the tree alone.\<close>

definition same_tree :: "fs_state \<Rightarrow> fs_state \<Rightarrow> bool" where
  "same_tree s s' \<longleftrightarrow> nodes s' = nodes s \<and> cwd s' = cwd s"

lemma same_tree_refl [simp]: "same_tree s s"
  and same_tree_events [simp]: "same_tree s (s\<lparr>events := es\<rparr>)"
  by (simp_all add: same_tree_def)

lemma same_tree_trans: "same_tree s t \<Longrightarrow> same_tree t u \<Longrightarrow> same_tree s u"
  by (simp add: same_tree_def)

interpretation unchanged: frame_relation same_tree
  by unfold_locales (fact same_tree_refl, fact same_tree_trans)

lemma same_tree_stays: "same_tree s s' \<Longrightarrow> stays_in ws s s'"
  by (simp add: same_tree_def stays_in_def fs_wf_def)

lemma same_tree_wf: "same_tree s s' \<Longrightarrow> fs_wf s' = fs_wf s"
  by (simp add: same_tree_def fs_wf_def)

lemma same_tree_resolve: "same_tree s s' \<Longrightarrow> resolve s' p = resolve s p"
  by (rule resolve_cong(1)) (simp_all add: same_tree_def)

lemma same_tree_exists:
  assumes "same_tree s s'"
  shows "path_exists s' p = path_exists s p" and "is_dir s' p = is_dir s p"
  using assms same_tree_resolve [OF assms, of p]
  by (simp_all add: path_exists_iff is_dir_iff same_tree_def)

lemma same_tree_nearest: "same_tree s s' \<Longrightarrow> nearest_existing s' p = nearest_existing s p"
proof (induction s p rule: nearest_existing.induct)
  case (1 s p)
  show ?case
    unfolding nearest_existing.simps [of _ p] same_tree_exists(1) [OF 1(2)]
    using 1 by (auto split: option.splits)
qed

lemma create_dir_cases:
  assumes "create_dir p s = (r, s')" and wf: "fs_wf s" and abs: "path_is_absolute p"
  obtains (failed) e where "r = Inl e" "same_tree s s'"
      "e = Not_found \<Longrightarrow> entry_of s p = Inl Not_found"
  | (made) q d es where "r = Inr ()" "parent_dir p = Some q" "resolve s q = Inr d"
      "node_at (nodes s) d = Some Directory" "entry_of s p = Inr (d @ [file_name p])"
      "valid_name (file_name p)" "node_at (nodes s) (d @ [file_name p]) = None"
      "s' = s\<lparr>events := es, nodes := hash_insert (d @ [file_name p]) Directory (nodes s)\<rparr>"
proof -
  from assms(1) show ?thesis
    unfolding create_dir_def
  proof (cases rule: os_call_cases)
    case (refused e es)
    then show ?thesis using failed [of "Os_error e"] by simp
  next
    case (ran es)
    let ?s = "s\<lparr>events := es\<rparr>"
    have same: "entry_of ?s p = entry_of s p" by (rule resolve_cong(2)) simp_all
    show ?thesis
    proof (cases "entry_of s p")
      case (Inl e)
      then show ?thesis using ran failed [of e] same by (auto simp: gets_apply errM_def)
    next
      case (Inr l)
      show ?thesis
      proof (cases "node_at (nodes s) l")
        case None
        then obtain q d where q: "parent_dir p = Some q" "resolve s q = Inr d"
          "node_at (nodes s) d = Some Directory" "l = d @ [file_name p]" "valid_name (file_name p)"
          using entry_in_parent [OF wf abs Inr] by (metis option.distinct(1))
        then show ?thesis
          using ran same Inr None made [of q d es] by (simp add: gets_apply put_node_def upd_def)
      next
        case (Some n)
        then show ?thesis using ran failed [of Already_exists] same Inr by (auto simp: gets_apply errM_def)
      qed
    qed
  qed
qed

lemma tree_grows_insert:
  assumes "l \<noteq> []" "node_at m l = None \<or> map_option kind_of (node_at m l) = Some (kind_of n)"
  shows "tree_grows m (hash_insert l n m)"
  using assms by (auto simp: tree_grows_def)

text \<open>\<open>create_dir_all\<close> below an existing ancestor inside the workspace.\<close>

definition plain_path :: "string \<Rightarrow> bool" where
  "plain_path p \<longleftrightarrow>
     path_is_absolute p \<and> ''..'' \<notin> set (os_segments p) \<and> (os_segments p = [] \<or> last (os_segments p) \<noteq> ''.'')"

lemma plain_parent:
  assumes "plain_path p" "parent_dir p = Some q"
  obtains ds where "plain_path q" "os_segments p = os_segments q @ ds @ [file_name p]" "only_dots ds"
    "file_name p \<noteq> ''.''" "file_name p \<noteq> ''..''" "set q \<subseteq> set p"
proof -
  have p: "path_is_absolute p" "''..'' \<notin> set (os_segments p)"
    "os_segments p = [] \<or> last (os_segments p) \<noteq> ''.''" using assms(1) by (auto simp: plain_path_def)
  obtain n ds ds' where seg: "os_segments p = os_segments q @ ds' @ n # ds" "only_dots ds" "only_dots ds'"
    "n \<noteq> ''.''" "path_is_absolute q" "set q \<subseteq> set p" "n = file_name p"
    "os_segments q = [] \<or> last (os_segments q) \<noteq> ''.''"
    using parent_dir_segments [OF assms(2) p(1)] by metis
  have "ds = []"
  proof (rule ccontr)
    assume "ds \<noteq> []"
    then have "last (os_segments p) = last ds" "os_segments p \<noteq> []" using seg(1) by simp_all
    then show False
      using seg(2) p(3) last_in_set [OF \<open>ds \<noteq> []\<close>] unfolding only_dots_def by metis
  qed
  then show ?thesis using that [of ds'] seg p(2) by (auto simp: plain_path_def)
qed

lemma plain_walk:
  assumes "plain_path p" "parent_dir p = Some q" "resolve s q = Inr d" "node_at (nodes s) d = Some Directory"
  obtains j where "walk (nodes s) max_links [] (os_segments p) = walk (nodes s) j d [file_name p]"
proof -
  obtain ds where ds: "plain_path q" "os_segments p = os_segments q @ ds @ [file_name p]" "only_dots ds"
    using plain_parent [OF assms(1,2)] by metis
  then have "walk (nodes s) max_links [] (os_segments q) = Inr d"
    using assms(3) by (simp add: resolve_iff_absolute plain_path_def)
  then obtain j where "\<forall>us. walk (nodes s) max_links [] (os_segments q @ us) = walk (nodes s) j d us"
    using walk_append assms(4) by (metis option.distinct(1))
  then have "walk (nodes s) max_links [] (os_segments p) = walk (nodes s) j d (ds @ [file_name p])"
    using ds(2) by metis
  then show ?thesis using that walk_dots [OF ds(3)] by simp
qed

lemma parent_exists:
  assumes "plain_path p" "parent_dir p = Some q" "resolve s p = Inr l"
  shows "is_dir s q"
proof -
  obtain ds where ds: "plain_path q" "os_segments p = os_segments q @ ds @ [file_name p]" "set q \<subseteq> set p"
    using plain_parent [OF assms(1,2)] by metis
  have abs: "path_is_absolute p" "path_is_absolute q" using assms(1) ds(1) by (simp_all add: plain_path_def)
  have "walk (nodes s) max_links [] (os_segments q @ (ds @ [file_name p])) = Inr l"
    using assms(3) ds(2) abs by (simp add: resolve_iff_absolute)
  then obtain d where "walk (nodes s) max_links [] (os_segments q) = Inr d" "node_at (nodes s) d = Some Directory"
    using walk_prefix by (metis Nil_is_append_conv not_Cons_self2)
  then show ?thesis
    using abs assms(3) ds(3) by (auto simp: is_dir_iff resolve_iff_absolute)
qed

lemma not_found_parent:
  assumes "plain_path p" "parent_dir p = Some q" "entry_of s p = Inl Not_found"
  shows "\<not> path_exists s q"
proof
  assume "path_exists s q"
  then obtain d where d: "resolve s q = Inr d" by (auto simp: path_exists_iff)
  obtain ds where ds: "plain_path q" "os_segments p = os_segments q @ ds @ [file_name p]" "only_dots ds"
    "file_name p \<noteq> ''.''" "file_name p \<noteq> ''..''"
    using plain_parent [OF assms(1,2)] by metis
  have abs: "path_is_absolute p" "path_is_absolute q" using assms(1) ds(1) by (simp_all add: plain_path_def)
  have w: "walk (nodes s) max_links [] (os_segments q) = Inr d" and n: "node_at (nodes s) d \<noteq> None"
    using d abs by (simp_all add: resolve_iff_absolute)
  have bl: "butlast (os_segments p) = os_segments q @ ds" "last (os_segments p) = file_name p" "os_segments p \<noteq> []"
    using ds(2) by (simp_all add: butlast_append)
  have "checked_path p = Inr (os_segments p)"
    using assms(3) abs(1) absolute_ne by (auto simp: checked_path_def entry_of_def split: if_splits)
  then have ent: "(case walk (nodes s) max_links [] (os_segments q @ ds) of
      Inl e \<Rightarrow> Inl e
    | Inr d \<Rightarrow>
        (case node_at (nodes s) d of
           None \<Rightarrow> Inl Not_found
         | Some Directory \<Rightarrow> Inr (d @ [file_name p])
         | Some _ \<Rightarrow> Inl Not_a_directory)) = (Inl Not_found :: io_error + location)"
    using assms(3) abs(1) ds(4,5) bl
    by (simp add: entry_of_def start_of_def split: sum.splits option.splits fs_node.splits)
  obtain j where j: "walk (nodes s) max_links [] (os_segments q @ ds) = walk (nodes s) j d ds"
    using walk_append [OF w n] by metis
  show False
  proof (cases ds)
    case Nil
    then show False using ent w n by (auto split: option.splits fs_node.splits)
  next
    case (Cons x xs)
    then have dot: "x = ''.''" using ds(3) by (simp add: only_dots_def)
    show False
    proof (cases "node_at (nodes s) d = Some Directory")
      case True
      then have "walk (nodes s) j d ds = Inr d"
        using ds(3) by (induction ds) (simp_all add: only_dots_def)
      then show False using ent j True by simp
    next
      case False
      then have "walk (nodes s) j d ds = Inl Not_a_directory" using Cons by simp
      then show False using ent j by simp
    qed
  qed
qed

lemma empty_dir_child:
  assumes "plain_path p" "parent_dir p = Some q" "resolve s q = Inr d" "node_at (nodes s) d = Some Directory"
    and "\<And>n. node_at (nodes s) (d @ [n]) = None"
  shows "\<not> path_exists s p"
proof -
  obtain j where j: "walk (nodes s) max_links [] (os_segments p) = walk (nodes s) j d [file_name p]"
    using plain_walk [OF assms(1-4)] by blast
  have "file_name p \<noteq> ''.''" "file_name p \<noteq> ''..''" using plain_parent [OF assms(1,2)] by metis+
  then have "walk (nodes s) j d [file_name p] = Inr (d @ [file_name p])" using assms(4,5) by simp
  then show ?thesis
    using j assms(1,5) by (auto simp: path_exists_iff resolve_iff_absolute plain_path_def)
qed

text \<open>The directory that a successful call leaves: inside, and empty unless the path existed before.\<close>

definition inside_dir :: "location \<Rightarrow> string \<Rightarrow> fs_state \<Rightarrow> location \<Rightarrow> bool" where
  "inside_dir ws p s d \<longleftrightarrow> resolve s p = Inr d \<and> node_at (nodes s) d = Some Directory \<and> prefix ws d"

definition fresh_dir :: "location \<Rightarrow> string \<Rightarrow> fs_state \<Rightarrow> bool" where
  "fresh_dir ws p s \<longleftrightarrow> (\<exists>d. inside_dir ws p s d \<and> (\<forall>n. node_at (nodes s) (d @ [n]) = None))"

definition dir_ready :: "location \<Rightarrow> string \<Rightarrow> fs_state \<Rightarrow> fs_state \<Rightarrow> bool" where
  "dir_ready ws p s s' \<longleftrightarrow>
     (\<exists>d. inside_dir ws p s' d \<and> resolve s p = Inr d) \<or> \<not> path_exists s p \<and> fresh_dir ws p s'"

lemma create_dir_inside:
  assumes c: "create_dir p s = (Inr (), s')" and wf: "fs_wf s" and abs: "path_is_absolute p"
    and q: "parent_dir p = Some q" "resolve s q = Inr d" "prefix ws d"
  shows "stays_in ws s s' \<and> tree_grows (nodes s) (nodes s') \<and> fresh_dir ws p s' \<and> \<not> path_exists s p"
  using c wf abs
proof (cases rule: create_dir_cases)
  case (made q' d' es)
  then have eq: "q' = q" "d' = d" using q by simp_all
  note made = made [unfolded eq]
  let ?l = "d @ [file_name p]"
  have s': "s' = s\<lparr>nodes := hash_insert ?l Directory (nodes s)\<rparr>\<lparr>events := es\<rparr>" using made(8) by simp
  have st: "stays_in ws s s'"
    using stays_in_insert [OF q(3), of s "file_name p" Directory] made(4,6,7) stays_in_events stays_in_trans
    unfolding s' by fastforce
  have g: "tree_grows (nodes s) (nodes s')"
    using tree_grows_insert [of ?l "nodes s" Directory] made(7) unfolding s' by simp
  have wf': "fs_wf s'" using st wf by (simp add: stays_in_def)
  have new: "node_at (nodes s') ?l = Some Directory" unfolding s' by simp
  have "lookup s' p = Inr ?l"
    by (rule entry_reached [OF wf abs made(5) _ g]) (use made(7) new in simp_all)
  then have "resolve s' p = Inr ?l" using new by (simp add: resolve_iff)
  moreover have "\<not> path_exists s p" by (rule entry_missing [OF wf abs made(5,7)])
  moreover have "node_at (nodes s') (?l @ [n]) = None" for n
  proof (rule ccontr)
    assume "node_at (nodes s') (?l @ [n]) \<noteq> None"
    then have "node_at (nodes s) (?l @ [n]) \<noteq> None" unfolding s' by simp
    then show False using fs_wf_parent [OF wf, of ?l n] made(7) by auto
  qed
  ultimately show ?thesis using st g new q(3) unfolding fresh_dir_def inside_dir_def by (metis prefix_prefix)
qed simp

lemma create_dir_all_inside:
  assumes "create_dir_all p s = (r, s')" and "fs_wf s" and "plain_path p"
    and "nearest_existing s p = Some a" and "resolve s a = Inr la" and "prefix ws la"
  shows "stays_in ws s s' \<and> tree_grows (nodes s) (nodes s') \<and> (r = Inr () \<longrightarrow> dir_ready ws p s s')"
  using assms
proof (induction p arbitrary: s r s' a la rule: create_dir_all.induct)
  case (1 p)
  have abs: "path_is_absolute p" and p: "p \<noteq> []" using 1(4) absolute_ne by (simp_all add: plain_path_def)
  obtain r1 s1 where c: "create_dir p s = (r1, s1)" by fastforce
  show ?case
    using c 1(3) abs
  proof (cases rule: create_dir_cases)
    case (made q d es)
    have no: "\<not> path_exists s p" by (rule entry_missing [OF 1(3) abs made(5,7)])
    have "path_exists s q" using made(3) by (auto simp: path_exists_iff)
    then have "a = q"
      using no made(2) 1(5) by (simp add: nearest_existing.simps [of s p] nearest_existing.simps [of s q])
    then have "prefix ws d" using 1(6,7) made(3) by simp
    moreover have "r = Inr ()" "s' = s1"
      using 1(2) c made(1) p by (simp_all add: create_dir_all.simps [of p] bnd_def attempt_def okM_def)
    ultimately show ?thesis
      using create_dir_inside [OF _ 1(3) abs made(2,3)] c made(1) unfolding dir_ready_def by blast
  next
    case (failed e)
    show ?thesis
    proof (cases "e = Not_found")
      case False
      then have out: "s' = s1" "r = Inr () \<longrightarrow> is_dir s1 p"
        using 1(2) c failed(1) p
        by (auto simp: create_dir_all.simps [of p] bnd_def attempt_def dir_or_fail_def gets_def okM_def errM_def
            split: io_error.splits if_splits)
      have "dir_ready ws p s s1" if "is_dir s1 p"
      proof -
        from that obtain l where l: "resolve s1 p = Inr l" "node_at (nodes s1) l = Some Directory"
          by (auto simp: is_dir_iff)
        then have "resolve s p = Inr l" using same_tree_resolve [OF failed(2)] by simp
        then have "path_exists s p" by (auto simp: path_exists_iff)
        then have "a = p" using 1(5) by (simp add: nearest_existing.simps [of s p])
        then have "prefix ws l" using 1(6,7) \<open>resolve s p = Inr l\<close> by simp
        then show ?thesis using l \<open>resolve s p = Inr l\<close> by (auto simp: dir_ready_def inside_dir_def)
      qed
      then show ?thesis
        using out same_tree_stays [OF failed(2)] failed(2) by (auto simp: same_tree_def)
    next
      case True
      have same: "same_tree s s1" by (rule failed(2))
      have wf1: "fs_wf s1" using same_tree_wf [OF same] 1(3) by simp
      show ?thesis
      proof (cases "parent_dir p")
        case None
        then have "r = Inl (Os_error ''failed to create whole tree'')" "s' = s1"
          using 1(2) c failed(1) p True
          by (auto simp: create_dir_all.simps [of p] bnd_def attempt_def errM_def)
        then show ?thesis using same_tree_stays [OF same] same by (auto simp: same_tree_def)
      next
        case (Some q)
        obtain r2 s2 where rec: "create_dir_all q s1 = (r2, s2)" by fastforce
        have plain_q: "plain_path q" using plain_parent [OF 1(4) Some] by metis
        have nq: "\<not> path_exists s q" using not_found_parent [OF 1(4) Some] failed(3) True by simp
        then have np: "\<not> path_exists s p"
          using parent_exists [OF 1(4) Some] by (auto simp: path_exists_iff is_dir_iff)
        have near: "nearest_existing s1 q = Some a"
          using 1(5) np Some same_tree_nearest [OF same] by (simp add: nearest_existing.simps [of s p])
        have la: "resolve s1 a = Inr la" using 1(6) same_tree_resolve [OF same] by simp
        have IH: "stays_in ws s1 s2 \<and> tree_grows (nodes s1) (nodes s2) \<and> (r2 = Inr () \<longrightarrow> dir_ready ws q s1 s2)"
          by (rule 1(1) [OF p Some rec wf1 plain_q near la 1(7)])
        have st2: "stays_in ws s s2" using IH same_tree_stays [OF same] stays_in_trans by blast
        have g2: "tree_grows (nodes s) (nodes s2)" using IH same by (simp add: same_tree_def)
        show ?thesis
        proof (cases r2)
          case (Inl e2)
          then have "r = Inl e2" "s' = s2"
            using 1(2) c failed(1) p True Some rec
            by (auto simp: create_dir_all.simps [of p] bnd_def andthen_def attempt_def)
          then show ?thesis using st2 g2 by simp
        next
          case (Inr u)
          have nq1: "\<not> path_exists s1 q" using nq same_tree_exists(1) [OF same] by simp
          then have "fresh_dir ws q s2" using IH Inr by (auto simp: dir_ready_def path_exists_iff)
          then obtain d where d: "inside_dir ws q s2 d" "\<And>n. node_at (nodes s2) (d @ [n]) = None"
            by (auto simp: fresh_dir_def)
          have wf2: "fs_wf s2" using IH wf1 by (simp add: stays_in_def)
          have np2: "\<not> path_exists s2 p"
            using empty_dir_child [OF 1(4) Some] d by (auto simp: inside_dir_def)
          obtain r3 s3 where c3: "create_dir p s2 = (r3, s3)" by fastforce
          show ?thesis
            using c3 wf2 abs
          proof (cases rule: create_dir_cases)
            case (made q' d' es)
            have "r = Inr ()" "s' = s3"
              using 1(2) c failed(1) p True Some rec Inr c3 made(1)
              by (auto simp: create_dir_all.simps [of p] bnd_def andthen_def attempt_def okM_def)
            moreover have "stays_in ws s2 s3 \<and> tree_grows (nodes s2) (nodes s3) \<and> fresh_dir ws p s3"
              using create_dir_inside [OF _ wf2 abs Some, of s3 d ws] c3 made(1) d(1)
              by (simp add: inside_dir_def)
            ultimately show ?thesis
              using st2 g2 np stays_in_trans tree_grows_trans unfolding dir_ready_def by blast
          next
            case (failed e3)
            then have "\<not> is_dir s3 p"
              using np2 same_tree_exists [OF failed(2)] by (auto simp: is_dir_iff path_exists_iff)
            then have "r = Inl e3" "s' = s3"
              using 1(2) c \<open>r1 = Inl e\<close> p True Some rec Inr c3 failed(1)
              by (auto simp: create_dir_all.simps [of p] bnd_def andthen_def attempt_def dir_or_fail_def
                  gets_def errM_def)
            then show ?thesis
              using st2 g2 same_tree_stays [OF failed(2)] failed(2) stays_in_trans
              by (auto simp: same_tree_def)
          qed
        qed
      qed
    qed
  qed
qed

text \<open>Writing to a file and removing one.\<close>

lemma open_write_cases:
  assumes "open_write kept p s = (r, s')"
  obtains (failed) e where "r = Inl e" "same_tree s s'"
  | (opened) l b es where "r = Inr l" "lookup s p = Inr l"
      "node_at (nodes s) l = None \<and> b = [] \<or> (\<exists>c. node_at (nodes s) l = Some (Regular c) \<and> b = kept c)"
      "s' = s\<lparr>events := es, nodes := hash_insert l (Regular b) (nodes s)\<rparr>"
  using assms unfolding open_write_def
proof (cases rule: os_call_cases)
  case (refused e es)
  then show ?thesis using failed by simp
next
  case (ran es)
  have same: "lookup (s\<lparr>events := es\<rparr>) p = lookup s p" by (rule resolve_cong(3)) simp_all
  show ?thesis
  proof (cases "lookup s p")
    case (Inl e)
    then show ?thesis using ran failed [of e] same by (auto simp: gets_apply errM_def)
  next
    case (Inr l)
    then show ?thesis
      using ran failed [of Is_a_directory] opened [of l] same
      by (auto simp: gets_apply errM_def put_node_def okM_def split: option.splits fs_node.splits)
  qed
qed

lemma write_all_cases:
  assumes "write_all l data s = (r, s')" and "node_at (nodes s) l = Some (Regular b)"
  obtains (failed) e c es where "r = Inl e" "s' = s\<lparr>events := es, nodes := hash_insert l (Regular c) (nodes s)\<rparr>"
  | (refused) e where "r = Inl e" "same_tree s s'"
  | (written) es where "r = Inr ()"
      "s' = s\<lparr>events := es, nodes := hash_insert l (Regular (b @ data)) (nodes s)\<rparr>"
proof -
  obtain ev es where ev: "next_event s = (Inr ev, s\<lparr>events := es\<rparr>)" using next_event_step by blast
  show ?thesis
  proof (cases ev)
    case Proceed
    then show ?thesis using assms ev written [of es]
      by (simp add: write_all_def bnd_def append_bytes_def gets_apply put_node_def upd_def)
  next
    case (Refuse e)
    then show ?thesis using assms ev refused [of "Os_error e"]
      by (auto simp: write_all_def bnd_def errM_def)
  next
    case (Interrupt n e)
    then show ?thesis using assms ev failed [where e = "Os_error e" and c = "b @ take n data" and es = es]
      by (simp add: write_all_def bnd_def append_bytes_def gets_apply put_node_def upd_def andthen_def errM_def)
  qed
qed

lemma remove_file_cases:
  assumes "remove_file p s = (r, s')"
  obtains (failed) e where "r = Inl e" "same_tree s s'"
  | (removed) l x es where "r = Inr ()" "entry_of s p = Inr l" "node_at (nodes s) l = Some x" "x \<noteq> Directory"
      "s' = s\<lparr>events := es, nodes := hash_remove l (nodes s)\<rparr>"
  using assms unfolding remove_file_def
proof (cases rule: os_call_cases)
  case (refused e es)
  then show ?thesis using failed by simp
next
  case (ran es)
  have same: "entry_of (s\<lparr>events := es\<rparr>) p = entry_of s p" by (rule resolve_cong(2)) simp_all
  show ?thesis
  proof (cases "entry_of s p")
    case (Inl e)
    then show ?thesis using ran failed [of e] same by (auto simp: gets_apply errM_def)
  next
    case (Inr l)
    then show ?thesis
      using ran failed [of Is_a_directory] failed [of Not_found] removed [of l] same
      by (auto simp: gets_apply errM_def upd_def split: option.splits fs_node.splits)
  qed
qed

lemma stays_in_file:
  assumes "prefix ws d" "node_at (nodes s) d = Some Directory" "node_at (nodes s) (d @ [n]) \<noteq> Some Directory"
    and "valid_name n"
  shows "stays_in ws s (s\<lparr>events := es, nodes := hash_insert (d @ [n]) (Regular b) (nodes s)\<rparr>)"
  using stays_in_trans [OF stays_in_events stays_in_insert [OF assms(1), of "s\<lparr>events := es\<rparr>" n "Regular b"]] assms
  by simp

lemma tree_grows_file:
  assumes "node_at m (d @ [n]) = None \<or> (\<exists>c. node_at m (d @ [n]) = Some (Regular c))"
  shows "tree_grows m (hash_insert (d @ [n]) (Regular b) m)"
  using assms tree_grows_insert [of "d @ [n]" m "Regular b"] by auto

text \<open>A write below a directory inside the workspace, to a name that is not that of a link.\<close>

lemma write_inside:
  assumes w: "bnd (open_write kept p) (\<lambda>l. write_all l data) s = (r, s')" and wf: "fs_wf s"
    and abs: "path_is_absolute p" and q: "parent_dir p = Some q" and d: "inside_dir ws q s d"
    and plain: "\<And>t. node_at (nodes s) (d @ [file_name p]) \<noteq> Some (Symlink t)"
  shows "stays_in ws s s' \<and> tree_grows (nodes s) (nodes s')"
proof -
  let ?l = "d @ [file_name p]"
  have d': "resolve s q = Inr d" "node_at (nodes s) d = Some Directory" "prefix ws d"
    using d by (simp_all add: inside_dir_def)
  obtain r1 s1 where o: "open_write kept p s = (r1, s1)" by fastforce
  then show ?thesis
  proof (cases rule: open_write_cases)
    case (failed e)
    then have "s' = s1" using w o by (simp add: bnd_def)
    then show ?thesis using same_tree_stays [OF failed(2)] failed(2) by (simp add: same_tree_def)
  next
    case (opened l b es)
    have l: "l = ?l" "valid_name (file_name p)"
      using lookup_in_parent [OF wf abs q opened(2)] opened(3) plain d'(1)
      by (metis Inr_inject fs_node.distinct(1) option.distinct(1) option.inject)+
    note opened = opened [unfolded l(1)]
    have st: "stays_in ws s s1" and g: "tree_grows (nodes s) (nodes s1)"
      using stays_in_file [OF d'(3,2)] tree_grows_file [of "nodes s"] opened(3) l(2) unfolding opened(4) by auto
    have n1: "node_at (nodes s1) ?l = Some (Regular b)" "node_at (nodes s1) d = Some Directory"
      using d'(2) unfolding opened(4) by simp_all
    have "write_all ?l data s1 = (r, s')" using w o opened(1) by (simp add: bnd_def)
    then show ?thesis
      using n1(1)
    proof (cases rule: write_all_cases)
      case (refused e)
      then show ?thesis
        using st g same_tree_stays [OF refused(2)] stays_in_trans by (auto simp: same_tree_def)
    qed (use st g n1 d'(3) l(2) stays_in_trans [OF st stays_in_file] tree_grows_trans [OF g tree_grows_file] in auto)
  qed
qed

lemma remove_inside:
  assumes "remove_file p s = (r, s')" "entry_of s p = Inr l" "prefix ws l"
  shows "stays_in ws s s'"
  using assms(1)
proof (cases rule: remove_file_cases)
  case (failed e)
  then show ?thesis by (simp add: same_tree_stays)
next
  case (removed l' x es)
  then have "l' = l" using assms(2) by simp
  then show ?thesis
    using removed stays_in_trans [OF stays_in_events stays_in_remove [OF assms(3), of "s\<lparr>events := es\<rparr>"]]
    by simp
qed

end
