(* ===== verification/Patch_Samples.thy ===== *)
theory Patch_Samples
  imports Patch_Tool Fs_Laws
begin

text \<open>A small tree, an environment and requests, on which the theorems on the file tools are tried.\<close>

definition patch_env :: tool_env where
  "patch_env =
     \<lparr>io_text = (\<lambda>e. case e of Os_error t \<Rightarrow> t | _ \<Rightarrow> ''error''),
      git_apply = (\<lambda>args dir patch s. (Inl (Git_spawn ''not installed''), s)),
      sha256 = (\<lambda>b. b)\<rparr>"

text \<open>A workspace with a file and a link that leads to no file outside.\<close>

definition sample_tree :: fs_state where
  "sample_tree =
     \<lparr>nodes =
        [([''ws''], Directory),
         ([''ws'', ''a.txt''], Regular (''alpha'' @ newline @ ''beta'' @ newline)),
         ([''ws'', ''link''], Symlink ''/etc/new''),
         ([''etc''], Directory)],
      cwd = [], events = []\<rparr>"

definition sample_options :: apply_patch_options where
  "sample_options =
     \<lparr>po_workspace = ''/ws'', po_format = Auto_format, po_check = False, po_strip = 0, po_reverse = False,
      po_max_output_chars = 1000\<rparr>"

definition add_link_patch :: string where
  "add_link_patch = join newline [begin_patch, add_header @ ''link'', ''+x'', end_patch]"

definition sample_chunk :: codex_patch_chunk where
  "sample_chunk = \<lparr>chunk_old = ''beta'' @ newline, chunk_new = ''gamma'' @ newline\<rparr>"

definition update_patch :: string where
  "update_patch = join newline [begin_patch, update_header @ ''a.txt'', ''@@'', ''-beta'', ''+gamma'', end_patch]"

text \<open>Two updates of one file: the second one looks for the line that the first one replaces.\<close>

definition update_twice_patch :: string where
  "update_twice_patch =
     join newline
       [begin_patch, update_header @ ''a.txt'', ''@@'', ''-beta'', ''+gamma'',
        update_header @ ''a.txt'', ''@@'', ''-beta'', ''+delta'', end_patch]"

definition sample_write :: file_write_options where
  "sample_write =
     \<lparr>fw_workspace = ''/ws'', fw_file_path = ''new/b.txt'', fw_content = ''one'' @ newline @ ''two'',
      fw_mode = ''overwrite''\<rparr>"

definition sample_read :: file_read_options where
  "sample_read =
     \<lparr>fr_workspace = ''/ws'', fr_file_path = ''a.txt'', fr_start_line = 2, fr_end_line = None, fr_limit = None\<rparr>"

lemma sample_wf: "fs_wf sample_tree"
  by code_simp

lemma sample_workspace: "resolve sample_tree ''/ws'' = Inr [''ws'']"
  by code_simp

end
