(* ===== verification/Patch_Confinement.thy ===== *)
theory Patch_Confinement
  imports Patch_Samples
begin

text \<open>
  What the file tools may touch: the checks on the paths of a request keep every write of a Codex
  patch and of \<open>file_write\<close> inside the workspace, as long as no symbolic link in it bears the
  name of a written file, and \<open>file_read\<close> shows nothing but files of the workspace.
\<close>

section \<open>Checks\<close>

lemma with_error_run: "with_error f m s = (r, s') \<longleftrightarrow> (\<exists>r0. m s = (r0, s') \<and> r = map_err f r0)"
  by (auto simp: with_error_def split: prod.splits)

lemma map_err_simps [simp]: "map_err f (Inl e) = Inl (f e)" "map_err f (Inr x) = Inr x"
  by (simp_all add: map_err_def)

lemma with_error_ok [simp]: "with_error f m s = (Inr x, s') \<longleftrightarrow> m s = (Inr x, s')"
  by (auto simp: with_error_def split: prod.splits)

lemma with_error_failed: "with_error f m s = (Inl e, s') \<Longrightarrow> \<exists>e0. m s = (Inl e0, s') \<and> e = f e0"
  by (auto simp: with_error_def map_err_def split: sum.splits prod.splits)

lemma look_run [simp]: "look f s = (f s, s)"
  by (simp add: look_def gets_def from_result_def okM_def errM_def split: sum.splits)

lemma patch_look [simp]: "patch_io env what (look f) s = (map_err (io_message env what) (f s), s)"
  by (simp add: patch_io_def with_error_def)

lemma bnd_look:
  "bnd (patch_io env what (look f)) g s =
     (case f s of Inl e \<Rightarrow> (Inl (io_message env what e), s) | Inr x \<Rightarrow> g x s)"
  by (simp add: bnd_def map_err_def split: sum.splits)

lemma from_result_run [simp]: "from_result r s = (r, s)"
  by (simp add: from_result_def okM_def errM_def split: sum.splits)

lemma prefix_map_Normal: "prefix (map Normal xs) (map Normal ys) \<longleftrightarrow> prefix xs ys"
proof (induction xs arbitrary: ys)
  case (Cons x xs)
  then show ?case by (cases ys) auto
qed simp

lemma path_starts_with_show:
  assumes "valid_location ws" "valid_location l"
  shows "path_starts_with (show_location ws) (show_location l) \<longleftrightarrow> prefix ws l"
  by (simp add: path_starts_with_def path_components_show [OF assms(1)] path_components_show [OF assms(2)]
      prefix_map_Normal)

text \<open>The nearest existing ancestor of a target lies inside the workspace.\<close>

definition inside_target :: "location \<Rightarrow> fs_state \<Rightarrow> string \<Rightarrow> bool" where
  "inside_target ws s target \<longleftrightarrow>
     (\<exists>q a la. parent_dir target = Some q \<and> nearest_existing s q = Some a \<and> resolve s a = Inr la \<and> prefix ws la)"

lemma ensure_parent_run:
  assumes "ensure_parent_stays_inside_workspace env (show_location ws) target s = (r, s')"
    and "fs_wf s" "valid_location ws"
  shows "s' = s \<and> (r = Inr () \<longrightarrow> inside_target ws s target)"
proof (cases "parent_dir target")
  case None
  then show ?thesis using assms(1) by (auto simp: ensure_parent_stays_inside_workspace_def errM_def)
next
  case (Some q)
  show ?thesis
  proof (cases "nearest_existing s q")
    case None
    then show ?thesis using assms(1) Some
      by (auto simp: ensure_parent_stays_inside_workspace_def gets_def errM_def)
  next
    case a: (Some a)
    show ?thesis
    proof (cases "resolve s a")
      case (Inl e)
      then show ?thesis using assms(1) Some a
        by (auto simp: ensure_parent_stays_inside_workspace_def gets_def bnd_look canonicalize_def)
    next
      case (Inr la)
      then have "valid_location la" using assms(2) resolve_valid by blast
      then show ?thesis using assms(1,3) Some a Inr path_starts_with_show
        by (auto simp: ensure_parent_stays_inside_workspace_def gets_def bnd_look canonicalize_def
            ensure_inside_workspace_def inside_target_def split: if_splits)
    qed
  qed
qed

lemma write_target_run:
  assumes "workspace_path_for_write env (show_location ws) relative s = (r, s')"
    and "fs_wf s" "valid_location ws"
  shows "s' = s \<and> (\<forall>t. r = Inr t \<longrightarrow> t = path_join (show_location ws) relative \<and> inside_target ws s t)"
proof -
  let ?t = "path_join (show_location ws) relative"
  obtain r1 s1 where e: "ensure_parent_stays_inside_workspace env (show_location ws) ?t s = (r1, s1)"
    by fastforce
  then have "s1 = s" "r1 = Inr () \<longrightarrow> inside_target ws s ?t"
    using ensure_parent_run assms(2,3) by auto
  then show ?thesis using assms(1) e
    by (cases r1) (auto simp: workspace_path_for_write_def Let_def andthen_def bnd_def okM_def)
qed

text \<open>A file that may be deleted or updated is a regular file inside the workspace.\<close>

definition own_file :: "location \<Rightarrow> fs_state \<Rightarrow> string \<Rightarrow> location \<Rightarrow> bool" where
  "own_file ws s target l \<longleftrightarrow>
     lookup s target = Inr l \<and> entry_of s target = Inr l \<and> prefix ws l \<and> (\<exists>b. node_at (nodes s) l = Some (Regular b))"

lemma path_join_absolute: "path_is_absolute w \<Longrightarrow> path_is_absolute (path_join w p)"
  by (auto simp: path_join_def path_is_absolute_def starts_with_iff)

lemma existing_file_run:
  assumes "workspace_existing_file env (show_location ws) relative s = (r, s')"
    and wf: "fs_wf s" and ws: "valid_location ws"
  shows "s' = s \<and> (\<forall>t. r = Inr t \<longrightarrow> t = path_join (show_location ws) relative \<and> (\<exists>l. own_file ws s t l))"
proof -
  let ?t = "path_join (show_location ws) relative"
  have abs: "path_is_absolute ?t" by (simp add: path_join_absolute)
  show ?thesis
  proof (cases "resolve s ?t")
    case (Inl e)
    then show ?thesis using assms(1)
      by (auto simp: workspace_existing_file_def Let_def bnd_def with_error_def canonicalize_def)
  next
    case (Inr l)
    then have l: "lookup s ?t = Inr l" "valid_location l" using resolve_valid [OF wf Inr] by (auto simp: resolve_iff)
    have inside: "prefix ws l" if "ensure_inside_workspace (show_location ws) (show_location l) = Inr u" for u
      using that path_starts_with_show [OF ws l(2)] by (simp add: ensure_inside_workspace_def split: if_splits)
    have own: "own_file ws s ?t l" if ins: "prefix ws l" and meta: "symlink_metadata s ?t = Inr (Regular b)" for b
    proof -
      obtain e where e: "entry_of s ?t = Inr e" "node_at (nodes s) e = Some (Regular b)"
        using meta by (auto simp: symlink_metadata_def split: sum.splits option.splits)
      then have "lookup s ?t = Inr e" using entry_reached [OF wf abs e(1), of s] by simp
      then show ?thesis using l e ins by (auto simp: own_file_def)
    qed
    show ?thesis using assms(1) Inr inside own
      by (auto simp: workspace_existing_file_def Let_def bnd_def with_error_def canonicalize_def
          andthen_def patch_io_def okM_def errM_def split: sum.splits fs_node.splits)
  qed
qed

lemma reject_symlink_run: "reject_symlink env path s = (r, s') \<Longrightarrow> s' = s"
  by (auto simp: reject_symlink_def bnd_look okM_def errM_def split: sum.splits fs_node.splits)

section \<open>Writes\<close>

text \<open>No link below the location bears the name.\<close>

definition no_link_named :: "location \<Rightarrow> string \<Rightarrow> fs_state \<Rightarrow> bool" where
  "no_link_named ws name s \<longleftrightarrow> (\<forall>d t. prefix ws d \<longrightarrow> node_at (nodes s) (d @ [name]) \<noteq> Some (Symlink t))"

lemma no_link_named_iff:
  "no_link_named ws name s \<longleftrightarrow>
     list_all (\<lambda>l. case node_at (nodes s) l of
       Some (Symlink _) \<Rightarrow> \<not> prefix ws (butlast l) \<or> last l \<noteq> name
     | _ \<Rightarrow> True) (hash_keys (nodes s))"
proof
  assume named: "no_link_named ws name s"
  have "\<not> prefix ws (butlast l) \<or> last l \<noteq> name" if "node_at (nodes s) l = Some (Symlink t)" for l t
  proof -
    have "l \<noteq> []" using that by auto
    then have "l = butlast l @ [last l]" by simp
    then show ?thesis using named that unfolding no_link_named_def by metis
  qed
  then show "list_all (\<lambda>l. case node_at (nodes s) l of
      Some (Symlink _) \<Rightarrow> \<not> prefix ws (butlast l) \<or> last l \<noteq> name | _ \<Rightarrow> True) (hash_keys (nodes s))"
    by (auto simp: list_all_iff split: option.split fs_node.split)
next
  assume all: "list_all (\<lambda>l. case node_at (nodes s) l of
      Some (Symlink _) \<Rightarrow> \<not> prefix ws (butlast l) \<or> last l \<noteq> name | _ \<Rightarrow> True) (hash_keys (nodes s))"
  have "\<not> prefix ws d" if "node_at (nodes s) (d @ [name]) = Some (Symlink t)" for d t
  proof -
    have "d @ [name] \<in> set (hash_keys (nodes s))" using that node_at_keys [of "nodes s" "d @ [name]"] by auto
    then show ?thesis using all that by (force simp: list_all_iff)
  qed
  then show "no_link_named ws name s" by (auto simp: no_link_named_def)
qed

lemma no_link_named_stays: "no_link_named ws name s \<Longrightarrow> stays_in ws s s' \<Longrightarrow> no_link_named ws name s'"
  unfolding no_link_named_def stays_in_def by metis

text \<open>A target that the checks have accepted, ready to be written.\<close>

definition clean_target :: "string \<Rightarrow> bool" where
  "clean_target t \<longleftrightarrow> path_is_absolute t \<and> ''..'' \<notin> set (os_segments t)"

lemma clean_parent:
  assumes "clean_target t" "parent_dir t = Some q"
  shows "plain_path q"
proof -
  have t: "path_is_absolute t" "''..'' \<notin> set (os_segments t)" using assms(1) by (auto simp: clean_target_def)
  obtain n ds ds' where "os_segments t = os_segments q @ ds' @ n # ds" "path_is_absolute q"
    "os_segments q = [] \<or> last (os_segments q) \<noteq> ''.''"
    using parent_dir_segments [OF assms(2) t(1)] by metis
  then show ?thesis using t(2) by (auto simp: plain_path_def)
qed

lemma create_parent_run:
  assumes "create_dir_all q s = (r, s')" and "clean_target t" "parent_dir t = Some q"
    and "inside_target ws s t" "fs_wf s"
  shows "stays_in ws s s' \<and> tree_grows (nodes s) (nodes s') \<and> (r = Inr () \<longrightarrow> (\<exists>d. inside_dir ws q s' d))"
proof -
  obtain a la where "nearest_existing s q = Some a" "resolve s a = Inr la" "prefix ws la"
    using assms(3,4) by (auto simp: inside_target_def)
  then have "stays_in ws s s' \<and> tree_grows (nodes s) (nodes s') \<and> (r = Inr () \<longrightarrow> dir_ready ws q s s')"
    by (rule create_dir_all_inside [OF assms(1,5) clean_parent [OF assms(2,3)]])
  then show ?thesis by (auto simp: dir_ready_def fresh_dir_def)
qed

text \<open>The parent is created and the file written; \<open>m\<close> is the write with its error messages.\<close>

lemma create_and_write:
  assumes c: "create_dir_all q s = (Inr (), s1)" and t: "clean_target t" "parent_dir t = Some q"
    and ins: "inside_target ws s t" and wf: "fs_wf s" and nl: "no_link_named ws (file_name t) s"
    and w: "bnd (open_write kept t) (\<lambda>l. write_all l data) s1 = (r, s')"
  shows "stays_in ws s1 s' \<and> tree_grows (nodes s1) (nodes s')"
proof -
  have st: "stays_in ws s s1" and g: "tree_grows (nodes s) (nodes s1)"
    and "\<exists>d. inside_dir ws q s1 d"
    using create_parent_run [OF c t ins wf] by auto
  then obtain d where d: "inside_dir ws q s1 d" by blast
  have "fs_wf s1" using st wf by (simp add: stays_in_def)
  moreover have "node_at (nodes s1) (d @ [file_name t]) \<noteq> Some (Symlink l)" for l
    using no_link_named_stays [OF nl st] d by (simp add: no_link_named_def inside_dir_def)
  ultimately show ?thesis using write_inside [OF w _ _ t(2) d] t(1) by (simp add: clean_target_def)
qed

lemma write_patched_run:
  assumes run: "write_patched env (show_location ws) t content s = (r, s')" and t: "clean_target t"
    and wf: "fs_wf s" and ws: "valid_location ws" and nl: "no_link_named ws (file_name t) s"
  shows "stays_in ws s s' \<and> tree_grows (nodes s) (nodes s')"
proof (cases "parent_dir t")
  case None
  then show ?thesis using run
    by (auto simp: write_patched_def ensure_parent_dir_def andthen_def bnd_def errM_def stays_in_refl)
next
  case (Some q)
  obtain r1 s1 where e: "ensure_parent_stays_inside_workspace env (show_location ws) t s = (r1, s1)" by fastforce
  then have s1: "s1 = s" and ins: "r1 = Inr () \<longrightarrow> inside_target ws s t"
    using ensure_parent_run wf ws by auto
  show ?thesis
  proof (cases r1)
    case (Inl x)
    then show ?thesis using run Some e s1
      by (auto simp: write_patched_def ensure_parent_dir_def andthen_def bnd_def stays_in_refl)
  next
    case (Inr u)
    then have ins: "inside_target ws s t" using ins by simp
    obtain r2 s2 where c: "create_dir_all q s = (r2, s2)" by fastforce
    show ?thesis
    proof (cases r2)
      case (Inl x)
      then have "s' = s2" using run Some e s1 Inr c \<open>r1 = Inr u\<close>
        by (auto simp: write_patched_def ensure_parent_dir_def andthen_def bnd_def patch_io_def with_error_def)
      then show ?thesis using create_parent_run [OF c t Some ins wf] by simp
    next
      case r2: (Inr v)
      obtain r3 s3 where w: "write_file t (utf8_encode content) s2 = (r3, s3)" by fastforce
      then have "s' = s3" using run Some e s1 Inr c r2
        by (auto simp: write_patched_def ensure_parent_dir_def andthen_def bnd_def patch_io_def with_error_def)
      moreover have c: "create_dir_all q s = (Inr (), s2)" using c r2 by simp
      ultimately show ?thesis
        using create_and_write [OF c t Some ins wf nl] create_parent_run [OF c t Some ins wf] w
          stays_in_trans tree_grows_trans unfolding write_file_def by blast
    qed
  qed
qed

section \<open>Operations of a patch\<close>

lemma split_slash_slash: "split_slash (xs @ CHR ''/'' # p) = split_slash xs @ split_slash p"
  by (induction xs) (auto split: list.splits)

lemma split_slash_join_show:
  assumes "valid_location ws" "\<not> path_is_absolute p"
  shows "split_slash (path_join (show_location ws) p) = [] # ws @ split_slash p"
proof (cases "ws = []")
  case True
  then show ?thesis using assms(2)
    by (simp add: path_join_def show_location_def path_is_absolute_def split_slash_slash [of "[]", simplified])
next
  case False
  have l: "last ws \<noteq> []" "CHR ''/'' \<notin> set (last ws)"
    using assms(1) last_in_set [OF False] by (auto simp: valid_location_def valid_name_def)
  have ne: "join ''/'' ws \<noteq> []"
    using False assms(1) by (cases ws) (auto simp: join_Cons valid_location_def valid_name_def)
  have "last (join ''/'' ws) = last (last ws)" by (rule last_join [OF False l(1)])
  then have "last (join ''/'' ws) \<noteq> CHR ''/''" using l last_in_set by metis
  then have "path_join (show_location ws) p = show_location ws @ CHR ''/'' # p"
    using ne assms(2) by (simp add: path_join_def path_is_absolute_def show_location_def)
  then show ?thesis using False split_slash_show [OF assms(1)] by (simp add: split_slash_slash)
qed

text \<open>Paths of a parsed patch have no component \<open>..\<close>.\<close>

definition relative_path :: "string \<Rightarrow> bool" where
  "relative_path p \<longleftrightarrow> \<not> path_is_absolute p \<and> ''..'' \<notin> set (split_slash p)"

lemma dotdot_component: "''..'' \<in> set (split_slash p) \<Longrightarrow> ParentDir \<in> set (path_components p)"
  by (force simp: path_components_def segment_component_def)

lemma safe_patch_path_relative: "safe_patch_path raw = Inr p \<Longrightarrow> relative_path p"
  using dotdot_component
  by (auto simp: safe_patch_path_def Let_def relative_path_def list_ex_iff split: if_splits)

lemma clean_join:
  assumes "valid_location ws" "relative_path p"
  shows "clean_target (path_join (show_location ws) p)"
proof -
  have "''..'' \<notin> set ws" using assms(1) by (auto simp: valid_location_def valid_name_def)
  then show ?thesis
    using assms split_slash_join_show [OF assms(1), of p] path_join_absolute [of "show_location ws" p]
    by (auto simp: clean_target_def relative_path_def os_segments_def Let_def)
qed

definition op_paths :: "codex_patch_op \<Rightarrow> string list" where
  "op_paths patch_op =
     (case patch_op of
        Add_file path _ \<Rightarrow> [path]
      | Delete_file path \<Rightarrow> [path]
      | Update_file path move_to _ \<Rightarrow> path # (case move_to of None \<Rightarrow> [] | Some m \<Rightarrow> [m]))"

text \<open>The file an operation writes.\<close>

definition written_paths :: "codex_patch_op \<Rightarrow> string list" where
  "written_paths patch_op =
     (case patch_op of
        Add_file path _ \<Rightarrow> [path]
      | Delete_file _ \<Rightarrow> []
      | Update_file path move_to _ \<Rightarrow> [unwrap_or path move_to])"

lemma parse_section_paths: "parse_section line lines = Inr (patch_op, rest) \<Longrightarrow> list_all relative_path (op_paths patch_op)"
  by (auto simp: parse_section_def parse_add_def parse_update_def move_line_def op_paths_def
      safe_patch_path_relative
      split: option.splits sum.splits if_splits list.splits)

lemma parse_sections_paths:
  "parse_sections ops lines = Inr (ops', rest) \<Longrightarrow> \<forall>p \<in> set ops. list_all relative_path (op_paths p) \<Longrightarrow>
     \<forall>p \<in> set ops'. list_all relative_path (op_paths p)"
proof (induction ops lines rule: parse_sections.induct)
  case (2 ops line lines)
  then show ?case using parse_section_paths by (auto split: if_splits sum.splits)
qed simp

lemma parsed_paths: "parse_codex_patch patch = Inr ops \<Longrightarrow> patch_op \<in> set ops \<Longrightarrow> list_all relative_path (op_paths patch_op)"
  using parse_sections_paths
  by (fastforce simp: parse_codex_patch_def Let_def split: sum.splits if_splits)

lemma stays_in_wf: "stays_in ws s s' \<Longrightarrow> fs_wf s \<Longrightarrow> fs_wf s'"
  by (simp add: stays_in_def)

lemma step_check: "(\<And>r s'. m s = (r, s') \<Longrightarrow> s' = s) \<Longrightarrow> step_in (stays_in ws) s m"
  by (cases "m s") (simp add: step_in_def stays_in_refl)

lemma read_same_tree:
  assumes "patch_io env what (read_to_string p) s = (r, s')"
  shows "same_tree s s'"
proof -
  obtain r1 s1 where b: "read_bytes p s = (r1, s1)" by fastforce
  then have "same_tree s s1"
    unfolding read_bytes_def
  proof (cases rule: os_call_cases)
    case (ran es)
    then show ?thesis
      by (auto simp: gets_def errM_def okM_def split: sum.splits option.splits fs_node.splits)
  qed simp
  moreover have "s' = s1" using assms b
    by (auto simp: patch_io_def with_error_def read_to_string_def bnd_def errM_def okM_def
        split: sum.splits option.splits)
  ultimately show ?thesis by simp
qed

lemma step_patch_io: "step_in R s (patch_io env what m) = step_in R s m"
  by (simp add: step_in_def patch_io_def with_error_def split: prod.split)

lemma same_tree_own_file: "same_tree s s' \<Longrightarrow> own_file ws s' t l = own_file ws s t l"
  using resolve_cong [of s' s t] by (simp add: own_file_def same_tree_def)

lemma same_tree_no_link: "same_tree s s' \<Longrightarrow> no_link_named ws n s' = no_link_named ws n s"
  by (simp add: no_link_named_def same_tree_def)

lemma remove_own_file:
  assumes own: "own_file ws s t l" and wf: "fs_wf s" and abs: "path_is_absolute t"
    and g: "tree_grows (nodes s) (nodes s')"
  shows "step_in (stays_in ws) s' (remove_file t)"
proof -
  have "entry_of s' t = Inr l"
    using own entry_grows [OF wf abs _ _ g, of l] by (auto simp: own_file_def)
  then show ?thesis
    using remove_inside own by (cases "remove_file t s'") (auto simp: step_in_def own_file_def)
qed

lemma andthen_reject:
  "andthen (reject_symlink env t) m s = (case reject_symlink env t s of (Inl e, _) \<Rightarrow> (Inl e, s) | (Inr _, _) \<Rightarrow> m s)"
  using reject_symlink_run [of env t s] by (auto simp: andthen_def bnd_def split: prod.splits sum.splits)

lemma step_reject: "step_in (stays_in ws) s m \<Longrightarrow> step_in (stays_in ws) s (andthen (reject_symlink env t) m)"
  by (auto simp: step_in_def andthen_reject stays_in_refl split: prod.splits sum.splits)

lemma update_op_stays:
  assumes wf: "fs_wf s" and ws: "valid_location ws" and own: "own_file ws s source l"
    and abs: "path_is_absolute source" and rel: "relative_path path"
    and nl: "no_link_named ws (file_name (path_join (show_location ws) path)) s"
  shows "step_in (stays_in ws) s
    (bnd (workspace_path_for_write env (show_location ws) path) (\<lambda>target.
       andthen (gets (\<lambda>s. when_act (path_exists s target) (reject_symlink env target)))
         (andthen (write_patched env (show_location ws) target content)
           (andthen (when_act moved (patch_io env what (remove_file source))) (okM changed)))))"
proof (rule confined.step_bnd_at [OF step_check])
  show "s' = s" if "workspace_path_for_write env (show_location ws) path s = (r, s')" for r s'
    using write_target_run [OF that wf ws] by simp
  fix t u
  let ?check = "gets (\<lambda>s. when_act (path_exists s t) (reject_symlink env t))"
  assume "workspace_path_for_write env (show_location ws) path s = (Inr t, u)"
  then have [simp]: "u = s" "t = path_join (show_location ws) path" using write_target_run wf ws by blast+
  have check: "?check s = (r, s') \<Longrightarrow> s' = s" for r s'
    using reject_symlink_run [of env t s r s'] by (auto simp: gets_def when_act_def okM_def split: if_splits)
  show "step_in (stays_in ws) u
      (andthen ?check (andthen (write_patched env (show_location ws) t content)
        (andthen (when_act moved (patch_io env what (remove_file source))) (okM changed))))"
  proof (rule confined.step_andthen_at [OF step_check])
    show "?check u = (r, s') \<Longrightarrow> s' = u" for r s' using check by simp
    fix x v
    assume "?check u = (Inr x, v)"
    then have [simp]: "v = s" using check by simp
    obtain r2 s2 where w: "write_patched env (show_location ws) t content s = (r2, s2)" by fastforce
    then have st: "stays_in ws s s2" "tree_grows (nodes s) (nodes s2)"
      using write_patched_run [OF w clean_join [OF ws rel, folded \<open>t = _\<close>] wf ws] nl by simp_all
    show "step_in (stays_in ws) v
        (andthen (write_patched env (show_location ws) t content)
          (andthen (when_act moved (patch_io env what (remove_file source))) (okM changed)))"
    proof (rule confined.step_andthen_at)
      show "step_in (stays_in ws) v (write_patched env (show_location ws) t content)"
        using w st by (simp add: step_in_def)
      fix y s3
      assume "write_patched env (show_location ws) t content v = (Inr y, s3)"
      then have [simp]: "s3 = s2" using w by simp
      have "step_in (stays_in ws) s2 (when_act moved (patch_io env what (remove_file source)))"
        using remove_own_file [OF own wf abs st(2)]
        by (simp add: when_act_def step_patch_io confined.step_steps [OF confined.steps_ok])
      then show "step_in (stays_in ws) s3
          (andthen (when_act moved (patch_io env what (remove_file source))) (okM changed))"
        by (simp add: confined.step_andthen confined.steps_ok)
    qed
  qed
qed

lemma apply_op_stays:
  assumes wf: "fs_wf s" and ws: "valid_location ws" and rel: "list_all relative_path (op_paths patch_op)"
    and nl: "\<forall>p \<in> set (written_paths patch_op). no_link_named ws (file_name (path_join (show_location ws) p)) s"
  shows "step_in (stays_in ws) s (apply_codex_patch_op env (show_location ws) patch_op)"
proof (cases patch_op)
  case (Add_file path content)
  show ?thesis
    unfolding apply_codex_patch_op_def Add_file codex_patch_op.case
  proof (rule confined.step_bnd_at [OF step_check])
    show "s' = s" if "workspace_path_for_write env (show_location ws) path s = (r, s')" for r s'
      using write_target_run [OF that wf ws] by simp
    fix t u
    assume "workspace_path_for_write env (show_location ws) path s = (Inr t, u)"
    then have [simp]: "u = s" "t = path_join (show_location ws) path" using write_target_run wf ws by blast+
    have "clean_target t" using clean_join [OF ws] rel Add_file by (simp add: op_paths_def)
    then have "step_in (stays_in ws) s (write_patched env (show_location ws) t content)"
      using write_patched_run [OF _ _ wf ws] nl Add_file
      by (cases "write_patched env (show_location ws) t content s") (simp add: step_in_def written_paths_def)
    then show "step_in (stays_in ws) u (andthen (write_patched env (show_location ws) t content)
        (okM [display_patch_path path]))"
      by (simp add: confined.step_andthen confined.steps_ok)
  qed
next
  case (Delete_file path)
  show ?thesis
    unfolding apply_codex_patch_op_def Delete_file codex_patch_op.case
  proof (rule confined.step_bnd_at [OF step_check])
    show "s' = s" if "workspace_existing_file env (show_location ws) path s = (r, s')" for r s'
      using existing_file_run [OF that wf ws] by simp
    fix t u
    assume "workspace_existing_file env (show_location ws) path s = (Inr t, u)"
    then obtain l where [simp]: "u = s" "t = path_join (show_location ws) path" and own: "own_file ws s t l"
      using existing_file_run wf ws by blast
    have "step_in (stays_in ws) s (remove_file t)"
      by (rule remove_own_file [OF own wf]) (simp_all add: path_join_absolute)
    then show "step_in (stays_in ws) u
        (andthen (reject_symlink env t) (andthen (patch_io env (''failed to delete '' @ t) (remove_file t))
          (okM [display_patch_path path])))"
      by (simp add: step_reject confined.step_andthen confined.steps_ok step_patch_io)
  qed
next
  case (Update_file path move_to chunks)
  let ?p = "unwrap_or path move_to"
  have p: "relative_path ?p" "no_link_named ws (file_name (path_join (show_location ws) ?p)) s"
    using rel nl Update_file by (auto simp: op_paths_def written_paths_def split: option.splits)
  show ?thesis
    unfolding apply_codex_patch_op_def Update_file codex_patch_op.case
  proof (rule confined.step_bnd_at [OF step_check], goal_cases)
    case (1 r s')
    then show ?case using existing_file_run wf ws by blast
  next
    case (2 t u)
    then obtain l where [simp]: "u = s" "t = path_join (show_location ws) path" and own: "own_file ws s t l"
      using existing_file_run wf ws by blast
    show ?case
    proof (rule step_reject, rule confined.step_bnd_at, goal_cases)
      case 1
      then show ?case
        using read_same_tree same_tree_stays
        by (cases "patch_io env (''failed to read '' @ t) (read_to_string t) u") (auto simp: step_in_def)
    next
      case (2 content v)
      then have same: "same_tree s v" using read_same_tree by fastforce
      show ?case
        by (rule update_op_stays)
           (use same same_tree_wf [OF same] wf ws own same_tree_own_file [OF same] p same_tree_no_link [OF same]
             in \<open>simp_all add: path_join_absolute\<close>)
    qed
  qed
qed

section \<open>Whole patches\<close>

lemma quiet_look [frame]: "steps_in same_tree (look f)"
  by (simp add: steps_in_def)

lemma snd_with_error [simp]: "snd (with_error f m s) = snd (m s)"
  by (simp add: with_error_def split: prod.split)

lemma snd_reporting [simp]: "snd (reporting f m s) = snd (m s)"
  by (simp add: reporting_def split: prod.split sum.split)

lemma quiet_with_error [frame]: "steps_in same_tree m \<Longrightarrow> steps_in same_tree (with_error f m)"
  by (simp add: steps_in_def)

lemma quiet_patch_io [frame]: "steps_in same_tree m \<Longrightarrow> steps_in same_tree (patch_io env what m)"
  unfolding patch_io_def by (rule quiet_with_error)

lemma quiet_read [frame]: "steps_in same_tree (patch_io env what (read_to_string p))"
  by (rule steps_inI) (metis prod.collapse read_same_tree)

lemma quiet_ensure_parent [frame]: "steps_in same_tree (ensure_parent_stays_inside_workspace env w t)"
  unfolding ensure_parent_stays_inside_workspace_def
  by (auto intro!: frame split: option.split)

lemma quiet_for_write [frame]: "steps_in same_tree (workspace_path_for_write env w p)"
  unfolding workspace_path_for_write_def Let_def by (intro frame)

lemma quiet_existing [frame]: "steps_in same_tree (workspace_existing_file env w p)"
  unfolding workspace_existing_file_def Let_def by (auto intro!: frame split: fs_node.split)

lemma quiet_reject [frame]: "steps_in same_tree (reject_symlink env t)"
  unfolding reject_symlink_def by (auto intro!: frame split: fs_node.split)

lemma quiet_verify [frame]: "steps_in same_tree (verify_codex_patch_op env w patch_op)"
  unfolding verify_codex_patch_op_def verify_move_target_def
  by (auto intro!: frame split: codex_patch_op.split option.split)

lemma quiet_canonical [frame]: "steps_in same_tree (canonical_workspace env w)"
  unfolding canonical_workspace_def by (auto intro!: frame)

lemma canonical_workspace_run:
  assumes "canonical_workspace env w s = (r, s')" and "resolve s w = Inr ws"
  shows "s' = s \<and> (\<forall>x. r = Inr x \<longrightarrow> x = show_location ws)"
  using assms by (auto simp: canonical_workspace_def bnd_look canonicalize_def gets_def okM_def errM_def split: if_splits)

text \<open>The names under which the operations of a patch write, as the tool resolves them.\<close>

definition written_names :: "location \<Rightarrow> string \<Rightarrow> string list" where
  "written_names ws patch =
     (case parse_codex_patch patch of
        Inl _ \<Rightarrow> []
      | Inr ops \<Rightarrow>
          map (\<lambda>p. file_name (path_join (show_location ws) p)) (concat (map written_paths ops)))"

lemma apply_all_stays:
  assumes "fs_wf s" and ws: "valid_location ws"
    and "\<forall>p \<in> set ops. list_all relative_path (op_paths p)"
    and "\<forall>p \<in> set (concat (map written_paths ops)). no_link_named ws (file_name (path_join (show_location ws) p)) s"
  shows "step_in (stays_in ws) s (apply_all_ops env (show_location ws) ops)"
  using assms(1,3,4)
proof (induction ops arbitrary: s)
  case Nil
  then show ?case by (simp add: confined.step_steps [OF confined.steps_ok])
next
  case (Cons patch_op ops)
  let ?op = "apply_codex_patch_op env (show_location ws) patch_op"
  have first: "step_in (stays_in ws) s ?op"
    by (rule apply_op_stays [OF Cons(2) ws]) (use Cons(3,4) in simp_all)
  show ?case
    unfolding apply_all_ops.simps
  proof (rule confined.step_bnd_at [OF first])
    fix x t
    assume "?op s = (Inr x, t)"
    then have st: "stays_in ws s t" using confined.stepD [OF first] by simp
    then have "step_in (stays_in ws) t (apply_all_ops env (show_location ws) ops)"
      using Cons(3,4) by (intro Cons(1)) (auto intro: stays_in_wf [OF st Cons(2)] no_link_named_stays)
    then show "step_in (stays_in ws) t (bnd (apply_all_ops env (show_location ws) ops) (\<lambda>more. okM (x @ more)))"
      by (rule confined.step_bnd) (rule confined.steps_ok)
  qed
qed

lemma apply_codex_patch_stays:
  assumes wf: "fs_wf s" and ws: "valid_location ws"
    and nl: "\<forall>n \<in> set (written_names ws patch). no_link_named ws n s"
  shows "step_in (stays_in ws) s (apply_codex_patch env patch options (show_location ws))"
proof (cases "po_strip options \<noteq> 0 \<or> po_reverse options \<or> (\<exists>e. parse_codex_patch patch = Inl e)")
  case True
  then show ?thesis
    by (auto simp: apply_codex_patch_def step_in_def errM_def bnd_def stays_in_refl)
next
  case False
  then obtain ops where ops: "parse_codex_patch patch = Inr ops" by (cases "parse_codex_patch patch") auto
  have verify: "steps_in same_tree (for_each (verify_codex_patch_op env (show_location ws)) ops)"
    by (intro frame)
  have "step_in (stays_in ws) s
      (andthen (for_each (verify_codex_patch_op env (show_location ws)) ops)
        (bnd (if po_check options then okM (concat (map collect_codex_patch_paths ops))
              else apply_all_ops env (show_location ws) ops)
          (\<lambda>files. okM (codex_result (po_check options) files (length ops)))))"
  proof (rule confined.step_andthen_at, goal_cases)
    case 1
    then show ?case using steps_inD [OF verify] same_tree_stays by (simp add: step_in_def)
  next
    case (2 x t)
    then have same: "same_tree s t" using steps_inE [OF verify] by blast
    have "step_in (stays_in ws) t (apply_all_ops env (show_location ws) ops)"
      using nl parsed_paths [OF ops] same_tree_no_link [OF same] same_tree_wf [OF same] wf
      by (intro apply_all_stays [OF _ ws]) (auto simp: written_names_def ops)
    then show ?case
      by (intro confined.step_bnd) (simp_all add: confined.steps_ok confined.step_steps [OF confined.steps_ok])
  qed
  then show ?thesis using False ops by (simp add: apply_codex_patch_def step_in_def bnd_def)
qed

text \<open>
  C21. Whatever a Codex patch says and however the calls of the operating system fail, applying it
  changes nothing outside the workspace, provided that no symbolic link in the workspace bears
  the name of a file the patch writes.
\<close>

theorem patch_stays_in_workspace:
  assumes "fs_wf s" and "resolve s (po_workspace options) = Inr ws"
    and "resolve_format (po_format options) patch = Codex_format"
    and "\<forall>n \<in> set (written_names ws patch). no_link_named ws n s"
    and "\<not> prefix ws l"
  shows "node_at (nodes (snd (apply_patch env patch options s))) l = node_at (nodes s) l"
proof -
  have ws: "valid_location ws" using resolve_valid assms(1,2) by blast
  have "step_in (stays_in ws) s (apply_patch_inner env patch options)"
    unfolding apply_patch_inner_def
  proof (rule confined.step_bnd_at [OF step_check], goal_cases)
    case (2 w t)
    then have "t = s" "w = show_location ws" using canonical_workspace_run [OF _ assms(2)] by blast+
    then show ?case using apply_codex_patch_stays [OF assms(1) ws assms(4)] assms(3) by simp
  qed (use canonical_workspace_run [OF _ assms(2)] in blast)
  then have "stays_in ws s (snd (apply_patch env patch options s))"
    by (simp add: step_in_def apply_patch_def)
  then show ?thesis using assms(5) unfolding stays_in_def by blast
qed

theorem patch_stays_in_workspace_witness:
  "node_at (nodes (snd (apply_patch patch_env update_patch sample_options sample_tree))) [''etc''] = Some Directory"
proof -
  have w: "resolve sample_tree (po_workspace sample_options) = Inr [''ws'']" by code_simp
  have f: "resolve_format (po_format sample_options) update_patch = Codex_format" by code_simp
  have n: "written_names [''ws''] update_patch = [''a.txt'']" by code_simp
  have l: "no_link_named [''ws''] ''a.txt'' sample_tree" unfolding no_link_named_iff by code_simp
  have e: "node_at (nodes sample_tree) [''etc''] = Some Directory" by code_simp
  show ?thesis
    unfolding e [symmetric]
    by (rule patch_stays_in_workspace [OF sample_wf w f]) (use n l in simp_all)
qed

section \<open>Single files\<close>

definition names_only :: "string list \<Rightarrow> bool" where
  "names_only l \<longleftrightarrow> (\<forall>x \<in> set l. x \<noteq> [] \<and> x \<noteq> ''.'' \<and> x \<noteq> ''..'' \<and> CHR ''/'' \<notin> set x)"

lemma valid_names_only: "valid_location l \<Longrightarrow> names_only l"
  by (auto simp: valid_location_def valid_name_def names_only_def)

lemma os_segments_show:
  assumes "names_only l"
  shows "os_segments (show_location l) = l"
proof (cases "l = []")
  case True
  then show ?thesis by (simp add: show_location_def os_segments_def)
next
  case False
  have l: "last l \<noteq> []" "CHR ''/'' \<notin> set (last l)"
    using assms last_in_set [OF False] by (auto simp: names_only_def)
  have "last (show_location l) = last (join ''/'' l)"
    using False assms by (cases l) (auto simp: show_location_def join_Cons names_only_def)
  also have "\<dots> = last (last l)" by (rule last_join [OF False l(1)])
  finally have "last (show_location l) \<noteq> CHR ''/''" using l last_in_set by metis
  moreover have "split_slash (show_location l) = [] # l"
    using split_slash_join [OF False] assms by (simp add: show_location_def names_only_def)
  moreover have "filter (\<lambda>s. s \<noteq> []) l = l" using assms by (auto simp: names_only_def filter_id_conv)
  ultimately show ?thesis by (simp add: os_segments_def)
qed

lemma clean_show: "names_only l \<Longrightarrow> clean_target (show_location l)"
  using os_segments_show [of l] by (auto simp: clean_target_def names_only_def)

definition component_names :: "path_component list \<Rightarrow> bool" where
  "component_names cs \<longleftrightarrow> (\<forall>n. Normal n \<in> set cs \<longrightarrow> n \<noteq> [] \<and> n \<noteq> ''.'' \<and> n \<noteq> ''..'' \<and> CHR ''/'' \<notin> set n)"

lemma component_names_path: "component_names (path_components p)"
  using split_slash_no_slash [of _ p]
  by (auto simp: component_names_def path_components_def segment_component_def split: list.splits if_splits)

lemma normalize_absolute_names:
  "normalize_absolute_path path l cs = Inr t \<Longrightarrow> names_only l \<Longrightarrow> component_names cs \<Longrightarrow>
     \<exists>l'. names_only l' \<and> t = show_location l'"
proof (induction path l cs rule: normalize_absolute_path.induct)
  case (2 path l cs)
  then show ?case by (simp add: names_only_def component_names_def)
qed (auto simp: names_only_def component_names_def split: if_splits dest: in_set_butlastD)

lemma normalize_relative_names:
  "normalize_workspace_relative_path parts cs = Inr t \<Longrightarrow> names_only parts \<Longrightarrow> component_names cs \<Longrightarrow>
     \<exists>l'. names_only l' \<and> t = join ''/'' l'"
  by (induction parts cs rule: normalize_workspace_relative_path.induct)
     (auto simp: names_only_def component_names_def)

lemma relative_join: "names_only l \<Longrightarrow> relative_path (join ''/'' l)"
proof (cases "l = []")
  case False
  assume l: "names_only l"
  then have s: "split_slash (join ''/'' l) = l"
    using split_slash_join [OF False] by (simp add: names_only_def)
  moreover have "\<not> path_is_absolute (join ''/'' l)"
    using hd_split_slash [of "join ''/'' l"] s l False by (cases l) (auto simp: names_only_def)
  ultimately show ?thesis using l by (auto simp: relative_path_def names_only_def)
qed (simp add: relative_path_def path_is_absolute_def starts_with_def)

lemma resolved_path_clean:
  assumes "resolve_workspace_path (show_location ws) raw = Inr path" and ws: "valid_location ws"
  shows "clean_target path"
proof -
  let ?p = "trim raw"
  have nil: "names_only []" by (simp add: names_only_def)
  show ?thesis
  proof (cases "?p = []")
    case True
    then have "path = show_location ws" using assms(1) by (simp add: resolve_workspace_path_def)
    then show ?thesis using clean_show [OF valid_names_only [OF ws]] by simp
  next
    case ne: False
    show ?thesis
    proof (cases "path_is_absolute ?p")
      case True
      then have "normalize_absolute_path ?p [] (path_components ?p) = Inr path"
        using assms(1) ne by (simp add: resolve_workspace_path_def Let_def split: sum.splits if_splits)
      then obtain l where "names_only l" "path = show_location l"
        using normalize_absolute_names [OF _ nil component_names_path] by blast
      then show ?thesis using clean_show by simp
    next
      case False
      then obtain r where r: "normalize_workspace_relative_path [] (path_components ?p) = Inr r"
        "path = path_join (show_location ws) r"
        using assms(1) ne by (cases "normalize_workspace_relative_path [] (path_components ?p)")
          (simp_all add: resolve_workspace_path_def)
      then obtain l where "names_only l" "r = join ''/'' l"
        using normalize_relative_names [OF _ nil component_names_path] by blast
      then show ?thesis using clean_join [OF ws relative_join] r(2) by simp
    qed
  qed
qed

lemma write_with_mode_run:
  assumes "write_with_mode env mode p content s = (r, s')"
  obtains (wrong_mode) "s' = s" "kept_bytes mode = Inl (Invalid_arguments ''mode must be either overwrite or append'')"
  | (opened) kept r0 where "kept_bytes mode = Inr kept"
      "bnd (open_write kept p) (\<lambda>l. write_all l (utf8_encode content)) s = (r0, s')"
      "\<And>x. r = Inr x \<Longrightarrow> r0 = Inr x"
proof (cases "kept_bytes mode")
  case (Inl e)
  then show ?thesis using assms wrong_mode
    by (auto simp: write_with_mode_def bnd_def kept_bytes_def split: if_splits)
next
  case (Inr kept)
  obtain r1 s1 where o: "open_write kept p s = (r1, s1)" by fastforce
  show ?thesis
  proof (cases r1)
    case (Inl e)
    then show ?thesis using assms Inr o opened [of kept "Inl e"]
      by (auto simp: write_with_mode_def bnd_def patch_io_def with_error_def)
  next
    case r1: (Inr l)
    obtain r2 s2 where w: "write_all l (utf8_encode content) s1 = (r2, s2)" by fastforce
    then show ?thesis using assms Inr o r1 opened [of kept r2]
      by (cases r2) (auto simp: write_with_mode_def bnd_def patch_io_def with_error_def)
  qed
qed

lemma check_write_target_run:
  assumes "check_write_target env w p s = (r, s')"
  shows "s' = s"
proof (cases "canonicalize s p")
  case (Inl e)
  then show ?thesis using assms
    by (auto simp: check_write_target_def gets_def when_act_def bnd_look okM_def split: if_splits)
next
  case (Inr c)
  then show ?thesis using assms reject_symlink_run [of env p s]
    by (auto simp: check_write_target_def gets_def when_act_def bnd_look okM_def andthen_def bnd_def
        split: if_splits sum.splits)
qed

lemma file_write_stays:
  assumes wf: "fs_wf s" and ws: "valid_location ws" and ins: "inside_target ws s path"
    and t: "clean_target path" and nl: "no_link_named ws (file_name path) s"
  shows "step_in (stays_in ws) s
    (andthen
       (case parent_dir path of
          None \<Rightarrow> okM ()
        | Some parent \<Rightarrow> patch_io env (what parent) (create_dir_all parent))
       (andthen (write_with_mode env mode path content) (okM result)))"
proof -
  obtain q where q: "parent_dir path = Some q" using ins by (auto simp: inside_target_def)
  show ?thesis
    unfolding q option.case
  proof (rule confined.step_andthen_at, goal_cases)
    case 1
    then show ?case using create_parent_run [OF _ t q ins wf]
      by (cases "create_dir_all q s") (simp add: patch_io_def step_in_def)
  next
    case (2 x s1)
    then have c: "create_dir_all q s = (Inr (), s1)" by (simp add: patch_io_def)
    have "stays_in ws s1 (snd (write_with_mode env mode path content s1))"
    proof (cases "write_with_mode env mode path content s1")
      case (Pair r s2)
      then show ?thesis
      proof (cases rule: write_with_mode_run)
        case (opened kept r0)
        then show ?thesis using create_and_write [OF c t q ins wf nl] Pair by simp
      qed (simp add: Pair stays_in_refl)
    qed
    then show ?case by (intro confined.step_andthen) (simp_all add: step_in_def confined.steps_ok)
  qed
qed

text \<open>The name of the file that a request to write a file refers to.\<close>

definition requested_names :: "location \<Rightarrow> string \<Rightarrow> string list" where
  "requested_names ws raw =
     (case resolve_workspace_path (show_location ws) raw of Inl _ \<Rightarrow> [] | Inr path \<Rightarrow> [file_name path])"

lemma file_write_inner_stays:
  assumes wf: "fs_wf s" and ws: "resolve s (fw_workspace options) = Inr ws"
    and nl: "\<forall>n \<in> set (requested_names ws (fw_file_path options)). no_link_named ws n s"
  shows "step_in (stays_in ws) s (file_write_inner env options)"
  unfolding file_write_inner_def
proof (rule confined.step_bnd_at [OF step_check], goal_cases)
  case (2 w t)
  then have [simp]: "t = s" "w = show_location ws" using canonical_workspace_run [OF _ ws] by blast+
  have valid: "valid_location ws" by (rule resolve_valid [OF wf ws])
  show ?case
  proof (rule confined.step_bnd_at [OF step_check], goal_cases)
    case (2 path u)
    then have [simp]: "u = s" and p: "resolve_workspace_path (show_location ws) (fw_file_path options) = Inr path"
      by simp_all
    have clean: "clean_target path" by (rule resolved_path_clean [OF p valid])
    have no_link: "no_link_named ws (file_name path) s" using nl p by (simp add: requested_names_def)
    show ?case
    proof (rule confined.step_andthen_at [OF step_check], goal_cases)
      case (2 x v)
      then have [simp]: "v = s" and ins: "inside_target ws s path"
        using ensure_parent_run [OF _ wf valid] by auto
      show ?case
      proof (rule confined.step_andthen_at [OF step_check], goal_cases)
        case (2 y z)
        then have [simp]: "z = s" using check_write_target_run by fastforce
        show ?case
          using file_write_stays [OF wf valid ins clean no_link, of env "\<lambda>p. ''failed to create '' @ p"]
          by simp
      qed (use check_write_target_run in fastforce)
    qed (use ensure_parent_run [OF _ wf valid] in auto)
  qed simp
qed (use canonical_workspace_run [OF _ ws] in blast)

text \<open>
  C26. Writing a file changes nothing outside the workspace, whatever the request and however the
  calls of the operating system fail, provided that no symbolic link in the workspace bears the
  name of the file.
\<close>

theorem file_write_stays_in_workspace:
  assumes "fs_wf s" and "resolve s (fw_workspace options) = Inr ws"
    and "\<forall>n \<in> set (requested_names ws (fw_file_path options)). no_link_named ws n s"
    and "\<not> prefix ws l"
  shows "node_at (nodes (snd (file_write_tool env options s))) l = node_at (nodes s) l"
  using confined.stepD [OF file_write_inner_stays [OF assms(1-3)], of env] assms(4)
  unfolding file_write_tool_def snd_reporting stays_in_def by blast

theorem file_write_stays_in_workspace_witness:
  "node_at (nodes (snd (file_write_tool patch_env sample_write sample_tree))) [''etc''] = Some Directory"
proof -
  have w: "resolve sample_tree (fw_workspace sample_write) = Inr [''ws'']" by code_simp
  have n: "requested_names [''ws''] (fw_file_path sample_write) = [''b.txt'']" by code_simp
  have l: "no_link_named [''ws''] ''b.txt'' sample_tree" unfolding no_link_named_iff by code_simp
  have e: "node_at (nodes sample_tree) [''etc''] = Some Directory" by code_simp
  show ?thesis
    unfolding e [symmetric]
    by (rule file_write_stays_in_workspace [OF sample_wf w]) (use n l in simp_all)
qed

text \<open>
  The condition on links is needed: a link that leads to no file does not count as existing, so
  neither the verification nor the application of \<open>Add File\<close> refuses it, and the write follows it
  to a place outside the workspace. The tool reports the file of the workspace as changed.
\<close>

theorem add_follows_dangling_link:
  "apply_patch patch_env add_link_patch sample_options sample_tree =
     (codex_result False [''link''] 1,
      sample_tree\<lparr>nodes := ([''etc'', ''new''], Regular (''x'' @ newline)) # nodes sample_tree\<rparr>)"
  by code_simp

end
