(* ===== verification/Patch_Round_Trip.thy ===== *)
theory Patch_Round_Trip
  imports Patch_Parser Fs_Laws
begin

text \<open>
  The parser of Codex patches reads back what a printer of patches writes, and the texts that
  \<open>git apply\<close> receives name their files by relative paths.
\<close>

section \<open>Printing a patch\<close>

text \<open>Texts made of lines: each line is followed by a newline.\<close>

definition text_of :: "string list \<Rightarrow> string" where
  "text_of lines = concat (map (\<lambda>l. l @ newline) lines)"

definition text_lines :: "string \<Rightarrow> string list" where
  "text_lines t = butlast (split_newline t)"

definition whole_lines :: "string \<Rightarrow> bool" where
  "whole_lines t \<longleftrightarrow> last (split_newline t) = [] \<and> CHR 0x0D \<notin> set t"

text \<open>A chunk is printed as the old lines, marked as removed, and the new ones, marked as added.\<close>

definition render_chunk :: "codex_patch_chunk \<Rightarrow> string list" where
  "render_chunk chunk =
     ''@@'' # map ((#) CHR ''-'') (text_lines (chunk_old chunk)) @ map ((#) CHR ''+'') (text_lines (chunk_new chunk))"

definition render_op :: "codex_patch_op \<Rightarrow> string list" where
  "render_op patch_op =
     (case patch_op of
        Add_file path content \<Rightarrow> (add_header @ path) # map ((#) CHR ''+'') (text_lines content)
      | Delete_file path \<Rightarrow> [delete_header @ path]
      | Update_file path move_to chunks \<Rightarrow>
          (update_header @ path)
          # (case move_to of None \<Rightarrow> [] | Some target \<Rightarrow> [move_header @ target])
          @ concat (map render_chunk chunks))"

definition render_patch :: "codex_patch_op list \<Rightarrow> string" where
  "render_patch ops = join newline (begin_patch # concat (map render_op ops) @ [end_patch])"

text \<open>What can be printed: safe paths on one line, texts of whole lines, no empty section.\<close>

definition printable_path :: "string \<Rightarrow> bool" where
  "printable_path p \<longleftrightarrow> safe_patch_path p = Inr p \<and> CHR 0x0A \<notin> set p \<and> CHR 0x0D \<notin> set p"

definition printable_chunk :: "codex_patch_chunk \<Rightarrow> bool" where
  "printable_chunk chunk \<longleftrightarrow>
     whole_lines (chunk_old chunk) \<and> whole_lines (chunk_new chunk)
     \<and> (chunk_old chunk \<noteq> [] \<or> chunk_new chunk \<noteq> [])"

definition printable_op :: "codex_patch_op \<Rightarrow> bool" where
  "printable_op patch_op =
     (case patch_op of
        Add_file path content \<Rightarrow> printable_path path \<and> whole_lines content \<and> content \<noteq> []
      | Delete_file path \<Rightarrow> printable_path path
      | Update_file path move_to chunks \<Rightarrow>
          printable_path path
          \<and> (case move_to of None \<Rightarrow> chunks \<noteq> [] | Some target \<Rightarrow> printable_path target)
          \<and> list_all printable_chunk chunks)"

section \<open>Lines\<close>

lemma split_newline_ne [simp]: "split_newline t \<noteq> []"
  by (induction t) (auto split: list.splits)

lemma split_newline_clean: "x \<in> set (split_newline t) \<Longrightarrow> CHR 0x0A \<notin> set x \<and> set x \<subseteq> set t"
  by (induction t arbitrary: x) (auto split: if_splits list.splits, blast+)

lemma split_newline_append: "CHR 0x0A \<notin> set x \<Longrightarrow> split_newline (x @ CHR 0x0A # t) = x # split_newline t"
  by (induction x) auto

lemma split_newline_single: "CHR 0x0A \<notin> set x \<Longrightarrow> split_newline x = [x]"
  by (induction x) auto

lemma split_newline_join:
  "lines \<noteq> [] \<Longrightarrow> (\<forall>l \<in> set lines. CHR 0x0A \<notin> set l) \<Longrightarrow> split_newline (join newline lines) = lines"
proof (induction lines)
  case (Cons l lines)
  then show ?case by (auto simp: join_Cons newline_def split_newline_append split_newline_single)
qed simp

lemma replace_crlf_id: "CHR 0x0D \<notin> set t \<Longrightarrow> replace_crlf t = t"
  by (induction t rule: replace_crlf.induct) auto

lemma join_newline_split [simp]: "join newline (split_newline t) = t"
proof (induction t)
  case (Cons c t)
  obtain x xs where "split_newline t = x # xs" by (cases "split_newline t") simp_all
  with Cons show ?case by (auto simp: join_Cons newline_def split: if_splits)
qed simp

lemma text_of_snoc: "join newline (lines @ [[]]) = text_of lines"
  by (induction lines) (simp_all add: text_of_def join_Cons)

lemma text_of_lines: "whole_lines t \<Longrightarrow> text_of (text_lines t) = t"
proof -
  assume "whole_lines t"
  then have "split_newline t = text_lines t @ [[]]"
    using append_butlast_last_id [OF split_newline_ne, of t] by (simp add: text_lines_def whole_lines_def)
  then show ?thesis using join_newline_split [of t] text_of_snoc by metis
qed

lemma text_lines_clean: "l \<in> set (text_lines t) \<Longrightarrow> CHR 0x0A \<notin> set l \<and> set l \<subseteq> set t"
  using split_newline_clean by (auto simp: text_lines_def dest: in_set_butlastD)

lemma text_of_Cons: "text_of (l # lines) = l @ newline @ text_of lines"
  and text_of_Nil [simp]: "text_of [] = []"
  by (simp_all add: text_of_def)

section \<open>Reading back the sections\<close>

text \<open>What ends a section: the next header.\<close>

definition at_header :: "string list \<Rightarrow> bool" where
  "at_header lines \<longleftrightarrow> lines \<noteq> [] \<and> is_codex_patch_header (hd lines)"

lemma header_defs_apart:
  "\<not> is_codex_patch_header (CHR ''+'' # l)" "\<not> is_codex_patch_header (CHR ''-'' # l)"
  "\<not> is_codex_patch_header ''@@''" "\<not> is_codex_patch_header (move_header @ p)"
  by (simp_all add: is_codex_patch_header_def end_patch_def add_header_def delete_header_def
      update_header_def move_header_def starts_with_def)

lemma add_file_lines_read:
  "at_header rest \<Longrightarrow> add_file_lines content (map ((#) CHR ''+'') lines @ rest) = Inr (content @ text_of lines, rest)"
proof (induction lines arbitrary: content)
  case Nil
  then show ?case by (cases rest) (simp_all add: at_header_def)
next
  case (Cons l lines)
  then show ?case
    by (simp add: header_defs_apart text_of_Cons strip_prefix_def starts_with_def)
qed

lemma update_lines_marked:
  assumes "kind \<in> {CHR ''-'', CHR ''+''}"
  shows "update_file_lines chunks current (map ((#) kind) lines @ rest)
    = update_file_lines chunks
        (if kind = CHR ''-'' then current\<lparr>chunk_old := chunk_old current @ text_of lines\<rparr>
         else current\<lparr>chunk_new := chunk_new current @ text_of lines\<rparr>) rest"
  using assms
proof (induction lines arbitrary: current)
  case (Cons l lines)
  then show ?case
    by (auto simp: header_defs_apart text_of_Cons split_patch_line_def extend_chunk_def end_of_file_def starts_with_def)
qed auto

lemma update_lines_chunk:
  assumes "printable_chunk chunk"
  shows "update_file_lines chunks current (render_chunk chunk @ rest)
    = update_file_lines (push_non_empty_chunk chunks current) chunk rest"
proof -
  have "chunk = \<lparr>chunk_old = text_of (text_lines (chunk_old chunk)), chunk_new = text_of (text_lines (chunk_new chunk))\<rparr>"
    using assms by (simp add: printable_chunk_def text_of_lines)
  then show ?thesis
    by (simp add: render_chunk_def header_defs_apart end_of_file_def update_lines_marked empty_chunk_def)
qed

lemma update_lines_chunks:
  "list_all printable_chunk cs \<Longrightarrow> at_header rest \<Longrightarrow>
     update_file_lines chunks current (concat (map render_chunk cs) @ rest)
     = Inr (push_non_empty_chunk chunks current @ cs, rest)"
proof (induction cs arbitrary: chunks current)
  case Nil
  then show ?case by (cases rest) (simp_all add: at_header_def)
next
  case (Cons c cs)
  then have "push_non_empty_chunk (push_non_empty_chunk chunks current) c = push_non_empty_chunk chunks current @ [c]"
    by (simp add: push_non_empty_chunk_def printable_chunk_def)
  then show ?case using Cons update_lines_chunk [of c] by simp
qed

lemma render_op_header: "at_header (render_op patch_op @ rest)"
  by (cases patch_op)
     (simp_all add: render_op_def at_header_def is_codex_patch_header_def starts_with_def
       add_header_def delete_header_def update_header_def end_patch_def)

lemma rest_header: "at_header (concat (map render_op ops) @ end_patch # rest)"
proof (cases ops)
  case Nil
  then show ?thesis by (simp add: at_header_def is_codex_patch_header_def)
next
  case (Cons patch_op ops)
  then show ?thesis using render_op_header [of patch_op "concat (map render_op ops) @ end_patch # rest"] by simp
qed

lemma header_prefixes:
  "strip_prefix add_header (add_header @ p) = Some p"
  "strip_prefix add_header (delete_header @ p) = None"
  "strip_prefix add_header (update_header @ p) = None"
  "strip_prefix delete_header (delete_header @ p) = Some p"
  "strip_prefix delete_header (update_header @ p) = None"
  "strip_prefix update_header (update_header @ p) = Some p"
  "strip_prefix move_header (move_header @ p) = Some p"
  "strip_prefix move_header ''@@'' = None"
  by (simp_all add: strip_prefix_def starts_with_def add_header_def delete_header_def update_header_def
      move_header_def)

lemma header_not_end:
  "add_header @ p \<noteq> end_patch" "delete_header @ p \<noteq> end_patch" "update_header @ p \<noteq> end_patch"
  by (simp_all add: add_header_def delete_header_def update_header_def end_patch_def)

lemma parse_add_read:
  "printable_path path \<Longrightarrow> whole_lines content \<Longrightarrow> content \<noteq> [] \<Longrightarrow> at_header rest \<Longrightarrow>
     parse_add path (map ((#) CHR ''+'') (text_lines content) @ rest) = Inr (Add_file path content, rest)"
  by (simp add: parse_add_def printable_path_def add_file_lines_read text_of_lines)

lemma parse_update_read:
  assumes "printable_op (Update_file path move_to chunks)" "at_header rest"
  shows "parse_update path
      ((case move_to of None \<Rightarrow> [] | Some target \<Rightarrow> [move_header @ target])
       @ concat (map render_chunk chunks) @ rest)
    = Inr (Update_file path move_to chunks, rest)"
proof -
  have p: "safe_patch_path path = Inr path" and cs: "list_all printable_chunk chunks"
    using assms(1) by (simp_all add: printable_op_def printable_path_def)
  have read: "update_file_lines [] empty_chunk (concat (map render_chunk chunks) @ rest) = Inr (chunks, rest)"
    using update_lines_chunks [OF cs assms(2)] by (simp add: push_non_empty_chunk_def empty_chunk_def)
  show ?thesis
  proof (cases move_to)
    case None
    then have ne: "chunks \<noteq> []" using assms(1) by (simp add: printable_op_def)
    then obtain c cs' where "chunks = c # cs'" by (cases chunks) simp_all
    then have "move_line (concat (map render_chunk chunks) @ rest)
        = Inr (None, concat (map render_chunk chunks) @ rest)"
      by (simp add: move_line_def render_chunk_def header_prefixes)
    then show ?thesis using p read ne None by (simp add: parse_update_def)
  next
    case (Some target)
    then have "safe_patch_path target = Inr target"
      using assms(1) by (simp add: printable_op_def printable_path_def)
    then show ?thesis using p read Some by (simp add: parse_update_def move_line_def header_prefixes)
  qed
qed

lemma parse_section_read:
  assumes "printable_op patch_op" "at_header rest"
  shows "\<exists>line lines. render_op patch_op @ rest = line # lines \<and> line \<noteq> end_patch
    \<and> parse_section line lines = Inr (patch_op, rest)"
proof (cases patch_op)
  case (Add_file path content)
  then show ?thesis using assms parse_add_read
    by (simp add: render_op_def printable_op_def parse_section_def header_prefixes header_not_end)
next
  case (Delete_file path)
  then show ?thesis using assms
    by (simp add: render_op_def printable_op_def parse_section_def header_prefixes header_not_end printable_path_def)
next
  case (Update_file path move_to chunks)
  then show ?thesis using assms parse_update_read
    by (simp add: render_op_def parse_section_def header_prefixes header_not_end)
qed

lemma parse_sections_read:
  "list_all printable_op ops \<Longrightarrow>
     parse_sections acc (concat (map render_op ops) @ end_patch # rest) = Inr (acc @ ops, rest)"
proof (induction ops arbitrary: acc)
  case (Cons patch_op ops)
  let ?rest = "concat (map render_op ops) @ end_patch # rest"
  obtain line lines where l: "render_op patch_op @ ?rest = line # lines" "line \<noteq> end_patch"
    "parse_section line lines = Inr (patch_op, ?rest)"
    using parse_section_read [of patch_op ?rest] Cons.prems rest_header by auto
  have "parse_sections acc (concat (map render_op (patch_op # ops)) @ end_patch # rest)
      = parse_sections (acc @ [patch_op]) ?rest"
    using l by simp
  then show ?case using Cons by simp
qed simp

definition plain_line :: "string \<Rightarrow> bool" where
  "plain_line l \<longleftrightarrow> CHR 0x0A \<notin> set l \<and> CHR 0x0D \<notin> set l"

lemma plain_line_simps [simp]:
  "plain_line (l @ r) \<longleftrightarrow> plain_line l \<and> plain_line r"
  "plain_line (CHR ''+'' # l) \<longleftrightarrow> plain_line l" "plain_line (CHR ''-'' # l) \<longleftrightarrow> plain_line l" "plain_line ''@@''"
  "plain_line add_header" "plain_line delete_header" "plain_line update_header" "plain_line move_header"
  "plain_line begin_patch" "plain_line end_patch"
  by (auto simp: plain_line_def add_header_def delete_header_def update_header_def move_header_def
      begin_patch_def end_patch_def)

lemma plain_text_lines: "whole_lines t \<Longrightarrow> l \<in> set (text_lines t) \<Longrightarrow> plain_line l"
  using text_lines_clean by (auto simp: plain_line_def whole_lines_def)

lemma plain_printable_path: "printable_path p \<Longrightarrow> plain_line p"
  by (simp add: printable_path_def plain_line_def)

lemma plain_render_chunk: "printable_chunk c \<Longrightarrow> l \<in> set (render_chunk c) \<Longrightarrow> plain_line l"
  by (auto simp: render_chunk_def printable_chunk_def plain_text_lines)

lemma plain_render_op:
  "printable_op patch_op \<Longrightarrow> l \<in> set (render_op patch_op) \<Longrightarrow> plain_line l"
  by (cases patch_op)
     (auto simp: render_op_def printable_op_def list_all_iff plain_printable_path plain_text_lines plain_render_chunk
        split: option.splits)

text \<open>
  C24. Parsing inverts printing: a list of operations that can be printed is read back from its
  printed form, operation by operation, chunk by chunk, to the character.
\<close>

theorem codex_patch_round_trip:
  assumes "ops \<noteq> []" and "list_all printable_op ops"
  shows "parse_codex_patch (render_patch ops) = Inr ops"
proof -
  let ?lines = "begin_patch # concat (map render_op ops) @ [end_patch]"
  have plain: "\<forall>l \<in> set ?lines. plain_line l"
    using assms(2) plain_render_op by (auto simp: list_all_iff)
  have "CHR 0x0D \<notin> set (render_patch ops)"
    using plain set_join [of newline ?lines] by (fastforce simp: render_patch_def plain_line_def newline_def)
  then have "split_newline (replace_crlf (render_patch ops)) = ?lines"
    using plain split_newline_join [of ?lines] by (simp add: replace_crlf_id render_patch_def plain_line_def)
  moreover have "\<not> blank_line begin_patch"
    by (simp add: blank_line_def begin_patch_def trim_def trim_start_def trim_end_def rust_whitespace_def)
  ultimately show ?thesis
    using assms parse_sections_read [OF assms(2), of "[]" "[]"]
    by (simp add: parse_codex_patch_def expect_line_def)
qed

theorem codex_patch_round_trip_witness:
  "parse_codex_patch
     (render_patch
        [Add_file ''dir/n.txt'' (''one'' @ newline), Delete_file ''old.txt'',
         Update_file ''a.txt'' (Some ''b.txt'')
           [\<lparr>chunk_old = ''x'' @ newline, chunk_new = ''y'' @ newline @ ''z'' @ newline\<rparr>]])
   = Inr [Add_file ''dir/n.txt'' (''one'' @ newline), Delete_file ''old.txt'',
        Update_file ''a.txt'' (Some ''b.txt'')
          [\<lparr>chunk_old = ''x'' @ newline, chunk_new = ''y'' @ newline @ ''z'' @ newline\<rparr>]]"
  by (rule codex_patch_round_trip) (simp, code_simp)

section \<open>Headers of a unified diff\<close>

text \<open>
  What the headers are to look like, in terms of the text alone: a name that is absolute, a line
  that names no file absolutely, two names of one file, and the lines that may be rewritten.
\<close>

definition absolute_name :: "string \<Rightarrow> bool" where
  "absolute_name w \<longleftrightarrow> starts_with ''/'' w \<and> w \<noteq> ''/dev/null''"

definition header_relative :: "string \<Rightarrow> bool" where
  "header_relative line \<longleftrightarrow>
     (if starts_with ''--- '' line \<or> starts_with ''+++ '' line then
        starts_with ''/'' (drop 4 line) \<longrightarrow> takeWhile (\<lambda>c. \<not> rust_whitespace c) (drop 4 line) = ''/dev/null''
      else if starts_with ''diff --git '' line then
        (case split_whitespace (drop 11 line) of
           [old, new] \<Rightarrow> \<not> absolute_name old \<and> \<not> absolute_name new
         | _ \<Rightarrow> True)
      else True)"

definition same_name :: "string \<Rightarrow> string \<Rightarrow> string \<Rightarrow> bool" where
  "same_name base name name' \<longleftrightarrow>
     name' = name \<or> path_components name = path_components base @ path_components name'"

definition header_rewritten :: "string \<Rightarrow> string \<Rightarrow> string \<Rightarrow> bool" where
  "header_rewritten base line line' \<longleftrightarrow>
     line' = line
     \<or> (\<exists>marker name name' trailer. marker \<in> {''--- '', ''+++ ''} \<and> line = marker @ name @ trailer
          \<and> line' = marker @ name' @ trailer \<and> same_name base name name')
     \<or> (\<exists>rest rest'. line = ''diff --git '' @ rest \<and> line' = ''diff --git '' @ rest'
          \<and> list_all2 (same_name base) (split_whitespace rest) (split_whitespace rest'))"

lemma skip_names_head: "skip_names n ss = x # xs \<Longrightarrow> x \<noteq> [] \<and> x \<noteq> ''.''"
  by (induction n ss rule: skip_names.induct) (auto split: if_splits nat.splits)

lemma set_skip_names: "set (skip_names n ss) \<subseteq> set ss"
  by (induction n ss rule: skip_names.induct) (auto split: if_splits nat.splits)

lemma stripped_path:
  assumes "path_strip_prefix base path = Some r" "r \<noteq> []"
  shows "\<not> path_is_absolute r" and "set r \<subseteq> set path \<union> {CHR ''/''}"
proof -
  let ?T = "trim_segments (skip_names (length (path_components base) - 1) (split_slash path))"
  have r: "r = join ''/'' ?T" using assms(1) by (simp add: path_strip_prefix_def split: if_splits)
  then have ne: "?T \<noteq> []" using assms(2) by auto
  have "set ?T \<subseteq> set (split_slash path)"
    using set_skip_names set_mono_prefix [OF prefix_trim_segments] by blast
  then have seg: "\<forall>x \<in> set ?T. CHR ''/'' \<notin> set x \<and> set x \<subseteq> set path"
    using split_slash_no_slash [of _ path] set_split_slash [of _ path] by blast
  obtain x xs where x: "skip_names (length (path_components base) - 1) (split_slash path) = x # xs"
    using ne by (cases "skip_names (length (path_components base) - 1) (split_slash path)")
      (simp_all add: trim_segments_def)
  have "hd ?T = x"
    using prefix_trim_segments [of "x # xs"] ne unfolding x by (metis hd_append2 list.sel(1) prefix_def)
  then have "hd (split_slash r) \<noteq> []"
    using split_slash_join [OF ne] seg skip_names_head [OF x] by (simp add: r)
  then show "\<not> path_is_absolute r" using hd_split_slash by blast
  show "set r \<subseteq> set path \<union> {CHR ''/''}" using set_join [of "''/''" ?T] seg unfolding r by fastforce
qed

text \<open>Stripping the base leaves the rest of the components.\<close>

lemma filter_skip_names:
  "filter (\<lambda>s. s \<noteq> [] \<and> s \<noteq> ''.'') (skip_names n ss) = drop n (filter (\<lambda>s. s \<noteq> [] \<and> s \<noteq> ''.'') ss)"
  by (induction n ss rule: skip_names.induct) (auto split: nat.splits)

lemma filter_trim_segments:
  "filter (\<lambda>s. s \<noteq> [] \<and> s \<noteq> ''.'') (trim_segments xs) = filter (\<lambda>s. s \<noteq> [] \<and> s \<noteq> ''.'') xs"
proof -
  obtain Z where Z: "xs = trim_segments xs @ Z" "\<And>z. z \<in> set Z \<Longrightarrow> z = [] \<or> z = ''.''"
    using trim_segments_split [of xs] by metis
  have "filter (\<lambda>s. s \<noteq> [] \<and> s \<noteq> ''.'') Z = []" using Z(2) by (auto simp: filter_empty_conv)
  then have "filter (\<lambda>s. s \<noteq> [] \<and> s \<noteq> ''.'') (trim_segments xs @ Z)
      = filter (\<lambda>s. s \<noteq> [] \<and> s \<noteq> ''.'') (trim_segments xs)"
    by (simp only: filter_append append_Nil2)
  then show ?thesis unfolding Z(1) [symmetric] by (rule sym)
qed

lemma stripped_components:
  assumes "path_strip_prefix base path = Some r" "r \<noteq> []" "path_is_absolute base" "path_is_absolute path"
  shows "path_components path = path_components base @ path_components r"
proof -
  let ?P = "\<lambda>s. s \<noteq> [] \<and> s \<noteq> ''.''" and ?n = "length (path_components base) - 1"
  let ?S = "skip_names ?n (split_slash path)"
  have pre: "prefix (path_components base) (path_components path)" and r: "r = join ''/'' (trim_segments ?S)"
    using assms(1) by (auto simp: path_strip_prefix_def path_starts_with_def split: if_splits)
  have ne: "trim_segments ?S \<noteq> []" using r assms(2) by auto
  have seg: "\<forall>x \<in> set (trim_segments ?S). CHR ''/'' \<notin> set x"
    using set_mono_prefix [OF prefix_trim_segments] set_skip_names split_slash_no_slash by blast
  have split: "split_slash r = trim_segments ?S" unfolding r by (rule split_slash_join [OF ne seg])
  obtain x xs where x: "?S = x # xs" using ne by (cases ?S) (simp_all add: trim_segments_def)
  obtain ys where ys: "trim_segments ?S = x # ys"
    using prefix_trim_segments [of ?S] ne unfolding x by (metis append_is_Nil_conv list.exhaust list.inject prefix_def append_Cons)
  have "path_components r = map segment_component (filter ?P (trim_segments ?S))"
    using stripped_path(1) [OF assms(1,2)] skip_names_head [OF x] split ys
    by (simp add: path_components_def path_is_absolute_def)
  also have "\<dots> = drop (length (path_components base)) (path_components path)"
    using assms(3,4) unfolding filter_trim_segments filter_skip_names
    by (simp add: path_components_def [of path] path_components_def [of base] path_is_absolute_def drop_map)
  finally show ?thesis using pre by (auto simp: prefix_def)
qed

lemma token_same_name:
  assumes "normalize_unified_path_token name (Some base) lbl = Inr name'" and "path_is_absolute base"
  shows "\<not> absolute_name name' \<and> same_name base name name' \<and> set name' \<subseteq> set name \<union> {CHR ''/''}
    \<and> (name' = name \<or> name' \<noteq> [] \<and> \<not> starts_with ''/'' name')"
proof (cases "name = ''/dev/null'' \<or> \<not> path_is_absolute name")
  case True
  then show ?thesis
    using assms(1)
    by (auto simp: normalize_unified_path_token_def absolute_name_def same_name_def path_is_absolute_def)
next
  case False
  then have strip: "path_strip_prefix base name = Some name'" "name' \<noteq> []"
    using assms(1) by (auto simp: normalize_unified_path_token_def split: option.splits if_splits)
  then show ?thesis
    using stripped_path [OF strip] stripped_components [OF strip assms(2)] False
    by (auto simp: absolute_name_def same_name_def path_is_absolute_def)
qed

lemma strip_prefix_Some: "strip_prefix p s = Some r \<Longrightarrow> s = p @ r"
  by (auto simp: strip_prefix_def starts_with_iff split: if_splits)

lemma split_header_append: "split_unified_header_path rest = (path, trailer) \<Longrightarrow> rest = path @ trailer"
  by (auto simp: split_unified_header_path_def split: if_splits)

text \<open>Text that begins with a slash begins with the path that is split off, up to the first blank.\<close>

lemma split_header_slash:
  assumes "split_unified_header_path rest = (path, trailer)" and "starts_with ''/'' rest" and "path = ''/dev/null''"
  shows "takeWhile (\<lambda>c. \<not> rust_whitespace c) rest = ''/dev/null''"
proof -
  have word: "takeWhile (\<lambda>c. \<not> rust_whitespace c) ''/dev/null'' = ''/dev/null''" by code_simp
  show ?thesis
  proof (cases "CHR 0x09 \<in> set rest")
    case True
    then have tr: "rest = ''/dev/null'' @ trailer" "trailer = dropWhile (\<lambda>c. c \<noteq> CHR 0x09) rest"
      using assms split_header_append [OF assms(1)] by (auto simp: split_unified_header_path_def)
    have ne: "trailer \<noteq> []" using tr(1) True by auto
    then have "hd trailer = CHR 0x09" using tr(2) hd_dropWhile by (metis (mono_tags, lifting))
    then obtain cs where "trailer = CHR 0x09 # cs" using ne by (cases trailer) auto
    then have rest: "rest = ''/dev/null'' @ CHR 0x09 # cs" using tr(1) by (simp only:)
    show ?thesis unfolding rest by (simp add: rust_whitespace_def)
  next
    case False
    then show ?thesis
      using assms word by (auto simp: split_unified_header_path_def takeWhile_eq_all_conv list_ex_iff split: if_splits)
  qed
qed

lemma file_header_line:
  assumes "normalize_unified_file_header marker rest (Some base) lbl = Inr (line', changed)" and "path_is_absolute base"
    and "marker = ''--- '' \<or> marker = ''+++ ''"
  shows "header_relative line' \<and> header_rewritten base (marker @ rest) line'
    \<and> set line' \<subseteq> set marker \<union> set rest \<union> {CHR ''/''} \<and> (\<not> changed \<longrightarrow> line' = marker @ rest)"
proof -
  obtain path trailer where sp: "split_unified_header_path rest = (path, trailer)" by fastforce
  note rest = split_header_append [OF sp]
  obtain r where r: "normalize_unified_path_token path (Some base) lbl = Inr r" "line' = marker @ r @ trailer"
    "changed = (r \<noteq> path)"
    using assms(1) sp by (auto simp: normalize_unified_file_header_def split: sum.splits)
  note token = token_same_name [OF r(1) assms(2)]
  have "takeWhile (\<lambda>c. \<not> rust_whitespace c) (r @ trailer) = ''/dev/null''" if slash: "starts_with ''/'' (r @ trailer)"
  proof -
    have same: "r = path" using token slash by (cases r) (auto simp: starts_with_def)
    have "path \<noteq> []"
    proof
      assume "path = []"
      then obtain cs where "rest = CHR ''/'' # cs"
        using slash rest same by (cases rest) (auto simp: starts_with_def)
      then show False
        using sp \<open>path = []\<close> by (auto simp: split_unified_header_path_def rust_whitespace_def split: if_splits)
    qed
    then have "starts_with ''/'' path" using slash same by (cases path) (auto simp: starts_with_def)
    then have "path = ''/dev/null''" using token same by (simp add: absolute_name_def)
    then show ?thesis using split_header_slash [OF sp] slash same rest by simp
  qed
  then have "header_relative line'"
    using assms(3) r(2) by (auto simp: header_relative_def starts_with_def)
  moreover have "header_rewritten base (marker @ rest) line'"
    using assms(3) r(2) rest token unfolding header_rewritten_def by blast
  ultimately show ?thesis using r(2,3) rest token by auto
qed


lemma split_whitespace_set: "w \<in> set (split_whitespace_acc acc s) \<Longrightarrow> set w \<subseteq> set acc \<union> set s"
  by (induction acc s rule: split_whitespace_acc.induct) (auto split: if_splits)

lemma split_whitespace_words:
  "\<forall>c \<in> set acc. \<not> rust_whitespace c \<Longrightarrow> w \<in> set (split_whitespace_acc acc s) \<Longrightarrow>
     w \<noteq> [] \<and> (\<forall>c \<in> set w. \<not> rust_whitespace c)"
proof (induction acc s rule: split_whitespace_acc.induct)
  case (2 acc c cs)
  show ?case
  proof (cases "rust_whitespace c")
    case True
    show ?thesis
    proof (cases "acc = []")
      case nil: True
      then have "w \<in> set (split_whitespace_acc [] cs)" using "2.prems"(2) True by simp
      then show ?thesis using "2.IH"(1) [OF True nil] by simp
    next
      case acc: False
      then have "w = acc \<or> w \<in> set (split_whitespace_acc [] cs)" using "2.prems"(2) True by simp
      then show ?thesis using "2.IH"(2) [OF True acc] "2.prems"(1) acc by (elim disjE) simp_all
    qed
  next
    case False
    then show ?thesis using "2.IH"(3) "2.prems" by simp
  qed
qed (auto split: if_splits)

lemma split_whitespace_word:
  "\<forall>c \<in> set w. \<not> rust_whitespace c \<Longrightarrow>
     split_whitespace_acc acc (w @ s) = split_whitespace_acc (acc @ w) s"
  by (induction w arbitrary: acc) auto

lemma split_whitespace_two:
  assumes "a \<noteq> []" "b \<noteq> []" "\<forall>c \<in> set a. \<not> rust_whitespace c" "\<forall>c \<in> set b. \<not> rust_whitespace c"
  shows "split_whitespace (a @ '' '' @ b) = [a, b]"
proof -
  have blank: "rust_whitespace (CHR '' '')" by code_simp
  show ?thesis
    using assms split_whitespace_word [of a "[]" "'' '' @ b"] split_whitespace_word [of b "[]" "[]"] blank
    by (simp add: split_whitespace_def)
qed

lemma diff_header_relative:
  "header_relative (''diff --git '' @ rest) \<longleftrightarrow>
     (case split_whitespace rest of [old, new] \<Rightarrow> \<not> absolute_name old \<and> \<not> absolute_name new | _ \<Rightarrow> True)"
  by (simp add: header_relative_def starts_with_def)

lemma diff_header_line:
  assumes n: "normalize_diff_git_header rest (Some base) lbl = Inr (line', changed)" and abs: "path_is_absolute base"
  shows "header_relative line' \<and> header_rewritten base (''diff --git '' @ rest) line'
    \<and> set line' \<subseteq> set ''diff --git '' \<union> set rest \<union> {CHR ''/''} \<and> (\<not> changed \<longrightarrow> header_relative (''diff --git '' @ rest))"
proof -
  have kept: ?thesis if "line' = ''diff --git '' @ rest" "header_relative (''diff --git '' @ rest)"
    using that by (auto simp: header_rewritten_def)
  consider "split_whitespace rest = []" | old new where "split_whitespace rest = [old, new]"
    | "split_whitespace rest \<noteq> []" "\<And>old new. split_whitespace rest \<noteq> [old, new]"
    by (metis (no_types) list.exhaust)
  then show ?thesis
  proof cases
    case 1
    then have line: "line' = ''diff --git ''" using n by (simp add: normalize_diff_git_header_def)
    have "header_rewritten base (''diff --git '' @ rest) line'"
      unfolding header_rewritten_def line
      by (rule disjI2, rule disjI2, rule exI [of _ rest], rule exI [of _ "[]"]) (simp add: 1, simp add: split_whitespace_def)
    moreover have "header_relative (''diff --git '' @ rest)" unfolding diff_header_relative 1 by simp
    moreover have "header_relative line'"
      using diff_header_relative [of "[]"] line by (simp add: split_whitespace_def)
    ultimately show ?thesis using line by auto
  next
    case (2 old new)
    obtain old' where o: "normalize_unified_path_token old (Some base) lbl = Inr old'"
      using n 2 by (cases "normalize_unified_path_token old (Some base) lbl") (auto simp: normalize_diff_git_header_def)
    obtain new' where w: "normalize_unified_path_token new (Some base) lbl = Inr new'"
      using n 2 o by (cases "normalize_unified_path_token new (Some base) lbl") (auto simp: normalize_diff_git_header_def)
    have line: "line' = ''diff --git '' @ old' @ '' '' @ new'" "changed = (old' \<noteq> old \<or> new' \<noteq> new)"
      using n 2 o w by (simp_all add: normalize_diff_git_header_def)
    note ot = token_same_name [OF o abs] and wt = token_same_name [OF w abs]
    have words: "x \<noteq> [] \<and> (\<forall>c \<in> set x. \<not> rust_whitespace c) \<and> set x \<subseteq> set rest" if "x \<in> {old, new}" for x
      using split_whitespace_words [of "[]" x rest] split_whitespace_set [of x "[]" rest] that 2
      by (auto simp: split_whitespace_def)
    have slash: "\<not> rust_whitespace (CHR ''/'')" by code_simp
    have ne: "old' \<noteq> []" "new' \<noteq> []" using words ot wt by auto
    have clean: "\<forall>c \<in> set old'. \<not> rust_whitespace c" "\<forall>c \<in> set new'. \<not> rust_whitespace c"
      using words [of old] words [of new] ot wt slash by blast+
    have two: "split_whitespace (old' @ '' '' @ new') = [old', new']"
      by (rule split_whitespace_two [OF ne clean])
    have "header_relative line'" unfolding line diff_header_relative two using ot wt by simp
    moreover have "header_rewritten base (''diff --git '' @ rest) line'"
      unfolding header_rewritten_def using line(1) 2 two ot wt by (intro disjI2) (auto intro!: exI)
    moreover have "set line' \<subseteq> set ''diff --git '' \<union> set rest \<union> {CHR ''/''}"
      using line(1) words [of old] words [of new] ot wt by auto
    moreover have "header_relative (''diff --git '' @ rest)" if "\<not> changed"
      unfolding diff_header_relative 2 using that line(2) ot wt by simp
    ultimately show ?thesis by blast
  next
    case 3
    then have "line' = ''diff --git '' @ rest"
      using n by (auto simp: normalize_diff_git_header_def split: list.splits)
    moreover have "header_relative (''diff --git '' @ rest)"
      unfolding diff_header_relative using 3 by (auto split: list.split)
    ultimately show ?thesis by (rule kept)
  qed
qed

lemma unified_line:
  assumes n: "normalize_unified_line (Some base) lbl line = Inr (line', changed)" and abs: "path_is_absolute base"
    and nl: "CHR 0x0A \<notin> set line"
  shows "header_relative line' \<and> header_rewritten base line line' \<and> CHR 0x0A \<notin> set line'
    \<and> (changed \<or> header_relative line)"
proof -
  have marked: ?thesis
    if s: "strip_prefix marker line = Some rest" and m: "marker = ''--- '' \<or> marker = ''+++ ''"
      and h: "normalize_unified_file_header marker rest (Some base) lbl = Inr (line', changed)" for marker rest
    using file_header_line [OF h abs m] strip_prefix_Some [OF s] nl m by (cases changed) auto
  show ?thesis
  proof (cases "strip_prefix ''--- '' line")
    case (Some rest)
    then show ?thesis using marked n by (simp add: normalize_unified_line_def)
  next
    case minus: None
    show ?thesis
    proof (cases "strip_prefix ''+++ '' line")
      case (Some rest)
      then show ?thesis using marked n minus by (simp add: normalize_unified_line_def)
    next
      case plus: None
      show ?thesis
      proof (cases "strip_prefix ''diff --git '' line")
        case None
        then have "line' = line" using n minus plus by (simp add: normalize_unified_line_def)
        moreover have "header_relative line"
          using minus plus None by (simp add: header_relative_def strip_prefix_def split: if_splits)
        ultimately show ?thesis using nl by (simp add: header_rewritten_def)
      next
        case (Some rest)
        then have h: "normalize_diff_git_header rest (Some base) lbl = Inr (line', changed)"
          using n minus plus by (simp add: normalize_unified_line_def)
        show ?thesis
          using diff_header_line [OF h abs] strip_prefix_Some [OF Some] nl by auto
      qed
    qed
  qed
qed

lemma unified_lines:
  assumes "path_is_absolute base"
  shows "normalize_unified_lines (Some base) lbl lines = Inr (lines', changed) \<Longrightarrow> \<forall>l \<in> set lines. CHR 0x0A \<notin> set l \<Longrightarrow>
     (\<forall>l \<in> set lines'. header_relative l \<and> CHR 0x0A \<notin> set l) \<and> list_all2 (header_rewritten base) lines lines'
     \<and> (changed \<or> (\<forall>l \<in> set lines. header_relative l))"
proof (induction lines arbitrary: lines' changed)
  case (Cons line lines)
  show ?case
  proof (cases "normalize_unified_line (Some base) lbl line")
    case (Inr r1)
    obtain line' c where r1: "r1 = (line', c)" by fastforce
    obtain rest c' where r: "normalize_unified_lines (Some base) lbl lines = Inr (rest, c')"
      using Cons.prems(1) Inr r1 by (cases "normalize_unified_lines (Some base) lbl lines") auto
    have "lines' = line' # rest" "changed = (c \<or> c')" using Cons.prems(1) Inr r r1 by auto
    then show ?thesis
      using Cons.IH [OF r] Cons.prems(2) unified_line [OF _ assms, of lbl line line' c] Inr r1 by auto
  qed (use Cons.prems in simp)
qed simp

text \<open>
  C28. The text that \<open>git apply\<close> receives is the patch, line by line, in which the names of files are
  relative to the workspace. A line that starts with \<open>---\<close> or \<open>+++\<close> is followed by a slash only
  when the name up to the next blank is \<open>/dev/null\<close>, and of the two names of a \<open>diff --git\<close>
  line none is absolute other than that. Only such lines are rewritten, and a name that is
  replaced had the components of the workspace in front of those of the new name. (Names in
  quotes, and \<open>diff --git\<close> lines of other than two words, are left as they are.)
\<close>

theorem unified_headers_relative:
  assumes "normalize_unified_patch_paths patch (Some base) lbl = Inr out" and "path_is_absolute base"
  shows "list_all header_relative (split_newline out)
    \<and> list_all2 (header_rewritten base) (split_newline patch) (split_newline out)"
proof -
  obtain lines changed where n: "normalize_unified_lines (Some base) lbl (split_newline patch) = Inr (lines, changed)"
    and out: "out = (if changed then join newline lines else patch)"
    using assms(1) by (auto simp: normalize_unified_patch_paths_def split: sum.splits)
  have u: "(\<forall>l \<in> set lines. header_relative l \<and> CHR 0x0A \<notin> set l)
      \<and> list_all2 (header_rewritten base) (split_newline patch) lines
      \<and> (changed \<or> (\<forall>l \<in> set (split_newline patch). header_relative l))"
    using unified_lines [OF assms(2) n] split_newline_clean [of _ patch] by simp
  show ?thesis
  proof (cases changed)
    case True
    have "lines \<noteq> []" using u by auto
    then have "split_newline out = lines" using True out u split_newline_join by auto
    then show ?thesis using u by (simp add: list_all_iff)
  next
    case False
    then show ?thesis
      using u out by (auto simp: list_all_iff header_rewritten_def intro!: list_all2_refl)
  qed
qed

text \<open>The names below the workspace are made relative, in all three headers.\<close>

definition absolute_headers :: string where
  "absolute_headers =
     join newline [''diff --git /ws/a.txt /ws/a.txt'', ''--- /ws/a.txt'', ''+++ /ws/a.txt'', ''@@ -1 +1 @@'', ''-alpha'', ''+beta'', []]"

theorem unified_headers_relative_witness:
  "let out = join newline [''diff --git a.txt a.txt'', ''--- a.txt'', ''+++ a.txt'', ''@@ -1 +1 @@'', ''-alpha'', ''+beta'', []]
   in normalize_unified_patch_paths absolute_headers (Some ''/ws'') ''workspace'' = Inr out
     \<and> list_all header_relative (split_newline out)
     \<and> list_all2 (header_rewritten ''/ws'') (split_newline absolute_headers) (split_newline out)
     \<and> \<not> list_all header_relative (split_newline absolute_headers)"
proof -
  let ?out = "join newline [''diff --git a.txt a.txt'', ''--- a.txt'', ''+++ a.txt'', ''@@ -1 +1 @@'', ''-alpha'', ''+beta'', []]"
  have n: "normalize_unified_patch_paths absolute_headers (Some ''/ws'') ''workspace'' = Inr ?out"
    by code_simp
  have a: "path_is_absolute ''/ws''" by code_simp
  have "\<not> list_all header_relative (split_newline absolute_headers)" by code_simp
  then show ?thesis using n unified_headers_relative [OF n a] by (simp only: Let_def simp_thms)
qed

end
