(* ===== verification/Patch_Guarantees.thy ===== *)
theory Patch_Guarantees
  imports Patch_Confinement Patch_Round_Trip
begin

text \<open>
  What the file tools promise beyond staying inside the workspace: a check predicts the run, an
  update replaces exactly the chunks of its file, and a file that was written reads back.
\<close>

section \<open>Checking a patch\<close>

lemma apply_op_reports:
  "apply_codex_patch_op env w patch_op s = (Inr changed, s') \<Longrightarrow> changed = collect_codex_patch_paths patch_op"
  by (cases patch_op)
     (auto simp: apply_codex_patch_op_def collect_codex_patch_paths_def bnd_ok andthen_ok okM_def)

lemma apply_all_reports:
  "apply_all_ops env w ops s = (Inr changed, s') \<Longrightarrow> changed = concat (map collect_codex_patch_paths ops)"
proof (induction ops arbitrary: changed s)
  case Nil
  then show ?case by (simp add: okM_def)
next
  case (Cons patch_op ops)
  then show ?case using apply_op_reports by (fastforce simp: bnd_ok okM_def)
qed

definition verify_all :: "tool_env \<Rightarrow> string \<Rightarrow> codex_patch_op list \<Rightarrow> unit patch_act" where
  "verify_all env w ops = for_each (verify_codex_patch_op env w) ops"

lemma quiet_verify_all [frame]: "steps_in same_tree (verify_all env w ops)"
  unfolding verify_all_def by (intro frame)

lemma codex_result_check: "json_set ''check'' (JBool True) (codex_result False f n) = codex_result True f n"
  by (simp add: codex_result_def json_set_def)

lemma codex_dry_run:
  "case apply_codex_patch env patch (options\<lparr>po_check := True\<rparr>) w s of
     (Inl e, t) \<Rightarrow> same_tree s t \<and> apply_codex_patch env patch (options\<lparr>po_check := False\<rparr>) w s = (Inl e, t)
   | (Inr v, t) \<Rightarrow> same_tree s t
       \<and> (case apply_codex_patch env patch (options\<lparr>po_check := False\<rparr>) w s of
            (Inl _, _) \<Rightarrow> True
          | (Inr v', _) \<Rightarrow> v = json_set ''check'' (JBool True) v')"
proof (cases "po_strip options \<noteq> 0 \<or> po_reverse options")
  case True
  then show ?thesis by (auto simp: apply_codex_patch_def errM_def)
next
  case False
  show ?thesis
  proof (cases "parse_codex_patch patch")
    case (Inl e)
    then show ?thesis using False by (simp add: apply_codex_patch_def bnd_def)
  next
    case (Inr ops)
    obtain r t where v: "verify_all env w ops s = (r, t)" by fastforce
    then have same: "same_tree s t" using steps_inE [OF quiet_verify_all] by blast
    show ?thesis
    proof (cases r)
      case (Inl e)
      then show ?thesis using False Inr v same
        by (simp add: apply_codex_patch_def bnd_def andthen_def verify_all_def)
    next
      case (Inr u)
      obtain r2 t2 where a: "apply_all_ops env w ops t = (r2, t2)" by fastforce
      show ?thesis
      proof (cases r2)
        case (Inl e)
        then show ?thesis using False \<open>parse_codex_patch patch = Inr ops\<close> v same a \<open>r = Inr u\<close>
          by (simp add: apply_codex_patch_def bnd_def andthen_def verify_all_def okM_def)
      next
        case r2: (Inr changed)
        then have "changed = concat (map collect_codex_patch_paths ops)"
          using apply_all_reports a by blast
        then show ?thesis using False \<open>parse_codex_patch patch = Inr ops\<close> v same a \<open>r = Inr u\<close> r2
          by (simp add: apply_codex_patch_def bnd_def andthen_def verify_all_def okM_def codex_result_check)
      qed
    qed
  qed
qed

text \<open>What the manual of \<open>git apply\<close> says of \<open>--check\<close>: it does not apply the patch.\<close>

definition git_checks :: "tool_env \<Rightarrow> bool" where
  "git_checks env \<longleftrightarrow> (\<forall>args dir patch s. ''--check'' \<in> set args \<longrightarrow> same_tree s (snd (git_apply env args dir patch s)))"

lemma quiet_unified_check:
  assumes "git_checks env" and "po_check options"
  shows "same_tree s (snd (apply_unified_patch env patch options w s))"
proof -
  have "steps_in same_tree (git_apply env (git_arguments options) w body)" for body
  proof -
    have "''--check'' \<in> set (git_arguments options)" using assms(2) by (simp add: git_arguments_def)
    then have "same_tree s (snd (git_apply env (git_arguments options) w body s))" for s
      using assms(1) by (simp only: git_checks_def)
    then show ?thesis by (simp add: steps_in_def)
  qed
  then have "steps_in same_tree (apply_unified_patch env patch options w)"
    unfolding apply_unified_patch_def by (intro frame) simp
  then show ?thesis by (rule steps_inD)
qed

text \<open>
  C23. A check leaves the tree alone, whatever the format of the patch (\<open>git apply --check\<close> does, for
  a unified diff), and for a Codex patch it predicts the run from the same state: what the check
  refuses, the run refuses with the same error before it changes anything, and a run that
  succeeds reports what an accepted check has reported.
\<close>

theorem check_predicts_run:
  assumes "git_checks env"
  shows "same_tree s (snd (apply_patch_inner env patch (options\<lparr>po_check := True\<rparr>) s)) \<and>
    (resolve_format (po_format options) patch = Codex_format \<longrightarrow>
      (case apply_patch_inner env patch (options\<lparr>po_check := True\<rparr>) s of
         (Inl e, t) \<Rightarrow> apply_patch_inner env patch (options\<lparr>po_check := False\<rparr>) s = (Inl e, t)
       | (Inr v, t) \<Rightarrow>
           (case apply_patch_inner env patch (options\<lparr>po_check := False\<rparr>) s of
              (Inl _, _) \<Rightarrow> True
            | (Inr v', _) \<Rightarrow> v = json_set ''check'' (JBool True) v')))"
proof -
  obtain r t where c: "canonical_workspace env (po_workspace options) s = (r, t)" by fastforce
  then have same: "same_tree s t" using steps_inE [OF quiet_canonical] by blast
  show ?thesis
  proof (cases r)
    case (Inl e)
    then show ?thesis using c same by (simp add: apply_patch_inner_def bnd_def)
  next
    case (Inr w)
    show ?thesis
    proof (cases "resolve_format (po_format options) patch = Codex_format")
      case True
      obtain r1 t1 where run: "apply_codex_patch env patch (options\<lparr>po_check := True\<rparr>) w t = (r1, t1)" by fastforce
      note dry = codex_dry_run [where env = env and patch = patch and options = options and w = w and s = t]
      have "same_tree t t1" using dry run by (cases r1) simp_all
      then have "same_tree s t1" by (rule same_tree_trans [OF same])
      then show ?thesis
        using dry run c Inr True
        by (cases r1) (simp_all add: apply_patch_inner_def bnd_def split: prod.splits sum.splits)
    next
      case False
      then show ?thesis
        using quiet_unified_check [OF assms, of "options\<lparr>po_check := True\<rparr>" t patch w] c same Inr same_tree_trans [OF same]
        by (cases "resolve_format (po_format options) patch") (simp_all add: apply_patch_inner_def bnd_def)
    qed
  qed
qed

text \<open>A \<open>git\<close> that empties the tree unless it only checks.\<close>

definition git_env :: tool_env where
  "git_env = patch_env\<lparr>git_apply := (\<lambda>args dir patch s.
     (Inr \<lparr>out_code = Some 0, out_stdout = [], out_stderr = []\<rparr>,
      if ''--check'' \<in> set args then s else s\<lparr>nodes := []\<rparr>))\<rparr>"

definition unified_patch :: string where
  "unified_patch = join newline [''--- a.txt'', ''+++ a.txt'', ''@@ -2 +2 @@'', ''-beta'', ''+gamma'', []]"

theorem check_predicts_run_witness:
  "same_tree sample_tree (snd (apply_patch_inner git_env unified_patch (sample_options\<lparr>po_check := True\<rparr>) sample_tree)) \<and>
   \<not> same_tree sample_tree (snd (apply_patch_inner git_env unified_patch (sample_options\<lparr>po_check := False\<rparr>) sample_tree)) \<and>
   (case apply_patch_inner git_env update_patch (sample_options\<lparr>po_check := True\<rparr>) sample_tree of
     (Inl _, _) \<Rightarrow> False
   | (Inr v, t) \<Rightarrow> same_tree sample_tree t
       \<and> (case apply_patch_inner git_env update_patch (sample_options\<lparr>po_check := False\<rparr>) sample_tree of
            (Inl _, _) \<Rightarrow> True
          | (Inr v', _) \<Rightarrow> v = json_set ''check'' (JBool True) v'))"
proof -
  have g: "git_checks git_env" by (auto simp: git_checks_def git_env_def same_tree_refl)
  have f: "resolve_format (po_format sample_options) update_patch = Codex_format" by code_simp
  have c: "\<not> isl (fst (apply_patch_inner git_env update_patch (sample_options\<lparr>po_check := True\<rparr>) sample_tree))"
    by code_simp
  have n: "nodes (snd (apply_patch_inner git_env unified_patch (sample_options\<lparr>po_check := False\<rparr>) sample_tree)) = []"
    by code_simp
  have u: "\<not> same_tree sample_tree
      (snd (apply_patch_inner git_env unified_patch (sample_options\<lparr>po_check := False\<rparr>) sample_tree))"
    using n by (simp add: same_tree_def sample_tree_def)
  show ?thesis
    using check_predicts_run [OF g, where s = sample_tree and patch = update_patch and options = sample_options] f c u
      check_predicts_run [OF g, where s = sample_tree and patch = unified_patch and options = sample_options]
    by (auto split: prod.splits sum.splits)
qed

text \<open>
  What a check accepts need not apply: every update is checked against the tree before the run,
  and one that no longer matches is skipped without an error. Here the second update looks for the
  line that the first one has replaced; the run reports both files as changed, and only the first
  update is in the tree.
\<close>

theorem second_update_is_lost:
  "apply_patch patch_env update_twice_patch sample_options sample_tree =
     (codex_result False [''a.txt'', ''a.txt''] 2,
      sample_tree\<lparr>nodes := hash_insert [''ws'', ''a.txt'']
         (Regular (''alpha'' @ newline @ ''gamma'' @ newline)) (nodes sample_tree)\<rparr>)"
  by code_simp

section \<open>Updating a file\<close>

text \<open>
  The edits that a list of chunks describes: each chunk replaces the first occurrence of its old
  text in the text the chunks before it have left, and no other occurrence starts behind that one.
  (One that overlaps it may start inside, as with \<open>aa\<close> in \<open>aaa\<close>; \<open>str::matches\<close> does not count it.)
\<close>

inductive edits :: "codex_patch_chunk list \<Rightarrow> string \<Rightarrow> string \<Rightarrow> bool" where
  edits_Nil: "edits [] c c"
| edits_Cons:
    "\<lbrakk>chunk_old chunk \<noteq> [];
      \<forall>k < length before. \<not> starts_with (chunk_old chunk) (drop k (before @ chunk_old chunk @ behind));
      \<not> str_contains (chunk_old chunk) behind;
      edits chunks (before @ chunk_new chunk @ behind) c'\<rbrakk>
     \<Longrightarrow> edits (chunk # chunks) (before @ chunk_old chunk @ behind) c'"

lemma count_zero: "old \<noteq> [] \<Longrightarrow> count_matches old s = 0 \<Longrightarrow> \<not> str_contains old s"
proof (induction s)
  case (Cons c s)
  then show ?case by (auto simp: count_matches.simps [of old "c # s"] split: if_splits)
qed simp

lemma one_match:
  assumes "old \<noteq> []" "count_matches old s = Suc 0"
  shows "\<exists>before behind. s = before @ old @ behind
    \<and> (\<forall>k < length before. \<not> starts_with old (drop k s)) \<and> \<not> str_contains old behind
    \<and> replace_first old new s = before @ new @ behind"
  using assms(2)
proof (induction s)
  case Nil
  then show ?case by (simp add: count_matches.simps)
next
  case (Cons c s)
  show ?case
  proof (cases "starts_with old (c # s)")
    case True
    then obtain behind where b: "c # s = old @ behind" by (auto simp: starts_with_iff)
    then have "drop (length old) (c # s) = behind" by simp
    then have "count_matches old behind = 0"
      using Cons.prems True assms(1) unfolding count_matches.simps [of old "c # s"] by simp
    then have "\<not> str_contains old behind" by (rule count_zero [OF assms(1)])
    moreover have "replace_first old new (c # s) = new @ behind"
      using True \<open>drop (length old) (c # s) = behind\<close> by simp
    ultimately show ?thesis using b by (metis append_Nil less_nat_zero_code list.size(3))
  next
    case False
    then have "count_matches old s = Suc 0"
      using Cons.prems assms(1) by (simp add: count_matches.simps [of old "c # s"])
    then obtain before behind where ih: "s = before @ old @ behind"
      "\<forall>k < length before. \<not> starts_with old (drop k s)" "\<not> str_contains old behind"
      "replace_first old new s = before @ new @ behind"
      using Cons.IH by blast
    have "\<forall>k < length (c # before). \<not> starts_with old (drop k (c # s))"
      using ih(2) False by (auto simp: less_Suc_eq_0_disj)
    then show ?thesis
      using ih False by (intro exI [of _ "c # before"] exI [of _ behind]) auto
  qed
qed

lemma verified_chunks_edit:
  "verify_chunks_match path c chunks = Inr () \<Longrightarrow> edits chunks c (apply_chunks chunks c)"
proof (induction chunks arbitrary: c)
  case Nil
  then show ?case by (simp add: apply_chunks_def edits_Nil)
next
  case (Cons chunk chunks)
  then have ne: "chunk_old chunk \<noteq> []" and one: "count_matches (chunk_old chunk) c = Suc 0"
    and rest: "verify_chunks_match path (replace_first (chunk_old chunk) (chunk_new chunk) c) chunks = Inr ()"
    by (auto split: if_splits)
  obtain before behind where m: "c = before @ chunk_old chunk @ behind"
    "\<forall>k < length before. \<not> starts_with (chunk_old chunk) (drop k c)" "\<not> str_contains (chunk_old chunk) behind"
    "replace_first (chunk_old chunk) (chunk_new chunk) c = before @ chunk_new chunk @ behind"
    using one_match [OF ne one] by blast
  have "edits chunks (before @ chunk_new chunk @ behind) (apply_chunks (chunk # chunks) c)"
    using Cons.IH [OF rest] m(4) by (simp add: apply_chunks_def)
  then show ?case using edits_Cons [OF ne _ m(3)] m(1,2) by simp
qed

text \<open>A calm environment lets every call proceed.\<close>

lemma next_event_calm: "events s = [] \<Longrightarrow> next_event s = (Inr Proceed, s)"
  by (simp add: next_event_def gets_def okM_def)

lemma os_call_calm: "events s = [] \<Longrightarrow> os_call m s = m s"
  by (simp add: os_call_def bnd_def next_event_calm)

lemma read_calm:
  assumes "events s = []" "lookup s p = Inr l" "node_at (nodes s) l = Some (Regular b)"
  shows "read_to_string p s = (case utf8_decode b of None \<Rightarrow> (Inl Invalid_utf8, s) | Some c \<Rightarrow> (Inr c, s))"
proof -
  have "resolve s p = Inr l" using assms(2,3) by (simp add: resolve_iff)
  then have "read_bytes p s = (Inr b, s)"
    using assms(1,3) by (simp add: read_bytes_def os_call_calm gets_def okM_def)
  then show ?thesis by (simp add: read_to_string_def bnd_def okM_def errM_def split: option.split)
qed

lemma create_dir_calm:
  assumes "events s = []" "is_dir s q" "fs_wf s" "plain_path q"
  shows "create_dir_all q s = (Inr (), s)"
proof -
  have abs: "path_is_absolute q" and ne: "q \<noteq> []" using assms(4) absolute_ne by (simp_all add: plain_path_def)
  obtain d where d: "resolve s q = Inr d" using assms(2) by (auto simp: is_dir_iff)
  obtain r s1 where c: "create_dir q s = (r, s1)" by fastforce
  have s1: "s1 = s \<or> (\<exists>x. r = Inr x)"
    using c unfolding create_dir_def os_call_calm [OF assms(1)]
    by (auto simp: gets_def errM_def put_node_def upd_def split: sum.splits option.splits)
  from c assms(3) abs show ?thesis
  proof (cases rule: create_dir_cases)
    case (made q' d' es)
    then show ?thesis using entry_missing [OF assms(3) abs made(5,7)] d by (auto simp: path_exists_iff)
  next
    case (failed e)
    have "e \<noteq> Not_found"
    proof
      assume "e = Not_found"
      then have nf: "entry_of s q = Inl Not_found" using failed(3) by simp
      show False
      proof (cases "parent_dir q")
        case (Some p)
        then show False
          using not_found_parent [OF assms(4) Some nf] parent_exists [OF assms(4) Some d]
          by (auto simp: path_exists_iff is_dir_iff)
      next
        case None
        then have "only_dots (os_segments q)" by (rule parent_dir_None)
        then have "os_segments q = []"
          using assms(4) last_in_set [of "os_segments q"] unfolding plain_path_def only_dots_def by metis
        moreover have "CHR 0x00 \<notin> set q" using d abs by (simp add: resolve_iff_absolute)
        ultimately show False using nf ne by (simp add: entry_of_def checked_path_def)
      qed
    qed
    then show ?thesis
      using c failed(1) s1 assms(2) ne
      by (auto simp: create_dir_all.simps [of q] bnd_def attempt_def dir_or_fail_def gets_def okM_def
          split: io_error.splits)
  qed
qed

lemma write_calm:
  assumes "events s = []" "lookup s p = Inr l" "node_at (nodes s) l = Some (Regular b)"
  obtains s' where "write_file p data s = (Inr (), s')" "node_at (nodes s') l = Some (Regular data)"
    "\<And>k. k \<noteq> l \<Longrightarrow> node_at (nodes s') k = node_at (nodes s) k"
proof -
  have "l \<noteq> []" using assms(3) by auto
  then show ?thesis
    using assms that
    by (simp add: write_file_def open_write_def write_all_def os_call_calm bnd_def gets_def put_node_def
        andthen_def upd_def okM_def next_event_calm append_bytes_def)
qed

text \<open>The text of a location that is no link resolves to it.\<close>

lemma ancestors_are_dirs:
  "fs_wf s \<Longrightarrow> node_at (nodes s) (c @ ss) \<noteq> None \<Longrightarrow> ss \<noteq> [] \<Longrightarrow> node_at (nodes s) c = Some Directory"
proof (induction ss rule: rev_induct)
  case (snoc x xs)
  then have "node_at (nodes s) (c @ xs) = Some Directory"
    using fs_wf_parent [of s "c @ xs" x] by auto
  then show ?case using snoc by (cases "xs = []") simp_all
qed simp

lemma walk_straight:
  assumes "fs_wf s" "node_at (nodes s) (c @ ss) = Some n" "\<And>t. n \<noteq> Symlink t" "names_only ss"
  shows "walk (nodes s) k c ss = Inr (c @ ss)"
  using assms(2,4)
proof (induction ss arbitrary: c)
  case (Cons x xs)
  have dir: "node_at (nodes s) c = Some Directory"
    using ancestors_are_dirs [OF assms(1), of c "x # xs"] Cons.prems by simp
  have x: "x \<noteq> ''.''" "x \<noteq> ''..''" using Cons.prems(2) by (simp_all add: names_only_def)
  have rest: "walk (nodes s) k (c @ [x]) xs = Inr (c @ x # xs)"
    using Cons.IH [of "c @ [x]"] Cons.prems by (simp add: names_only_def)
  have "node_at (nodes s) (c @ [x]) = Some n \<and> xs = [] \<or> node_at (nodes s) (c @ [x]) = Some Directory"
    using ancestors_are_dirs [OF assms(1), of "c @ [x]" xs] Cons.prems by (cases xs) simp_all
  then show ?case using dir x rest assms(3) by (auto split: fs_node.split)
qed simp

lemma show_location_nul: "valid_location l \<Longrightarrow> CHR 0x00 \<notin> set (show_location l)"
  using set_join [of "''/''" l] by (fastforce simp: show_location_def valid_location_def valid_name_def)

lemma resolve_show:
  assumes "fs_wf s" "node_at (nodes s) l = Some n" "\<And>t. n \<noteq> Symlink t"
  shows "resolve s (show_location l) = Inr l"
proof -
  have v: "valid_location l" by (rule node_valid [OF assms(1,2)])
  have "walk (nodes s) max_links [] l = Inr l"
    using walk_straight [OF assms(1) _ assms(3) valid_names_only [OF v], of "[]"] assms(2) by simp
  then show ?thesis
    using os_segments_show [OF valid_names_only [OF v]] show_location_nul [OF v] assms(2)
    by (simp add: resolve_iff_absolute)
qed

lemma walk_no_link:
  "walk m k c ss = Inr l \<Longrightarrow> m = nodes s \<Longrightarrow> fs_wf s \<Longrightarrow> ss \<noteq> [] \<or> (\<forall>u. node_at m c \<noteq> Some (Symlink u)) \<Longrightarrow>
     node_at m l \<noteq> Some (Symlink t)"
proof (induction m k c ss rule: walk.induct)
  case (2 m k c x ss)
  have up: "node_at m c = Some Directory \<Longrightarrow> node_at m (butlast c) = Some Directory"
    using fs_wf_up "2.prems"(2,3) by blast
  from 2 up show ?case by (auto split: if_splits option.splits fs_node.splits)
qed auto

lemma resolve_no_link:
  assumes "fs_wf s" "resolve s p = Inr l"
  shows "node_at (nodes s) l \<noteq> Some (Symlink t)"
proof -
  have w: "walk (nodes s) max_links (start_of s p) (os_segments p) = Inr l" and ne: "p \<noteq> []"
    using assms(2) by (simp_all add: resolve_iff lookup_iff)
  have "os_segments p \<noteq> [] \<or> path_is_absolute p"
  proof -
    have "split_slash p \<noteq> []" by simp
    then have "hd (split_slash p) \<in> set (split_slash p)" by (rule hd_in_set)
    then show ?thesis using hd_split_slash [of p] ne by (auto simp: os_segments_def Let_def filter_empty_conv)
  qed
  then show ?thesis using walk_no_link [OF w refl assms(1)] by (auto simp: start_of_def)
qed

lemma workspace_is_dir:
  assumes "canonical_workspace env w s = (Inr (show_location ws), s)" "fs_wf s" "resolve s w = Inr ws"
  shows "node_at (nodes s) ws = Some Directory"
proof -
  obtain n where n: "node_at (nodes s) ws = Some n" using assms(3) by (auto simp: resolve_iff)
  have "resolve s (show_location ws) = Inr ws"
    using resolve_show [OF assms(2) n] resolve_no_link [OF assms(2,3)] n by blast
  moreover have "is_dir s (show_location ws)"
    using assms(1,3) by (auto simp: canonical_workspace_def bnd_look canonicalize_def gets_def errM_def
        split: if_splits)
  ultimately show ?thesis by (auto simp: is_dir_iff)
qed

lemma accepted_update:
  assumes v: "verify_codex_patch_op env (show_location ws) (Update_file path None chunks) s = (Inr (), t)"
    and wf: "fs_wf s" and ws: "valid_location ws" and calm: "events s = []"
  obtains l b c where "own_file ws s (path_join (show_location ws) path) l" "node_at (nodes s) l = Some (Regular b)"
    "utf8_decode b = Some c" "verify_chunks_match path c chunks = Inr ()"
    "workspace_existing_file env (show_location ws) path s = (Inr (path_join (show_location ws) path), s)"
    "reject_symlink env (path_join (show_location ws) path) s = (Inr (), s)" "t = s"
proof -
  let ?t = "path_join (show_location ws) path"
  obtain r1 s1 where e: "workspace_existing_file env (show_location ws) path s = (r1, s1)" by fastforce
  then have "s1 = s" using existing_file_run wf ws by blast
  have ok: "\<exists>x. r1 = Inr x" using v e by (cases r1) (auto simp: verify_codex_patch_op_def bnd_def)
  then have ex: "workspace_existing_file env (show_location ws) path s = (Inr ?t, s)"
    using e \<open>s1 = s\<close> existing_file_run [OF e wf ws] by auto
  then obtain l where own: "own_file ws s ?t l" using existing_file_run wf ws by blast
  then obtain b where l: "lookup s ?t = Inr l" "node_at (nodes s) l = Some (Regular b)"
    by (auto simp: own_file_def)
  obtain r2 s2 where rj: "reject_symlink env ?t s = (r2, s2)" by fastforce
  then have "s2 = s" using reject_symlink_run by blast
  have rj: "reject_symlink env ?t s = (Inr (), s)"
    using v ex rj \<open>s2 = s\<close> by (cases r2) (auto simp: verify_codex_patch_op_def bnd_def andthen_def)
  note rd = read_calm [OF calm l]
  show ?thesis
  proof (cases "utf8_decode b")
    case None
    then show ?thesis using v ex rj rd
      by (simp add: verify_codex_patch_op_def bnd_def andthen_def verify_move_target_def okM_def patch_io_def
          with_error_def)
  next
    case (Some c)
    then have "verify_chunks_match path c chunks = Inr () \<and> t = s"
      using v ex rj rd
      by (simp add: verify_codex_patch_op_def bnd_def andthen_def verify_move_target_def okM_def patch_io_def
          with_error_def)
    then show ?thesis using that own l(2) Some ex rj by blast
  qed
qed

lemma own_file_parent:
  assumes own: "own_file ws s t l" and wf: "fs_wf s" and t: "clean_target t"
    and dir: "node_at (nodes s) ws = Some Directory"
  obtains q d where "parent_dir t = Some q" "is_dir s q" "resolve s q = Inr d" "prefix ws d" "plain_path q"
proof -
  have abs: "path_is_absolute t" using t by (simp add: clean_target_def)
  have l: "entry_of s t = Inr l" "node_at (nodes s) l \<noteq> Some Directory" "prefix ws l"
    using own by (auto simp: own_file_def)
  obtain q d where q: "parent_dir t = Some q" "resolve s q = Inr d" "node_at (nodes s) d = Some Directory"
    "l = d @ [file_name t]"
    using entry_in_parent [OF wf abs l(1,2)] by metis
  have "ws \<noteq> l" using dir l(2) by auto
  then have "prefix ws d" using l(3) q(4) by simp
  then show ?thesis using that q clean_parent [OF t q(1)] by (auto simp: is_dir_iff)
qed

lemma ensure_parent_ok:
  assumes "parent_dir t = Some q" "resolve s q = Inr d" "prefix ws d" "valid_location ws" "fs_wf s"
  shows "ensure_parent_stays_inside_workspace env (show_location ws) t s = (Inr (), s)"
proof -
  have "nearest_existing s q = Some q"
    using assms(2) by (simp add: nearest_existing.simps [of s q] path_exists_iff)
  moreover have "path_starts_with (show_location ws) (show_location d)"
    using path_starts_with_show [OF assms(4) resolve_valid [OF assms(5,2)]] assms(3) by simp
  ultimately show ?thesis using assms(1,2)
    by (simp add: ensure_parent_stays_inside_workspace_def gets_def bnd_look canonicalize_def
        ensure_inside_workspace_def)
qed

lemma apply_update_calm:
  assumes v: "verify_codex_patch_op env (show_location ws) (Update_file path None chunks) s = (Inr (), t)"
    and wf: "fs_wf s" and ws: "valid_location ws" and calm: "events s = []"
    and rel: "relative_path path" and dir: "node_at (nodes s) ws = Some Directory"
  shows "\<exists>l b c c' s'. own_file ws s (path_join (show_location ws) path) l
    \<and> node_at (nodes s) l = Some (Regular b) \<and> utf8_decode b = Some c \<and> edits chunks c c'
    \<and> apply_codex_patch_op env (show_location ws) (Update_file path None chunks) s
        = (Inr [display_patch_path path], s')
    \<and> node_at (nodes s') l = Some (Regular (utf8_encode c'))
    \<and> (\<forall>k. k \<noteq> l \<longrightarrow> node_at (nodes s') k = node_at (nodes s) k)"
proof -
  let ?t = "path_join (show_location ws) path"
  obtain l b c where a: "own_file ws s ?t l" "node_at (nodes s) l = Some (Regular b)" "utf8_decode b = Some c"
    "verify_chunks_match path c chunks = Inr ()"
    "workspace_existing_file env (show_location ws) path s = (Inr ?t, s)" "reject_symlink env ?t s = (Inr (), s)" "t = s"
    by (rule accepted_update [OF v wf ws calm])
  have look: "lookup s ?t = Inr l" using a(1) by (simp add: own_file_def)
  obtain q d where q: "parent_dir ?t = Some q" "is_dir s q" "resolve s q = Inr d" "prefix ws d" "plain_path q"
    using own_file_parent [OF a(1) wf clean_join [OF ws rel] dir] by metis
  note ens = ensure_parent_ok [OF q(1,3,4) ws wf]
  obtain s' where w: "write_file ?t (utf8_encode (apply_chunks chunks c)) s = (Inr (), s')"
    "node_at (nodes s') l = Some (Regular (utf8_encode (apply_chunks chunks c)))"
    "\<And>k. k \<noteq> l \<Longrightarrow> node_at (nodes s') k = node_at (nodes s) k"
    using write_calm [OF calm look a(2)] by metis
  have rd: "patch_io env x (read_to_string ?t) s = (Inr c, s)" for x
    using read_calm [OF calm look a(2)] a(3) by (simp add: patch_io_def)
  have tgt: "workspace_path_for_write env (show_location ws) path s = (Inr ?t, s)"
    using ens [of env] by (simp add: workspace_path_for_write_def Let_def andthen_def bnd_def okM_def)
  have wp: "write_patched env (show_location ws) ?t (apply_chunks chunks c) s = (Inr (), s')"
    using ens [of env] q(1) create_dir_calm [OF calm q(2) wf q(5)] w(1)
    by (simp add: write_patched_def ensure_parent_dir_def andthen_def bnd_def patch_io_def with_error_def)
  have "apply_codex_patch_op env (show_location ws) (Update_file path None chunks) s
      = (Inr [display_patch_path path], s')"
    using a(5,6) rd tgt wp
    by (simp add: apply_codex_patch_op_def bnd_def andthen_def gets_def when_act_def okM_def)
  then show ?thesis using a w verified_chunks_edit [OF a(4)] by blast
qed

text \<open>
  C22. A patch of one update without a move that a check accepts succeeds when the calls of the
  operating system do: the file it names is a regular file inside the workspace, each chunk in
  turn replaces the first occurrence of its old text, behind which there is no other, and no
  other node of the tree changes.
\<close>

theorem update_rewrites_file:
  assumes "fs_wf s" and "resolve s (po_workspace options) = Inr ws" and "events s = []"
    and "resolve_format (po_format options) patch = Codex_format"
    and "parse_codex_patch patch = Inr [Update_file path None chunks]"
    and "fst (apply_patch_inner env patch (options\<lparr>po_check := True\<rparr>) s) = Inr v"
  shows "\<exists>l b c c' s'.
      lookup s (path_join (show_location ws) path) = Inr l \<and> prefix ws l
    \<and> node_at (nodes s) l = Some (Regular b) \<and> utf8_decode b = Some c \<and> edits chunks c c'
    \<and> apply_patch_inner env patch (options\<lparr>po_check := False\<rparr>) s
        = (Inr (codex_result False [display_patch_path path] 1), s')
    \<and> node_at (nodes s') l = Some (Regular (utf8_encode c'))
    \<and> (\<forall>k. k \<noteq> l \<longrightarrow> node_at (nodes s') k = node_at (nodes s) k)"
proof -
  have valid: "valid_location ws" by (rule resolve_valid [OF assms(1,2)])
  obtain r t where c: "canonical_workspace env (po_workspace options) s = (r, t)" by fastforce
  obtain w where "r = Inr w" using assms(6) c by (cases r) (auto simp: apply_patch_inner_def bnd_def)
  then have c: "canonical_workspace env (po_workspace options) s = (Inr (show_location ws), s)"
    using c canonical_workspace_run [OF c assms(2)] by auto
  have dir: "node_at (nodes s) ws = Some Directory" by (rule workspace_is_dir [OF c assms(1,2)])
  have plain: "po_strip options = 0" "\<not> po_reverse options"
    using assms(4,6) c by (auto simp: apply_patch_inner_def bnd_def apply_codex_patch_def errM_def split: if_splits)
  obtain r2 t2 where v: "verify_codex_patch_op env (show_location ws) (Update_file path None chunks) s = (r2, t2)"
    by fastforce
  have "r2 = Inr ()"
    using assms(4,5,6) c plain v
    by (cases r2) (auto simp: apply_patch_inner_def bnd_def apply_codex_patch_def andthen_def)
  then have v: "verify_codex_patch_op env (show_location ws) (Update_file path None chunks) s = (Inr (), t2)"
    using v by simp
  have "relative_path path" using parsed_paths [OF assms(5)] by (simp add: op_paths_def)
  then obtain l b c' x s' where a: "own_file ws s (path_join (show_location ws) path) l"
    "node_at (nodes s) l = Some (Regular b)" "utf8_decode b = Some x" "edits chunks x c'"
    "apply_codex_patch_op env (show_location ws) (Update_file path None chunks) s
      = (Inr [display_patch_path path], s')"
    "node_at (nodes s') l = Some (Regular (utf8_encode c'))"
    "\<forall>k. k \<noteq> l \<longrightarrow> node_at (nodes s') k = node_at (nodes s) k"
    using apply_update_calm [OF v assms(1) valid assms(3) _ dir] by metis
  have "t2 = s" using accepted_update [OF v assms(1) valid assms(3)] by blast
  then have "apply_patch_inner env patch (options\<lparr>po_check := False\<rparr>) s
      = (Inr (codex_result False [display_patch_path path] 1), s')"
    using assms(4,5) c plain v a(5)
    by (simp add: apply_patch_inner_def bnd_def apply_codex_patch_def andthen_def okM_def)
  then show ?thesis using a by (auto simp: own_file_def)
qed

theorem update_rewrites_file_witness:
  "\<exists>l b c c' s'.
      lookup sample_tree (path_join (show_location [''ws'']) ''a.txt'') = Inr l \<and> prefix [''ws''] l
    \<and> node_at (nodes sample_tree) l = Some (Regular b) \<and> utf8_decode b = Some c \<and> edits [sample_chunk] c c'
    \<and> apply_patch_inner patch_env update_patch (sample_options\<lparr>po_check := False\<rparr>) sample_tree
        = (Inr (codex_result False [display_patch_path ''a.txt''] 1), s')
    \<and> node_at (nodes s') l = Some (Regular (utf8_encode c'))
    \<and> (\<forall>k. k \<noteq> l \<longrightarrow> node_at (nodes s') k = node_at (nodes sample_tree) k)"
proof (rule update_rewrites_file [OF sample_wf])
  show "resolve sample_tree (po_workspace sample_options) = Inr [''ws'']" by code_simp
  show "events sample_tree = []" by code_simp
  show "resolve_format (po_format sample_options) update_patch = Codex_format" by code_simp
  show "parse_codex_patch update_patch = Inr [Update_file ''a.txt'' None [sample_chunk]]" by code_simp
  show "fst (apply_patch_inner patch_env update_patch (sample_options\<lparr>po_check := True\<rparr>) sample_tree)
      = Inr (codex_result True [''a.txt''] 1)"
    by code_simp
qed

section \<open>Reading a file\<close>

text \<open>
  What a request asks for: the number of the last line, the lines with a number in the range, and
  the answer that shows them.
\<close>

definition last_requested :: "file_read_options \<Rightarrow> nat" where
  "last_requested options =
     (case fr_end_line options of
        Some end_line \<Rightarrow> end_line
      | None \<Rightarrow> max (fr_start_line options) 1 - 1 + (case fr_limit options of Some limit \<Rightarrow> limit | None \<Rightarrow> 200))"

definition lines_between :: "nat \<Rightarrow> nat \<Rightarrow> string list \<Rightarrow> string list" where
  "lines_between first final lines =
     map (\<lambda>(n, line). show_nat n @ '': '' @ line) (filter (\<lambda>(n, _). first \<le> n \<and> n \<le> final) (enumerate 1 lines))"

definition read_view :: "string \<Rightarrow> nat \<Rightarrow> nat \<Rightarrow> string list \<Rightarrow> json" where
  "read_view path first final lines =
     (let shown = lines_between first final lines; shown_to = first - 1 + length shown
      in JObject [(''file_path'', JString path), (''start_line'', JInt (int first)),
           (''end_line'', JInt (int shown_to)), (''total_lines'', JInt (int (length lines))),
           (''truncated'', JBool (shown_to < length lines)), (''content'', JString (join newline shown))])"

lemma filter_upt_between: "filter (\<lambda>i. lo \<le> i \<and> i < hi) [0..<n] = [lo..<min hi n]"
  by (induction n) (auto simp: min_def le_Suc_eq)

lemma lines_between_window:
  assumes "1 \<le> first"
  shows "lines_between first (first - 1 + limit) lines =
     map (\<lambda>i. show_nat (Suc i) @ '': '' @ lines ! i) [first - 1..<min (first - 1 + limit) (length lines)]"
proof -
  have e: "enumerate 1 lines = map (\<lambda>i. (Suc i, lines ! i)) [0..<length lines]"
    by (rule nth_equalityI) (simp_all add: nth_enumerate_eq)
  have p: "(\<lambda>i. first \<le> Suc i \<and> Suc i \<le> first - 1 + limit) = (\<lambda>i. first - 1 \<le> i \<and> i < first - 1 + limit)"
    using assms by (auto simp: fun_eq_iff)
  show ?thesis
    unfolding lines_between_def e filter_map comp_def prod.case p filter_upt_between map_map by simp
qed

lemma numbered_lines_window:
  "numbered_lines start_line limit text =
     map (\<lambda>i. show_nat (Suc i) @ '': '' @ str_lines text ! i)
       [start_line - 1..<min (start_line - 1 + limit) (length (str_lines text))]"
  by (rule nth_equalityI) (auto simp: numbered_lines_def nth_enumerate_eq)

lemma file_read_view:
  assumes "1 \<le> start_line"
  shows "file_read_result path start_line limit text =
     read_view path start_line (start_line - 1 + limit) (str_lines text)"
proof -
  have shown: "numbered_lines start_line limit text
      = lines_between start_line (start_line - 1 + limit) (str_lines text)"
    unfolding lines_between_window [OF assms] numbered_lines_window ..
  have "(if numbered_lines start_line limit text = [] then start_line - 1
      else start_line + length (numbered_lines start_line limit text) - 1)
      = start_line - 1 + length (numbered_lines start_line limit text)"
    using assms by auto
  then show ?thesis unfolding file_read_result_def read_view_def Let_def shown by simp
qed

text \<open>The range of a request: an end before the start is refused.\<close>

definition range_ok :: "file_read_options \<Rightarrow> bool" where
  "range_ok options \<longleftrightarrow>
     (case fr_end_line options of Some end_line \<Rightarrow> max (fr_start_line options) 1 \<le> end_line | None \<Rightarrow> True)"

lemma read_limit_requested:
  "read_limit (max (fr_start_line options) 1) (fr_end_line options) (fr_limit options) = Inr limit \<longleftrightarrow>
     range_ok options \<and> max (fr_start_line options) 1 - 1 + limit = last_requested options"
  by (auto simp: read_limit_def range_ok_def last_requested_def split: option.splits)

lemma existing_workspace_file_run:
  assumes run: "resolve_existing_workspace_file env w raw s = (Inr (w', path, c), s')"
    and wf: "fs_wf s" and ws: "resolve s w = Inr ws"
  obtains l where "s' = s" "resolve_workspace_path (show_location ws) raw = Inr path" "resolve s path = Inr l"
    "c = show_location l" "prefix ws l" "\<not> is_dir s (show_location l)"
proof -
  have valid: "valid_location ws" by (rule resolve_valid [OF wf ws])
  obtain r t where c: "canonical_workspace env w s = (r, t)" by fastforce
  then have t: "t = s" "\<forall>x. r = Inr x \<longrightarrow> x = show_location ws" using canonical_workspace_run [OF c ws] by auto
  then have r: "r = Inr (show_location ws)"
    using run c by (cases r) (auto simp: resolve_existing_workspace_file_def bnd_def)
  obtain p where p: "resolve_workspace_path (show_location ws) raw = Inr p"
    using run c t(1) r by (cases "resolve_workspace_path (show_location ws) raw")
      (auto simp: resolve_existing_workspace_file_def bnd_def)
  obtain l where l: "resolve s p = Inr l"
    using run c t(1) r p by (cases "resolve s p")
      (auto simp: resolve_existing_workspace_file_def bnd_def canonicalize_def)
  have e: "ensure_inside_workspace (show_location ws) (show_location l) = Inr ()"
    using run c t(1) r p l by (cases "ensure_inside_workspace (show_location ws) (show_location l)")
      (auto simp: resolve_existing_workspace_file_def bnd_def canonicalize_def andthen_def)
  then have "prefix ws l" using path_starts_with_show [OF valid resolve_valid [OF wf l]]
    by (simp add: ensure_inside_workspace_def split: if_splits)
  moreover have "s' = s" "path = p" "c = show_location l" "\<not> is_dir s (show_location l)"
    using run \<open>canonical_workspace env w s = _\<close> t(1) r p l e
    by (auto simp: resolve_existing_workspace_file_def bnd_def canonicalize_def andthen_def gets_def okM_def
        errM_def split: if_splits)
  ultimately show ?thesis using that p l by blast
qed

lemma read_found:
  assumes "patch_io env what (read_to_string p) s = (Inr text, s')"
  shows "\<exists>l b. resolve s p = Inr l \<and> node_at (nodes s) l = Some (Regular b) \<and> utf8_decode b = Some text"
proof -
  obtain b t where b: "read_bytes p s = (Inr b, t)" "utf8_decode b = Some text"
    using assms by (auto simp: patch_io_def read_to_string_def bnd_ok okM_def errM_def split: option.splits)
  from b(1) show ?thesis
    unfolding read_bytes_def
  proof (cases rule: os_call_cases)
    case (ran es)
    have "resolve (s\<lparr>events := es\<rparr>) p = resolve s p" by (rule resolve_cong(1)) simp_all
    then show ?thesis using ran b(2)
      by (auto simp: gets_def errM_def okM_def split: sum.splits option.splits fs_node.splits)
  qed simp
qed

text \<open>
  C27. What a successful read shows is the requested part of a regular file inside the workspace: the
  lines of its text from \<open>start_line\<close> to \<open>end_line\<close>, or \<open>limit\<close> lines (200 by default) when there is no
  \<open>end_line\<close>, with their numbers, whether lines follow, and how many lines there are. A range
  that ends before it starts is refused. Reading changes nothing.
\<close>

theorem file_read_shows_window:
  assumes "fs_wf s" and "resolve s (fr_workspace options) = Inr ws"
    and "file_read_inner env options s = (Inr v, s')"
  shows "same_tree s s' \<and> range_ok options \<and> (\<exists>path l b text.
      resolve_workspace_path (show_location ws) (fr_file_path options) = Inr path
    \<and> resolve s path = Inr l \<and> prefix ws l \<and> node_at (nodes s) l = Some (Regular b)
    \<and> utf8_decode b = Some text
    \<and> v = read_view path (max (fr_start_line options) 1) (last_requested options) (str_lines text))"
proof -
  obtain w path c s1 where f: "resolve_existing_workspace_file env (fr_workspace options) (fr_file_path options) s
      = (Inr (w, path, c), s1)"
    using assms(3) by (auto simp: file_read_inner_def bnd_ok)
  obtain l where l: "s1 = s" "resolve_workspace_path (show_location ws) (fr_file_path options) = Inr path"
    "resolve s path = Inr l" "c = show_location l" "prefix ws l" "\<not> is_dir s (show_location l)"
    using existing_workspace_file_run [OF f assms(1,2)] by blast
  obtain body t limit where r: "patch_io env (''failed to read '' @ path) (read_to_string c) s = (Inr body, t)"
    "read_limit (max (fr_start_line options) 1) (fr_end_line options) (fr_limit options) = Inr limit"
    "v = file_read_result path (max (fr_start_line options) 1) limit body" "s' = t"
    using assms(3) f l(1) by (auto simp: file_read_inner_def bnd_ok Let_def okM_def)
  obtain n where n: "node_at (nodes s) l = Some n" using l(3) by (auto simp: resolve_iff)
  have "resolve s c = Inr l"
    using resolve_show [OF assms(1) n] resolve_no_link [OF assms(1) l(3)] n l(4) by blast
  then have "\<exists>b. node_at (nodes s) l = Some (Regular b) \<and> utf8_decode b = Some body"
    using read_found [OF r(1)] by auto
  moreover have "v = read_view path (max (fr_start_line options) 1) (last_requested options) (str_lines body)"
    using r(2,3) file_read_view [of "max (fr_start_line options) 1" path limit body] unfolding read_limit_requested by simp
  ultimately show ?thesis
    using l r(2,4) read_same_tree [OF r(1)] unfolding read_limit_requested by auto
qed

theorem file_read_shows_window_witness:
  "\<exists>v s'. file_read_inner patch_env (sample_read\<lparr>fr_end_line := Some 2\<rparr>) sample_tree = (Inr v, s') \<and>
     v = read_view ''/ws/a.txt'' 2 2 [''alpha'', ''beta''] \<and> lines_between 2 2 [''alpha'', ''beta''] = [''2: beta'']"
proof -
  let ?options = "sample_read\<lparr>fr_end_line := Some 2\<rparr>"
  have w: "resolve sample_tree (fr_workspace ?options) = Inr [''ws'']" by code_simp
  have ok: "\<not> isl (fst (file_read_inner patch_env ?options sample_tree))" by code_simp
  obtain v s' where r: "file_read_inner patch_env ?options sample_tree = (Inr v, s')"
    using ok by (cases "file_read_inner patch_env ?options sample_tree"; cases "fst (file_read_inner patch_env ?options sample_tree)") auto
  have p: "resolve_workspace_path (show_location [''ws'']) (fr_file_path ?options) = Inr ''/ws/a.txt''" by code_simp
  have l: "resolve sample_tree ''/ws/a.txt'' = Inr [''ws'', ''a.txt'']" by code_simp
  have b: "node_at (nodes sample_tree) [''ws'', ''a.txt''] = Some (Regular (''alpha'' @ newline @ ''beta'' @ newline))" by code_simp
  have d: "utf8_decode (''alpha'' @ newline @ ''beta'' @ newline) = Some (''alpha'' @ newline @ ''beta'' @ newline)" by code_simp
  have t: "str_lines (''alpha'' @ newline @ ''beta'' @ newline) = [''alpha'', ''beta'']" by code_simp
  have m: "max (fr_start_line ?options) 1 = 2" "last_requested ?options = 2" by code_simp+
  have "v = read_view ''/ws/a.txt'' 2 2 [''alpha'', ''beta'']"
    using file_read_shows_window [OF sample_wf w r] unfolding p m by (auto simp only: l b d t sum.inject fs_node.inject option.inject)
  moreover have "lines_between 2 2 [''alpha'', ''beta''] = [''2: beta'']" by code_simp
  ultimately show ?thesis using r by blast
qed

section \<open>Writing a file and reading it back\<close>

lemma walk_put:
  "walk m k c ss = Inr l \<Longrightarrow> node_at m l = None \<or> (\<exists>b. node_at m l = Some (Regular b)) \<Longrightarrow>
     walk (hash_insert l (Regular b) m) k c ss = Inr l"
proof (induction m k c ss rule: walk.induct)
  case (2 m k c x ss)
  have ne: "l \<noteq> []" using "2.prems"(2) by auto
  have "c \<noteq> l" if "node_at m c = Some Directory" using that "2.prems"(2) by auto
  then show ?case
    using 2 ne by (auto split: if_splits option.splits fs_node.splits)
qed simp

lemma lookup_put:
  assumes "lookup s p = Inr l" "node_at (nodes s) l = None \<or> (\<exists>b. node_at (nodes s) l = Some (Regular b))"
    and "nodes s' = hash_insert l (Regular b) (nodes s)" "cwd s' = cwd s"
  shows "lookup s' p = Inr l"
proof -
  have "start_of s' p = start_of s p" using assms(4) by (simp add: start_of_def)
  then show ?thesis
    using assms walk_put [of "nodes s" max_links "start_of s p" "os_segments p" l b] by (simp add: lookup_iff)
qed

text \<open>What a successful \<open>file_write\<close> leaves behind.\<close>

lemma written_file:
  assumes run: "write_with_mode env ''overwrite'' path content s1 = (Inr x, s')"
    and wf: "fs_wf s1" and t: "clean_target path" and q: "parent_dir path = Some q" and d: "inside_dir ws q s1 d"
    and nl: "no_link_named ws (file_name path) s1"
  shows "\<exists>l. lookup s' path = Inr l \<and> prefix ws l \<and> node_at (nodes s') l = Some (Regular (utf8_encode content))"
  using run
proof (cases rule: write_with_mode_run)
  case wrong_mode
  then show ?thesis by (simp add: kept_bytes_def)
next
  case (opened kept r0)
  then have kept: "kept = (\<lambda>_. [])" by (simp add: kept_bytes_def)
  obtain r1 s2 where o: "open_write kept path s1 = (r1, s2)" by fastforce
  then show ?thesis
  proof (cases rule: open_write_cases)
    case (failed e)
    then show ?thesis using opened o by (auto simp: bnd_def)
  next
    case o2: (opened l b es)
    have b: "b = []" using o2(3) kept by auto
    have dd: "resolve s1 q = Inr d" "prefix ws d" using d by (simp_all add: inside_dir_def)
    have "\<And>d' u. resolve s1 q = Inr d' \<Longrightarrow> node_at (nodes s1) (d' @ [file_name path]) \<noteq> Some (Symlink u)"
      using nl dd by (simp add: no_link_named_def)
    moreover have "node_at (nodes s1) l \<noteq> Some Directory" using o2(3) by auto
    ultimately have l: "l = d @ [file_name path]"
      using lookup_in_parent [OF wf _ q o2(2)] t dd(1) unfolding clean_target_def by (metis Inr_inject)
    have look: "lookup s2 path = Inr l"
      by (rule lookup_put [OF o2(2), of _ "[]"]) (use o2(3,4) b in auto)
    have n2: "node_at (nodes s2) l = Some (Regular [])" using o2(4) b l by simp
    have "write_all l (utf8_encode content) s2 = (Inr x, s')"
      using opened(2,3) o o2(1) by (simp add: bnd_def)
    then show ?thesis
      using n2
    proof (cases rule: write_all_cases)
      case (written es')
      then have "lookup s' path = Inr l"
        using lookup_put [OF look, of s' "utf8_encode content"] n2 by simp
      then show ?thesis using written l dd(2) by simp
    qed simp_all
  qed
qed

lemma resolve_grows:
  "resolve s p = Inr l \<Longrightarrow> tree_grows (nodes s) (nodes s') \<Longrightarrow> cwd s' = cwd s \<Longrightarrow> resolve s' p = Inr l"
proof -
  assume r: "resolve s p = Inr l" and g: "tree_grows (nodes s) (nodes s')" and "cwd s' = cwd s"
  then have "start_of s' p = start_of s p" by (simp add: start_of_def)
  moreover have "node_at (nodes s') l \<noteq> None"
    using r g by (force simp: resolve_iff tree_grows_def)
  ultimately show ?thesis
    using r walk_tree_grows [OF _ _ g] by (auto simp: resolve_iff lookup_iff)
qed

text \<open>
  C25. A file that was overwritten reads back: when no symbolic link of the workspace bears the name of
  the file and no call of the operating system fails, a read of the same path after a successful
  overwrite shows the requested lines of the content that was written.
\<close>

theorem written_file_reads_back:
  assumes wf: "fs_wf s" and ws: "resolve s (fw_workspace options) = Inr ws"
    and nl: "\<forall>n \<in> set (requested_names ws (fw_file_path options)). no_link_named ws n s"
    and mode: "fw_mode options = ''overwrite''"
    and run: "file_write_inner env options s = (Inr v, s')" and calm: "events s' = []"
    and ropts: "fr_workspace ropts = fw_workspace options" "fr_file_path ropts = fw_file_path options"
      "range_ok ropts"
  shows "\<exists>path. resolve_workspace_path (show_location ws) (fw_file_path options) = Inr path
    \<and> file_read_inner env ropts s' =
        (Inr (read_view path (max (fr_start_line ropts) 1) (last_requested ropts)
                (str_lines (fw_content options))), s')"
proof -
  have valid: "valid_location ws" by (rule resolve_valid [OF wf ws])
  obtain w t where c: "canonical_workspace env (fw_workspace options) s = (Inr w, t)"
    using run by (auto simp: file_write_inner_def bnd_ok)
  have "t = s" "w = show_location ws" using canonical_workspace_run [OF c ws] by auto
  then have c: "canonical_workspace env (fw_workspace options) s = (Inr (show_location ws), s)" using c by simp
  obtain path where p: "resolve_workspace_path (show_location ws) (fw_file_path options) = Inr path"
    and run2: "andthen (ensure_parent_stays_inside_workspace env (show_location ws) path)
           (andthen (check_write_target env (show_location ws) path)
             (andthen
               (case parent_dir path of
                  None \<Rightarrow> okM ()
                | Some parent \<Rightarrow> patch_io env (''failed to create '' @ parent) (create_dir_all parent))
               (andthen (write_with_mode env (fw_mode options) path (fw_content options))
                 (okM (JObject [(''file_path'', JString path), (''mode'', JString (fw_mode options)),
                    (''bytes_written'', JInt (int (utf8_len (fw_content options))))]))))) s = (Inr v, s')"
    using run c by (auto simp: file_write_inner_def bnd_ok)
  have clean: "clean_target path" by (rule resolved_path_clean [OF p valid])
  have no_link: "no_link_named ws (file_name path) s" using nl p by (simp add: requested_names_def)
  obtain x1 t1 where ens: "ensure_parent_stays_inside_workspace env (show_location ws) path s = (Inr x1, t1)"
    using run2 unfolding andthen_ok by blast
  then have ens_s: "t1 = s" "inside_target ws s path" using ensure_parent_run [OF ens wf valid] by auto
  obtain q where q: "parent_dir path = Some q" using ens_s(2) by (auto simp: inside_target_def)
  obtain x2 t2 where chk: "check_write_target env (show_location ws) path s = (Inr x2, t2)"
    using run2 ens ens_s(1) unfolding andthen_ok by auto
  then have "t2 = s" by (rule check_write_target_run)
  have "\<exists>s1. create_dir_all q s = (Inr (), s1)
      \<and> write_with_mode env (fw_mode options) path (fw_content options) s1 = (Inr (), s')"
    using run2 ens ens_s(1) chk \<open>t2 = s\<close> q by (auto simp: andthen_ok patch_io_def okM_def)
  then obtain s1 where cr: "create_dir_all q s = (Inr (), s1)"
    and wr: "write_with_mode env ''overwrite'' path (fw_content options) s1 = (Inr (), s')"
    using mode by auto
  obtain d where d: "inside_dir ws q s1 d" and st: "stays_in ws s s1" and g: "tree_grows (nodes s) (nodes s1)"
    using create_parent_run [OF cr clean q ens_s(2) wf] by blast
  have wf1: "fs_wf s1" by (rule stays_in_wf [OF st wf])
  have no_link1: "no_link_named ws (file_name path) s1" by (rule no_link_named_stays [OF no_link st])
  obtain l where l: "lookup s' path = Inr l" "prefix ws l"
    "node_at (nodes s') l = Some (Regular (utf8_encode (fw_content options)))"
    using written_file [OF wr wf1 clean q d no_link1] by blast
  have "stays_in ws s1 s' \<and> tree_grows (nodes s1) (nodes s')"
    using wr
  proof (cases rule: write_with_mode_run)
    case (opened kept r0)
    then show ?thesis using create_and_write [OF cr clean q ens_s(2) wf no_link] by blast
  qed (simp add: stays_in_refl)
  then have st': "stays_in ws s s'" and g': "tree_grows (nodes s) (nodes s')"
    using stays_in_trans [OF st] tree_grows_trans [OF g] by blast+
  have wf': "fs_wf s'" by (rule stays_in_wf [OF st' wf])
  have cwd: "cwd s' = cwd s" using st' by (simp add: stays_in_def)
  have ws': "resolve s' (fw_workspace options) = Inr ws" by (rule resolve_grows [OF ws g' cwd])
  have dir: "node_at (nodes s) ws = Some Directory"
    using workspace_is_dir [OF c wf ws] .
  have "canonical_workspace env (fw_workspace options) s' = (Inr (show_location ws), s')"
    using ws' resolve_show [OF wf' tree_growsD(1) [OF g' dir]] tree_growsD(1) [OF g' dir]
    by (simp add: canonical_workspace_def bnd_look canonicalize_def gets_def is_dir_iff okM_def)
  moreover have self: "resolve s' (show_location l) = Inr l" by (rule resolve_show [OF wf' l(3)]) simp
  moreover have "resolve s' path = Inr l" using l(1,3) by (simp add: resolve_iff)
  moreover have "path_starts_with (show_location ws) (show_location l)"
    using path_starts_with_show [OF valid node_valid [OF wf' l(3)]] l(2) by simp
  moreover have "\<not> is_dir s' (show_location l)" using self l(3) by (auto simp: is_dir_iff)
  ultimately have ex: "resolve_existing_workspace_file env (fw_workspace options) (fw_file_path options) s'
      = (Inr (show_location ws, path, show_location l), s')"
    using p by (simp add: resolve_existing_workspace_file_def bnd_def canonicalize_def andthen_def gets_def okM_def
        ensure_inside_workspace_def)
  have "read_to_string (show_location l) s' = (Inr (fw_content options), s')"
    using read_calm [OF calm _ l(3), of "show_location l"] self by (simp add: resolve_iff)
  moreover obtain limit where "read_limit (max (fr_start_line ropts) 1) (fr_end_line ropts) (fr_limit ropts) = Inr limit"
    and limit: "max (fr_start_line ropts) 1 - 1 + limit = last_requested ropts"
    using read_limit_requested [of ropts] ropts(3)
    by (cases "read_limit (max (fr_start_line ropts) 1) (fr_end_line ropts) (fr_limit ropts)")
      (auto simp: read_limit_def range_ok_def split: option.splits if_splits)
  ultimately have "file_read_inner env ropts s' =
      (Inr (file_read_result path (max (fr_start_line ropts) 1) limit (fw_content options)), s')"
    using ex ropts by (simp add: file_read_inner_def bnd_def patch_io_def with_error_def okM_def)
  then show ?thesis using p limit file_read_view [of "max (fr_start_line ropts) 1" path limit] by simp
qed

theorem written_file_reads_back_witness:
  "\<exists>s'. file_write_inner patch_env sample_write sample_tree
      = (Inr (JObject [(''file_path'', JString ''/ws/new/b.txt''), (''mode'', JString ''overwrite''),
           (''bytes_written'', JInt 7)]), s')
    \<and> file_read_inner patch_env (sample_read\<lparr>fr_file_path := ''new/b.txt''\<rparr>) s'
      = (Inr (read_view ''/ws/new/b.txt'' 2 201 [''one'', ''two'']), s')"
proof -
  let ?s = "snd (file_write_inner patch_env sample_write sample_tree)"
  have w: "resolve sample_tree (fw_workspace sample_write) = Inr [''ws'']" by code_simp
  have n: "requested_names [''ws''] (fw_file_path sample_write) = [''b.txt'']" by code_simp
  have k: "no_link_named [''ws''] ''b.txt'' sample_tree" unfolding no_link_named_iff by code_simp
  have nl: "\<forall>n \<in> set (requested_names [''ws''] (fw_file_path sample_write)). no_link_named [''ws''] n sample_tree"
    using n k by simp
  have f: "fst (file_write_inner patch_env sample_write sample_tree)
      = Inr (JObject [(''file_path'', JString ''/ws/new/b.txt''), (''mode'', JString ''overwrite''),
           (''bytes_written'', JInt 7)])"
    by code_simp
  then have run: "file_write_inner patch_env sample_write sample_tree
      = (Inr (JObject [(''file_path'', JString ''/ws/new/b.txt''), (''mode'', JString ''overwrite''),
           (''bytes_written'', JInt 7)]), ?s)"
    by (simp add: prod_eq_iff)
  have m: "fw_mode sample_write = ''overwrite''" by code_simp
  have calm: "events ?s = []" by code_simp
  have p: "resolve_workspace_path (show_location [''ws'']) (fw_file_path sample_write) = Inr ''/ws/new/b.txt''"
    by code_simp
  have t: "str_lines (fw_content sample_write) = [''one'', ''two'']" by code_simp
  have "file_read_inner patch_env (sample_read\<lparr>fr_file_path := ''new/b.txt''\<rparr>) ?s
      = (Inr (read_view ''/ws/new/b.txt'' 2 201 [''one'', ''two'']), ?s)"
    using written_file_reads_back [OF sample_wf w nl m run calm, of "sample_read\<lparr>fr_file_path := ''new/b.txt''\<rparr>"]
      p t by (simp add: sample_read_def sample_write_def numeral_2_eq_2 range_ok_def last_requested_def)
  then show ?thesis using run by blast
qed

end
