(* ===== verification/Spec2Isabelle.thy ===== *)
theory Spec2Isabelle
  imports Actor_Behaviour Tool_Executor Cron_Guarantees Kernel_Restart Patch_Guarantees
begin

text \<open>
  \<^bold>\<open>Verification of the ClawParty session runtime.\<close>

  ClawParty runs agent sessions. The runtime of one session lives in \<open>core/src\<close>: a session
  actor owns the conversation; it takes requests from a host, hands the history to a provider
  session thread, runs the tool calls of the answers in batches, compresses the history when it
  grows, persists every closed state and reports events. The host application in
  \<open>stellaclaw/src\<close> runs conversations: a kernel that routes calls between services such as the
  scheduler and the agent sessions. This development models the session runtime and the
  kernel, scheduler, configuration and service protocols of the host, and the tool in
  \<open>tools/stellaclaw-fs-tool\<close> that changes the files of a workspace, and proves the properties
  their clients rely on. All paths below are relative to \<open>src/\<close>.

  \<^bold>\<open>Theories, in the order of their imports.\<close>

  \<^item> \<open>Rust_Prelude\<close>: strings, characters and UTF-8 lengths, saturating and wrapping 64-bit
    arithmetic, the state-and-error monad \<open>('s, 'e, 'a) act\<close> in which stateful code is written,
    and the locale \<open>frame_relation\<close> with the named collection \<open>frame\<close> for facts
    \<open>steps_in R m\<close> (every run of \<open>m\<close> stays inside \<open>R\<close>, whatever its outcome).
  \<^item> \<open>Json_Value\<close>, \<open>Ordered_Map\<close>: JSON values with the accessors of \<open>serde_json\<close>, and sorted
    association lists for \<open>BTreeMap\<close> behind an interface locale.
  \<^item> \<open>Model_Config\<close>, \<open>Chat_Message\<close>, \<open>Tool_Catalog\<close>, \<open>Tool_Batch\<close>: the data of
    \<open>core/src/model_config.rs\<close>, \<open>session_actor/chat_message.rs\<close>, \<open>tool_catalog/mod.rs\<close> and
    \<open>tool_batch.rs\<close>, with the rendering of tool results and the registry of tools.
  \<^item> \<open>Session_Rpc\<close>: requests and events of \<open>session_rpc.rs\<close> and its thread as a function of the
    list of commands; every bridge call is answered exactly once.
  \<^item> \<open>Tool_Protocol\<close>: the helpers of \<open>actor.rs\<close> that decide whether tool calls are answered,
    with a declarative protocol they are proved equivalent to.
  \<^item> \<open>Runtime_Metadata\<close>: \<open>runtime_metadata.rs\<close>, the observed prompt components, skills, user
    memory and SSH aliases.
  \<^item> \<open>Session_State\<close>: \<open>session_state.rs\<close> over a directory of four files in which every
    operation may fail; message index, bounded tool texts, and the round trip, stated with
    \<open>restored_message\<close>, which says what may differ between a saved message and a loaded one.
  \<^item> \<open>Provider_Session\<close>: errors, retry loop and session thread of \<open>providers/mod.rs\<close>.
    The thread is the direct one; the loop that forwards to a fork server is not modelled. Every
    request that was started is answered once, up to the one a shutdown ends.
  \<^item> \<open>Codex_Compaction\<close>: the part of \<open>providers/codex_subscription.rs\<close> that reads the messages of a
    compaction response; they hold no tool calls and no tool results.
  \<^item> \<open>Compressor\<close>: \<open>compressor.rs\<close>, planning and applying compressions by summary or by the
    built-in compaction; the split never separates a tool result from its call.
  \<^item> \<open>Tool_Runtime\<close>, \<open>Tool_Executor\<close>: \<open>tool_runtime.rs\<close> (arguments, execution targets, host
    names, quoting) and \<open>tool_executor.rs\<close>. The threads of a parallel segment, their channel
    and the collecting thread are the step relation \<open>segment_step\<close> with an invariant and a
    decreasing measure; a batch answers every call once under every schedule.
  \<^item> \<open>Actor_Support\<close>, \<open>Session_Actor\<close>, \<open>Actor_History\<close>, \<open>Actor_Turns\<close>: all of the actor in
    \<open>actor.rs\<close> (pure helpers; state, persistence, timers and views; history and provider
    requests; event handlers), and the loop of \<open>agent_server/src/main.rs\<close>.
  \<^item> \<open>Actor_Samples\<close>: a concrete environment and a concrete run of the actor.
  \<^item> \<open>Actor_Frames\<close>: the locales \<open>service_frame\<close>, \<open>silent_frame\<close>, \<open>core_frame\<close>,
    \<open>append_frame\<close>, \<open>request_frame\<close>, \<open>turn_frame\<close>. Each extends the one before with the writes
    a relation tolerates and derives that the handlers making only such writes stay inside.
  \<^item> \<open>Actor_Invariants\<close>, \<open>Actor_Context\<close>, \<open>Actor_Properties\<close>, \<open>Actor_Behaviour\<close>: the
    interpretations of these locales and the properties that follow: one thing at a time, an
    append-only transcript, faithful announcements, the exact copy of the provider's context,
    closed histories, queued input that a successful step does not lose, final answers, history pages and
    the timing of superseding user messages.
  \<^item> \<open>Host_Config\<close>: \<open>stellaclaw/src/config/mod.rs\<close>, the configuration of the current version, its
    validation and the choice of models.
  \<^item> \<open>Service_Protos\<close>: addresses, calls and outputs of \<open>stellaclaw/src/conversation_new.rs\<close> and
    the protocols of kernel, scheduler and agent sessions under \<open>service_protos/\<close>.
  \<^item> \<open>Hash_Map\<close>: \<open>HashMap\<close> as an association list whose traversal order nothing may depend on,
    an instance of the interface of \<open>Ordered_Map\<close>.
  \<^item> \<open>Cron_Service\<close>, \<open>Cron_Properties\<close>, \<open>Cron_Guarantees\<close>: the scheduler of
    \<open>stellaclaw/src/services/cron.rs\<close>, all of it; the locales \<open>cron_frame\<close> and
    \<open>cron_storage_frame\<close>, the invariants of its tables and of its file; one run per task, exact
    wakeups, tasks that survive a restart, and the intervals that stop it.
  \<^item> \<open>Act_Rules\<close>: rules for the monad that the service theories share: frames at one state,
    success triples \<open>leads\<close>.
  \<^item> \<open>Conversation_Kernel\<close>: \<open>stellaclaw/src/conversation_new.rs\<close>, the table of services, routing,
    the requests to the kernel, agent session bindings, the files and the kernel thread. The
    recursion between \<open>dispatch_call\<close> and \<open>handle_kernel_call\<close> counts the nested calls the stack
    has room for; \<open>Kernel_Guarantees.routing_terminates\<close> shows that two are enough.
  \<^item> \<open>Kernel_Rules\<close>, \<open>Kernel_Properties\<close>, \<open>Kernel_Routing\<close>, \<open>Kernel_Guarantees\<close>, \<open>Kernel_Restart\<close>:
    the locales \<open>kernel_frame\<close>, \<open>kernel_manifest_frame\<close>, \<open>kernel_persist_frame\<close>, \<open>kernel_table_frame\<close>,
    \<open>kernel_run_frame\<close> and \<open>abort_kind\<close> with their interpretations; answers to every request, the
    manifest as a copy of the table, restarts, what a failed opening leaves, and the well-formed
    table: \<open>kernel_lives\<close> runs one kernel after another on the files they leave, and the relation
    \<open>keeps_stored\<close> carries the well-formedness of the table over to the manifest and back, also
    when a write of the manifest stops early.
  \<^item> \<open>File_System\<close>, \<open>Fs_Laws\<close>: the part of \<open>std::fs\<close> and \<open>std::path\<close> that the file tools use. A
    tree maps locations to directories, files and symbolic links; a path is resolved component by
    component, links included, up to forty of them; \<open>canonicalize\<close>, \<open>exists\<close>, \<open>create_dir_all\<close> and
    \<open>write\<close> are defined on top of it. Every call that reads or changes the tree takes an event
    from the environment, which may make it fail, and a write may fail after any number of
    bytes. The laws: well-formed trees stay well-formed, resolution is stable when a tree grows,
    and the relation \<open>stays_in\<close> of changes below one directory, an instance of \<open>frame_relation\<close>.
  \<^item> \<open>Patch_Parser\<close>, \<open>Patch_Tool\<close>: all of \<open>tools/stellaclaw-fs-tool/src/lib.rs\<close>, the tool that
    applies patches and reads, writes and hashes files for the session. The first theory holds
    what needs no file system: the patch parser, update chunks, the headers of unified diffs.
  \<^item> \<open>Patch_Samples\<close>, \<open>Patch_Confinement\<close>, \<open>Patch_Round_Trip\<close>, \<open>Patch_Guarantees\<close>: nothing outside
    the workspace changes unless a link in it bears the name of a written file (and does change
    when the link leads nowhere); the parser inverts printing; the headers of unified diffs are made
    relative (\<open>header_relative\<close>, \<open>header_rewritten\<close>, over the characters of the line); a check
    leaves the tree alone and predicts the run of a Codex patch; a single update replaces
    exactly its chunks (\<open>edits\<close>); reads show the requested lines (\<open>read_view\<close>) and what was written.

  \<^bold>\<open>How the code is represented.\<close> A struct is a record with prefixed fields, an enum a datatype
  with the source's constructors, \<open>Result\<close> a sum with the error on the left. A method that
  changes \<open>self\<close> is a function in the monad; \<open>?\<close> is its bind, a panic the error \<open>Panic\<close>, which
  no \<open>match\<close> on errors sees. Services outside the crate (clock, random numbers, event sink,
  provider, tool executor, file system, bridge, tokenizer, JSON text) are the functions of
  \<open>actor_env\<close> and of the smaller records of the components; each question carries a
  running number, so the environment may answer differently every time, and no property
  assumes more about it than its statement shows. Channels are lists of inputs taken in any
  order. Characters outside ASCII are written with their code points in brackets.

  \<^bold>\<open>Termination and bounds.\<close> Apart from the stack depth of the kernel there is no fuel: the retry loop decreases the remaining retries,
  the two prune loops the remaining attempts (at most eight), the SSH include search the
  files not yet visited, the sections of a patch its remaining lines, the creation of directories
  the text of the path, and everything else is structural. The resolution of a path follows at
  most \<open>max_links\<close> symbolic links, as the operating system does. Counters that saturate in the
  source saturate here.

  \<^bold>\<open>Not modelled.\<close> The wire protocols of the providers (apart from the compaction response), the tool implementations and their
  processes, the tokenizer, media conversion and the text of the system prompt (parameters of
  the model); log lines; the process \<open>git apply\<close>, the SHA-256 digest, hard links, devices, permissions
  and concurrent processes behind the file tools, and their command line; derived serialization; the other services and the channels of
  the host application \<open>stellaclaw/\<close>; the clients under \<open>apps/\<close>.
\<close>

end
